(* ===== verification/Prelude.thy ===== *)
theory Prelude
  imports Main "HOL-Library.Word"
begin

text \<open>
  Types and generic lemmas shared by every component.

  Go values are modelled as follows: \<open>uint32\<close> and \<open>int64\<close> as words of that width, a
  \<open>string\<close> as its bytes (\<open>char list\<close>), a \<open>map\<close> as a partial function, a
  \<open>time.Time\<close> as the number of nanoseconds since the Unix epoch (the zero time is the
  year 1, as in Go) and a \<open>time.Duration\<close> as a number of nanoseconds.  Where the code
  ranges over a Go map, the iteration order is an argument of the model.
\<close>

section \<open>Machine integers, time and results\<close>

type_synonym u32 = "32 word"
type_synonym u64 = "64 word"
type_synonym i64 = "64 word"
type_synonym time = int
type_synonym duration = int

definition zero_time :: time where
  "zero_time = - 62135596800000000000"

definition is_zero_time :: "time \<Rightarrow> bool" where
  "is_zero_time t \<longleftrightarrow> t = zero_time"

definition second :: duration where
  "second = 1000000000"

abbreviation minute :: duration where
  "minute \<equiv> 60 * second"

abbreviation hour :: duration where
  "hour \<equiv> 3600 * second"

text \<open>The Unix seconds of a time (\<open>Time.Unix\<close> rounds towards minus infinity).\<close>

definition unix_seconds :: "time \<Rightarrow> int" where
  "unix_seconds t = t div second"

lemma second_pos [simp]: "0 < second"
  by (simp add: second_def)

lemma zero_time_neg [simp]: "zero_time < 0" "0 \<le> t \<Longrightarrow> t \<noteq> zero_time"
  by (auto simp: zero_time_def)

text \<open>
  Signed comparisons of \<open>int64\<close> values are comparisons of \<open>sint\<close>.  The lemmas below say
  when the wrapping operations agree with the mathematical ones.
\<close>

lemma sint_add_i64:
  fixes a b :: i64
  assumes "- (2 ^ 63) \<le> sint a + sint b" and "sint a + sint b < 2 ^ 63"
  shows "sint (a + b) = sint a + sint b"
  using assms by (simp add: sint_word_ariths signed_take_bit_int_eq_self)

lemma sint_sub_i64:
  fixes a b :: i64
  assumes "- (2 ^ 63) \<le> sint a - sint b" and "sint a - sint b < 2 ^ 63"
  shows "sint (a - b) = sint a - sint b"
  using assms by (simp add: sint_word_ariths signed_take_bit_int_eq_self)

lemma sint_mult_i64:
  fixes a b :: i64
  assumes "- (2 ^ 63) \<le> sint a * sint b" and "sint a * sint b < 2 ^ 63"
  shows "sint (a * b) = sint a * sint b"
  using assms by (simp add: sint_word_ariths signed_take_bit_int_eq_self)

lemma sint_range_i64:
  fixes a :: i64
  shows "- (2 ^ 63) \<le> sint a" and "sint a < 2 ^ 63"
  using sint_greater_eq [of a] sint_less [of a] by simp_all

lemma unat_add_u32:
  fixes a b :: u32
  assumes "unat a + unat b < 2 ^ 32"
  shows "unat (a + b) = unat a + unat b"
  using assms by (simp add: unat_word_ariths)

lemma sint_of_nat_small: "n < 2 ^ 63 \<Longrightarrow> sint (word_of_nat n :: i64) = int n"
  by (simp add: signed_of_nat signed_take_bit_int_eq_self_iff)

section \<open>Errors of the code as values\<close>

text \<open>
  A Go function that returns \<open>(T, error)\<close> is a function into a sum: \<open>Inl\<close> the error,
  \<open>Inr\<close> the value.  The operations that may change state return the new state beside it.
\<close>

type_synonym ('e, 'a, 's) outcome = "('e + 'a) \<times> 's"

definition is_ok :: "'e + 'a \<Rightarrow> bool" where
  "is_ok r \<longleftrightarrow> (case r of Inl _ \<Rightarrow> False | Inr _ \<Rightarrow> True)"

lemma is_ok_simps [simp]: "is_ok (Inr x)" "\<not> is_ok (Inl e)"
  by (simp_all add: is_ok_def)

section \<open>Maps and lists\<close>

text \<open>The rows of a map that satisfy a predicate, in a given iteration order.\<close>

definition rows_in :: "'k list \<Rightarrow> ('k \<rightharpoonup> 'v) \<Rightarrow> 'v list" where
  "rows_in ks m = List.map_filter m ks"

lemma rows_in_Nil [simp]: "rows_in [] m = []"
  by (simp add: rows_in_def map_filter_simps)

lemma rows_in_Cons [simp]:
  "rows_in (k # ks) m = (case m k of None \<Rightarrow> rows_in ks m | Some v \<Rightarrow> v # rows_in ks m)"
  by (simp add: rows_in_def map_filter_simps split: option.splits)

lemma set_rows_in: "set (rows_in ks m) = {v. \<exists>k \<in> set ks. m k = Some v}"
  by (induction ks) (auto split: option.splits)

lemma set_map_filter: "set (List.map_filter f xs) = {y. \<exists>x \<in> set xs. f x = Some y}"
  by (induction xs) (auto simp: map_filter_simps split: option.splits)

definition iterates :: "'k list \<Rightarrow> ('k \<rightharpoonup> 'v) \<Rightarrow> bool" where
  "iterates ks m \<longleftrightarrow> distinct ks \<and> set ks = dom m"

lemma subset_disjoint: "A \<subseteq> B \<Longrightarrow> B \<inter> C = {} \<Longrightarrow> A \<inter> C = {}"
  by blast

lemma finite_dom_iterates: "iterates ks m \<Longrightarrow> finite (dom m)"
  by (metis iterates_def List.finite_set)

text \<open>The suffix of a list from its first element with a property; used for parsing.\<close>

lemma takeWhile_neq_append: "c \<notin> set xs \<Longrightarrow> takeWhile (\<lambda>x. x \<noteq> c) (xs @ c # ys) = xs"
  by (induction xs) auto

lemma dropWhile_neq_append: "c \<notin> set xs \<Longrightarrow> dropWhile (\<lambda>x. x \<noteq> c) (xs @ c # ys) = c # ys"
  by (induction xs) auto

lemma find_append: "List.find P (xs @ ys) = (case List.find P xs of None \<Rightarrow> List.find P ys | Some x \<Rightarrow> Some x)"
  by (induction xs) simp_all

lemma find_None: "List.find P xs = None \<longleftrightarrow> (\<forall>x \<in> set xs. \<not> P x)"
  by (induction xs) auto

end
