(* ===== verification/AppErrors.thy ===== *)
theory AppErrors
  imports Prelude
begin

text \<open>
  \<^verbatim>\<open>go/pkg/yunmao/errors/errors.go\<close>: the platform's error codes, the HTTP status each maps
  to, the \<open>AppError\<close> value and the conversion of any error into one.  \<open>go_error\<close> is Go's
  \<open>error\<close> interface as the services use it: an \<open>AppError\<close>, a package sentinel, a plain
  message, or an error wrapped by \<^verbatim>\<open>fmt.Errorf("...: %w")\<close>.
\<close>

datatype code =
    AuthLoginRequired | AuthTokenExpired | AuthForbidden
  | UserNotFound | RoomNotFound | RoomOffline
  | FeedCooldownNotFinished | FeedHealthLimitHit | FeedDeviceOffline
  | FeedNoFeedWindow | FeedDuplicateRequest
  | DeviceUnbound | DeviceErrorJammed
  | MediaStreamOffline | MediaProfileUnavailable
  | PayOrderPaid | PayAmountMismatch | PayChannelFailed
  | RiskActionBlocked
  | SystemRateLimited | SystemInternal | SystemDependencyUnavailable
  | OtherCode string

fun code_string :: "code \<Rightarrow> string" where
  "code_string AuthLoginRequired = ''AUTH.LOGIN_REQUIRED''"
| "code_string AuthTokenExpired = ''AUTH.TOKEN_EXPIRED''"
| "code_string AuthForbidden = ''AUTH.FORBIDDEN''"
| "code_string UserNotFound = ''USER.NOT_FOUND''"
| "code_string RoomNotFound = ''ROOM.NOT_FOUND''"
| "code_string RoomOffline = ''ROOM.OFFLINE''"
| "code_string FeedCooldownNotFinished = ''FEED.COOLDOWN_NOT_FINISHED''"
| "code_string FeedHealthLimitHit = ''FEED.HEALTH_LIMIT_HIT''"
| "code_string FeedDeviceOffline = ''FEED.DEVICE_OFFLINE''"
| "code_string FeedNoFeedWindow = ''FEED.NO_FEED_WINDOW''"
| "code_string FeedDuplicateRequest = ''FEED.DUPLICATE_REQUEST''"
| "code_string DeviceUnbound = ''DEVICE.UNBOUND''"
| "code_string DeviceErrorJammed = ''DEVICE.ERROR_JAMMED''"
| "code_string MediaStreamOffline = ''MEDIA.STREAM_OFFLINE''"
| "code_string MediaProfileUnavailable = ''MEDIA.PROFILE_UNAVAILABLE''"
| "code_string PayOrderPaid = ''PAY.ORDER_PAID''"
| "code_string PayAmountMismatch = ''PAY.AMOUNT_MISMATCH''"
| "code_string PayChannelFailed = ''PAY.CHANNEL_FAILED''"
| "code_string RiskActionBlocked = ''RISK.ACTION_BLOCKED''"
| "code_string SystemRateLimited = ''SYSTEM.RATE_LIMITED''"
| "code_string SystemInternal = ''SYSTEM.INTERNAL''"
| "code_string SystemDependencyUnavailable = ''SYSTEM.DEPENDENCY_UNAVAILABLE''"
| "code_string (OtherCode s) = s"

fun http_status :: "code \<Rightarrow> nat" where
  "http_status AuthLoginRequired = 401"
| "http_status AuthTokenExpired = 401"
| "http_status AuthForbidden = 403"
| "http_status RiskActionBlocked = 403"
| "http_status UserNotFound = 404"
| "http_status RoomNotFound = 404"
| "http_status FeedCooldownNotFinished = 409"
| "http_status FeedHealthLimitHit = 409"
| "http_status FeedDeviceOffline = 409"
| "http_status FeedNoFeedWindow = 409"
| "http_status FeedDuplicateRequest = 409"
| "http_status DeviceUnbound = 409"
| "http_status DeviceErrorJammed = 409"
| "http_status PayOrderPaid = 409"
| "http_status PayAmountMismatch = 409"
| "http_status PayChannelFailed = 409"
| "http_status RoomOffline = 503"
| "http_status MediaStreamOffline = 503"
| "http_status MediaProfileUnavailable = 503"
| "http_status SystemDependencyUnavailable = 503"
| "http_status SystemRateLimited = 429"
| "http_status SystemInternal = 500"
| "http_status (OtherCode _) = 400"

record app_error =
  ae_code :: code
  ae_message :: string
  ae_remediation :: string
  ae_trace :: string

definition new_error :: "code \<Rightarrow> string \<Rightarrow> app_error" where
  "new_error c msg = \<lparr>ae_code = c, ae_message = msg, ae_remediation = [], ae_trace = []\<rparr>"

definition with_trace :: "app_error \<Rightarrow> string \<Rightarrow> app_error" where
  "with_trace e tid = e\<lparr>ae_trace := tid\<rparr>"

definition app_error_text :: "app_error \<Rightarrow> string" where
  "app_error_text e = code_string (ae_code e) @ '': '' @ ae_message e"

datatype go_error =
    App app_error
  | Sentinel string
  | Plain string
  | Wrap string go_error

abbreviation yerr :: "code \<Rightarrow> string \<Rightarrow> go_error" where
  "yerr c msg \<equiv> App (new_error c msg)"

fun err_text :: "go_error \<Rightarrow> string" where
  "err_text (App e) = app_error_text e"
| "err_text (Sentinel s) = s"
| "err_text (Plain s) = s"
| "err_text (Wrap s e) = s @ '': '' @ err_text e"

text \<open>\<open>errors.Is\<close> on a sentinel: equality anywhere along the chain of wrapped errors.\<close>

fun errors_is :: "go_error \<Rightarrow> go_error \<Rightarrow> bool" where
  "errors_is (Wrap s e) t \<longleftrightarrow> Wrap s e = t \<or> errors_is e t"
| "errors_is e t \<longleftrightarrow> e = t"

fun as_app_error :: "go_error option \<Rightarrow> app_error option" where
  "as_app_error None = None"
| "as_app_error (Some (App e)) = Some e"
| "as_app_error (Some e) = Some (new_error SystemInternal (err_text e))"

text \<open>The status code an error is answered with.\<close>

fun error_status :: "go_error \<Rightarrow> nat" where
  "error_status e = (case as_app_error (Some e) of None \<Rightarrow> 200 | Some a \<Rightarrow> http_status (ae_code a))"

lemma new_error_simps [simp]:
  "ae_code (new_error c m) = c" "ae_message (new_error c m) = m"
  "new_error c m = new_error c' m' \<longleftrightarrow> c = c' \<and> m = m'"
  by (auto simp: new_error_def)

lemma http_status_class: "http_status c \<in> {400, 401, 403, 404, 409, 429, 500, 503}"
  by (cases c) simp_all

lemma as_app_error_code: "as_app_error (Some e) = Some a \<Longrightarrow> \<not> (\<exists>x. e = App x) \<Longrightarrow> ae_code a = SystemInternal"
  by (cases e) auto

text \<open>Every error the platform returns, of whatever Go type, is answered with a 4xx or 5xx
  status, and an error that is not an \<open>AppError\<close> (a sentinel, a plain message, a wrapped
  error) is answered with 500.\<close>

theorem error_status_range:
  "400 \<le> error_status e \<and> error_status e < 600 \<and>
   ((\<exists>a. e = App a) \<or> error_status e = 500)"
proof (cases e)
  case (App a)
  then show ?thesis using http_status_class [of "ae_code a"] by auto
qed simp_all

end
