(* ===== verification/FeedState.thy ===== *)
theory FeedState
  imports Prelude
begin

text \<open>
  \<^verbatim>\<open>go/pkg/yunmao/feedstate/feedstate.go\<close>: the states of a feed request, the table of
  allowed transitions, \<open>Transition\<close> and \<open>MustTransition\<close>.  A \<open>State\<close> is a Go string, so
  values outside the nine constants exist (\<open>UnknownState\<close>).  The step relation
  \<open>feed_step\<close> is the diagram of the package comment with the cancel and failure edges of
  the table; \<open>transition_iff_step\<close> says the table implements it.
\<close>

datatype state =
    Created | Rejected | Accepted | Queued | Dispatched
  | Acknowledged | Succeeded | Failed | Compensated
  | UnknownState string

fun state_string :: "state \<Rightarrow> string" where
  "state_string Created = ''created''"
| "state_string Rejected = ''rejected''"
| "state_string Accepted = ''accepted''"
| "state_string Queued = ''queued''"
| "state_string Dispatched = ''dispatched''"
| "state_string Acknowledged = ''acknowledged''"
| "state_string Succeeded = ''succeeded''"
| "state_string Failed = ''failed''"
| "state_string Compensated = ''compensated''"
| "state_string (UnknownState s) = s"

text \<open>\<open>allowedTransitions\<close>: the destinations of a state, \<open>None\<close> where the map has no entry.\<close>

fun allowedTransitions :: "state \<Rightarrow> state list option" where
  "allowedTransitions Created = Some [Rejected, Accepted]"
| "allowedTransitions Accepted = Some [Queued, Rejected]"
| "allowedTransitions Queued = Some [Dispatched, Failed, Rejected]"
| "allowedTransitions Dispatched = Some [Acknowledged, Failed, Rejected]"
| "allowedTransitions Acknowledged = Some [Succeeded, Failed]"
| "allowedTransitions Succeeded = Some []"
| "allowedTransitions Failed = Some [Compensated]"
| "allowedTransitions Rejected = Some []"
| "allowedTransitions Compensated = Some []"
| "allowedTransitions (UnknownState _) = None"

fun isTerminal :: "state \<Rightarrow> bool" where
  "isTerminal Rejected = True"
| "isTerminal Succeeded = True"
| "isTerminal Compensated = True"
| "isTerminal _ = False"

datatype transition_error = UnknownFrom state | NotAllowed state state

definition transition :: "state \<Rightarrow> state \<Rightarrow> transition_error + state" where
  "transition src dst =
     (case allowedTransitions src of
        None \<Rightarrow> Inl (UnknownFrom src)
      | Some dests \<Rightarrow> if dst \<in> set dests then Inr dst else Inl (NotAllowed src dst))"

text \<open>\<open>MustTransition\<close> panics on an illegal transition: \<open>None\<close> is the panic.\<close>

definition mustTransition :: "state \<Rightarrow> state \<Rightarrow> state option" where
  "mustTransition src dst = (case transition src dst of Inl _ \<Rightarrow> None | Inr s \<Rightarrow> Some s)"

section \<open>The diagram as a step relation\<close>

inductive feed_step :: "state \<Rightarrow> state \<Rightarrow> bool" where
  reject: "s \<in> {Created, Accepted, Queued, Dispatched} \<Longrightarrow> feed_step s Rejected"
| accept: "feed_step Created Accepted"
| queue: "feed_step Accepted Queued"
| dispatch: "feed_step Queued Dispatched"
| acknowledge: "feed_step Dispatched Acknowledged"
| succeed: "feed_step Acknowledged Succeeded"
| fail: "s \<in> {Queued, Dispatched, Acknowledged} \<Longrightarrow> feed_step s Failed"
| compensate: "feed_step Failed Compensated"

inductive_cases feed_step_from_terminal:
  "feed_step Rejected s" "feed_step Succeeded s" "feed_step Compensated s"

inductive_simps feed_step_to_succeeded: "feed_step s Succeeded"

inductive_simps feed_step_to_acknowledged: "feed_step s Acknowledged"

lemma transition_Inr [simp]: "transition s d = Inr n \<longleftrightarrow> n = d \<and> feed_step s d"
  by (cases s; cases d) (auto simp: transition_def feed_step.simps)

lemma transition_step [simp]: "feed_step s d \<Longrightarrow> transition s d = Inr d"
  by simp

lemma transition_Inl: "(\<exists>e. transition s d = Inl e) \<longleftrightarrow> \<not> feed_step s d"
proof (cases "transition s d")
  case (Inl e)
  then have "\<not> feed_step s d" using transition_step [of s d] by auto
  with Inl show ?thesis by blast
next
  case (Inr n)
  then show ?thesis by simp
qed

text \<open>A height that every step lowers; it bounds the number of steps of any request.\<close>

fun height :: "state \<Rightarrow> nat" where
  "height Created = 6"
| "height Accepted = 5"
| "height Queued = 4"
| "height Dispatched = 3"
| "height Acknowledged = 2"
| "height Failed = 1"
| "height _ = 0"

lemma feed_step_height: "feed_step s t \<Longrightarrow> height t < height s"
  by (cases rule: feed_step.cases) auto

text \<open>A sequence of states in which every one is accepted by \<open>Transition\<close> from the one before.\<close>

fun transition_run :: "state \<Rightarrow> state list \<Rightarrow> bool" where
  "transition_run s [] = True"
| "transition_run s (t # ts) = ((case transition s t of Inl _ \<Rightarrow> False | Inr n \<Rightarrow> transition_run n ts))"

lemma transition_run_step:
  "transition_run s (t # ts) \<longleftrightarrow> feed_step s t \<and> transition_run t ts"
proof (cases "transition s t")
  case (Inl e)
  then have "\<not> feed_step s t" using transition_Inl by blast
  with Inl show ?thesis by simp
next
  case (Inr n)
  then have "n = t" and "feed_step s t" by simp_all
  with Inr show ?thesis by simp
qed

declare transition_run.simps(2) [simp del]

lemma transition_run_height: "transition_run s ts \<Longrightarrow> length ts \<le> height s"
proof (induction ts arbitrary: s)
  case (Cons t ts)
  then have "feed_step s t" and "length ts \<le> height t"
    by (simp_all add: transition_run_step)
  with feed_step_height [of s t] show ?case by simp
qed simp

text \<open>\<open>Transition\<close> accepts exactly the edges of the feed state diagram, returns the
  requested state when it accepts, and an unknown state has no successor.\<close>

theorem transition_iff_step:
  "(transition s d = Inr n \<longleftrightarrow> n = d \<and> feed_step s d) \<and>
   transition (UnknownState u) d = Inl (UnknownFrom (UnknownState u))"
proof
  show "transition s d = Inr n \<longleftrightarrow> n = d \<and> feed_step s d" by (rule transition_Inr)
  show "transition (UnknownState u) d = Inl (UnknownFrom (UnknownState u))"
    by (simp add: transition_def)
qed

text \<open>Terminal states are exactly the states of the diagram without successors: none of
  the three states \<open>IsTerminal\<close> lists can be left, and every other known state can.\<close>

theorem isTerminal_iff_stuck:
  "isTerminal s \<longleftrightarrow> (\<forall>u. s \<noteq> UnknownState u) \<and> (\<forall>d. \<not> is_ok (transition s d))"
  by (cases s) (auto simp: transition_def split: if_splits)



end
