(* ===== verification/GoTime.thy ===== *)
theory GoTime
  imports Prelude
begin

text \<open>
  What the services use of Go's \<open>time\<close> package, and of decimal conversion: the calendar date
  and the time of day of an instant in UTC, the layouts \<^verbatim>\<open>20060102\<close>, \<^verbatim>\<open>150405\<close> and
  \<open>RFC3339Nano\<close>, the parser of the last one and \<open>Truncate\<close>.  Instants are nanoseconds
  since the epoch; the calendar functions are for instants between the epoch and the year
  9999 (\<open>calendar_time\<close>), and the parser accepts the forms the formatter writes (zone
  \<^verbatim>\<open>Z\<close>), which are the only ones the program stores.
\<close>

section \<open>Decimal digits\<close>

definition digit_char :: "nat \<Rightarrow> char" where
  "digit_char n = char_of (48 + n mod 10)"

definition is_digit :: "char \<Rightarrow> bool" where
  "is_digit c \<longleftrightarrow> 48 \<le> (of_char c :: nat) \<and> (of_char c :: nat) \<le> 57"

definition digit_val :: "char \<Rightarrow> nat" where
  "digit_val c = of_char c - 48"

lemma of_char_digit_char [simp]: "(of_char (digit_char n) :: nat) = 48 + n mod 10"
proof -
  have "48 + n mod 10 < (256 :: nat)" using mod_less_divisor [of 10 n] by linarith
  then show ?thesis by (simp add: digit_char_def of_char_of)
qed

lemma is_digit_digit_char [simp]: "is_digit (digit_char n)"
  using mod_less_divisor [of 10 n] by (simp add: is_digit_def)

lemma digit_val_digit_char [simp]: "digit_val (digit_char n) = n mod 10"
  by (simp add: digit_val_def)

text \<open>A number of at most \<open>w\<close> digits, padded with zeros on the left.\<close>

fun pad :: "nat \<Rightarrow> nat \<Rightarrow> string" where
  "pad 0 n = []"
| "pad (Suc w) n = pad w (n div 10) @ [digit_char n]"

text \<open>The value of a string of digits, \<open>None\<close> at the first other character.\<close>

fun undigits :: "nat \<Rightarrow> string \<Rightarrow> nat option" where
  "undigits a [] = Some a"
| "undigits a (c # cs) = (if is_digit c then undigits (10 * a + digit_val c) cs else None)"

lemma length_pad [simp]: "length (pad w n) = w"
  by (induction w arbitrary: n) auto

lemma undigits_append:
  "undigits a (xs @ ys) = (case undigits a xs of None \<Rightarrow> None | Some b \<Rightarrow> undigits b ys)"
  by (induction xs arbitrary: a) auto

lemma undigits_pad: "undigits a (pad w n) = Some (a * 10 ^ w + n mod 10 ^ w)"
proof (induction w arbitrary: n)
  case (Suc w)
  have "10 * (n div 10 mod 10 ^ w) + n mod 10 = n mod 10 ^ Suc w"
    by (simp add: mod_mult2_eq)
  with Suc show ?case by (simp add: undigits_append algebra_simps)
qed simp

lemma undigits_pad_small [simp]: "n < 10 ^ w \<Longrightarrow> undigits 0 (pad w n) = Some n"
  by (simp add: undigits_pad)

lemma pad_digits: "c \<in> set (pad w n) \<Longrightarrow> is_digit c"
  by (induction w arbitrary: n) auto

text \<open>The decimal form of a number, as \<open>strconv.Itoa\<close> and \<^verbatim>\<open>%d\<close> write it.\<close>

fun dec_acc :: "nat \<Rightarrow> string \<Rightarrow> string" where
  "dec_acc n acc = (if n = 0 then acc else dec_acc (n div 10) (digit_char n # acc))"

declare dec_acc.simps [simp del]

definition dec_nat :: "nat \<Rightarrow> string" where
  "dec_nat n = (if n = 0 then ''0'' else dec_acc n [])"

definition dec_int :: "int \<Rightarrow> string" where
  "dec_int i = (if i < 0 then CHR ''-'' # dec_nat (nat (- i)) else dec_nat (nat i))"

text \<open>
  \<open>strconv.ParseInt(s, 10, 64)\<close>, and \<open>Atoi\<close> on a 64-bit platform: an optional sign and
  at least one digit, \<open>None\<close> on a syntax or range error.
\<close>

definition parse_int64 :: "string \<Rightarrow> int option" where
  "parse_int64 s =
     (let neg = (case s of [] \<Rightarrow> False | c # _ \<Rightarrow> c = CHR ''-'');
          ds = (case s of [] \<Rightarrow> [] | c # cs \<Rightarrow> if c = CHR ''-'' \<or> c = CHR ''+'' then cs else s)
      in if ds = [] then None
         else case undigits 0 ds of
                None \<Rightarrow> None
              | Some n \<Rightarrow>
                  let v = (if neg then - int n else int n)
                  in if - (2 ^ 63) \<le> v \<and> v < 2 ^ 63 then Some v else None)"

lemma undigits_dec_acc: "undigits 0 (dec_acc n acc) = undigits n acc"
proof (induction n acc rule: dec_acc.induct)
  case (1 n acc)
  show ?case
  proof (cases "n = 0")
    case True
    then show ?thesis by (simp add: dec_acc.simps)
  next
    case False
    with "1.IH" have "undigits 0 (dec_acc n acc) = undigits (n div 10) (digit_char n # acc)"
      by (simp add: dec_acc.simps [of n])
    then show ?thesis by simp
  qed
qed

lemma dec_acc_nonempty: "n \<noteq> 0 \<or> acc \<noteq> [] \<Longrightarrow> dec_acc n acc \<noteq> []"
proof (induction n acc rule: dec_acc.induct)
  case (1 n acc)
  then show ?case by (cases "n = 0") (simp_all add: dec_acc.simps [of n] dec_acc.simps [of 0])
qed

lemma dec_acc_digits: "c \<in> set (dec_acc n acc) \<Longrightarrow> is_digit c \<or> c \<in> set acc"
proof (induction n acc rule: dec_acc.induct)
  case (1 n acc)
  show ?case
  proof (cases "n = 0")
    case True
    with "1.prems" show ?thesis by (simp add: dec_acc.simps)
  next
    case False
    with "1.prems" have "c \<in> set (dec_acc (n div 10) (digit_char n # acc))"
      by (simp add: dec_acc.simps [of n])
    with "1.IH" False have "is_digit c \<or> c \<in> set (digit_char n # acc)" by blast
    then show ?thesis by auto
  qed
qed

lemma dec_nat_nonempty [simp]: "dec_nat n \<noteq> []"
  by (simp add: dec_nat_def dec_acc_nonempty)

lemma is_digit_zero [simp]: "is_digit (CHR ''0'')"
  by (simp add: is_digit_def)

lemma dec_nat_digits: "c \<in> set (dec_nat n) \<Longrightarrow> is_digit c"
  using dec_acc_digits [of c n "[]"] by (auto simp: dec_nat_def split: if_splits)

lemma undigits_dec_nat [simp]: "undigits 0 (dec_nat n) = Some n"
  by (simp add: dec_nat_def undigits_dec_acc is_digit_def digit_val_def)

lemma not_digit_marks [simp]:
  "\<not> is_digit (CHR ''-'')" "\<not> is_digit (CHR ''+'')" "\<not> is_digit (CHR '':'')"
  "\<not> is_digit (CHR ''.'')" "\<not> is_digit (CHR ''Z'')"
  by (simp_all add: is_digit_def)

lemma parse_int64_dec_int:
  assumes "- (2 ^ 63) \<le> i" and "i < 2 ^ 63"
  shows "parse_int64 (dec_int i) = Some i"
proof (cases "i < 0")
  case True
  with assms show ?thesis by (simp add: parse_int64_def dec_int_def Let_def)
next
  case False
  obtain c cs where c: "dec_nat (nat i) = c # cs" using dec_nat_nonempty by (cases "dec_nat (nat i)") auto
  then have "is_digit c" using dec_nat_digits [of c "nat i"] by simp
  then have "c \<noteq> CHR ''-''" "c \<noteq> CHR ''+''" by auto
  with False assms c show ?thesis
    using undigits_dec_nat [of "nat i"] by (simp add: parse_int64_def dec_int_def Let_def)
qed

section \<open>The calendar\<close>

definition day :: duration where
  "day = 86400 * second"

lemma day_pos [simp]: "0 < day"
  by (simp add: day_def)

definition leap_year :: "nat \<Rightarrow> bool" where
  "leap_year y \<longleftrightarrow> y mod 4 = 0 \<and> (y mod 100 \<noteq> 0 \<or> y mod 400 = 0)"

text \<open>Days in the first \<open>k\<close> years from 1970, and days before the first of January of a year.\<close>

primrec days_in_years :: "nat \<Rightarrow> nat" where
  "days_in_years 0 = 0"
| "days_in_years (Suc k) = days_in_years k + 365 + (if leap_year (1970 + k) then 1 else 0)"

definition days_before :: "nat \<Rightarrow> nat" where
  "days_before y = days_in_years (y - 1970)"

fun find_year :: "nat \<Rightarrow> nat \<Rightarrow> nat" where
  "find_year d y =
     (if y \<le> 1970 then 1970 else if days_before y \<le> d then y else find_year d (y - 1))"

declare find_year.simps [simp del]

definition year_of :: "nat \<Rightarrow> nat" where
  "year_of d = find_year d (1970 + d div 365)"

definition month_lengths :: "nat \<Rightarrow> nat list" where
  "month_lengths y = [31, if leap_year y then 29 else 28, 31, 30, 31, 30, 31, 31, 30, 31, 30, 31]"

fun find_month :: "nat list \<Rightarrow> nat \<Rightarrow> nat \<Rightarrow> nat \<times> nat" where
  "find_month [] m n = (m, n)"
| "find_month (l # ls) m n = (if n < l then (m, n) else find_month ls (Suc m) (n - l))"

text \<open>Year, month and day of month of a day number, and back.\<close>

definition civil_of_days :: "nat \<Rightarrow> nat \<times> nat \<times> nat" where
  "civil_of_days d =
     (let y = year_of d; (m, n) = find_month (month_lengths y) 1 (d - days_before y)
      in (y, m, n + 1))"

definition days_of_civil :: "nat \<Rightarrow> nat \<Rightarrow> nat \<Rightarrow> nat" where
  "days_of_civil y m dy = days_before y + sum_list (take (m - 1) (month_lengths y)) + (dy - 1)"

lemma days_before_1970 [simp]: "days_before 1970 = 0"
  by (simp add: days_before_def)

lemma days_before_Suc:
  assumes "1970 \<le> y"
  shows "days_before (Suc y) = days_before y + 365 + (if leap_year y then 1 else 0)"
proof -
  obtain k where "y = 1970 + k" using assms le_Suc_ex by blast
  then show ?thesis by (simp add: days_before_def Suc_diff_le)
qed

lemma days_before_mono: "1970 \<le> x \<Longrightarrow> x \<le> y \<Longrightarrow> days_before x + 365 * (y - x) \<le> days_before y"
proof (induction y)
  case (Suc y)
  show ?case
  proof (cases "x = Suc y")
    case False
    with Suc have "days_before x + 365 * (y - x) \<le> days_before y" and "1970 \<le> y" by simp_all
    with days_before_Suc [of y] False Suc.prems show ?thesis by (simp add: Suc_diff_le)
  qed simp
qed simp

lemma find_year_bounds:
  assumes "1970 \<le> y" and "d < days_before (Suc y)"
  shows "1970 \<le> find_year d y \<and> days_before (find_year d y) \<le> d \<and> d < days_before (Suc (find_year d y))"
  using assms
proof (induction d y rule: find_year.induct)
  case (1 d y)
  show ?case
  proof (cases "y \<le> 1970 \<or> days_before y \<le> d")
    case True
    with "1.prems" show ?thesis by (auto simp: find_year.simps [of d y])
  next
    case False
    with "1" have "1970 \<le> find_year d (y - 1) \<and> days_before (find_year d (y - 1)) \<le> d
        \<and> d < days_before (Suc (find_year d (y - 1)))" by auto
    with False show ?thesis by (simp add: find_year.simps [of d y])
  qed
qed

lemma year_of_bounds: "1970 \<le> year_of d \<and> days_before (year_of d) \<le> d \<and> d < days_before (Suc (year_of d))"
proof -
  have "d < 365 * (Suc (d div 365))" using div_mult_mod_eq [of d 365] mod_less_divisor [of 365 d] by simp
  also have "\<dots> \<le> days_before (Suc (1970 + d div 365))"
    using days_before_mono [of 1970 "Suc (1970 + d div 365)"] by simp
  finally show ?thesis unfolding year_of_def by (intro find_year_bounds) auto
qed

lemma find_month_bounds:
  assumes "n < sum_list ls" and "find_month ls m n = (m', n')"
  shows "m \<le> m' \<and> m' < m + length ls \<and> n = sum_list (take (m' - m) ls) + n' \<and> n' < ls ! (m' - m)"
  using assms
proof (induction ls m n rule: find_month.induct)
  case (2 l ls m n)
  show ?case
  proof (cases "n < l")
    case False
    with "2" have "Suc m \<le> m' \<and> m' < Suc m + length ls \<and>
        n - l = sum_list (take (m' - Suc m) ls) + n' \<and> n' < ls ! (m' - Suc m)" by simp
    moreover from this have "m' - m = Suc (m' - Suc m)" by linarith
    ultimately show ?thesis using False by auto
  qed (use "2.prems" in auto)
qed simp

lemma sum_month_lengths: "sum_list (month_lengths y) = 365 + (if leap_year y then 1 else 0)"
  by (simp add: month_lengths_def)

lemma month_lengths_le: "i < 12 \<Longrightarrow> month_lengths y ! i \<le> 31"
proof -
  assume "i < 12"
  then have "month_lengths y ! i \<in> set (month_lengths y)" by (intro nth_mem) (simp add: month_lengths_def)
  then show ?thesis by (auto simp: month_lengths_def split: if_splits)
qed

lemma civil_of_days_roundtrip:
  assumes "civil_of_days d = (y, m, n)"
  shows "days_of_civil y m n = d \<and> 1 \<le> m \<and> m \<le> 12 \<and> 1 \<le> n \<and> n \<le> month_lengths y ! (m - 1) \<and> n \<le> 31 \<and> 1970 \<le> y \<and> days_before y \<le> d"
proof -
  obtain n' where fm: "find_month (month_lengths y) 1 (d - days_before y) = (m, n')" and n: "n = n' + 1"
    and y: "y = year_of d"
    using assms by (auto simp: civil_of_days_def Let_def split: prod.splits)
  have b: "1970 \<le> y" "days_before y \<le> d" "d < days_before (Suc y)"
    using year_of_bounds [of d] y by auto
  then have "d - days_before y < sum_list (month_lengths y)"
    using days_before_Suc [of y] by (simp add: sum_month_lengths split: if_splits)
  from find_month_bounds [OF this fm]
  have "1 \<le> m" "m \<le> 12" "d - days_before y = sum_list (take (m - 1) (month_lengths y)) + n'"
    "n' < month_lengths y ! (m - 1)"
    by (simp_all add: month_lengths_def)
  moreover have "month_lengths y ! (m - 1) \<le> 31" using \<open>m \<le> 12\<close> \<open>1 \<le> m\<close> by (intro month_lengths_le) simp
  ultimately show ?thesis using b n by (simp add: days_of_civil_def)
qed

section \<open>Layouts\<close>

definition calendar_time :: "time \<Rightarrow> bool" where
  "calendar_time t \<longleftrightarrow> 0 \<le> t \<and> t < int (days_before 10000) * day"

lemma days_in_years_ge: "365 * n \<le> days_in_years n"
  by (induction n) auto

lemma calendar_time_small: "0 \<le> t \<Longrightarrow> t < 2930950 * day \<Longrightarrow> calendar_time t"
proof -
  have "int 2930950 \<le> int (days_before 10000)"
    using days_in_years_ge [of 8030] unfolding days_before_def by (intro zle_int [THEN iffD2]) simp
  then have "2930950 * day \<le> int (days_before 10000) * day"
    by (intro mult_right_mono) (simp_all add: day_def second_def)
  then show "0 \<le> t \<Longrightarrow> t < 2930950 * day \<Longrightarrow> calendar_time t"
    unfolding calendar_time_def by (meson order_less_le_trans)
qed

definition day_number :: "time \<Rightarrow> nat" where
  "day_number t = nat (t div day)"

definition second_of_day :: "time \<Rightarrow> nat" where
  "second_of_day t = nat (t mod day div second)"

definition nanos :: "time \<Rightarrow> nat" where
  "nanos t = nat (t mod second)"

text \<open>Layout \<^verbatim>\<open>20060102\<close>.\<close>

definition format_day :: "time \<Rightarrow> string" where
  "format_day t = (case civil_of_days (day_number t) of (y, m, n) \<Rightarrow> pad 4 y @ pad 2 m @ pad 2 n)"

text \<open>Layout \<^verbatim>\<open>150405\<close>.\<close>

definition format_clock :: "time \<Rightarrow> string" where
  "format_clock t = (let s = second_of_day t in pad 2 (s div 3600) @ pad 2 (s div 60 mod 60) @ pad 2 (s mod 60))"

fun strip_zeros :: "string \<Rightarrow> string" where
  "strip_zeros [] = []"
| "strip_zeros (c # cs) = (let r = strip_zeros cs in if r = [] \<and> c = CHR ''0'' then [] else c # r)"

text \<open>Layout \<open>RFC3339Nano\<close> in UTC: the fraction loses its trailing zeros.\<close>

definition format_nano :: "time \<Rightarrow> string" where
  "format_nano t =
     (case civil_of_days (day_number t) of (y, m, n) \<Rightarrow>
        let s = second_of_day t; f = strip_zeros (pad 9 (nanos t))
        in pad 4 y @ ''-'' @ pad 2 m @ ''-'' @ pad 2 n @ ''T'' @
           pad 2 (s div 3600) @ '':'' @ pad 2 (s div 60 mod 60) @ '':'' @ pad 2 (s mod 60) @
           (if f = [] then [] else CHR ''.'' # f) @ ''Z'')"

text \<open>\<open>time.RFC3339\<close>, without the fraction.\<close>

definition format_rfc3339 :: "time \<Rightarrow> string" where
  "format_rfc3339 t =
     (case civil_of_days (day_number t) of (y, m, n) \<Rightarrow>
        let s = second_of_day t
        in pad 4 y @ ''-'' @ pad 2 m @ ''-'' @ pad 2 n @ ''T'' @
           pad 2 (s div 3600) @ '':'' @ pad 2 (s div 60 mod 60) @ '':'' @ pad 2 (s mod 60) @ ''Z'')"

definition parse_fraction :: "string \<Rightarrow> nat option" where
  "parse_fraction r =
     (if r = ''Z'' then Some 0
      else if r \<noteq> [] \<and> hd r = CHR ''.'' \<and> last r = CHR ''Z'' \<and> 3 \<le> length r \<and> length r \<le> 11
      then (let f = butlast (tl r) in undigits 0 (f @ replicate (9 - length f) (CHR ''0'')))
      else None)"

text \<open>\<open>time.Parse(time.RFC3339Nano, s)\<close>; \<open>None\<close> is the error.\<close>

definition parse_nano :: "string \<Rightarrow> time option" where
  "parse_nano s =
     (if length s < 20 \<or> s ! 4 \<noteq> CHR ''-'' \<or> s ! 7 \<noteq> CHR ''-'' \<or> s ! 10 \<noteq> CHR ''T'' \<or>
         s ! 13 \<noteq> CHR '':'' \<or> s ! 16 \<noteq> CHR '':'' then None
      else case (undigits 0 (take 4 s), undigits 0 (take 2 (drop 5 s)), undigits 0 (take 2 (drop 8 s)),
                 undigits 0 (take 2 (drop 11 s)), undigits 0 (take 2 (drop 14 s)),
                 undigits 0 (take 2 (drop 17 s)), parse_fraction (drop 19 s)) of
             (Some y, Some m, Some n, Some hh, Some mm, Some ss, Some f) \<Rightarrow>
               if 1 \<le> m \<and> m \<le> 12 \<and> 1 \<le> n \<and> n \<le> month_lengths y ! (m - 1) \<and> hh < 24 \<and> mm < 60 \<and> ss < 60 \<and> 1970 \<le> y
               then Some (int (days_of_civil y m n) * day +
                          int (hh * 3600 + mm * 60 + ss) * second + int f)
               else None
           | _ \<Rightarrow> None)"

text \<open>The code ignores the error of \<open>time.Parse\<close>, which returns the zero time with it.\<close>

definition parse_nano_or_zero :: "string \<Rightarrow> time" where
  "parse_nano_or_zero s = (case parse_nano s of None \<Rightarrow> zero_time | Some t \<Rightarrow> t)"

text \<open>\<open>Time.Truncate\<close>: rounding down to a multiple of \<open>d\<close> since the zero time.\<close>

definition truncate_time :: "time \<Rightarrow> duration \<Rightarrow> time" where
  "truncate_time t d = (if d \<le> 0 then t else t - (t - zero_time) mod d)"

lemma truncate_since_zero:
  assumes "0 < d"
  shows "truncate_time t d - zero_time = (t - zero_time) div d * d"
  using assms minus_mod_eq_div_mult [of "t - zero_time" d] by (simp add: truncate_time_def)

lemma truncate_idem: "0 < d \<Longrightarrow> truncate_time (truncate_time t d) d = truncate_time t d"
  using truncate_since_zero [of d t] by (simp add: truncate_time_def [of "truncate_time t d"])

lemma truncate_window:
  assumes "0 < window"
  shows "truncate_time t window \<le> t \<and> t < truncate_time t window + window"
  using assms pos_mod_bound [of window "t - zero_time"] pos_mod_sign [of window "t - zero_time"]
  by (auto simp: truncate_time_def)

text \<open>Midnight UTC after an instant: \<open>time.Date(y, m, d+1, 0, 0, 0, 0, time.UTC)\<close>.\<close>

definition next_midnight :: "time \<Rightarrow> time" where
  "next_midnight t = (t div day + 1) * day"

lemma next_midnight_after: "t < next_midnight t"
proof -
  have "t div day * day + t mod day = t" by (rule div_mult_mod_eq)
  moreover have "t mod day < day" by simp
  ultimately show ?thesis unfolding next_midnight_def by (simp only: distrib_right mult_1)
qed

lemma strip_zeros_pad:
  "\<exists>k. xs = strip_zeros xs @ replicate k (CHR ''0'')"
proof (induction xs)
  case (Cons c cs)
  then obtain k where k: "cs = strip_zeros cs @ replicate k (CHR ''0'')" by blast
  show ?case
  proof (cases "strip_zeros cs = [] \<and> c = CHR ''0''")
    case True
    with k have "c # cs = replicate (Suc k) (CHR ''0'')" by simp
    with True show ?thesis by (auto simp: Let_def intro: exI [of _ "Suc k"])
  next
    case False
    with k show ?thesis by (auto simp: Let_def)
  qed
qed simp

lemma strip_zeros_replicate: "strip_zeros xs @ replicate (length xs - length (strip_zeros xs)) (CHR ''0'') = xs"
proof -
  obtain k where k: "xs = strip_zeros xs @ replicate k (CHR ''0'')" using strip_zeros_pad by blast
  then have "length xs = length (strip_zeros xs) + k" by (metis length_append length_replicate)
  with k show ?thesis by simp
qed

lemma nanos_less: "nanos t < 10 ^ 9"
proof -
  have "t mod second < second" by simp
  then have "nat (t mod second) < nat second" by (simp add: nat_less_eq_zless)
  then show ?thesis by (simp add: nanos_def second_def)
qed

lemma parse_fraction_pad:
  assumes "f = strip_zeros (pad 9 (nanos t))"
  shows "parse_fraction ((if f = [] then [] else CHR ''.'' # f) @ ''Z'') = Some (nanos t)"
proof (cases "f = []")
  case True
  with strip_zeros_replicate [of "pad 9 (nanos t)"] assms
  have "pad 9 (nanos t) = replicate 9 (CHR ''0'')" by simp
  then have "undigits 0 (replicate 9 (CHR ''0'')) = Some (nanos t)"
    using undigits_pad_small [OF nanos_less, of t] by simp
  then have "nanos t = 0" by (simp add: eval_nat_numeral digit_val_def)
  with True show ?thesis by (simp add: parse_fraction_def)
next
  case False
  have len: "length f \<le> 9"
    using strip_zeros_replicate [of "pad 9 (nanos t)"] assms
    by (metis le_add1 length_append length_pad)
  have "undigits 0 (f @ replicate (9 - length f) (CHR ''0'')) = Some (nanos t)"
    using strip_zeros_replicate [of "pad 9 (nanos t)"] assms undigits_pad_small [OF nanos_less, of t] by simp
  moreover have "1 \<le> length f" using False by (cases f) auto
  ultimately show ?thesis using False len by (simp add: parse_fraction_def butlast_append)
qed

lemma calendar_year:
  assumes "calendar_time t" and "civil_of_days (day_number t) = (y, m, n)"
  shows "y < 10000"
proof (rule ccontr)
  assume "\<not> y < 10000"
  then have "days_before 10000 \<le> days_before y" using days_before_mono [of 10000 y] by simp
  also have "\<dots> \<le> day_number t" using civil_of_days_roundtrip [OF assms(2)] by simp
  finally have "int (days_before 10000) \<le> t div day"
    using assms(1) by (simp add: day_number_def calendar_time_def nat_le_iff pos_imp_zdiv_nonneg_iff le_nat_iff)
  then have "int (days_before 10000) * day \<le> t div day * day" by simp
  also have "\<dots> \<le> t" by (simp add: minus_mod_eq_div_mult [symmetric])
  finally show False using assms(1) by (simp add: calendar_time_def)
qed

lemma time_decompose:
  assumes "0 \<le> t"
  shows "int (day_number t) * day + int (second_of_day t) * second + int (nanos t) = t"
    and "second_of_day t < 86400"
proof -
  have d: "day = 86400 * second" by (simp add: day_def)
  have "t mod day mod second = t mod second" by (simp add: d mod_mod_cancel)
  moreover have "t mod day div second * second + t mod day mod second = t mod day"
    by (rule div_mult_mod_eq)
  moreover have "t div day * day + t mod day = t" by (rule div_mult_mod_eq)
  moreover have "0 \<le> t mod day div second" "0 \<le> t mod second"
    by (simp_all add: pos_imp_zdiv_nonneg_iff)
  moreover have "0 \<le> t div day" using assms by (simp add: pos_imp_zdiv_nonneg_iff)
  ultimately show "int (day_number t) * day + int (second_of_day t) * second + int (nanos t) = t"
    by (simp only: day_number_def second_of_day_def nanos_def int_nat_eq if_True)
  have "t mod day < 86400 * second" using pos_mod_bound [of day t] by (simp add: d)
  moreover have "t mod day div second * second \<le> t mod day"
    using div_mult_mod_eq [of "t mod day" second] pos_mod_sign [of second "t mod day", OF second_pos] by linarith
  ultimately have "t mod day div second * second < 86400 * second" by (rule le_less_trans [rotated])
  then have "t mod day div second < 86400" using mult_less_cancel_right_pos [of second] by simp
  then show "second_of_day t < 86400" by (simp add: second_of_day_def)
qed

lemma seconds_split: "(s :: nat) div 3600 * 3600 + s div 60 mod 60 * 60 + s mod 60 = s"
proof -
  have "s div 60 div 60 = s div 3600" by (simp add: div_mult2_eq [symmetric])
  moreover have "s div 60 div 60 * 60 + s div 60 mod 60 = s div 60" by (rule div_mult_mod_eq)
  moreover have "s div 60 * 60 + s mod 60 = s" by (rule div_mult_mod_eq)
  ultimately show ?thesis by linarith
qed

lemma list_of_length2: "length xs = 2 \<Longrightarrow> \<exists>a b. xs = [a, b]"
  by (auto simp: numeral_2_eq_2 length_Suc_conv)

lemma list_of_length4: "length xs = 4 \<Longrightarrow> \<exists>a b c d. xs = [a, b, c, d]"
  by (auto simp: eval_nat_numeral length_Suc_conv)

text \<open>
  Reading the fields of a formatted instant: six padded fields at fixed positions, then the
  fraction.
\<close>

lemma parse_nano_fields:
  assumes "length ys = 4" "length ms = 2" "length ns = 2" "length hs = 2" "length mis = 2" "length ss = 2"
    and "r \<noteq> []"
    and "undigits 0 ys = Some y" "undigits 0 ms = Some m" "undigits 0 ns = Some n"
    and "undigits 0 hs = Some hh" "undigits 0 mis = Some mm" "undigits 0 ss = Some s"
    and "parse_fraction r = Some f"
    and "1 \<le> m \<and> m \<le> 12 \<and> 1 \<le> n \<and> n \<le> month_lengths y ! (m - 1) \<and> hh < 24 \<and> mm < 60 \<and> s < 60 \<and> 1970 \<le> y"
  shows "parse_nano (ys @ ''-'' @ ms @ ''-'' @ ns @ ''T'' @ hs @ '':'' @ mis @ '':'' @ ss @ r) =
    Some (int (days_of_civil y m n) * day + int (hh * 3600 + mm * 60 + s) * second + int f)"
proof -
  obtain y1 y2 y3 y4 where ys: "ys = [y1, y2, y3, y4]" using list_of_length4 [OF assms(1)] by blast
  obtain m1 m2 where ms: "ms = [m1, m2]" using list_of_length2 [OF assms(2)] by blast
  obtain n1 n2 where ns: "ns = [n1, n2]" using list_of_length2 [OF assms(3)] by blast
  obtain h1 h2 where hs: "hs = [h1, h2]" using list_of_length2 [OF assms(4)] by blast
  obtain i1 i2 where mis: "mis = [i1, i2]" using list_of_length2 [OF assms(5)] by blast
  obtain s1 s2 where ss: "ss = [s1, s2]" using list_of_length2 [OF assms(6)] by blast
  obtain r1 rs where r: "r = r1 # rs" using assms(7) by (cases r) auto
  show ?thesis
    using assms(8-15) unfolding ys ms ns hs mis ss r parse_nano_def by simp
qed

text \<open>Formatting an instant and parsing the result gives the instant back, to the nanosecond.\<close>

lemma parse_format_nano:
  assumes "calendar_time t"
  shows "parse_nano (format_nano t) = Some t"
proof -
  obtain y m n where c: "civil_of_days (day_number t) = (y, m, n)" by (cases "civil_of_days (day_number t)") auto
  note rt = civil_of_days_roundtrip [OF c] and y = calendar_year [OF assms c]
  have t: "0 \<le> t" using assms by (simp add: calendar_time_def)
  define s where "s = second_of_day t"
  have s: "s < 86400" using time_decompose(2) [OF t] by (simp add: s_def)
  then have "s div 3600 < 24" by (simp add: div_less_iff_less_mult)
  then have hms: "s div 3600 < 24 \<and> s div 60 mod 60 < 60 \<and> s mod 60 < 60" by simp
  let ?f = "strip_zeros (pad 9 (nanos t))"
  let ?r = "(if ?f = [] then [] else CHR ''.'' # ?f) @ ''Z''"
  have "format_nano t = pad 4 y @ ''-'' @ pad 2 m @ ''-'' @ pad 2 n @ ''T'' @
      pad 2 (s div 3600) @ '':'' @ pad 2 (s div 60 mod 60) @ '':'' @ pad 2 (s mod 60) @ ?r"
    by (simp only: format_nano_def c Let_def s_def prod.case)
  also have "parse_nano \<dots> =
      Some (int (days_of_civil y m n) * day +
        int (s div 3600 * 3600 + s div 60 mod 60 * 60 + s mod 60) * second + int (nanos t))"
    using rt y hms parse_fraction_pad [OF refl, of t]
    by (intro parse_nano_fields) simp_all
  also have "\<dots> = Some t" using rt time_decompose(1) [OF t] by (simp only: seconds_split s_def)
  finally show ?thesis .
qed

lemma format_nano_nonempty [simp]: "format_nano t \<noteq> []"
  by (simp add: format_nano_def Let_def split: prod.split)

lemma format_day_cong: "t div day = t' div day \<Longrightarrow> format_day t = format_day t'"
  by (simp add: format_day_def day_number_def)

end
