(* ===== verification/KVStore.thy ===== *)
theory KVStore
  imports AppErrors GoTime
begin

text \<open>
  \<^verbatim>\<open>go/pkg/yunmao/cache\<close>: the key-value \<open>Store\<close> interface as a record of operations, its
  in-process implementation \<open>MemoryStore\<close>, and the two primitives built on the interface,
  \<open>Idempotent\<close> and \<open>RateLimiter\<close>.  The locale \<open>kv_store\<close> is the contract of the interface;
  the clients' lemmas are proved in it once and \<open>MemoryStore\<close> interprets it.  The Redis
  implementation is a call into the client library and is a parameter (any \<open>kv_ops\<close>).
\<close>

section \<open>Keys and decimal counters\<close>

fun join_colon :: "string list \<Rightarrow> string" where
  "join_colon [] = []"
| "join_colon [p] = p"
| "join_colon (p # q # ps) = p @ '':'' @ join_colon (q # ps)"

definition K :: "string list \<Rightarrow> string" where
  "K parts = ''yunmao:'' @ join_colon parts"

text \<open>
  \<open>formatInt\<close>: the digits are written into a buffer from the end while the (negated)
  value is positive; the most negative \<open>int64\<close> stays negative when negated.
\<close>

definition formatInt :: "i64 \<Rightarrow> string" where
  "formatInt n =
     (if n = 0 then ''0''
      else let neg = sint n < 0; m = (if neg then - n else n);
               digits = (if 0 < sint m then dec_acc (nat (sint m)) [] else [])
           in if neg then CHR ''-'' # digits else digits)"

text \<open>\<open>parseInt\<close>: reads digits up to the first other character, wrapping around.\<close>

fun parseInt_from :: "i64 \<Rightarrow> string \<Rightarrow> i64" where
  "parseInt_from n [] = n"
| "parseInt_from n (c # cs) =
     (if is_digit c then parseInt_from (n * 10 + word_of_nat (digit_val c)) cs else n)"

definition parseInt :: "string \<Rightarrow> i64" where
  "parseInt s = parseInt_from 0 s"

lemma parseInt_from_dec_acc: "parseInt_from 0 (dec_acc k acc) = parseInt_from (word_of_nat k) acc"
proof (induction k acc rule: dec_acc.induct)
  case (1 k acc)
  show ?case
  proof (cases "k = 0")
    case True
    then show ?thesis by (simp add: dec_acc.simps)
  next
    case False
    have "word_of_nat (k div 10) * 10 + word_of_nat (k mod 10) = (word_of_nat (k div 10 * 10 + k mod 10) :: i64)"
      by (simp only: of_nat_add of_nat_mult of_nat_numeral)
    also have "k div 10 * 10 + k mod 10 = k" by simp
    finally have "word_of_nat (k div 10) * 10 + word_of_nat (k mod 10) = (word_of_nat k :: i64)" .
    with False "1.IH" show ?thesis by (simp add: dec_acc.simps [of k])
  qed
qed

lemma parseInt_formatInt:
  assumes "0 \<le> sint n"
  shows "parseInt (formatInt n) = n"
proof (cases "n = 0")
  case True
  then show ?thesis by (simp add: parseInt_def formatInt_def is_digit_def digit_val_def)
next
  case False
  then have "0 < sint n" using assms by (metis order_le_less signed_eq_0_iff)
  moreover have "word_of_nat (nat (sint n)) = n" using assms by (simp add: of_nat_nat)
  ultimately show ?thesis using False
    by (simp add: parseInt_def formatInt_def Let_def parseInt_from_dec_acc)
qed

lemma formatInt_nonempty: "0 \<le> sint n \<Longrightarrow> formatInt n \<noteq> []"
  by (auto simp: formatInt_def Let_def dec_acc_nonempty order_le_less signed_eq_0_iff)

text \<open>\<open>formatInt\<close> and \<open>parseInt\<close> are inverse on every non-negative counter value, and
  the most negative \<open>int64\<close> is the value \<open>formatInt\<close> does not print: it gives a bare minus
  sign, which parses as zero.\<close>

theorem counter_text_roundtrip:
  "(0 \<le> sint n \<longrightarrow> parseInt (formatInt n) = n) \<and>
   formatInt (word_of_int (- (2 ^ 63))) = ''-'' \<and>
   parseInt (formatInt (word_of_int (- (2 ^ 63)))) = 0"
proof (intro conjI impI)
  show "0 \<le> sint n \<Longrightarrow> parseInt (formatInt n) = n" by (rule parseInt_formatInt)
  show m: "formatInt (word_of_int (- (2 ^ 63))) = ''-''" by (simp add: formatInt_def Let_def)
  show "parseInt (formatInt (word_of_int (- (2 ^ 63)))) = 0" by (simp only: m parseInt_def) simp
qed

theorem counter_text_roundtrip_witness:
  "parseInt (formatInt 1200) = 1200"
proof -
  have "0 \<le> sint (1200 :: i64)" by simp
  then show ?thesis using counter_text_roundtrip [of 1200] by blast
qed

section \<open>The store interface\<close>

text \<open>
  One field per method of \<open>cache.Store\<close>.  Every operation takes the store's clock
  reading, returns an error or its value, and the new store.  \<open>Get\<close> of a missing key is
  \<open>None\<close> (the empty string and \<open>false\<close>).
\<close>

record 's kv_ops =
  op_set :: "time \<Rightarrow> string \<Rightarrow> string \<Rightarrow> duration \<Rightarrow> 's \<Rightarrow> (go_error, unit, 's) outcome"
  op_setnx :: "time \<Rightarrow> string \<Rightarrow> string \<Rightarrow> duration \<Rightarrow> 's \<Rightarrow> (go_error, bool, 's) outcome"
  op_get :: "time \<Rightarrow> string \<Rightarrow> 's \<Rightarrow> (go_error, string option, 's) outcome"
  op_incrby :: "time \<Rightarrow> string \<Rightarrow> i64 \<Rightarrow> duration \<Rightarrow> 's \<Rightarrow> (go_error, i64, 's) outcome"
  op_expire :: "time \<Rightarrow> string \<Rightarrow> duration \<Rightarrow> 's \<Rightarrow> (go_error, unit, 's) outcome"
  op_del :: "string \<Rightarrow> 's \<Rightarrow> (go_error, unit, 's) outcome"

section \<open>MemoryStore\<close>

record entry =
  e_val :: string
  e_counter :: i64
  e_expire :: time

type_synonym mem_store = "string \<rightharpoonup> entry"

definition expiry :: "time \<Rightarrow> duration \<Rightarrow> time" where
  "expiry now ttl = (if 0 < ttl then now + ttl else zero_time)"

definition mem_gc :: "time \<Rightarrow> mem_store \<Rightarrow> mem_store" where
  "mem_gc now m = (\<lambda>k. case m k of None \<Rightarrow> None
     | Some e \<Rightarrow> if \<not> is_zero_time (e_expire e) \<and> e_expire e < now then None else Some e)"

definition mem_set :: "time \<Rightarrow> string \<Rightarrow> string \<Rightarrow> duration \<Rightarrow> mem_store \<Rightarrow> (go_error, unit, mem_store) outcome" where
  "mem_set now k v ttl m = (Inr (), m(k \<mapsto> \<lparr>e_val = v, e_counter = 0, e_expire = expiry now ttl\<rparr>))"

definition mem_setnx :: "time \<Rightarrow> string \<Rightarrow> string \<Rightarrow> duration \<Rightarrow> mem_store \<Rightarrow> (go_error, bool, mem_store) outcome" where
  "mem_setnx now k v ttl m =
     (let m' = mem_gc now m;
          taken = (case m' k of None \<Rightarrow> False
                   | Some e \<Rightarrow> is_zero_time (e_expire e) \<or> now < e_expire e)
      in if taken then (Inr False, m')
         else (Inr True, m'(k \<mapsto> \<lparr>e_val = v, e_counter = 0, e_expire = expiry now ttl\<rparr>)))"

definition mem_get :: "time \<Rightarrow> string \<Rightarrow> mem_store \<Rightarrow> (go_error, string option, mem_store) outcome" where
  "mem_get now k m = (let m' = mem_gc now m in (Inr (map_option e_val (m' k)), m'))"

definition mem_incrby :: "time \<Rightarrow> string \<Rightarrow> i64 \<Rightarrow> duration \<Rightarrow> mem_store \<Rightarrow> (go_error, i64, mem_store) outcome" where
  "mem_incrby now k d ttl m =
     (let m' = mem_gc now m;
          e = (case m' k of None \<Rightarrow> \<lparr>e_val = [], e_counter = 0, e_expire = expiry now ttl\<rparr> | Some e \<Rightarrow> e);
          c = e_counter e + d
      in (Inr c, m'(k \<mapsto> e\<lparr>e_counter := c, e_val := formatInt c\<rparr>)))"

definition mem_expire :: "time \<Rightarrow> string \<Rightarrow> duration \<Rightarrow> mem_store \<Rightarrow> (go_error, unit, mem_store) outcome" where
  "mem_expire now k ttl m =
     (Inr (), case m k of None \<Rightarrow> m | Some e \<Rightarrow> m(k \<mapsto> e\<lparr>e_expire := now + ttl\<rparr>))"

definition mem_del :: "string \<Rightarrow> mem_store \<Rightarrow> (go_error, unit, mem_store) outcome" where
  "mem_del k m = (Inr (), m(k := None))"

definition mem_ops :: "mem_store kv_ops" where
  "mem_ops = \<lparr>op_set = mem_set, op_setnx = mem_setnx, op_get = mem_get,
     op_incrby = mem_incrby, op_expire = mem_expire, op_del = mem_del\<rparr>"

lemma mem_ops_simps [simp]:
  "op_set mem_ops = mem_set" "op_setnx mem_ops = mem_setnx" "op_get mem_ops = mem_get"
  "op_incrby mem_ops = mem_incrby" "op_expire mem_ops = mem_expire" "op_del mem_ops = mem_del"
  by (simp_all add: mem_ops_def)

text \<open>The value a key shows at an instant, and the counter behind it.\<close>

definition mem_live :: "mem_store \<Rightarrow> time \<Rightarrow> string \<Rightarrow> string option" where
  "mem_live m t k = map_option e_val (mem_gc t m k)"

definition mem_count :: "mem_store \<Rightarrow> time \<Rightarrow> string \<Rightarrow> i64" where
  "mem_count m t k = (case mem_gc t m k of None \<Rightarrow> 0 | Some e \<Rightarrow> e_counter e)"

lemma mem_gc_gc: "now \<le> t \<Longrightarrow> mem_gc t (mem_gc now m) = mem_gc t m"
  by (rule ext) (auto simp: mem_gc_def split: option.splits)

lemma mem_gc_upd: "k' \<noteq> k \<Longrightarrow> mem_gc t (m(k \<mapsto> e)) k' = mem_gc t m k'"
  by (simp add: mem_gc_def)

lemma mem_gc_new:
  "mem_gc t (m(k \<mapsto> e)) k = (if \<not> is_zero_time (e_expire e) \<and> e_expire e < t then None else Some e)"
  by (simp add: mem_gc_def)

lemma mem_gc_None_mono: "now \<le> t \<Longrightarrow> mem_gc now m k = None \<Longrightarrow> mem_gc t m k = None"
  by (auto simp: mem_gc_def split: option.splits if_splits)

lemma expiry_pos: "0 \<le> now \<Longrightarrow> 0 < ttl \<Longrightarrow> expiry now ttl = now + ttl \<and> \<not> is_zero_time (expiry now ttl)"
  by (simp add: expiry_def is_zero_time_def zero_time_def)

section \<open>The contract of the interface\<close>

text \<open>
  \<open>live s t k\<close> is what a read of \<open>k\<close> at \<open>t\<close> returns if nothing is written in between, and
  \<open>count\<close> is the number behind a counter key.  The laws leave open what happens at the exact instant
  of expiry, where implementations differ.
\<close>

locale kv_store =
  fixes ops :: "'s kv_ops"
    and live :: "'s \<Rightarrow> time \<Rightarrow> string \<Rightarrow> string option"
    and count :: "'s \<Rightarrow> time \<Rightarrow> string \<Rightarrow> i64"
  assumes get_val: "fst (op_get ops now k s) = Inr (live s now k)"
    and get_live: "now \<le> t \<Longrightarrow> live (snd (op_get ops now k s)) t = live s t"
    and get_count: "now \<le> t \<Longrightarrow> count (snd (op_get ops now k s)) t = count s t"
    and set_ok: "fst (op_set ops now k v ttl s) = Inr ()"
    and set_live: "0 \<le> now \<Longrightarrow> 0 < ttl \<Longrightarrow> now \<le> t \<Longrightarrow> t < now + ttl \<Longrightarrow>
          live (snd (op_set ops now k v ttl s)) t k = Some v"
    and set_expired: "0 \<le> now \<Longrightarrow> 0 < ttl \<Longrightarrow> now + ttl < t \<Longrightarrow>
          live (snd (op_set ops now k v ttl s)) t k = None"
    and set_frame: "k' \<noteq> k \<Longrightarrow> now \<le> t \<Longrightarrow>
          live (snd (op_set ops now k v ttl s)) t k' = live s t k' \<and>
          count (snd (op_set ops now k v ttl s)) t k' = count s t k'"
    and setnx_ok: "\<exists>b. fst (op_setnx ops now k v ttl s) = Inr b"
    and setnx_taken: "now < t \<Longrightarrow> live s t k \<noteq> None \<Longrightarrow> fst (op_setnx ops now k v ttl s) = Inr False"
    and setnx_free: "live s now k = None \<Longrightarrow> fst (op_setnx ops now k v ttl s) = Inr True"
    and setnx_live: "fst (op_setnx ops now k v ttl s) = Inr True \<Longrightarrow> 0 \<le> now \<Longrightarrow> 0 < ttl \<Longrightarrow>
          now \<le> t \<Longrightarrow> t < now + ttl \<Longrightarrow> live (snd (op_setnx ops now k v ttl s)) t k = Some v"
    and setnx_keep: "fst (op_setnx ops now k v ttl s) = Inr False \<Longrightarrow> now \<le> t \<Longrightarrow>
          live (snd (op_setnx ops now k v ttl s)) t = live s t"
    and setnx_frame: "k' \<noteq> k \<Longrightarrow> now \<le> t \<Longrightarrow>
          live (snd (op_setnx ops now k v ttl s)) t k' = live s t k' \<and>
          count (snd (op_setnx ops now k v ttl s)) t k' = count s t k'"
    and incr_val: "fst (op_incrby ops now k d ttl s) = Inr (count s now k + d)"
    and incr_live: "now \<le> t \<Longrightarrow> 0 \<le> now \<Longrightarrow>
          live s t k \<noteq> None \<or> live s now k = None \<and> 0 < ttl \<and> t < now + ttl \<Longrightarrow>
          live (snd (op_incrby ops now k d ttl s)) t k = Some (formatInt (count s now k + d)) \<and>
          count (snd (op_incrby ops now k d ttl s)) t k = count s now k + d"
    and incr_frame: "k' \<noteq> k \<Longrightarrow> now \<le> t \<Longrightarrow>
          live (snd (op_incrby ops now k d ttl s)) t k' = live s t k' \<and>
          count (snd (op_incrby ops now k d ttl s)) t k' = count s t k'"
    and count_absent: "live s t k = None \<Longrightarrow> count s t k = 0"
    and live_decays: "now \<le> t \<Longrightarrow> live s now k = None \<Longrightarrow> live s t k = None"
    and live_const: "now \<le> t \<Longrightarrow> live s t k \<noteq> None \<Longrightarrow> live s now k = live s t k \<and> count s now k = count s t k"

lemma mem_setnx_cases:
  "mem_setnx now k v ttl m =
     (if (\<exists>e. mem_gc now m k = Some e \<and> (is_zero_time (e_expire e) \<or> now < e_expire e))
      then (Inr False, mem_gc now m)
      else (Inr True, (mem_gc now m)(k \<mapsto> \<lparr>e_val = v, e_counter = 0, e_expire = expiry now ttl\<rparr>)))"
  by (auto simp: mem_setnx_def Let_def split: option.split)

lemma mem_setnx_fst:
  "fst (mem_setnx now k v ttl m) =
     Inr (\<not> (\<exists>e. mem_gc now m k = Some e \<and> (is_zero_time (e_expire e) \<or> now < e_expire e)))"
  by (simp add: mem_setnx_cases)

interpretation mem: kv_store mem_ops mem_live mem_count
proof
  fix now t k v ttl s and k' :: string and d
  show "fst (op_get mem_ops now k s) = Inr (mem_live s now k)"
    by (simp add: mem_get_def mem_live_def Let_def)
  show "now \<le> t \<Longrightarrow> mem_live (snd (op_get mem_ops now k s)) t = mem_live s t"
    by (rule ext) (simp add: mem_get_def mem_live_def Let_def mem_gc_gc)
  show "now \<le> t \<Longrightarrow> mem_count (snd (op_get mem_ops now k s)) t = mem_count s t"
    by (rule ext) (simp add: mem_get_def mem_count_def Let_def mem_gc_gc)
  show "fst (op_set mem_ops now k v ttl s) = Inr ()" by (simp add: mem_set_def)
  show "0 \<le> now \<Longrightarrow> 0 < ttl \<Longrightarrow> now \<le> t \<Longrightarrow> t < now + ttl \<Longrightarrow>
      mem_live (snd (op_set mem_ops now k v ttl s)) t k = Some v"
    by (simp add: mem_set_def mem_live_def mem_gc_new expiry_pos)
  show "0 \<le> now \<Longrightarrow> 0 < ttl \<Longrightarrow> now + ttl < t \<Longrightarrow>
      mem_live (snd (op_set mem_ops now k v ttl s)) t k = None"
    using expiry_pos [of now ttl] by (auto simp: mem_set_def mem_live_def mem_gc_new)
  show "k' \<noteq> k \<Longrightarrow> now \<le> t \<Longrightarrow>
      mem_live (snd (op_set mem_ops now k v ttl s)) t k' = mem_live s t k' \<and>
      mem_count (snd (op_set mem_ops now k v ttl s)) t k' = mem_count s t k'"
    by (simp add: mem_set_def mem_live_def mem_count_def mem_gc_upd)
  show "\<exists>b. fst (op_setnx mem_ops now k v ttl s) = Inr b"
    unfolding mem_ops_simps by (rule exI, rule mem_setnx_fst)
  show "now < t \<Longrightarrow> mem_live s t k \<noteq> None \<Longrightarrow> fst (op_setnx mem_ops now k v ttl s) = Inr False"
    by (auto simp: mem_setnx_cases mem_live_def mem_gc_def split: option.splits if_splits)
  show "mem_live s now k = None \<Longrightarrow> fst (op_setnx mem_ops now k v ttl s) = Inr True"
    by (auto simp: mem_setnx_cases mem_live_def)
  show "fst (op_setnx mem_ops now k v ttl s) = Inr True \<Longrightarrow> 0 \<le> now \<Longrightarrow> 0 < ttl \<Longrightarrow>
      now \<le> t \<Longrightarrow> t < now + ttl \<Longrightarrow> mem_live (snd (op_setnx mem_ops now k v ttl s)) t k = Some v"
    by (auto simp: mem_setnx_cases mem_live_def mem_gc_new expiry_pos split: if_splits)
  show "fst (op_setnx mem_ops now k v ttl s) = Inr False \<Longrightarrow> now \<le> t \<Longrightarrow>
      mem_live (snd (op_setnx mem_ops now k v ttl s)) t = mem_live s t"
    by (rule ext) (auto simp: mem_setnx_cases mem_live_def mem_gc_gc split: if_splits)
  show "k' \<noteq> k \<Longrightarrow> now \<le> t \<Longrightarrow>
      mem_live (snd (op_setnx mem_ops now k v ttl s)) t k' = mem_live s t k' \<and>
      mem_count (snd (op_setnx mem_ops now k v ttl s)) t k' = mem_count s t k'"
    by (simp add: mem_setnx_cases mem_live_def mem_count_def mem_gc_upd mem_gc_gc)
  show "fst (op_incrby mem_ops now k d ttl s) = Inr (mem_count s now k + d)"
    by (auto simp: mem_incrby_def mem_count_def Let_def split: option.split)
  show "now \<le> t \<Longrightarrow> 0 \<le> now \<Longrightarrow>
      mem_live s t k \<noteq> None \<or> mem_live s now k = None \<and> 0 < ttl \<and> t < now + ttl \<Longrightarrow>
      mem_live (snd (op_incrby mem_ops now k d ttl s)) t k = Some (formatInt (mem_count s now k + d)) \<and>
      mem_count (snd (op_incrby mem_ops now k d ttl s)) t k = mem_count s now k + d"
    using expiry_pos [of now ttl]
    by (auto simp: mem_incrby_def mem_live_def mem_count_def Let_def mem_gc_def split: option.splits if_splits)
  show "k' \<noteq> k \<Longrightarrow> now \<le> t \<Longrightarrow>
      mem_live (snd (op_incrby mem_ops now k d ttl s)) t k' = mem_live s t k' \<and>
      mem_count (snd (op_incrby mem_ops now k d ttl s)) t k' = mem_count s t k'"
    by (simp add: mem_incrby_def mem_live_def mem_count_def Let_def mem_gc_upd mem_gc_gc)
  show "mem_live s t k = None \<Longrightarrow> mem_count s t k = 0"
    by (simp add: mem_live_def mem_count_def)
  show "now \<le> t \<Longrightarrow> mem_live s now k = None \<Longrightarrow> mem_live s t k = None"
    by (simp add: mem_live_def mem_gc_None_mono)
  show "now \<le> t \<Longrightarrow> mem_live s t k \<noteq> None \<Longrightarrow>
      mem_live s now k = mem_live s t k \<and> mem_count s now k = mem_count s t k"
    by (auto simp: mem_live_def mem_count_def mem_gc_def split: option.splits if_splits)
qed

end
