(* ===== verification/CacheClients.thy ===== *)
theory CacheClients
  imports KVStore
begin

text \<open>
  The primitives of \<^verbatim>\<open>go/pkg/yunmao/cache\<close> built on the \<open>Store\<close> interface:
  \<^verbatim>\<open>idempotent.go\<close> (first-seen test by \<open>SetNX\<close>) and \<^verbatim>\<open>ratelimit.go\<close> (a counter per
  window).  Their lemmas are proved from the contract \<open>kv_store\<close>, for sequences of calls, and
  hold of \<open>MemoryStore\<close> through its interpretation.
\<close>

section \<open>Idempotent\<close>

definition idem_key :: "string \<Rightarrow> string \<Rightarrow> string" where
  "idem_key ns key = K [''idem'', ns, key]"

definition idem_insert ::
  "'s kv_ops \<Rightarrow> duration \<Rightarrow> time \<Rightarrow> string \<Rightarrow> string \<Rightarrow> 's \<Rightarrow> (go_error, bool, 's) outcome" where
  "idem_insert ops ttl now ns key s = op_setnx ops now (idem_key ns key) ''1'' ttl s"

definition idem_has ::
  "'s kv_ops \<Rightarrow> time \<Rightarrow> string \<Rightarrow> string \<Rightarrow> 's \<Rightarrow> (go_error, bool, 's) outcome" where
  "idem_has ops now ns key s =
     (case op_get ops now (idem_key ns key) s of
        (Inl e, s') \<Rightarrow> (Inl e, s')
      | (Inr v, s') \<Rightarrow> (Inr (v \<noteq> None), s'))"

lemma idem_key_inject [simp]: "idem_key ns k = idem_key ns k' \<longleftrightarrow> k = k'"
  by (simp add: idem_key_def K_def)

text \<open>A sequence of insertions in one namespace, each with its clock reading.\<close>

fun idem_run ::
  "'s kv_ops \<Rightarrow> duration \<Rightarrow> string \<Rightarrow> (time \<times> string) list \<Rightarrow> 's \<Rightarrow> (go_error + bool) list \<times> 's" where
  "idem_run ops ttl ns [] s = ([], s)"
| "idem_run ops ttl ns ((t, k) # calls) s =
     (let (r, s') = idem_insert ops ttl t ns k s; (rs, s'') = idem_run ops ttl ns calls s'
      in (r # rs, s''))"

text \<open>The specification: a key is new exactly at its first occurrence.\<close>

fun first_seen :: "string list \<Rightarrow> string list \<Rightarrow> bool list" where
  "first_seen seen [] = []"
| "first_seen seen (k # ks) = (k \<notin> set seen) # first_seen (k # seen) ks"

context kv_store begin

lemma idem_insert_new:
  assumes "live s t (idem_key ns k) = None"
  shows "fst (idem_insert ops ttl t ns k s) = Inr True"
  using assms by (simp add: idem_insert_def setnx_free)

lemma idem_insert_dup:
  assumes "live s t' (idem_key ns k) \<noteq> None" and "t < t'"
  shows "fst (idem_insert ops ttl t ns k s) = Inr False"
  using assms by (simp add: idem_insert_def setnx_taken)

text \<open>
  Between two insertions the store state says which keys were seen: seen ones stay live up
  to the window's end, the others are not live.
\<close>

definition idem_inv :: "string \<Rightarrow> time \<Rightarrow> string set \<Rightarrow> string set \<Rightarrow> time \<Rightarrow> 's \<Rightarrow> bool" where
  "idem_inv ns tend keys seen now s \<longleftrightarrow>
     (\<forall>k \<in> keys. if k \<in> seen then \<forall>t. now \<le> t \<and> t < tend \<longrightarrow> live s t (idem_key ns k) \<noteq> None
                 else live s now (idem_key ns k) = None)"

lemma idem_inv_later:
  assumes "idem_inv ns tend keys seen now s" and "now \<le> now'"
  shows "idem_inv ns tend keys seen now' s"
  using assms live_decays unfolding idem_inv_def by (smt (verit) order_trans)

lemma idem_inv_insert:
  assumes inv: "idem_inv ns tend keys seen now s" and k: "k \<in> keys"
    and "0 \<le> now" "0 < ttl" "now + 1 < tend" "tend \<le> now + ttl"
  shows "fst (idem_insert ops ttl now ns k s) = Inr (k \<notin> seen) \<and>
         idem_inv ns tend keys (insert k seen) now (snd (idem_insert ops ttl now ns k s))"
proof (cases "k \<in> seen")
  case True
  with inv k assms(5) have "live s (now + 1) (idem_key ns k) \<noteq> None" by (simp add: idem_inv_def)
  then have r: "fst (idem_insert ops ttl now ns k s) = Inr False" by (rule idem_insert_dup) simp
  then have "now \<le> t \<Longrightarrow> live (snd (idem_insert ops ttl now ns k s)) t = live s t" for t
    by (simp add: idem_insert_def setnx_keep)
  with r inv True show ?thesis by (simp add: idem_inv_def insert_absorb)
next
  case False
  with inv k have "live s now (idem_key ns k) = None" by (simp add: idem_inv_def)
  then have r: "fst (idem_insert ops ttl now ns k s) = Inr True" by (rule idem_insert_new)
  have "now \<le> t \<Longrightarrow> t < tend \<Longrightarrow> live (snd (idem_insert ops ttl now ns k s)) t (idem_key ns k) \<noteq> None" for t
    using assms(3,4,6) r by (simp add: idem_insert_def setnx_live)
  moreover have "now \<le> t \<Longrightarrow> k' \<noteq> k \<Longrightarrow>
      live (snd (idem_insert ops ttl now ns k s)) t (idem_key ns k') = live s t (idem_key ns k')" for t k'
    by (simp add: idem_insert_def setnx_frame)
  ultimately show ?thesis using r False inv unfolding idem_inv_def by (metis insert_iff order_refl)
qed

lemma idem_run_spec:
  assumes "idem_inv ns tend keys (set seen) now s"
    and "sorted (map fst calls)" "\<forall>(t, k) \<in> set calls. now \<le> t \<and> t + 1 < tend \<and> tend \<le> t + ttl \<and> k \<in> keys"
    and "0 \<le> now" "0 < ttl"
  shows "fst (idem_run ops ttl ns calls s) = map Inr (first_seen seen (map snd calls))"
  using assms
proof (induction calls arbitrary: s now seen)
  case (Cons c calls)
  obtain t k where c: "c = (t, k)" by (cases c)
  obtain r s' where ins: "idem_insert ops ttl t ns k s = (r, s')" by (cases "idem_insert ops ttl t ns k s")
  have "idem_inv ns tend keys (set seen) t s"
    using Cons.prems(1,3) c by (auto intro: idem_inv_later)
  then have "r = Inr (k \<notin> set seen)" and inv: "idem_inv ns tend keys (set (k # seen)) t s'"
    using idem_inv_insert [of ns tend keys "set seen" t s k ttl] Cons.prems c ins by auto
  moreover have "fst (idem_run ops ttl ns calls s') = map Inr (first_seen (k # seen) (map snd calls))"
    using Cons.prems c by (intro Cons.IH [OF inv]) auto
  ultimately show ?case using c ins by (auto split: prod.split)
qed simp

end

text \<open>In any sequence of \<open>Idempotent.Insert\<close> calls in one namespace on the in-process
  store, made within the TTL of each other in time order and starting with none of the keys
  present, a call reports ``first seen'' exactly when no earlier call had its key.\<close>

theorem idempotent_first_seen:
  assumes "sorted (map fst calls)"
    and "\<forall>(t, k) \<in> set calls. t0 \<le> t \<and> t + 1 < tend \<and> tend \<le> t + ttl \<and> mem_live s t0 (idem_key ns k) = None"
    and "0 \<le> t0" and "0 < ttl"
  shows "fst (idem_run mem_ops ttl ns calls s) = map Inr (first_seen [] (map snd calls))"
proof (rule mem.idem_run_spec)
  show "mem.idem_inv ns tend (snd ` set calls) (set []) t0 s"
    using assms(2) by (auto simp: mem.idem_inv_def)
  show "\<forall>(t, k) \<in> set calls. t0 \<le> t \<and> t + 1 < tend \<and> tend \<le> t + ttl \<and> k \<in> snd ` set calls"
    using assms(2) by force
qed (use assms in auto)

theorem idempotent_first_seen_witness:
  "fst (idem_run mem_ops 1000 ''feed'' [(5, ''a''), (6, ''b''), (9, ''a''), (9, ''b'')] Map.empty)
     = [Inr True, Inr True, Inr False, Inr False]"
  using idempotent_first_seen
    [of "[(5, ''a''), (6, ''b''), (9, ''a''), (9, ''b'')]" 5 1000 1000 Map.empty "''feed''"]
  by (simp add: mem_live_def mem_gc_def)

section \<open>RateLimiter\<close>

definition rl_bucket :: "string \<Rightarrow> duration \<Rightarrow> time \<Rightarrow> string" where
  "rl_bucket key window now = K [''rl'', key, format_clock (truncate_time now window)]"

definition rl_allow ::
  "'s kv_ops \<Rightarrow> int \<Rightarrow> duration \<Rightarrow> time \<Rightarrow> string \<Rightarrow> 's \<Rightarrow> (go_error, bool \<times> i64, 's) outcome" where
  "rl_allow ops limit window now key s =
     (case op_incrby ops now (rl_bucket key window now) 1 (window + second) s of
        (Inl e, s') \<Rightarrow> (Inl e, s')
      | (Inr cnt, s') \<Rightarrow> (Inr (sint cnt \<le> limit, cnt), s'))"

fun rl_run ::
  "'s kv_ops \<Rightarrow> int \<Rightarrow> duration \<Rightarrow> string \<Rightarrow> time list \<Rightarrow> 's \<Rightarrow> (go_error + bool \<times> i64) list" where
  "rl_run ops limit window key [] s = []"
| "rl_run ops limit window key (t # ts) s =
     (let (r, s') = rl_allow ops limit window t key s in r # rl_run ops limit window key ts s')"

context kv_store begin

definition rl_inv :: "string \<Rightarrow> time \<Rightarrow> nat \<Rightarrow> time \<Rightarrow> 's \<Rightarrow> bool" where
  "rl_inv b tend c now s \<longleftrightarrow>
     (\<forall>t. now \<le> t \<and> t < tend \<longrightarrow> count s t b = word_of_nat c \<and> (live s t b = None \<longleftrightarrow> c = 0))"

lemma rl_inv_incr:
  assumes "rl_inv b tend c now s" and "0 \<le> now" "now < tend" "tend \<le> now + ttl"
  shows "fst (op_incrby ops now b 1 ttl s) = Inr (word_of_nat (Suc c)) \<and>
         rl_inv b tend (Suc c) now (snd (op_incrby ops now b 1 ttl s))"
proof -
  have c: "count s now b = word_of_nat c" using assms by (simp add: rl_inv_def)
  then have r: "fst (op_incrby ops now b 1 ttl s) = Inr (word_of_nat (Suc c))" by (simp add: incr_val add.commute)
  have "live s t b \<noteq> None \<or> live s now b = None \<and> 0 < ttl \<and> t < now + ttl" if "now \<le> t" "t < tend" for t
    using assms that by (cases "c = 0") (auto simp: rl_inv_def)
  from incr_live [OF _ assms(2) this] have "now \<le> t \<Longrightarrow> t < tend \<Longrightarrow>
      live (snd (op_incrby ops now b 1 ttl s)) t b \<noteq> None \<and>
      count (snd (op_incrby ops now b 1 ttl s)) t b = word_of_nat (Suc c)" for t
    using c by (simp add: add.commute)
  with r show ?thesis by (simp add: rl_inv_def)
qed

lemma rl_run_spec:
  assumes "rl_inv b tend c now s"
    and "sorted ts" "\<forall>t \<in> set ts. now \<le> t \<and> t < tend \<and> tend \<le> t + (window + second) \<and> rl_bucket key window t = b"
    and "0 \<le> now" "c + length ts < 2 ^ 63"
  shows "rl_run ops limit window key ts s =
     map (\<lambda>i. Inr (int (Suc i) \<le> limit, word_of_nat (Suc i))) [c..<c + length ts]"
  using assms
proof (induction ts arbitrary: s now c)
  case (Cons t ts)
  have "rl_inv b tend c t s" using Cons.prems(1,3) by (auto simp: rl_inv_def)
  from rl_inv_incr [OF this, of "window + second"]
  obtain s' where ins: "op_incrby ops t b 1 (window + second) s = (Inr (word_of_nat (Suc c)), s')"
    and inv: "rl_inv b tend (Suc c) t s'"
    using Cons.prems by (cases "op_incrby ops t b 1 (window + second) s") auto
  then have "rl_allow ops limit window t key s = (Inr (int (Suc c) \<le> limit, word_of_nat (Suc c)), s')"
    using Cons.prems sint_of_nat_small [of "Suc c"] by (simp add: rl_allow_def)
  moreover have "rl_run ops limit window key ts s' =
      map (\<lambda>i. Inr (int (Suc i) \<le> limit, word_of_nat (Suc i))) [Suc c..<Suc c + length ts]"
    using Cons.prems by (intro Cons.IH [OF inv]) auto
  moreover have "[c..<c + length (t # ts)] = c # [Suc c..<Suc c + length ts]" by (simp add: upt_conv_Cons del: upt_Suc)
  ultimately show ?case by (simp only: rl_run.simps Let_def prod.case list.map)
qed simp

end

text \<open>Within one window of the rate limiter, the \<open>n\<close> calls of a key on the in-process store
  return the counts \<open>1..n\<close> and exactly the first \<open>limit\<close> of them are allowed, whatever
  their spacing.\<close>

theorem rate_limiter_window:
  assumes "sorted ts" and "0 < window"
    and "\<forall>t \<in> set ts. 0 \<le> t \<and> truncate_time t window = w"
    and "\<forall>t. mem_live s t (rl_bucket key window w) = None"
    and "length ts < 2 ^ 63"
  shows "rl_run mem_ops limit window key ts s =
     map (\<lambda>i. Inr (int (Suc i) \<le> limit, word_of_nat (Suc i))) [0..<length ts]"
proof (cases ts)
  case (Cons t0 ts')
  have ww: "truncate_time w window = w" if "t \<in> set ts" for t
    using that assms(3) truncate_idem [OF assms(2), of t] by simp
  have b: "rl_bucket key window t = rl_bucket key window w" if "t \<in> set ts" for t
    using that assms(3) ww [OF that] by (simp add: rl_bucket_def)
  have win: "w \<le> t \<and> t < w + window" if "t \<in> set ts" for t
    using truncate_window [OF assms(2), of t] that assms(3) by auto
  have "mem.rl_inv (rl_bucket key window w) (w + window) 0 t0 s"
    using assms(4) by (simp add: mem.rl_inv_def mem.count_absent)
  then have "rl_run mem_ops limit window key ts s =
     map (\<lambda>i. Inr (int (Suc i) \<le> limit, word_of_nat (Suc i))) [0..<0 + length ts]"
  proof (rule mem.rl_run_spec)
    show "\<forall>t\<in>set ts. t0 \<le> t \<and> t < w + window \<and> w + window \<le> t + (window + second) \<and>
        rl_bucket key window t = rl_bucket key window w"
    proof
      fix t assume t: "t \<in> set ts"
      have "t0 \<le> t" using t assms(1) Cons by auto
      with win [OF t] b [OF t] second_pos
      show "t0 \<le> t \<and> t < w + window \<and> w + window \<le> t + (window + second) \<and>
        rl_bucket key window t = rl_bucket key window w" by linarith
    qed
  qed (use assms Cons in auto)
  then show ?thesis by simp
qed simp

theorem rate_limiter_window_witness:
  "rl_run mem_ops 2 (5 * second) ''u'' [second, 2 * second, 3 * second] Map.empty =
     [Inr (True, 1), Inr (True, 2), Inr (False, 3)]"
proof -
  have "truncate_time second (5 * second) = 0" "truncate_time (2 * second) (5 * second) = 0"
    "truncate_time (3 * second) (5 * second) = 0"
    by (simp_all add: truncate_time_def second_def zero_time_def)
  moreover have "[0..<3] = [0, 1, 2 :: nat]" by (simp add: upt_rec)
  ultimately show ?thesis
    using rate_limiter_window [of "[second, 2 * second, 3 * second]" "5 * second" 0 Map.empty "''u''" 2]
    by (simp add: second_def mem_live_def mem_gc_def)
qed

end
