(* ===== verification/CacheCooldown.thy ===== *)
theory CacheCooldown
  imports CacheClients
begin

text \<open>
  \<^verbatim>\<open>go/pkg/yunmao/cache/cooldown.go\<close>: the room and user cooldowns and the daily amount per
  cat, kept in a \<open>Store\<close>.  \<open>Check\<close> only reads, \<open>Consume\<close> checks again and records.  Amounts are
  \<open>uint32\<close>, so \<open>uint32(cur)+amountGram\<close> wraps around.
\<close>

datatype cd_outcome = OK | BlockedRoom | BlockedUser | BlockedDaily

record cooldown =
  cd_room :: duration
  cd_user :: duration
  cd_daily :: u32

definition room_key :: "string \<Rightarrow> string" where
  "room_key room = K [''cool'', ''room'', room]"

definition user_key :: "string \<Rightarrow> string \<Rightarrow> string" where
  "user_key user room = K [''cool'', ''ur'', user, room]"

definition cat_key :: "string \<Rightarrow> time \<Rightarrow> string" where
  "cat_key cat now = K [''cool'', ''cat'', cat, format_day now]"

text \<open>Reading a deadline: the time left when it is in the future, else \<open>None\<close>.\<close>

definition time_left :: "time \<Rightarrow> string option \<Rightarrow> duration option" where
  "time_left now v =
     (case v of None \<Rightarrow> None
      | Some x \<Rightarrow> if x \<noteq> [] \<and> now < parse_nano_or_zero x then Some (parse_nano_or_zero x - now) else None)"

definition over_daily :: "u32 \<Rightarrow> string \<Rightarrow> u32 \<Rightarrow> bool" where
  "over_daily limit v amount \<longleftrightarrow> limit < ucast (parseInt v) + amount"

definition cd_check ::
  "'s kv_ops \<Rightarrow> cooldown \<Rightarrow> time \<Rightarrow> string \<Rightarrow> string \<Rightarrow> string \<Rightarrow> u32 \<Rightarrow> 's \<Rightarrow>
   (go_error, cd_outcome \<times> duration, 's) outcome" where
  "cd_check ops c now room user cat amount s =
     (case op_get ops now (room_key room) s of
        (Inl e, s1) \<Rightarrow> (Inl e, s1)
      | (Inr v1, s1) \<Rightarrow> (case time_left now v1 of
          Some d \<Rightarrow> (Inr (BlockedRoom, d), s1)
        | None \<Rightarrow> (case op_get ops now (user_key user room) s1 of
            (Inl e, s2) \<Rightarrow> (Inl e, s2)
          | (Inr v2, s2) \<Rightarrow> (case time_left now v2 of
              Some d \<Rightarrow> (Inr (BlockedUser, d), s2)
            | None \<Rightarrow>
                if cd_daily c = 0 then (Inr (OK, 0), s2)
                else (case op_get ops now (cat_key cat now) s2 of
                  (Inl e, s3) \<Rightarrow> (Inl e, s3)
                | (Inr None, s3) \<Rightarrow> (Inr (OK, 0), s3)
                | (Inr (Some v3), s3) \<Rightarrow>
                    if v3 \<noteq> [] \<and> over_daily (cd_daily c) v3 amount then (Inr (BlockedDaily, 0), s3)
                    else (Inr (OK, 0), s3))))))"

text \<open>The second half of \<open>Consume\<close>: the two deadlines and the daily counter.\<close>

definition cd_record ::
  "'s kv_ops \<Rightarrow> cooldown \<Rightarrow> time \<Rightarrow> string \<Rightarrow> string \<Rightarrow> string \<Rightarrow> u32 \<Rightarrow> 's \<Rightarrow>
   (go_error, cd_outcome, 's) outcome" where
  "cd_record ops c now room user cat amount s =
     (case op_set ops now (room_key room) (format_nano (now + cd_room c)) (cd_room c + second) s of
        (Inl e, s1) \<Rightarrow> (Inl e, s1)
      | (Inr _, s1) \<Rightarrow>
     (case op_set ops now (user_key user room) (format_nano (now + cd_user c)) (cd_user c + second) s1 of
        (Inl e, s2) \<Rightarrow> (Inl e, s2)
      | (Inr _, s2) \<Rightarrow>
          if cd_daily c = 0 then (Inr OK, s2)
          else (case op_incrby ops now (cat_key cat now) (ucast amount) (next_midnight now - now) s2 of
                  (Inl e, s3) \<Rightarrow> (Inl e, s3)
                | (Inr _, s3) \<Rightarrow> (Inr OK, s3))))"

definition cd_consume ::
  "'s kv_ops \<Rightarrow> cooldown \<Rightarrow> time \<Rightarrow> string \<Rightarrow> string \<Rightarrow> string \<Rightarrow> u32 \<Rightarrow> 's \<Rightarrow>
   (go_error, cd_outcome, 's) outcome" where
  "cd_consume ops c now room user cat amount s =
     (case op_get ops now (room_key room) s of
        (Inl e, s1) \<Rightarrow> (Inl e, s1)
      | (Inr v1, s1) \<Rightarrow> (case time_left now v1 of
          Some _ \<Rightarrow> (Inr BlockedRoom, s1)
        | None \<Rightarrow> (case op_get ops now (user_key user room) s1 of
            (Inl e, s2) \<Rightarrow> (Inl e, s2)
          | (Inr v2, s2) \<Rightarrow> (case time_left now v2 of
              Some _ \<Rightarrow> (Inr BlockedUser, s2)
            | None \<Rightarrow>
                if cd_daily c = 0 then cd_record ops c now room user cat amount s2
                else (case op_get ops now (cat_key cat now) s2 of
                  (Inl e, s3) \<Rightarrow> (Inl e, s3)
                | (Inr v3, s3) \<Rightarrow>
                    if over_daily (cd_daily c) (case v3 of None \<Rightarrow> [] | Some x \<Rightarrow> x) amount
                    then (Inr BlockedDaily, s3)
                    else cd_record ops c now room user cat amount s3)))))"

section \<open>Keys\<close>

lemma room_cat_key [simp]: "room_key r \<noteq> cat_key c t" "cat_key c t \<noteq> room_key r"
  by (simp_all add: room_key_def cat_key_def K_def)

lemma user_cat_key [simp]: "user_key u r \<noteq> cat_key c t" "cat_key c t \<noteq> user_key u r"
  by (simp_all add: user_key_def cat_key_def K_def)

lemma room_user_key [simp]: "room_key r \<noteq> user_key u r'" "user_key u r' \<noteq> room_key r"
  by (simp_all add: room_key_def user_key_def K_def)

lemma cat_key_same_day: "t div day = t' div day \<Longrightarrow> cat_key c t = cat_key c t'"
  by (simp add: cat_key_def format_day_cong [of t t'])

lemma cat_key_inject: "t div day = t' div day \<Longrightarrow> cat_key c t = cat_key c' t' \<longleftrightarrow> c = c'"
  by (auto simp: cat_key_def K_def format_day_cong [of t t'])

lemma same_day_midnight: "t div day = d \<Longrightarrow> next_midnight t = (d + 1) * day"
  by (simp add: next_midnight_def)

section \<open>The daily total\<close>

text \<open>A sequence of \<open>Consume\<close> calls with their outcomes.\<close>

record consume_call =
  cc_now :: time
  cc_room :: string
  cc_user :: string
  cc_cat :: string
  cc_amount :: u32

fun cd_run ::
  "'s kv_ops \<Rightarrow> cooldown \<Rightarrow> consume_call list \<Rightarrow> 's \<Rightarrow> (go_error + cd_outcome) list \<times> 's" where
  "cd_run ops c [] s = ([], s)"
| "cd_run ops c (x # xs) s =
     (let (r, s') = cd_consume ops c (cc_now x) (cc_room x) (cc_user x) (cc_cat x) (cc_amount x) s;
          (rs, s'') = cd_run ops c xs s'
      in (r # rs, s''))"

text \<open>The grams of one cat that were let through.\<close>

fun fed :: "string \<Rightarrow> consume_call list \<Rightarrow> (go_error + cd_outcome) list \<Rightarrow> nat" where
  "fed cat (x # xs) (r # rs) =
     (if cc_cat x = cat \<and> r = Inr OK then unat (cc_amount x) else 0) + fed cat xs rs"
| "fed cat _ _ = 0"

lemma ucast_word_of_nat_u32: "n < 2 ^ 32 \<Longrightarrow> unat (ucast (word_of_nat n :: i64) :: u32) = n"
  by (simp add: unsigned_ucast_eq unsigned_of_nat take_bit_nat_eq_self)

lemma over_daily_count:
  assumes "g < 2 ^ 32" and "unat amount + g < 2 ^ 32"
  shows "over_daily limit (formatInt (word_of_nat g)) amount \<longleftrightarrow> unat limit < g + unat amount"
proof -
  have "sint (word_of_nat g :: i64) = int g" using assms(1) by (intro sint_of_nat_small) simp
  then have "parseInt (formatInt (word_of_nat g)) = word_of_nat g" by (intro parseInt_formatInt) simp
  then show ?thesis
    using assms ucast_word_of_nat_u32 [OF assms(1)]
    by (simp add: over_daily_def word_less_nat_alt unat_add_u32 add.commute)
qed

lemma over_daily_empty: "over_daily limit [] amount \<longleftrightarrow> unat limit < unat amount"
  by (simp add: over_daily_def parseInt_def word_less_nat_alt)

definition consume_verdict ::
  "('s \<Rightarrow> time \<Rightarrow> string \<Rightarrow> string option) \<Rightarrow> cooldown \<Rightarrow> time \<Rightarrow> string \<Rightarrow> string \<Rightarrow> string \<Rightarrow> u32 \<Rightarrow> 's \<Rightarrow> cd_outcome" where
  "consume_verdict live c now room user cat amount s =
     (if time_left now (live s now (room_key room)) \<noteq> None then BlockedRoom
      else if time_left now (live s now (user_key user room)) \<noteq> None then BlockedUser
      else if cd_daily c \<noteq> 0 \<and>
              over_daily (cd_daily c) (case live s now (cat_key cat now) of None \<Rightarrow> [] | Some v \<Rightarrow> v) amount
      then BlockedDaily else OK)"

text \<open>The stores after a read, a write and an increment, as names the simplifier does not unfold.\<close>

definition after_get where "after_get ops now k s = snd (op_get ops now k s)"
definition after_set where "after_set ops now k v ttl s = snd (op_set ops now k v ttl s)"
definition after_incr where "after_incr ops now k d ttl s = snd (op_incrby ops now k d ttl s)"

context kv_store begin

lemma get_eq: "op_get ops now k s = (Inr (live s now k), after_get ops now k s)"
  using get_val [of now k s] by (metis after_get_def prod.collapse)

lemma set_eq: "op_set ops now k v ttl s = (Inr (), after_set ops now k v ttl s)"
  using set_ok [of now k v ttl s] by (metis after_set_def prod.collapse)

lemma incr_eq: "op_incrby ops now k d ttl s = (Inr (count s now k + d), after_incr ops now k d ttl s)"
  using incr_val [of now k d ttl s] by (metis after_incr_def prod.collapse)

lemmas store_eqs = get_eq set_eq incr_eq

lemma after_get [simp]: 
  "now \<le> t \<Longrightarrow> live (after_get ops now k s) t = live s t"
  "now \<le> t \<Longrightarrow> count (after_get ops now k s) t = count s t"
  by (simp_all add: after_get_def get_live get_count)

lemma after_set [simp]:
  "k' \<noteq> k \<Longrightarrow> now \<le> t \<Longrightarrow> live (after_set ops now k v ttl s) t k' = live s t k'"
  "k' \<noteq> k \<Longrightarrow> now \<le> t \<Longrightarrow> count (after_set ops now k v ttl s) t k' = count s t k'"
  by (simp_all add: after_set_def set_frame)

lemma after_incr [simp]:
  "k' \<noteq> k \<Longrightarrow> now \<le> t \<Longrightarrow> live (after_incr ops now k d ttl s) t k' = live s t k'"
  "k' \<noteq> k \<Longrightarrow> now \<le> t \<Longrightarrow> count (after_incr ops now k d ttl s) t k' = count s t k'"
  by (simp_all add: after_incr_def incr_frame)

lemma after_set_live:
  "0 \<le> now \<Longrightarrow> 0 \<le> d \<Longrightarrow> now \<le> t \<Longrightarrow> t \<le> now + d \<Longrightarrow> live (after_set ops now k v (d + second) s) t k = Some v"
  using second_pos unfolding after_set_def by (intro set_live) linarith+

lemma after_incr_live:
  "0 \<le> now \<Longrightarrow> now \<le> t \<Longrightarrow> t < mid \<Longrightarrow> live s now k = None \<or> live s t k \<noteq> None \<Longrightarrow>
     live (after_incr ops now k d (mid - now) s) t k = Some (formatInt (count s now k + d)) \<and>
     count (after_incr ops now k d (mid - now) s) t k = count s now k + d"
  unfolding after_incr_def by (intro incr_live) auto

text \<open>The outcome of a check, read off the live values: no error, and which test decides.\<close>

lemma cd_check_val:
  "fst (cd_check ops c now room user cat amount s) =
     (case time_left now (live s now (room_key room)) of
        Some d \<Rightarrow> Inr (BlockedRoom, d)
      | None \<Rightarrow> (case time_left now (live s now (user_key user room)) of
          Some d \<Rightarrow> Inr (BlockedUser, d)
        | None \<Rightarrow>
            if cd_daily c \<noteq> 0 \<and> (\<exists>v. live s now (cat_key cat now) = Some v \<and> v \<noteq> [] \<and> over_daily (cd_daily c) v amount)
            then Inr (BlockedDaily, 0) else Inr (OK, 0)))"
  by (simp add: cd_check_def get_eq split: option.split)

lemma consume_blocked:
  assumes "consume_verdict live c now room user cat amount s \<noteq> OK"
  shows "fst (cd_consume ops c now room user cat amount s) = Inr (consume_verdict live c now room user cat amount s)"
    and "now \<le> t \<Longrightarrow> live (snd (cd_consume ops c now room user cat amount s)) t = live s t"
    and "now \<le> t \<Longrightarrow> count (snd (cd_consume ops c now room user cat amount s)) t = count s t"
  using assms
  by (auto simp add: cd_consume_def consume_verdict_def get_eq split: option.splits if_splits)

lemma consume_ok:
  assumes "consume_verdict live c now room user cat amount s = OK"
  shows "\<exists>s'. (\<forall>t \<ge> now. live s' t = live s t \<and> count s' t = count s t) \<and>
     cd_consume ops c now room user cat amount s = cd_record ops c now room user cat amount s'"
proof (rule exI, rule conjI)
  let ?s = "after_get ops now (user_key user room) (after_get ops now (room_key room) s)"
  let ?s' = "if cd_daily c = 0 then ?s else after_get ops now (cat_key cat now) ?s"
  show "\<forall>t \<ge> now. live ?s' t = live s t \<and> count ?s' t = count s t" by simp
  show "cd_consume ops c now room user cat amount s = cd_record ops c now room user cat amount ?s'"
    using assms by (auto simp add: cd_consume_def consume_verdict_def get_eq split: option.splits if_splits)
qed

lemma record_ok: "fst (cd_record ops c now room user cat amount s) = Inr OK"
  by (simp add: cd_record_def set_eq incr_eq)

lemma record_room:
  assumes "0 \<le> now" and "0 \<le> cd_room c" and "now \<le> t" and "t \<le> now + cd_room c"
  shows "live (snd (cd_record ops c now room user cat amount s)) t (room_key room)
           = Some (format_nano (now + cd_room c))"
  using assms by (simp add: cd_record_def set_eq incr_eq after_set_live)

lemma record_user:
  assumes "0 \<le> now" and "0 \<le> cd_user c" and "now \<le> t" and "t \<le> now + cd_user c"
  shows "live (snd (cd_record ops c now room user cat amount s)) t (user_key user room)
           = Some (format_nano (now + cd_user c))"
  using assms by (simp add: cd_record_def set_eq incr_eq after_set_live)

lemma record_cat:
  assumes "0 \<le> now" and "cd_daily c \<noteq> 0" and "now \<le> t" and "t < next_midnight now"
    and "live s now k = None \<or> live s t k \<noteq> None" and k: "k = cat_key cat now"
  shows "live (snd (cd_record ops c now room user cat amount s)) t k
           = Some (formatInt (count s now k + ucast amount)) \<and>
         count (snd (cd_record ops c now room user cat amount s)) t k = count s now k + ucast amount"
  using assms by (simp add: cd_record_def set_eq incr_eq) (auto simp: after_incr_live)

lemma record_frame:
  assumes "now \<le> t" and "k = cat_key cat' now" and "cat' \<noteq> cat \<or> cd_daily c = 0"
  shows "live (snd (cd_record ops c now room user cat amount s)) t k = live s t k \<and>
         count (snd (cd_record ops c now room user cat amount s)) t k = count s t k"
  using assms by (auto simp add: cd_record_def set_eq incr_eq cat_key_inject)

lemma consume_OK_verdict:
  "fst (cd_consume ops c now room user cat amount s) = Inr OK \<longleftrightarrow> consume_verdict live c now room user cat amount s = OK"
proof (cases "consume_verdict live c now room user cat amount s = OK")
  case True
  then show ?thesis using consume_ok [OF True] record_ok by fastforce
next
  case False
  then show ?thesis using consume_blocked(1) [OF False] by simp
qed

lemma check_after_consume:
  assumes ok: "fst (cd_consume ops c now room user cat amount s) = Inr OK"
    and "0 \<le> now" and "0 \<le> cd_room c" and "now \<le> t" and "t < now + cd_room c"
    and "calendar_time (now + cd_room c)"
  shows "fst (cd_check ops c t room user' cat' amount' (snd (cd_consume ops c now room user cat amount s)))
           = Inr (BlockedRoom, now + cd_room c - t)"
proof -
  from ok obtain s' where "cd_consume ops c now room user cat amount s = cd_record ops c now room user cat amount s'"
    using consume_OK_verdict consume_ok by blast
  then have "live (snd (cd_consume ops c now room user cat amount s)) t (room_key room)
      = Some (format_nano (now + cd_room c))"
    using assms record_room [of now c t] by simp
  then show ?thesis
    using assms by (simp add: cd_check_val time_left_def format_nano_nonempty parse_nano_or_zero_def parse_format_nano)
qed

text \<open>The state of one cat's counter up to midnight, when \<open>f\<close> grams have been let through.\<close>

definition day_counter :: "'s \<Rightarrow> string \<Rightarrow> time \<Rightarrow> time \<Rightarrow> nat \<Rightarrow> bool" where
  "day_counter s k now mid f \<longleftrightarrow>
     (\<forall>t. now \<le> t \<and> t < mid \<longrightarrow> live s t k = None) \<and> f = 0 \<or>
     (\<forall>t. now \<le> t \<and> t < mid \<longrightarrow> live s t k = Some (formatInt (word_of_nat f)) \<and> count s t k = word_of_nat f)"

lemma day_counter_later: "day_counter s k now mid f \<Longrightarrow> now \<le> now' \<Longrightarrow> day_counter s k now' mid f"
  unfolding day_counter_def by (meson order_trans)

lemma day_counter_same:
  "day_counter s k now mid f \<Longrightarrow> (\<And>t. now \<le> t \<Longrightarrow> live s' t k = live s t k \<and> count s' t k = count s t k) \<Longrightarrow>
   day_counter s' k now mid f"
  unfolding day_counter_def by auto

lemma day_counter_verdict:
  assumes "day_counter s (cat_key cat now) now (next_midnight now) f" and "cd_daily c \<noteq> 0"
    and "f \<le> unat (cd_daily c)" and "unat amount + unat (cd_daily c) < 2 ^ 32"
    and "consume_verdict live c now room user cat amount s = OK"
  shows "f + unat amount \<le> unat (cd_daily c)"
proof -
  have f: "f < 2 ^ 32" "unat amount + f < 2 ^ 32" using assms(3,4) by linarith+
  have "now < next_midnight now" by (rule next_midnight_after)
  with assms(1) have "live s now (cat_key cat now) = None \<and> f = 0 \<or>
      live s now (cat_key cat now) = Some (formatInt (word_of_nat f))"
    unfolding day_counter_def by (meson order_refl)
  then show ?thesis
  proof (elim disjE conjE)
    assume 1: "live s now (cat_key cat now) = None" "f = 0"
    have "\<not> over_daily (cd_daily c) [] amount"
      using assms(2,5) 1(1) by (simp add: consume_verdict_def split: if_splits)
    then show ?thesis using 1 by (simp add: over_daily_empty)
  next
    assume "live s now (cat_key cat now) = Some (formatInt (word_of_nat f))"
    then have "\<not> over_daily (cd_daily c) (formatInt (word_of_nat f)) amount"
      using assms(2,5) by (simp add: consume_verdict_def split: if_splits)
    then show ?thesis unfolding over_daily_count [OF f] by (rule leI)
  qed
qed

lemma day_counter_consume:
  assumes inv: "day_counter s (cat_key cat' now) now (next_midnight now) f" and "cd_daily c \<noteq> 0" and "0 \<le> now"
    and f': "f' = f + (if cat = cat' \<and> fst (cd_consume ops c now room user cat amount s) = Inr OK then unat amount else 0)"
  shows "day_counter (snd (cd_consume ops c now room user cat amount s)) (cat_key cat' now) now (next_midnight now) f'"
proof (cases "consume_verdict live c now room user cat amount s = OK")
  case False
  then have "f' = f" using f' consume_OK_verdict by simp
  with inv consume_blocked(2,3) [OF False] show ?thesis by (auto intro: day_counter_same)
next
  case True
  from consume_ok [OF True] obtain s' where
    same: "\<And>t. now \<le> t \<Longrightarrow> live s' t = live s t \<and> count s' t = count s t"
    and eq: "cd_consume ops c now room user cat amount s = cd_record ops c now room user cat amount s'" by blast
  have inv': "day_counter s' (cat_key cat' now) now (next_midnight now) f"
    using inv same by (auto intro: day_counter_same)
  show ?thesis
  proof (cases "cat = cat'")
    case False
    then have "f' = f" using f' by simp
    have "day_counter (snd (cd_record ops c now room user cat amount s')) (cat_key cat' now) now (next_midnight now) f"
      by (rule day_counter_same [OF inv' record_frame]) (use False in auto)
    then show ?thesis unfolding eq \<open>f' = f\<close> .
  next
    case cat: True
    have f'': "f' = f + unat amount" using f' cat True consume_OK_verdict by simp
    have before: "now < next_midnight now" by (rule next_midnight_after)
    have cnt: "count s' now (cat_key cat now) = word_of_nat f"
    proof (cases "live s' now (cat_key cat now) = None")
      case True
      then have "f = 0" using inv' before cat unfolding day_counter_def by auto
      then show ?thesis using count_absent [OF True] by simp
    next
      case False
      then show ?thesis using inv' before cat unfolding day_counter_def by auto
    qed
    have sum: "word_of_nat f + ucast amount = (word_of_nat f' :: i64)" using f'' by simp
    have "live (snd (cd_record ops c now room user cat amount s')) t (cat_key cat now)
            = Some (formatInt (word_of_nat f')) \<and>
          count (snd (cd_record ops c now room user cat amount s')) t (cat_key cat now) = word_of_nat f'"
      if "now \<le> t" "t < next_midnight now" for t
    proof -
      have "live s' now (cat_key cat now) = None \<or> live s' t (cat_key cat now) \<noteq> None"
        using inv' before cat that unfolding day_counter_def by auto
      then show ?thesis using record_cat [of now c t s' "cat_key cat now" cat room user amount] assms that cnt sum by simp
    qed
    then show ?thesis unfolding eq day_counter_def using cat by auto
  qed
qed

lemma fst_cd_run_Cons:
  "fst (cd_run ops c (x # xs) s) =
     (let r = cd_consume ops c (cc_now x) (cc_room x) (cc_user x) (cc_cat x) (cc_amount x) s
      in fst r # fst (cd_run ops c xs (snd r)))"
  by (simp add: Let_def split: prod.split)

lemma daily_total:
  assumes "cd_daily c \<noteq> 0" and "0 \<le> now"
    and "day_counter s (cat_key cat now) now (next_midnight now) f" and "f \<le> unat (cd_daily c)"
    and "sorted (now # map cc_now calls)" and "\<forall>x \<in> set calls. cc_now x div day = now div day"
    and "\<forall>x \<in> set calls. unat (cc_amount x) + unat (cd_daily c) < 2 ^ 32"
  shows "f + fed cat calls (fst (cd_run ops c calls s)) \<le> unat (cd_daily c)"
  using assms
proof (induction calls arbitrary: now s f)
  case Nil
  then show ?case by simp
next
  case (Cons x xs)
  define t where "t = cc_now x"
  define r where "r = cd_consume ops c t (cc_room x) (cc_user x) (cc_cat x) (cc_amount x) s"
  define f' where "f' = f + (if cc_cat x = cat \<and> fst r = Inr OK then unat (cc_amount x) else 0)"
  have t: "now \<le> t" "0 \<le> t" "t div day = now div day" using Cons.prems by (auto simp: t_def)
  have key: "cat_key cat t = cat_key cat now" using t(3) by (rule cat_key_same_day)
  have mid: "next_midnight t = next_midnight now" using t(3) by (simp add: next_midnight_def)
  have dt: "day_counter s (cat_key cat t) t (next_midnight t) f"
    using day_counter_later [OF Cons.prems(3) t(1)] by (simp add: key mid)
  have "f' \<le> unat (cd_daily c)"
  proof (cases "cc_cat x = cat \<and> fst r = Inr OK")
    case True
    then have "consume_verdict live c t (cc_room x) (cc_user x) cat (cc_amount x) s = OK"
      using consume_OK_verdict by (auto simp: r_def)
    moreover have "unat (cc_amount x) + unat (cd_daily c) < 2 ^ 32" using Cons.prems(7) by simp
    ultimately show ?thesis
      using True day_counter_verdict [OF dt Cons.prems(1,4)] by (simp add: f'_def)
  next
    case False
    then show ?thesis using Cons.prems(4) by (auto simp: f'_def)
  qed
  moreover have "day_counter (snd r) (cat_key cat t) t (next_midnight t) f'"
    unfolding r_def by (rule day_counter_consume [OF dt Cons.prems(1) t(2)]) (simp add: f'_def r_def)
  moreover have "\<forall>y \<in> set xs. cc_now y div day = t div day" using Cons.prems(6) t(3) by simp
  ultimately have "f' + fed cat xs (fst (cd_run ops c xs (snd r))) \<le> unat (cd_daily c)"
    using Cons.prems(5,7) by (intro Cons.IH [OF Cons.prems(1) t(2)]) (auto simp: t_def)
  then show ?case by (simp add: f'_def r_def t_def fst_cd_run_Cons Let_def add.assoc del: cd_run.simps)
qed

lemma fresh_day_counter: "live s now k = None \<Longrightarrow> day_counter s k now mid 0"
  using live_decays unfolding day_counter_def by blast

lemma consume_wraps:
  assumes "live s now (room_key room) = None" and "live s now (user_key user room) = None"
    and "live s now (cat_key cat now) = Some (formatInt (word_of_nat g))" and "0 < g" and "g < 2 ^ 32"
  shows "fst (cd_consume ops c now room user cat (word_of_nat (2 ^ 32 - g)) s) = Inr OK"
proof -
  have "sint (word_of_nat g :: i64) = int g" using assms(5) by (intro sint_of_nat_small) simp
  then have "parseInt (formatInt (word_of_nat g)) = word_of_nat g" by (intro parseInt_formatInt) simp
  moreover have "ucast (word_of_nat g :: i64) + word_of_nat (2 ^ 32 - g) = (0 :: u32)"
  proof -
    have "ucast (word_of_nat g :: i64) = (word_of_nat g :: u32)"
      using ucast_word_of_nat_u32 [OF assms(5)] assms(5)
      by (simp add: word_eq_iff_unsigned unsigned_of_nat take_bit_nat_eq_self)
    then have "ucast (word_of_nat g :: i64) + word_of_nat (2 ^ 32 - g) = (word_of_nat (g + (2 ^ 32 - g)) :: u32)"
      by (simp only: of_nat_add)
    also have "g + (2 ^ 32 - g) = 2 ^ 32" using assms(5) by simp
    finally show ?thesis by simp
  qed
  ultimately show ?thesis
    using assms(1-3) by (simp add: consume_OK_verdict consume_verdict_def time_left_def over_daily_def)
qed

end

section \<open>Properties\<close>

text \<open>After \<open>Consume\<close> has let a feeding through, \<open>Check\<close> answers \<open>BlockedRoom\<close> for that
  room, whoever asks, at every instant of the room's cooldown, with the exact time left, on every
  store that keeps the contract and so on \<open>MemoryStore\<close>.\<close>

theorem consume_blocks_room:
  assumes "fst (cd_consume mem_ops c now room user cat amount s) = Inr OK"
    and "0 \<le> now" and "0 \<le> cd_room c" and "now \<le> t" and "t < now + cd_room c"
    and "calendar_time (now + cd_room c)"
  shows "fst (cd_check mem_ops c t room user' cat' amount' (snd (cd_consume mem_ops c now room user cat amount s)))
           = Inr (BlockedRoom, now + cd_room c - t)"
  using assms by (rule mem.check_after_consume)

text \<open>C40: the daily budget of a cat.  Over any sequence of \<open>Consume\<close> calls of one day, in time
  order, for any rooms, users and cats, the grams let through for a cat never exceed
  \<open>DailyMaxGramPerCat\<close>, provided no single amount is so large that the \<open>uint32\<close> sum wraps.\<close>

theorem daily_budget_kept:
  assumes "cd_daily c \<noteq> 0" and "0 \<le> now" and "mem_live s now (cat_key cat now) = None"
    and "sorted (now # map cc_now calls)" and "\<forall>x \<in> set calls. cc_now x div day = now div day"
    and "\<forall>x \<in> set calls. unat (cc_amount x) + unat (cd_daily c) < 2 ^ 32"
  shows "fed cat calls (fst (cd_run mem_ops c calls s)) \<le> unat (cd_daily c)"
  using mem.daily_total [OF assms(1,2) mem.fresh_day_counter [OF assms(3)] _ assms(4-6)] by simp

text \<open>Without that proviso the budget is not kept: once \<open>g\<close> grams are recorded, a request
  for \<open>2^32 - g\<close> grams passes the check whatever the limit, because the \<open>uint32\<close> sum is 0.\<close>

theorem daily_budget_wraps:
  assumes "mem_live s now (room_key room) = None" and "mem_live s now (user_key user room) = None"
    and "mem_live s now (cat_key cat now) = Some (formatInt (word_of_nat g))" and "0 < g" and "g < 2 ^ 32"
  shows "fst (cd_consume mem_ops c now room user cat (word_of_nat (2 ^ 32 - g)) s) = Inr OK"
  using assms by (rule mem.consume_wraps)

text \<open>\<open>Check\<close> and \<open>Consume\<close> give the same verdict, with one exception: the first feeding of the
  day for a cat (no counter yet) of more than the daily limit.  There \<open>Check\<close> says \<open>OK\<close>, because it
  looks at the limit only when a counter exists, and \<open>Consume\<close> then refuses.\<close>

theorem check_consume_agree:
  "let check = fst (cd_check mem_ops c now room user cat amount s);
       consume = fst (cd_consume mem_ops c now room user cat amount s);
       gap = (cd_daily c \<noteq> 0 \<and> mem_live s now (cat_key cat now) \<in> {None, Some []} \<and> cd_daily c < amount)
   in if gap \<and> check = Inr (OK, 0) then consume = Inr BlockedDaily
      else \<exists>v d. check = Inr (v, d) \<and> consume = Inr v"
  using mem.consume_blocked(1) [of c now room user cat amount s] mem.consume_OK_verdict [of c now room user cat amount s]
  by (cases "consume_verdict mem_live c now room user cat amount s = OK")
    (auto simp: mem.cd_check_val consume_verdict_def over_daily_def parseInt_def Let_def split: option.splits if_splits)

text \<open>Witnesses: one day with a 5 gram portion, a blocked retry and the wrapping amount.\<close>

definition example_cooldown :: cooldown where
  "example_cooldown = \<lparr>cd_room = minute, cd_user = 2 * minute, cd_daily = 12\<rparr>"

definition example_fed :: mem_store where
  "example_fed = snd (cd_consume mem_ops example_cooldown 0 ''r1'' ''u1'' ''c1'' 5 Map.empty)"

lemma example_fed_ok: "fst (cd_consume mem_ops example_cooldown 0 ''r1'' ''u1'' ''c1'' 5 Map.empty) = Inr OK"
  by (simp add: mem.consume_OK_verdict consume_verdict_def time_left_def mem_live_def mem_gc_def
      example_cooldown_def over_daily_empty)

theorem consume_blocks_room_witness:
  "fst (cd_check mem_ops example_cooldown 1 ''r1'' ''u2'' ''c2'' 1 example_fed) = Inr (BlockedRoom, minute - 1)"
proof -
  have "calendar_time minute" by (intro calendar_time_small) (simp_all add: second_def day_def)
  then show ?thesis
    using consume_blocks_room [OF example_fed_ok, of 1 "''u2''" "''c2''" 1]
    by (simp add: example_fed_def) (simp add: example_cooldown_def second_def)
qed

theorem daily_budget_kept_witness:
  "fed ''c1'' [\<lparr>cc_now = 0, cc_room = ''r1'', cc_user = ''u1'', cc_cat = ''c1'', cc_amount = 5\<rparr>]
     (fst (cd_run mem_ops example_cooldown
        [\<lparr>cc_now = 0, cc_room = ''r1'', cc_user = ''u1'', cc_cat = ''c1'', cc_amount = 5\<rparr>] Map.empty)) \<le> 12"
  using daily_budget_kept [of example_cooldown 0 Map.empty "''c1''"
      "[\<lparr>cc_now = 0, cc_room = ''r1'', cc_user = ''u1'', cc_cat = ''c1'', cc_amount = 5\<rparr>]"]
  by (simp add: example_cooldown_def mem_live_def mem_gc_def)

theorem daily_budget_wraps_witness:
  "fst (cd_consume mem_ops example_cooldown hour ''r2'' ''u2'' ''c1'' (word_of_nat (2 ^ 32 - 5)) example_fed) = Inr OK"
proof (rule daily_budget_wraps)
  have day: "next_midnight 0 = 86400 * second" by (simp add: next_midnight_def day_def)
  have key: "cat_key ''c1'' hour = cat_key ''c1'' 0" by (rule cat_key_same_day) (simp add: day_def second_def)
  note defs = example_fed_def cd_consume_def cd_record_def mem_get_def mem_set_def mem_incrby_def mem_live_def
    mem_gc_def time_left_def example_cooldown_def over_daily_empty expiry_def is_zero_time_def second_def
    room_key_def user_key_def K_def cat_key_def
  show "mem_live example_fed hour (room_key ''r2'') = None" by (simp add: defs Let_def)
  show "mem_live example_fed hour (user_key ''u2'' ''r2'') = None" by (simp add: defs Let_def)
  show "mem_live example_fed hour (cat_key ''c1'' hour) = Some (formatInt (word_of_nat 5))"
    unfolding key by (simp add: defs Let_def day)
qed simp_all

end
