(* ===== verification/CooldownLimiter.thy ===== *)
theory CooldownLimiter
  imports CacheCooldown
begin

text \<open>
  \<^verbatim>\<open>go/pkg/yunmao/cooldown/cooldown.go\<close>: the in-process cooldown limiter, the predecessor of
  \<^verbatim>\<open>cache/cooldown.go\<close>: deadlines per room and per user and room, and \<open>uint32\<close> totals per cat and day.
\<close>

record limiter =
  li_cfg :: cooldown
  li_room :: "string \<rightharpoonup> time"
  li_user :: "string \<rightharpoonup> time"
  li_daily :: "string \<Rightarrow> u32"

definition limiter_new :: "duration \<Rightarrow> duration \<Rightarrow> u32 \<Rightarrow> limiter" where
  "limiter_new r u d = \<lparr>li_cfg = \<lparr>cd_room = r, cd_user = u, cd_daily = d\<rparr>, li_room = Map.empty, li_user = Map.empty, li_daily = (\<lambda>_. 0)\<rparr>"

definition limiter_user_key :: "string \<Rightarrow> string \<Rightarrow> string" where
  "limiter_user_key user room = user @ ''|'' @ room"

definition limiter_day_key :: "string \<Rightarrow> time \<Rightarrow> string" where
  "limiter_day_key cat now = cat @ '':'' @ format_day now"

definition wait_left :: "time \<Rightarrow> time option \<Rightarrow> duration option" where
  "wait_left now nxt = (case nxt of None \<Rightarrow> None | Some t \<Rightarrow> if now < t then Some (t - now) else None)"

definition limiter_check :: "time \<Rightarrow> string \<Rightarrow> string \<Rightarrow> string \<Rightarrow> u32 \<Rightarrow> limiter \<Rightarrow> cd_outcome \<times> duration" where
  "limiter_check now room user cat amount l =
     (case wait_left now (li_room l room) of
        Some d \<Rightarrow> (BlockedRoom, d)
      | None \<Rightarrow> (case wait_left now (li_user l (limiter_user_key user room)) of
          Some d \<Rightarrow> (BlockedUser, d)
        | None \<Rightarrow>
            if 0 < cd_daily (li_cfg l) \<and> cd_daily (li_cfg l) < li_daily l (limiter_day_key cat now) + amount
            then (BlockedDaily, 0) else (OK, 0)))"

definition limiter_consume :: "time \<Rightarrow> string \<Rightarrow> string \<Rightarrow> string \<Rightarrow> u32 \<Rightarrow> limiter \<Rightarrow> cd_outcome \<times> limiter" where
  "limiter_consume now room user cat amount l =
     (if wait_left now (li_room l room) \<noteq> None then (BlockedRoom, l)
      else if wait_left now (li_user l (limiter_user_key user room)) \<noteq> None then (BlockedUser, l)
      else let dk = limiter_day_key cat now in
        if 0 < cd_daily (li_cfg l) \<and> cd_daily (li_cfg l) < li_daily l dk + amount then (BlockedDaily, l)
        else (OK, l\<lparr>li_room := (li_room l)(room \<mapsto> now + cd_room (li_cfg l)),
                     li_user := (li_user l)(limiter_user_key user room \<mapsto> now + cd_user (li_cfg l)),
                     li_daily := (li_daily l)(dk := li_daily l dk + amount)\<rparr>))"

text \<open>Unlike in the cache version, \<open>Check\<close> and \<open>Consume\<close> always agree.\<close>

lemma limiter_check_consume:
  "fst (limiter_consume now room user cat amount l) = fst (limiter_check now room user cat amount l)"
  by (simp add: limiter_check_def limiter_consume_def Let_def split: option.split)

text \<open>
  The in-process limiter and the cache cooldown in step: the deadlines and totals the limiter holds
  are the ones the store shows, for the keys of one request.
\<close>

definition same_limits :: "limiter \<Rightarrow> mem_store \<Rightarrow> time \<Rightarrow> string \<Rightarrow> string \<Rightarrow> string \<Rightarrow> bool" where
  "same_limits l s now room user cat \<longleftrightarrow>
     time_left now (mem_live s now (room_key room)) = wait_left now (li_room l room) \<and>
     time_left now (mem_live s now (user_key user room)) = wait_left now (li_user l (limiter_user_key user room)) \<and>
     ucast (parseInt (case mem_live s now (cat_key cat now) of None \<Rightarrow> [] | Some v \<Rightarrow> v)) = li_daily l (limiter_day_key cat now)"

text \<open>The two cooldown implementations decide alike: whenever they hold the same deadlines and the
  same daily total for a request, \<open>Consume\<close> gives the same outcome on both, and after a success both
  block the room for the same time.\<close>

theorem limiter_agrees_with_cache:
  assumes "same_limits l s now room user cat"
  shows "fst (cd_consume mem_ops (li_cfg l) now room user cat amount s) =
      Inr (fst (limiter_consume now room user cat amount l)) \<and>
    (fst (limiter_consume now room user cat amount l) = OK \<and> 0 \<le> now \<and> 0 \<le> cd_room (li_cfg l) \<and>
        calendar_time (now + cd_room (li_cfg l)) \<and> now \<le> t \<and> t < now + cd_room (li_cfg l) \<longrightarrow>
      fst (limiter_check t room user' cat' amount' (snd (limiter_consume now room user cat amount l))) = BlockedRoom \<and>
      fst (cd_check mem_ops (li_cfg l) t room user' cat' amount' (snd (cd_consume mem_ops (li_cfg l) now room user cat amount s)))
        = Inr (limiter_check t room user' cat' amount' (snd (limiter_consume now room user cat amount l))))"
proof -
  have verdict: "consume_verdict mem_live (li_cfg l) now room user cat amount s = fst (limiter_consume now room user cat amount l)"
    using assms
    by (auto simp: consume_verdict_def limiter_consume_def same_limits_def over_daily_def Let_def word_gt_0)
  then have eq: "fst (cd_consume mem_ops (li_cfg l) now room user cat amount s) =
      Inr (fst (limiter_consume now room user cat amount l))"
    using mem.consume_blocked(1) mem.consume_OK_verdict by metis
  moreover have "fst (limiter_consume now room user cat amount l) = OK \<and> now \<le> t \<and> t < now + cd_room (li_cfg l) \<longrightarrow>
      limiter_check t room user' cat' amount' (snd (limiter_consume now room user cat amount l))
        = (BlockedRoom, now + cd_room (li_cfg l) - t)"
    by (auto simp: limiter_consume_def limiter_check_def wait_left_def Let_def)
  ultimately show ?thesis
    using mem.check_after_consume [of "li_cfg l" now room user cat amount s t user' cat' amount'] by auto
qed

theorem limiter_agrees_with_cache_witness:
  "fst (cd_consume mem_ops example_cooldown 0 ''r1'' ''u1'' ''c1'' 5 Map.empty) =
     Inr (fst (limiter_consume 0 ''r1'' ''u1'' ''c1'' 5 (limiter_new minute (2 * minute) 12)))"
  using limiter_agrees_with_cache [of "limiter_new minute (2 * minute) 12" Map.empty 0 "''r1''" "''u1''" "''c1''" 5]
  by (simp add: limiter_new_def same_limits_def mem_live_def mem_gc_def time_left_def wait_left_def parseInt_def example_cooldown_def)

end
