(* ===== verification/Ids.thy ===== *)
theory Ids
  imports AppErrors
begin

text \<open>
  \<^verbatim>\<open>go/pkg/yunmao/ids/ids.go\<close>: typed identifiers \<open>prefix_ULID\<close>.  The ULID library is a
  parameter: \<open>u\<close> is the text of a fresh ULID and \<open>parse\<close> the library's parser.
\<close>

definition prefixes :: "string list" where
  "prefixes = [''usr'', ''cat'', ''room'', ''dev'', ''feed'', ''cmd'', ''ord'', ''stm'', ''sess'', ''msg'', ''hold'']"

definition prefix_valid :: "string \<Rightarrow> bool" where
  "prefix_valid p \<longleftrightarrow> p \<in> set prefixes"

text \<open>\<open>New\<close> panics (\<open>None\<close>) on an unknown prefix.\<close>

definition ids_new :: "string \<Rightarrow> string \<Rightarrow> string option" where
  "ids_new p u = (if prefix_valid p then Some (p @ ''_'' @ u) else None)"

text \<open>
  \<open>strings.IndexByte\<close> finds the first underscore; an index of 0 (empty prefix) is refused like
  a missing one.
\<close>

definition ids_parse :: "(string \<Rightarrow> go_error + 'u) \<Rightarrow> string \<Rightarrow> go_error + (string \<times> 'u)" where
  "ids_parse parse s =
     (let p = takeWhile (\<lambda>c. c \<noteq> CHR ''_'') s; rest = dropWhile (\<lambda>c. c \<noteq> CHR ''_'') s
      in if rest = [] \<or> p = [] then Inl (Plain ''missing prefix separator'')
         else if \<not> prefix_valid p then Inl (Plain (''unknown prefix '' @ [CHR 0x22] @ p @ [CHR 0x22]))
         else (case parse (tl rest) of Inl e \<Rightarrow> Inl e | Inr u \<Rightarrow> Inr (p, u)))"

lemma prefix_no_separator: "prefix_valid p \<Longrightarrow> p \<noteq> [] \<and> CHR ''_'' \<notin> set p"
  by (auto simp: prefix_valid_def prefixes_def)

lemma ids_parse_compose:
  assumes "prefix_valid p"
  shows "ids_parse parse (p @ ''_'' @ u) = (case parse u of Inl e \<Rightarrow> Inl e | Inr v \<Rightarrow> Inr (p, v))"
  using assms prefix_no_separator [OF assms]
  by (simp add: ids_parse_def takeWhile_neq_append dropWhile_neq_append)

text \<open>Every identifier \<open>New\<close> makes parses back to its prefix and its ULID, and whatever
  \<open>Parse\<close> accepts is a valid prefix, an underscore and a text the ULID library accepts; the same
  ULID under two prefixes gives two identifiers.\<close>

theorem ids_roundtrip:
  "(ids_new p u = Some s \<longrightarrow> ids_parse parse s = (case parse u of Inl e \<Rightarrow> Inl e | Inr v \<Rightarrow> Inr (p, v))) \<and>
   (ids_parse parse s = Inr (p, v) \<longleftrightarrow>
      (\<exists>t. s = p @ ''_'' @ t \<and> prefix_valid p \<and> parse t = Inr v))"
proof (intro conjI impI iffI)
  assume "ids_new p u = Some s"
  then show "ids_parse parse s = (case parse u of Inl e \<Rightarrow> Inl e | Inr v \<Rightarrow> Inr (p, v))"
    unfolding ids_new_def by (metis ids_parse_compose option.distinct(1) option.inject)
next
  assume ok: "ids_parse parse s = Inr (p, v)"
  let ?p = "takeWhile (\<lambda>c. c \<noteq> CHR ''_'') s" and ?r = "dropWhile (\<lambda>c. c \<noteq> CHR ''_'') s"
  from ok have r: "?r \<noteq> []" "p = ?p" "prefix_valid p" "parse (tl ?r) = Inr v"
    by (auto simp: ids_parse_def Let_def split: if_splits sum.splits)
  moreover have "hd ?r = CHR ''_''" using hd_dropWhile [OF r(1)] by simp
  then have "?r = CHR ''_'' # tl ?r" using r(1) by (metis list.collapse)
  ultimately show "\<exists>t. s = p @ ''_'' @ t \<and> prefix_valid p \<and> parse t = Inr v"
    by (metis append_Cons append_Nil takeWhile_dropWhile_id)
next
  assume "\<exists>t. s = p @ ''_'' @ t \<and> prefix_valid p \<and> parse t = Inr v"
  then show "ids_parse parse s = Inr (p, v)" using ids_parse_compose [of p parse] by auto
qed

theorem ids_roundtrip_witness:
  "ids_parse (\<lambda>t. if size t = 3 then Inr t else Inl (Plain ''ulid: bad length'')) ''usr_01A'' = Inr (''usr'', ''01A'')"
proof -
  have "ids_new ''usr'' ''01A'' = Some ''usr_01A''"
    by (simp add: ids_new_def prefix_valid_def prefixes_def)
  then show ?thesis
    using ids_roundtrip [of "''usr''" "''01A''" "''usr_01A''"
        "\<lambda>t. if size t = 3 then Inr t else Inl (Plain ''ulid: bad length'')" undefined] by simp
qed

end
