(* ===== verification/Events.thy ===== *)
theory Events
  imports AppErrors GoTime
begin

text \<open>
  \<^verbatim>\<open>go/pkg/yunmao/cloudevents/cloudevents.go\<close> and the data part of
  \<^verbatim>\<open>go/pkg/yunmao/eventbus/eventbus.go\<close>: topics, the CloudEvents envelope and the outbox event
  both services attach to their writes.  The fresh UUID and the clock reading of \<open>New\<close> are
  arguments; the JSON encoder is a parameter.
\<close>

section \<open>Topics\<close>

datatype topic =
    FeedRequestCreated | FeedCommandRequested | FeedCommandDispatched | FeedCommandAcked
  | FeedCommandCompleted | FeedCommandFailed | FeedCommandCancelled | FeedCommandCancelledAcked
  | DeviceStateChanged | DeviceCommandRejected | LiveStreamOnline | LiveStreamOffline
  | LiveStreamQualityDrop | OrderCreated | OrderPaid | OrderRefunded | WalletReserved
  | WalletConfirmed | WalletCancelled | ChatMessageTopic | ChatModerationTopic | OtherTopic string

fun topic_string :: "topic \<Rightarrow> string" where
  "topic_string FeedRequestCreated = ''feed.request.created''"
| "topic_string FeedCommandRequested = ''feed.command.requested''"
| "topic_string FeedCommandDispatched = ''feed.command.dispatched''"
| "topic_string FeedCommandAcked = ''feed.command.acked''"
| "topic_string FeedCommandCompleted = ''feed.command.completed''"
| "topic_string FeedCommandFailed = ''feed.command.failed''"
| "topic_string FeedCommandCancelled = ''feed.command.cancelled''"
| "topic_string FeedCommandCancelledAcked = ''feed.command.cancelled_acked''"
| "topic_string DeviceStateChanged = ''device.state.changed''"
| "topic_string DeviceCommandRejected = ''device.command.rejected''"
| "topic_string LiveStreamOnline = ''live.stream.online''"
| "topic_string LiveStreamOffline = ''live.stream.offline''"
| "topic_string LiveStreamQualityDrop = ''live.stream.quality_drop''"
| "topic_string OrderCreated = ''order.created''"
| "topic_string OrderPaid = ''order.paid''"
| "topic_string OrderRefunded = ''order.refunded''"
| "topic_string WalletReserved = ''wallet.reserved''"
| "topic_string WalletConfirmed = ''wallet.confirmed''"
| "topic_string WalletCancelled = ''wallet.cancelled''"
| "topic_string ChatMessageTopic = ''room.chat.message''"
| "topic_string ChatModerationTopic = ''room.chat.moderation''"
| "topic_string (OtherTopic s) = s"

text \<open>A topic read from its text, as the conversion \<open>Topic(s)\<close> does.\<close>

definition all_topics :: "topic list" where
  "all_topics = [FeedRequestCreated, FeedCommandRequested, FeedCommandDispatched, FeedCommandAcked, FeedCommandCompleted,
     FeedCommandFailed, FeedCommandCancelled, FeedCommandCancelledAcked, DeviceStateChanged, DeviceCommandRejected,
     LiveStreamOnline, LiveStreamOffline, LiveStreamQualityDrop, OrderCreated, OrderPaid, OrderRefunded, WalletReserved,
     WalletConfirmed, WalletCancelled, ChatMessageTopic, ChatModerationTopic]"

definition topic_of :: "string \<Rightarrow> topic" where
  "topic_of s = (case map_of (map (\<lambda>t. (topic_string t, t)) all_topics) s of None \<Rightarrow> OtherTopic s | Some t \<Rightarrow> t)"

lemma topic_of_string: "\<forall>s. t \<noteq> OtherTopic s \<Longrightarrow> topic_of (topic_string t) = t"
  by (cases t) (simp_all add: topic_of_def all_topics_def)

lemma topic_string_of [simp]: "topic_string (topic_of s) = s"
  by (auto simp: topic_of_def dest!: map_of_SomeD split: option.split)

definition topic_dlq :: "topic \<Rightarrow> topic" where
  "topic_dlq t = OtherTopic (topic_string t @ ''.dlq'')"

lemma topic_string_nonempty: "t \<noteq> OtherTopic [] \<Longrightarrow> topic_string t \<noteq> []"
  by (cases t) auto

section \<open>CloudEvents\<close>

text \<open>The values the services put into an event's \<open>data\<close>; \<open>JRaw\<close> is a text passed on as it came.\<close>

datatype json =
    JNull
  | JRaw string
  | JStr string
  | JInt int
  | JBool bool
  | JStrs "string list"
  | JObj "(string \<times> json) list"

record cloud_event =
  ce_id :: string
  ce_source :: string
  ce_type :: string
  ce_subject :: string
  ce_time :: time
  ce_specversion :: string
  ce_datacontenttype :: string
  ce_data :: "(string \<times> json) list"

definition ce_new :: "string \<Rightarrow> time \<Rightarrow> string \<Rightarrow> string \<Rightarrow> string \<Rightarrow> (string \<times> json) list \<Rightarrow> cloud_event" where
  "ce_new uuid now ty src sub dat =
     \<lparr>ce_id = uuid, ce_source = src, ce_type = ty, ce_subject = sub, ce_time = now,
      ce_specversion = ''1.0'', ce_datacontenttype = ''application/json'', ce_data = dat\<rparr>"

section \<open>Envelopes and outbox events\<close>

definition ce_headers :: "topic \<Rightarrow> (string \<times> string) list" where
  "ce_headers t = [(''content-type'', ''application/cloudevents+json''), (''ce-type'', topic_string t)]"

record envelope =
  env_topic :: topic
  env_key :: string
  env_headers :: "(string \<times> string) list"
  env_payload :: string

definition new_envelope :: "(cloud_event \<Rightarrow> go_error + string) \<Rightarrow> topic \<Rightarrow> string \<Rightarrow> cloud_event \<Rightarrow> go_error + envelope" where
  "new_envelope marshal t key ev =
     (case marshal ev of
        Inl e \<Rightarrow> Inl (Wrap ''marshal cloudevent'' e)
      | Inr p \<Rightarrow> Inr \<lparr>env_topic = t, env_key = key, env_headers = ce_headers t, env_payload = p\<rparr>)"

record outbox_event =
  oe_topic :: topic
  oe_key :: string
  oe_event :: cloud_event
  oe_headers :: "(string \<times> string) list option"

text \<open>The fresh values a handler draws: an identifier, an event UUID and two clock readings.\<close>

record fresh =
  fr_id :: string
  fr_uuid :: string
  fr_now :: time
  fr_event_now :: time

definition ce_for :: "string \<Rightarrow> fresh \<Rightarrow> topic \<Rightarrow> string \<Rightarrow> string \<Rightarrow> (string \<times> json) list \<Rightarrow> outbox_event" where
  "ce_for src fr t key sub dat =
     \<lparr>oe_topic = t, oe_key = key,
      oe_event = ce_new (fr_uuid fr) (fr_event_now fr) (topic_string t) src sub dat,
      oe_headers = Some (ce_headers t)\<rparr>"

end
