(* ===== verification/Sql.thy ===== *)
theory Sql
  imports Events
begin

text \<open>
  What the stores rely on of PostgreSQL and its driver: a transaction whose body failed, or whose
  commit failed, leaves the database as it was.  Any statement may fail: \<open>flt\<close> gives the error of
  each named statement, \<open>None\<close> when the driver reports none.
\<close>

type_synonym faults = "string \<Rightarrow> go_error option"

definition no_faults :: faults where
  "no_faults = (\<lambda>_. None)"

lemma no_faults [simp]: "no_faults (c # st) = None"
  by (simp add: no_faults_def)

text \<open>One statement: its fault, wrapped with the text the code adds, or its effect.\<close>

definition stmt :: "faults \<Rightarrow> string \<Rightarrow> (go_error \<Rightarrow> go_error) \<Rightarrow> ('d \<Rightarrow> (go_error, 'a, 'd) outcome) \<Rightarrow> 'd \<Rightarrow> (go_error, 'a, 'd) outcome" where
  "stmt flt name wrap eff d = (case flt name of Some e \<Rightarrow> (Inl (wrap e), d) | None \<Rightarrow> eff d)"

lemma stmt_no_faults [simp]: "stmt no_faults name wrap eff d = eff d"
  by (simp add: stmt_def no_faults_def)

definition and_then :: "('d \<Rightarrow> (go_error, 'a, 'd) outcome) \<Rightarrow> ('a \<Rightarrow> 'd \<Rightarrow> (go_error, 'b, 'd) outcome) \<Rightarrow> 'd \<Rightarrow> (go_error, 'b, 'd) outcome" where
  "and_then m f d = (case m d of (Inl e, d') \<Rightarrow> (Inl e, d') | (Inr a, d') \<Rightarrow> f a d')"

text \<open>\<open>runTx\<close>: begin, the body, commit; the deferred rollback undoes a body that failed.\<close>

definition runTx :: "faults \<Rightarrow> ('d \<Rightarrow> (go_error, 'a, 'd) outcome) \<Rightarrow> 'd \<Rightarrow> (go_error, 'a, 'd) outcome" where
  "runTx flt body d =
     (case flt ''begin'' of Some e \<Rightarrow> (Inl e, d)
      | None \<Rightarrow> (case body d of
          (Inl e, _) \<Rightarrow> (Inl e, d)
        | (Inr a, d') \<Rightarrow> (case flt ''commit'' of Some e \<Rightarrow> (Inl e, d) | None \<Rightarrow> (Inr a, d'))))"

lemma runTx_error: "fst (runTx flt body d) = Inl e \<Longrightarrow> snd (runTx flt body d) = d"
  by (auto simp: runTx_def split: option.splits prod.splits sum.splits)

lemma runTx_ok: "runTx flt body d = (Inr a, d') \<Longrightarrow> body d = (Inr a, d')"
  by (auto simp: runTx_def split: option.splits prod.splits sum.splits)

lemma runTx_no_faults:
  "runTx no_faults body d = (case body d of (Inl e, _) \<Rightarrow> (Inl e, d) | (Inr a, d') \<Rightarrow> (Inr a, d'))"
  by (simp add: runTx_def split: prod.split sum.split)

end
