(* ===== verification/Outbox.thy ===== *)
theory Outbox
  imports Sql
begin

text \<open>
  \<^verbatim>\<open>go/pkg/yunmao/db/outbox.go\<close>: the outbox table, the insertion the services make in their
  own transaction, and one batch of the relay worker.  The publisher (Kafka or HTTP) is a function
  on a state of its own; \<open>wait i n\<close> says whether the back-off timer fired after attempt \<open>n\<close> for row
  \<open>i\<close> (false: the context was cancelled or \<open>Stop\<close> was called); \<open>locked\<close> are the rows other workers
  hold (\<open>SKIP LOCKED\<close>).  Metrics and the worker's sleep are left out.
\<close>

section \<open>Rows\<close>

record outbox_row =
  or_id :: int
  or_topic :: string
  or_key :: string
  or_payload :: string
  or_headers :: "(string \<times> string) list option"
  or_region :: string
  or_created :: time

text \<open>The tables \<open>outbox\<close> (each row with its \<open>published_at\<close>, in the order of ids) and
  \<open>outbox_dlq\<close> (rows with a reason), and the next value of the id sequence.\<close>

record outbox_db =
  ob_table :: "(outbox_row \<times> time option) list"
  ob_dlq :: "(outbox_row \<times> string) list"
  ob_next :: int

definition stored_row :: "time \<Rightarrow> int \<Rightarrow> outbox_row \<Rightarrow> outbox_row" where
  "stored_row now i row =
     row\<lparr>or_id := i, or_created := now,
         or_region := (if or_region row = [] then ''global'' else or_region row),
         or_headers := Some (case or_headers row of None \<Rightarrow> [] | Some h \<Rightarrow> h)\<rparr>"

definition InsertOutbox :: "faults \<Rightarrow> time \<Rightarrow> outbox_row \<Rightarrow> outbox_db \<Rightarrow> (go_error, int, outbox_db) outcome" where
  "InsertOutbox flt now row d =
     (if or_topic row = [] then (Inl (Plain ''outbox: topic required''), d)
      else if or_payload row = [] then (Inl (Plain ''outbox: payload required''), d)
      else stmt flt ''insert outbox'' (Wrap ''outbox: insert'')
        (\<lambda>d. (Inr (ob_next d),
          d\<lparr>ob_table := ob_table d @ [(stored_row now (ob_next d) row, None)], ob_next := ob_next d + 1\<rparr>)) d)"

definition fetch_rows :: "(int \<Rightarrow> bool) \<Rightarrow> int \<Rightarrow> outbox_db \<Rightarrow> outbox_row list" where
  "fetch_rows locked batch d =
     take (nat (if batch \<le> 0 then 64 else batch))
       (map fst (filter (\<lambda>(r, p). p = None \<and> \<not> locked (or_id r)) (ob_table d)))"

definition FetchUnpublished :: "faults \<Rightarrow> (int \<Rightarrow> bool) \<Rightarrow> int \<Rightarrow> outbox_db \<Rightarrow> (go_error, outbox_row list, outbox_db) outcome" where
  "FetchUnpublished flt locked batch d =
     stmt flt ''fetch outbox'' (Wrap ''outbox: fetch'') (\<lambda>d. (Inr (fetch_rows locked batch d), d)) d"

definition MarkPublished :: "faults \<Rightarrow> time \<Rightarrow> int list \<Rightarrow> outbox_db \<Rightarrow> (go_error, unit, outbox_db) outcome" where
  "MarkPublished flt now is d =
     (if is = [] then (Inr (), d)
      else stmt flt ''mark published'' (\<lambda>e. e)
        (\<lambda>d. (Inr (), d\<lparr>ob_table := map (\<lambda>(r, p). (r, if or_id r \<in> set is then Some now else p)) (ob_table d)\<rparr>)) d)"

definition MarkDLQ :: "faults \<Rightarrow> outbox_row \<Rightarrow> string \<Rightarrow> outbox_db \<Rightarrow> (go_error, unit, outbox_db) outcome" where
  "MarkDLQ flt row reason d =
     and_then (stmt flt (''insert dlq '' @ dec_int (or_id row)) (\<lambda>e. e)
        (\<lambda>d. (Inr (), if or_id row \<in> or_id ` fst ` set (ob_dlq d) then d
                      else d\<lparr>ob_dlq := ob_dlq d @ [(row, reason)]\<rparr>)))
       (\<lambda>_. stmt flt (''delete outbox '' @ dec_int (or_id row)) (\<lambda>e. e)
        (\<lambda>d. (Inr (), d\<lparr>ob_table := filter (\<lambda>(r, p). or_id r \<noteq> or_id row) (ob_table d)\<rparr>))) d"

section \<open>The relay\<close>

record relay_config =
  rc_batch :: int
  rc_interval :: duration
  rc_max_attempts :: int
  rc_concurrency :: int

definition DefaultRelayConfig :: relay_config where
  "DefaultRelayConfig = \<lparr>rc_batch = 64, rc_interval = second, rc_max_attempts = 5, rc_concurrency = 1\<rparr>"

text \<open>\<open>NewRelay\<close> replaces every non-positive setting by its default.\<close>

definition NewRelay :: "relay_config \<Rightarrow> relay_config" where
  "NewRelay c =
     \<lparr>rc_batch = (if rc_batch c \<le> 0 then 64 else rc_batch c),
      rc_interval = (if rc_interval c \<le> 0 then second else rc_interval c),
      rc_max_attempts = (if rc_max_attempts c \<le> 0 then 5 else rc_max_attempts c),
      rc_concurrency = (if rc_concurrency c \<le> 0 then 1 else rc_concurrency c)\<rparr>"

text \<open>The doubling loop of \<open>defaultBackoff\<close>; it stops once the delay has reached two seconds.\<close>

function backoff_loop :: "int \<Rightarrow> int \<Rightarrow> duration \<Rightarrow> duration" where
  "backoff_loop i attempt d = (if i < attempt \<and> d < 2 * second then backoff_loop (i + 1) attempt (d * 2) else d)"
  by auto
termination by (relation "measure (\<lambda>(i, n, d). nat (n - i))") auto

declare backoff_loop.simps [simp del]

definition defaultBackoff :: "int \<Rightarrow> duration" where
  "defaultBackoff attempt = (let d = backoff_loop 0 attempt 100000000 in if 2 * second < d then 2 * second else d)"

text \<open>\<open>publishWithRetry\<close>, from an attempt on.  No wait follows the last attempt.\<close>

type_synonym 'p publisher = "outbox_row \<Rightarrow> 'p \<Rightarrow> go_error option \<times> 'p"

function publish_from :: "'p publisher \<Rightarrow> (nat \<Rightarrow> bool) \<Rightarrow> nat \<Rightarrow> outbox_row \<Rightarrow> nat \<Rightarrow> 'p \<Rightarrow> bool \<times> 'p" where
  "publish_from pub wait mx row attempt p =
     (if mx \<le> attempt then (False, p)
      else (case pub row p of
          (None, p') \<Rightarrow> (True, p')
        | (Some e, p') \<Rightarrow>
            if attempt < mx - 1 \<and> \<not> wait attempt then (False, p')
            else publish_from pub wait mx row (attempt + 1) p'))"
  by auto
termination by (relation "measure (\<lambda>(pub, wait, mx, row, attempt, p). mx - attempt)") auto

declare publish_from.simps [simp del]

definition publishWithRetry :: "'p publisher \<Rightarrow> (int \<Rightarrow> nat \<Rightarrow> bool) \<Rightarrow> relay_config \<Rightarrow> outbox_row \<Rightarrow> 'p \<Rightarrow> bool \<times> 'p" where
  "publishWithRetry pub wait c row p = publish_from pub (wait (or_id row)) (nat (rc_max_attempts c)) row 0 p"

text \<open>The loop of \<open>processBatch\<close> over the fetched rows, with the ids published so far.\<close>

fun relay_rows ::
  "faults \<Rightarrow> 'p publisher \<Rightarrow> (int \<Rightarrow> nat \<Rightarrow> bool) \<Rightarrow> relay_config \<Rightarrow> outbox_row list \<Rightarrow> int list \<Rightarrow> outbox_db \<Rightarrow> 'p \<Rightarrow>
   (int list \<times> go_error option) \<times> outbox_db \<times> 'p" where
  "relay_rows flt pub wait c [] acc d p = ((acc, None), d, p)"
| "relay_rows flt pub wait c (row # rows) acc d p =
     (case publishWithRetry pub wait c row p of
        (True, p') \<Rightarrow> relay_rows flt pub wait c rows (acc @ [or_id row]) d p'
      | (False, p') \<Rightarrow> (case MarkDLQ flt row ''max attempts exceeded'' d of
          (Inl e, d') \<Rightarrow> ((acc, Some (Wrap ''mark dlq'' e)), d', p')
        | (Inr _, d') \<Rightarrow> relay_rows flt pub wait c rows acc d' p'))"

definition processBatch ::
  "faults \<Rightarrow> 'p publisher \<Rightarrow> (int \<Rightarrow> nat \<Rightarrow> bool) \<Rightarrow> relay_config \<Rightarrow> (int \<Rightarrow> bool) \<Rightarrow> time \<Rightarrow> outbox_db \<Rightarrow> 'p \<Rightarrow>
   (nat \<times> go_error option) \<times> outbox_db \<times> 'p" where
  "processBatch flt pub wait c locked now d p =
     (case flt ''begin'' of Some e \<Rightarrow> ((0, Some e), d, p)
      | None \<Rightarrow> (case fst (FetchUnpublished flt locked (rc_batch c) d) of
          Inl e \<Rightarrow> ((0, Some e), d, p)
        | Inr rows \<Rightarrow>
            if rows = [] then ((0, None), d, p)
            else (case relay_rows flt pub wait c rows [] d p of
              ((acc, Some e), _, p') \<Rightarrow> ((length acc, Some e), d, p')
            | ((acc, None), d', p') \<Rightarrow> (case MarkPublished flt now acc d' of
                (Inl e, _) \<Rightarrow> ((0, Some (Wrap ''mark published'' e)), d, p')
              | (Inr _, d'') \<Rightarrow> (case flt ''commit'' of
                  Some e \<Rightarrow> ((0, Some e), d, p')
                | None \<Rightarrow> ((length acc, None), d'', p'))))))"


section \<open>What a batch does\<close>

text \<open>Ids are unique over both tables, and the next id is fresh.\<close>

definition outbox_wf :: "outbox_db \<Rightarrow> bool" where
  "outbox_wf d \<longleftrightarrow>
     distinct (map (or_id \<circ> fst) (ob_table d)) \<and>
     (\<forall>r \<in> fst ` set (ob_table d) \<union> fst ` set (ob_dlq d). or_id r < ob_next d) \<and>
     or_id ` fst ` set (ob_table d) \<inter> or_id ` fst ` set (ob_dlq d) = {}"

lemma stored_row_id [simp]: "or_id (stored_row now i row) = i" "or_topic (stored_row now i row) = or_topic row"
  by (simp_all add: stored_row_def)

lemma InsertOutbox_ok:
  assumes "InsertOutbox flt now row d = (Inr i, d')"
  shows "d' = d\<lparr>ob_table := ob_table d @ [(stored_row now (ob_next d) row, None)], ob_next := ob_next d + 1\<rparr>"
  using assms by (auto simp: InsertOutbox_def stmt_def split: if_splits option.splits)

lemma InsertOutbox_wf:
  assumes "outbox_wf d" and "InsertOutbox flt now row d = (Inr i, d')"
  shows "outbox_wf d'"
proof -
  note d' = InsertOutbox_ok [OF assms(2)]
  have lt: "\<forall>r \<in> fst ` set (ob_table d) \<union> fst ` set (ob_dlq d). or_id r < ob_next d"
    using assms(1) by (simp add: outbox_wf_def)
  then have "ob_next d \<notin> or_id ` fst ` set (ob_table d)" "ob_next d \<notin> or_id ` fst ` set (ob_dlq d)"
    by (metis UnI1 imageE order_less_irrefl, metis UnI2 imageE order_less_irrefl)
  moreover have "\<forall>r \<in> fst ` set (ob_table d) \<union> fst ` set (ob_dlq d). or_id r < ob_next d + 1"
    using lt by (meson less_add_one order_less_trans)
  ultimately show ?thesis using assms(1) by (simp add: outbox_wf_def d' image_comp)
qed

text \<open>A publisher that also records the rows it accepted.\<close>

definition recording :: "'p publisher \<Rightarrow> ('p \<times> outbox_row list) publisher" where
  "recording pub row st =
     (case pub row (fst st) of
        (None, p') \<Rightarrow> (None, (p', snd st @ [row]))
      | (Some e, p') \<Rightarrow> (Some e, (p', snd st)))"

lemma publish_from_recording:
  "publish_from (recording pub) wait mx row a st = (ok, st') \<Longrightarrow>
     snd st' = snd st @ (if ok then [row] else [])"
proof (induction "recording pub" wait mx row a st rule: publish_from.induct)
  case (1 wait mx row a st)
  then show ?case
    by (subst (asm) publish_from.simps) (auto simp: recording_def split: if_splits option.splits prod.splits)
qed

definition dlq_all :: "outbox_row list \<Rightarrow> outbox_db \<Rightarrow> outbox_db" where
  "dlq_all rows d =
     d\<lparr>ob_dlq := ob_dlq d @ map (\<lambda>r. (r, ''max attempts exceeded'')) rows,
       ob_table := filter (\<lambda>(r, p). or_id r \<notin> or_id ` set rows) (ob_table d)\<rparr>"

lemma dlq_all_Nil [simp]: "dlq_all [] d = d"
  by (simp add: dlq_all_def case_prod_unfold)

lemma dlq_all_Cons: "dlq_all (r # rs) d = dlq_all rs (dlq_all [r] d)"
  by (simp add: dlq_all_def case_prod_unfold conj_commute)

lemma MarkDLQ_ok:
  assumes "MarkDLQ flt row ''max attempts exceeded'' d = (Inr u, d')" and "or_id row \<notin> or_id ` fst ` set (ob_dlq d)"
  shows "d' = dlq_all [row] d"
  using assms by (auto simp: MarkDLQ_def and_then_def stmt_def dlq_all_def split: option.splits)

lemma relay_rows_ok:
  assumes "relay_rows flt (recording pub) wait c rows acc d st = ((acc', None), d', st')"
    and "distinct (map or_id rows)" and "or_id ` set rows \<inter> or_id ` fst ` set (ob_dlq d) = {}"
  shows "\<exists>ok. snd st' = snd st @ filter ok rows \<and> acc' = acc @ map or_id (filter ok rows) \<and>
     d' = dlq_all (filter (\<lambda>r. \<not> ok r) rows) d"
  using assms
proof (induction rows arbitrary: acc d st)
  case Nil
  then show ?case by auto
next
  case (Cons row rows)
  obtain ok1 st1 where pub: "publishWithRetry (recording pub) wait c row st = (ok1, st1)" by (rule prod.exhaust)
  then have log: "snd st1 = snd st @ (if ok1 then [row] else [])"
    unfolding publishWithRetry_def by (rule publish_from_recording)
  have notin: "row \<notin> set rows" using Cons.prems(2) by auto
  show ?case
  proof (cases ok1)
    case True
    from Cons.IH [of "acc @ [or_id row]" d st1] Cons.prems pub True obtain ok where
      ok: "snd st' = snd st1 @ filter ok rows" "acc' = (acc @ [or_id row]) @ map or_id (filter ok rows)"
        "d' = dlq_all (filter (\<lambda>r. \<not> ok r) rows) d" by auto
    have "filter (ok(row := True)) (row # rows) = row # filter ok rows"
      "filter (\<lambda>r. \<not> (ok(row := True)) r) (row # rows) = filter (\<lambda>r. \<not> ok r) rows"
      using notin by (auto intro!: filter_cong split: if_splits)
    with ok log True show ?thesis
      by (intro exI [of _ "ok(row := True)"]) (simp del: filter.simps fun_upd_apply)
  next
    case False
    then obtain u d1 where dlq: "MarkDLQ flt row ''max attempts exceeded'' d = (Inr u, d1)"
      using Cons.prems(1) pub by (auto split: prod.splits sum.splits)
    have d1: "d1 = dlq_all [row] d" using MarkDLQ_ok [OF dlq] Cons.prems(3) by simp
    have "or_id ` set rows \<inter> or_id ` fst ` set (ob_dlq d1) = {}"
      using Cons.prems(2,3) d1 by (auto simp: dlq_all_def)
    with Cons.IH [of acc d1 st1] Cons.prems pub False dlq obtain ok where
      ok: "snd st' = snd st1 @ filter ok rows" "acc' = acc @ map or_id (filter ok rows)"
        "d' = dlq_all (filter (\<lambda>r. \<not> ok r) rows) d1" by auto
    have "filter (ok(row := False)) (row # rows) = filter ok rows"
      "filter (\<lambda>r. \<not> (ok(row := False)) r) (row # rows) = row # filter (\<lambda>r. \<not> ok r) rows"
      using notin by (auto intro!: filter_cong split: if_splits)
    with ok d1 log False show ?thesis
      by (intro exI [of _ "ok(row := False)"]) (simp add: dlq_all_Cons [of row "filter _ _"] del: filter.simps fun_upd_apply)
  qed
qed

lemma outbox_wf_fetch:
  assumes "outbox_wf d"
  shows "distinct (map or_id (fetch_rows locked b d))"
    and "or_id ` set (fetch_rows locked b d) \<inter> or_id ` fst ` set (ob_dlq d) = {}"
    and "set (fetch_rows locked b d) \<subseteq> fst ` set (ob_table d)"
proof -
  have "distinct (map or_id (map fst (filter P (ob_table d))))" for P
    using assms by (simp add: outbox_wf_def comp_def distinct_map_filter)
  then show "distinct (map or_id (fetch_rows locked b d))"
    unfolding fetch_rows_def take_map [symmetric] by (rule distinct_take)
  have sub: "set (take n (map fst (filter P (ob_table d)))) \<subseteq> fst ` set (ob_table d)" for n P
    by (auto dest!: in_set_takeD)
  then show "set (fetch_rows locked b d) \<subseteq> fst ` set (ob_table d)" by (simp add: fetch_rows_def)
  then show "or_id ` set (fetch_rows locked b d) \<inter> or_id ` fst ` set (ob_dlq d) = {}"
    by (rule subset_disjoint [OF image_mono]) (use assms in \<open>simp add: outbox_wf_def\<close>)
qed

text \<open>The table after the accepted rows were marked.\<close>

definition mark_all :: "time \<Rightarrow> outbox_row list \<Rightarrow> outbox_db \<Rightarrow> outbox_db" where
  "mark_all now rows d =
     d\<lparr>ob_table := map (\<lambda>(r, p). (r, if or_id r \<in> or_id ` set rows then Some now else p)) (ob_table d)\<rparr>"

lemma MarkPublished_ok:
  assumes "MarkPublished flt now (map or_id rows) d = (Inr u, d')"
  shows "d' = mark_all now rows d"
  using assms by (auto simp: MarkPublished_def stmt_def mark_all_def case_prod_unfold split: if_splits option.splits)

text \<open>What a committed batch of the relay did.  The fetched rows split into those the
  publisher accepted, in the order of their ids, and the others; exactly the accepted rows are
  marked published and counted, exactly the others are moved to the dead-letter table with a reason,
  and every other row of the outbox is as before.  No row is lost and none is marked without having
  been accepted.\<close>

theorem relay_batch_accounting:
  assumes "outbox_wf d"
    and "processBatch flt (recording pub) wait c locked now d (p, []) = ((n, None), d', (p', log))"
  shows "\<exists>ok. let rows = fetch_rows locked (rc_batch c) d in
     log = filter ok rows \<and> n = length log \<and>
     d' = mark_all now log (dlq_all (filter (\<lambda>r. \<not> ok r) rows) d)"
proof (cases "fetch_rows locked (rc_batch c) d = []")
  case True
  then show ?thesis
    using assms(2) by (auto simp: processBatch_def FetchUnpublished_def stmt_def mark_all_def case_prod_unfold split: option.splits)
next
  case False
  let ?rows = "fetch_rows locked (rc_batch c) d"
  obtain acc r d1 st1 where rel: "relay_rows flt (recording pub) wait c ?rows [] d (p, []) = ((acc, r), d1, st1)"
    by (metis prod.exhaust)
  have r: "r = None" "st1 = (p', log)" "n = length acc"
    and mark: "\<exists>u. MarkPublished flt now acc d1 = (Inr u, d')"
    using assms(2) False rel
    by (auto simp: processBatch_def FetchUnpublished_def stmt_def split: option.splits prod.splits sum.splits)
  obtain ok where ok: "log = filter ok ?rows" "acc = map or_id (filter ok ?rows)"
      "d1 = dlq_all (filter (\<lambda>r. \<not> ok r) ?rows) d"
    using relay_rows_ok [OF rel [unfolded r] outbox_wf_fetch(1,2) [OF assms(1)]] by auto
  moreover obtain u where "MarkPublished flt now acc d1 = (Inr u, d')" using mark by blast
  ultimately show ?thesis
    using MarkPublished_ok r(3) by (auto simp: Let_def intro!: exI [of _ ok])
qed

text \<open>A batch that reports an error has changed nothing in the database, so every row it
  had already handed to the publisher will be fetched again: delivery is at least once.\<close>

theorem relay_batch_at_least_once:
  assumes "processBatch flt pub wait c locked now d p = ((n, Some e), d', p')"
  shows "d' = d \<and> fetch_rows locked b d' = fetch_rows locked b d"
  using assms
  by (auto simp: processBatch_def FetchUnpublished_def stmt_def split: option.splits prod.splits sum.splits if_splits)


section \<open>Progress of the relay\<close>

text \<open>The rows still to publish, in the order of ids.\<close>

definition pending :: "outbox_db \<Rightarrow> outbox_row list" where
  "pending d = map fst (filter (\<lambda>(r, p). p = None) (ob_table d))"

fun relay_n ::
  "nat \<Rightarrow> faults \<Rightarrow> 'p publisher \<Rightarrow> (int \<Rightarrow> nat \<Rightarrow> bool) \<Rightarrow> relay_config \<Rightarrow> (int \<Rightarrow> bool) \<Rightarrow> time \<Rightarrow> outbox_db \<Rightarrow> 'p \<Rightarrow> outbox_db \<times> 'p" where
  "relay_n 0 flt pub wait c locked now d p = (d, p)"
| "relay_n (Suc k) flt pub wait c locked now d p =
     (case processBatch flt pub wait c locked now d p of (_, d', p') \<Rightarrow> relay_n k flt pub wait c locked now d' p')"

definition accepting :: "'p publisher \<Rightarrow> bool" where
  "accepting pub \<longleftrightarrow> (\<forall>r p. fst (pub r p) = None)"

lemma publish_accepting:
  assumes "accepting pub" and "0 < rc_max_attempts c"
  shows "publishWithRetry (recording pub) wait c row st = (True, (snd (pub row (fst st)), snd st @ [row]))"
proof -
  have "fst (pub row (fst st)) = None" using assms(1) by (simp add: accepting_def)
  then have "recording pub row st = (None, (snd (pub row (fst st)), snd st @ [row]))"
    by (cases "pub row (fst st)") (simp add: recording_def)
  then show ?thesis using assms(2) by (simp add: publishWithRetry_def publish_from.simps [of _ _ _ _ 0])
qed

lemma relay_rows_accepting:
  assumes "accepting pub" and "0 < rc_max_attempts c"
  shows "\<exists>p'. relay_rows flt (recording pub) wait c rows acc d st =
     ((acc @ map or_id rows, None), d, (p', snd st @ rows))"
proof (induction rows arbitrary: acc st)
  case Nil
  then show ?case by (cases st) auto
next
  case (Cons row rows)
  from Cons [of "acc @ [or_id row]" "(snd (pub row (fst st)), snd st @ [row])"]
  show ?case using publish_accepting [OF assms, of wait row st] by simp
qed

lemma fetch_rows_pending: "0 < b \<Longrightarrow> fetch_rows (\<lambda>_. False) b d = take (nat b) (pending d)"
  by (simp add: fetch_rows_def pending_def)

lemma batch_accepting:
  assumes "accepting pub" and "0 < rc_max_attempts c" and "0 < rc_batch c"
  shows "\<exists>p'. processBatch no_faults (recording pub) wait c (\<lambda>_. False) now d st =
     ((length (take (nat (rc_batch c)) (pending d)), None),
      mark_all now (take (nat (rc_batch c)) (pending d)) d,
      (p', snd st @ take (nat (rc_batch c)) (pending d)))"
proof -
  let ?rows = "take (nat (rc_batch c)) (pending d)"
  obtain p' where p': "relay_rows no_faults (recording pub) wait c ?rows [] d st =
      ((map or_id ?rows, None), d, (p', snd st @ ?rows))"
    using relay_rows_accepting [OF assms(1,2), of no_faults wait ?rows "[]" d st] by auto
  show ?thesis
  proof (cases "?rows = []")
    case True
    then have "fetch_rows (\<lambda>_. False) (rc_batch c) d = []" by (simp add: fetch_rows_pending [OF assms(3)])
    then show ?thesis unfolding True
      by (intro exI [of _ "fst st"]) (simp add: processBatch_def FetchUnpublished_def mark_all_def case_prod_unfold)
  next
    case False
    then show ?thesis
      by (intro exI [of _ p'])
        (simp add: processBatch_def FetchUnpublished_def fetch_rows_pending [OF assms(3)] p' MarkPublished_def
          mark_all_def case_prod_unfold)
  qed
qed

lemma pending_mark_all:
  assumes "outbox_wf d"
  shows "pending (mark_all now (take n (pending d)) d) = drop n (pending d)" and "outbox_wf (mark_all now rows d)"
proof -
  have dist: "distinct (map or_id (pending d))"
    using assms by (simp add: pending_def outbox_wf_def comp_def distinct_map_filter)
  have "map fst (filter (\<lambda>(r, p). p = None) (map (\<lambda>(r, p). (r, if A r then Some now else p)) t)) =
      filter (\<lambda>r. \<not> A r) (map fst (filter (\<lambda>(r, p). p = None) t))" for A and t :: "(outbox_row \<times> time option) list"
    by (induction t) auto
  then have "pending (mark_all now rows d) = filter (\<lambda>r. or_id r \<notin> or_id ` set rows) (pending d)" for rows
    by (simp add: pending_def mark_all_def)
  moreover have "filter (\<lambda>r. or_id r \<notin> or_id ` set (take n xs)) xs = drop n xs"
    if "distinct (map or_id xs)" for xs :: "outbox_row list"
    using that
  proof (induction xs arbitrary: n)
    case (Cons x xs)
    then show ?case
    proof (cases n)
      case (Suc m)
      have "filter (\<lambda>r. or_id r \<notin> insert (or_id x) (or_id ` set (take m xs))) xs
          = filter (\<lambda>r. or_id r \<notin> or_id ` set (take m xs)) xs"
        using Cons.prems by (intro filter_cong) (auto simp: image_iff)
      with Cons Suc show ?thesis by simp
    qed simp
  qed simp
  ultimately show "pending (mark_all now (take n (pending d)) d) = drop n (pending d)" using dist by simp
  show "outbox_wf (mark_all now rows d)"
    using assms by (simp add: outbox_wf_def mark_all_def comp_def case_prod_unfold image_image)
qed

lemma relay_n_accepting:
  assumes "accepting pub" and "0 < rc_max_attempts c" and "0 < rc_batch c" and "outbox_wf d"
  shows "pending (fst (relay_n k no_faults (recording pub) wait c (\<lambda>_. False) now d st)) =
           drop (k * nat (rc_batch c)) (pending d) \<and>
         snd (snd (relay_n k no_faults (recording pub) wait c (\<lambda>_. False) now d st)) =
           snd st @ take (k * nat (rc_batch c)) (pending d)"
  using assms(4)
proof (induction k arbitrary: d st)
  case (Suc k)
  obtain p' where b: "processBatch no_faults (recording pub) wait c (\<lambda>_. False) now d st =
     ((length (take (nat (rc_batch c)) (pending d)), None),
      mark_all now (take (nat (rc_batch c)) (pending d)) d,
      (p', snd st @ take (nat (rc_batch c)) (pending d)))"
    using batch_accepting [OF assms(1-3)] by blast
  show ?case
    using Suc.IH [OF pending_mark_all(2) [OF Suc.prems]]
    by (simp add: b pending_mark_all(1) [OF Suc.prems] add.commute take_add [symmetric])
qed simp

text \<open>C7: the relay drains the outbox.  With a publisher that accepts, a database that answers and
  no competing worker, \<open>k\<close> batches of size \<open>b\<close> deliver the first \<open>k * b\<close> pending rows, each
  once and in the order of their ids, and nothing stays pending once \<open>k * b\<close> reaches their number.\<close>

theorem relay_drains:
  assumes "accepting pub" and "0 < rc_max_attempts c" and "0 < rc_batch c" and "outbox_wf d"
    and "length (pending d) \<le> k * nat (rc_batch c)"
    and "relay_n k no_faults (recording pub) wait c (\<lambda>_. False) now d (p, []) = (d', (p', log))"
  shows "pending d' = [] \<and> log = pending d"
  using relay_n_accepting [OF assms(1-4), of k wait now "(p, [])"] assms(5,6) by simp


section \<open>Stopping the relay, and its back-off\<close>

text \<open>What \<open>Stop\<close> does to a row that is being retried.  If the publisher refuses the first
  attempt and the stop signal comes during the back-off, the row leaves the outbox for the
  dead-letter table as \<open>max attempts exceeded\<close> after one attempt, however many are configured.\<close>

theorem stop_dead_letters_row:
  assumes "1 < rc_max_attempts c" and "0 < rc_batch c" and "pub row p = (Some e, p')" and "\<not> wait (or_id row) 0"
    and "ob_table d = [(row, None)]" and "ob_dlq d = []"
  shows "processBatch no_faults pub wait c (\<lambda>_. False) now d p =
    ((0, None), d\<lparr>ob_table := [], ob_dlq := [(row, ''max attempts exceeded'')]\<rparr>, p')"
proof -
  have "fetch_rows (\<lambda>_. False) (rc_batch c) d = [row]" using assms(2,5) by (simp add: fetch_rows_def)
  moreover have "publishWithRetry pub wait c row p = (False, p')"
    using assms by (simp add: publishWithRetry_def publish_from.simps [of _ _ _ _ 0])
  moreover have "MarkDLQ no_faults row ''max attempts exceeded'' d =
      (Inr (), d\<lparr>ob_table := [], ob_dlq := [(row, ''max attempts exceeded'')]\<rparr>)"
    using assms(5,6) by (simp add: MarkDLQ_def and_then_def)
  ultimately show ?thesis by (simp add: processBatch_def FetchUnpublished_def MarkPublished_def)
qed

lemma backoff_loop_value:
  "i \<le> n \<Longrightarrow> 0 < d \<Longrightarrow>
     min (2 * second) (backoff_loop (int i) (int n) d) = min (2 * second) (d * 2 ^ (n - i))"
proof (induction "n - i" arbitrary: i d)
  case 0
  then show ?case by (simp add: backoff_loop.simps [of "int i"])
next
  case (Suc k)
  then have i: "i < n" "n - i = Suc (n - Suc i)" by auto
  show ?case
  proof (cases "d < 2 * second")
    case True
    have "backoff_loop (int i) (int n) d = backoff_loop (int (Suc i)) (int n) (d * 2)"
      using i True by (simp add: backoff_loop.simps [of "int i"] add.commute)
    then show ?thesis using Suc.hyps(1) [of "Suc i" "d * 2"] Suc.hyps(2) Suc.prems i by (simp add: mult.assoc)
  next
    case False
    have "d \<le> d * 2 ^ (n - i)" using Suc.prems by (simp add: mult_le_cancel_left1)
    with False show ?thesis by (simp add: backoff_loop.simps [of "int i"] min_def)
  qed
qed

text \<open>The back-off after attempt \<open>n\<close> is 100 ms doubled \<open>n\<close> times and capped at two
  seconds; it never decreases from one attempt to the next.\<close>

theorem backoff_is_capped_doubling:
  "defaultBackoff (int n) = min (2 * second) (100000000 * 2 ^ n) \<and>
   defaultBackoff (int n) \<le> defaultBackoff (int (n + 1))"
proof -
  have "defaultBackoff (int m) = min (2 * second) (100000000 * 2 ^ m)" for m
    using backoff_loop_value [of 0 m 100000000] by (auto simp: defaultBackoff_def Let_def min_def split: if_splits)
  moreover have "(100000000 :: int) * 2 ^ n \<le> 100000000 * 2 ^ (n + 1)" by simp
  ultimately show ?thesis by (metis min.mono order_refl)
qed

section \<open>Witnesses\<close>

definition example_row :: "int \<Rightarrow> outbox_row" where
  "example_row i = \<lparr>or_id = i, or_topic = ''order.paid'', or_key = ''k'', or_payload = ''{}'', or_headers = None,
     or_region = ''global'', or_created = 0\<rparr>"

definition example_outbox :: outbox_db where
  "example_outbox = \<lparr>ob_table = [(example_row 1, None), (example_row 2, None)], ob_dlq = [], ob_next = 3\<rparr>"

text \<open>A publisher that refuses the row with id 1.\<close>

definition example_pub :: "nat publisher" where
  "example_pub r n = (if or_id r = 1 then Some (Plain ''broker down'') else None, n + 1)"

lemma example_outbox_wf: "outbox_wf example_outbox"
  by (simp add: outbox_wf_def example_outbox_def example_row_def)

definition example_config :: relay_config where
  "example_config = NewRelay \<lparr>rc_batch = 0, rc_interval = 0, rc_max_attempts = 2, rc_concurrency = 0\<rparr>"

lemmas publish_two = publish_from.simps [of _ _ _ _ 0] publish_from.simps [of _ _ _ _ "Suc 0"] publish_from.simps [of _ _ _ _ "Suc (Suc 0)"]

lemma example_batch:
  "processBatch no_faults (recording example_pub) (\<lambda>_ _. True) example_config
     (\<lambda>_. False) 9 example_outbox (0, []) =
   ((1, None), \<lparr>ob_table = [(example_row 2, Some 9)], ob_dlq = [(example_row 1, ''max attempts exceeded'')], ob_next = 3\<rparr>,
    (3, [example_row 2]))"
  by (simp add: processBatch_def FetchUnpublished_def fetch_rows_def example_outbox_def example_config_def NewRelay_def publishWithRetry_def
      publish_two recording_def example_pub_def MarkDLQ_def and_then_def MarkPublished_def) (simp add: example_row_def)

theorem relay_batch_accounting_witness:
  "\<exists>ok. let rows = fetch_rows (\<lambda>_. False) (rc_batch example_config) example_outbox in
     [example_row 2] = filter ok rows \<and> 1 = length [example_row 2] \<and>
     \<lparr>ob_table = [(example_row 2, Some 9)], ob_dlq = [(example_row 1, ''max attempts exceeded'')], ob_next = 3\<rparr>
       = mark_all 9 [example_row 2] (dlq_all (filter (\<lambda>r. \<not> ok r) rows) example_outbox)"
  by (rule relay_batch_accounting [OF example_outbox_wf example_batch])

theorem relay_batch_at_least_once_witness:
  "fst (snd (processBatch (\<lambda>st. if st = ''commit'' then Some (Plain ''conn reset'') else None) example_pub
     (\<lambda>_ _. True) DefaultRelayConfig (\<lambda>_. False) 9 (example_outbox\<lparr>ob_table := [(example_row 2, None)]\<rparr>) 0))
   = example_outbox\<lparr>ob_table := [(example_row 2, None)]\<rparr>"
  (is "fst (snd ?b) = ?d")
proof -
  have "?b = ((0, Some (Plain ''conn reset'')), ?d, 1)"
    by (simp add: processBatch_def FetchUnpublished_def fetch_rows_def stmt_def example_outbox_def DefaultRelayConfig_def
        publishWithRetry_def publish_two example_pub_def MarkPublished_def) (simp add: example_row_def)
  then show ?thesis using relay_batch_at_least_once by fastforce
qed

theorem relay_drains_witness:
  "pending (fst (relay_n 2 no_faults (recording (\<lambda>r n. (None, n + (1::nat)))) (\<lambda>_ _. True) (DefaultRelayConfig\<lparr>rc_batch := 1\<rparr>)
     (\<lambda>_. False) 9 example_outbox (0, []))) = []"
  (is "pending (fst ?r) = []")
proof -
  obtain d' p' log where r: "?r = (d', (p', log))" by (metis prod.exhaust)
  have "accepting (\<lambda>r n. (None, n + (1::nat)))" by (simp add: accepting_def)
  moreover have "length (pending example_outbox) \<le> 2 * nat 1" by (simp add: pending_def example_outbox_def)
  ultimately have "pending d' = []"
    using relay_drains [OF _ _ _ example_outbox_wf _ r] by (simp add: DefaultRelayConfig_def)
  then show ?thesis using r by simp
qed

theorem stop_dead_letters_row_witness:
  "processBatch no_faults example_pub (\<lambda>_ _. False) DefaultRelayConfig (\<lambda>_. False) 9
     (example_outbox\<lparr>ob_table := [(example_row 1, None)]\<rparr>) 0 =
   ((0, None), example_outbox\<lparr>ob_table := [], ob_dlq := [(example_row 1, ''max attempts exceeded'')]\<rparr>, 1)"
  using stop_dead_letters_row [of DefaultRelayConfig example_pub "example_row 1" 0 "Plain ''broker down''" 1 "\<lambda>_ _. False"
      "example_outbox\<lparr>ob_table := [(example_row 1, None)]\<rparr>" 9]
  by (simp add: DefaultRelayConfig_def example_pub_def example_row_def example_outbox_def)

end
