(* ===== verification/BillingStore.thy ===== *)
theory BillingStore
  imports Outbox
begin

text \<open>
  \<^verbatim>\<open>go/services/billing-svc/internal/store/store.go\<close>: orders, wallets and wallet holds, the
  \<open>Store\<close> interface and its in-process implementation.  Amounts are \<open>int64\<close> fen.  The
  contract of the wallet half of the interface is the locale \<open>wallet_store\<close>: every operation
  behaves as the corresponding operation of an abstract ledger.
\<close>

section \<open>Data\<close>

record order =
  o_id :: string
  o_user :: string
  o_channel :: string
  o_biz :: string
  o_amount :: u32
  o_status :: string
  o_idem :: string
  o_region :: string
  o_created :: time
  o_updated :: time
  o_paid_at :: time
  o_refunded_at :: time

record wallet_balance =
  wb_user :: string
  wb_balance :: i64
  wb_reserved :: i64
  wb_region :: string
  wb_updated :: time

record wallet_hold =
  wh_id :: string
  wh_user :: string
  wh_room :: string
  wh_cat :: string
  wh_amount :: i64
  wh_grams :: u32
  wh_idem :: string
  wh_status :: string
  wh_feed_request :: string
  wh_region :: string
  wh_created :: time
  wh_updated :: time
  wh_expires :: time

definition ErrNotFound :: go_error where "ErrNotFound = Sentinel ''billing store: order not found''"
definition ErrAlreadyPaid :: go_error where "ErrAlreadyPaid = Sentinel ''billing store: order already paid''"
definition ErrInsufficient :: go_error where "ErrInsufficient = Sentinel ''billing store: insufficient funds''"
definition ErrAlreadyTerminal :: go_error where "ErrAlreadyTerminal = Sentinel ''billing store: hold already terminal''"

text \<open>A nil dereference, which Go turns into a panic.\<close>

definition nil_deref :: go_error where
  "nil_deref = Plain ''panic: runtime error: invalid memory address or nil pointer dereference''"

text \<open>The interface; where an implementation reads the clock, the reading is the first argument.\<close>

record 's billing_ops =
  bo_create_order :: "order \<Rightarrow> outbox_event list \<Rightarrow> 's \<Rightarrow> (go_error, unit, 's) outcome"
  bo_mark_paid :: "string \<Rightarrow> time \<Rightarrow> outbox_event list \<Rightarrow> 's \<Rightarrow> (go_error, order, 's) outcome"
  bo_refund :: "string \<Rightarrow> time \<Rightarrow> outbox_event list \<Rightarrow> 's \<Rightarrow> (go_error, order, 's) outcome"
  bo_get_order :: "string \<Rightarrow> 's \<Rightarrow> go_error + order"
  bo_reserve_hold :: "time \<Rightarrow> wallet_hold \<Rightarrow> outbox_event list \<Rightarrow> 's \<Rightarrow> (go_error, wallet_hold, 's) outcome"
  bo_confirm_hold :: "time \<Rightarrow> string \<Rightarrow> time \<Rightarrow> outbox_event list \<Rightarrow> 's \<Rightarrow> (go_error, wallet_hold, 's) outcome"
  bo_cancel_hold :: "time \<Rightarrow> string \<Rightarrow> time \<Rightarrow> outbox_event list \<Rightarrow> 's \<Rightarrow> (go_error, wallet_hold, 's) outcome"
  bo_get_hold :: "string \<Rightarrow> 's \<Rightarrow> go_error + wallet_hold"
  bo_get_wallet :: "string \<Rightarrow> 's \<Rightarrow> go_error + wallet_balance"
  bo_topup :: "time \<Rightarrow> string \<Rightarrow> i64 \<Rightarrow> 's \<Rightarrow> (go_error, unit, 's) outcome"

section \<open>memoryStore: orders\<close>

record bmem =
  bm_orders :: "string \<rightharpoonup> order"
  bm_wallets :: "string \<rightharpoonup> wallet_balance"
  bm_holds :: "string \<rightharpoonup> wallet_hold"
  bm_idx :: "string \<rightharpoonup> string"

definition bmem_new :: bmem where
  "bmem_new = \<lparr>bm_orders = Map.empty, bm_wallets = Map.empty, bm_holds = Map.empty, bm_idx = Map.empty\<rparr>"

definition bmem_create_order :: "order \<Rightarrow> outbox_event list \<Rightarrow> bmem \<Rightarrow> (go_error, unit, bmem) outcome" where
  "bmem_create_order ord ev s =
     (if bm_orders s (o_id ord) \<noteq> None then (Inl (Plain ''duplicate order id''), s)
      else (Inr (), s\<lparr>bm_orders := (bm_orders s)(o_id ord \<mapsto> ord)\<rparr>))"

definition bmem_mark_paid :: "string \<Rightarrow> time \<Rightarrow> outbox_event list \<Rightarrow> bmem \<Rightarrow> (go_error, order, bmem) outcome" where
  "bmem_mark_paid i t ev s =
     (case bm_orders s i of
        None \<Rightarrow> (Inl ErrNotFound, s)
      | Some ord \<Rightarrow>
          if o_status ord = ''paid'' then (Inl ErrAlreadyPaid, s)
          else let ord' = ord\<lparr>o_status := ''paid'', o_paid_at := t, o_updated := t\<rparr>
               in (Inr ord', s\<lparr>bm_orders := (bm_orders s)(i \<mapsto> ord')\<rparr>))"

definition bmem_refund :: "string \<Rightarrow> time \<Rightarrow> outbox_event list \<Rightarrow> bmem \<Rightarrow> (go_error, order, bmem) outcome" where
  "bmem_refund i t ev s =
     (case bm_orders s i of
        None \<Rightarrow> (Inl ErrNotFound, s)
      | Some ord \<Rightarrow>
          let ord' = ord\<lparr>o_status := ''refunded'', o_refunded_at := t, o_updated := t\<rparr>
          in (Inr ord', s\<lparr>bm_orders := (bm_orders s)(i \<mapsto> ord')\<rparr>))"

definition bmem_get_order :: "string \<Rightarrow> bmem \<Rightarrow> go_error + order" where
  "bmem_get_order i s = (case bm_orders s i of None \<Rightarrow> Inl ErrNotFound | Some ord \<Rightarrow> Inr ord)"

section \<open>memoryStore: wallets\<close>

text \<open>\<open>ensureWallet\<close> inserts an empty wallet and returns it.\<close>

definition ensureWallet :: "time \<Rightarrow> string \<Rightarrow> string \<Rightarrow> bmem \<Rightarrow> wallet_balance \<times> bmem" where
  "ensureWallet now user region s =
     (case bm_wallets s user of
        Some w \<Rightarrow> (w, s)
      | None \<Rightarrow>
          let w = \<lparr>wb_user = user, wb_balance = 0, wb_reserved = 0, wb_region = region, wb_updated = now\<rparr>
          in (w, s\<lparr>bm_wallets := (bm_wallets s)(user \<mapsto> w)\<rparr>))"

definition idx_key :: "string \<Rightarrow> string \<Rightarrow> string" where
  "idx_key user idem = user @ ''|'' @ idem"

definition bmem_reserve_hold :: "time \<Rightarrow> wallet_hold \<Rightarrow> outbox_event list \<Rightarrow> bmem \<Rightarrow> (go_error, wallet_hold, bmem) outcome" where
  "bmem_reserve_hold now h ev s =
     (let key = idx_key (wh_user h) (wh_idem h)
      in case bm_idx s key of
        Some i \<Rightarrow> (case bm_holds s i of Some h' \<Rightarrow> (Inr h', s) | None \<Rightarrow> (Inl nil_deref, s))
      | None \<Rightarrow>
          let (w, s1) = ensureWallet now (wh_user h) (wh_region h) s
          in if sint (wb_balance w - wb_reserved w) < sint (wh_amount h) then (Inl ErrInsufficient, s1)
             else (Inr h, s1\<lparr>bm_wallets := (bm_wallets s1)(wh_user h \<mapsto> w\<lparr>wb_reserved := wb_reserved w + wh_amount h, wb_updated := now\<rparr>),
                             bm_holds := (bm_holds s1)(wh_id h \<mapsto> h),
                             bm_idx := (bm_idx s1)(key \<mapsto> wh_id h)\<rparr>))"

definition bmem_confirm_hold :: "time \<Rightarrow> string \<Rightarrow> time \<Rightarrow> outbox_event list \<Rightarrow> bmem \<Rightarrow> (go_error, wallet_hold, bmem) outcome" where
  "bmem_confirm_hold now i at ev s =
     (case bm_holds s i of
        None \<Rightarrow> (Inl ErrNotFound, s)
      | Some h \<Rightarrow>
          if wh_status h = ''confirmed'' then (Inr h, s)
          else if wh_status h \<noteq> ''reserved'' then (Inl ErrAlreadyTerminal, s)
          else let (w, s1) = ensureWallet now (wh_user h) (wh_region h) s;
                   h' = h\<lparr>wh_status := ''confirmed'', wh_updated := at\<rparr>
               in (Inr h', s1\<lparr>bm_wallets := (bm_wallets s1)(wh_user h \<mapsto>
                                w\<lparr>wb_balance := wb_balance w - wh_amount h, wb_reserved := wb_reserved w - wh_amount h, wb_updated := at\<rparr>),
                              bm_holds := (bm_holds s1)(i \<mapsto> h')\<rparr>))"

definition bmem_cancel_hold :: "time \<Rightarrow> string \<Rightarrow> time \<Rightarrow> outbox_event list \<Rightarrow> bmem \<Rightarrow> (go_error, wallet_hold, bmem) outcome" where
  "bmem_cancel_hold now i at ev s =
     (case bm_holds s i of
        None \<Rightarrow> (Inl ErrNotFound, s)
      | Some h \<Rightarrow>
          if wh_status h = ''cancelled'' then (Inr h, s)
          else if wh_status h \<noteq> ''reserved'' then (Inl ErrAlreadyTerminal, s)
          else let (w, s1) = ensureWallet now (wh_user h) (wh_region h) s;
                   h' = h\<lparr>wh_status := ''cancelled'', wh_updated := at\<rparr>
               in (Inr h', s1\<lparr>bm_wallets := (bm_wallets s1)(wh_user h \<mapsto>
                                w\<lparr>wb_reserved := wb_reserved w - wh_amount h, wb_updated := at\<rparr>),
                              bm_holds := (bm_holds s1)(i \<mapsto> h')\<rparr>))"

definition bmem_get_hold :: "string \<Rightarrow> bmem \<Rightarrow> go_error + wallet_hold" where
  "bmem_get_hold i s = (case bm_holds s i of None \<Rightarrow> Inl ErrNotFound | Some h \<Rightarrow> Inr h)"

definition bmem_get_wallet :: "string \<Rightarrow> bmem \<Rightarrow> go_error + wallet_balance" where
  "bmem_get_wallet user s = (case bm_wallets s user of None \<Rightarrow> Inl ErrNotFound | Some w \<Rightarrow> Inr w)"

definition bmem_topup :: "time \<Rightarrow> string \<Rightarrow> i64 \<Rightarrow> bmem \<Rightarrow> (go_error, unit, bmem) outcome" where
  "bmem_topup now user amount s =
     (let (w, s1) = ensureWallet now user ''global'' s
      in (Inr (), s1\<lparr>bm_wallets := (bm_wallets s1)(user \<mapsto> w\<lparr>wb_balance := wb_balance w + amount, wb_updated := now\<rparr>)\<rparr>))"

definition bmem_ops :: "bmem billing_ops" where
  "bmem_ops = \<lparr>bo_create_order = bmem_create_order, bo_mark_paid = bmem_mark_paid, bo_refund = bmem_refund,
     bo_get_order = bmem_get_order, bo_reserve_hold = bmem_reserve_hold, bo_confirm_hold = bmem_confirm_hold,
     bo_cancel_hold = bmem_cancel_hold, bo_get_hold = bmem_get_hold, bo_get_wallet = bmem_get_wallet, bo_topup = bmem_topup\<rparr>"

lemma bmem_ops_simps [simp]:
  "bo_create_order bmem_ops = bmem_create_order" "bo_mark_paid bmem_ops = bmem_mark_paid" "bo_refund bmem_ops = bmem_refund"
  "bo_get_order bmem_ops = bmem_get_order" "bo_reserve_hold bmem_ops = bmem_reserve_hold"
  "bo_confirm_hold bmem_ops = bmem_confirm_hold" "bo_cancel_hold bmem_ops = bmem_cancel_hold"
  "bo_get_hold bmem_ops = bmem_get_hold" "bo_get_wallet bmem_ops = bmem_get_wallet" "bo_topup bmem_ops = bmem_topup"
  by (simp_all add: bmem_ops_def)

end
