(* ===== verification/Ledger.thy ===== *)
theory Ledger
  imports BillingStore
begin

text \<open>
  The abstract specification of the wallet operations of the billing store, and the contract every
  implementation keeps.  A ledger has, per user, a balance and a reserved part as mathematical
  integers, the holds, and the holds by user and idempotency key.
\<close>

section \<open>The ledger and its operations\<close>

record ledger =
  lg_bal :: "string \<Rightarrow> int"
  lg_res :: "string \<Rightarrow> int"
  lg_holds :: "string \<rightharpoonup> wallet_hold"
  lg_idem :: "string \<times> string \<rightharpoonup> string"

definition ledger_empty :: ledger where
  "ledger_empty = \<lparr>lg_bal = (\<lambda>_. 0), lg_res = (\<lambda>_. 0), lg_holds = Map.empty, lg_idem = Map.empty\<rparr>"

definition ledger_reserve :: "wallet_hold \<Rightarrow> ledger \<Rightarrow> (go_error, wallet_hold, ledger) outcome" where
  "ledger_reserve h L =
     (case lg_idem L (wh_user h, wh_idem h) of
        Some i \<Rightarrow> (case lg_holds L i of Some h' \<Rightarrow> (Inr h', L) | None \<Rightarrow> (Inl nil_deref, L))
      | None \<Rightarrow>
          if lg_bal L (wh_user h) - lg_res L (wh_user h) < sint (wh_amount h) then (Inl ErrInsufficient, L)
          else (Inr h, L\<lparr>lg_res := (lg_res L)(wh_user h := lg_res L (wh_user h) + sint (wh_amount h)),
                         lg_holds := (lg_holds L)(wh_id h \<mapsto> h),
                         lg_idem := (lg_idem L)((wh_user h, wh_idem h) \<mapsto> wh_id h)\<rparr>))"

text \<open>Confirming and cancelling close a hold; confirming also takes the money.\<close>

definition ledger_close :: "string \<Rightarrow> string \<Rightarrow> time \<Rightarrow> ledger \<Rightarrow> (go_error, wallet_hold, ledger) outcome" where
  "ledger_close st i at L =
     (case lg_holds L i of
        None \<Rightarrow> (Inl ErrNotFound, L)
      | Some h \<Rightarrow>
          if wh_status h = st then (Inr h, L)
          else if wh_status h \<noteq> ''reserved'' then (Inl ErrAlreadyTerminal, L)
          else let h' = h\<lparr>wh_status := st, wh_updated := at\<rparr>; u = wh_user h
               in (Inr h', L\<lparr>lg_bal := (if st = ''confirmed'' then (lg_bal L)(u := lg_bal L u - sint (wh_amount h)) else lg_bal L),
                             lg_res := (lg_res L)(u := lg_res L u - sint (wh_amount h)),
                             lg_holds := (lg_holds L)(i \<mapsto> h')\<rparr>))"

definition ledger_topup :: "string \<Rightarrow> i64 \<Rightarrow> ledger \<Rightarrow> ledger" where
  "ledger_topup u a L = L\<lparr>lg_bal := (lg_bal L)(u := lg_bal L u + sint a)\<rparr>"

section \<open>The invariant\<close>

text \<open>The amounts of a user's holds in one status, summed.\<close>

definition share :: "string \<Rightarrow> string \<Rightarrow> wallet_hold \<Rightarrow> int" where
  "share st u h = (if wh_user h = u \<and> wh_status h = st then sint (wh_amount h) else 0)"

definition held :: "string \<Rightarrow> (string \<rightharpoonup> wallet_hold) \<Rightarrow> string \<Rightarrow> int" where
  "held st H u = (\<Sum>i \<in> dom H. share st u (the (H i)))"

lemma held_empty [simp]: "held st Map.empty u = 0"
  by (simp add: held_def)

lemma held_new:
  assumes "finite (dom H)" and "H i = None"
  shows "held st (H(i \<mapsto> h)) u = held st H u + share st u h"
proof -
  have "(\<Sum>k \<in> dom H. share st u (the ((H(i \<mapsto> h)) k))) = held st H u"
    unfolding held_def using assms(2) by (intro sum.cong) auto
  then show ?thesis using assms unfolding held_def by (simp add: domIff)
qed

lemma held_change:
  assumes "finite (dom H)" and "H i = Some h0"
  shows "held st (H(i \<mapsto> h)) u = held st H u - share st u h0 + share st u h"
proof -
  have i: "i \<in> dom H" using assms(2) by auto
  have "(\<Sum>k \<in> dom H - {i}. share st u (the ((H(i \<mapsto> h)) k))) = (\<Sum>k \<in> dom H - {i}. share st u (the (H k)))"
    by (intro sum.cong) auto
  moreover have "insert i (dom H) = dom H" using i by blast
  ultimately show ?thesis
    using sum.remove [OF assms(1) i, of "\<lambda>k. share st u (the (H k))"]
      sum.remove [OF assms(1) i, of "\<lambda>k. share st u (the ((H(i \<mapsto> h)) k))"] assms(2)
    unfolding held_def by simp
qed

lemma share_nonneg: "0 \<le> sint (wh_amount h) \<Longrightarrow> 0 \<le> share st u h"
  by (simp add: share_def)

lemma held_nonneg:
  assumes "\<And>i h. H i = Some h \<Longrightarrow> 0 \<le> sint (wh_amount h)"
  shows "0 \<le> held st H u"
  unfolding held_def using assms by (intro sum_nonneg share_nonneg) auto

definition hold_wf :: "ledger \<Rightarrow> string \<Rightarrow> wallet_hold \<Rightarrow> bool" where
  "hold_wf L i h \<longleftrightarrow> wh_id h = i \<and> 0 < sint (wh_amount h) \<and>
     wh_status h \<in> {''reserved'', ''confirmed'', ''cancelled''} \<and> lg_idem L (wh_user h, wh_idem h) = Some i"

text \<open>
  Holds are well formed and indexed; the reserved part of an account is the sum of its open holds
  and is covered by the balance.
\<close>

definition ledger_inv :: "ledger \<Rightarrow> bool" where
  "ledger_inv L \<longleftrightarrow>
     finite (dom (lg_holds L)) \<and>
     (\<forall>i h. lg_holds L i = Some h \<longrightarrow> hold_wf L i h) \<and>
     (\<forall>k i. lg_idem L k = Some i \<longrightarrow> (\<exists>h. lg_holds L i = Some h \<and> k = (wh_user h, wh_idem h))) \<and>
     (\<forall>u. lg_res L u = held ''reserved'' (lg_holds L) u \<and> lg_res L u \<le> lg_bal L u)"

lemma ledger_invD:
  assumes "ledger_inv L"
  shows "finite (dom (lg_holds L))"
    and "lg_holds L i = Some h \<Longrightarrow> hold_wf L i h"
    and "lg_holds L i = Some h \<Longrightarrow> 0 < sint (wh_amount h)"
    and "lg_idem L k = Some i \<Longrightarrow> \<exists>h. lg_holds L i = Some h \<and> k = (wh_user h, wh_idem h)"
    and "lg_res L u = held ''reserved'' (lg_holds L) u"
    and "lg_res L u \<le> lg_bal L u"
  using assms unfolding ledger_inv_def hold_wf_def by blast+

lemma ledger_inv_empty: "ledger_inv ledger_empty"
  by (simp add: ledger_inv_def ledger_empty_def)

lemma ledger_inv_res_nonneg:
  assumes "ledger_inv L"
  shows "0 \<le> lg_res L u"
proof -
  have "0 \<le> sint (wh_amount h)" if "lg_holds L i = Some h" for i h
    using ledger_invD(3) [OF assms that] by simp
  then show ?thesis unfolding ledger_invD(5) [OF assms] by (rule held_nonneg)
qed

lemma ledger_inv_share_le:
  assumes "ledger_inv L" and "lg_holds L i = Some h" and "wh_status h = ''reserved''"
  shows "sint (wh_amount h) \<le> lg_res L (wh_user h)"
proof -
  have "0 \<le> share st u (the (lg_holds L k))" if k: "k \<in> dom (lg_holds L)" for st u k
  proof -
    obtain g where g: "lg_holds L k = Some g" using k by blast
    then show ?thesis using ledger_invD(3) [OF assms(1) g] by (simp add: share_nonneg)
  qed
  then have "share ''reserved'' (wh_user h) (the (lg_holds L i)) \<le> held ''reserved'' (lg_holds L) (wh_user h)"
    unfolding held_def using ledger_invD(1) [OF assms(1)] assms(2) by (intro member_le_sum) auto
  then show ?thesis using assms(2,3) ledger_invD(5) [OF assms(1)] by (simp add: share_def)
qed

lemma ledger_reserve_inv:
  assumes L: "ledger_inv L" and "0 < sint (wh_amount h)" and "wh_status h = ''reserved''" and new: "lg_holds L (wh_id h) = None"
  shows "ledger_inv (snd (ledger_reserve h L))"
proof (cases "lg_idem L (wh_user h, wh_idem h) = None \<and> sint (wh_amount h) \<le> lg_bal L (wh_user h) - lg_res L (wh_user h)")
  case False
  then show ?thesis using L by (auto simp: ledger_reserve_def split: option.split)
next
  case True
  define L' where "L' = L\<lparr>lg_res := (lg_res L)(wh_user h := lg_res L (wh_user h) + sint (wh_amount h)),
                         lg_holds := (lg_holds L)(wh_id h \<mapsto> h),
                         lg_idem := (lg_idem L)((wh_user h, wh_idem h) \<mapsto> wh_id h)\<rparr>"
  have "snd (ledger_reserve h L) = L'" using True by (simp add: ledger_reserve_def L'_def)
  moreover have "ledger_inv L'"
    unfolding ledger_inv_def
  proof (intro conjI allI impI)
    show "finite (dom (lg_holds L'))" using ledger_invD(1) [OF L] by (simp add: L'_def)
  next
    fix i g assume g: "lg_holds L' i = Some g"
    show "hold_wf L' i g"
    proof (cases "i = wh_id h")
      case True
      then show ?thesis using g assms by (simp add: L'_def hold_wf_def)
    next
      case False
      then have "hold_wf L i g" using g ledger_invD(2) [OF L] by (simp add: L'_def)
      then show ?thesis using True unfolding hold_wf_def L'_def by auto
    qed
  next
    fix k i assume k: "lg_idem L' k = Some i"
    show "\<exists>g. lg_holds L' i = Some g \<and> k = (wh_user g, wh_idem g)"
    proof (cases "k = (wh_user h, wh_idem h)")
      case True
      then show ?thesis using k by (simp add: L'_def)
    next
      case False
      then obtain g where "lg_holds L i = Some g" "k = (wh_user g, wh_idem g)"
        using k ledger_invD(4) [OF L, of k i] by (auto simp: L'_def)
      then show ?thesis using new by (auto simp: L'_def)
    qed
  next
    fix u
    show "lg_res L' u = held ''reserved'' (lg_holds L') u"
      using held_new [OF ledger_invD(1) [OF L] new] ledger_invD(5) [OF L] assms(3) by (simp add: L'_def share_def)
    show "lg_res L' u \<le> lg_bal L' u" using ledger_invD(6) [OF L] True by (simp add: L'_def)
  qed
  ultimately show ?thesis by simp
qed

lemma ledger_close_inv:
  assumes L: "ledger_inv L" and st: "st \<in> {''confirmed'', ''cancelled''}"
  shows "ledger_inv (snd (ledger_close st i at L))"
proof (cases "\<exists>h. lg_holds L i = Some h \<and> wh_status h = ''reserved''")
  case False
  then show ?thesis using assms by (auto simp: ledger_close_def split: option.split)
next
  case True
  then obtain h where h: "lg_holds L i = Some h" "wh_status h = ''reserved''" by blast
  define h' where "h' = h\<lparr>wh_status := st, wh_updated := at\<rparr>"
  define L' where "L' = snd (ledger_close st i at L)"
  have L': "lg_holds L' = (lg_holds L)(i \<mapsto> h')" "lg_idem L' = lg_idem L"
    "lg_res L' = (lg_res L)(wh_user h := lg_res L (wh_user h) - sint (wh_amount h))"
    "lg_bal L' = (if st = ''confirmed'' then (lg_bal L)(wh_user h := lg_bal L (wh_user h) - sint (wh_amount h)) else lg_bal L)"
    using h st by (auto simp: L'_def ledger_close_def Let_def h'_def)
  have wf: "hold_wf L i h" using ledger_invD(2) [OF L h(1)] .
  have "ledger_inv L'"
    unfolding ledger_inv_def
  proof (intro conjI allI impI)
    show "finite (dom (lg_holds L'))" using ledger_invD(1) [OF L] by (simp add: L')
  next
    fix k g assume "lg_holds L' k = Some g"
    then show "hold_wf L' k g"
      using ledger_invD(2) [OF L, of k g] wf st by (auto simp: hold_wf_def L' h'_def split: if_splits)
  next
    fix k j assume "lg_idem L' k = Some j"
    then obtain g where g: "lg_holds L j = Some g" "k = (wh_user g, wh_idem g)"
      using ledger_invD(4) [OF L, of k j] by (auto simp: L')
    show "\<exists>g. lg_holds L' j = Some g \<and> k = (wh_user g, wh_idem g)"
    proof (cases "j = i")
      case True
      then show ?thesis using g h by (auto simp: L' h'_def)
    next
      case False
      then show ?thesis using g by (auto simp: L')
    qed
  next
    fix u
    show "lg_res L' u = held ''reserved'' (lg_holds L') u"
      using held_change [OF ledger_invD(1) [OF L] h(1), of "''reserved''" h' u] ledger_invD(5) [OF L, of u] h(2) st
      by (auto simp: L' share_def h'_def)
    show "lg_res L' u \<le> lg_bal L' u"
      using ledger_invD(6) [OF L, of u] ledger_invD(3) [OF L h(1)] by (auto simp: L')
  qed
  then show ?thesis by (simp add: L'_def)
qed

lemma ledger_topup_inv:
  assumes "ledger_inv L" and "0 \<le> sint a"
  shows "ledger_inv (ledger_topup u a L)"
proof -
  have "lg_res L v \<le> (lg_bal (ledger_topup u a L)) v" for v
    using ledger_invD(6) [OF assms(1), of v] assms(2) by (auto simp: ledger_topup_def)
  then show ?thesis using assms(1) by (simp add: ledger_inv_def ledger_topup_def hold_wf_def)
qed

text \<open>What each operation does to the balance plus the confirmed holds: only a top-up changes it.\<close>

definition worth :: "ledger \<Rightarrow> string \<Rightarrow> int" where
  "worth L u = lg_bal L u + held ''confirmed'' (lg_holds L) u"

lemma ledger_reserve_worth:
  assumes "ledger_inv L" and "wh_status h = ''reserved''" and "lg_holds L (wh_id h) = None"
  shows "worth (snd (ledger_reserve h L)) u = worth L u"
proof -
  have fin: "finite (dom (lg_holds L))" using assms(1) by (simp add: ledger_inv_def)
  show ?thesis
    using assms(2) held_new [OF fin assms(3)]
    by (auto simp: ledger_reserve_def worth_def share_def split: option.split)
qed

lemma ledger_close_worth:
  assumes "ledger_inv L" and "st \<in> {''confirmed'', ''cancelled''}"
  shows "worth (snd (ledger_close st i at L)) u = worth L u"
proof (cases "\<exists>h. lg_holds L i = Some h \<and> wh_status h = ''reserved''")
  case False
  then show ?thesis using assms by (auto simp: ledger_close_def split: option.split)
next
  case True
  then obtain h where h: "lg_holds L i = Some h" "wh_status h = ''reserved''" by blast
  have fin: "finite (dom (lg_holds L))" using assms(1) by (simp add: ledger_inv_def)
  show ?thesis
    using h assms held_change [OF fin h(1)]
    by (auto simp: ledger_close_def Let_def worth_def share_def)
qed

lemma ledger_topup_worth: "worth (ledger_topup u a L) v = worth L v + (if v = u then sint a else 0)"
  by (simp add: worth_def ledger_topup_def)

section \<open>The contract\<close>

text \<open>
  \<open>ledger_of\<close> reads a ledger off a store, \<open>inv\<close> is the store's own invariant and \<open>ok_hold\<close> the
  restriction an implementation puts on the holds it is asked to insert; the events have a topic.
\<close>

definition hold_new :: "wallet_hold \<Rightarrow> bool" where
  "hold_new h \<longleftrightarrow> 0 < sint (wh_amount h) \<and> wh_status h = ''reserved'' \<and> wh_region h = ''global'' \<and> wh_updated h = wh_created h"

definition ok_events :: "outbox_event list \<Rightarrow> bool" where
  "ok_events evs \<longleftrightarrow> list_all (\<lambda>ev. topic_string (oe_topic ev) \<noteq> []) evs"

lemma ok_events_ce_for [simp]: "topic_string t \<noteq> [] \<Longrightarrow> ok_events [ce_for src fr t k sub dat]"
  by (simp add: ok_events_def ce_for_def)

locale wallet_store =
  fixes ops :: "'s billing_ops"
    and ledger_of :: "'s \<Rightarrow> ledger"
    and inv :: "'s \<Rightarrow> bool"
    and ok_hold :: "wallet_hold \<Rightarrow> bool"
  assumes inv_ledger: "inv s \<Longrightarrow> ledger_inv (ledger_of s)"
    and reserve_sim: "inv s \<Longrightarrow> ok_events ev \<Longrightarrow> hold_new h \<Longrightarrow> ok_hold h \<Longrightarrow> lg_holds (ledger_of s) (wh_id h) = None \<Longrightarrow>
          fst (bo_reserve_hold ops now h ev s) = fst (ledger_reserve h (ledger_of s)) \<and>
          ledger_of (snd (bo_reserve_hold ops now h ev s)) = snd (ledger_reserve h (ledger_of s)) \<and>
          inv (snd (bo_reserve_hold ops now h ev s))"
    and confirm_sim: "inv s \<Longrightarrow> ok_events ev \<Longrightarrow>
          fst (bo_confirm_hold ops now i at ev s) = fst (ledger_close ''confirmed'' i at (ledger_of s)) \<and>
          ledger_of (snd (bo_confirm_hold ops now i at ev s)) = snd (ledger_close ''confirmed'' i at (ledger_of s)) \<and>
          inv (snd (bo_confirm_hold ops now i at ev s))"
    and cancel_sim: "inv s \<Longrightarrow> ok_events ev \<Longrightarrow>
          fst (bo_cancel_hold ops now i at ev s) = fst (ledger_close ''cancelled'' i at (ledger_of s)) \<and>
          ledger_of (snd (bo_cancel_hold ops now i at ev s)) = snd (ledger_close ''cancelled'' i at (ledger_of s)) \<and>
          inv (snd (bo_cancel_hold ops now i at ev s))"
    and topup_sim: "inv s \<Longrightarrow> 0 < sint a \<Longrightarrow> lg_bal (ledger_of s) u + sint a < 2 ^ 63 \<Longrightarrow>
          fst (bo_topup ops now u a s) = Inr () \<and>
          ledger_of (snd (bo_topup ops now u a s)) = ledger_topup u a (ledger_of s) \<and>
          inv (snd (bo_topup ops now u a s))"
    and get_hold_val: "inv s \<Longrightarrow> bo_get_hold ops i s =
          (case lg_holds (ledger_of s) i of None \<Rightarrow> Inl ErrNotFound | Some h \<Rightarrow> Inr h)"
    and get_wallet_val: "inv s \<Longrightarrow>
          bo_get_wallet ops u s = Inl ErrNotFound \<and> lg_bal (ledger_of s) u = 0 \<and> lg_res (ledger_of s) u = 0 \<or>
          (\<exists>w. bo_get_wallet ops u s = Inr w \<and> wb_user w = u \<and>
               sint (wb_balance w) = lg_bal (ledger_of s) u \<and> sint (wb_reserved w) = lg_res (ledger_of s) u)"

end
