(* ===== verification/BillingMemory.thy ===== *)
theory BillingMemory
  imports Ledger
begin

text \<open>
  The in-process billing store keeps the wallet contract: the interpretation of
  \<open>wallet_store\<close> by \<open>bmem_ops\<close>.  The one restriction is on user ids, which must not contain
  the separator of the idempotency index.
\<close>

lemma idx_key_inject:
  assumes "CHR ''|'' \<notin> set u" and "CHR ''|'' \<notin> set u'"
  shows "idx_key u k = idx_key u' k' \<longleftrightarrow> u = u' \<and> k = k'"
proof
  assume "idx_key u k = idx_key u' k'"
  then have eq: "u @ CHR ''|'' # k = u' @ CHR ''|'' # k'" by (simp add: idx_key_def)
  then have "takeWhile (\<lambda>c. c \<noteq> CHR ''|'') (u @ CHR ''|'' # k) = takeWhile (\<lambda>c. c \<noteq> CHR ''|'') (u' @ CHR ''|'' # k')"
    by simp
  then have "u = u'" using assms by (simp add: takeWhile_neq_append)
  then show "u = u' \<and> k = k'" using eq by simp
qed simp

definition bm_ledger :: "bmem \<Rightarrow> ledger" where
  "bm_ledger s =
     \<lparr>lg_bal = (\<lambda>u. case bm_wallets s u of None \<Rightarrow> 0 | Some w \<Rightarrow> sint (wb_balance w)),
      lg_res = (\<lambda>u. case bm_wallets s u of None \<Rightarrow> 0 | Some w \<Rightarrow> sint (wb_reserved w)),
      lg_holds = bm_holds s,
      lg_idem = (\<lambda>(u, k). if CHR ''|'' \<in> set u then None else bm_idx s (idx_key u k))\<rparr>"

definition plain_user :: "wallet_hold \<Rightarrow> bool" where
  "plain_user h \<longleftrightarrow> CHR ''|'' \<notin> set (wh_user h)"

definition bm_inv :: "bmem \<Rightarrow> bool" where
  "bm_inv s \<longleftrightarrow> ledger_inv (bm_ledger s) \<and>
     (\<forall>i h. bm_holds s i = Some h \<longrightarrow> plain_user h) \<and>
     (\<forall>u w. bm_wallets s u = Some w \<longrightarrow> wb_user w = u)"

lemma bm_inv_new: "bm_inv bmem_new"
  by (simp add: bm_inv_def bm_ledger_def bmem_new_def ledger_inv_def)

text \<open>Making sure of a wallet does not change the ledger.\<close>

lemma ensureWallet_props:
  assumes "ensureWallet now u r s = (w, s1)"
  shows "bm_ledger s1 = bm_ledger s" and "bm_wallets s1 u = Some w" and "bm_inv s \<Longrightarrow> bm_inv s1"
    and "sint (wb_balance w) = lg_bal (bm_ledger s) u" and "sint (wb_reserved w) = lg_res (bm_ledger s) u"
    and "bm_holds s1 = bm_holds s" and "bm_idx s1 = bm_idx s" and "bm_inv s \<Longrightarrow> wb_user w = u"
proof -
  show led: "bm_ledger s1 = bm_ledger s"
    using assms by (auto simp: ensureWallet_def bm_ledger_def Let_def fun_eq_iff split: option.splits if_splits)
  show "bm_wallets s1 u = Some w" "bm_holds s1 = bm_holds s" "bm_idx s1 = bm_idx s"
    "sint (wb_balance w) = lg_bal (bm_ledger s) u" "sint (wb_reserved w) = lg_res (bm_ledger s) u"
    using assms by (auto simp: ensureWallet_def bm_ledger_def Let_def split: option.splits)
  show "bm_inv s \<Longrightarrow> wb_user w = u"
    using assms by (auto simp: ensureWallet_def bm_inv_def Let_def split: option.splits)
  show "bm_inv s \<Longrightarrow> bm_inv s1"
    using assms led by (auto simp: ensureWallet_def bm_inv_def Let_def split: option.splits if_splits)
qed

text \<open>The sums of the invariant fit an \<open>int64\<close>.\<close>

lemma bm_bounds:
  assumes "bm_inv s"
  shows "0 \<le> lg_res (bm_ledger s) u" and "lg_res (bm_ledger s) u \<le> lg_bal (bm_ledger s) u"
    and "lg_bal (bm_ledger s) u < 2 ^ 63"
proof -
  have L: "ledger_inv (bm_ledger s)" using assms by (simp add: bm_inv_def)
  show "0 \<le> lg_res (bm_ledger s) u" by (rule ledger_inv_res_nonneg [OF L])
  show "lg_res (bm_ledger s) u \<le> lg_bal (bm_ledger s) u" by (rule ledger_invD(6) [OF L])
  show "lg_bal (bm_ledger s) u < 2 ^ 63"
    using sint_range_i64(2) by (simp add: bm_ledger_def split: option.split)
qed

lemma bm_idem_None: "CHR ''|'' \<notin> set u \<Longrightarrow> lg_idem (bm_ledger s) (u, k) = bm_idx s (idx_key u k)"
  by (simp add: bm_ledger_def)

lemma bmem_reserve_sim:
  assumes s: "bm_inv s" and h: "hold_new h" "plain_user h" and new: "lg_holds (bm_ledger s) (wh_id h) = None"
  shows "fst (bmem_reserve_hold now h ev s) = fst (ledger_reserve h (bm_ledger s)) \<and>
         bm_ledger (snd (bmem_reserve_hold now h ev s)) = snd (ledger_reserve h (bm_ledger s)) \<and>
         bm_inv (snd (bmem_reserve_hold now h ev s))"
proof (cases "bm_idx s (idx_key (wh_user h) (wh_idem h))")
  case (Some i)
  then show ?thesis using s h
    by (auto simp: bmem_reserve_hold_def ledger_reserve_def bm_idem_None plain_user_def split: option.splits)
      (auto simp: bm_ledger_def)
next
  case None
  let ?L = "bm_ledger s" and ?u = "wh_user h"
  obtain w s1 where w: "ensureWallet now ?u (wh_region h) s = (w, s1)" by (rule prod.exhaust)
  note e = ensureWallet_props [OF w]
  have avail: "sint (wb_balance w - wb_reserved w) = lg_bal ?L ?u - lg_res ?L ?u"
    using bm_bounds [OF s, of ?u] e(4,5) by (subst sint_sub_i64) auto
  have idem: "lg_idem ?L (?u, wh_idem h) = None" using None h(2) by (simp add: bm_idem_None plain_user_def)
  show ?thesis
  proof (cases "lg_bal ?L ?u - lg_res ?L ?u < sint (wh_amount h)")
    case True
    then show ?thesis using None w idem avail e(1) e(3) [OF s]
      by (simp add: bmem_reserve_hold_def ledger_reserve_def)
  next
    case False
    define s2 where "s2 = s1\<lparr>bm_wallets := (bm_wallets s1)(?u \<mapsto> w\<lparr>wb_reserved := wb_reserved w + wh_amount h, wb_updated := now\<rparr>),
        bm_holds := (bm_holds s1)(wh_id h \<mapsto> h), bm_idx := (bm_idx s1)(idx_key ?u (wh_idem h) \<mapsto> wh_id h)\<rparr>"
    have run: "bmem_reserve_hold now h ev s = (Inr h, s2)"
      using False None w avail by (simp add: bmem_reserve_hold_def s2_def)
    have res: "sint (wb_reserved w + wh_amount h) = lg_res ?L ?u + sint (wh_amount h)"
      using False bm_bounds [OF s, of ?u] e(5) h(1) by (subst sint_add_i64) (auto simp: hold_new_def)
    have led: "bm_ledger s2 = snd (ledger_reserve h ?L)"
    proof -
      have "bm_ledger s2 = (bm_ledger s1)\<lparr>lg_res := (lg_res ?L)(?u := lg_res ?L ?u + sint (wh_amount h)),
                         lg_holds := (lg_holds ?L)(wh_id h \<mapsto> h),
                         lg_idem := (lg_idem ?L)((?u, wh_idem h) \<mapsto> wh_id h)\<rparr>"
        using e(2,4) res h(2) unfolding e(1) [symmetric]
        by (auto simp: bm_ledger_def s2_def fun_eq_iff plain_user_def idx_key_inject)
      then show ?thesis using False idem e(1) by (simp add: ledger_reserve_def)
    qed
    have "ledger_inv (snd (ledger_reserve h ?L))"
      using s h(1) new by (intro ledger_reserve_inv) (simp_all add: bm_inv_def hold_new_def)
    then have "bm_inv s2" using e(3) [OF s] e(8) [OF s] led h(2) by (auto simp: bm_inv_def s2_def)
    then show ?thesis using run led False idem by (simp add: ledger_reserve_def)
  qed
qed

text \<open>Closing a hold: the common part of \<open>ConfirmHold\<close> and \<open>CancelHold\<close>.\<close>

lemma bm_close_sim:
  assumes s: "bm_inv s" and h: "bm_holds s i = Some h" "wh_status h = ''reserved''"
    and st: "st \<in> {''confirmed'', ''cancelled''}" and w: "ensureWallet now (wh_user h) r s = (w, s1)"
    and s2: "s2 = s1\<lparr>bm_wallets := (bm_wallets s1)(wh_user h \<mapsto>
          w\<lparr>wb_balance := (if st = ''confirmed'' then wb_balance w - wh_amount h else wb_balance w),
            wb_reserved := wb_reserved w - wh_amount h, wb_updated := at\<rparr>),
        bm_holds := (bm_holds s1)(i \<mapsto> h\<lparr>wh_status := st, wh_updated := at\<rparr>)\<rparr>"
  shows "bm_ledger s2 = snd (ledger_close st i at (bm_ledger s)) \<and> bm_inv s2"
proof -
  note e = ensureWallet_props [OF w]
  let ?L = "bm_ledger s" and ?u = "wh_user h"
  have L: "ledger_inv ?L" using s by (simp add: bm_inv_def)
  have hL: "lg_holds ?L i = Some h" using h by (simp add: bm_ledger_def)
  note b = bm_bounds [OF s, of ?u] ledger_inv_share_le [OF L hL h(2)] ledger_invD(3) [OF L hL]
  have res: "sint (wb_reserved w - wh_amount h) = lg_res ?L ?u - sint (wh_amount h)"
    using b e(5) by (subst sint_sub_i64) auto
  have bal: "sint (wb_balance w - wh_amount h) = lg_bal ?L ?u - sint (wh_amount h)"
    using b e(4) by (subst sint_sub_i64) auto
  have ne: "wh_status h \<noteq> st" using st h(2) by auto
  have "bm_ledger s2 = (bm_ledger s1)\<lparr>lg_bal := (if st = ''confirmed'' then (lg_bal ?L)(?u := lg_bal ?L ?u - sint (wh_amount h)) else lg_bal ?L),
           lg_res := (lg_res ?L)(?u := lg_res ?L ?u - sint (wh_amount h)),
           lg_holds := (lg_holds ?L)(i \<mapsto> h\<lparr>wh_status := st, wh_updated := at\<rparr>)\<rparr>"
    using e(2,4) res bal unfolding e(1) [symmetric] s2
    by (auto simp: bm_ledger_def fun_eq_iff)
  then have led: "bm_ledger s2 = snd (ledger_close st i at ?L)"
    using hL h(2) ne e(1) by (simp add: ledger_close_def Let_def)
  moreover have "ledger_inv (snd (ledger_close st i at ?L))" by (rule ledger_close_inv [OF L st])
  ultimately show ?thesis
    using e(3) [OF s] e(6) e(8) [OF s] h(1) by (auto simp: bm_inv_def s2 plain_user_def)
qed

lemma bmem_confirm_sim:
  assumes s: "bm_inv s"
  shows "fst (bmem_confirm_hold now i at ev s) = fst (ledger_close ''confirmed'' i at (bm_ledger s)) \<and>
         bm_ledger (snd (bmem_confirm_hold now i at ev s)) = snd (ledger_close ''confirmed'' i at (bm_ledger s)) \<and>
         bm_inv (snd (bmem_confirm_hold now i at ev s))"
proof (cases "\<exists>h. bm_holds s i = Some h \<and> wh_status h = ''reserved''")
  case False
  have "lg_holds (bm_ledger s) i = bm_holds s i" by (simp add: bm_ledger_def)
  then show ?thesis using False s
    by (auto simp: bmem_confirm_hold_def ledger_close_def split: option.splits)
next
  case True
  then obtain h where h: "bm_holds s i = Some h" "wh_status h = ''reserved''" by blast
  obtain w s1 where w: "ensureWallet now (wh_user h) (wh_region h) s = (w, s1)" by (rule prod.exhaust)
  have hL: "lg_holds (bm_ledger s) i = Some h" using h by (simp add: bm_ledger_def)
  have "bmem_confirm_hold now i at ev s = (Inr (h\<lparr>wh_status := ''confirmed'', wh_updated := at\<rparr>),
      s1\<lparr>bm_wallets := (bm_wallets s1)(wh_user h \<mapsto>
          w\<lparr>wb_balance := (if ''confirmed'' = ''confirmed'' then wb_balance w - wh_amount h else wb_balance w),
            wb_reserved := wb_reserved w - wh_amount h, wb_updated := at\<rparr>),
        bm_holds := (bm_holds s1)(i \<mapsto> h\<lparr>wh_status := ''confirmed'', wh_updated := at\<rparr>)\<rparr>)"
    using h w by (simp add: bmem_confirm_hold_def Let_def)
  moreover have "fst (ledger_close ''confirmed'' i at (bm_ledger s)) = Inr (h\<lparr>wh_status := ''confirmed'', wh_updated := at\<rparr>)"
    using hL h(2) by (simp add: ledger_close_def Let_def)
  ultimately show ?thesis using bm_close_sim [OF s h _ w refl, of "''confirmed''" at] by simp
qed

lemma bmem_cancel_sim:
  assumes s: "bm_inv s"
  shows "fst (bmem_cancel_hold now i at ev s) = fst (ledger_close ''cancelled'' i at (bm_ledger s)) \<and>
         bm_ledger (snd (bmem_cancel_hold now i at ev s)) = snd (ledger_close ''cancelled'' i at (bm_ledger s)) \<and>
         bm_inv (snd (bmem_cancel_hold now i at ev s))"
proof (cases "\<exists>h. bm_holds s i = Some h \<and> wh_status h = ''reserved''")
  case False
  have "lg_holds (bm_ledger s) i = bm_holds s i" by (simp add: bm_ledger_def)
  then show ?thesis using False s
    by (auto simp: bmem_cancel_hold_def ledger_close_def split: option.splits)
next
  case True
  then obtain h where h: "bm_holds s i = Some h" "wh_status h = ''reserved''" by blast
  obtain w s1 where w: "ensureWallet now (wh_user h) (wh_region h) s = (w, s1)" by (rule prod.exhaust)
  have hL: "lg_holds (bm_ledger s) i = Some h" using h by (simp add: bm_ledger_def)
  have "bmem_cancel_hold now i at ev s = (Inr (h\<lparr>wh_status := ''cancelled'', wh_updated := at\<rparr>),
      s1\<lparr>bm_wallets := (bm_wallets s1)(wh_user h \<mapsto>
          w\<lparr>wb_balance := (if ''cancelled'' = ''confirmed'' then wb_balance w - wh_amount h else wb_balance w),
            wb_reserved := wb_reserved w - wh_amount h, wb_updated := at\<rparr>),
        bm_holds := (bm_holds s1)(i \<mapsto> h\<lparr>wh_status := ''cancelled'', wh_updated := at\<rparr>)\<rparr>)"
    using h w by (simp add: bmem_cancel_hold_def Let_def)
  moreover have "fst (ledger_close ''cancelled'' i at (bm_ledger s)) = Inr (h\<lparr>wh_status := ''cancelled'', wh_updated := at\<rparr>)"
    using hL h(2) by (simp add: ledger_close_def Let_def)
  ultimately show ?thesis using bm_close_sim [OF s h _ w refl, of "''cancelled''" at] by simp
qed

lemma bmem_topup_sim:
  assumes s: "bm_inv s" and a: "0 < sint a" and fits: "lg_bal (bm_ledger s) u + sint a < 2 ^ 63"
  shows "fst (bmem_topup now u a s) = Inr () \<and>
         bm_ledger (snd (bmem_topup now u a s)) = ledger_topup u a (bm_ledger s) \<and>
         bm_inv (snd (bmem_topup now u a s))"
proof -
  obtain w s1 where w: "ensureWallet now u ''global'' s = (w, s1)" by (rule prod.exhaust)
  note e = ensureWallet_props [OF w]
  define s2 where "s2 = s1\<lparr>bm_wallets := (bm_wallets s1)(u \<mapsto> w\<lparr>wb_balance := wb_balance w + a, wb_updated := now\<rparr>)\<rparr>"
  have run: "bmem_topup now u a s = (Inr (), s2)" using w by (simp add: bmem_topup_def s2_def)
  have "sint (wb_balance w + a) = lg_bal (bm_ledger s) u + sint a"
    using bm_bounds [OF s, of u] a fits e(4) by (subst sint_add_i64) auto
  then have led: "bm_ledger s2 = ledger_topup u a (bm_ledger s)"
    using e(2,5) unfolding e(1) [symmetric] by (auto simp: bm_ledger_def s2_def ledger_topup_def fun_eq_iff)
  have "ledger_inv (ledger_topup u a (bm_ledger s))"
    using s a by (intro ledger_topup_inv) (simp_all add: bm_inv_def)
  then have "bm_inv s2" using led e(3) [OF s] e(8) [OF s] by (auto simp: bm_inv_def s2_def)
  then show ?thesis using run led by simp
qed

interpretation bmem: wallet_store bmem_ops bm_ledger bm_inv plain_user
proof
  fix s h now ev i at a u
  show "bm_inv s \<Longrightarrow> ledger_inv (bm_ledger s)" by (simp add: bm_inv_def)
  show "bm_inv s \<Longrightarrow> ok_events ev \<Longrightarrow> hold_new h \<Longrightarrow> plain_user h \<Longrightarrow> lg_holds (bm_ledger s) (wh_id h) = None \<Longrightarrow>
      fst (bo_reserve_hold bmem_ops now h ev s) = fst (ledger_reserve h (bm_ledger s)) \<and>
      bm_ledger (snd (bo_reserve_hold bmem_ops now h ev s)) = snd (ledger_reserve h (bm_ledger s)) \<and>
      bm_inv (snd (bo_reserve_hold bmem_ops now h ev s))"
    unfolding bmem_ops_simps by (rule bmem_reserve_sim)
  show "bm_inv s \<Longrightarrow> ok_events ev \<Longrightarrow> fst (bo_confirm_hold bmem_ops now i at ev s) = fst (ledger_close ''confirmed'' i at (bm_ledger s)) \<and>
      bm_ledger (snd (bo_confirm_hold bmem_ops now i at ev s)) = snd (ledger_close ''confirmed'' i at (bm_ledger s)) \<and>
      bm_inv (snd (bo_confirm_hold bmem_ops now i at ev s))"
    unfolding bmem_ops_simps by (rule bmem_confirm_sim)
  show "bm_inv s \<Longrightarrow> ok_events ev \<Longrightarrow> fst (bo_cancel_hold bmem_ops now i at ev s) = fst (ledger_close ''cancelled'' i at (bm_ledger s)) \<and>
      bm_ledger (snd (bo_cancel_hold bmem_ops now i at ev s)) = snd (ledger_close ''cancelled'' i at (bm_ledger s)) \<and>
      bm_inv (snd (bo_cancel_hold bmem_ops now i at ev s))"
    unfolding bmem_ops_simps by (rule bmem_cancel_sim)
  show "bm_inv s \<Longrightarrow> 0 < sint a \<Longrightarrow> lg_bal (bm_ledger s) u + sint a < 2 ^ 63 \<Longrightarrow>
      fst (bo_topup bmem_ops now u a s) = Inr () \<and>
      bm_ledger (snd (bo_topup bmem_ops now u a s)) = ledger_topup u a (bm_ledger s) \<and>
      bm_inv (snd (bo_topup bmem_ops now u a s))"
    unfolding bmem_ops_simps by (rule bmem_topup_sim)
  show "bm_inv s \<Longrightarrow> bo_get_hold bmem_ops i s = (case lg_holds (bm_ledger s) i of None \<Rightarrow> Inl ErrNotFound | Some h \<Rightarrow> Inr h)"
    by (simp add: bmem_get_hold_def bm_ledger_def)
  show "bm_inv s \<Longrightarrow>
      bo_get_wallet bmem_ops u s = Inl ErrNotFound \<and> lg_bal (bm_ledger s) u = 0 \<and> lg_res (bm_ledger s) u = 0 \<or>
      (\<exists>w. bo_get_wallet bmem_ops u s = Inr w \<and> wb_user w = u \<and>
           sint (wb_balance w) = lg_bal (bm_ledger s) u \<and> sint (wb_reserved w) = lg_res (bm_ledger s) u)"
    by (simp add: bmem_get_wallet_def bm_ledger_def bm_inv_def split: option.split)
qed

text \<open>The idempotency index of the in-process store joins user and key with a bar, so two users
  can share an entry: a \<open>ReserveHold\<close> of user \<open>a\<close> with key \<open>b|c\<close> is answered with the hold of user
  \<open>a|b\<close> with key \<open>c\<close>, and nothing is reserved for the caller.\<close>

theorem reserve_returns_foreign_hold:
  assumes "bm_idx s (idx_key (u @ ''|'' @ k) k') = Some i" and "bm_holds s i = Some h'"
    and "wh_user h' = u @ ''|'' @ k" and "wh_user h = u" and "wh_idem h = k @ ''|'' @ k'"
  shows "bmem_reserve_hold now h ev s = (Inr h', s) \<and> wh_user h' \<noteq> wh_user h"
  using assms by (simp add: bmem_reserve_hold_def idx_key_def)

end
