(* ===== verification/BillingService.thy ===== *)
theory BillingService
  imports BillingMemory Ids
begin

text \<open>
  \<^verbatim>\<open>go/services/billing-svc/internal/service\<close>: \<^verbatim>\<open>service.go\<close> (orders) and \<^verbatim>\<open>wallet.go\<close> (the
  reserve/confirm/cancel saga), over any store of the interface \<open>billing_ops\<close>.  A call draws its
  fresh values (identifier, event UUID, clock readings) from its argument \<open>fr\<close>; \<open>fr_event_now\<close>
  is also the clock reading a store makes during the call.
\<close>

section \<open>Orders\<close>

record create_input =
  ci_user :: string
  ci_channel :: string
  ci_biz :: string
  ci_amount :: u32
  ci_idem :: string

record order_dto =
  od_id :: string
  od_user :: string
  od_channel :: string
  od_biz :: string
  od_amount :: u32
  od_status :: string
  od_idem :: string
  od_region :: string
  od_created :: time
  od_paid_at :: time
  od_refunded_at :: time

definition toExternal :: "order \<Rightarrow> order_dto" where
  "toExternal ord = \<lparr>od_id = o_id ord, od_user = o_user ord, od_channel = o_channel ord, od_biz = o_biz ord,
     od_amount = o_amount ord, od_status = o_status ord, od_idem = o_idem ord, od_region = o_region ord,
     od_created = o_created ord, od_paid_at = o_paid_at ord, od_refunded_at = o_refunded_at ord\<rparr>"

definition hold_id :: "fresh \<Rightarrow> string" where
  "hold_id fr = ''hold_'' @ fr_id fr"

definition order_id :: "fresh \<Rightarrow> string" where
  "order_id fr = ''ord_'' @ fr_id fr"

definition new_order :: "fresh \<Rightarrow> create_input \<Rightarrow> order" where
  "new_order fr inp = \<lparr>o_id = order_id fr, o_user = ci_user inp, o_channel = ci_channel inp, o_biz = ci_biz inp,
     o_amount = ci_amount inp, o_status = ''created'', o_idem = ci_idem inp, o_region = ''global'',
     o_created = fr_now fr, o_updated = fr_now fr, o_paid_at = zero_time, o_refunded_at = zero_time\<rparr>"

definition order_event :: "string \<Rightarrow> fresh \<Rightarrow> order \<Rightarrow> outbox_event" where
  "order_event src fr ord = ce_for src fr OrderCreated (o_user ord) (o_id ord)
     [(''order_id'', JStr (o_id ord)), (''user_id'', JStr (o_user ord)), (''channel'', JStr (o_channel ord)),
      (''biz_type'', JStr (o_biz ord)), (''amount_cny'', JInt (uint (o_amount ord))),
      (''created_at'', JStr (format_rfc3339 (o_created ord))), (''region_id'', JStr (o_region ord))]"

definition svc_create :: "'s billing_ops \<Rightarrow> string \<Rightarrow> fresh \<Rightarrow> create_input \<Rightarrow> 's \<Rightarrow> (go_error, order_dto, 's) outcome" where
  "svc_create ops src fr inp s =
     (if ci_user inp = [] \<or> ci_channel inp = [] \<or> ci_biz inp = [] \<or> ci_amount inp = 0
      then (Inl (yerr SystemInternal ''missing required field''), s)
      else let ord = new_order fr inp
           in case bo_create_order ops ord [order_event src fr ord] s of
                (Inl e, s') \<Rightarrow> (Inl (yerr SystemInternal (''create order: '' @ err_text e)), s')
              | (Inr _, s') \<Rightarrow> (Inr (toExternal ord), s'))"

definition svc_mark_paid :: "'s billing_ops \<Rightarrow> string \<Rightarrow> fresh \<Rightarrow> string \<Rightarrow> 's \<Rightarrow> (go_error, order_dto, 's) outcome" where
  "svc_mark_paid ops src fr i s =
     (case bo_mark_paid ops i (fr_now fr)
             [ce_for src fr OrderPaid i i [(''order_id'', JStr i), (''paid_at'', JStr (format_rfc3339 (fr_now fr)))]] s of
        (Inl e, s') \<Rightarrow>
          (Inl (if errors_is e ErrNotFound then yerr SystemInternal ''order not found''
                else if errors_is e ErrAlreadyPaid then yerr PayOrderPaid ''already paid''
                else yerr SystemInternal (''mark paid: '' @ err_text e)), s')
      | (Inr ord, s') \<Rightarrow> (Inr (toExternal ord), s'))"

definition svc_refund :: "'s billing_ops \<Rightarrow> string \<Rightarrow> fresh \<Rightarrow> string \<Rightarrow> 's \<Rightarrow> (go_error, order_dto, 's) outcome" where
  "svc_refund ops src fr i s =
     (case bo_refund ops i (fr_now fr)
             [ce_for src fr OrderRefunded i i [(''order_id'', JStr i), (''refunded_at'', JStr (format_rfc3339 (fr_now fr)))]] s of
        (Inl e, s') \<Rightarrow>
          (Inl (if errors_is e ErrNotFound then yerr SystemInternal ''order not found''
                else yerr SystemInternal (''refund: '' @ err_text e)), s')
      | (Inr ord, s') \<Rightarrow> (Inr (toExternal ord), s'))"

definition svc_get :: "'s billing_ops \<Rightarrow> string \<Rightarrow> 's \<Rightarrow> go_error + order_dto" where
  "svc_get ops i s =
     (case bo_get_order ops i s of
        Inl e \<Rightarrow> Inl (if errors_is e ErrNotFound then yerr SystemInternal ''order not found''
                      else yerr SystemInternal (''get order: '' @ err_text e))
      | Inr ord \<Rightarrow> Inr (toExternal ord))"

section \<open>The wallet saga\<close>

record reserve_input =
  ri_user :: string
  ri_room :: string
  ri_cat :: string
  ri_feed_request :: string
  ri_idem :: string
  ri_grams :: u32
  ri_ttl :: int

record hold_dto =
  hd_id :: string
  hd_user :: string
  hd_room :: string
  hd_cat :: string
  hd_amount :: i64
  hd_grams :: u32
  hd_status :: string
  hd_feed_request :: string
  hd_created :: time
  hd_expires :: time

definition walletHoldExternal :: "wallet_hold \<Rightarrow> hold_dto" where
  "walletHoldExternal h = \<lparr>hd_id = wh_id h, hd_user = wh_user h, hd_room = wh_room h, hd_cat = wh_cat h,
     hd_amount = wh_amount h, hd_grams = wh_grams h, hd_status = wh_status h, hd_feed_request = wh_feed_request h,
     hd_created = wh_created h, hd_expires = wh_expires h\<rparr>"

definition ConvertGramsToFen :: "u32 \<Rightarrow> i64" where
  "ConvertGramsToFen grams = ucast grams * 5"

definition new_hold :: "fresh \<Rightarrow> reserve_input \<Rightarrow> wallet_hold" where
  "new_hold fr inp = \<lparr>wh_id = hold_id fr, wh_user = ri_user inp, wh_room = ri_room inp, wh_cat = ri_cat inp,
     wh_amount = ConvertGramsToFen (ri_grams inp), wh_grams = ri_grams inp, wh_idem = ri_idem inp,
     wh_status = ''reserved'', wh_feed_request = ri_feed_request inp, wh_region = ''global'',
     wh_created = fr_now fr, wh_updated = fr_now fr,
     wh_expires = fr_now fr + (if ri_ttl inp \<le> 0 then 60 else ri_ttl inp) * second\<rparr>"

definition reserve_event :: "string \<Rightarrow> fresh \<Rightarrow> wallet_hold \<Rightarrow> outbox_event" where
  "reserve_event src fr h = ce_for src fr WalletReserved (wh_user h) (wh_id h)
     [(''hold_id'', JStr (wh_id h)), (''user_id'', JStr (wh_user h)), (''room_id'', JStr (wh_room h)),
      (''cat_id'', JStr (wh_cat h)), (''feed_request_id'', JStr (wh_feed_request h)),
      (''amount_fen'', JInt (sint (wh_amount h))), (''amount_grams'', JInt (uint (wh_grams h))),
      (''created_at'', JStr (format_rfc3339 (wh_created h))), (''expires_at'', JStr (format_rfc3339 (wh_expires h)))]"

definition svc_reserve :: "'s billing_ops \<Rightarrow> string \<Rightarrow> fresh \<Rightarrow> reserve_input \<Rightarrow> 's \<Rightarrow> (go_error, hold_dto, 's) outcome" where
  "svc_reserve ops src fr inp s =
     (if ri_user inp = [] \<or> ri_idem inp = [] \<or> ri_grams inp = 0
      then (Inl (yerr SystemInternal ''missing required field''), s)
      else let h = new_hold fr inp
           in case bo_reserve_hold ops (fr_event_now fr) h [reserve_event src fr h] s of
                (Inl e, s') \<Rightarrow>
                  (Inl (if errors_is e ErrInsufficient then yerr PayChannelFailed ''insufficient funds''
                        else yerr SystemInternal (''reserve: '' @ err_text e)), s')
              | (Inr h', s') \<Rightarrow> (Inr (walletHoldExternal h'), s'))"

text \<open>The answer to a failed \<open>Confirm\<close> or \<open>Cancel\<close>; \<open>what\<close> is the prefix of the message.\<close>

definition close_error :: "string \<Rightarrow> go_error \<Rightarrow> go_error" where
  "close_error what e =
     (if errors_is e ErrNotFound then yerr SystemInternal ''hold not found''
      else if errors_is e ErrAlreadyTerminal then yerr SystemInternal ''hold already in terminal status''
      else yerr SystemInternal (what @ '': '' @ err_text e))"

definition confirm_event :: "string \<Rightarrow> fresh \<Rightarrow> string \<Rightarrow> outbox_event" where
  "confirm_event src fr i = ce_for src fr WalletConfirmed ''hold'' i
     [(''hold_id'', JStr i), (''confirmed_at'', JStr (format_rfc3339 (fr_now fr)))]"

definition cancel_event :: "string \<Rightarrow> fresh \<Rightarrow> string \<Rightarrow> string \<Rightarrow> outbox_event" where
  "cancel_event src fr i reason = ce_for src fr WalletCancelled ''hold'' i
     [(''hold_id'', JStr i), (''reason'', JStr (if reason = [] then ''cancelled'' else reason)),
      (''cancelled_at'', JStr (format_rfc3339 (fr_now fr)))]"

definition svc_confirm :: "'s billing_ops \<Rightarrow> string \<Rightarrow> fresh \<Rightarrow> string \<Rightarrow> 's \<Rightarrow> (go_error, hold_dto, 's) outcome" where
  "svc_confirm ops src fr i s =
     (if i = [] then (Inl (yerr SystemInternal ''hold_id required''), s)
      else case bo_confirm_hold ops (fr_event_now fr) i (fr_now fr) [confirm_event src fr i] s of
             (Inl e, s') \<Rightarrow> (Inl (close_error ''confirm'' e), s')
           | (Inr h, s') \<Rightarrow> (Inr (walletHoldExternal h), s'))"

definition svc_cancel :: "'s billing_ops \<Rightarrow> string \<Rightarrow> fresh \<Rightarrow> string \<Rightarrow> string \<Rightarrow> 's \<Rightarrow> (go_error, hold_dto, 's) outcome" where
  "svc_cancel ops src fr i reason s =
     (if i = [] then (Inl (yerr SystemInternal ''hold_id required''), s)
      else case bo_cancel_hold ops (fr_event_now fr) i (fr_now fr) [cancel_event src fr i reason] s of
             (Inl e, s') \<Rightarrow> (Inl (close_error ''cancel'' e), s')
           | (Inr h, s') \<Rightarrow> (Inr (walletHoldExternal h), s'))"

definition svc_get_hold :: "'s billing_ops \<Rightarrow> string \<Rightarrow> 's \<Rightarrow> go_error + hold_dto" where
  "svc_get_hold ops i s =
     (case bo_get_hold ops i s of
        Inl e \<Rightarrow> Inl (if errors_is e ErrNotFound then yerr SystemInternal ''hold not found''
                      else yerr SystemInternal (''get hold: '' @ err_text e))
      | Inr h \<Rightarrow> Inr (walletHoldExternal h))"

definition svc_wallet :: "'s billing_ops \<Rightarrow> string \<Rightarrow> 's \<Rightarrow> go_error + wallet_balance" where
  "svc_wallet ops user s =
     (if user = [] then Inl (yerr SystemInternal ''user_id required'')
      else case bo_get_wallet ops user s of
        Inl e \<Rightarrow> if errors_is e ErrNotFound
                 then Inr \<lparr>wb_user = user, wb_balance = 0, wb_reserved = 0, wb_region = [], wb_updated = zero_time\<rparr>
                 else Inl (yerr SystemInternal (''get wallet: '' @ err_text e))
      | Inr w \<Rightarrow> Inr w)"

definition svc_topup :: "'s billing_ops \<Rightarrow> fresh \<Rightarrow> string \<Rightarrow> i64 \<Rightarrow> 's \<Rightarrow> (go_error, unit, 's) outcome" where
  "svc_topup ops fr user amount s =
     (if user = [] \<or> sint amount \<le> 0 then (Inl (yerr SystemInternal ''user_id and positive amount required''), s)
      else bo_topup ops (fr_event_now fr) user amount s)"

end
