(* ===== verification/BillingWallet.thy ===== *)
theory BillingWallet
  imports BillingService
begin

text \<open>
  Correctness of the wallet saga of \<^verbatim>\<open>wallet.go\<close>.  The lemmas are proved in the locale
  \<open>wallet_store\<close>, for every store that keeps the wallet contract, for single calls and for arbitrary
  sequences of calls; the properties are their instances for the in-process store.
\<close>

section \<open>Sequences of calls\<close>

datatype wallet_call =
    WReserve fresh reserve_input
  | WConfirm fresh string
  | WCancel fresh string string
  | WTopUp fresh string i64

fun wallet_step :: "'s billing_ops \<Rightarrow> string \<Rightarrow> wallet_call \<Rightarrow> 's \<Rightarrow> 's" where
  "wallet_step ops src (WReserve fr inp) s = snd (svc_reserve ops src fr inp s)"
| "wallet_step ops src (WConfirm fr i) s = snd (svc_confirm ops src fr i s)"
| "wallet_step ops src (WCancel fr i reason) s = snd (svc_cancel ops src fr i reason s)"
| "wallet_step ops src (WTopUp fr u a) s = snd (svc_topup ops fr u a s)"

fun wallet_run :: "'s billing_ops \<Rightarrow> string \<Rightarrow> wallet_call list \<Rightarrow> 's \<Rightarrow> 's" where
  "wallet_run ops src [] s = s"
| "wallet_run ops src (c # cs) s = wallet_run ops src cs (wallet_step ops src c s)"

text \<open>What the accepted top-ups of a user add up to, and the hold ids a sequence draws.\<close>

fun topped :: "string \<Rightarrow> wallet_call list \<Rightarrow> int" where
  "topped u [] = 0"
| "topped u (WTopUp fr v a # cs) = (if v = u \<and> u \<noteq> [] \<and> 0 < sint a then sint a else 0) + topped u cs"
| "topped u (_ # cs) = topped u cs"

fun new_ids :: "wallet_call list \<Rightarrow> string list" where
  "new_ids [] = []"
| "new_ids (WReserve fr inp # cs) = hold_id fr # new_ids cs"
| "new_ids (_ # cs) = new_ids cs"

text \<open>The effect of a call on the abstract ledger.\<close>

fun ledger_step :: "wallet_call \<Rightarrow> ledger \<Rightarrow> ledger" where
  "ledger_step (WReserve fr inp) L =
     (if ri_user inp = [] \<or> ri_idem inp = [] \<or> ri_grams inp = 0 then L else snd (ledger_reserve (new_hold fr inp) L))"
| "ledger_step (WConfirm fr i) L = (if i = [] then L else snd (ledger_close ''confirmed'' i (fr_now fr) L))"
| "ledger_step (WCancel fr i reason) L = (if i = [] then L else snd (ledger_close ''cancelled'' i (fr_now fr) L))"
| "ledger_step (WTopUp fr u a) L = (if u = [] \<or> sint a \<le> 0 then L else ledger_topup u a L)"

lemma topped_nonneg: "0 \<le> topped u cs"
  by (induction u cs rule: topped.induct) auto

lemma topped_Cons: "topped u (c # cs) = topped u [c] + topped u cs"
  by (cases c) auto

lemma fen_of_grams: "sint (ConvertGramsToFen g) = 5 * int (unat g)"
proof -
  have lt: "unat g < 2 ^ 32" using unsigned_less [of g] by simp
  have "(ucast g :: i64) = word_of_nat (unat g)" by (simp add: word_eq_iff_unsigned unsigned_ucast_eq unsigned_of_nat)
  then have "ConvertGramsToFen g = word_of_nat (unat g * 5)" by (simp add: ConvertGramsToFen_def)
  moreover have "sint (word_of_nat (unat g * 5) :: i64) = int (unat g * 5)"
    using lt by (intro sint_of_nat_small) simp
  ultimately show ?thesis by simp
qed

lemma new_hold_simps [simp]:
  "wh_id (new_hold fr inp) = hold_id fr" "wh_user (new_hold fr inp) = ri_user inp"
  "wh_idem (new_hold fr inp) = ri_idem inp" "wh_status (new_hold fr inp) = ''reserved''"
  "wh_amount (new_hold fr inp) = ConvertGramsToFen (ri_grams inp)" "wh_grams (new_hold fr inp) = ri_grams inp"
  by (simp_all add: new_hold_def)

lemma new_hold_new:
  "ri_grams inp \<noteq> 0 \<Longrightarrow> hold_new (new_hold fr inp)"
proof -
  assume "ri_grams inp \<noteq> 0"
  then have "uint (ri_grams inp) \<noteq> 0" by (simp add: unsigned_eq_0_iff)
  then have "0 < uint (ri_grams inp)" using unsigned_greater_eq [of "ri_grams inp"] by (simp add: order_less_le)
  then show ?thesis by (simp add: hold_new_def fen_of_grams) (simp add: new_hold_def)
qed

lemma ledger_reserve_holds:
  "i \<noteq> wh_id h \<Longrightarrow> lg_holds (snd (ledger_reserve h L)) i = lg_holds L i"
  by (auto simp: ledger_reserve_def split: option.split)

lemma ledger_close_None: "lg_holds (snd (ledger_close st j at L)) i = None \<longleftrightarrow> lg_holds L i = None"
  by (auto simp: ledger_close_def Let_def split: option.split)

text \<open>The store after a call is the one its store operation leaves.\<close>

lemma svc_snd:
  "snd (svc_reserve ops src fr inp s) =
     (if ri_user inp = [] \<or> ri_idem inp = [] \<or> ri_grams inp = 0 then s
      else snd (bo_reserve_hold ops (fr_event_now fr) (new_hold fr inp) [reserve_event src fr (new_hold fr inp)] s))"
  "snd (svc_confirm ops src fr i s) =
     (if i = [] then s else snd (bo_confirm_hold ops (fr_event_now fr) i (fr_now fr) [confirm_event src fr i] s))"
  "snd (svc_cancel ops src fr i reason s) =
     (if i = [] then s else snd (bo_cancel_hold ops (fr_event_now fr) i (fr_now fr) [cancel_event src fr i reason] s))"
  by (simp_all add: svc_reserve_def svc_confirm_def svc_cancel_def Let_def split: prod.split sum.split)

definition reserve_error :: "go_error \<Rightarrow> go_error" where
  "reserve_error e = (if errors_is e ErrInsufficient then yerr PayChannelFailed ''insufficient funds''
     else yerr SystemInternal (''reserve: '' @ err_text e))"

lemma svc_fst:
  "fst (svc_reserve ops src fr inp s) =
     (if ri_user inp = [] \<or> ri_idem inp = [] \<or> ri_grams inp = 0 then Inl (yerr SystemInternal ''missing required field'')
      else map_sum reserve_error walletHoldExternal
        (fst (bo_reserve_hold ops (fr_event_now fr) (new_hold fr inp) [reserve_event src fr (new_hold fr inp)] s)))"
  "fst (svc_confirm ops src fr i s) =
     (if i = [] then Inl (yerr SystemInternal ''hold_id required'')
      else map_sum (close_error ''confirm'') walletHoldExternal
        (fst (bo_confirm_hold ops (fr_event_now fr) i (fr_now fr) [confirm_event src fr i] s)))"
  "fst (svc_cancel ops src fr i reason s) =
     (if i = [] then Inl (yerr SystemInternal ''hold_id required'')
      else map_sum (close_error ''cancel'') walletHoldExternal
        (fst (bo_cancel_hold ops (fr_event_now fr) i (fr_now fr) [cancel_event src fr i reason] s)))"
  by (simp_all add: svc_reserve_def svc_confirm_def svc_cancel_def reserve_error_def Let_def split: prod.split sum.split)

lemma map_sum_eq_Inr: "map_sum f g r = Inr y \<longleftrightarrow> (\<exists>x. r = Inr x \<and> y = g x)"
  by (cases r) auto

lemma ok_service_events [simp]:
  "ok_events [reserve_event src fr h]" "ok_events [confirm_event src fr i]" "ok_events [cancel_event src fr i reason]"
  by (simp_all add: reserve_event_def confirm_event_def cancel_event_def)

section \<open>Conservation\<close>

context wallet_store begin

definition admissible :: "wallet_call list \<Rightarrow> bool" where
  "admissible cs \<longleftrightarrow> distinct (new_ids cs) \<and>
     (\<forall>fr inp. WReserve fr inp \<in> set cs \<longrightarrow> ok_hold (new_hold fr inp))"

lemma svc_reserve_ledger:
  assumes "inv s" and "ok_hold (new_hold fr inp)" and "lg_holds (ledger_of s) (hold_id fr) = None"
  shows "inv (snd (svc_reserve ops src fr inp s))"
    and "ledger_of (snd (svc_reserve ops src fr inp s)) =
      (if ri_user inp = [] \<or> ri_idem inp = [] \<or> ri_grams inp = 0 then ledger_of s
       else snd (ledger_reserve (new_hold fr inp) (ledger_of s)))"
proof -
  show "inv (snd (svc_reserve ops src fr inp s))"
    using reserve_sim [OF assms(1) _ new_hold_new assms(2)] assms(1,3) by (simp add: svc_snd(1))
  show "ledger_of (snd (svc_reserve ops src fr inp s)) =
      (if ri_user inp = [] \<or> ri_idem inp = [] \<or> ri_grams inp = 0 then ledger_of s
       else snd (ledger_reserve (new_hold fr inp) (ledger_of s)))"
    using reserve_sim [OF assms(1) _ new_hold_new assms(2)] assms(3) by (simp add: svc_snd(1))
qed

lemma svc_close_ledger:
  assumes "inv s"
  shows "inv (snd (svc_confirm ops src fr i s))" and "inv (snd (svc_cancel ops src fr i reason s))"
    and "ledger_of (snd (svc_confirm ops src fr i s)) =
           (if i = [] then ledger_of s else snd (ledger_close ''confirmed'' i (fr_now fr) (ledger_of s)))"
    and "ledger_of (snd (svc_cancel ops src fr i reason s)) =
           (if i = [] then ledger_of s else snd (ledger_close ''cancelled'' i (fr_now fr) (ledger_of s)))"
  using confirm_sim [OF assms] cancel_sim [OF assms] assms by (simp_all add: svc_snd)

lemma wallet_step_ledger:
  assumes "inv s" and "admissible [c]" and "\<forall>i \<in> set (new_ids [c]). lg_holds (ledger_of s) i = None"
    and "\<forall>u. lg_bal (ledger_of s) u + topped u [c] < 2 ^ 63"
  shows "inv (wallet_step ops src c s) \<and> ledger_of (wallet_step ops src c s) = ledger_step c (ledger_of s) \<and>
    worth (ledger_of (wallet_step ops src c s)) u = worth (ledger_of s) u + topped u [c] \<and>
    (\<forall>i. i \<notin> set (new_ids [c]) \<longrightarrow> lg_holds (ledger_of s) i = None \<longrightarrow> lg_holds (ledger_of (wallet_step ops src c s)) i = None)"
proof (cases c)
  case (WReserve fr inp)
  have p: "ok_hold (new_hold fr inp)" "lg_holds (ledger_of s) (hold_id fr) = None"
    using assms(2,3) WReserve by (auto simp: admissible_def)
  note led = svc_reserve_ledger [OF assms(1) p]
  have "worth (snd (ledger_reserve (new_hold fr inp) (ledger_of s))) u = worth (ledger_of s) u"
    using p by (intro ledger_reserve_worth inv_ledger [OF assms(1)]) auto
  then show ?thesis using led WReserve by (simp add: ledger_reserve_holds)
next
  case (WConfirm fr i)
  have "worth (snd (ledger_close ''confirmed'' i (fr_now fr) (ledger_of s))) u = worth (ledger_of s) u"
    by (intro ledger_close_worth inv_ledger [OF assms(1)]) simp
  then show ?thesis using svc_close_ledger(1,3) [OF assms(1)] WConfirm by (simp add: ledger_close_None)
next
  case (WCancel fr i reason)
  have "worth (snd (ledger_close ''cancelled'' i (fr_now fr) (ledger_of s))) u = worth (ledger_of s) u"
    by (intro ledger_close_worth inv_ledger [OF assms(1)]) simp
  then show ?thesis using svc_close_ledger(2,4) [OF assms(1)] WCancel by (simp add: ledger_close_None)
next
  case (WTopUp fr v a)
  show ?thesis
  proof (cases "v = [] \<or> sint a \<le> 0")
    case True
    then show ?thesis using WTopUp assms(1) by (auto simp: svc_topup_def)
  next
    case False
    then have "lg_bal (ledger_of s) v + sint a < 2 ^ 63" using spec [OF assms(4), of v] WTopUp by simp
    with False topup_sim [OF assms(1), of a v "fr_event_now fr"] WTopUp
    show ?thesis by (auto simp: svc_topup_def ledger_topup_worth ledger_topup_def worth_def)
  qed
qed

lemma bal_le_worth:
  assumes "inv s"
  shows "lg_bal (ledger_of s) u \<le> worth (ledger_of s) u"
proof -
  have "0 \<le> sint (wh_amount h)" if "lg_holds (ledger_of s) i = Some h" for i h
    using ledger_invD(3) [OF inv_ledger [OF assms] that] by simp
  then show ?thesis unfolding worth_def using held_nonneg by fastforce
qed

lemma admissible_Cons:
  "admissible (c # cs) \<Longrightarrow> admissible [c] \<and> admissible cs \<and> set (new_ids [c]) \<inter> set (new_ids cs) = {}"
  by (cases c) (auto simp: admissible_def)

lemma new_ids_Cons: "set (new_ids (c # cs)) = set (new_ids [c]) \<union> set (new_ids cs)"
  by (cases c) auto

lemma wallet_run_ledger:
  assumes "inv s" and "admissible cs" and "\<forall>i \<in> set (new_ids cs). lg_holds (ledger_of s) i = None"
    and "\<forall>u. worth (ledger_of s) u + topped u cs < 2 ^ 63"
  shows "inv (wallet_run ops src cs s) \<and> ledger_of (wallet_run ops src cs s) = fold ledger_step cs (ledger_of s) \<and>
    (\<forall>u. worth (ledger_of (wallet_run ops src cs s)) u = worth (ledger_of s) u + topped u cs)"
  using assms
proof (induction cs arbitrary: s)
  case Nil
  then show ?case by simp
next
  case (Cons c cs)
  note adm = admissible_Cons [OF Cons.prems(2)]
  have fits: "\<forall>u. lg_bal (ledger_of s) u + topped u [c] < 2 ^ 63"
  proof
    fix u
    show "lg_bal (ledger_of s) u + topped u [c] < 2 ^ 63"
      using bal_le_worth [OF Cons.prems(1), of u] spec [OF Cons.prems(4), of u] topped_nonneg [of u cs]
        topped_Cons [of u c cs] by linarith
  qed
  have fresh: "\<forall>i \<in> set (new_ids [c]). lg_holds (ledger_of s) i = None"
    "\<forall>i \<in> set (new_ids cs). lg_holds (ledger_of s) i = None" "set (new_ids [c]) \<inter> set (new_ids cs) = {}"
    using Cons.prems(3) adm unfolding new_ids_Cons [of c cs] by blast+
  have "inv (wallet_step ops src c s) \<and> ledger_of (wallet_step ops src c s) = ledger_step c (ledger_of s) \<and>
    worth (ledger_of (wallet_step ops src c s)) u = worth (ledger_of s) u + topped u [c] \<and>
    (\<forall>i. i \<notin> set (new_ids [c]) \<longrightarrow> lg_holds (ledger_of s) i = None \<longrightarrow> lg_holds (ledger_of (wallet_step ops src c s)) i = None)" for u
    using wallet_step_ledger [OF Cons.prems(1) _ fresh(1) fits] adm by blast
  then have step: "inv (wallet_step ops src c s)" "ledger_of (wallet_step ops src c s) = ledger_step c (ledger_of s)"
    "\<And>u. worth (ledger_of (wallet_step ops src c s)) u = worth (ledger_of s) u + topped u [c]"
    "\<forall>i \<in> set (new_ids cs). lg_holds (ledger_of (wallet_step ops src c s)) i = None"
    using fresh(2,3) by blast+
  have "\<forall>u. worth (ledger_of (wallet_step ops src c s)) u + topped u cs < 2 ^ 63"
  proof
    fix u
    show "worth (ledger_of (wallet_step ops src c s)) u + topped u cs < 2 ^ 63"
      using spec [OF Cons.prems(4), of u] step(3) [of u] topped_Cons [of u c cs] by linarith
  qed
  note Cons.IH [OF step(1) _ step(4) this]
  then have r: "inv (wallet_run ops src (c # cs) s)"
    "ledger_of (wallet_run ops src (c # cs) s) = fold ledger_step cs (ledger_of (wallet_step ops src c s))"
    "\<forall>u. worth (ledger_of (wallet_run ops src (c # cs) s)) u = worth (ledger_of (wallet_step ops src c s)) u + topped u cs"
    using adm unfolding wallet_run.simps by blast+
  show ?case
  proof (intro conjI allI)
    show "inv (wallet_run ops src (c # cs) s)" by (rule r(1))
    show "ledger_of (wallet_run ops src (c # cs) s) = fold ledger_step (c # cs) (ledger_of s)"
      by (simp add: r(2) step(2) del: wallet_run.simps)
    show "worth (ledger_of (wallet_run ops src (c # cs) s)) u = worth (ledger_of s) u + topped u (c # cs)" for u
      using spec [OF r(3), of u] step(3) [of u] topped_Cons [of u c cs] by linarith
  qed
qed

text \<open>What the wallet query answers, in terms of the ledger.\<close>

lemma svc_wallet_ledger:
  assumes "inv s" and "u \<noteq> []"
  shows "\<exists>w. svc_wallet ops u s = Inr w \<and> wb_user w = u \<and>
     sint (wb_balance w) = lg_bal (ledger_of s) u \<and> sint (wb_reserved w) = lg_res (ledger_of s) u"
  using get_wallet_val [OF assms(1), of u] assms(2) by (auto simp: svc_wallet_def ErrNotFound_def)

lemma wallet_accounts:
  assumes "inv s" and "admissible cs" and "\<forall>i \<in> set (new_ids cs). lg_holds (ledger_of s) i = None"
    and "\<forall>u. worth (ledger_of s) u + topped u cs < 2 ^ 63" and "u \<noteq> []"
  shows "\<exists>w. svc_wallet ops u (wallet_run ops src cs s) = Inr w \<and>
     0 \<le> sint (wb_reserved w) \<and> sint (wb_reserved w) \<le> sint (wb_balance w) \<and>
     sint (wb_reserved w) = held ''reserved'' (lg_holds (ledger_of (wallet_run ops src cs s))) u \<and>
     sint (wb_balance w) + held ''confirmed'' (lg_holds (ledger_of (wallet_run ops src cs s))) u
       = worth (ledger_of s) u + topped u cs"
proof -
  have run: "inv (wallet_run ops src cs s)"
    "worth (ledger_of (wallet_run ops src cs s)) u = worth (ledger_of s) u + topped u cs"
    using wallet_run_ledger [OF assms(1-4)] by blast+
  note L = inv_ledger [OF run(1)]
  obtain w where "svc_wallet ops u (wallet_run ops src cs s) = Inr w"
     "sint (wb_balance w) = lg_bal (ledger_of (wallet_run ops src cs s)) u"
     "sint (wb_reserved w) = lg_res (ledger_of (wallet_run ops src cs s)) u"
    using svc_wallet_ledger [OF run(1) assms(5)] by blast
  then show ?thesis
    using ledger_invD(5,6) [OF L, of u] ledger_inv_res_nonneg [OF L, of u] run(2) by (simp add: worth_def)
qed

text \<open>A reservation, once made, is found again by its user and key.\<close>

lemma ledger_reserve_again:
  assumes "ledger_inv L" and "fst (ledger_reserve h L) = Inr h1"
  shows "lg_idem (snd (ledger_reserve h L)) (wh_user h, wh_idem h) = Some (wh_id h1) \<and>
         lg_holds (snd (ledger_reserve h L)) (wh_id h1) = Some h1"
proof (cases "lg_idem L (wh_user h, wh_idem h)")
  case None
  then show ?thesis using assms(2) by (auto simp: ledger_reserve_def split: if_splits)
next
  case (Some i)
  then obtain h0 where "lg_holds L i = Some h0" using ledger_invD(4) [OF assms(1) Some] by blast
  moreover have "wh_id h0 = i" using ledger_invD(2) [OF assms(1) calculation] by (simp add: hold_wf_def)
  ultimately show ?thesis using Some assms(2) by (auto simp: ledger_reserve_def)
qed

lemma reserve_repeated:
  assumes "inv s" and "ok_hold (new_hold fr inp)" and "lg_holds (ledger_of s) (hold_id fr) = None"
    and first: "fst (svc_reserve ops src fr inp s) = Inr d"
    and "ok_hold (new_hold fr' inp')" and "lg_holds (ledger_of (snd (svc_reserve ops src fr inp s))) (hold_id fr') = None"
    and same: "ri_user inp' = ri_user inp" "ri_idem inp' = ri_idem inp" and "ri_grams inp' \<noteq> 0"
  shows "fst (svc_reserve ops src fr' inp' (snd (svc_reserve ops src fr inp s))) = Inr d \<and>
     ledger_of (snd (svc_reserve ops src fr' inp' (snd (svc_reserve ops src fr inp s)))) =
       ledger_of (snd (svc_reserve ops src fr inp s))"
proof -
  have inp: "ri_user inp \<noteq> []" "ri_idem inp \<noteq> []" "ri_grams inp \<noteq> 0"
    using first by (auto simp: svc_reserve_def split: if_splits)
  define s1 where "s1 = snd (svc_reserve ops src fr inp s)"
  note sim = reserve_sim [OF assms(1) _ new_hold_new [OF inp(3)] assms(2)]
  obtain h1 where h1: "fst (ledger_reserve (new_hold fr inp) (ledger_of s)) = Inr h1" "d = walletHoldExternal h1"
    using first inp sim assms(3) by (auto simp: svc_fst map_sum_eq_Inr)
  have s1: "inv s1" "ledger_of s1 = snd (ledger_reserve (new_hold fr inp) (ledger_of s))"
    using svc_reserve_ledger [OF assms(1-3), of src] inp by (simp_all add: s1_def)
  have L1: "lg_idem (ledger_of s1) (ri_user inp, ri_idem inp) = Some (wh_id h1)"
    "lg_holds (ledger_of s1) (wh_id h1) = Some h1"
    using ledger_reserve_again [OF inv_ledger [OF assms(1)] h1(1)] s1(2) by simp_all
  have again: "ledger_reserve (new_hold fr' inp') (ledger_of s1) = (Inr h1, ledger_of s1)"
    using L1 same by (simp add: ledger_reserve_def)
  note sim' = reserve_sim [OF s1(1) _ new_hold_new [OF assms(9)] assms(5)]
  have "fst (svc_reserve ops src fr' inp' s1) = Inr d"
    using sim' assms(6) again inp same h1(2) assms(9) by (simp add: svc_fst s1_def [symmetric])
  moreover have "ledger_of (snd (svc_reserve ops src fr' inp' s1)) = ledger_of s1"
    using svc_reserve_ledger(2) [OF s1(1) assms(5), of src] assms(6) again by (simp add: s1_def)
  ultimately show ?thesis by (simp add: s1_def)
qed

text \<open>Closing a hold is final: repeating it changes nothing and the other way is refused.\<close>

lemma ledger_close_final:
  assumes "fst (ledger_close st i at L) = Inr h"
  shows "ledger_close st i at' (snd (ledger_close st i at L)) = (Inr h, snd (ledger_close st i at L))"
    and "st' \<noteq> st \<Longrightarrow> st \<noteq> ''reserved'' \<Longrightarrow>
      ledger_close st' i at' (snd (ledger_close st i at L)) = (Inl ErrAlreadyTerminal, snd (ledger_close st i at L))"
proof -
  have "lg_holds (snd (ledger_close st i at L)) i = Some h \<and> wh_status h = st"
  proof (cases "lg_holds L i")
    case None
    then show ?thesis using assms by (simp add: ledger_close_def)
  next
    case (Some g)
    then show ?thesis using assms by (simp add: ledger_close_def Let_def split: if_splits) auto
  qed
  then show "ledger_close st i at' (snd (ledger_close st i at L)) = (Inr h, snd (ledger_close st i at L))"
    "st' \<noteq> st \<Longrightarrow> st \<noteq> ''reserved'' \<Longrightarrow>
      ledger_close st' i at' (snd (ledger_close st i at L)) = (Inl ErrAlreadyTerminal, snd (ledger_close st i at L))"
    by (simp_all add: ledger_close_def [of _ i at'])
qed

lemma svc_close_fst:
  assumes "inv s" and "i \<noteq> []"
  shows "fst (svc_confirm ops src fr i s) =
           map_sum (close_error ''confirm'') walletHoldExternal (fst (ledger_close ''confirmed'' i (fr_now fr) (ledger_of s)))"
    and "fst (svc_cancel ops src fr i reason s) =
           map_sum (close_error ''cancel'') walletHoldExternal (fst (ledger_close ''cancelled'' i (fr_now fr) (ledger_of s)))"
  using confirm_sim [OF assms(1)] cancel_sim [OF assms(1)] assms(2) by (simp_all add: svc_fst)

lemma close_is_final:
  assumes "inv s" and ok: "fst (svc_confirm ops src fr i s) = Inr d"
  shows "fst (svc_confirm ops src fr' i (snd (svc_confirm ops src fr i s))) = Inr d"
    and "fst (svc_cancel ops src fr' i reason (snd (svc_confirm ops src fr i s))) =
      Inl (yerr SystemInternal ''hold already in terminal status'')"
    and "ledger_of (snd (svc_cancel ops src fr' i reason (snd (svc_confirm ops src fr i s)))) =
      ledger_of (snd (svc_confirm ops src fr i s))"
proof -
  have i: "i \<noteq> []" using ok by (auto simp: svc_confirm_def split: if_splits)
  define s1 where "s1 = snd (svc_confirm ops src fr i s)"
  have s1: "inv s1" "ledger_of s1 = snd (ledger_close ''confirmed'' i (fr_now fr) (ledger_of s))"
    using svc_close_ledger(1,3) [OF assms(1), of src fr i] i by (simp_all add: s1_def)
  obtain h where h: "fst (ledger_close ''confirmed'' i (fr_now fr) (ledger_of s)) = Inr h" "d = walletHoldExternal h"
    using ok svc_close_fst(1) [OF assms(1) i, of src fr] by (auto simp: map_sum_eq_Inr)
  note fin = ledger_close_final [OF h(1), folded s1(2)]
  show "fst (svc_confirm ops src fr' i s1) = Inr d"
    using svc_close_fst(1) [OF s1(1) i, of src fr'] fin(1) h(2) by simp
  show "fst (svc_cancel ops src fr' i reason s1) = Inl (yerr SystemInternal ''hold already in terminal status'')"
    using svc_close_fst(2) [OF s1(1) i, of src fr' reason] fin(2) [of "''cancelled''"]
    by (simp add: close_error_def ErrAlreadyTerminal_def ErrNotFound_def)
  show "ledger_of (snd (svc_cancel ops src fr' i reason s1)) = ledger_of s1"
    using svc_close_ledger(4) [OF s1(1), of src fr' i reason] fin(2) [of "''cancelled''"] i by simp
qed

end

section \<open>Properties of the in-process billing service\<close>

text \<open>Ids are fresh and users carry no bar: what the handlers guarantee of their calls.\<close>

definition calls_ok :: "wallet_call list \<Rightarrow> bool" where
  "calls_ok cs \<longleftrightarrow> distinct (new_ids cs) \<and>
     list_all (\<lambda>c. case c of WReserve fr inp \<Rightarrow> CHR ''|'' \<notin> set (ri_user inp) | _ \<Rightarrow> True) cs"

lemma calls_ok_admissible: "calls_ok cs \<Longrightarrow> bmem.admissible cs"
  by (auto simp: calls_ok_def bmem.admissible_def list_all_iff plain_user_def split: wallet_call.splits)


text \<open>\<open>Reserve\<close> is idempotent in the user and the idempotency key: the same key again, whatever
  the other fields say, returns the first hold and freezes nothing more.\<close>

theorem reserve_idempotent:
  assumes "bm_inv s" and "CHR ''|'' \<notin> set (ri_user inp)" and "bm_holds s (hold_id fr) = None"
    and "fst (svc_reserve bmem_ops src fr inp s) = Inr d"
    and "bm_holds (snd (svc_reserve bmem_ops src fr inp s)) (hold_id fr') = None"
    and "ri_user inp' = ri_user inp" and "ri_idem inp' = ri_idem inp" and "ri_grams inp' \<noteq> 0"
  shows "fst (svc_reserve bmem_ops src fr' inp' (snd (svc_reserve bmem_ops src fr inp s))) = Inr d \<and>
     bm_ledger (snd (svc_reserve bmem_ops src fr' inp' (snd (svc_reserve bmem_ops src fr inp s)))) =
       bm_ledger (snd (svc_reserve bmem_ops src fr inp s))"
proof -
  have holds: "lg_holds (bm_ledger s) = bm_holds s" for s by (simp add: bm_ledger_def)
  show ?thesis
    using bmem.reserve_repeated [OF assms(1) _ _ assms(4) _ _ assms(6-8)] assms(2,3,5,6) by (simp add: plain_user_def holds)
qed

text \<open>Confirming is final: a repeated \<open>Confirm\<close> returns the same hold, a later \<open>Cancel\<close> is
  refused and leaves every balance and hold as it was.\<close>

theorem confirm_is_final:
  assumes "bm_inv s" and "fst (svc_confirm bmem_ops src fr i s) = Inr d"
  shows "fst (svc_confirm bmem_ops src fr' i (snd (svc_confirm bmem_ops src fr i s))) = Inr d \<and>
     fst (svc_cancel bmem_ops src fr' i reason (snd (svc_confirm bmem_ops src fr i s))) =
       Inl (yerr SystemInternal ''hold already in terminal status'') \<and>
     bm_ledger (snd (svc_cancel bmem_ops src fr' i reason (snd (svc_confirm bmem_ops src fr i s)))) =
       bm_ledger (snd (svc_confirm bmem_ops src fr i s))"
  using bmem.close_is_final [OF assms] by blast

section \<open>Witnesses\<close>

definition fr_ex :: "string \<Rightarrow> fresh" where
  "fr_ex i = \<lparr>fr_id = i, fr_uuid = ''uuid'', fr_now = 0, fr_event_now = 0\<rparr>"

definition inp_ex :: reserve_input where
  "inp_ex = \<lparr>ri_user = ''u1'', ri_room = ''r1'', ri_cat = ''c1'', ri_feed_request = ''f1'', ri_idem = ''k1'', ri_grams = 2, ri_ttl = 0\<rparr>"


definition topped_store :: bmem where
  "topped_store = snd (bmem_topup 0 ''u1'' 100 bmem_new)"

lemma topped_store_inv: "bm_inv topped_store"
  unfolding topped_store_def
  by (rule bmem_topup_sim [THEN conjunct2, THEN conjunct2, OF bm_inv_new]) (simp_all add: bm_ledger_def bmem_new_def)

lemma topped_store_eq:
  "topped_store = \<lparr>bm_orders = Map.empty,
     bm_wallets = [''u1'' \<mapsto> \<lparr>wb_user = ''u1'', wb_balance = 100, wb_reserved = 0, wb_region = ''global'', wb_updated = 0\<rparr>],
     bm_holds = Map.empty, bm_idx = Map.empty\<rparr>"
  by (simp add: topped_store_def bmem_topup_def ensureWallet_def bmem_new_def Let_def)

definition reserved_store :: bmem where
  "reserved_store = snd (svc_reserve bmem_ops ''b'' (fr_ex ''1'') inp_ex topped_store)"

lemma reserved_store_eq:
  "fst (svc_reserve bmem_ops ''b'' (fr_ex ''1'') inp_ex topped_store) = Inr (walletHoldExternal (new_hold (fr_ex ''1'') inp_ex))"
  "bm_holds reserved_store = [''hold_1'' \<mapsto> new_hold (fr_ex ''1'') inp_ex]"
proof -
  have c: "ConvertGramsToFen 2 = 10" by (simp add: ConvertGramsToFen_def)
  have "bmem_reserve_hold 0 (new_hold (fr_ex ''1'') inp_ex) ev topped_store =
     (Inr (new_hold (fr_ex ''1'') inp_ex), topped_store\<lparr>
        bm_wallets := [''u1'' \<mapsto> \<lparr>wb_user = ''u1'', wb_balance = 100, wb_reserved = 10, wb_region = ''global'', wb_updated = 0\<rparr>],
        bm_holds := [''hold_1'' \<mapsto> new_hold (fr_ex ''1'') inp_ex], bm_idx := [''u1|k1'' \<mapsto> ''hold_1'']\<rparr>)" for ev
    unfolding topped_store_eq
    by (simp add: bmem_reserve_hold_def ensureWallet_def idx_key_def inp_ex_def c hold_id_def fr_ex_def)
  then show "fst (svc_reserve bmem_ops ''b'' (fr_ex ''1'') inp_ex topped_store) = Inr (walletHoldExternal (new_hold (fr_ex ''1'') inp_ex))"
    "bm_holds reserved_store = [''hold_1'' \<mapsto> new_hold (fr_ex ''1'') inp_ex]"
    by (simp_all add: svc_fst reserved_store_def svc_snd) (simp_all add: inp_ex_def fr_ex_def)
qed

theorem reserve_idempotent_witness:
  "fst (svc_reserve bmem_ops ''b'' (fr_ex ''2'') (inp_ex\<lparr>ri_grams := 7\<rparr>) reserved_store) =
     Inr (walletHoldExternal (new_hold (fr_ex ''1'') inp_ex))"
proof -
  have "CHR ''|'' \<notin> set (ri_user inp_ex)" "bm_holds topped_store (hold_id (fr_ex ''1'')) = None"
    "bm_holds reserved_store (hold_id (fr_ex ''2'')) = None" "ri_grams (inp_ex\<lparr>ri_grams := 7\<rparr>) \<noteq> 0"
    by (simp_all add: inp_ex_def topped_store_eq reserved_store_eq(2) hold_id_def fr_ex_def)
  then show ?thesis
    using reserve_idempotent [OF topped_store_inv _ _ reserved_store_eq(1), of "fr_ex ''2''" "inp_ex\<lparr>ri_grams := 7\<rparr>"]
    by (simp add: reserved_store_def)
qed

theorem confirm_is_final_witness:
  "fst (svc_cancel bmem_ops ''b'' (fr_ex ''z'') ''hold_1'' [] (snd (svc_confirm bmem_ops ''b'' (fr_ex ''y'') ''hold_1'' reserved_store)))
     = Inl (yerr SystemInternal ''hold already in terminal status'')"
proof -
  have "bm_inv reserved_store"
    unfolding reserved_store_def using topped_store_inv
    by (intro bmem.svc_reserve_ledger(1)) (simp_all add: plain_user_def inp_ex_def bm_ledger_def topped_store_eq)
  moreover have "\<exists>d. fst (svc_confirm bmem_ops ''b'' (fr_ex ''y'') ''hold_1'' reserved_store) = Inr d"
    by (simp add: svc_fst bmem_confirm_hold_def reserved_store_eq Let_def split: prod.split)
  ultimately show ?thesis using confirm_is_final by blast
qed

end
