(* ===== verification/BillingPg.thy ===== *)
theory BillingPg
  imports BillingWallet
begin

text \<open>
  The PostgreSQL half of \<^verbatim>\<open>go/services/billing-svc/internal/store/store.go\<close>.  Tables are maps by
  primary key; the statements' effects are those of the SQL in the source on the schema of
  \<^verbatim>\<open>go/migrations\<close>: primary keys, the unique index on user and idempotency key, and the checks
  of \<open>wallet_balances\<close> and \<open>wallet_holds\<close>.  Driver faults (also of foreign keys), the JSON encoder and
  the database clock are in the environment \<open>pg_env\<close>.
\<close>

section \<open>State and helpers\<close>

record pg_env =
  pe_flt :: faults
  pe_marshal :: "cloud_event \<Rightarrow> go_error + string"
  pe_now :: time

record bpg =
  pg_orders :: "string \<rightharpoonup> order"
  pg_wallets :: "string \<rightharpoonup> wallet_balance"
  pg_holds :: "string \<rightharpoonup> wallet_hold"
  pg_hold_idx :: "string \<times> string \<rightharpoonup> string"
  pg_outbox :: outbox_db

definition pg_error :: "string \<Rightarrow> go_error" where
  "pg_error what = Plain (''ERROR: '' @ what)"

fun writeOutbox :: "pg_env \<Rightarrow> string \<Rightarrow> outbox_event list \<Rightarrow> outbox_db \<Rightarrow> (go_error, unit, outbox_db) outcome" where
  "writeOutbox env region [] ob = (Inr (), ob)"
| "writeOutbox env region (ev # evs) ob =
     (case pe_marshal env (oe_event ev) of
        Inl e \<Rightarrow> (Inl (Wrap ''marshal cloudevent'' e), ob)
      | Inr payload \<Rightarrow>
          (case InsertOutbox (pe_flt env) (pe_now env)
                  \<lparr>or_id = 0, or_topic = topic_string (oe_topic ev), or_key = oe_key ev, or_payload = payload,
                   or_headers = Some (case oe_headers ev of None \<Rightarrow> ce_headers (oe_topic ev) | Some h \<Rightarrow> h),
                   or_region = region, or_created = zero_time\<rparr> ob of
             (Inl e, ob') \<Rightarrow> (Inl e, ob')
           | (Inr _, ob') \<Rightarrow> writeOutbox env region evs ob'))"

definition write_events :: "pg_env \<Rightarrow> string \<Rightarrow> outbox_event list \<Rightarrow> 'a \<Rightarrow> bpg \<Rightarrow> (go_error, 'a, bpg) outcome" where
  "write_events env region evs a d =
     (case writeOutbox env region evs (pg_outbox d) of
        (Inl e, ob) \<Rightarrow> (Inl e, d\<lparr>pg_outbox := ob\<rparr>)
      | (Inr _, ob) \<Rightarrow> (Inr a, d\<lparr>pg_outbox := ob\<rparr>))"

section \<open>Orders\<close>

definition pg_create_order :: "pg_env \<Rightarrow> order \<Rightarrow> outbox_event list \<Rightarrow> bpg \<Rightarrow> (go_error, unit, bpg) outcome" where
  "pg_create_order env ord evs = runTx (pe_flt env)
     (let region = (if o_region ord = [] then ''global'' else o_region ord) in
      and_then (stmt (pe_flt env) ''insert orders'' (Wrap ''insert orders'')
        (\<lambda>d. if 2 ^ 31 \<le> unat (o_amount ord) then (Inl (Wrap ''insert orders'' (pg_error ''integer out of range'')), d)
             else if o_idem ord \<noteq> [] \<and>
                     (\<exists>x \<in> ran (pg_orders d). o_user x = o_user ord \<and> o_idem x = o_idem ord)
             then (Inr (), d)
             else if pg_orders d (o_id ord) \<noteq> None
             then (Inl (Wrap ''insert orders'' (pg_error ''duplicate key value'')), d)
             else (Inr (), d\<lparr>pg_orders := (pg_orders d)(o_id ord \<mapsto> ord\<lparr>o_region := region, o_updated := o_created ord,
                     o_paid_at := zero_time, o_refunded_at := zero_time\<rparr>)\<rparr>)))
       (\<lambda>_. write_events env region evs ()))"

definition loadOrderTx :: "pg_env \<Rightarrow> string \<Rightarrow> bpg \<Rightarrow> (go_error, order, bpg) outcome" where
  "loadOrderTx env i = stmt (pe_flt env) ''select order'' (\<lambda>e. e)
     (\<lambda>d. (case pg_orders d i of None \<Rightarrow> Inl ErrNotFound | Some ord \<Rightarrow> Inr ord, d))"

definition pg_mark_paid :: "pg_env \<Rightarrow> string \<Rightarrow> time \<Rightarrow> outbox_event list \<Rightarrow> bpg \<Rightarrow> (go_error, order, bpg) outcome" where
  "pg_mark_paid env i t evs = runTx (pe_flt env)
     (and_then (stmt (pe_flt env) ''update orders paid'' (Wrap ''update orders paid'')
        (\<lambda>d. case pg_orders d i of
               None \<Rightarrow> (Inr False, d)
             | Some ord \<Rightarrow> if o_status ord = ''paid'' then (Inr False, d)
                 else (Inr True, d\<lparr>pg_orders := (pg_orders d)(i \<mapsto> ord\<lparr>o_status := ''paid'', o_paid_at := t, o_updated := t\<rparr>)\<rparr>)))
      (\<lambda>changed. if changed
         then and_then (loadOrderTx env i) (\<lambda>ord. write_events env (o_region ord) evs ord)
         else (\<lambda>d. case loadOrderTx env i d of
                 (Inl e, d') \<Rightarrow> (Inl (if errors_is e ErrNotFound then ErrNotFound else ErrAlreadyPaid), d')
               | (Inr _, d') \<Rightarrow> (Inl ErrAlreadyPaid, d'))))"

definition pg_refund :: "pg_env \<Rightarrow> string \<Rightarrow> time \<Rightarrow> outbox_event list \<Rightarrow> bpg \<Rightarrow> (go_error, order, bpg) outcome" where
  "pg_refund env i t evs = runTx (pe_flt env)
     (and_then (stmt (pe_flt env) ''update orders refund'' (Wrap ''update orders refund'')
        (\<lambda>d. case pg_orders d i of
               None \<Rightarrow> (Inr (), d)
             | Some ord \<Rightarrow> if o_status ord = ''refunded'' then (Inr (), d)
                 else (Inr (), d\<lparr>pg_orders := (pg_orders d)(i \<mapsto> ord\<lparr>o_status := ''refunded'', o_refunded_at := t, o_updated := t\<rparr>)\<rparr>)))
      (\<lambda>_. and_then (loadOrderTx env i) (\<lambda>ord. write_events env (o_region ord) evs ord)))"

definition pg_get_order :: "pg_env \<Rightarrow> string \<Rightarrow> bpg \<Rightarrow> go_error + order" where
  "pg_get_order env i d = fst (loadOrderTx env i d)"

section \<open>Wallets\<close>

definition loadHoldByIdemTx :: "pg_env \<Rightarrow> string \<Rightarrow> string \<Rightarrow> bpg \<Rightarrow> (go_error, wallet_hold, bpg) outcome" where
  "loadHoldByIdemTx env user idem = stmt (pe_flt env) ''select hold by idem'' (\<lambda>e. e)
     (\<lambda>d. (case pg_hold_idx d (user, idem) of
             None \<Rightarrow> Inl ErrNotFound
           | Some i \<Rightarrow> (case pg_holds d i of None \<Rightarrow> Inl ErrNotFound | Some h \<Rightarrow> Inr h), d))"

definition loadHoldTx :: "pg_env \<Rightarrow> string \<Rightarrow> bpg \<Rightarrow> (go_error, wallet_hold, bpg) outcome" where
  "loadHoldTx env i = stmt (pe_flt env) ''select hold'' (\<lambda>e. e)
     (\<lambda>d. (case pg_holds d i of None \<Rightarrow> Inl ErrNotFound | Some h \<Rightarrow> Inr h, d))"

text \<open>Adding to the balance and the reserved part of a row, under the table's checks.\<close>

definition add_wallet :: "string \<Rightarrow> int \<Rightarrow> int \<Rightarrow> time \<Rightarrow> (go_error \<Rightarrow> go_error) \<Rightarrow> bpg \<Rightarrow> (go_error, unit, bpg) outcome" where
  "add_wallet user db dr at wrap d =
     (case pg_wallets d user of
        None \<Rightarrow> (Inr (), d)
      | Some w \<Rightarrow>
          let b = sint (wb_balance w) + db; r = sint (wb_reserved w) + dr
          in if b < 0 \<or> r < 0 then (Inl (wrap (pg_error ''violates check constraint'')), d)
             else if 2 ^ 63 \<le> b \<or> 2 ^ 63 \<le> r then (Inl (wrap (pg_error ''bigint out of range'')), d)
             else (Inr (), d\<lparr>pg_wallets := (pg_wallets d)(user \<mapsto>
                     w\<lparr>wb_balance := word_of_int b, wb_reserved := word_of_int r, wb_updated := at\<rparr>)\<rparr>))"

definition upsert_wallet :: "time \<Rightarrow> string \<Rightarrow> string \<Rightarrow> bpg \<Rightarrow> bpg" where
  "upsert_wallet now user region d =
     (if pg_wallets d user = None
      then d\<lparr>pg_wallets := (pg_wallets d)(user \<mapsto> \<lparr>wb_user = user, wb_balance = 0, wb_reserved = 0, wb_region = region, wb_updated = now\<rparr>)\<rparr>
      else d)"

definition insert_hold :: "wallet_hold \<Rightarrow> string \<Rightarrow> bpg \<Rightarrow> (go_error, unit, bpg) outcome" where
  "insert_hold h region d =
     (if pg_holds d (wh_id h) \<noteq> None \<or> pg_hold_idx d (wh_user h, wh_idem h) \<noteq> None
      then (Inl (Wrap ''insert wallet_hold'' (pg_error ''duplicate key value'')), d)
      else if sint (wh_amount h) \<le> 0
      then (Inl (Wrap ''insert wallet_hold'' (pg_error ''violates check constraint'')), d)
      else if 2 ^ 31 \<le> unat (wh_grams h)
      then (Inl (Wrap ''insert wallet_hold'' (pg_error ''integer out of range'')), d)
      else (Inr (), d\<lparr>pg_holds := (pg_holds d)(wh_id h \<mapsto> h\<lparr>wh_status := ''reserved'', wh_region := region, wh_updated := wh_created h\<rparr>),
                      pg_hold_idx := (pg_hold_idx d)((wh_user h, wh_idem h) \<mapsto> wh_id h)\<rparr>))"

definition pg_reserve_new :: "pg_env \<Rightarrow> wallet_hold \<Rightarrow> outbox_event list \<Rightarrow> bpg \<Rightarrow> (go_error, wallet_hold, bpg) outcome" where
  "pg_reserve_new env h evs =
     (let region = (if wh_region h = [] then ''global'' else wh_region h) in
      and_then (stmt (pe_flt env) ''upsert wallet_balance'' (Wrap ''upsert wallet_balance'')
         (\<lambda>d. (Inr (), upsert_wallet (pe_now env) (wh_user h) region d)))
      (\<lambda>_. and_then (stmt (pe_flt env) ''select wallet for update'' (Wrap ''select wallet for update'')
         (\<lambda>d. (case pg_wallets d (wh_user h) of
                 None \<Rightarrow> Inl (Wrap ''select wallet for update'' (pg_error ''no rows in result set''))
               | Some w \<Rightarrow> Inr (wb_balance w, wb_reserved w), d)))
      (\<lambda>(balance, reserved).
         if sint (balance - reserved) < sint (wh_amount h) then (\<lambda>d. (Inl ErrInsufficient, d))
         else and_then (stmt (pe_flt env) ''insert wallet_hold'' (Wrap ''insert wallet_hold'') (insert_hold h region))
         (\<lambda>_. and_then (stmt (pe_flt env) ''update wallet_balance reserved'' (Wrap ''update wallet_balance reserved'')
             (add_wallet (wh_user h) 0 (sint (wh_amount h)) (wh_created h) (Wrap ''update wallet_balance reserved'')))
         (\<lambda>_. write_events env region evs h)))))"

definition pg_reserve_hold :: "pg_env \<Rightarrow> time \<Rightarrow> wallet_hold \<Rightarrow> outbox_event list \<Rightarrow> bpg \<Rightarrow> (go_error, wallet_hold, bpg) outcome" where
  "pg_reserve_hold env now h evs = runTx (pe_flt env)
     (\<lambda>d. case loadHoldByIdemTx env (wh_user h) (wh_idem h) d of
        (Inr h', d') \<Rightarrow> (Inr h', d')
      | (Inl e, d') \<Rightarrow> if errors_is e ErrNotFound then pg_reserve_new env h evs d' else (Inl e, d'))"

text \<open>The bodies of \<open>ConfirmHold\<close> and \<open>CancelHold\<close>.\<close>

definition pg_confirm_hold :: "pg_env \<Rightarrow> time \<Rightarrow> string \<Rightarrow> time \<Rightarrow> outbox_event list \<Rightarrow> bpg \<Rightarrow> (go_error, wallet_hold, bpg) outcome" where
  "pg_confirm_hold env now i at evs = runTx (pe_flt env)
     (and_then (loadHoldTx env i)
      (\<lambda>h. if wh_status h = ''confirmed'' then (\<lambda>d. (Inr h, d))
           else if wh_status h \<noteq> ''reserved'' then (\<lambda>d. (Inl ErrAlreadyTerminal, d))
           else and_then (stmt (pe_flt env) ''update hold confirm'' (Wrap ''update hold confirm'')
               (\<lambda>d. (Inr (), d\<lparr>pg_holds := (pg_holds d)(i \<mapsto> h\<lparr>wh_status := ''confirmed'', wh_updated := at\<rparr>)\<rparr>)))
           (\<lambda>_. and_then (stmt (pe_flt env) ''update wallet confirm'' (Wrap ''update wallet confirm'')
               (add_wallet (wh_user h) (- sint (wh_amount h)) (- sint (wh_amount h)) at (Wrap ''update wallet confirm'')))
           (\<lambda>_. write_events env (wh_region h) evs (h\<lparr>wh_status := ''confirmed'', wh_updated := at\<rparr>)))))"

definition pg_cancel_hold :: "pg_env \<Rightarrow> time \<Rightarrow> string \<Rightarrow> time \<Rightarrow> outbox_event list \<Rightarrow> bpg \<Rightarrow> (go_error, wallet_hold, bpg) outcome" where
  "pg_cancel_hold env now i at evs = runTx (pe_flt env)
     (and_then (loadHoldTx env i)
      (\<lambda>h. if wh_status h = ''cancelled'' then (\<lambda>d. (Inr h, d))
           else if wh_status h \<noteq> ''reserved'' then (\<lambda>d. (Inl ErrAlreadyTerminal, d))
           else and_then (stmt (pe_flt env) ''update hold cancel'' (Wrap ''update hold cancel'')
               (\<lambda>d. (Inr (), d\<lparr>pg_holds := (pg_holds d)(i \<mapsto> h\<lparr>wh_status := ''cancelled'', wh_updated := at\<rparr>)\<rparr>)))
           (\<lambda>_. and_then (stmt (pe_flt env) ''update wallet cancel'' (Wrap ''update wallet cancel'')
               (add_wallet (wh_user h) 0 (- sint (wh_amount h)) at (Wrap ''update wallet cancel'')))
           (\<lambda>_. write_events env (wh_region h) evs (h\<lparr>wh_status := ''cancelled'', wh_updated := at\<rparr>)))))"

definition pg_get_hold :: "pg_env \<Rightarrow> string \<Rightarrow> bpg \<Rightarrow> go_error + wallet_hold" where
  "pg_get_hold env i d = (case pe_flt env ''begin'' of Some e \<Rightarrow> Inl e | None \<Rightarrow> fst (loadHoldTx env i d))"

definition pg_get_wallet :: "pg_env \<Rightarrow> string \<Rightarrow> bpg \<Rightarrow> go_error + wallet_balance" where
  "pg_get_wallet env user d = fst (stmt (pe_flt env) ''select wallet'' (\<lambda>e. e)
     (\<lambda>d. (case pg_wallets d user of None \<Rightarrow> Inl ErrNotFound | Some w \<Rightarrow> Inr w, d)) d)"

definition pg_topup :: "pg_env \<Rightarrow> time \<Rightarrow> string \<Rightarrow> i64 \<Rightarrow> bpg \<Rightarrow> (go_error, unit, bpg) outcome" where
  "pg_topup env now user amount = stmt (pe_flt env) ''topup wallet'' (\<lambda>e. e)
     (\<lambda>d. case pg_wallets d user of
        None \<Rightarrow>
          if sint amount < 0 then (Inl (pg_error ''violates check constraint''), d)
          else (Inr (), d\<lparr>pg_wallets := (pg_wallets d)(user \<mapsto>
                  \<lparr>wb_user = user, wb_balance = amount, wb_reserved = 0, wb_region = ''global'', wb_updated = pe_now env\<rparr>)\<rparr>)
      | Some w \<Rightarrow> add_wallet user (sint amount) 0 (pe_now env) (\<lambda>e. e) d)"

definition bpg_ops :: "pg_env \<Rightarrow> bpg billing_ops" where
  "bpg_ops env = \<lparr>bo_create_order = pg_create_order env, bo_mark_paid = pg_mark_paid env, bo_refund = pg_refund env,
     bo_get_order = pg_get_order env, bo_reserve_hold = pg_reserve_hold env, bo_confirm_hold = pg_confirm_hold env,
     bo_cancel_hold = pg_cancel_hold env, bo_get_hold = pg_get_hold env, bo_get_wallet = pg_get_wallet env, bo_topup = pg_topup env\<rparr>"

lemma bpg_ops_simps [simp]:
  "bo_create_order (bpg_ops env) = pg_create_order env" "bo_mark_paid (bpg_ops env) = pg_mark_paid env"
  "bo_refund (bpg_ops env) = pg_refund env" "bo_get_order (bpg_ops env) = pg_get_order env"
  "bo_reserve_hold (bpg_ops env) = pg_reserve_hold env" "bo_confirm_hold (bpg_ops env) = pg_confirm_hold env"
  "bo_cancel_hold (bpg_ops env) = pg_cancel_hold env" "bo_get_hold (bpg_ops env) = pg_get_hold env"
  "bo_get_wallet (bpg_ops env) = pg_get_wallet env" "bo_topup (bpg_ops env) = pg_topup env"
  by (simp_all add: bpg_ops_def)

end
