(* ===== verification/BillingPgRefine.thy ===== *)
theory BillingPgRefine
  imports BillingPg
begin

text \<open>
  The PostgreSQL billing store keeps the wallet contract when the database answers: the same ledger
  as the in-process store, operation by operation, so that no sequence of wallet calls can tell the two
  apart.  Under arbitrary faults every operation is atomic.
\<close>

definition pg_ok :: "pg_env \<Rightarrow> bool" where
  "pg_ok env \<longleftrightarrow> pe_flt env = no_faults \<and> (\<forall>ev. \<exists>p. p \<noteq> [] \<and> pe_marshal env ev = Inr p)"

definition bpg_ledger :: "bpg \<Rightarrow> ledger" where
  "bpg_ledger d =
     \<lparr>lg_bal = (\<lambda>u. case pg_wallets d u of None \<Rightarrow> 0 | Some w \<Rightarrow> sint (wb_balance w)),
      lg_res = (\<lambda>u. case pg_wallets d u of None \<Rightarrow> 0 | Some w \<Rightarrow> sint (wb_reserved w)),
      lg_holds = pg_holds d, lg_idem = pg_hold_idx d\<rparr>"

definition bpg_inv :: "bpg \<Rightarrow> bool" where
  "bpg_inv d \<longleftrightarrow> ledger_inv (bpg_ledger d) \<and> (\<forall>u w. pg_wallets d u = Some w \<longrightarrow> wb_user w = u) \<and>
     (\<forall>i h. pg_holds d i = Some h \<longrightarrow> pg_wallets d (wh_user h) \<noteq> None)"

definition small_hold :: "wallet_hold \<Rightarrow> bool" where
  "small_hold h \<longleftrightarrow> unat (wh_grams h) < 2 ^ 31"

definition bpg_new :: bpg where
  "bpg_new = \<lparr>pg_orders = Map.empty, pg_wallets = Map.empty, pg_holds = Map.empty, pg_hold_idx = Map.empty,
     pg_outbox = \<lparr>ob_table = [], ob_dlq = [], ob_next = 1\<rparr>\<rparr>"

lemma bpg_new_inv: "bpg_inv bpg_new" "bpg_ledger bpg_new = ledger_empty"
  by (simp_all add: bpg_inv_def bpg_ledger_def bpg_new_def ledger_inv_def ledger_empty_def)

lemma bpg_outbox_irrelevant [simp]:
  "bpg_ledger (d\<lparr>pg_outbox := ob\<rparr>) = bpg_ledger d" "bpg_inv (d\<lparr>pg_outbox := ob\<rparr>) = bpg_inv d"
  by (simp_all add: bpg_inv_def bpg_ledger_def)

lemma writeOutbox_ok:
  assumes "pg_ok env" and "ok_events evs"
  shows "fst (writeOutbox env region evs ob) = Inr ()"
  using assms
proof (induction evs arbitrary: ob)
  case Nil
  then show ?case by simp
next
  case (Cons ev evs)
  obtain p where p: "p \<noteq> []" "pe_marshal env (oe_event ev) = Inr p" using Cons.prems(1) by (auto simp: pg_ok_def)
  have "topic_string (oe_topic ev) \<noteq> []" "pe_flt env = no_faults" using Cons.prems by (auto simp: ok_events_def pg_ok_def)
  then show ?case using Cons p by (simp add: InsertOutbox_def ok_events_def)
qed

lemma write_events_ok:
  assumes "pg_ok env" and "ok_events evs"
  shows "\<exists>ob. write_events env region evs a d = (Inr a, d\<lparr>pg_outbox := ob\<rparr>)"
  using writeOutbox_ok [OF assms, of region "pg_outbox d"]
  by (auto simp: write_events_def split: prod.split sum.split)

lemma bpg_bounds:
  assumes "bpg_inv d"
  shows "0 \<le> lg_res (bpg_ledger d) u" and "lg_res (bpg_ledger d) u \<le> lg_bal (bpg_ledger d) u"
    and "lg_bal (bpg_ledger d) u < 2 ^ 63"
proof -
  have L: "ledger_inv (bpg_ledger d)" using assms by (simp add: bpg_inv_def)
  show "0 \<le> lg_res (bpg_ledger d) u" by (rule ledger_inv_res_nonneg [OF L])
  show "lg_res (bpg_ledger d) u \<le> lg_bal (bpg_ledger d) u" by (rule ledger_invD(6) [OF L])
  show "lg_bal (bpg_ledger d) u < 2 ^ 63"
    using sint_range_i64(2) by (simp add: bpg_ledger_def split: option.split)
qed

text \<open>A row update that stays in range.\<close>

lemma add_wallet_ok:
  assumes "pg_wallets d u = Some w" and "0 \<le> sint (wb_balance w) + db" "sint (wb_balance w) + db < 2 ^ 63"
    and "0 \<le> sint (wb_reserved w) + dr" "sint (wb_reserved w) + dr < 2 ^ 63"
  shows "\<exists>w'. add_wallet u db dr at wrap d = (Inr (), d\<lparr>pg_wallets := (pg_wallets d)(u \<mapsto> w')\<rparr>) \<and> wb_user w' = wb_user w \<and>
     sint (wb_balance w') = sint (wb_balance w) + db \<and> sint (wb_reserved w') = sint (wb_reserved w) + dr"
proof -
  have "sint (word_of_int i :: i64) = i" if "0 \<le> i" "i < 2 ^ 63" for i
    using that by (simp add: signed_of_int signed_take_bit_int_eq_self)
  then show ?thesis
    using assms
    by (intro exI [of _ "w\<lparr>wb_balance := word_of_int (sint (wb_balance w) + db),
          wb_reserved := word_of_int (sint (wb_reserved w) + dr), wb_updated := at\<rparr>"])
      (simp add: add_wallet_def Let_def del: of_int_add)
qed

lemma upsert_wallet_props:
  assumes "bpg_inv d"
  shows "bpg_ledger (upsert_wallet now u r d) = bpg_ledger d" and "bpg_inv (upsert_wallet now u r d)"
    and "\<exists>w. pg_wallets (upsert_wallet now u r d) u = Some w \<and> sint (wb_balance w) = lg_bal (bpg_ledger d) u \<and>
          sint (wb_reserved w) = lg_res (bpg_ledger d) u"
    and "pg_holds (upsert_wallet now u r d) = pg_holds d" and "pg_hold_idx (upsert_wallet now u r d) = pg_hold_idx d"
proof -
  show led: "bpg_ledger (upsert_wallet now u r d) = bpg_ledger d"
    by (auto simp: upsert_wallet_def bpg_ledger_def fun_eq_iff)
  show "pg_holds (upsert_wallet now u r d) = pg_holds d" "pg_hold_idx (upsert_wallet now u r d) = pg_hold_idx d"
    by (simp_all add: upsert_wallet_def)
  show "bpg_inv (upsert_wallet now u r d)"
    using assms led by (auto simp: bpg_inv_def upsert_wallet_def split: if_splits)
  show "\<exists>w. pg_wallets (upsert_wallet now u r d) u = Some w \<and> sint (wb_balance w) = lg_bal (bpg_ledger d) u \<and>
          sint (wb_reserved w) = lg_res (bpg_ledger d) u"
    by (auto simp: upsert_wallet_def bpg_ledger_def)
qed

lemma pg_reserve_sim:
  assumes env: "pg_ok env" and d: "bpg_inv d" and ev: "ok_events ev" and h: "hold_new h" "small_hold h"
    and new: "lg_holds (bpg_ledger d) (wh_id h) = None"
  shows "fst (pg_reserve_hold env now h ev d) = fst (ledger_reserve h (bpg_ledger d)) \<and>
         bpg_ledger (snd (pg_reserve_hold env now h ev d)) = snd (ledger_reserve h (bpg_ledger d)) \<and>
         bpg_inv (snd (pg_reserve_hold env now h ev d))"
proof -
  have nf: "pe_flt env = no_faults" using env by (simp add: pg_ok_def)
  have L: "ledger_inv (bpg_ledger d)" using d by (simp add: bpg_inv_def)
  let ?u = "wh_user h" and ?L = "bpg_ledger d"
  show ?thesis
  proof (cases "pg_hold_idx d (?u, wh_idem h)")
    case (Some i)
    then obtain g where "pg_holds d i = Some g" using ledger_invD(4) [OF L] by (force simp: bpg_ledger_def)
    then show ?thesis using Some d
      by (simp add: pg_reserve_hold_def loadHoldByIdemTx_def nf runTx_no_faults ledger_reserve_def)
        (simp add: bpg_ledger_def)
  next
    case None
    define d1 where "d1 = upsert_wallet (pe_now env) ?u ''global'' d"
    note e = upsert_wallet_props [OF d, of "pe_now env" ?u "''global''", folded d1_def]
    obtain w where w: "pg_wallets d1 ?u = Some w" "sint (wb_balance w) = lg_bal ?L ?u" "sint (wb_reserved w) = lg_res ?L ?u"
      using e(3) by blast
    have avail: "sint (wb_balance w - wb_reserved w) = lg_bal ?L ?u - lg_res ?L ?u"
      using bpg_bounds [OF d, of ?u] w by (subst sint_sub_i64) auto
    have idem: "lg_idem ?L (?u, wh_idem h) = None" using None by (simp add: bpg_ledger_def)
    have region: "wh_region h = ''global''" using h by (simp add: hold_new_def)
    note run = pg_reserve_hold_def loadHoldByIdemTx_def nf runTx_no_faults pg_reserve_new_def and_then_def Let_def region
      d1_def [symmetric]
    show ?thesis
    proof (cases "lg_bal ?L ?u - lg_res ?L ?u < sint (wh_amount h)")
      case True
      then show ?thesis using None idem avail w(1) d
        by (simp add: run ErrNotFound_def ledger_reserve_def)
    next
      case False
      define d2 where "d2 = d1\<lparr>pg_holds := (pg_holds d1)(wh_id h \<mapsto> h), pg_hold_idx := (pg_hold_idx d1)((?u, wh_idem h) \<mapsto> wh_id h)\<rparr>"
      have h': "h\<lparr>wh_status := ''reserved'', wh_region := ''global'', wh_updated := wh_created h\<rparr> = h"
        using h by (simp add: hold_new_def)
      have ins: "insert_hold h ''global'' d1 = (Inr (), d2)"
        using h new None e(4,5) unfolding insert_hold_def h'
        by (simp add: d2_def small_hold_def hold_new_def bpg_ledger_def not_le)
      obtain w' where add: "add_wallet ?u 0 (sint (wh_amount h)) (wh_created h) (Wrap ''update wallet_balance reserved'') d2
            = (Inr (), d2\<lparr>pg_wallets := (pg_wallets d2)(?u \<mapsto> w')\<rparr>)" "wb_user w' = wb_user w"
          "sint (wb_balance w') = lg_bal ?L ?u" "sint (wb_reserved w') = lg_res ?L ?u + sint (wh_amount h)"
        using add_wallet_ok [of d2 ?u w 0 "sint (wh_amount h)"] w False bpg_bounds [OF d, of ?u] h(1)
        by (auto simp: d2_def hold_new_def)
      let ?d3 = "d2\<lparr>pg_wallets := (pg_wallets d2)(?u \<mapsto> w')\<rparr>"
      obtain ob where ob: "write_events env ''global'' ev h ?d3 = (Inr h, ?d3\<lparr>pg_outbox := ob\<rparr>)"
        using write_events_ok [OF env ev, of "''global''" h ?d3] by blast
      have step: "pg_reserve_hold env now h ev d = (Inr h, ?d3\<lparr>pg_outbox := ob\<rparr>)"
        using None avail w(1) False ins add(1) ob by (simp add: run ErrNotFound_def)
      have "bpg_ledger ?d3 = (bpg_ledger d1)\<lparr>lg_res := (lg_res ?L)(?u := lg_res ?L ?u + sint (wh_amount h)),
                         lg_holds := (lg_holds ?L)(wh_id h \<mapsto> h), lg_idem := (lg_idem ?L)((?u, wh_idem h) \<mapsto> wh_id h)\<rparr>"
        using w(1,2) add(3,4) unfolding e(1) [symmetric] by (auto simp: bpg_ledger_def d2_def fun_eq_iff)
      then have led: "bpg_ledger ?d3 = snd (ledger_reserve h ?L)"
        using False idem e(1) by (simp add: ledger_reserve_def)
      have "ledger_inv (snd (ledger_reserve h ?L))"
        using L h(1) new by (intro ledger_reserve_inv) (simp_all add: hold_new_def)
      then have "bpg_inv ?d3" using e(2) w(1) add(2) unfolding bpg_inv_def led by (auto simp: d2_def)
      then show ?thesis using step led False idem by (simp add: ledger_reserve_def)
    qed
  qed
qed

text \<open>Closing a hold: the rows after the two updates.\<close>

lemma bpg_close_sim:
  assumes d: "bpg_inv d" and h: "pg_holds d i = Some h" "wh_status h = ''reserved''"
    and st: "st \<in> {''confirmed'', ''cancelled''}"
    and db: "db = (if st = ''confirmed'' then - sint (wh_amount h) else 0)"
    and d1: "d1 = d\<lparr>pg_holds := (pg_holds d)(i \<mapsto> h\<lparr>wh_status := st, wh_updated := at\<rparr>)\<rparr>"
  shows "\<exists>d2. add_wallet (wh_user h) db (- sint (wh_amount h)) at wrap d1 = (Inr (), d2) \<and>
     bpg_ledger d2 = snd (ledger_close st i at (bpg_ledger d)) \<and> bpg_inv d2"
proof -
  let ?L = "bpg_ledger d" and ?u = "wh_user h"
  have L: "ledger_inv ?L" using d by (simp add: bpg_inv_def)
  have hL: "lg_holds ?L i = Some h" using h by (simp add: bpg_ledger_def)
  obtain w where w: "pg_wallets d ?u = Some w" using d h(1) unfolding bpg_inv_def by blast
  have lw: "sint (wb_balance w) = lg_bal ?L ?u" "sint (wb_reserved w) = lg_res ?L ?u"
    using w by (simp_all add: bpg_ledger_def)
  note b = bpg_bounds [OF d, of ?u] ledger_inv_share_le [OF L hL h(2)] ledger_invD(3) [OF L hL]
  have bounds: "0 \<le> sint (wb_balance w) + db" "sint (wb_balance w) + db < 2 ^ 63"
    "0 \<le> sint (wb_reserved w) + - sint (wh_amount h)" "sint (wb_reserved w) + - sint (wh_amount h) < 2 ^ 63"
    using b lw db by (auto split: if_splits)
  obtain w' where add: "add_wallet ?u db (- sint (wh_amount h)) at wrap d1 = (Inr (), d1\<lparr>pg_wallets := (pg_wallets d1)(?u \<mapsto> w')\<rparr>)"
      "wb_user w' = wb_user w" "sint (wb_balance w') = lg_bal ?L ?u + db" "sint (wb_reserved w') = lg_res ?L ?u - sint (wh_amount h)"
    using add_wallet_ok [of d1 ?u w, OF _ bounds, of at wrap] w lw by (auto simp: d1)
  let ?d2 = "d1\<lparr>pg_wallets := (pg_wallets d1)(?u \<mapsto> w')\<rparr>"
  have ne: "wh_status h \<noteq> st" using st h(2) by auto
  have led: "bpg_ledger ?d2 = snd (ledger_close st i at ?L)"
    using hL h(2) ne add(3,4) w db by (auto simp: ledger_close_def Let_def bpg_ledger_def d1 fun_eq_iff)
  have "ledger_inv (snd (ledger_close st i at ?L))" by (rule ledger_close_inv [OF L st])
  then have "bpg_inv ?d2" using d w add(2) h(1) unfolding bpg_inv_def led by (auto simp: d1)
  with add(1) led show ?thesis by blast
qed

lemma pg_confirm_sim:
  assumes env: "pg_ok env" and d: "bpg_inv d" and ev: "ok_events ev"
  shows "fst (pg_confirm_hold env now i at ev d) = fst (ledger_close ''confirmed'' i at (bpg_ledger d)) \<and>
         bpg_ledger (snd (pg_confirm_hold env now i at ev d)) = snd (ledger_close ''confirmed'' i at (bpg_ledger d)) \<and>
         bpg_inv (snd (pg_confirm_hold env now i at ev d))"
proof -
  have nf: "pe_flt env = no_faults" using env by (simp add: pg_ok_def)
  have hL: "lg_holds (bpg_ledger d) i = pg_holds d i" by (simp add: bpg_ledger_def)
  note run = pg_confirm_hold_def and_then_def loadHoldTx_def nf runTx_no_faults
  show ?thesis
  proof (cases "\<exists>h. pg_holds d i = Some h \<and> wh_status h = ''reserved''")
    case False
    then show ?thesis using d by (cases "pg_holds d i") (auto simp: run ledger_close_def hL)
  next
    case True
    then obtain h where h: "pg_holds d i = Some h" "wh_status h = ''reserved''" by blast
    let ?h' = "h\<lparr>wh_status := ''confirmed'', wh_updated := at\<rparr>"
    obtain d2 where d2: "add_wallet (wh_user h) (- sint (wh_amount h)) (- sint (wh_amount h)) at (Wrap ''update wallet confirm'')
        (d\<lparr>pg_holds := (pg_holds d)(i \<mapsto> ?h')\<rparr>) = (Inr (), d2)"
        "bpg_ledger d2 = snd (ledger_close ''confirmed'' i at (bpg_ledger d))" "bpg_inv d2"
      using bpg_close_sim [OF d h, of "''confirmed''" "- sint (wh_amount h)" _ at "Wrap ''update wallet confirm''"] by auto
    obtain ob where ob: "write_events env (wh_region h) ev ?h' d2 = (Inr ?h', d2\<lparr>pg_outbox := ob\<rparr>)"
      using write_events_ok [OF env ev, of "wh_region h" ?h' d2] by blast
    have "pg_confirm_hold env now i at ev d = (Inr ?h', d2\<lparr>pg_outbox := ob\<rparr>)"
      using h d2(1) ob by (simp add: run)
    then show ?thesis using d2 h by (simp add: ledger_close_def hL Let_def)
  qed
qed

lemma pg_cancel_sim:
  assumes env: "pg_ok env" and d: "bpg_inv d" and ev: "ok_events ev"
  shows "fst (pg_cancel_hold env now i at ev d) = fst (ledger_close ''cancelled'' i at (bpg_ledger d)) \<and>
         bpg_ledger (snd (pg_cancel_hold env now i at ev d)) = snd (ledger_close ''cancelled'' i at (bpg_ledger d)) \<and>
         bpg_inv (snd (pg_cancel_hold env now i at ev d))"
proof -
  have nf: "pe_flt env = no_faults" using env by (simp add: pg_ok_def)
  have hL: "lg_holds (bpg_ledger d) i = pg_holds d i" by (simp add: bpg_ledger_def)
  note run = pg_cancel_hold_def and_then_def loadHoldTx_def nf runTx_no_faults
  show ?thesis
  proof (cases "\<exists>h. pg_holds d i = Some h \<and> wh_status h = ''reserved''")
    case False
    then show ?thesis using d by (cases "pg_holds d i") (auto simp: run ledger_close_def hL)
  next
    case True
    then obtain h where h: "pg_holds d i = Some h" "wh_status h = ''reserved''" by blast
    let ?h' = "h\<lparr>wh_status := ''cancelled'', wh_updated := at\<rparr>"
    obtain d2 where d2: "add_wallet (wh_user h) 0 (- sint (wh_amount h)) at (Wrap ''update wallet cancel'')
        (d\<lparr>pg_holds := (pg_holds d)(i \<mapsto> ?h')\<rparr>) = (Inr (), d2)"
        "bpg_ledger d2 = snd (ledger_close ''cancelled'' i at (bpg_ledger d))" "bpg_inv d2"
      using bpg_close_sim [OF d h, of "''cancelled''" 0 _ at "Wrap ''update wallet cancel''"] by auto
    obtain ob where ob: "write_events env (wh_region h) ev ?h' d2 = (Inr ?h', d2\<lparr>pg_outbox := ob\<rparr>)"
      using write_events_ok [OF env ev, of "wh_region h" ?h' d2] by blast
    have "pg_cancel_hold env now i at ev d = (Inr ?h', d2\<lparr>pg_outbox := ob\<rparr>)"
      using h d2(1) ob by (simp add: run)
    then show ?thesis using d2 h by (simp add: ledger_close_def hL Let_def)
  qed
qed

lemma pg_topup_sim:
  assumes env: "pg_ok env" and d: "bpg_inv d" and a: "0 < sint a" and fits: "lg_bal (bpg_ledger d) u + sint a < 2 ^ 63"
  shows "fst (pg_topup env now u a d) = Inr () \<and>
         bpg_ledger (snd (pg_topup env now u a d)) = ledger_topup u a (bpg_ledger d) \<and>
         bpg_inv (snd (pg_topup env now u a d))"
proof -
  have nf: "pe_flt env = no_faults" using env by (simp add: pg_ok_def)
  have inv: "ledger_inv (ledger_topup u a (bpg_ledger d))"
    using d a by (intro ledger_topup_inv) (simp_all add: bpg_inv_def)
  show ?thesis
  proof (cases "pg_wallets d u")
    case None
    define d' where "d' = snd (pg_topup env now u a d)"
    have d': "d' = d\<lparr>pg_wallets := (pg_wallets d)(u \<mapsto> \<lparr>wb_user = u, wb_balance = a, wb_reserved = 0,
        wb_region = ''global'', wb_updated = pe_now env\<rparr>)\<rparr>"
      using None a by (simp add: pg_topup_def nf d'_def)
    have led: "bpg_ledger d' = ledger_topup u a (bpg_ledger d)"
      using None by (auto simp: d' bpg_ledger_def ledger_topup_def fun_eq_iff)
    have "bpg_inv d'" using inv d unfolding bpg_inv_def led by (auto simp: d')
    then show ?thesis using led None a by (simp add: d'_def pg_topup_def nf)
  next
    case (Some w)
    have lw: "sint (wb_balance w) = lg_bal (bpg_ledger d) u" "sint (wb_reserved w) = lg_res (bpg_ledger d) u"
      using Some by (simp_all add: bpg_ledger_def)
    obtain w' where w': "add_wallet u (sint a) 0 (pe_now env) (\<lambda>e. e) d = (Inr (), d\<lparr>pg_wallets := (pg_wallets d)(u \<mapsto> w')\<rparr>)"
        "wb_user w' = wb_user w" "sint (wb_balance w') = lg_bal (bpg_ledger d) u + sint a" "sint (wb_reserved w') = lg_res (bpg_ledger d) u"
      using add_wallet_ok [OF Some, of "sint a" 0 "pe_now env" "\<lambda>e. e"] lw bpg_bounds [OF d, of u] a fits by auto
    have led: "bpg_ledger (d\<lparr>pg_wallets := (pg_wallets d)(u \<mapsto> w')\<rparr>) = ledger_topup u a (bpg_ledger d)"
      using w'(3,4) Some by (auto simp: bpg_ledger_def ledger_topup_def fun_eq_iff)
    have "bpg_inv (d\<lparr>pg_wallets := (pg_wallets d)(u \<mapsto> w')\<rparr>)"
      using inv d w'(2) Some unfolding bpg_inv_def led by auto
    then show ?thesis using led w'(1) Some by (simp add: pg_topup_def nf)
  qed
qed

lemma bpg_wallet_store: 
  assumes env: "pg_ok env"
  shows "wallet_store (bpg_ops env) bpg_ledger bpg_inv small_hold"
proof (rule wallet_store.intro, unfold bpg_ops_simps)
  have nf: "pe_flt env = no_faults" using env by (simp add: pg_ok_def)
  fix s h now ev i at a u
  show "bpg_inv s \<Longrightarrow> ledger_inv (bpg_ledger s)" by (simp add: bpg_inv_def)
  show "bpg_inv s \<Longrightarrow> pg_get_hold env i s = (case lg_holds (bpg_ledger s) i of None \<Rightarrow> Inl ErrNotFound | Some h \<Rightarrow> Inr h)"
    by (simp add: pg_get_hold_def loadHoldTx_def nf bpg_ledger_def)
  show "bpg_inv s \<Longrightarrow>
      pg_get_wallet env u s = Inl ErrNotFound \<and> lg_bal (bpg_ledger s) u = 0 \<and> lg_res (bpg_ledger s) u = 0 \<or>
      (\<exists>w. pg_get_wallet env u s = Inr w \<and> wb_user w = u \<and>
           sint (wb_balance w) = lg_bal (bpg_ledger s) u \<and> sint (wb_reserved w) = lg_res (bpg_ledger s) u)"
    by (simp add: pg_get_wallet_def nf bpg_ledger_def bpg_inv_def split: option.split)
qed (rule pg_reserve_sim [OF env] pg_confirm_sim [OF env] pg_cancel_sim [OF env] pg_topup_sim [OF env]; assumption)+

section \<open>Properties\<close>

definition calls_small :: "wallet_call list \<Rightarrow> bool" where
  "calls_small cs \<longleftrightarrow> list_all (\<lambda>c. case c of WReserve fr inp \<Rightarrow> unat (ri_grams inp) < 2 ^ 31 | _ \<Rightarrow> True) cs"

lemma bpg_run_ledger:
  assumes "pg_ok env" and "calls_ok cs" and "calls_small cs" and "\<forall>v. topped v cs < 2 ^ 63"
  shows "bpg_inv (wallet_run (bpg_ops env) src cs bpg_new) \<and>
    bpg_ledger (wallet_run (bpg_ops env) src cs bpg_new) = fold ledger_step cs ledger_empty"
proof -
  note ws = bpg_wallet_store [OF assms(1)]
  have adm: "wallet_store.admissible small_hold cs"
    using assms(2,3) unfolding wallet_store.admissible_def [OF ws]
    by (auto simp: calls_ok_def calls_small_def list_all_iff small_hold_def split: wallet_call.splits)
  have w: "worth ledger_empty u = 0" for u by (simp add: worth_def ledger_empty_def)
  show ?thesis
    using wallet_store.wallet_run_ledger [OF ws bpg_new_inv(1) adm, of src] assms(4)
    by (simp add: bpg_new_inv(2) w) (simp add: ledger_empty_def)
qed


text \<open>One event row is appended, unpublished, or the transaction fails.\<close>

lemma write_event_row:
  assumes "write_events env region [ev] a d = (Inr r, d')"
  shows "r = a \<and> (\<exists>row. or_topic row = topic_string (oe_topic ev) \<and>
     ob_table (pg_outbox d') = ob_table (pg_outbox d) @ [(row, None)]) \<and> pg_holds d' = pg_holds d \<and> pg_orders d' = pg_orders d"
  using assms
  by (fastforce simp: write_events_def split: prod.splits sum.splits dest!: InsertOutbox_ok)

lemma add_wallet_frame:
  assumes "add_wallet u db dr at wrap d = (r, d')"
  shows "pg_outbox d' = pg_outbox d \<and> pg_holds d' = pg_holds d"
  using assms by (auto simp: add_wallet_def Let_def split: option.splits if_splits)

text \<open>The transactional outbox of \<open>ConfirmHold\<close>, whatever statement of it fails: an error leaves
  the whole database as it was, a hold confirmed before gets no second event, and otherwise the status change
  and exactly one unpublished event row are committed together.\<close>

theorem confirm_writes_one_event:
  "case pg_confirm_hold env now i at [ev] d of
     (Inl e, d') \<Rightarrow> d' = d
   | (Inr h, d') \<Rightarrow> wh_status h = ''confirmed'' \<and> pg_holds d' i = Some h \<and>
       (if pg_holds d i = Some h then d' = d
        else \<exists>row. or_topic row = topic_string (oe_topic ev) \<and>
                   ob_table (pg_outbox d') = ob_table (pg_outbox d) @ [(row, None)])"
proof (cases "pg_confirm_hold env now i at [ev] d")
  case (Pair r d')
  show ?thesis
  proof (cases r)
    case (Inl e)
    obtain B where B: "pg_confirm_hold env now i at [ev] = runTx (pe_flt env) B" unfolding pg_confirm_hold_def by blast
    have "d' = d" using runTx_error [of "pe_flt env" B d e] Pair Inl by (simp add: B)
    then show ?thesis using Pair Inl by simp
  next
    case (Inr h)
    note body = runTx_ok [OF Pair [unfolded pg_confirm_hold_def Inr]]
    obtain h0 where h0: "pg_holds d i = Some h0"
      using body by (auto simp: and_then_def loadHoldTx_def stmt_def split: option.splits)
    have load: "loadHoldTx env i d = (Inr h0, d)"
      using body h0 by (auto simp: and_then_def loadHoldTx_def stmt_def split: option.splits)
    show ?thesis
    proof (cases "wh_status h0 = ''confirmed''")
      case True
      then have "h = h0" "d' = d" using body load by (simp_all add: and_then_def)
      then show ?thesis using True h0 Pair Inr by simp
    next
      case False
      let ?h = "h0\<lparr>wh_status := ''confirmed'', wh_updated := at\<rparr>"
      let ?d1 = "d\<lparr>pg_holds := (pg_holds d)(i \<mapsto> ?h)\<rparr>"
      obtain d2 where add: "add_wallet (wh_user h0) (- sint (wh_amount h0)) (- sint (wh_amount h0)) at (Wrap ''update wallet confirm'') ?d1 = (Inr (), d2)"
          and wr: "write_events env (wh_region h0) [ev] ?h d2 = (Inr h, d')"
        using body load False by (auto simp: and_then_def stmt_def split: if_splits option.splits prod.splits sum.splits)
      have "h = ?h" "pg_holds d' i = Some ?h" "\<exists>row. or_topic row = topic_string (oe_topic ev) \<and>
          ob_table (pg_outbox d') = ob_table (pg_outbox d) @ [(row, None)]"
        using write_event_row [OF wr] add_wallet_frame [OF add] by auto
      moreover have "pg_holds d i \<noteq> Some ?h"
      proof
        assume "pg_holds d i = Some ?h"
        then have "h0 = ?h" using h0 by simp
        then have "wh_status h0 = wh_status ?h" by (rule arg_cong)
        then show False using False by simp
      qed
      ultimately show ?thesis using Pair Inr by simp
    qed
  qed
qed

text \<open>A repeated order.  On PostgreSQL a \<open>Create\<close> whose user and idempotency key already have
  an order inserts nothing (\<open>ON CONFLICT DO NOTHING\<close>) and still answers with a new order id and writes an
  \<open>order.created\<close> event for it; looking the returned id up then fails.\<close>

theorem repeated_order_is_a_phantom:
  assumes "pg_ok env" and "ci_user inp \<noteq> []" "ci_channel inp \<noteq> []" "ci_biz inp \<noteq> []" "ci_amount inp \<noteq> 0"
    and "unat (ci_amount inp) < 2 ^ 31" and "ci_idem inp \<noteq> []" and "pg_orders d i = Some x" and "o_user x = ci_user inp"
    and "o_idem x = ci_idem inp" and "pg_orders d (order_id fr) = None"
  shows "\<exists>dto d'. svc_create (bpg_ops env) src fr inp d = (Inr dto, d') \<and> od_id dto = order_id fr \<and>
     svc_get (bpg_ops env) (od_id dto) d' = Inl (yerr SystemInternal ''order not found'') \<and> pg_orders d' = pg_orders d \<and>
     (\<exists>row. or_topic row = ''order.created'' \<and> ob_table (pg_outbox d') = ob_table (pg_outbox d) @ [(row, None)])"
proof -
  have nf: "pe_flt env = no_faults" using assms(1) by (simp add: pg_ok_def)
  let ?ord = "new_order fr inp" and ?ev = "order_event src fr (new_order fr inp)"
  have ev: "ok_events [?ev]" "topic_string (oe_topic ?ev) = ''order.created''"
    by (simp_all add: order_event_def) (simp add: ce_for_def)
  obtain ob where ob: "write_events env ''global'' [?ev] () d = (Inr (), d\<lparr>pg_outbox := ob\<rparr>)"
    using write_events_ok [OF assms(1) ev(1), of "''global''" "()" d] by blast
  have "\<exists>x \<in> ran (pg_orders d). o_user x = o_user ?ord \<and> o_idem x = o_idem ?ord"
    using assms(8-10) by (auto simp: new_order_def intro: ranI)
  then have "pg_create_order env ?ord [?ev] d = (Inr (), d\<lparr>pg_outbox := ob\<rparr>)"
    using assms(6,7) ob by (simp add: pg_create_order_def nf runTx_no_faults and_then_def Let_def) (simp add: new_order_def)
  then have "svc_create (bpg_ops env) src fr inp d = (Inr (toExternal ?ord), d\<lparr>pg_outbox := ob\<rparr>)"
    using assms(2-5) by (simp add: svc_create_def Let_def)
  moreover have "od_id (toExternal ?ord) = order_id fr" by (simp add: toExternal_def new_order_def)
  moreover have "svc_get (bpg_ops env) (order_id fr) (d\<lparr>pg_outbox := ob\<rparr>) = Inl (yerr SystemInternal ''order not found'')"
    using assms(11) by (simp add: svc_get_def pg_get_order_def loadOrderTx_def nf ErrNotFound_def)
  moreover have "\<exists>row. or_topic row = ''order.created'' \<and>
      ob_table (pg_outbox (d\<lparr>pg_outbox := ob\<rparr>)) = ob_table (pg_outbox d) @ [(row, None)]"
    using write_event_row [OF ob] ev(2) by auto
  ultimately show ?thesis by auto
qed

section \<open>Witnesses\<close>

definition env_ex :: pg_env where
  "env_ex = \<lparr>pe_flt = no_faults, pe_marshal = (\<lambda>ev. Inr (''{'' @ ce_id ev @ ''}'')), pe_now = 5\<rparr>"

lemma env_ex_ok: "pg_ok env_ex"
  by (simp add: pg_ok_def env_ex_def)

interpretation bpg: wallet_store "bpg_ops env_ex" bpg_ledger bpg_inv small_hold
  by (rule bpg_wallet_store [OF env_ex_ok])


definition order_ex :: create_input where
  "order_ex = \<lparr>ci_user = ''u1'', ci_channel = ''wechat'', ci_biz = ''feed_ticket'', ci_amount = 9, ci_idem = ''k1''\<rparr>"

theorem repeated_order_is_a_phantom_witness:
  "\<exists>dto d'. svc_create (bpg_ops env_ex) ''b'' (fr_ex ''2'') order_ex
      (bpg_new\<lparr>pg_orders := [''ord_1'' \<mapsto> new_order (fr_ex ''1'') order_ex]\<rparr>) = (Inr dto, d') \<and> od_id dto = ''ord_2'' \<and>
     svc_get (bpg_ops env_ex) (od_id dto) d' = Inl (yerr SystemInternal ''order not found'')"
proof -
  let ?d = "bpg_new\<lparr>pg_orders := [''ord_1'' \<mapsto> new_order (fr_ex ''1'') order_ex]\<rparr>"
  have "order_id (fr_ex ''2'') = ''ord_2''" by (simp add: order_id_def fr_ex_def)
  moreover have "pg_orders ?d ''ord_1'' = Some (new_order (fr_ex ''1'') order_ex)" "pg_orders ?d ''ord_2'' = None" by simp_all
  ultimately show ?thesis
    using repeated_order_is_a_phantom [OF env_ex_ok, of order_ex ?d "''ord_1''" "new_order (fr_ex ''1'') order_ex" "fr_ex ''2''" "''b''"]
    by (simp add: order_ex_def new_order_def) blast
qed

end
