(* ===== verification/FeedingSafety.thy ===== *)
theory FeedingSafety
  imports Sql
begin

text \<open>
  \<^verbatim>\<open>go/pkg/yunmao/feedingsafety\<close>: the thresholds of the feeding safety rules, their overrides from
  the environment and a store, the in-process store and the PostgreSQL store with its cache.
  Environment variables are a function from names to values, empty when unset.
\<close>

record limits =
  lm_room :: duration
  lm_user :: duration
  lm_daily :: u32

definition zero_limits :: limits where
  "zero_limits = \<lparr>lm_room = 0, lm_user = 0, lm_daily = 0\<rparr>"

definition DefaultGlobal :: limits where
  "DefaultGlobal = \<lparr>lm_room = 30 * second, lm_user = 60 * second, lm_daily = 12\<rparr>"

definition merge :: "limits \<Rightarrow> limits \<Rightarrow> limits" where
  "merge base ov =
     \<lparr>lm_room = (if 0 < lm_room ov then lm_room ov else lm_room base),
      lm_user = (if 0 < lm_user ov then lm_user ov else lm_user base),
      lm_daily = (if 0 < lm_daily ov then lm_daily ov else lm_daily base)\<rparr>"

text \<open>A product of two \<open>time.Duration\<close> values wraps around like any \<open>int64\<close>.\<close>

definition wrap64 :: "int \<Rightarrow> int" where
  "wrap64 n = sint (word_of_int n :: i64)"

text \<open>One variable: \<open>Atoi\<close>, ignored unless it is a positive number.\<close>

definition env_number :: "(string \<Rightarrow> string) \<Rightarrow> string \<Rightarrow> int option" where
  "env_number env v =
     (if env v = [] then None
      else case parse_int64 (env v) of None \<Rightarrow> None | Some n \<Rightarrow> if 0 < n then Some n else None)"

definition ParseEnv :: "(string \<Rightarrow> string) \<Rightarrow> limits" where
  "ParseEnv env =
     \<lparr>lm_room = (case env_number env ''YUNMAO_FEED_ROOM_COOLDOWN_SEC'' of None \<Rightarrow> 0 | Some n \<Rightarrow> wrap64 (n * second)),
      lm_user = (case env_number env ''YUNMAO_FEED_USER_ROOM_COOLDOWN_SEC'' of None \<Rightarrow> 0 | Some n \<Rightarrow> wrap64 (n * second)),
      lm_daily = (case env_number env ''YUNMAO_FEED_CAT_DAILY'' of None \<Rightarrow> 0 | Some n \<Rightarrow> word_of_int n)\<rparr>"

section \<open>The store interface and the manager\<close>

record 's safety_ops =
  so_get :: "time \<Rightarrow> string \<Rightarrow> 's \<Rightarrow> (go_error, limits option, 's) outcome"
  so_put :: "time \<Rightarrow> string \<Rightarrow> limits \<Rightarrow> 's \<Rightarrow> (go_error, unit, 's) outcome"

definition apply_override :: "limits \<Rightarrow> limits option \<Rightarrow> limits" where
  "apply_override cur l = (case l of None \<Rightarrow> cur | Some ov \<Rightarrow> merge cur ov)"

definition Resolve :: "'s safety_ops option \<Rightarrow> limits \<Rightarrow> time \<Rightarrow> string \<Rightarrow> 's \<Rightarrow> (go_error, limits, 's) outcome" where
  "Resolve store env now room s =
     (let cur = merge DefaultGlobal env in
      case store of None \<Rightarrow> (Inr cur, s)
      | Some ops \<Rightarrow> (case so_get ops now [] s of
          (Inl e, s1) \<Rightarrow> (Inl e, s1)
        | (Inr g, s1) \<Rightarrow>
            let cur1 = apply_override cur g in
            if room = [] then (Inr cur1, s1)
            else (case so_get ops now room s1 of
                (Inl e, s2) \<Rightarrow> (Inl e, s2)
              | (Inr r, s2) \<Rightarrow> (Inr (apply_override cur1 r), s2))))"

section \<open>MemoryStore\<close>

type_synonym safety_mem = "string \<rightharpoonup> limits"

definition safety_mem_get :: "time \<Rightarrow> string \<Rightarrow> safety_mem \<Rightarrow> (go_error, limits option, safety_mem) outcome" where
  "safety_mem_get now room m = (Inr (m room), m)"

definition safety_mem_put :: "time \<Rightarrow> string \<Rightarrow> limits \<Rightarrow> safety_mem \<Rightarrow> (go_error, unit, safety_mem) outcome" where
  "safety_mem_put now room l m =
     (if lm_room l < 0 \<or> lm_user l < 0 then (Inl (Plain ''feedingsafety: durations must be >=0''), m)
      else (Inr (), m(room \<mapsto> l)))"

definition safety_mem_ops :: "safety_mem safety_ops" where
  "safety_mem_ops = \<lparr>so_get = safety_mem_get, so_put = safety_mem_put\<rparr>"

section \<open>PgStore\<close>

text \<open>The table keeps whole seconds in \<open>INT\<close> columns; the cache keeps what a read returned
  (also that there was no row) until its deadline.\<close>

record safety_pg =
  sp_table :: "string \<rightharpoonup> int \<times> int \<times> int"
  sp_cache :: "string \<rightharpoonup> limits option \<times> time"
  sp_ttl :: duration

definition policy_key :: "string \<Rightarrow> string" where
  "policy_key room = (if room = [] then ''__global__'' else room)"

definition row_limits :: "int \<times> int \<times> int \<Rightarrow> limits" where
  "row_limits row = (case row of (r, u, c) \<Rightarrow>
     \<lparr>lm_room = wrap64 (r * second), lm_user = wrap64 (u * second), lm_daily = word_of_int c\<rparr>)"

definition new_safety_pg :: "duration \<Rightarrow> safety_pg" where
  "new_safety_pg ttl = \<lparr>sp_table = Map.empty, sp_cache = Map.empty, sp_ttl = (if ttl = 0 then 30 * second else ttl)\<rparr>"

definition safety_pg_get :: "faults \<Rightarrow> time \<Rightarrow> string \<Rightarrow> safety_pg \<Rightarrow> (go_error, limits option, safety_pg) outcome" where
  "safety_pg_get flt now room s =
     (case sp_cache s room of
        Some (l, expires) \<Rightarrow> if now < expires then (Inr l, s) else
          stmt flt ''select policy'' (\<lambda>e. e) (\<lambda>s. let l = map_option row_limits (sp_table s (policy_key room))
            in (Inr l, s\<lparr>sp_cache := (sp_cache s)(room \<mapsto> (l, now + sp_ttl s))\<rparr>)) s
      | None \<Rightarrow>
          stmt flt ''select policy'' (\<lambda>e. e) (\<lambda>s. let l = map_option row_limits (sp_table s (policy_key room))
            in (Inr l, s\<lparr>sp_cache := (sp_cache s)(room \<mapsto> (l, now + sp_ttl s))\<rparr>)) s)"

definition Invalidate :: "string \<Rightarrow> safety_pg \<Rightarrow> safety_pg" where
  "Invalidate room s = s\<lparr>sp_cache := (sp_cache s)(room := None)\<rparr>"

definition fits_int4 :: "int \<Rightarrow> bool" where
  "fits_int4 n \<longleftrightarrow> - (2 ^ 31) \<le> n \<and> n < 2 ^ 31"

definition safety_pg_put :: "faults \<Rightarrow> time \<Rightarrow> string \<Rightarrow> limits \<Rightarrow> safety_pg \<Rightarrow> (go_error, unit, safety_pg) outcome" where
  "safety_pg_put flt now room l s =
     (if lm_room l < 0 \<or> lm_user l < 0 then (Inl (Plain ''feedingsafety: durations must be >=0''), s)
      else
        let r = lm_room l div second; u = lm_user l div second; c = uint (lm_daily l) in
        case stmt flt ''upsert policy'' (\<lambda>e. e)
               (\<lambda>s. if fits_int4 r \<and> fits_int4 u \<and> fits_int4 c
                    then (Inr (), s\<lparr>sp_table := (sp_table s)(policy_key room \<mapsto> (r, u, c))\<rparr>)
                    else (Inl (Plain ''ERROR: integer out of range''), s)) s of
          (Inl e, s') \<Rightarrow> (Inl e, s')
        | (Inr _, s') \<Rightarrow> (Inr (), Invalidate room s'))"

definition safety_pg_ops :: "faults \<Rightarrow> safety_pg safety_ops" where
  "safety_pg_ops flt = \<lparr>so_get = safety_pg_get flt, so_put = safety_pg_put flt\<rparr>"

section \<open>The contract\<close>

text \<open>
  A store of policies: \<open>shown s t room\<close> is what a read at \<open>t\<close> returns.  A read returns it and leaves
  it for every room; a write that succeeds shows what was stored, to the precision \<open>stored\<close> of the
  implementation, and leaves the other rooms.
\<close>

locale safety_store =
  fixes ops :: "'s safety_ops"
    and shown :: "'s \<Rightarrow> time \<Rightarrow> string \<Rightarrow> limits option"
    and stored :: "limits \<Rightarrow> limits"
    and room_ok :: "string \<Rightarrow> bool"
  assumes get_shown: "fst (so_get ops now room s) = Inr (shown s now room)"
    and get_keeps: "shown (snd (so_get ops now room s)) now room' = shown s now room'"
    and put_shown: "fst (so_put ops now room l s) = Inr () \<Longrightarrow> shown (snd (so_put ops now room l s)) now room = Some (stored l)"
    and put_frame: "room_ok room \<Longrightarrow> room_ok room' \<Longrightarrow> room' \<noteq> room \<Longrightarrow> shown (snd (so_put ops now room l s)) now room' = shown s now room'"
    and put_refuses: "lm_room l < 0 \<or> lm_user l < 0 \<Longrightarrow> fst (so_put ops now room l s) \<noteq> Inr ()"

text \<open>The specification of the lookup: for each threshold the first positive one of the room's
  override, the global override, the environment and the default.\<close>

definition first_pos :: "'a::{zero,ord} list \<Rightarrow> 'a \<Rightarrow> 'a" where
  "first_pos xs dflt = (case filter (\<lambda>x. 0 < x) xs of [] \<Rightarrow> dflt | x # _ \<Rightarrow> x)"

definition effective :: "limits \<Rightarrow> limits option \<Rightarrow> limits option \<Rightarrow> limits" where
  "effective env g r =
     (let gl = (case g of None \<Rightarrow> zero_limits | Some l \<Rightarrow> l); rl = (case r of None \<Rightarrow> zero_limits | Some l \<Rightarrow> l) in
      \<lparr>lm_room = first_pos [lm_room rl, lm_room gl, lm_room env] (30 * second),
       lm_user = first_pos [lm_user rl, lm_user gl, lm_user env] (60 * second),
       lm_daily = first_pos [lm_daily rl, lm_daily gl, lm_daily env] 12\<rparr>)"

lemma effective_eq: "effective env g r = apply_override (apply_override (merge DefaultGlobal env) g) r"
  by (simp add: effective_def apply_override_def merge_def first_pos_def DefaultGlobal_def zero_limits_def split: option.split)

lemma effective_pos: "0 < lm_room (effective env g r) \<and> 0 < lm_user (effective env g r) \<and> lm_daily (effective env g r) \<noteq> 0"
  by (simp add: effective_eq apply_override_def merge_def DefaultGlobal_def word_gt_0 split: option.split)

context safety_store begin

lemma Resolve_effective:
  "fst (Resolve (Some ops) env now room s) =
     Inr (effective env (shown s now []) (if room = [] then None else shown s now room))"
proof -
  obtain s1 where g: "so_get ops now [] s = (Inr (shown s now []), s1)"
    by (metis get_shown prod.collapse)
  obtain s2 where r: "so_get ops now room s1 = (Inr (shown s1 now room), s2)"
    by (metis get_shown prod.collapse)
  have "shown s1 now room = shown s now room" using get_keeps [of now "[]" s room] g by simp
  then show ?thesis
    using g r by (simp add: Resolve_def Let_def effective_eq) (simp add: apply_override_def)
qed

lemma Resolve_after_put:
  assumes "fst (so_put ops now room l s) = Inr ()" and "room \<noteq> []" and "room_ok room" and "room_ok []"
  shows "fst (Resolve (Some ops) env now room (snd (so_put ops now room l s))) =
    Inr (effective env (shown s now []) (Some (stored l)))"
  using assms put_shown [OF assms(1)] put_frame [OF assms(3,4)] by (simp add: Resolve_effective)

end

definition mem_shown :: "safety_mem \<Rightarrow> time \<Rightarrow> string \<Rightarrow> limits option" where
  "mem_shown m t room = m room"

interpretation smem: safety_store safety_mem_ops mem_shown "\<lambda>l. l" "\<lambda>_. True"
  by unfold_locales (auto simp: safety_mem_ops_def safety_mem_get_def safety_mem_put_def mem_shown_def split: if_splits)

definition pg_shown :: "safety_pg \<Rightarrow> time \<Rightarrow> string \<Rightarrow> limits option" where
  "pg_shown s t room =
     (case sp_cache s room of
        Some (l, expires) \<Rightarrow> if t < expires then l else map_option row_limits (sp_table s (policy_key room))
      | None \<Rightarrow> map_option row_limits (sp_table s (policy_key room)))"

definition whole_seconds :: "limits \<Rightarrow> limits" where
  "whole_seconds l = l\<lparr>lm_room := lm_room l div second * second, lm_user := lm_user l div second * second\<rparr>"

lemma wrap64_small: "0 \<le> n \<Longrightarrow> n < 2 ^ 31 \<Longrightarrow> wrap64 (n * second) = n * second"
  unfolding wrap64_def second_def by (simp add: signed_of_int signed_take_bit_int_eq_self del: of_int_mult of_int_numeral)

lemma policy_key_inject: "room \<noteq> ''__global__'' \<Longrightarrow> room' \<noteq> ''__global__'' \<Longrightarrow> policy_key room = policy_key room' \<longleftrightarrow> room = room'"
  by (auto simp: policy_key_def)

lemma row_limits_stored:
  assumes "0 \<le> lm_room l" "0 \<le> lm_user l" and "fits_int4 (lm_room l div second)" "fits_int4 (lm_user l div second)"
  shows "row_limits (lm_room l div second, lm_user l div second, uint (lm_daily l)) = whole_seconds l"
  using assms wrap64_small [of "lm_room l div second"] wrap64_small [of "lm_user l div second"]
  by (simp add: row_limits_def whole_seconds_def fits_int4_def pos_imp_zdiv_nonneg_iff)

lemma safety_pg_put_ok:
  assumes "fst (safety_pg_put no_faults now room l s) = Inr ()"
  shows "0 \<le> lm_room l" and "0 \<le> lm_user l" and "fits_int4 (lm_room l div second)" and "fits_int4 (lm_user l div second)"
    and "snd (safety_pg_put no_faults now room l s) =
      Invalidate room (s\<lparr>sp_table := (sp_table s)(policy_key room \<mapsto> (lm_room l div second, lm_user l div second, uint (lm_daily l)))\<rparr>)"
  using assms by (auto simp: safety_pg_put_def Let_def split: if_splits)

lemma safety_pg_put_error:
  assumes "fst (safety_pg_put no_faults now room l s) = Inl e"
  shows "snd (safety_pg_put no_faults now room l s) = s"
  using assms by (auto simp: safety_pg_put_def Let_def split: if_splits)

interpretation spg: safety_store "safety_pg_ops no_faults" pg_shown whole_seconds "\<lambda>room. room \<noteq> ''__global__''"
proof
  fix now :: time and room room' :: string and s :: safety_pg and l
  show "fst (so_get (safety_pg_ops no_faults) now room s) = Inr (pg_shown s now room)"
    by (auto simp: safety_pg_ops_def safety_pg_get_def pg_shown_def Let_def split: option.split)
  show "pg_shown (snd (so_get (safety_pg_ops no_faults) now room s)) now room' = pg_shown s now room'"
    by (auto simp: safety_pg_ops_def safety_pg_get_def pg_shown_def Let_def split: option.split)
  show "fst (so_put (safety_pg_ops no_faults) now room l s) = Inr () \<Longrightarrow>
      pg_shown (snd (so_put (safety_pg_ops no_faults) now room l s)) now room = Some (whole_seconds l)"
    using safety_pg_put_ok [of now room l s]
    by (simp add: safety_pg_ops_def Invalidate_def pg_shown_def row_limits_stored)
  show "room \<noteq> ''__global__'' \<Longrightarrow> room' \<noteq> ''__global__'' \<Longrightarrow> room' \<noteq> room \<Longrightarrow>
      pg_shown (snd (so_put (safety_pg_ops no_faults) now room l s)) now room' = pg_shown s now room'"
    using safety_pg_put_ok(5) [of now room l s] safety_pg_put_error [of now room l s]
    by (cases "fst (safety_pg_put no_faults now room l s)")
      (simp_all add: safety_pg_ops_def Invalidate_def pg_shown_def policy_key_inject split: option.split)
  show "lm_room l < 0 \<or> lm_user l < 0 \<Longrightarrow> fst (so_put (safety_pg_ops no_faults) now room l s) \<noteq> Inr ()"
    by (auto simp: safety_pg_ops_def safety_pg_put_def)
qed

section \<open>Properties\<close>

text \<open>On the PostgreSQL store with a live database, and whatever the cache holds, \<open>Resolve\<close>
  answers for each threshold the first positive one of the room's policy, the global policy, the environment and
  the built-in default; so no threshold is ever zero or negative, and no override can switch a limit off.\<close>

theorem resolve_priority:
  "fst (Resolve (Some (safety_pg_ops no_faults)) env now room s) =
     Inr (effective env (pg_shown s now []) (if room = [] then None else pg_shown s now room)) \<and>
   0 < lm_room (effective env g r) \<and> 0 < lm_user (effective env g r) \<and> lm_daily (effective env g r) \<noteq> 0"
  using spg.Resolve_effective effective_pos by blast

text \<open>A policy written by an operator takes effect at once for its room, despite the cache, with
  its durations cut to whole seconds.\<close>

theorem policy_write_visible:
  assumes "fst (safety_pg_put no_faults now room l s) = Inr ()" and "room \<noteq> []" and "room \<noteq> ''__global__''"
  shows "fst (Resolve (Some (safety_pg_ops no_faults)) env now room (snd (safety_pg_put no_faults now room l s))) =
    Inr (effective env (pg_shown s now []) (Some (whole_seconds l)))"
  using spg.Resolve_after_put [of now room l s env] assms by (simp add: safety_pg_ops_def)

theorem policy_write_visible_witness:
  "fst (Resolve (Some (safety_pg_ops no_faults)) zero_limits 7 ''r1''
     (snd (safety_pg_put no_faults 7 ''r1'' \<lparr>lm_room = 1500000000, lm_user = 0, lm_daily = 5\<rparr> (new_safety_pg 0)))) =
   Inr \<lparr>lm_room = second, lm_user = 60 * second, lm_daily = 5\<rparr>"
proof -
  have "fst (safety_pg_put no_faults 7 ''r1'' \<lparr>lm_room = 1500000000, lm_user = 0, lm_daily = 5\<rparr> (new_safety_pg 0)) = Inr ()"
    by (simp add: safety_pg_put_def fits_int4_def second_def Let_def)
  from policy_write_visible [OF this, of zero_limits] show ?thesis
    by (simp add: effective_def pg_shown_def new_safety_pg_def policy_key_def first_pos_def zero_limits_def whole_seconds_def second_def)
qed

end
