(* ===== verification/FeatureFlags.thy ===== *)
theory FeatureFlags
  imports Sql
begin

text \<open>
  \<^verbatim>\<open>go/pkg/yunmao/featureflags/featureflags.go\<close>: the flag store (in-process and PostgreSQL), the
  manager with its cache, and the gray release by hash of the room.  A JSON number is a float64,
  represented by mantissa and exponent; Go's \<open>int\<close> conversion truncates towards zero.
\<close>

unbundle bit_operations_syntax

section \<open>Flags\<close>

datatype flag_value =
    FFloat int int
  | FInt int
  | FStr string
  | FBool bool
  | FArr "flag_value list"
  | FNull

record flag =
  fl_name :: string
  fl_enabled :: bool
  fl_scope :: string
  fl_value :: "string \<rightharpoonup> flag_value"
  fl_updated :: time
  fl_by :: string

definition FlagNotFound :: go_error where
  "FlagNotFound = Sentinel ''featureflags: not found''"

text \<open>\<open>List\<close> returns the flags in an order the store chooses, \<open>Set\<close> stamps the time.\<close>

record 's flag_ops =
  fo_list :: "'s \<Rightarrow> go_error + flag list"
  fo_get :: "string \<Rightarrow> 's \<Rightarrow> go_error + flag"
  fo_set :: "time \<Rightarrow> flag \<Rightarrow> 's \<Rightarrow> (go_error, unit, 's) outcome"

section \<open>Stores\<close>

text \<open>The in-process store; \<open>order\<close> is the iteration order of its map.\<close>

type_synonym flag_mem = "string \<rightharpoonup> flag"

definition flag_mem_list :: "(flag_mem \<Rightarrow> string list) \<Rightarrow> flag_mem \<Rightarrow> go_error + flag list" where
  "flag_mem_list order m = Inr (rows_in (order m) m)"

definition flag_mem_get :: "string \<Rightarrow> flag_mem \<Rightarrow> go_error + flag" where
  "flag_mem_get name m = (case m name of None \<Rightarrow> Inl FlagNotFound | Some f \<Rightarrow> Inr f)"

definition flag_mem_set :: "time \<Rightarrow> flag \<Rightarrow> flag_mem \<Rightarrow> (go_error, unit, flag_mem) outcome" where
  "flag_mem_set now f m = (Inr (), m(fl_name f \<mapsto> f\<lparr>fl_updated := now\<rparr>))"

definition flag_mem_new :: "time \<Rightarrow> flag list \<Rightarrow> flag_mem" where
  "flag_mem_new now fs = fold (\<lambda>f m. m(fl_name f \<mapsto> (if is_zero_time (fl_updated f) then f\<lparr>fl_updated := now\<rparr> else f))) fs Map.empty"

definition flag_mem_ops :: "(flag_mem \<Rightarrow> string list) \<Rightarrow> flag_mem flag_ops" where
  "flag_mem_ops order = \<lparr>fo_list = flag_mem_list order, fo_get = flag_mem_get, fo_set = flag_mem_set\<rparr>"

text \<open>The PostgreSQL store: the JSON column turns an \<open>int\<close> into a float64 on the way back.\<close>

fun through_json :: "flag_value \<Rightarrow> flag_value" where
  "through_json (FInt n) = FFloat n 0"
| "through_json (FArr vs) = FArr (map through_json vs)"
| "through_json v = v"

definition flag_pg_set :: "faults \<Rightarrow> time \<Rightarrow> flag \<Rightarrow> flag_mem \<Rightarrow> (go_error, unit, flag_mem) outcome" where
  "flag_pg_set flt now f = stmt flt ''upsert feature_flags'' (\<lambda>e. e)
     (\<lambda>m. (Inr (), m(fl_name f \<mapsto> f\<lparr>fl_scope := (if fl_scope f = [] then ''global'' else fl_scope f),
                                     fl_value := map_option through_json \<circ> fl_value f, fl_updated := now\<rparr>)))"

definition flag_pg_get :: "faults \<Rightarrow> string \<Rightarrow> flag_mem \<Rightarrow> go_error + flag" where
  "flag_pg_get flt name m = fst (stmt flt ''select feature_flag'' (\<lambda>e. e)
     (\<lambda>m. (case m name of None \<Rightarrow> Inl FlagNotFound | Some f \<Rightarrow> Inr f, m)) m)"

definition flag_pg_list :: "faults \<Rightarrow> (flag_mem \<Rightarrow> string list) \<Rightarrow> flag_mem \<Rightarrow> go_error + flag list" where
  "flag_pg_list flt order m = fst (stmt flt ''list feature_flags'' (\<lambda>e. e) (\<lambda>m. (Inr (rows_in (order m) m), m)) m)"

definition flag_pg_ops :: "faults \<Rightarrow> (flag_mem \<Rightarrow> string list) \<Rightarrow> flag_mem flag_ops" where
  "flag_pg_ops flt order = \<lparr>fo_list = flag_pg_list flt order, fo_get = flag_pg_get flt, fo_set = flag_pg_set flt\<rparr>"

section \<open>Manager\<close>

type_synonym flag_cache = "string \<rightharpoonup> flag"

text \<open>\<open>refresh\<close> replaces the cache; on an error the old one stays.\<close>

definition flags_refresh :: "'s flag_ops \<Rightarrow> 's \<Rightarrow> flag_cache \<Rightarrow> (go_error, unit, flag_cache) outcome" where
  "flags_refresh ops s c =
     (case fo_list ops s of
        Inl e \<Rightarrow> (Inl e, c)
      | Inr fs \<Rightarrow> (Inr (), fold (\<lambda>f m. m(fl_name f \<mapsto> f)) fs Map.empty))"

definition flags_new :: "'s flag_ops \<Rightarrow> 's \<Rightarrow> flag_cache" where
  "flags_new ops s = snd (flags_refresh ops s Map.empty)"

definition flags_get :: "flag_cache \<Rightarrow> string \<Rightarrow> flag" where
  "flags_get c name = (case c name of Some f \<Rightarrow> f
     | None \<Rightarrow> \<lparr>fl_name = name, fl_enabled = False, fl_scope = ''global'', fl_value = Map.empty, fl_updated = zero_time, fl_by = []\<rparr>)"

definition flags_bool :: "flag_cache \<Rightarrow> string \<Rightarrow> bool \<Rightarrow> bool" where
  "flags_bool c name dflt = (case c name of Some f \<Rightarrow> fl_enabled f | None \<Rightarrow> dflt)"

text \<open>The conversion of a number to \<open>int\<close>; other values give \<open>None\<close>.\<close>

definition trunc_float :: "int \<Rightarrow> int \<Rightarrow> int" where
  "trunc_float m e = (if 0 \<le> e then m * 2 ^ nat e else sgn m * (\<bar>m\<bar> div 2 ^ nat (- e)))"

fun value_int :: "flag_value \<Rightarrow> int option" where
  "value_int (FFloat m e) = Some (trunc_float m e)"
| "value_int (FInt n) = Some n"
| "value_int _ = None"

definition flags_int :: "flag_cache \<Rightarrow> string \<Rightarrow> string \<Rightarrow> int \<Rightarrow> int" where
  "flags_int c name key dflt =
     (case c name of None \<Rightarrow> dflt
      | Some f \<Rightarrow> (case fl_value f key of None \<Rightarrow> dflt
        | Some v \<Rightarrow> (case value_int v of None \<Rightarrow> dflt | Some n \<Rightarrow> n)))"

fun strings_of :: "flag_value list \<Rightarrow> string list" where
  "strings_of [] = []"
| "strings_of (FStr s # vs) = s # strings_of vs"
| "strings_of (_ # vs) = strings_of vs"

definition flags_strings :: "flag_cache \<Rightarrow> string \<Rightarrow> string \<Rightarrow> string list" where
  "flags_strings c name key =
     (case c name of None \<Rightarrow> []
      | Some f \<Rightarrow> (case fl_value f key of Some (FArr vs) \<Rightarrow> strings_of vs | _ \<Rightarrow> []))"

text \<open>\<open>Hash100\<close>: FNV-1a on 64 bits, modulo 100.\<close>

definition fnv_step :: "char \<Rightarrow> u64 \<Rightarrow> u64" where
  "fnv_step ch h = (h XOR word_of_nat (of_char ch)) * 1099511628211"

definition Hash100 :: "string \<Rightarrow> int" where
  "Hash100 s = uint (fold fnv_step s 14695981039346656037) mod 100"

definition gray_percent :: "flag \<Rightarrow> int" where
  "gray_percent f = (case fl_value f ''gray_percent'' of None \<Rightarrow> 0
     | Some v \<Rightarrow> (case value_int v of None \<Rightarrow> 0 | Some n \<Rightarrow> n))"

definition IsRoomInGrayPercent :: "flag_cache \<Rightarrow> string \<Rightarrow> string \<Rightarrow> bool" where
  "IsRoomInGrayPercent c name room =
     (case c name of None \<Rightarrow> False
      | Some f \<Rightarrow>
          if \<not> fl_enabled f \<or> room = [] then False
          else if 100 \<le> gray_percent f then True
          else if gray_percent f \<le> 0 then False
          else Hash100 room < gray_percent f)"

definition flags_set :: "'s flag_ops \<Rightarrow> time \<Rightarrow> flag \<Rightarrow> 's \<Rightarrow> flag_cache \<Rightarrow> (go_error + unit) \<times> 's \<times> flag_cache" where
  "flags_set ops now f s c =
     (case fo_set ops now f s of
        (Inl e, s') \<Rightarrow> (Inl e, s', c)
      | (Inr _, s') \<Rightarrow> (case flags_refresh ops s' c of (r, c') \<Rightarrow> (r, s', c')))"

section \<open>The cache after a refresh\<close>

definition named :: "flag_mem \<Rightarrow> bool" where
  "named m \<longleftrightarrow> (\<forall>k f. m k = Some f \<longrightarrow> fl_name f = k)"

lemma fold_flags:
  "fold (\<lambda>f m. m(fl_name f \<mapsto> f)) fs c name =
     (if \<exists>f \<in> set fs. fl_name f = name then Some (last (filter (\<lambda>f. fl_name f = name) fs)) else c name)"
  by (induction fs arbitrary: c) (auto simp: filter_empty_conv)

lemma refresh_mem:
  assumes "named m" and "iterates (order m) m"
  shows "snd (flags_refresh (flag_mem_ops order) m c) = m"
proof
  fix name
  have set_rows: "set (rows_in (order m) m) = ran m"
    using assms(2) by (auto simp: set_rows_in iterates_def ran_def)
  show "snd (flags_refresh (flag_mem_ops order) m c) name = m name"
  proof (cases "m name")
    case None
    then have "\<not> (\<exists>f \<in> set (rows_in (order m) m). fl_name f = name)"
      using assms(1) unfolding set_rows by (auto simp: ran_def named_def)
    then show ?thesis using None by (simp add: flags_refresh_def flag_mem_ops_def flag_mem_list_def fold_flags)
  next
    case (Some f)
    have "fl_name f = name" using assms(1) Some by (simp add: named_def)
    moreover have "f \<in> set (rows_in (order m) m)" using Some unfolding set_rows by (auto simp: ran_def)
    moreover have "\<forall>g \<in> set (filter (\<lambda>g. fl_name g = name) (rows_in (order m) m)). g = f"
      using assms(1) Some unfolding set_filter set_rows by (auto simp: ran_def named_def)
    ultimately have "last (filter (\<lambda>g. fl_name g = name) (rows_in (order m) m)) = f"
      by (metis (mono_tags, lifting) filter_empty_conv last_in_set)
    then show ?thesis using Some \<open>f \<in> set _\<close> \<open>fl_name f = name\<close>
      by (auto simp: flags_refresh_def flag_mem_ops_def flag_mem_list_def fold_flags)
  qed
qed

section \<open>Properties\<close>

lemma Hash100_range: "0 \<le> Hash100 s \<and> Hash100 s < 100"
  by (simp add: Hash100_def)

text \<open>Raising the gray percentage never takes a room out of the release: with the same flag
  otherwise, every room inside at \<open>p\<close> percent is inside at any larger percentage; at 100 every named
  room is in and at 0 none is.\<close>

theorem gray_release_monotone:
  "(c name = Some f \<and> c' name = Some f' \<and> fl_enabled f' = fl_enabled f \<and> gray_percent f \<le> gray_percent f' \<and>
      IsRoomInGrayPercent c name room \<longrightarrow> IsRoomInGrayPercent c' name room) \<and>
   (c name = Some f \<and> fl_enabled f \<and> 100 \<le> gray_percent f \<longrightarrow> IsRoomInGrayPercent c name room = (room \<noteq> [])) \<and>
   (c name = Some f \<and> gray_percent f \<le> 0 \<longrightarrow> \<not> IsRoomInGrayPercent c name room)"
  using Hash100_range [of room] by (auto simp: IsRoomInGrayPercent_def split: if_splits)

theorem gray_release_monotone_witness:
  "IsRoomInGrayPercent [''webrtc'' \<mapsto> \<lparr>fl_name = ''webrtc'', fl_enabled = True, fl_scope = ''global'',
     fl_value = [''gray_percent'' \<mapsto> FFloat 100 0], fl_updated = 0, fl_by = []\<rparr>] ''webrtc'' ''room_1''"
  using gray_release_monotone [of "[''webrtc'' \<mapsto> \<lparr>fl_name = ''webrtc'', fl_enabled = True, fl_scope = ''global'',
     fl_value = [''gray_percent'' \<mapsto> FFloat 100 0], fl_updated = 0, fl_by = []\<rparr>]" "''webrtc''"
     "\<lparr>fl_name = ''webrtc'', fl_enabled = True, fl_scope = ''global'',
     fl_value = [''gray_percent'' \<mapsto> FFloat 100 0], fl_updated = 0, fl_by = []\<rparr>" _ _ "''room_1''"]
  by (simp add: gray_percent_def trunc_float_def)

text \<open>A flag written through the manager is what every later lookup sees, and no other flag
  changes, whatever order the store lists its flags in.\<close>

theorem flag_set_then_get:
  assumes "named m" and "iterates (order (m(fl_name f \<mapsto> f\<lparr>fl_updated := now\<rparr>))) (m(fl_name f \<mapsto> f\<lparr>fl_updated := now\<rparr>))"
  shows "case flags_set (flag_mem_ops order) now f m c of (r, m', c') \<Rightarrow>
     r = Inr () \<and> flags_get c' (fl_name f) = f\<lparr>fl_updated := now\<rparr> \<and> flags_bool c' (fl_name f) b = fl_enabled f \<and>
     (\<forall>name. name \<noteq> fl_name f \<longrightarrow> c' name = m name)"
proof -
  let ?m = "m(fl_name f \<mapsto> f\<lparr>fl_updated := now\<rparr>)"
  have "named ?m" using assms(1) by (auto simp: named_def)
  then have c': "snd (flags_refresh (flag_mem_ops order) ?m c) = ?m" using assms(2) by (intro refresh_mem)
  have set: "fo_set (flag_mem_ops order) now f m = (Inr (), ?m)"
    by (simp add: flag_mem_ops_def flag_mem_set_def)
  have "fst (flags_refresh (flag_mem_ops order) ?m c) = Inr ()"
    by (simp add: flags_refresh_def flag_mem_ops_def flag_mem_list_def)
  then have "flags_set (flag_mem_ops order) now f m c = (Inr (), ?m, ?m)"
    using c' set by (simp add: flags_set_def) (metis (mono_tags, lifting) case_prod_conv prod.collapse)
  then show ?thesis by (simp add: flags_get_def flags_bool_def)
qed

definition flag_ex :: flag where
  "flag_ex = \<lparr>fl_name = ''a'', fl_enabled = True, fl_scope = [], fl_value = Map.empty, fl_updated = 0, fl_by = []\<rparr>"

theorem flag_set_then_get_witness:
  "case flags_set (flag_mem_ops (\<lambda>_. [''a''])) 3 flag_ex Map.empty Map.empty of (r, m', c') \<Rightarrow>
     r = Inr () \<and> flags_get c' ''a'' = flag_ex\<lparr>fl_updated := 3\<rparr> \<and> flags_bool c' ''a'' False = True \<and>
     (\<forall>name. name \<noteq> ''a'' \<longrightarrow> c' name = None)"
proof -
  have "named Map.empty" "fl_name flag_ex = ''a''" "fl_enabled flag_ex"
    "iterates [''a''] [''a'' \<mapsto> flag_ex\<lparr>fl_updated := 3\<rparr>]" by (simp_all add: named_def flag_ex_def iterates_def)
  then show ?thesis
    using flag_set_then_get [where m = Map.empty and order = "\<lambda>_. [''a'']" and now = 3 and c = Map.empty and f = flag_ex and b = False]
    by (simp add: case_prod_unfold)
qed

end
