(* ===== verification/IdemCache.thy ===== *)
theory IdemCache
  imports Prelude
begin

text \<open>
  \<^verbatim>\<open>go/pkg/yunmao/idempotent/idempotent.go\<close>: the in-process idempotency cache, a map with
  deadlines and a FIFO list of its keys.  A list element's identity is its key, since a key is in
  the list at most once (the invariant below).
\<close>

record idem_cache =
  ic_capacity :: int
  ic_ttl :: duration
  ic_keys :: "string list"
  ic_map :: "string \<rightharpoonup> time"

definition ic_new :: "int \<Rightarrow> duration \<Rightarrow> idem_cache" where
  "ic_new capacity ttl = \<lparr>ic_capacity = capacity, ic_ttl = ttl, ic_keys = [], ic_map = Map.empty\<rparr>"

text \<open>The second half of \<open>Insert\<close>: append, and evict the oldest key over capacity.\<close>

definition ic_push :: "time \<Rightarrow> string \<Rightarrow> idem_cache \<Rightarrow> idem_cache" where
  "ic_push now k c =
     (let keys = ic_keys c @ [k];
          m = (ic_map c)(k \<mapsto> (if 0 < ic_ttl c then now + ic_ttl c else zero_time))
      in if 0 < ic_capacity c \<and> ic_capacity c < int (length keys)
         then c\<lparr>ic_keys := tl keys, ic_map := m(hd keys := None)\<rparr>
         else c\<lparr>ic_keys := keys, ic_map := m\<rparr>)"

definition ic_insert :: "time \<Rightarrow> string \<Rightarrow> idem_cache \<Rightarrow> bool \<times> idem_cache" where
  "ic_insert now k c =
     (case ic_map c k of
        Some exp \<Rightarrow>
          if ic_ttl c = 0 \<or> now < exp then (False, c)
          else (True, ic_push now k (c\<lparr>ic_keys := remove1 k (ic_keys c), ic_map := (ic_map c)(k := None)\<rparr>))
      | None \<Rightarrow> (True, ic_push now k c))"

definition ic_has :: "time \<Rightarrow> string \<Rightarrow> idem_cache \<Rightarrow> bool" where
  "ic_has now k c = (case ic_map c k of None \<Rightarrow> False | Some exp \<Rightarrow> \<not> (0 < ic_ttl c \<and> exp < now))"

section \<open>The invariant\<close>

text \<open>The list holds the keys of the map, each once, and never more than the capacity.\<close>

definition ic_inv :: "idem_cache \<Rightarrow> bool" where
  "ic_inv c \<longleftrightarrow> distinct (ic_keys c) \<and> set (ic_keys c) = dom (ic_map c) \<and>
     (0 < ic_capacity c \<longrightarrow> int (length (ic_keys c)) \<le> ic_capacity c)"

lemma ic_push_inv:
  assumes "distinct (ic_keys c)" and "set (ic_keys c) = dom (ic_map c)" and "k \<notin> dom (ic_map c)"
    and "0 < ic_capacity c \<longrightarrow> int (length (ic_keys c)) \<le> ic_capacity c"
  shows "ic_inv (ic_push now k c)"
proof (cases "ic_keys c")
  case Nil
  then show ?thesis using assms by (auto simp: ic_inv_def ic_push_def Let_def)
next
  case (Cons x xs)
  then have "x \<noteq> k" "x \<notin> set xs" "k \<notin> set xs" "dom (ic_map c) = insert x (set xs)" using assms by auto
  then show ?thesis using assms Cons by (auto simp: ic_inv_def ic_push_def Let_def)
qed

lemma ic_insert_inv:
  assumes "ic_inv c"
  shows "ic_inv (snd (ic_insert now k c))"
proof (cases "ic_map c k")
  case None
  then have "ic_inv (ic_push now k c)" using assms by (intro ic_push_inv) (auto simp: ic_inv_def)
  then show ?thesis using None by (simp add: ic_insert_def)
next
  case (Some exp)
  let ?c = "c\<lparr>ic_keys := remove1 k (ic_keys c), ic_map := (ic_map c)(k := None)\<rparr>"
  have "ic_inv (ic_push now k ?c)"
  proof (rule ic_push_inv)
    show "distinct (ic_keys ?c)" using assms by (simp add: ic_inv_def)
    show "set (ic_keys ?c) = dom (ic_map ?c)" using assms by (simp add: ic_inv_def)
    show "0 < ic_capacity ?c \<longrightarrow> int (length (ic_keys ?c)) \<le> ic_capacity ?c"
      using assms by (auto simp: ic_inv_def length_remove1)
  qed simp
  then show ?thesis using Some assms by (simp add: ic_insert_def)
qed

fun ic_run :: "(time \<times> string) list \<Rightarrow> idem_cache \<Rightarrow> idem_cache" where
  "ic_run [] c = c"
| "ic_run ((t, k) # xs) c = ic_run xs (snd (ic_insert t k c))"

lemma ic_run_inv: "ic_inv c \<Longrightarrow> ic_inv (ic_run xs c)"
  by (induction xs c rule: ic_run.induct) (auto intro: ic_insert_inv)

section \<open>How long a key is remembered\<close>

text \<open>\<open>k\<close> is cached until \<open>exp\<close> and at most \<open>n\<close> younger keys follow it in the queue.\<close>

definition remembered :: "string \<Rightarrow> time \<Rightarrow> nat \<Rightarrow> idem_cache \<Rightarrow> bool" where
  "remembered k exp n c \<longleftrightarrow> ic_map c k = Some exp \<and> (\<exists>ys zs. ic_keys c = ys @ k # zs \<and> length zs \<le> n)"

lemma rememberedI:
  "ic_map c k = Some exp \<Longrightarrow> ic_keys c = ys @ k # zs \<Longrightarrow> length zs \<le> n \<Longrightarrow> remembered k exp n c"
  unfolding remembered_def by blast

lemma ic_params [simp]:
  "ic_capacity (snd (ic_insert t k c)) = ic_capacity c" "ic_ttl (snd (ic_insert t k c)) = ic_ttl c"
  by (simp_all add: ic_insert_def ic_push_def Let_def split: option.split)

lemma push_remembered:
  assumes "remembered k exp n c" and "k' \<noteq> k" and "distinct (ic_keys c)"
    and "ic_capacity c \<le> 0 \<or> int n + 1 < ic_capacity c"
  shows "remembered k exp (n + 1) (ic_push t k' c)"
proof -
  obtain ys zs where c: "ic_map c k = Some exp" "ic_keys c = ys @ k # zs" "length zs \<le> n"
    using assms(1) by (auto simp: remembered_def)
  show ?thesis
  proof (cases "0 < ic_capacity c \<and> ic_capacity c < int (length (ic_keys c @ [k']))")
    case False
    then have "ic_keys (ic_push t k' c) = ys @ k # (zs @ [k'])" "ic_map (ic_push t k' c) k = Some exp"
      using c assms(2) by (auto simp: ic_push_def Let_def)
    then show ?thesis using c(3) by (intro rememberedI [of _ _ _ ys "zs @ [k']"]) simp_all
  next
    case True
    then obtain y ys' where y: "ys = y # ys'" using c assms(4) by (cases ys) auto
    show ?thesis
    proof (cases "y = k")
      case True
      then show ?thesis using assms(3) c(2) y by simp
    next
      case False
      then have "ic_keys (ic_push t k' c) = ys' @ k # (zs @ [k'])" "ic_map (ic_push t k' c) k = Some exp"
        using c assms(2) y \<open>0 < ic_capacity c \<and> _\<close> by (auto simp: ic_push_def Let_def)
      then show ?thesis using c(3) by (intro rememberedI [of _ _ _ ys' "zs @ [k']"]) simp_all
    qed
  qed
qed

lemma insert_remembered:
  assumes "remembered k exp n c" and "ic_inv c" and "t < exp \<or> ic_ttl c = 0"
    and "ic_capacity c \<le> 0 \<or> int n + 1 < ic_capacity c"
  shows "remembered k exp (n + 1) (snd (ic_insert t k' c))"
proof -
  obtain ys zs where c: "ic_map c k = Some exp" "ic_keys c = ys @ k # zs" "length zs \<le> n"
    using assms(1) by (auto simp: remembered_def)
  have more: "remembered k exp (n + 1) c" using c by (intro rememberedI [of _ _ _ ys zs]) simp_all
  have dist: "distinct (ic_keys c)" using assms(2) by (simp add: ic_inv_def)
  show ?thesis
  proof (cases "ic_map c k'")
    case None
    then have "k' \<noteq> k" using c(1) by auto
    then show ?thesis using None push_remembered [OF assms(1) _ dist assms(4)] by (simp add: ic_insert_def)
  next
    case (Some e)
    show ?thesis
    proof (cases "ic_ttl c = 0 \<or> t < e")
      case True
      then show ?thesis using Some more by (simp add: ic_insert_def)
    next
      case False
      then have ne: "k' \<noteq> k" using c(1) Some assms(3) by auto
      let ?c = "c\<lparr>ic_keys := remove1 k' (ic_keys c), ic_map := (ic_map c)(k' := None)\<rparr>"
      have "remembered k exp n ?c"
      proof (cases "k' \<in> set ys")
        case True
        then have "remove1 k' (ic_keys c) = remove1 k' ys @ k # zs" using c(2) by (simp add: remove1_append)
        then show ?thesis using c ne by (intro rememberedI [of _ _ _ "remove1 k' ys" zs]) simp_all
      next
        case False
        then have "remove1 k' (ic_keys c) = ys @ k # remove1 k' zs" using c(2) ne by (simp add: remove1_append)
        moreover have "length (remove1 k' zs) \<le> n" using c(3) by (auto simp: length_remove1)
        ultimately show ?thesis using c ne by (intro rememberedI [of _ _ _ ys "remove1 k' zs"]) simp_all
      qed
      then have "remembered k exp (n + 1) (ic_push t k' ?c)"
        using ne dist assms(4) by (intro push_remembered) simp_all
      then show ?thesis using Some False by (simp add: ic_insert_def)
    qed
  qed
qed

lemma run_remembered:
  assumes "remembered k exp n c" and "ic_inv c" and "ic_ttl c = 0 \<or> (\<forall>x \<in> set xs. fst x < exp)"
    and "ic_capacity c \<le> 0 \<or> int n + int (length xs) < ic_capacity c"
  shows "remembered k exp (n + length xs) (ic_run xs c)"
  using assms
proof (induction xs arbitrary: n c rule: list.induct)
  case (Cons x xs)
  obtain t k' where x: "x = (t, k')" by (rule prod.exhaust)
  have "remembered k exp (n + 1) (snd (ic_insert t k' c))"
    using Cons.prems x by (intro insert_remembered) auto
  with Cons.IH [of "n + 1" "snd (ic_insert t k' c)"] Cons.prems x ic_insert_inv [OF Cons.prems(2)]
  show ?case by auto
qed simp

lemma ic_run_params [simp]: "ic_ttl (ic_run xs c) = ic_ttl c" "ic_capacity (ic_run xs c) = ic_capacity c"
  by (induction xs c rule: ic_run.induct) auto

lemma push_last:
  assumes "k \<notin> set (ic_keys c)" and "0 < ic_ttl c"
  shows "remembered k (t + ic_ttl c) 0 (ic_push t k c)"
proof (cases "ic_keys c")
  case Nil
  then show ?thesis using assms by (intro rememberedI [of _ _ _ "[]" "[]"]) (auto simp: ic_push_def Let_def)
next
  case (Cons x xs)
  then have "x \<noteq> k" using assms(1) by auto
  then show ?thesis
    using assms Cons
    by (cases "0 < ic_capacity c \<and> ic_capacity c < int (length (ic_keys c @ [k]))")
      (auto simp: ic_push_def Let_def intro: rememberedI [of _ _ _ "x # xs" "[]"] rememberedI [of _ _ _ xs "[]"])
qed

text \<open>The cache stays within its capacity, and within it and the TTL it forgets nothing: after a
  first sight of a key, and fewer than \<open>capacity\<close> further insertions of any keys, the key is reported as
  a duplicate at any time before its deadline.\<close>

theorem idem_cache_remembers:
  assumes "ic_inv c" and "fst (ic_insert t k c)" and "0 < ic_ttl c"
    and "\<forall>x \<in> set xs. fst x < t + ic_ttl c" and "t' < t + ic_ttl c"
    and "ic_capacity c \<le> 0 \<or> int (length xs) < ic_capacity c"
  shows "\<not> fst (ic_insert t' k (ic_run xs (snd (ic_insert t k c)))) \<and>
    (0 < ic_capacity c \<longrightarrow> int (length (ic_keys (ic_run xs (snd (ic_insert t k c))))) \<le> ic_capacity c)"
proof -
  let ?c1 = "snd (ic_insert t k c)"
  have cap: "ic_capacity c \<le> 0 \<or> 1 \<le> ic_capacity c" by linarith
  have rem: "remembered k (t + ic_ttl c) 0 ?c1"
  proof (cases "ic_map c k")
    case None
    then have "k \<notin> set (ic_keys c)" using assms(1) by (auto simp: ic_inv_def)
    then show ?thesis using None assms(3) push_last [of k c t] by (simp add: ic_insert_def)
  next
    case (Some e)
    have "k \<notin> set (remove1 k (ic_keys c))" using assms(1) by (simp add: ic_inv_def)
    then show ?thesis using Some assms(2,3)
        push_last [of k "c\<lparr>ic_keys := remove1 k (ic_keys c), ic_map := (ic_map c)(k := None)\<rparr>" t]
      by (auto simp: ic_insert_def split: if_splits)
  qed
  have inv: "ic_inv ?c1" by (rule ic_insert_inv [OF assms(1)])
  have "remembered k (t + ic_ttl c) (0 + length xs) (ic_run xs ?c1)"
    using assms(4,6) by (intro run_remembered [OF rem inv]) auto
  then have "\<not> fst (ic_insert t' k (ic_run xs ?c1))"
    using assms(3,5) by (auto simp: remembered_def ic_insert_def)
  then show ?thesis using ic_run_inv [OF inv, of xs] by (simp add: ic_inv_def)
qed

theorem idem_cache_remembers_witness:
  "\<not> fst (ic_insert 9 ''a'' (ic_run [(2, ''b'')] (snd (ic_insert 1 ''a'' (ic_new 2 10)))))"
proof -
  have "ic_inv (ic_new 2 10)" by (simp add: ic_inv_def ic_new_def)
  then show ?thesis
    using idem_cache_remembers [of "ic_new 2 10" 1 "''a''" "[(2, ''b'')]" 9] by (simp add: ic_new_def ic_insert_def)
qed

end
