(* ===== verification/FeedingService.thy ===== *)
theory FeedingService
  imports FeedState CacheCooldown FeedingSafety FeatureFlags
begin

text \<open>
  \<^verbatim>\<open>go/services/feeding-svc/internal/service/service.go\<close> and \<^verbatim>\<open>billing.go\<close>: the feeding requests,
  their state machine and the billing saga around them.  The service holds its requests, rooms and
  receipts, and works on a key-value store, a policy store, a flag cache and a billing hook, each an
  interface of its own with its state inside the service state.  Every status change is appended to
  \<open>fs_log\<close> (the synchronous calls of the event listeners), every message handed to the publisher to
  \<open>fs_sent\<close>.  Outside outbox mode the publication of a command runs in a goroutine: \<open>Create\<close> leaves it in
  \<open>fs_async\<close> and \<open>runAsync\<close> is its body.  The readings of the clock during one call are taken as one,
  an argument like the fresh identifiers; metrics are left out.
\<close>

section \<open>Data\<close>

record room =
  rm_id :: string
  rm_cat :: string
  rm_device :: string
  rm_open :: bool
  rm_no_feed :: bool

record request =
  rq_id :: string
  rq_user :: string
  rq_room :: string
  rq_cat :: string
  rq_device :: string
  rq_cmd :: string
  rq_amount :: u32
  rq_status :: state
  rq_idem :: string
  rq_reject :: string
  rq_created :: time
  rq_updated :: time

record state_change =
  sc_id :: string
  sc_from :: state
  sc_to :: state
  sc_reason :: string
  sc_snapshot :: request

record feed_input =
  fi_user :: string
  fi_room :: string
  fi_amount :: u32
  fi_idem :: string

record billing_input =
  bi_user :: string
  bi_room :: string
  bi_cat :: string
  bi_amount :: u32
  bi_idem :: string

text \<open>The billing hook, with the state of whatever implements it.\<close>

record 'b billing_hook =
  bh_reserve :: "fresh \<Rightarrow> billing_input \<Rightarrow> 'b \<Rightarrow> (go_error, string, 'b) outcome"
  bh_confirm :: "fresh \<Rightarrow> string \<Rightarrow> 'b \<Rightarrow> (go_error, unit, 'b) outcome"
  bh_cancel :: "fresh \<Rightarrow> string \<Rightarrow> 'b \<Rightarrow> (go_error, unit, 'b) outcome"

definition NoopBilling :: "unit billing_hook" where
  "NoopBilling = \<lparr>bh_reserve = (\<lambda>_ _ b. (Inr ''noop'', b)), bh_confirm = (\<lambda>_ _ b. (Inr (), b)), bh_cancel = (\<lambda>_ _ b. (Inr (), b))\<rparr>"

record feed_command =
  fc_request :: string
  fc_cmd :: string
  fc_device :: string
  fc_room :: string
  fc_amount :: u32
  fc_motor_ms :: int
  fc_expires :: string

record feed_ack =
  fa_request :: string
  fa_cmd :: string
  fa_device :: string
  fa_room :: string
  fa_status :: string
  fa_amount :: u32
  fa_remaining :: u32
  fa_executed :: string
  fa_errors :: "string list"

definition ack_json :: "feed_ack \<Rightarrow> (string \<times> json) list" where
  "ack_json ack =
     [(''feed_request_id'', JStr (fa_request ack)), (''device_command_id'', JStr (fa_cmd ack)),
      (''device_id'', JStr (fa_device ack)), (''room_id'', JStr (fa_room ack)), (''status'', JStr (fa_status ack)),
      (''actual_amount_grams'', JInt (uint (fa_amount ack))), (''remaining_food_grams'', JInt (uint (fa_remaining ack))),
      (''executed_at'', JStr (fa_executed ack)), (''errors'', JStrs (fa_errors ack))]"

text \<open>What goes to the publisher: a command, or a gateway event with its topic and room.\<close>

datatype published = PubCommand feed_command | PubGateway string string "(string \<times> json) list"

record ('k, 's, 'b) feeding =
  fs_requests :: "string \<rightharpoonup> request"
  fs_rooms :: "string \<rightharpoonup> room"
  fs_receipts :: "string \<rightharpoonup> string"
  fs_qps :: "int \<rightharpoonup> int"
  fs_async :: "feed_command list"
  fs_log :: "state_change list"
  fs_sent :: "published list"
  fs_kv :: 'k
  fs_safety :: 's
  fs_billing :: 'b

text \<open>The wiring: the interfaces, the flags (absent in development), and the publisher's answers.\<close>

record ('k, 's, 'b) feeding_env =
  fe_kv :: "'k kv_ops"
  fe_safety :: "'s safety_ops option"
  fe_limits :: limits
  fe_flags :: "flag_cache option"
  fe_billing :: "'b billing_hook"
  fe_outbox :: bool
  fe_publish :: "published \<Rightarrow> go_error option"

record feed_fresh =
  ff_feed :: string
  ff_cmd :: string
  ff_now :: time
  ff_bill :: fresh

section \<open>Status changes\<close>

text \<open>\<open>transitionLocked\<close> on a request; an illegal change is dropped silently.\<close>

definition transitionLocked ::
  "time \<Rightarrow> request \<Rightarrow> state \<Rightarrow> string \<Rightarrow> ('k, 's, 'b) feeding \<Rightarrow> request \<times> ('k, 's, 'b) feeding" where
  "transitionLocked now r to reason st =
     (case transition (rq_status r) to of
        Inl _ \<Rightarrow> (r, st)
      | Inr nxt \<Rightarrow>
          let r' = r\<lparr>rq_status := nxt, rq_updated := now\<rparr>
          in (r', st\<lparr>fs_log := fs_log st @
                 [\<lparr>sc_id = rq_id r, sc_from = rq_status r, sc_to = nxt, sc_reason = reason, sc_snapshot = r'\<rparr>]\<rparr>))"

text \<open>The same through the pointer the request map holds.\<close>

definition change_request ::
  "time \<Rightarrow> request \<Rightarrow> state \<Rightarrow> string \<Rightarrow> ('k, 's, 'b) feeding \<Rightarrow> request \<times> ('k, 's, 'b) feeding" where
  "change_request now r to reason st =
     (case transitionLocked now r to reason st of
        (r', st') \<Rightarrow> (r', st'\<lparr>fs_requests := (fs_requests st')(rq_id r \<mapsto> r')\<rparr>))"

definition send :: "published \<Rightarrow> ('k, 's, 'b) feeding \<Rightarrow> ('k, 's, 'b) feeding" where
  "send p st = st\<lparr>fs_sent := fs_sent st @ [p]\<rparr>"

section \<open>Create\<close>

text \<open>The buckets of the region's rate limit; those older than five seconds are dropped.\<close>

definition allowRegionQps :: "time \<Rightarrow> int \<Rightarrow> ('k, 's, 'b) feeding \<Rightarrow> bool \<times> ('k, 's, 'b) feeding" where
  "allowRegionQps now perSecond st =
     (let t = unix_seconds now;
          b = (\<lambda>k. if k < t - 5 then None else fs_qps st k);
          c = (case b t of None \<Rightarrow> 0 | Some n \<Rightarrow> n)
      in if perSecond \<le> c then (False, st\<lparr>fs_qps := b\<rparr>)
         else (True, st\<lparr>fs_qps := b(t \<mapsto> c + 1)\<rparr>))"

definition create_flags ::
  "('k, 's, 'b) feeding_env \<Rightarrow> time \<Rightarrow> feed_input \<Rightarrow> ('k, 's, 'b) feeding \<Rightarrow> go_error option \<times> ('k, 's, 'b) feeding" where
  "create_flags env now inp st =
     (case fe_flags env of None \<Rightarrow> (None, st)
      | Some fl \<Rightarrow>
          if \<not> flags_bool fl ''feeding.allow_new_rooms'' True
          then (Some (yerr RiskActionBlocked ''feeding currently disabled by feature flag''), st)
          else if (case fs_rooms st (fi_room inp) of None \<Rightarrow> False
                   | Some room \<Rightarrow> rm_device room \<noteq> [] \<and>
                      rm_device room \<in> set (flags_strings fl ''feeding.device_maintenance'' ''device_ids''))
          then (Some (yerr FeedDeviceOffline ''device under maintenance''), st)
          else if flags_bool fl ''feeding.region_qps_limit'' True then
            let limit = flags_int fl ''feeding.region_qps_limit'' ''per_region'' 200 in
            if 0 < limit then
              (case allowRegionQps now limit st of
                 (True, st') \<Rightarrow> (None, st')
               | (False, st') \<Rightarrow> (Some (yerr SystemRateLimited ''region qps limit reached''), st'))
            else (None, st)
          else (None, st))"

definition create_room :: "feed_input \<Rightarrow> ('k, 's, 'b) feeding \<Rightarrow> go_error + room" where
  "create_room inp st =
     (case fs_rooms st (fi_room inp) of
        None \<Rightarrow> Inl (yerr RoomNotFound ''room not found'')
      | Some room \<Rightarrow>
          if \<not> rm_open room then Inl (yerr FeedNoFeedWindow ''feeding closed'')
          else if rm_no_feed room then Inl (yerr FeedNoFeedWindow ''no-feed window'')
          else Inr room)"

text \<open>Policy and cooldown: resolve, check, consume.\<close>

definition create_cooldown ::
  "('k, 's, 'b) feeding_env \<Rightarrow> time \<Rightarrow> feed_input \<Rightarrow> room \<Rightarrow> ('k, 's, 'b) feeding \<Rightarrow> go_error option \<times> ('k, 's, 'b) feeding" where
  "create_cooldown env now inp room st =
     (case Resolve (fe_safety env) (fe_limits env) now (fi_room inp) (fs_safety st) of
        (Inl e, sf) \<Rightarrow> (Some (yerr SystemDependencyUnavailable (''safety: '' @ err_text e)), st\<lparr>fs_safety := sf\<rparr>)
      | (Inr lim, sf) \<Rightarrow>
          let cd = \<lparr>cd_room = lm_room lim, cd_user = lm_user lim, cd_daily = lm_daily lim\<rparr>; st1 = st\<lparr>fs_safety := sf\<rparr> in
          (case cd_check (fe_kv env) cd now (fi_room inp) (fi_user inp) (rm_cat room) (fi_amount inp) (fs_kv st1) of
             (Inl e, kv) \<Rightarrow> (Some (yerr SystemDependencyUnavailable (''cooldown check: '' @ err_text e)), st1\<lparr>fs_kv := kv\<rparr>)
           | (Inr (BlockedRoom, _), kv) \<Rightarrow> (Some (yerr FeedCooldownNotFinished ''cooldown not finished''), st1\<lparr>fs_kv := kv\<rparr>)
           | (Inr (BlockedUser, _), kv) \<Rightarrow> (Some (yerr FeedCooldownNotFinished ''cooldown not finished''), st1\<lparr>fs_kv := kv\<rparr>)
           | (Inr (BlockedDaily, _), kv) \<Rightarrow> (Some (yerr FeedHealthLimitHit ''daily limit reached''), st1\<lparr>fs_kv := kv\<rparr>)
           | (Inr (OK, _), kv) \<Rightarrow>
               (case cd_consume (fe_kv env) cd now (fi_room inp) (fi_user inp) (rm_cat room) (fi_amount inp) kv of
                  (Inl e, kv') \<Rightarrow> (Some (yerr SystemDependencyUnavailable (''cooldown consume: '' @ err_text e)), st1\<lparr>fs_kv := kv'\<rparr>)
                | (Inr v, kv') \<Rightarrow>
                    ((if v = OK then None else Some (yerr FeedCooldownNotFinished ''lost race on cooldown'')), st1\<lparr>fs_kv := kv'\<rparr>))))"

definition new_request :: "feed_fresh \<Rightarrow> feed_input \<Rightarrow> room \<Rightarrow> request" where
  "new_request fr inp room =
     \<lparr>rq_id = ''feed_'' @ ff_feed fr, rq_user = fi_user inp, rq_room = fi_room inp, rq_cat = rm_cat room,
      rq_device = rm_device room, rq_cmd = ''cmd_'' @ ff_cmd fr, rq_amount = fi_amount inp, rq_status = Created,
      rq_idem = fi_idem inp, rq_reject = [], rq_created = ff_now fr, rq_updated = ff_now fr\<rparr>"

definition feed_cmd :: "feed_fresh \<Rightarrow> request \<Rightarrow> feed_command" where
  "feed_cmd fr r = \<lparr>fc_request = rq_id r, fc_cmd = rq_cmd r, fc_device = rq_device r, fc_room = rq_room r,
     fc_amount = rq_amount r, fc_motor_ms = 1200, fc_expires = format_rfc3339 (ff_now fr + 30 * second)\<rparr>"

text \<open>The end of \<open>Create\<close>: the request is made, recorded and pushed through its first states.\<close>

definition create_commit ::
  "('k, 's, 'b) feeding_env \<Rightarrow> feed_fresh \<Rightarrow> feed_input \<Rightarrow> room \<Rightarrow> string \<Rightarrow> ('k, 's, 'b) feeding \<Rightarrow> request \<times> ('k, 's, 'b) feeding" where
  "create_commit env fr inp room receipt st =
     (let now = ff_now fr; r0 = new_request fr inp room;
          st1 = st\<lparr>fs_receipts := (fs_receipts st)(rq_id r0 \<mapsto> receipt)\<rparr>;
          (r1, st2) = transitionLocked now r0 Accepted ''validated'' st1;
          st3 = st2\<lparr>fs_requests := (fs_requests st2)(rq_id r0 \<mapsto> r1)\<rparr>;
          (r2, st4) = change_request now r1 Queued ''queued to device-edge'' st3
      in if fe_outbox env then change_request now r2 Dispatched ''dispatched via outbox'' st4
         else (r2, st4\<lparr>fs_async := fs_async st4 @ [feed_cmd fr r0]\<rparr>))"

text \<open>The rest of \<open>Create\<close> once the idempotency key is new.\<close>

definition create_first ::
  "('k, 's, 'b) feeding_env \<Rightarrow> feed_fresh \<Rightarrow> feed_input \<Rightarrow> ('k, 's, 'b) feeding \<Rightarrow> (go_error, request, ('k, 's, 'b) feeding) outcome" where
  "create_first env fr inp st =
     (case create_room inp st of
        Inl e \<Rightarrow> (Inl e, st)
      | Inr room \<Rightarrow> (case create_cooldown env (ff_now fr) inp room st of
          (Some e, st1) \<Rightarrow> (Inl e, st1)
        | (None, st1) \<Rightarrow>
            (case bh_reserve (fe_billing env) (ff_bill fr)
                    \<lparr>bi_user = fi_user inp, bi_room = fi_room inp, bi_cat = rm_cat room, bi_amount = fi_amount inp, bi_idem = fi_idem inp\<rparr>
                    (fs_billing st1) of
               (Inl e, b) \<Rightarrow> (Inl (yerr PayChannelFailed (''billing reserve: '' @ err_text e)), st1\<lparr>fs_billing := b\<rparr>)
             | (Inr receipt, b) \<Rightarrow>
                 (case create_commit env fr inp room receipt (st1\<lparr>fs_billing := b\<rparr>) of (r, st2) \<Rightarrow> (Inr r, st2)))))"

text \<open>\<open>order\<close> is the iteration order of the request map, for the search by key.\<close>

definition svc_feed_create ::
  "('k, 's, 'b) feeding_env \<Rightarrow> string list \<Rightarrow> feed_fresh \<Rightarrow> feed_input \<Rightarrow> ('k, 's, 'b) feeding \<Rightarrow>
   (go_error, request, ('k, 's, 'b) feeding) outcome" where
  "svc_feed_create env order fr inp st =
     (if fi_user inp = [] \<or> fi_room inp = [] \<or> fi_amount inp = 0 \<or> fi_idem inp = []
      then (Inl (yerr SystemInternal ''missing required field''), st)
      else case create_flags env (ff_now fr) inp st of
        (Some e, st1) \<Rightarrow> (Inl e, st1)
      | (None, st1) \<Rightarrow>
          (case idem_insert (fe_kv env) (48 * hour) (ff_now fr) ''feed'' (fi_idem inp) (fs_kv st1) of
             (Inl e, kv) \<Rightarrow> (Inl (yerr SystemDependencyUnavailable (''idem check: '' @ err_text e)), st1\<lparr>fs_kv := kv\<rparr>)
           | (Inr False, kv) \<Rightarrow>
               (case filter (\<lambda>r. rq_idem r = fi_idem inp) (rows_in order (fs_requests st1)) of
                  r # _ \<Rightarrow> (Inr r, st1\<lparr>fs_kv := kv\<rparr>)
                | [] \<Rightarrow> (Inl (yerr FeedDuplicateRequest ''duplicate request without record''), st1\<lparr>fs_kv := kv\<rparr>))
           | (Inr True, kv) \<Rightarrow> create_first env fr inp (st1\<lparr>fs_kv := kv\<rparr>)))"

section \<open>The other operations\<close>

definition svc_feed_get :: "string \<Rightarrow> ('k, 's, 'b) feeding \<Rightarrow> go_error + request" where
  "svc_feed_get i st = (case fs_requests st i of None \<Rightarrow> Inl (yerr SystemInternal ''feed request not found'') | Some r \<Rightarrow> Inr r)"

text \<open>The goroutine that publishes a command.\<close>

definition runAsync :: "('k, 's, 'b) feeding_env \<Rightarrow> time \<Rightarrow> ('k, 's, 'b) feeding \<Rightarrow> ('k, 's, 'b) feeding" where
  "runAsync env now st =
     (case fs_async st of
        [] \<Rightarrow> st
      | cmd # rest \<Rightarrow>
          let st1 = send (PubCommand cmd) (st\<lparr>fs_async := rest\<rparr>) in
          (case fs_requests st1 (fc_request cmd) of
             None \<Rightarrow> st1
           | Some r \<Rightarrow> (case fe_publish env (PubCommand cmd) of
               Some e \<Rightarrow> snd (change_request now r Failed (''publish failed: '' @ err_text e) st1)
             | None \<Rightarrow>
                 send (PubGateway ''feed.command.dispatched'' (rq_room r)
                        [(''feed_request_id'', JStr (rq_id r)), (''device_command_id'', JStr (rq_cmd r)),
                         (''device_id'', JStr (rq_device r)), (''amount_grams'', JInt (uint (rq_amount r)))])
                   (snd (change_request now r Dispatched ''dispatched'' st1)))))"

text \<open>The billing call after an ack, when there was a receipt.\<close>

definition settle :: "('k, 's, 'b) feeding_env \<Rightarrow> fresh \<Rightarrow> string \<Rightarrow> state \<Rightarrow> ('k, 's, 'b) feeding \<Rightarrow> ('k, 's, 'b) feeding" where
  "settle env fb receipt final st =
     (if receipt = [] then st
      else if final = Succeeded then st\<lparr>fs_billing := snd (bh_confirm (fe_billing env) fb receipt (fs_billing st))\<rparr>
      else if final = Failed then st\<lparr>fs_billing := snd (bh_cancel (fe_billing env) fb receipt (fs_billing st))\<rparr>
      else st)"

definition receipt_of :: "string \<Rightarrow> ('k, 's, 'b) feeding \<Rightarrow> string" where
  "receipt_of i st = (case fs_receipts st i of None \<Rightarrow> [] | Some rc \<Rightarrow> rc)"

definition HandleAck ::
  "('k, 's, 'b) feeding_env \<Rightarrow> feed_fresh \<Rightarrow> feed_ack \<Rightarrow> ('k, 's, 'b) feeding \<Rightarrow> go_error option \<times> ('k, 's, 'b) feeding" where
  "HandleAck env fr ack st =
     (case idem_insert (fe_kv env) (48 * hour) (ff_now fr) ''ack'' (fa_cmd ack) (fs_kv st) of
        (Inl e, kv) \<Rightarrow> (Some e, st\<lparr>fs_kv := kv\<rparr>)
      | (Inr False, kv) \<Rightarrow> (None, st\<lparr>fs_kv := kv\<rparr>)
      | (Inr True, kv) \<Rightarrow>
          let st1 = st\<lparr>fs_kv := kv\<rparr> in
          (case fs_requests st1 (fa_request ack) of
             None \<Rightarrow> (None, st1)
           | Some r \<Rightarrow>
               let (r1, st2) = (if rq_status r = Dispatched
                                then change_request (ff_now fr) r Acknowledged ''device ack received'' st1 else (r, st1));
                   target = (if fa_status ack = ''succeeded'' then Succeeded else Failed);
                   (r2, st3) = (if rq_status r1 = Acknowledged
                                then change_request (ff_now fr) r1 target (''ack: '' @ fa_status ack) st2 else (r1, st2));
                   receipt = receipt_of (rq_id r2) st3;
                   st4 = settle env (ff_bill fr) receipt (rq_status r2)
                           (st3\<lparr>fs_receipts := (fs_receipts st3)(rq_id r2 := None)\<rparr>)
               in if fe_outbox env then (None, st4)
                  else let msg = PubGateway ''feed.command.acked'' (rq_room r2) (ack_json ack)
                       in (fe_publish env msg, send msg st4)))"

definition svc_feed_cancel ::
  "('k, 's, 'b) feeding_env \<Rightarrow> feed_fresh \<Rightarrow> string \<Rightarrow> string \<Rightarrow> ('k, 's, 'b) feeding \<Rightarrow> (go_error, request, ('k, 's, 'b) feeding) outcome" where
  "svc_feed_cancel env fr i reason st =
     (if i = [] then (Inl (yerr SystemInternal ''feed_request_id required''), st)
      else case fs_requests st i of
        None \<Rightarrow> (Inl (yerr SystemInternal ''feed request not found''), st)
      | Some r \<Rightarrow>
          if rq_status r \<noteq> Queued \<and> rq_status r \<noteq> Dispatched
          then (Inl (yerr FeedDuplicateRequest (''not cancellable in current state: '' @ state_string (rq_status r))), st)
          else
            let why = (if reason = [] then ''cancelled'' else reason);
                (r1, st1) = change_request (ff_now fr) (r\<lparr>rq_reject := why\<rparr>) Rejected why st;
                receipt = receipt_of (rq_id r1) st1;
                st2 = st1\<lparr>fs_receipts := (fs_receipts st1)(rq_id r1 := None)\<rparr>;
                st3 = (if receipt = [] then st2
                       else st2\<lparr>fs_billing := snd (bh_cancel (fe_billing env) (ff_bill fr) receipt (fs_billing st2))\<rparr>)
            in (Inr r1, if fe_outbox env then st3
                        else send (PubGateway ''feed.command.cancelled'' (rq_room r1)
                               [(''feed_request_id'', JStr (rq_id r1)), (''device_command_id'', JStr (rq_cmd r1)),
                                (''device_id'', JStr (rq_device r1)), (''reason'', JStr why)]) st3))"

text \<open>One request of the timeout scan.\<close>

definition timeout_one ::
  "('k, 's, 'b) feeding_env \<Rightarrow> feed_fresh \<Rightarrow> duration \<Rightarrow> string \<Rightarrow> nat \<times> ('k, 's, 'b) feeding \<Rightarrow> nat \<times> ('k, 's, 'b) feeding" where
  "timeout_one env fr ttl i hs =
     (case hs of (hits, st) \<Rightarrow>
        (case fs_requests st i of
           None \<Rightarrow> (hits, st)
         | Some r \<Rightarrow>
             if rq_status r \<noteq> Dispatched \<and> rq_status r \<noteq> Queued then (hits, st)
             else if ff_now fr - rq_updated r < ttl then (hits, st)
             else
               let (r1, st1) = change_request (ff_now fr) (r\<lparr>rq_reject := ''timeout''\<rparr>) Failed ''timeout'' st;
                   receipt = receipt_of (rq_id r1) st1
               in (hits + 1,
                   if receipt = [] then st1
                   else st1\<lparr>fs_receipts := (fs_receipts st1)(rq_id r1 := None),
                            fs_billing := snd (bh_cancel (fe_billing env) (ff_bill fr) receipt (fs_billing st1))\<rparr>)))"

definition TimeoutScanRun ::
  "('k, 's, 'b) feeding_env \<Rightarrow> string list \<Rightarrow> feed_fresh \<Rightarrow> duration \<Rightarrow> ('k, 's, 'b) feeding \<Rightarrow> nat \<times> ('k, 's, 'b) feeding" where
  "TimeoutScanRun env order fr ttl st = (if ttl \<le> 0 then (0, st) else fold (timeout_one env fr ttl) order (0, st))"

definition RegisterRoom :: "room \<Rightarrow> ('k, 's, 'b) feeding \<Rightarrow> ('k, 's, 'b) feeding" where
  "RegisterRoom r st = st\<lparr>fs_rooms := (fs_rooms st)(rm_id r \<mapsto> r)\<rparr>"

definition feeding_new :: "'k \<Rightarrow> 's \<Rightarrow> 'b \<Rightarrow> ('k, 's, 'b) feeding" where
  "feeding_new kv sf b =
     \<lparr>fs_requests = Map.empty,
      fs_rooms = [''room_demo'' \<mapsto> \<lparr>rm_id = ''room_demo'', rm_cat = ''cat_demo'', rm_device = ''dev_demo'', rm_open = True, rm_no_feed = False\<rparr>],
      fs_receipts = Map.empty, fs_qps = Map.empty, fs_async = [], fs_log = [], fs_sent = [],
      fs_kv = kv, fs_safety = sf, fs_billing = b\<rparr>"

end
