(* ===== verification/FeedingLog.thy ===== *)
theory FeedingLog
  imports FeedingService
begin

text \<open>
  Event sourcing of the feeding service: over any sequence of calls, from the flags, stores and
  billing hook whatever they answer, the log of status changes replays to the current state of every
  request along edges of the state diagram.
\<close>

section \<open>Calls\<close>

datatype feed_call =
    FCreate "string list" feed_fresh feed_input
  | FAsync time
  | FAck feed_fresh feed_ack
  | FCancel feed_fresh string string
  | FTimeout "string list" feed_fresh duration
  | FRegister room

fun feed_call_step :: "('k, 's, 'b) feeding_env \<Rightarrow> feed_call \<Rightarrow> ('k, 's, 'b) feeding \<Rightarrow> ('k, 's, 'b) feeding" where
  "feed_call_step env (FCreate order fr inp) st = snd (svc_feed_create env order fr inp st)"
| "feed_call_step env (FAsync now) st = runAsync env now st"
| "feed_call_step env (FAck fr ack) st = snd (HandleAck env fr ack st)"
| "feed_call_step env (FCancel fr i reason) st = snd (svc_feed_cancel env fr i reason st)"
| "feed_call_step env (FTimeout order fr ttl) st = snd (TimeoutScanRun env order fr ttl st)"
| "feed_call_step env (FRegister r) st = RegisterRoom r st"

definition feed_run :: "('k, 's, 'b) feeding_env \<Rightarrow> feed_call list \<Rightarrow> ('k, 's, 'b) feeding \<Rightarrow> ('k, 's, 'b) feeding" where
  "feed_run env cs st = fold (feed_call_step env) cs st"

fun feed_ids :: "feed_call list \<Rightarrow> string list" where
  "feed_ids [] = []"
| "feed_ids (FCreate order fr inp # cs) = (''feed_'' @ ff_feed fr) # feed_ids cs"
| "feed_ids (_ # cs) = feed_ids cs"

lemma feed_ids_append [simp]: "feed_ids (xs @ ys) = feed_ids xs @ feed_ids ys"
  by (induction xs rule: feed_ids.induct) simp_all

section \<open>Replaying the log\<close>

text \<open>The changes of one request form a path of the state diagram.\<close>

fun chain :: "state \<Rightarrow> state_change list \<Rightarrow> state \<Rightarrow> bool" where
  "chain s [] t \<longleftrightarrow> s = t"
| "chain s (e # es) t \<longleftrightarrow> sc_from e = s \<and> feed_step s (sc_to e) \<and> chain (sc_to e) es t"

definition changes :: "string \<Rightarrow> state_change list \<Rightarrow> state_change list" where
  "changes i es = filter (\<lambda>e. sc_id e = i) es"

lemma chain_append: "chain s (es @ [e]) t \<longleftrightarrow> chain s es (sc_from e) \<and> feed_step (sc_from e) (sc_to e) \<and> t = sc_to e"
  by (induction es arbitrary: s) auto

lemma changes_append [simp]: "changes i (es @ [e]) = changes i es @ (if sc_id e = i then [e] else [])"
  by (simp add: changes_def)

definition sourced :: "(string \<rightharpoonup> request) \<Rightarrow> state_change list \<Rightarrow> bool" where
  "sourced reqs es \<longleftrightarrow>
     (\<forall>i r. reqs i = Some r \<longrightarrow> rq_id r = i \<and> chain Created (changes i es) (rq_status r)) \<and>
     (\<forall>i. reqs i = None \<longrightarrow> changes i es = [])"

text \<open>Each change carries the request as it was after it; no request the service holds is in \<open>Created\<close>.\<close>

definition snapshot_of :: "state_change \<Rightarrow> request \<Rightarrow> bool" where
  "snapshot_of e r \<longleftrightarrow>
     rq_id (sc_snapshot e) = sc_id e \<and> rq_status (sc_snapshot e) = sc_to e \<and> rq_user (sc_snapshot e) = rq_user r \<and>
     rq_idem (sc_snapshot e) = rq_idem r \<and> rq_amount (sc_snapshot e) = rq_amount r \<and> rq_device (sc_snapshot e) = rq_device r \<and>
     rq_room (sc_snapshot e) = rq_room r \<and> rq_cmd (sc_snapshot e) = rq_cmd r"

definition snapshots :: "(string \<rightharpoonup> request) \<Rightarrow> state_change list \<Rightarrow> bool" where
  "snapshots reqs es \<longleftrightarrow>
     (\<forall>e \<in> set es. \<exists>r. reqs (sc_id e) = Some r \<and> snapshot_of e r) \<and>
     (\<forall>i r. reqs i = Some r \<longrightarrow> rq_status r \<noteq> Created)"

lemma snapshots_keep:
  assumes "snapshots reqs es" and "reqs i = Some r0" and "rq_user r = rq_user r0" and "rq_idem r = rq_idem r0"
    and "rq_amount r = rq_amount r0" and "rq_device r = rq_device r0" and "rq_room r = rq_room r0" and "rq_cmd r = rq_cmd r0"
    and "rq_status r \<noteq> Created"
  shows "snapshots (reqs(i \<mapsto> r)) es"
  using assms by (force simp: snapshots_def snapshot_of_def)

lemma snapshots_new:
  assumes "snapshots reqs es" and "reqs i = None" and "rq_status r \<noteq> Created"
  shows "snapshots (reqs(i \<mapsto> r)) es"
  using assms by (force simp: snapshots_def)

lemma snapshots_append:
  assumes "snapshots reqs es" and "\<forall>e \<in> set es'. \<exists>r. reqs (sc_id e) = Some r \<and> snapshot_of e r"
  shows "snapshots reqs (es @ es')"
  using assms by (auto simp: snapshots_def)

lemma feed_step_not_Created: "\<not> feed_step s Created"
  by (auto elim: feed_step.cases)

definition log_inv :: "string set \<Rightarrow> ('k, 's, 'b) feeding \<Rightarrow> bool" where
  "log_inv ks st \<longleftrightarrow> sourced (fs_requests st) (fs_log st) \<and> dom (fs_requests st) \<subseteq> ks \<and> snapshots (fs_requests st) (fs_log st)"

lemma log_inv_cong:
  "fs_requests st' = fs_requests st \<Longrightarrow> fs_log st' = fs_log st \<Longrightarrow> log_inv ks st \<Longrightarrow> log_inv ks st'"
  by (simp add: log_inv_def)

lemma log_inv_update [simp]:
  "log_inv ks (st\<lparr>fs_rooms := a\<rparr>) = log_inv ks st" "log_inv ks (st\<lparr>fs_receipts := b\<rparr>) = log_inv ks st"
  "log_inv ks (st\<lparr>fs_qps := c\<rparr>) = log_inv ks st" "log_inv ks (st\<lparr>fs_async := d\<rparr>) = log_inv ks st"
  "log_inv ks (st\<lparr>fs_kv := e\<rparr>) = log_inv ks st" "log_inv ks (st\<lparr>fs_safety := f\<rparr>) = log_inv ks st"
  "log_inv ks (st\<lparr>fs_billing := g\<rparr>) = log_inv ks st" "log_inv ks (send p st) = log_inv ks st"
  by (simp_all add: log_inv_def send_def)

lemma send_simps [simp]:
  "fs_requests (send p st) = fs_requests st" "fs_log (send p st) = fs_log st" "fs_receipts (send p st) = fs_receipts st"
  "fs_billing (send p st) = fs_billing st" "fs_kv (send p st) = fs_kv st" "fs_rooms (send p st) = fs_rooms st"
  "fs_safety (send p st) = fs_safety st"
  by (simp_all add: send_def)

text \<open>The two outcomes of a status change.\<close>

lemma transitionLocked_cases:
  "transitionLocked now r to reason st =
     (if feed_step (rq_status r) to
      then let r' = r\<lparr>rq_status := to, rq_updated := now\<rparr>
           in (r', st\<lparr>fs_log := fs_log st @
                 [\<lparr>sc_id = rq_id r, sc_from = rq_status r, sc_to = to, sc_reason = reason, sc_snapshot = r'\<rparr>]\<rparr>)
      else (r, st))"
  using transition_Inl [of "rq_status r" to] by (auto simp: transitionLocked_def Let_def split: sum.split)

lemma change_request_cases:
  "change_request now r to reason st =
     (if feed_step (rq_status r) to
      then let r' = r\<lparr>rq_status := to, rq_updated := now\<rparr>
           in (r', st\<lparr>fs_log := fs_log st @
                 [\<lparr>sc_id = rq_id r, sc_from = rq_status r, sc_to = to, sc_reason = reason, sc_snapshot = r'\<rparr>],
                fs_requests := (fs_requests st)(rq_id r \<mapsto> r')\<rparr>)
      else (r, st\<lparr>fs_requests := (fs_requests st)(rq_id r \<mapsto> r)\<rparr>))"
  by (simp add: change_request_def transitionLocked_cases Let_def)

lemma change_request_result:
  assumes "change_request now r to reason st = (r', st')"
  shows "rq_id r' = rq_id r" and "fs_requests st' = (fs_requests st)(rq_id r \<mapsto> r')"
    and "rq_status r' = (if feed_step (rq_status r) to then to else rq_status r)"
    and "fs_receipts st' = fs_receipts st" and "fs_rooms st' = fs_rooms st" and "fs_kv st' = fs_kv st"
    and "fs_safety st' = fs_safety st" and "fs_billing st' = fs_billing st" and "fs_qps st' = fs_qps st"
    and "fs_async st' = fs_async st" and "fs_sent st' = fs_sent st"
    and "rq_room r' = rq_room r" and "rq_idem r' = rq_idem r" and "rq_user r' = rq_user r" and "rq_cat r' = rq_cat r"
    and "rq_amount r' = rq_amount r" and "rq_created r' = rq_created r" and "rq_cmd r' = rq_cmd r"
  using assms by (auto simp: change_request_cases Let_def split: if_splits)

lemma change_request_inv:
  assumes "log_inv ks st" and "fs_requests st (rq_id r) = Some r0" and "r = r0\<lparr>rq_reject := rq_reject r\<rparr>"
    and "change_request now r to reason st = (r', st')"
  shows "log_inv ks st'"
proof -
  have src: "sourced (fs_requests st) (fs_log st)" "snapshots (fs_requests st) (fs_log st)" using assms(1) by (simp_all add: log_inv_def)
  have same: "rq_status r = rq_status r0" "rq_id r = rq_id r0" "rq_user r = rq_user r0" "rq_idem r = rq_idem r0" "rq_amount r = rq_amount r0"
    "rq_device r = rq_device r0" "rq_room r = rq_room r0" "rq_cmd r = rq_cmd r0"
    by (subst assms(3), simp)+
  have ch: "chain Created (changes (rq_id r) (fs_log st)) (rq_status r)"
    using src assms(2) same unfolding sourced_def by metis
  have dom: "dom (fs_requests st) \<subseteq> ks" "rq_id r \<in> ks" using assms(1,2) by (auto simp: log_inv_def)
  have r0: "rq_status r0 \<noteq> Created" using src(2) assms(2) by (auto simp: snapshots_def)
  show ?thesis
  proof (cases "feed_step (rq_status r) to")
    case True
    define e where "e = \<lparr>sc_id = rq_id r, sc_from = rq_status r, sc_to = to, sc_reason = reason, sc_snapshot = r'\<rparr>"
    have run: "r' = r\<lparr>rq_status := to, rq_updated := now\<rparr>" "fs_log st' = fs_log st @ [e]" "fs_requests st' = (fs_requests st)(rq_id r \<mapsto> r')"
      using True assms(4) by (auto simp: change_request_cases Let_def e_def)
    have "sourced (fs_requests st') (fs_log st')"
      unfolding run(2,3) using src(1) ch True by (auto simp: sourced_def chain_append e_def run(1))
    moreover have "snapshots (fs_requests st') (fs_log st')"
      unfolding run(2,3) using src(2) assms(2) same True feed_step_not_Created
      by (intro snapshots_append snapshots_keep) (auto simp: e_def run(1) snapshot_of_def)
    ultimately show ?thesis using dom by (auto simp: log_inv_def run(3))
  next
    case False
    then have run: "r' = r" "fs_log st' = fs_log st" "fs_requests st' = (fs_requests st)(rq_id r \<mapsto> r)"
      using assms(4) by (auto simp: change_request_cases)
    have "sourced (fs_requests st') (fs_log st')"
      unfolding run(2,3) using src(1) ch by (auto simp: sourced_def)
    moreover have "snapshots (fs_requests st') (fs_log st')"
      unfolding run(2,3) using src(2) assms(2) same r0 by (intro snapshots_keep) auto
    ultimately show ?thesis using dom by (auto simp: log_inv_def run(3))
  qed
qed

section \<open>Every operation keeps the log\<close>

lemma create_flags_frame:
  "create_flags env now inp st = (e, st') \<Longrightarrow> \<exists>q. st' = st\<lparr>fs_qps := q\<rparr>"
proof -
  have id: "\<exists>q. st = st\<lparr>fs_qps := q\<rparr>" by (rule exI [of _ "fs_qps st"]) simp
  have qps: "\<exists>q. snd (allowRegionQps now n st) = st\<lparr>fs_qps := q\<rparr>" for n
    by (auto simp: allowRegionQps_def Let_def)
  assume "create_flags env now inp st = (e, st')"
  then have "st' = st \<or> (\<exists>n. st' = snd (allowRegionQps now n st))"
    by (auto simp: create_flags_def Let_def split: option.splits if_splits prod.splits bool.splits) (metis snd_conv)+
  then show ?thesis using id qps by auto
qed

lemma create_cooldown_frame:
  "create_cooldown env now inp room st = (e, st') \<Longrightarrow> \<exists>kv sf. st' = st\<lparr>fs_safety := sf, fs_kv := kv\<rparr>"
proof -
  assume "create_cooldown env now inp room st = (e, st')"
  then have "\<exists>kv sf. st' = st\<lparr>fs_safety := sf, fs_kv := kv\<rparr> \<or> st' = st\<lparr>fs_safety := sf\<rparr>"
    by (auto simp: create_cooldown_def Let_def split: prod.splits sum.splits cd_outcome.splits)
  moreover have "st\<lparr>fs_safety := sf\<rparr> = st\<lparr>fs_safety := sf, fs_kv := fs_kv st\<rparr>" for sf by simp
  ultimately show ?thesis by metis
qed

text \<open>The new request walks from \<open>Created\<close> to \<open>Queued\<close>, and in outbox mode to \<open>Dispatched\<close>.\<close>

lemma create_commit_inv:
  assumes "log_inv ks st" and "fs_requests st (rq_id (new_request fr inp room)) = None"
    and "create_commit env fr inp room rc st = (r, st')"
  shows "log_inv (insert (rq_id (new_request fr inp room)) ks) st'" and "rq_status r = (if fe_outbox env then Dispatched else Queued)"
    and "fs_requests st' = (fs_requests st)(rq_id (new_request fr inp room) \<mapsto> r)"
    and "fs_receipts st' = (fs_receipts st)(rq_id (new_request fr inp room) \<mapsto> rc)"
    and "fs_billing st' = fs_billing st" and "fs_kv st' = fs_kv st" and "rq_room r = fi_room inp"
    and "rq_idem r = fi_idem inp" and "fs_safety st' = fs_safety st" and "fs_rooms st' = fs_rooms st"
    and "rq_id r = rq_id (new_request fr inp room)"
proof -
  let ?i = "rq_id (new_request fr inp room)"
  have r0: "rq_status (new_request fr inp room) = Created" "rq_id (new_request fr inp room) = ?i"
    "rq_room (new_request fr inp room) = fi_room inp" "rq_idem (new_request fr inp room) = fi_idem inp"
    by (simp_all add: new_request_def)
  have steps: "feed_step Created Accepted" "feed_step Accepted Queued" "feed_step Queued Dispatched"
    by (auto intro: feed_step.intros)
  note run = assms(3) [unfolded create_commit_def Let_def transitionLocked_cases change_request_cases]
  have none: "changes ?i (fs_log st) = []" using assms(1,2) by (simp add: log_inv_def sourced_def)
  show "rq_status r = (if fe_outbox env then Dispatched else Queued)"
    "fs_requests st' = (fs_requests st)(?i \<mapsto> r)" "fs_receipts st' = (fs_receipts st)(?i \<mapsto> rc)"
    "fs_billing st' = fs_billing st" "fs_kv st' = fs_kv st" "rq_room r = fi_room inp" "rq_idem r = fi_idem inp"
    "fs_safety st' = fs_safety st" "fs_rooms st' = fs_rooms st" "rq_id r = ?i"
    using run steps r0 by (auto split: if_splits)
  have dom: "\<And>i r1. fs_requests st i = Some r1 \<Longrightarrow> i \<in> ks" using assms(1) by (auto simp: log_inv_def)
  have "sourced (fs_requests st') (fs_log st')"
    using run steps r0 none assms(1,2)
    by (auto simp: log_inv_def sourced_def changes_def split: if_splits)
  moreover have "snapshots (fs_requests st') (fs_log st')"
  proof -
    obtain es where es: "fs_log st' = fs_log st @ es" "\<forall>e \<in> set es. sc_id e = ?i \<and> snapshot_of e r"
      "fs_requests st' = (fs_requests st)(?i \<mapsto> r)" "rq_status r \<noteq> Created"
      using run steps r0 by (auto simp: snapshot_of_def split: if_splits)
    show ?thesis
      unfolding es(1,3) using assms(1,2) es(2,4) by (intro snapshots_append snapshots_new) (auto simp: log_inv_def)
  qed
  moreover have "dom (fs_requests st') \<subseteq> insert ?i ks" using run steps r0 dom by (auto split: if_splits)
  ultimately show "log_inv (insert ?i ks) st'" by (simp add: log_inv_def)
qed

lemma create_first_inv:
  assumes "log_inv ks st" and "fs_requests st (''feed_'' @ ff_feed fr) = None"
  shows "log_inv (insert (''feed_'' @ ff_feed fr) ks) (snd (create_first env fr inp st))"
proof (cases "create_room inp st")
  case (Inl e)
  then show ?thesis using assms by (auto simp: create_first_def log_inv_def)
next
  case (Inr room)
  obtain e1 st1 where cd: "create_cooldown env (ff_now fr) inp room st = (e1, st1)" by (rule prod.exhaust)
  then obtain kv sf where st1: "st1 = st\<lparr>fs_safety := sf, fs_kv := kv\<rparr>" using create_cooldown_frame by blast
  have mono: "log_inv (insert i ks) st1" for i using assms(1) st1 by (auto simp: log_inv_def)
  have inv: "log_inv ks (st1\<lparr>fs_billing := b\<rparr>)" "fs_requests (st1\<lparr>fs_billing := b\<rparr>) (rq_id (new_request fr inp room)) = None" for b
    using assms st1 by (simp_all add: new_request_def)
  show ?thesis
    using Inr cd mono create_commit_inv(1) [OF inv]
    by (simp add: create_first_def new_request_def split: option.split prod.split sum.split)
qed

lemma svc_feed_create_inv:
  assumes "log_inv ks st" and "fs_requests st (''feed_'' @ ff_feed fr) = None"
  shows "log_inv (insert (''feed_'' @ ff_feed fr) ks) (snd (svc_feed_create env order fr inp st))"
proof -
  obtain e1 st1 where fl: "create_flags env (ff_now fr) inp st = (e1, st1)" by (rule prod.exhaust)
  then obtain q where st1: "st1 = st\<lparr>fs_qps := q\<rparr>" using create_flags_frame by blast
  have mono: "log_inv (insert i ks) st1" for i using assms(1) st1 by (auto simp: log_inv_def)
  have "log_inv (insert (''feed_'' @ ff_feed fr) ks) (snd (create_first env fr inp (st1\<lparr>fs_kv := kv\<rparr>)))" for kv
    using assms st1 by (intro create_first_inv) simp_all
  then show ?thesis
    using fl mono assms(1) by (auto simp: svc_feed_create_def log_inv_def [where st = st] split: option.split prod.split sum.split bool.split list.split)
qed

lemma runAsync_inv:
  assumes "log_inv ks st"
  shows "log_inv ks (runAsync env now st)"
proof (cases "fs_async st")
  case Nil
  then show ?thesis using assms by (simp add: runAsync_def)
next
  case (Cons cmd rest)
  let ?st = "send (PubCommand cmd) (st\<lparr>fs_async := rest\<rparr>)"
  show ?thesis
  proof (cases "fs_requests st (fc_request cmd)")
    case None
    then show ?thesis using Cons assms by (simp add: runAsync_def Let_def)
  next
    case (Some r)
    then have here: "fs_requests ?st (rq_id r) = Some r" using assms by (auto simp: log_inv_def sourced_def)
    have "log_inv ks (snd (change_request now r to why ?st))" for to why
      by (rule change_request_inv [OF _ here _ prod.collapse [symmetric]]) (simp_all add: assms)
    then show ?thesis using Cons Some by (simp add: runAsync_def Let_def split: option.split)
  qed
qed

lemma settle_frame: "\<exists>b. settle env fb rc t st = st\<lparr>fs_billing := b\<rparr>"
proof -
  have "st = st\<lparr>fs_billing := fs_billing st\<rparr>" by simp
  then show ?thesis unfolding settle_def by metis
qed

text \<open>A status change made under a condition that allows it.\<close>

definition change_if :: "bool \<Rightarrow> time \<Rightarrow> request \<Rightarrow> state \<Rightarrow> string \<Rightarrow> ('k, 's, 'b) feeding \<Rightarrow> request \<times> ('k, 's, 'b) feeding" where
  "change_if b now r to why st = (if b then change_request now r to why st else (r, st))"

lemma change_if_result:
  assumes "change_if b now r to why st = (r', st')" and "fs_requests st (rq_id r) = Some r" and "b \<Longrightarrow> feed_step (rq_status r) to"
  shows "rq_id r' = rq_id r" and "fs_requests st' = (fs_requests st)(rq_id r \<mapsto> r')"
    and "rq_status r' = (if b then to else rq_status r)" and "fs_receipts st' = fs_receipts st"
    and "fs_billing st' = fs_billing st" and "fs_kv st' = fs_kv st" and "rq_room r' = rq_room r"
    and "fs_rooms st' = fs_rooms st" and "fs_safety st' = fs_safety st" and "log_inv ks st \<Longrightarrow> log_inv ks st'"
proof -
  have "(b \<longrightarrow> change_request now r to why st = (r', st')) \<and> (\<not> b \<longrightarrow> r' = r \<and> st' = st)"
    using assms(1) by (auto simp: change_if_def)
  then show "rq_id r' = rq_id r" "fs_requests st' = (fs_requests st)(rq_id r \<mapsto> r')"
    "rq_status r' = (if b then to else rq_status r)" "fs_receipts st' = fs_receipts st"
    "fs_billing st' = fs_billing st" "fs_kv st' = fs_kv st" "rq_room r' = rq_room r"
    "fs_rooms st' = fs_rooms st" "fs_safety st' = fs_safety st" "log_inv ks st \<Longrightarrow> log_inv ks st'"
    using assms(2,3) change_request_result [of now r to why st r' st'] change_request_inv [of ks st r r now to why r' st']
    by (cases b; auto)+
qed

text \<open>The part of \<open>HandleAck\<close> on the request: at most two status changes.\<close>

definition ack_changes :: "time \<Rightarrow> string \<Rightarrow> request \<Rightarrow> ('k, 's, 'b) feeding \<Rightarrow> request \<times> ('k, 's, 'b) feeding" where
  "ack_changes now status r st =
     (let (r1, st2) = change_if (rq_status r = Dispatched) now r Acknowledged ''device ack received'' st
      in change_if (rq_status r1 = Acknowledged) now r1 (if status = ''succeeded'' then Succeeded else Failed) (''ack: '' @ status) st2)"

lemma ack_changes_result:
  assumes "ack_changes now status r st = (r', st')" and "fs_requests st (rq_id r) = Some r"
  shows "rq_id r' = rq_id r" and "fs_requests st' = (fs_requests st)(rq_id r \<mapsto> r')"
    and "rq_status r' = (if rq_status r = Dispatched \<or> rq_status r = Acknowledged
           then (if status = ''succeeded'' then Succeeded else Failed) else rq_status r)"
    and "fs_receipts st' = fs_receipts st" and "fs_billing st' = fs_billing st" and "fs_kv st' = fs_kv st"
    and "rq_room r' = rq_room r" and "fs_rooms st' = fs_rooms st" and "fs_safety st' = fs_safety st"
    and "log_inv ks st \<Longrightarrow> log_inv ks st'"
proof -
  obtain r1 st1 where one: "change_if (rq_status r = Dispatched) now r Acknowledged ''device ack received'' st = (r1, st1)"
    by (rule prod.exhaust)
  have "feed_step (rq_status r) Acknowledged" if "rq_status r = Dispatched" using that by (auto intro: feed_step.intros)
  note r1 = change_if_result [OF one assms(2) this]
  have two: "change_if (rq_status r1 = Acknowledged) now r1 (if status = ''succeeded'' then Succeeded else Failed) (''ack: '' @ status) st1 = (r', st')"
    using assms(1) one by (simp add: ack_changes_def)
  have "feed_step (rq_status r1) (if status = ''succeeded'' then Succeeded else Failed)" if "rq_status r1 = Acknowledged"
    using that by (auto intro: feed_step.intros)
  note r2 = change_if_result [OF two _ this]
  have st1: "fs_requests st1 (rq_id r1) = Some r1" using r1(1,2) by simp
  show "rq_id r' = rq_id r" "fs_requests st' = (fs_requests st)(rq_id r \<mapsto> r')"
    "rq_status r' = (if rq_status r = Dispatched \<or> rq_status r = Acknowledged
           then (if status = ''succeeded'' then Succeeded else Failed) else rq_status r)"
    "fs_receipts st' = fs_receipts st" "fs_billing st' = fs_billing st" "fs_kv st' = fs_kv st" "rq_room r' = rq_room r"
    "fs_rooms st' = fs_rooms st" "fs_safety st' = fs_safety st" "log_inv ks st \<Longrightarrow> log_inv ks st'"
    using r1 r2 [OF st1] by simp_all
qed

text \<open>\<open>HandleAck\<close> of a new ack for a known request.\<close>

lemma HandleAck_known:
  assumes "idem_insert (fe_kv env) (48 * hour) (ff_now fr) ''ack'' (fa_cmd ack) (fs_kv st) = (Inr True, kv)"
    and "fs_requests st (fa_request ack) = Some r" and "ack_changes (ff_now fr) (fa_status ack) r (st\<lparr>fs_kv := kv\<rparr>) = (r', st')"
  shows "\<exists>e msgs. HandleAck env fr ack st = (e,
     (settle env (ff_bill fr) (receipt_of (rq_id r') st') (rq_status r') (st'\<lparr>fs_receipts := (fs_receipts st')(rq_id r' := None)\<rparr>))
        \<lparr>fs_sent := msgs\<rparr>)"
proof -
  let ?st = "settle env (ff_bill fr) (receipt_of (rq_id r') st') (rq_status r') (st'\<lparr>fs_receipts := (fs_receipts st')(rq_id r' := None)\<rparr>)"
  obtain r1 st1 where one: "change_if (rq_status r = Dispatched) (ff_now fr) r Acknowledged ''device ack received'' (st\<lparr>fs_kv := kv\<rparr>) = (r1, st1)"
    by (rule prod.exhaust)
  have two: "change_if (rq_status r1 = Acknowledged) (ff_now fr) r1
      (if fa_status ack = ''succeeded'' then Succeeded else Failed) (''ack: '' @ fa_status ack) st1 = (r', st')"
    using assms(3) one by (simp add: ack_changes_def)
  have "\<exists>m. HandleAck env fr ack st = (if fe_outbox env then (None, ?st) else (fe_publish env m, send m ?st))"
    using assms(1,2) one two unfolding change_if_def HandleAck_def Let_def by auto
  then obtain m where m: "HandleAck env fr ack st = (if fe_outbox env then (None, ?st) else (fe_publish env m, send m ?st))" by blast
  show ?thesis
  proof (cases "fe_outbox env")
    case True
    then show ?thesis using m by (intro exI [of _ None] exI [of _ "fs_sent ?st"]) simp
  next
    case False
    then show ?thesis using m by (intro exI [of _ "fe_publish env m"] exI [of _ "fs_sent ?st @ [m]"]) (simp add: send_def)
  qed
qed

lemma HandleAck_inv:
  assumes "log_inv ks st"
  shows "log_inv ks (snd (HandleAck env fr ack st))"
proof -
  obtain x kv where ins: "idem_insert (fe_kv env) (48 * hour) (ff_now fr) ''ack'' (fa_cmd ack) (fs_kv st) = (x, kv)"
    by (rule prod.exhaust)
  show ?thesis
  proof (cases "x = Inr True \<and> fs_requests st (fa_request ack) \<noteq> None")
    case False
    then show ?thesis using ins assms by (auto simp: HandleAck_def split: sum.split bool.split)
  next
    case True
    then obtain r where r: "fs_requests st (fa_request ack) = Some r" by blast
    obtain r' st' where ch: "ack_changes (ff_now fr) (fa_status ack) r (st\<lparr>fs_kv := kv\<rparr>) = (r', st')" by (rule prod.exhaust)
    have id: "rq_id r = fa_request ack" using assms r by (auto simp: log_inv_def sourced_def)
    have inv: "log_inv ks st'" using ack_changes_result(10) [OF ch] r id assms by simp
    obtain e msgs where ack: "HandleAck env fr ack st = (e,
        (settle env (ff_bill fr) (receipt_of (rq_id r') st') (rq_status r') (st'\<lparr>fs_receipts := (fs_receipts st')(rq_id r' := None)\<rparr>))
          \<lparr>fs_sent := msgs\<rparr>)"
      using HandleAck_known [OF _ r ch] ins True by blast
    obtain b where b: "settle env (ff_bill fr) (receipt_of (rq_id r') st') (rq_status r') (st'\<lparr>fs_receipts := (fs_receipts st')(rq_id r' := None)\<rparr>)
        = st'\<lparr>fs_receipts := (fs_receipts st')(rq_id r' := None), fs_billing := b\<rparr>"
      by (rule exE [OF settle_frame])
    show ?thesis by (rule log_inv_cong [OF _ _ inv]) (simp_all add: ack b)
  qed
qed

text \<open>A cancellation and a time-out: the rejected request is changed, its receipt taken and cancelled.\<close>

lemma change_rejected:
  assumes "log_inv ks st" and "fs_requests st i = Some r" and "change_request now (r\<lparr>rq_reject := why\<rparr>) to why st = (r', st')"
  shows "log_inv ks st'" and "rq_id r' = i" and "rq_id r = i"
proof -
  have id: "rq_id r = i" using assms(1,2) by (auto simp: log_inv_def sourced_def)
  then show "log_inv ks st'" "rq_id r' = i" "rq_id r = i"
    using change_request_inv [OF assms(1) _ _ assms(3), of r] change_request_result(1) [OF assms(3)] assms(2) by simp_all
qed

lemma svc_feed_cancel_inv:
  assumes "log_inv ks st"
  shows "log_inv ks (snd (svc_feed_cancel env fr i reason st))"
proof (cases "fs_requests st i")
  case None
  then show ?thesis using assms by (simp add: svc_feed_cancel_def)
next
  case (Some r)
  let ?why = "if reason = [] then ''cancelled'' else reason"
  obtain r1 st1 where ch: "change_request (ff_now fr) (r\<lparr>rq_reject := ?why\<rparr>) Rejected ?why st = (r1, st1)" by (rule prod.exhaust)
  show ?thesis
    using change_rejected(1) [OF assms Some ch] assms Some ch
    by (auto simp: svc_feed_cancel_def Let_def)
qed

lemma timeout_one_inv: "log_inv ks (snd hs) \<Longrightarrow> log_inv ks (snd (timeout_one env fr ttl i hs))"
proof (cases hs)
  case (Pair n st)
  assume inv: "log_inv ks (snd hs)"
  show ?thesis
  proof (cases "fs_requests st i")
    case None
    then show ?thesis using Pair inv by (simp add: timeout_one_def)
  next
    case (Some r)
    obtain r1 st1 where ch: "change_request (ff_now fr) (r\<lparr>rq_reject := ''timeout''\<rparr>) Failed ''timeout'' st = (r1, st1)"
      by (rule prod.exhaust)
    show ?thesis
      using change_rejected(1) [OF _ Some ch] inv Pair Some ch by (simp add: timeout_one_def Let_def)
  qed
qed

lemma TimeoutScanRun_inv:
  assumes "log_inv ks st"
  shows "log_inv ks (snd (TimeoutScanRun env order fr ttl st))"
proof -
  have "log_inv ks (snd hs) \<Longrightarrow> log_inv ks (snd (fold (timeout_one env fr ttl) order hs))" for hs
    by (induction order arbitrary: hs) (simp_all add: timeout_one_inv)
  then show ?thesis using assms by (simp add: TimeoutScanRun_def)
qed

section \<open>The run\<close>

lemma feed_call_step_inv:
  assumes "log_inv ks st" and "set (feed_ids [c]) \<inter> ks = {}"
  shows "log_inv (ks \<union> set (feed_ids [c])) (feed_call_step env c st)"
proof (cases c)
  case (FCreate order fr inp)
  then show ?thesis
    using assms svc_feed_create_inv [OF assms(1), of fr env order inp] by (auto simp: log_inv_def)
next
  case (FAsync now)
  then show ?thesis using runAsync_inv [OF assms(1)] by simp
next
  case (FAck fr ack)
  then show ?thesis using HandleAck_inv [OF assms(1)] by simp
next
  case (FCancel fr i reason)
  then show ?thesis using svc_feed_cancel_inv [OF assms(1)] by simp
next
  case (FTimeout order fr ttl)
  then show ?thesis using TimeoutScanRun_inv [OF assms(1)] by simp
next
  case (FRegister r)
  then show ?thesis using assms by (simp add: RegisterRoom_def)
qed

lemma feed_ids_Cons: "feed_ids (c # cs) = feed_ids [c] @ feed_ids cs"
  by (cases c) simp_all

lemma feed_run_inv:
  "log_inv ks st \<Longrightarrow> set (feed_ids cs) \<inter> ks = {} \<Longrightarrow> distinct (feed_ids cs) \<Longrightarrow> log_inv (ks \<union> set (feed_ids cs)) (feed_run env cs st)"
proof (induction cs arbitrary: ks st)
  case Nil
  then show ?case by (simp add: feed_run_def)
next
  case (Cons c cs)
  note ids = feed_ids_Cons [of c cs]
  have "log_inv (ks \<union> set (feed_ids [c])) (feed_call_step env c st)"
    using Cons.prems ids by (intro feed_call_step_inv) auto
  from Cons.IH [OF this] show ?case
    using Cons.prems(2,3) ids by (auto simp: feed_run_def Un_assoc)
qed

lemma feeding_new_inv: "log_inv {} (feeding_new kv sf b)"
  by (simp add: log_inv_def sourced_def feeding_new_def changes_def snapshots_def)

text \<open>C4: over any sequence of creations, publications, acks, cancellations, time-out scans and room
  registrations - whatever the flags, the stores, the publisher and the billing hook answer - the log of
  status changes of each request replays from \<open>Created\<close> along edges of the state diagram to the status the
  service holds, and only requests it holds have changes.\<close>

theorem feeding_is_event_sourced:
  assumes "distinct (feed_ids cs)"
  shows "sourced (fs_requests (feed_run env cs (feeding_new kv sf b))) (fs_log (feed_run env cs (feeding_new kv sf b)))"
proof -
  have "log_inv ({} \<union> set (feed_ids cs)) (feed_run env cs (feeding_new kv sf b))"
    by (rule feed_run_inv [OF feeding_new_inv _ assms]) simp
  then show ?thesis by (simp add: log_inv_def)
qed

end
