(* ===== verification/FeedingSaga.thy ===== *)
theory FeedingSaga
  imports FeedingLog
begin

text \<open>
  The billing saga of the feeding service in outbox mode, as the service runs behind \<open>main.go\<close> with a
  database: an abstract transition system of reservations (\<open>saga_step\<close>), the proof that every call of the
  service is a sequence of its steps, and the accounting that follows for the calls made on the
  billing hook, whatever hook it is: \<open>recorded\<close> wraps it to keep the list of its calls.
\<close>

section \<open>The calls on the hook\<close>

datatype bill_call = BReserved string | BConfirmed string | BCancelled string

definition recorded :: "'b billing_hook \<Rightarrow> ('b \<times> bill_call list) billing_hook" where
  "recorded h =
     \<lparr>bh_reserve = (\<lambda>fr inp (b, l). case bh_reserve h fr inp b of
          (Inl e, b') \<Rightarrow> (Inl e, (b', l))
        | (Inr rc, b') \<Rightarrow> (Inr rc, (b', l @ [BReserved rc]))),
      bh_confirm = (\<lambda>fr rc (b, l). case bh_confirm h fr rc b of (x, b') \<Rightarrow> (x, (b', l @ [BConfirmed rc]))),
      bh_cancel = (\<lambda>fr rc (b, l). case bh_cancel h fr rc b of (x, b') \<Rightarrow> (x, (b', l @ [BCancelled rc])))\<rparr>"

lemma recorded_confirm [simp]: "snd (snd (bh_confirm (recorded h) fr rc bl)) = snd bl @ [BConfirmed rc]"
  by (simp add: recorded_def split: prod.split)

lemma recorded_cancel [simp]: "snd (snd (bh_cancel (recorded h) fr rc bl)) = snd bl @ [BCancelled rc]"
  by (simp add: recorded_def split: prod.split)

lemma recorded_reserve:
  "bh_reserve (recorded h) fr inp bl = (x, bl') \<Longrightarrow>
     snd bl' = snd bl @ (case x of Inl e \<Rightarrow> [] | Inr rc \<Rightarrow> [BReserved rc]) \<and> bh_reserve h fr inp (fst bl) = (x, fst bl')"
  by (cases bl) (auto simp: recorded_def split: prod.splits sum.splits)

fun reserves :: "bill_call list \<Rightarrow> string list" where
  "reserves [] = []"
| "reserves (BReserved rc # l) = rc # reserves l"
| "reserves (_ # l) = reserves l"

fun confirms :: "bill_call list \<Rightarrow> string list" where
  "confirms [] = []"
| "confirms (BConfirmed rc # l) = rc # confirms l"
| "confirms (_ # l) = confirms l"

fun cancels :: "bill_call list \<Rightarrow> string list" where
  "cancels [] = []"
| "cancels (BCancelled rc # l) = rc # cancels l"
| "cancels (_ # l) = cancels l"

lemma reserves_append [simp]: "reserves (l @ l') = reserves l @ reserves l'"
  by (induction l rule: reserves.induct) simp_all

lemma confirms_append [simp]: "confirms (l @ l') = confirms l @ confirms l'"
  by (induction l rule: confirms.induct) simp_all

lemma cancels_append [simp]: "cancels (l @ l') = cancels l @ cancels l'"
  by (induction l rule: cancels.induct) simp_all

section \<open>The abstract saga\<close>

type_synonym saga = "(string \<rightharpoonup> state) \<times> (string \<rightharpoonup> string) \<times> bill_call list"

inductive saga_step :: "saga \<Rightarrow> saga \<Rightarrow> bool" where
  saga_reserve: "S i = None \<Longrightarrow> rc \<noteq> [] \<Longrightarrow>
     saga_step (S, R, l) (S(i \<mapsto> Dispatched), R(i \<mapsto> rc), l @ [BReserved rc])"
| saga_confirm: "S i = Some Dispatched \<Longrightarrow> R i = Some rc \<Longrightarrow>
     saga_step (S, R, l) (S(i \<mapsto> Succeeded), R(i := None), l @ [BConfirmed rc])"
| saga_cancel: "S i = Some Dispatched \<Longrightarrow> R i = Some rc \<Longrightarrow> t \<in> {Failed, Rejected} \<Longrightarrow>
     saga_step (S, R, l) (S(i \<mapsto> t), R(i := None), l @ [BCancelled rc])"

text \<open>The shape of reachable sagas: a receipt is held exactly while its request is dispatched.\<close>

definition saga_shape :: "saga \<Rightarrow> bool" where
  "saga_shape x = (case x of (S, R, l) \<Rightarrow>
     finite (dom S) \<and> ran S \<subseteq> {Dispatched, Succeeded, Failed, Rejected} \<and>
     dom R = {i. S i = Some Dispatched} \<and> [] \<notin> ran R)"

lemma saga_shape_receipt: "saga_shape (S, R, l) \<Longrightarrow> S i \<noteq> Some Dispatched \<Longrightarrow> R i = None"
  unfolding saga_shape_def by (metis (mono_tags, lifting) case_prod_conv domIff mem_Collect_eq)

lemma saga_step_shape:
  assumes "saga_step x y" and "saga_shape x"
  shows "saga_shape y"
  using assms
proof (cases rule: saga_step.cases)
  case (saga_reserve S i rc R l)
  then have "R i = None" using assms(2) saga_shape_receipt [of S R l i] by simp
  then show ?thesis using assms(2) saga_reserve by (auto simp: saga_shape_def ran_def)
next
  case (saga_confirm S i R rc l)
  then show ?thesis using assms(2) by (auto simp: saga_shape_def ran_def)
next
  case (saga_cancel S i R rc t l)
  then show ?thesis using assms(2) by (auto simp: saga_shape_def ran_def)
qed

text \<open>The accounts: every reservation is open or closed once, on the side its request ended on.\<close>

definition in_status :: "(string \<rightharpoonup> state) \<Rightarrow> state set \<Rightarrow> string set" where
  "in_status S ts = {i. \<exists>t \<in> ts. S i = Some t}"

definition saga_balanced :: "saga \<Rightarrow> bool" where
  "saga_balanced x = (case x of (S, R, l) \<Rightarrow>
     inj_on R (dom R) \<and>
     distinct (confirms l @ cancels l) \<and>
     ran R \<inter> (set (confirms l) \<union> set (cancels l)) = {} \<and>
     ran R \<union> set (confirms l) \<union> set (cancels l) = set (reserves l) \<and>
     length (confirms l) = card (in_status S {Succeeded}) \<and>
     length (cancels l) = card (in_status S {Failed, Rejected}))"

lemma in_status_finite: "finite (dom S) \<Longrightarrow> finite (in_status S ts)"
  by (rule finite_subset [of _ "dom S"]) (auto simp: in_status_def)

lemma in_status_upd:
  "in_status (S(i \<mapsto> t)) ts = (if t \<in> ts then insert i (in_status S ts) else in_status S ts - {i})"
  by (auto simp: in_status_def)

lemma ran_remove:
  fixes R :: "'a \<rightharpoonup> 'c"
  assumes "inj_on R (dom R)" and "R i = Some rc"
  shows "ran (R(i := None)) = ran R - {rc}"
proof -
  have uniq: "a = i" if "R a = Some rc" for a using assms that by (auto simp: inj_on_def dom_def)
  have one: "a \<noteq> i \<and> R a = Some x" if "(R(i := None)) a = Some x" for a x using that by (cases "a = i") simp_all
  show ?thesis
  proof (rule set_eqI, rule iffI)
    fix x assume "x \<in> ran (R(i := None))"
    then obtain a where "(R(i := None)) a = Some x" unfolding ran_def by blast
    then show "x \<in> ran R - {rc}" using one uniq ranI by fast
  next
    fix x assume "x \<in> ran R - {rc}"
    then obtain a where "R a = Some x" "x \<noteq> rc" unfolding ran_def by blast
    then have "(R(i := None)) a = Some x" using assms(2) by auto
    then show "x \<in> ran (R(i := None))" by (rule ranI)
  qed
qed

lemma saga_step_balanced:
  assumes "saga_step x y" and "saga_shape x" and "saga_balanced x" and "distinct (reserves (snd (snd y)))"
  shows "saga_balanced y"
  using assms(1)
proof (cases rule: saga_step.cases)
  case (saga_reserve S i rc R l)
  have new: "rc \<notin> set (reserves l)" using assms(4) saga_reserve by simp
  have R: "R i = None" using assms(2) saga_reserve saga_shape_receipt [of S R l i] by simp
  have rc: "rc \<notin> ran R" "rc \<notin> set (confirms l)" "rc \<notin> set (cancels l)"
    using new assms(3) saga_reserve by (auto simp: saga_balanced_def)
  have st: "in_status (S(i \<mapsto> Dispatched)) {Succeeded} = in_status S {Succeeded}"
    "in_status (S(i \<mapsto> Dispatched)) {Failed, Rejected} = in_status S {Failed, Rejected}"
    using saga_reserve(3) by (auto simp: in_status_def)
  have "inj_on (R(i \<mapsto> rc)) (dom (R(i \<mapsto> rc)))"
    using R rc(1) assms(3) saga_reserve(1) by (auto simp: saga_balanced_def inj_on_def ran_def dom_def)
  then show ?thesis
    using assms(3) saga_reserve R rc st by (auto simp: saga_balanced_def ran_map_upd)
next
  case (saga_confirm S i R rc l)
  have fin: "finite (in_status S ts)" for ts using assms(2) saga_confirm by (auto simp: saga_shape_def in_status_finite)
  have st: "in_status (S(i \<mapsto> Succeeded)) {Failed, Rejected} = in_status S {Failed, Rejected}" "i \<notin> in_status S {Succeeded}"
    using saga_confirm(3) by (auto simp: in_status_def)
  have inj: "inj_on R (dom R)" and rc: "rc \<in> ran R" using assms(3) saga_confirm by (auto simp: saga_balanced_def ranI)
  have ran: "ran (R(i := None)) = ran R - {rc}" using ran_remove [of R i rc] inj saga_confirm(4) by simp
  have "inj_on (R(i := None)) (dom (R(i := None)))" using inj by (auto simp: inj_on_def)
  then show ?thesis
    using assms(3) saga_confirm(1,2) rc ran st fin by (auto simp: saga_balanced_def in_status_upd)
next
  case (saga_cancel S i R rc t l)
  have fin: "finite (in_status S ts)" for ts using assms(2) saga_cancel by (auto simp: saga_shape_def in_status_finite)
  have st: "in_status (S(i \<mapsto> t)) {Succeeded} = in_status S {Succeeded}" "i \<notin> in_status S {Failed, Rejected}"
    using saga_cancel(3,5) by (auto simp: in_status_def)
  have inj: "inj_on R (dom R)" and rc: "rc \<in> ran R" using assms(3) saga_cancel by (auto simp: saga_balanced_def ranI)
  have ran: "ran (R(i := None)) = ran R - {rc}" using ran_remove [of R i rc] inj saga_cancel(4) by simp
  have "inj_on (R(i := None)) (dom (R(i := None)))" using inj by (auto simp: inj_on_def)
  then show ?thesis
    using assms(3) saga_cancel(1,2,5) rc ran st fin by (auto simp: saga_balanced_def in_status_upd)
qed

lemma saga_step_extends: "saga_step x y \<Longrightarrow> \<exists>l'. snd (snd y) = snd (snd x) @ l'"
  by (auto elim: saga_step.cases)

lemma saga_steps_invariant:
  assumes "saga_step\<^sup>*\<^sup>* x y" and "saga_shape x" and "saga_balanced x"
  shows "saga_shape y \<and> (distinct (reserves (snd (snd y))) \<longrightarrow> saga_balanced y)"
  using assms
proof (induction rule: rtranclp_induct)
  case base
  then show ?case by simp
next
  case (step y z)
  then obtain l' where "snd (snd z) = snd (snd y) @ l'" using saga_step_extends by blast
  then show ?case using step saga_step_shape [of y z] saga_step_balanced [of y z] by auto
qed

lemma saga_steps_shape: "saga_step\<^sup>*\<^sup>* x y \<Longrightarrow> saga_shape x \<Longrightarrow> saga_shape y"
  by (induction rule: rtranclp_induct) (auto intro: saga_step_shape)

section \<open>Every call is a sequence of steps\<close>

definition saga_of :: "('k, 's, 'b \<times> bill_call list) feeding \<Rightarrow> saga" where
  "saga_of st = (map_option rq_status \<circ> fs_requests st, fs_receipts st, snd (fs_billing st))"

lemma saga_of_update [simp]:
  "saga_of (st\<lparr>fs_rooms := a\<rparr>) = saga_of st" "saga_of (st\<lparr>fs_qps := c\<rparr>) = saga_of st"
  "saga_of (st\<lparr>fs_async := d\<rparr>) = saga_of st" "saga_of (st\<lparr>fs_kv := e\<rparr>) = saga_of st"
  "saga_of (st\<lparr>fs_safety := f\<rparr>) = saga_of st" "saga_of (st\<lparr>fs_sent := g\<rparr>) = saga_of st" "saga_of (send p st) = saga_of st"
  by (simp_all add: saga_of_def send_def)

definition sound_env :: "'b billing_hook \<Rightarrow> ('k, 's, 'b \<times> bill_call list) feeding_env \<Rightarrow> bool" where
  "sound_env h env \<longleftrightarrow> fe_outbox env \<and> fe_billing env = recorded h"

definition names_receipts :: "'b billing_hook \<Rightarrow> bool" where
  "names_receipts h \<longleftrightarrow> (\<forall>fr inp b. fst (bh_reserve h fr inp b) \<noteq> Inr [])"

lemma saga_refl: "x = y \<Longrightarrow> saga_step\<^sup>*\<^sup>* x y"
  by simp

lemma create_first_saga:
  assumes "sound_env h env" and "names_receipts h" and "fs_requests st (''feed_'' @ ff_feed fr) = None" and "log_inv ks st"
  shows "saga_step\<^sup>*\<^sup>* (saga_of st) (saga_of (snd (create_first env fr inp st)))"
proof (cases "create_room inp st")
  case (Inl e)
  then show ?thesis by (simp add: create_first_def)
next
  case (Inr room)
  obtain e1 st1 where cd: "create_cooldown env (ff_now fr) inp room st = (e1, st1)" by (rule prod.exhaust)
  then obtain kv sf where st1: "st1 = st\<lparr>fs_safety := sf, fs_kv := kv\<rparr>" using create_cooldown_frame by blast
  then have same: "saga_of st1 = saga_of st" by simp
  let ?inp = "\<lparr>bi_user = fi_user inp, bi_room = fi_room inp, bi_cat = rm_cat room, bi_amount = fi_amount inp, bi_idem = fi_idem inp\<rparr>"
  obtain x b where rv: "bh_reserve (recorded h) (ff_bill fr) ?inp (fs_billing st1) = (x, b)" by (rule prod.exhaust)
  note rec = recorded_reserve [OF rv]
  have hook: "bh_reserve (fe_billing env) (ff_bill fr) ?inp (fs_billing st1) = (x, b)" using rv assms(1) by (simp add: sound_env_def)
  show ?thesis
  proof (cases e1)
    case (Some e)
    then show ?thesis using Inr cd same by (simp add: create_first_def)
  next
    case None
    show ?thesis
    proof (cases x)
      case (Inl e)
      then show ?thesis using Inr cd None hook rec same
        by (intro saga_refl) (simp add: create_first_def, simp add: saga_of_def)
    next
      case (Inr rc)
      obtain r st2 where cm: "create_commit env fr inp room rc (st1\<lparr>fs_billing := b\<rparr>) = (r, st2)" by (rule prod.exhaust)
      have pre: "log_inv ks (st1\<lparr>fs_billing := b\<rparr>)" "fs_requests (st1\<lparr>fs_billing := b\<rparr>) (rq_id (new_request fr inp room)) = None"
        using assms(3,4) st1 by (simp_all add: new_request_def)
      note cr = create_commit_inv [OF pre cm]
      have "rc \<noteq> []" using rec Inr assms(2) unfolding names_receipts_def by (metis fst_conv)
      then have "saga_step (saga_of st) (saga_of st2)"
        using cr(2-5) assms(1,3) rec Inr st1
        by (simp add: saga_of_def sound_env_def new_request_def saga_reserve)
      then show ?thesis using \<open>create_room inp st = Inr room\<close> cd None hook Inr cm
        by (simp add: create_first_def r_into_rtranclp)
    qed
  qed
qed

lemma svc_feed_create_saga:
  assumes "sound_env h env" and "names_receipts h" and "fs_requests st (''feed_'' @ ff_feed fr) = None" and "log_inv ks st"
  shows "saga_step\<^sup>*\<^sup>* (saga_of st) (saga_of (snd (svc_feed_create env order fr inp st)))"
proof -
  obtain e1 st1 where fl: "create_flags env (ff_now fr) inp st = (e1, st1)" by (rule prod.exhaust)
  then obtain q where st1: "st1 = st\<lparr>fs_qps := q\<rparr>" using create_flags_frame by blast
  have "saga_step\<^sup>*\<^sup>* (saga_of (st1\<lparr>fs_kv := kv\<rparr>)) (saga_of (snd (create_first env fr inp (st1\<lparr>fs_kv := kv\<rparr>))))" for kv
    by (rule create_first_saga [OF assms(1,2), where ks = ks]) (use assms st1 in simp_all)
  then show ?thesis
    using fl st1 by (simp add: svc_feed_create_def split: option.split prod.split sum.split bool.split list.split)
qed

text \<open>The statuses a request can have, from the shape.\<close>

lemma shape_status:
  assumes "saga_shape (saga_of st)" and "fs_requests st i = Some r"
  shows "rq_status r \<in> {Dispatched, Succeeded, Failed, Rejected}"
    and "rq_status r = Dispatched \<Longrightarrow> \<exists>rc. fs_receipts st i = Some rc \<and> rc \<noteq> []"
    and "rq_status r \<noteq> Dispatched \<Longrightarrow> fs_receipts st i = None"
proof -
  have "rq_status r \<in> ran (map_option rq_status \<circ> fs_requests st)" using assms(2) by (auto simp: ran_def)
  then show "rq_status r \<in> {Dispatched, Succeeded, Failed, Rejected}" using assms(1) by (auto simp: saga_shape_def saga_of_def)
  show "rq_status r \<noteq> Dispatched \<Longrightarrow> fs_receipts st i = None"
    using saga_shape_receipt assms by (simp add: saga_of_def)
  assume "rq_status r = Dispatched"
  then have "i \<in> dom (fs_receipts st)" using assms by (simp add: saga_shape_def saga_of_def)
  then obtain rc where "fs_receipts st i = Some rc" by blast
  moreover have "rc \<noteq> []" using calculation assms(1) by (auto simp: saga_shape_def saga_of_def ran_def)
  ultimately show "\<exists>rc. fs_receipts st i = Some rc \<and> rc \<noteq> []" by blast
qed

lemma HandleAck_saga:
  assumes "sound_env h env" and "log_inv ks st" and "saga_shape (saga_of st)"
  shows "saga_step\<^sup>*\<^sup>* (saga_of st) (saga_of (snd (HandleAck env fr ack st)))"
proof -
  obtain x kv where ins: "idem_insert (fe_kv env) (48 * hour) (ff_now fr) ''ack'' (fa_cmd ack) (fs_kv st) = (x, kv)"
    by (rule prod.exhaust)
  show ?thesis
  proof (cases "x = Inr True \<and> fs_requests st (fa_request ack) \<noteq> None")
    case False
    then show ?thesis using ins by (auto simp: HandleAck_def split: sum.split bool.split)
  next
    case True
    let ?i = "fa_request ack"
    obtain r where r: "fs_requests st ?i = Some r" using True by blast
    obtain r' st' where ch: "ack_changes (ff_now fr) (fa_status ack) r (st\<lparr>fs_kv := kv\<rparr>) = (r', st')" by (rule prod.exhaust)
    have id: "rq_id r = ?i" using assms(2) r by (auto simp: log_inv_def sourced_def)
    have here: "fs_requests (st\<lparr>fs_kv := kv\<rparr>) (rq_id r) = Some r" using r id by simp
    note ac = ack_changes_result [OF ch here]
    obtain e msgs where ack: "HandleAck env fr ack st = (e,
        (settle env (ff_bill fr) (receipt_of (rq_id r') st') (rq_status r') (st'\<lparr>fs_receipts := (fs_receipts st')(rq_id r' := None)\<rparr>))
          \<lparr>fs_sent := msgs\<rparr>)"
      using HandleAck_known [OF _ r ch] ins True by blast
    show ?thesis
    proof (cases "rq_status r = Dispatched")
      case False
      then have none: "fs_receipts st ?i = None" "rq_status r \<noteq> Acknowledged"
        using shape_status [OF assms(3) r] by auto
      have "(map_option rq_status \<circ> fs_requests st)(?i \<mapsto> rq_status r) = map_option rq_status \<circ> fs_requests st"
        using r by auto
      moreover have "(fs_receipts st)(?i := None) = fs_receipts st" using none by auto
      ultimately show ?thesis
        using ac(1-5) False none id ack by (intro saga_refl) (simp add: receipt_of_def settle_def saga_of_def)
    next
      case True
      then obtain rc where rc: "fs_receipts st ?i = Some rc" "rc \<noteq> []" using shape_status(2) [OF assms(3) r] by blast
      have "saga_step (saga_of st) (saga_of (snd (HandleAck env fr ack st)))"
        using ac(1-5) True rc id ack r assms(1)
        by (auto simp: receipt_of_def settle_def saga_of_def sound_env_def intro: saga_confirm saga_cancel)
      then show ?thesis by (rule r_into_rtranclp)
    qed
  qed
qed

text \<open>Taking a dispatched request to \<open>Rejected\<close> or \<open>Failed\<close> and cancelling its receipt.\<close>

lemma cancel_saga:
  assumes "sound_env h env" and "log_inv ks st" and "saga_shape (saga_of st)" and "fs_requests st i = Some r"
    and "rq_status r = Dispatched" and "t \<in> {Failed, Rejected}"
    and "change_request now (r\<lparr>rq_reject := why\<rparr>) t why st = (r1, st1)"
  shows "receipt_of (rq_id r1) st1 \<noteq> []"
    and "saga_step (saga_of st) (saga_of (st1\<lparr>fs_receipts := (fs_receipts st1)(rq_id r1 := None),
           fs_billing := snd (bh_cancel (fe_billing env) fb (receipt_of (rq_id r1) st1) (fs_billing st1))\<rparr>))"
proof -
  obtain rc where rc: "fs_receipts st i = Some rc" "rc \<noteq> []" using shape_status(2) [OF assms(3,4,5)] by blast
  have "feed_step Dispatched t" using assms(6) by (auto intro: feed_step.intros)
  note ch = change_request_result [OF assms(7)] change_rejected [OF assms(2,4,7)] this
  show "receipt_of (rq_id r1) st1 \<noteq> []"
    using ch rc by (simp add: receipt_of_def)
  show "saga_step (saga_of st) (saga_of (st1\<lparr>fs_receipts := (fs_receipts st1)(rq_id r1 := None),
           fs_billing := snd (bh_cancel (fe_billing env) fb (receipt_of (rq_id r1) st1) (fs_billing st1))\<rparr>))"
    using ch rc assms(1,4,5,6) by (auto simp: receipt_of_def saga_of_def sound_env_def intro: saga_cancel)
qed

lemma svc_feed_cancel_saga:
  assumes "sound_env h env" and "log_inv ks st" and "saga_shape (saga_of st)"
  shows "saga_step\<^sup>*\<^sup>* (saga_of st) (saga_of (snd (svc_feed_cancel env fr i reason st)))"
proof (cases "\<exists>r. fs_requests st i = Some r \<and> rq_status r \<in> {Queued, Dispatched} \<and> i \<noteq> []")
  case False
  then show ?thesis by (intro saga_refl) (auto simp: svc_feed_cancel_def split: option.split)
next
  case True
  then obtain r where r: "fs_requests st i = Some r" "rq_status r = Dispatched" "i \<noteq> []"
    using shape_status(1) [OF assms(3)] by fastforce
  let ?why = "if reason = [] then ''cancelled'' else reason"
  obtain r1 st1 where ch: "change_request (ff_now fr) (r\<lparr>rq_reject := ?why\<rparr>) Rejected ?why st = (r1, st1)" by (rule prod.exhaust)
  note cs = cancel_saga(1) [OF assms r(1,2) _ ch] cancel_saga(2) [OF assms r(1,2) _ ch, where fb = "ff_bill fr"]
  show ?thesis
    using r ch cs assms(1) by (intro r_into_rtranclp) (simp add: svc_feed_cancel_def sound_env_def Let_def)
qed

lemma timeout_one_saga:
  assumes "sound_env h env" and "log_inv ks st" and "saga_shape (saga_of st)"
  shows "saga_step\<^sup>*\<^sup>* (saga_of st) (saga_of (snd (timeout_one env fr ttl i (n, st))))"
proof (cases "\<exists>r. fs_requests st i = Some r \<and> rq_status r \<in> {Queued, Dispatched} \<and> ttl \<le> ff_now fr - rq_updated r")
  case False
  then show ?thesis by (intro saga_refl) (auto simp: timeout_one_def split: option.split)
next
  case True
  then obtain r where r: "fs_requests st i = Some r" "rq_status r = Dispatched" "ttl \<le> ff_now fr - rq_updated r"
    using shape_status(1) [OF assms(3)] by fastforce
  obtain r1 st1 where ch: "change_request (ff_now fr) (r\<lparr>rq_reject := ''timeout''\<rparr>) Failed ''timeout'' st = (r1, st1)"
    by (rule prod.exhaust)
  note cs = cancel_saga(1) [OF assms r(1,2) _ ch] cancel_saga(2) [OF assms r(1,2) _ ch, where fb = "ff_bill fr"]
  show ?thesis
    using r ch cs by (intro r_into_rtranclp) (simp add: timeout_one_def Let_def)
qed

lemma TimeoutScanRun_saga:
  assumes "sound_env h env" and "log_inv ks st" and "saga_shape (saga_of st)"
  shows "saga_step\<^sup>*\<^sup>* (saga_of st) (saga_of (snd (TimeoutScanRun env order fr ttl st)))"
proof -
  have "log_inv ks (snd hs) \<Longrightarrow> saga_shape (saga_of (snd hs)) \<Longrightarrow>
      saga_step\<^sup>*\<^sup>* (saga_of (snd hs)) (saga_of (snd (fold (timeout_one env fr ttl) order hs)))" for hs
  proof (induction order arbitrary: hs)
    case Nil
    then show ?case by simp
  next
    case (Cons i order)
    let ?hs = "timeout_one env fr ttl i hs"
    have one: "saga_step\<^sup>*\<^sup>* (saga_of (snd hs)) (saga_of (snd ?hs))"
      using timeout_one_saga [OF assms(1) Cons.prems] by (cases hs) simp
    then have "saga_shape (saga_of (snd ?hs))" by (rule saga_steps_shape [OF _ Cons.prems(2)])
    from Cons.IH [OF timeout_one_inv [OF Cons.prems(1)] this] one show ?case by simp
  qed
  from this [of "(0, st)"] show ?thesis using assms by (simp add: TimeoutScanRun_def)
qed

section \<open>The accounts of a run\<close>

definition in_outbox :: "feed_call \<Rightarrow> bool" where
  "in_outbox c \<longleftrightarrow> (\<forall>now. c \<noteq> FAsync now)"

lemma feed_call_saga:
  assumes "sound_env h env" and "names_receipts h" and "log_inv ks st" and "saga_shape (saga_of st)"
    and "set (feed_ids [c]) \<inter> ks = {}" and "in_outbox c"
  shows "saga_step\<^sup>*\<^sup>* (saga_of st) (saga_of (feed_call_step env c st))"
proof (cases c)
  case (FCreate order fr inp)
  then have "fs_requests st (''feed_'' @ ff_feed fr) = None" using assms(3,5) by (auto simp: log_inv_def)
  from svc_feed_create_saga [OF assms(1,2) this assms(3)] show ?thesis using FCreate by simp
next
  case (FAsync now)
  then show ?thesis using assms(6) by (simp add: in_outbox_def)
next
  case (FAck fr ack)
  then show ?thesis using HandleAck_saga [OF assms(1,3,4)] by simp
next
  case (FCancel fr i reason)
  then show ?thesis using svc_feed_cancel_saga [OF assms(1,3,4)] by simp
next
  case (FTimeout order fr ttl)
  then show ?thesis using TimeoutScanRun_saga [OF assms(1,3,4)] by simp
next
  case (FRegister r)
  then show ?thesis by (simp add: RegisterRoom_def)
qed

lemma feed_run_saga:
  assumes "sound_env h env" and "names_receipts h"
  shows "log_inv ks st \<Longrightarrow> saga_shape (saga_of st) \<Longrightarrow> set (feed_ids cs) \<inter> ks = {} \<Longrightarrow> distinct (feed_ids cs) \<Longrightarrow>
    \<forall>c \<in> set cs. in_outbox c \<Longrightarrow> saga_step\<^sup>*\<^sup>* (saga_of st) (saga_of (feed_run env cs st))"
proof (induction cs arbitrary: ks st)
  case Nil
  then show ?case by (simp add: feed_run_def)
next
  case (Cons c cs)
  note ids = feed_ids_Cons [of c cs]
  let ?st = "feed_call_step env c st"
  have fresh: "set (feed_ids [c]) \<inter> ks = {}" using Cons.prems(3) ids by auto
  have one: "saga_step\<^sup>*\<^sup>* (saga_of st) (saga_of ?st)"
    using feed_call_saga [OF assms Cons.prems(1,2) fresh] Cons.prems(5) by simp
  have "saga_step\<^sup>*\<^sup>* (saga_of ?st) (saga_of (feed_run env cs ?st))"
    by (rule Cons.IH [OF feed_call_step_inv [OF Cons.prems(1) fresh] saga_steps_shape [OF one Cons.prems(2)]])
       (use Cons.prems ids in auto)
  with one show ?case by (simp add: feed_run_def)
qed

text \<open>C1: the billing saga is balanced.  In outbox mode, over any run of the service and on any billing hook
  that names its reservations, each by a name of its own: every reservation the hook granted is held by
  exactly one dispatched request, or was closed exactly once; the confirmations are as many as the
  succeeded requests, the cancellations as many as the failed and rejected ones; nothing else is closed.\<close>

theorem feeding_saga_balanced:
  assumes "fe_outbox env" and "fe_billing env = recorded h" and "\<forall>fr inp b. fst (bh_reserve h fr inp b) \<noteq> Inr []"
    and "distinct (feed_ids cs)" and "\<forall>c \<in> set cs. in_outbox c"
    and "st = feed_run env cs (feeding_new kv sf (b, []))"
    and "distinct (reserves (snd (fs_billing st)))"
  shows "saga_balanced (saga_of st) \<and>
    (\<forall>i. fs_receipts st i \<noteq> None \<longleftrightarrow> (\<exists>r. fs_requests st i = Some r \<and> rq_status r = Dispatched))"
proof -
  let ?st0 = "feeding_new kv sf (b, [])"
  have start: "saga_shape (saga_of ?st0)" "saga_balanced (saga_of ?st0)"
    by (simp_all add: saga_of_def feeding_new_def saga_shape_def saga_balanced_def in_status_def)
  have "saga_step\<^sup>*\<^sup>* (saga_of ?st0) (saga_of st)"
    unfolding assms(6) using assms(1-5)
    by (intro feed_run_saga [OF _ _ feeding_new_inv start(1)]) (simp_all add: sound_env_def names_receipts_def)
  from saga_steps_invariant [OF this start]
  have final: "saga_shape (saga_of st)" "saga_balanced (saga_of st)" using assms(7) by (simp_all add: saga_of_def)
  have "dom (fs_receipts st) = {i. (map_option rq_status \<circ> fs_requests st) i = Some Dispatched}"
    using final(1) by (simp add: saga_shape_def saga_of_def)
  then have "fs_receipts st i \<noteq> None \<longleftrightarrow> (\<exists>r. fs_requests st i = Some r \<and> rq_status r = Dispatched)" for i
    by (metis (mono_tags, lifting) domIff mem_Collect_eq comp_apply map_option_eq_Some)
  with final(2) show ?thesis by blast
qed

end
