(* ===== verification/FeedingCooldown.thy ===== *)
theory FeedingCooldown
  imports FeedingLog
begin

text \<open>
  The cooldown across the calls of the feeding service: what a creation does to the key-value store, and
  that a fed room is left alone for the whole of its cooldown whatever calls follow.  Everything rests on
  the contract of the store (locale \<open>kv_store\<close>), and on \<open>MemoryStore\<close> through its interpretation.
\<close>

section \<open>Keys\<close>

lemma room_key_eqs [simp]:
  "room_key r = room_key r' \<longleftrightarrow> r = r'" "room_key r \<noteq> idem_key ''feed'' k" "room_key r \<noteq> idem_key ''ack'' k"
  "room_key r \<noteq> user_key u r'" "room_key r \<noteq> cat_key c t"
  by (simp_all add: room_key_def idem_key_def user_key_def cat_key_def K_def)

section \<open>Limits\<close>

lemma Resolve_room_pos:
  assumes "fst (Resolve store lims now room s) = Inr lim"
  shows "0 < lm_room lim"
proof -
  have "0 < lm_room (merge DefaultGlobal l)" for l by (simp add: merge_def DefaultGlobal_def second_def)
  moreover have "0 < lm_room l \<Longrightarrow> 0 < lm_room (apply_override l o')" for l o'
    by (simp add: apply_override_def merge_def split: option.split)
  ultimately show ?thesis
    using assms by (auto simp: Resolve_def Let_def split: option.splits prod.splits sum.splits if_splits)
qed

section \<open>Requests of a room\<close>

definition requests_of :: "string \<Rightarrow> ('k, 's, 'b) feeding \<Rightarrow> string set" where
  "requests_of room st = {i. \<exists>r. fs_requests st i = Some r \<and> rq_room r = room}"

text \<open>The clock readings of the calls; a registration makes none.\<close>

fun call_times :: "feed_call list \<Rightarrow> time list" where
  "call_times [] = []"
| "call_times (FCreate order fr inp # cs) = ff_now fr # call_times cs"
| "call_times (FAsync now # cs) = now # call_times cs"
| "call_times (FAck fr ack # cs) = ff_now fr # call_times cs"
| "call_times (FCancel fr i reason # cs) = ff_now fr # call_times cs"
| "call_times (FTimeout order fr ttl # cs) = ff_now fr # call_times cs"
| "call_times (FRegister r # cs) = call_times cs"

lemma requests_of_update [simp]:
  "requests_of room (st\<lparr>fs_rooms := a\<rparr>) = requests_of room st" "requests_of room (st\<lparr>fs_receipts := b\<rparr>) = requests_of room st"
  "requests_of room (st\<lparr>fs_qps := c\<rparr>) = requests_of room st" "requests_of room (st\<lparr>fs_async := d\<rparr>) = requests_of room st"
  "requests_of room (st\<lparr>fs_kv := e\<rparr>) = requests_of room st" "requests_of room (st\<lparr>fs_safety := f\<rparr>) = requests_of room st"
  "requests_of room (st\<lparr>fs_billing := g\<rparr>) = requests_of room st" "requests_of room (send p st) = requests_of room st"
  "requests_of room (st\<lparr>fs_sent := h\<rparr>) = requests_of room st"
  by (simp_all add: requests_of_def send_def)

lemma requests_of_change:
  "fs_requests st' = (fs_requests st)(i \<mapsto> r') \<Longrightarrow> fs_requests st i = Some r \<Longrightarrow> rq_room r' = rq_room r \<Longrightarrow>
     requests_of room st' = requests_of room st"
  by (auto simp: requests_of_def)

text \<open>Whatever a status change does, it leaves the store and the room of the request.\<close>

lemma change_request_frame:
  assumes "log_inv ks st" and "fs_requests st i = Some r"
  shows "fs_kv (snd (change_request now r to why st)) = fs_kv st"
    and "requests_of room (snd (change_request now r to why st)) = requests_of room st"
    and "fs_kv (snd (change_request now (r\<lparr>rq_reject := x\<rparr>) to why st)) = fs_kv st"
    and "requests_of room (snd (change_request now (r\<lparr>rq_reject := x\<rparr>) to why st)) = requests_of room st"
proof -
  have id: "rq_id r = i" using assms by (auto simp: log_inv_def sourced_def)
  obtain r1 st1 where one: "change_request now r to why st = (r1, st1)" by (rule prod.exhaust)
  obtain r2 st2 where two: "change_request now (r\<lparr>rq_reject := x\<rparr>) to why st = (r2, st2)" by (rule prod.exhaust)
  note res = change_request_result [OF one] change_request_result [OF two]
  show "fs_kv (snd (change_request now r to why st)) = fs_kv st"
    "fs_kv (snd (change_request now (r\<lparr>rq_reject := x\<rparr>) to why st)) = fs_kv st"
    using one two res by simp_all
  have "requests_of room st1 = requests_of room st"
    by (rule requests_of_change [of _ _ i r1 r]) (use res id assms(2) in simp_all)
  moreover have "requests_of room st2 = requests_of room st"
    by (rule requests_of_change [of _ _ i r2 r]) (use res id assms(2) in simp_all)
  ultimately show "requests_of room (snd (change_request now r to why st)) = requests_of room st"
    "requests_of room (snd (change_request now (r\<lparr>rq_reject := x\<rparr>) to why st)) = requests_of room st"
    using one two by simp_all
qed

lemma runAsync_frame:
  assumes "log_inv ks st"
  shows "fs_kv (runAsync env now st) = fs_kv st" and "requests_of room (runAsync env now st) = requests_of room st"
proof -
  have inv: "log_inv ks (send p (st\<lparr>fs_async := x\<rparr>))" for p x using assms by simp
  note fr = change_request_frame [OF inv]
  show "fs_kv (runAsync env now st) = fs_kv st" "requests_of room (runAsync env now st) = requests_of room st"
    by (auto simp: runAsync_def Let_def fr split: list.split option.split)
qed

lemma svc_feed_cancel_frame:
  assumes "log_inv ks st"
  shows "fs_kv (snd (svc_feed_cancel env fr i reason st)) = fs_kv st"
    and "requests_of room (snd (svc_feed_cancel env fr i reason st)) = requests_of room st"
  using change_request_frame(3,4) [OF assms]
  by (auto simp: svc_feed_cancel_def Let_def split: option.split prod.split)
     (metis snd_conv)+

lemma timeout_one_frame:
  assumes "log_inv ks (snd hs)"
  shows "fs_kv (snd (timeout_one env fr ttl i hs)) = fs_kv (snd hs)"
    and "requests_of room (snd (timeout_one env fr ttl i hs)) = requests_of room (snd hs)"
  using change_request_frame(3,4) [OF assms]
  by (auto simp: timeout_one_def Let_def split: option.split prod.split)
     (metis snd_conv)+

lemma TimeoutScanRun_frame:
  assumes "log_inv ks st"
  shows "fs_kv (snd (TimeoutScanRun env order fr ttl st)) = fs_kv st"
    and "requests_of room (snd (TimeoutScanRun env order fr ttl st)) = requests_of room st"
proof -
  have "log_inv ks (snd hs) \<Longrightarrow> fs_kv (snd (fold (timeout_one env fr ttl) order hs)) = fs_kv (snd hs) \<and>
      requests_of room (snd (fold (timeout_one env fr ttl) order hs)) = requests_of room (snd hs)" for hs
    by (induction order arbitrary: hs) (simp_all add: timeout_one_inv timeout_one_frame)
  from this [of "(0, st)"] show "fs_kv (snd (TimeoutScanRun env order fr ttl st)) = fs_kv st"
    "requests_of room (snd (TimeoutScanRun env order fr ttl st)) = requests_of room st"
    using assms by (simp_all add: TimeoutScanRun_def)
qed

lemma HandleAck_frame:
  assumes "log_inv ks st"
  shows "fs_kv (snd (HandleAck env fr ack st)) = snd (idem_insert (fe_kv env) (48 * hour) (ff_now fr) ''ack'' (fa_cmd ack) (fs_kv st))"
    and "requests_of room (snd (HandleAck env fr ack st)) = requests_of room st"
proof -
  obtain x kv where ins: "idem_insert (fe_kv env) (48 * hour) (ff_now fr) ''ack'' (fa_cmd ack) (fs_kv st) = (x, kv)"
    by (rule prod.exhaust)
  have "fs_kv (snd (HandleAck env fr ack st)) = kv \<and> requests_of room (snd (HandleAck env fr ack st)) = requests_of room st"
  proof (cases "x = Inr True \<and> fs_requests st (fa_request ack) \<noteq> None")
    case False
    then show ?thesis using ins by (auto simp: HandleAck_def split: sum.split bool.split)
  next
    case True
    then obtain r where r: "fs_requests st (fa_request ack) = Some r" by blast
    obtain r' st' where ch: "ack_changes (ff_now fr) (fa_status ack) r (st\<lparr>fs_kv := kv\<rparr>) = (r', st')" by (rule prod.exhaust)
    have id: "rq_id r = fa_request ack" using assms r by (auto simp: log_inv_def sourced_def)
    have here: "fs_requests (st\<lparr>fs_kv := kv\<rparr>) (rq_id r) = Some r" using r id by simp
    note ac = ack_changes_result [OF ch here]
    have "requests_of room st' = requests_of room (st\<lparr>fs_kv := kv\<rparr>)"
      by (rule requests_of_change [OF ac(2) here ac(7)])
    moreover obtain e msgs where "HandleAck env fr ack st = (e,
        (settle env (ff_bill fr) (receipt_of (rq_id r') st') (rq_status r') (st'\<lparr>fs_receipts := (fs_receipts st')(rq_id r' := None)\<rparr>))
          \<lparr>fs_sent := msgs\<rparr>)"
      using HandleAck_known [OF _ r ch] ins True by blast
    ultimately show ?thesis using ac(6) by (simp add: settle_def)
  qed
  then show "fs_kv (snd (HandleAck env fr ack st)) = snd (idem_insert (fe_kv env) (48 * hour) (ff_now fr) ''ack'' (fa_cmd ack) (fs_kv st))"
    "requests_of room (snd (HandleAck env fr ack st)) = requests_of room st"
    using ins by simp_all
qed

section \<open>A room that cools\<close>

text \<open>The store shows the deadline \<open>dl\<close> under the room's key from \<open>now\<close> up to the deadline.\<close>

definition cooling :: "('s \<Rightarrow> time \<Rightarrow> string \<Rightarrow> string option) \<Rightarrow> 's \<Rightarrow> string \<Rightarrow> time \<Rightarrow> time \<Rightarrow> bool" where
  "cooling live s room now dl \<longleftrightarrow> (\<forall>t. now \<le> t \<and> t < dl \<longrightarrow> live s t (room_key room) = Some (format_nano dl))"

lemma cooling_later: "cooling live s room now dl \<Longrightarrow> now \<le> now' \<Longrightarrow> cooling live s room now' dl"
  by (simp add: cooling_def)

lemma cooling_same:
  "cooling live s room now dl \<Longrightarrow> (\<And>t. now \<le> t \<Longrightarrow> live s' t (room_key room) = live s t (room_key room)) \<Longrightarrow>
     cooling live s' room now dl"
  by (simp add: cooling_def)

context kv_store begin

lemma idem_insert_room:
  assumes "now \<le> t" and "ns \<in> {''feed'', ''ack''}"
  shows "live (snd (idem_insert ops ttl now ns k s)) t (room_key room) = live s t (room_key room)"
  using assms setnx_frame [of "room_key room" "idem_key ns k" now t "''1''" ttl s] by (auto simp: idem_insert_def)

lemma check_room: "now \<le> t \<Longrightarrow> live (snd (cd_check ops c now room user cat amount s)) t = live s t"
  by (auto simp: cd_check_def get_eq split: option.split)

lemma consume_room:
  assumes "now \<le> t" and "room' \<noteq> room"
  shows "live (snd (cd_consume ops c now room' user cat amount s)) t (room_key room) = live s t (room_key room)"
proof (cases "consume_verdict live c now room' user cat amount s = OK")
  case False
  then show ?thesis using consume_blocked(2) [OF False assms(1)] by simp
next
  case True
  from consume_ok [OF True] obtain s' where
    same: "\<And>t. now \<le> t \<Longrightarrow> live s' t = live s t" and
    eq: "cd_consume ops c now room' user cat amount s = cd_record ops c now room' user cat amount s'" by blast
  show ?thesis using assms same by (simp add: eq) (simp add: cd_record_def set_eq incr_eq)
qed

lemma cooling_blocks:
  assumes "cooling live s room now dl" and "now < dl" and "calendar_time dl"
  shows "fst (cd_check ops c now room user cat amount s) = Inr (BlockedRoom, dl - now)"
  using assms by (simp add: cooling_def cd_check_val time_left_def format_nano_nonempty parse_nano_or_zero_def parse_format_nano)

end

abbreviation cooldown_of :: "limits \<Rightarrow> cooldown" where
  "cooldown_of l \<equiv> \<lparr>cd_room = lm_room l, cd_user = lm_user l, cd_daily = lm_daily l\<rparr>"

text \<open>The steps of \<open>create_cooldown\<close> after the policy.\<close>

lemma create_cooldown_Inl:
  "Resolve (fe_safety env) (fe_limits env) now (fi_room inp) (fs_safety st) = (Inl e, sf) \<Longrightarrow>
     \<exists>e'. create_cooldown env now inp rm st = (Some e', st\<lparr>fs_safety := sf\<rparr>)"
  by (simp add: create_cooldown_def)

lemma create_cooldown_blocked:
  "Resolve (fe_safety env) (fe_limits env) now (fi_room inp) (fs_safety st) = (Inr l, sf) \<Longrightarrow>
   cd_check (fe_kv env) (cooldown_of l) now (fi_room inp) (fi_user inp) (rm_cat rm) (fi_amount inp) (fs_kv st) = (Inr (b, d), kv) \<Longrightarrow>
   b \<noteq> OK \<Longrightarrow> \<exists>e'. create_cooldown env now inp rm st = (Some e', st\<lparr>fs_safety := sf, fs_kv := kv\<rparr>)"
  by (cases b) (simp_all add: create_cooldown_def)

lemma create_cooldown_ok:
  "Resolve (fe_safety env) (fe_limits env) now (fi_room inp) (fs_safety st) = (Inr l, sf) \<Longrightarrow>
   cd_check (fe_kv env) (cooldown_of l) now (fi_room inp) (fi_user inp) (rm_cat rm) (fi_amount inp) (fs_kv st) = (Inr (OK, d), kv) \<Longrightarrow>
   cd_consume (fe_kv env) (cooldown_of l) now (fi_room inp) (fi_user inp) (rm_cat rm) (fi_amount inp) kv = (x, kv') \<Longrightarrow>
   \<exists>e'. create_cooldown env now inp rm st = (e', st\<lparr>fs_safety := sf, fs_kv := kv'\<rparr>) \<and> (e' = None \<longleftrightarrow> x = Inr OK)"
  by (auto simp: create_cooldown_def Let_def split: sum.split)

context kv_store begin

lemma check_is_Inr: "\<exists>b d. fst (cd_check ops c now room user cat amount s) = Inr (b, d)"
  by (auto simp: cd_check_val split: option.split)

lemma create_cooldown_cools:
  assumes "fe_kv env = ops" and "cooling live (fs_kv st) room now dl" and "now < dl" and "calendar_time dl"
  shows "cooling live (fs_kv (snd (create_cooldown env now inp rm st))) room now dl \<and>
    (fi_room inp = room \<longrightarrow> fst (create_cooldown env now inp rm st) \<noteq> None)"
proof -
  obtain lim sf where rs: "Resolve (fe_safety env) (fe_limits env) now (fi_room inp) (fs_safety st) = (lim, sf)" by (rule prod.exhaust)
  show ?thesis
  proof (cases lim)
    case (Inl e)
    then show ?thesis using rs create_cooldown_Inl [of env now inp st e sf rm] assms(2) by auto
  next
    case (Inr l)
    let ?ck = "cd_check ops (cooldown_of l) now (fi_room inp) (fi_user inp) (rm_cat rm) (fi_amount inp) (fs_kv st)"
    obtain b d where "fst ?ck = Inr (b, d)" using check_is_Inr by blast
    then obtain kv where ck: "?ck = (Inr (b, d), kv)" by (metis prod.collapse)
    have "live (snd ?ck) t = live (fs_kv st) t" if "now \<le> t" for t using check_room [OF that] .
    then have kv: "cooling live kv room now dl" using ck by (intro cooling_same [OF assms(2)]) simp
    have blocks: "b = BlockedRoom" if "fi_room inp = room"
      using cooling_blocks [OF assms(2-4), of "cooldown_of l" "fi_user inp" "rm_cat rm" "fi_amount inp"] ck that by simp
    show ?thesis
    proof (cases "b = OK")
      case False
      then show ?thesis
        using create_cooldown_blocked [of env now inp st l sf rm b d kv] rs Inr ck kv assms(1) by auto
    next
      case True
      obtain x kv' where cs: "cd_consume ops (cooldown_of l) now (fi_room inp) (fi_user inp) (rm_cat rm) (fi_amount inp) kv = (x, kv')"
        by (rule prod.exhaust)
      have other: "fi_room inp \<noteq> room" using True blocks by auto
      have "cooling live kv' room now dl"
        by (rule cooling_same [OF kv]) (use consume_room [OF _ other] cs in \<open>metis snd_conv\<close>)
      then show ?thesis
        using create_cooldown_ok [of env now inp st l sf rm d kv x kv'] rs Inr ck cs True other assms(1) by auto
    qed
  qed
qed

text \<open>A creation while the room cools: it goes on cooling and gets no request.\<close>

lemma create_cools:
  assumes "fe_kv env = ops" and "cooling live (fs_kv st) room (ff_now fr) dl" and "ff_now fr < dl" and "calendar_time dl"
    and "fs_requests st (''feed_'' @ ff_feed fr) = None" and "log_inv ks st"
  shows "cooling live (fs_kv (snd (svc_feed_create env order fr inp st))) room (ff_now fr) dl \<and>
    requests_of room (snd (svc_feed_create env order fr inp st)) = requests_of room st"
proof -
  have first: "cooling live (fs_kv (snd (create_first env fr inp st))) room (ff_now fr) dl \<and>
    requests_of room (snd (create_first env fr inp st)) = requests_of room st"
    if pre: "cooling live (fs_kv st) room (ff_now fr) dl" "fs_requests st (''feed_'' @ ff_feed fr) = None" "log_inv ks st" for st
  proof (cases "create_room inp st")
    case (Inl e)
    then show ?thesis using pre by (simp add: create_first_def)
  next
    case (Inr rm)
    obtain e1 st1 where cd: "create_cooldown env (ff_now fr) inp rm st = (e1, st1)" by (rule prod.exhaust)
    then obtain kv sf where st1: "st1 = st\<lparr>fs_safety := sf, fs_kv := kv\<rparr>" using create_cooldown_frame by blast
    have cool: "cooling live kv room (ff_now fr) dl" "fi_room inp = room \<Longrightarrow> e1 \<noteq> None"
      using create_cooldown_cools [OF assms(1) pre(1) assms(3,4), of inp rm] cd st1 by auto
    have commit: "fs_kv st2 = kv \<and> (fi_room inp \<noteq> room \<longrightarrow> requests_of room st2 = requests_of room st)"
      if "create_commit env fr inp rm rc (st1\<lparr>fs_billing := b\<rparr>) = (r, st2)" for rc b r st2
    proof -
      have "log_inv ks (st1\<lparr>fs_billing := b\<rparr>)" "fs_requests (st1\<lparr>fs_billing := b\<rparr>) (rq_id (new_request fr inp rm)) = None"
        using pre st1 by (simp_all add: new_request_def)
      note cr = create_commit_inv [OF this that]
      show ?thesis using cr(3,6,7) st1 pre(2) by (auto simp: requests_of_def new_request_def)
    qed
    have same: "requests_of room st1 = requests_of room st" "requests_of room (st1\<lparr>fs_billing := b\<rparr>) = requests_of room st"
      "fs_kv st1 = kv" for b using st1 by simp_all
    show ?thesis
    proof (cases "fi_room inp = room")
      case True
      then obtain e where "e1 = Some e" using cool(2) by auto
      then show ?thesis using Inr cd same cool(1) by (simp add: create_first_def)
    next
      case False
      then show ?thesis
        using Inr cd same cool(1) commit by (simp add: create_first_def split: option.split prod.split sum.split)
    qed
  qed
  obtain e1 st1 where fl: "create_flags env (ff_now fr) inp st = (e1, st1)" by (rule prod.exhaust)
  then obtain q where st1: "st1 = st\<lparr>fs_qps := q\<rparr>" using create_flags_frame by blast
  obtain x kv where ins: "idem_insert ops (48 * hour) (ff_now fr) ''feed'' (fi_idem inp) (fs_kv st) = (x, kv)" by (rule prod.exhaust)
  have kv: "cooling live kv room (ff_now fr) dl"
    by (rule cooling_same [OF assms(2)])
       (use idem_insert_room [of "ff_now fr" _ "''feed''" "48 * hour" "fi_idem inp" "fs_kv st" room] ins in simp)
  have "cooling live (fs_kv (snd (create_first env fr inp (st1\<lparr>fs_kv := kv\<rparr>)))) room (ff_now fr) dl \<and>
    requests_of room (snd (create_first env fr inp (st1\<lparr>fs_kv := kv\<rparr>))) = requests_of room st"
    using first [of "st1\<lparr>fs_kv := kv\<rparr>"] kv st1 assms(5,6) by simp
  then show ?thesis
    using fl st1 ins kv assms(1,2)
    by (simp add: svc_feed_create_def split: option.split prod.split sum.split bool.split list.split)
qed

lemma consume_opens:
  assumes "fst (cd_consume ops c now room user cat amount s) = Inr OK" and "0 \<le> now" and "0 \<le> cd_room c"
  shows "cooling live (snd (cd_consume ops c now room user cat amount s)) room now (now + cd_room c)"
proof -
  from assms(1) obtain s' where "cd_consume ops c now room user cat amount s = cd_record ops c now room user cat amount s'"
    using consume_OK_verdict consume_ok by blast
  then show ?thesis using assms(2,3) record_room [of now c] by (simp add: cooling_def)
qed

lemma create_cooldown_opens:
  assumes "fe_kv env = ops" and "create_cooldown env now inp rm st = (None, st')"
    and "fst (Resolve (fe_safety env) (fe_limits env) now (fi_room inp) (fs_safety st)) = Inr lim" and "0 \<le> now"
  shows "cooling live (fs_kv st') (fi_room inp) now (now + lm_room lim)"
proof -
  obtain sf where rs: "Resolve (fe_safety env) (fe_limits env) now (fi_room inp) (fs_safety st) = (Inr lim, sf)"
    using assms(3) by (metis prod.collapse)
  let ?ck = "cd_check ops (cooldown_of lim) now (fi_room inp) (fi_user inp) (rm_cat rm) (fi_amount inp) (fs_kv st)"
  obtain b d where "fst ?ck = Inr (b, d)" using check_is_Inr by blast
  then obtain kv where ck: "?ck = (Inr (b, d), kv)" by (metis prod.collapse)
  have b: "b = OK" using create_cooldown_blocked [of env now inp st lim sf rm b d kv] rs ck assms(1,2) by auto
  obtain x kv' where cs: "cd_consume ops (cooldown_of lim) now (fi_room inp) (fi_user inp) (rm_cat rm) (fi_amount inp) kv = (x, kv')"
    by (rule prod.exhaust)
  have "x = Inr OK" "fs_kv st' = kv'"
    using create_cooldown_ok [of env now inp st lim sf rm d kv x kv'] rs ck cs b assms(1,2) by auto
  then show ?thesis
    using consume_opens [of "cooldown_of lim" now "fi_room inp" "fi_user inp" "rm_cat rm" "fi_amount inp" kv] cs assms(4)
      Resolve_room_pos [OF assms(3)] by simp
qed

lemma create_opens:
  assumes "fe_kv env = ops" and "svc_feed_create env order fr inp st = (Inr r, st')" and "fs_requests st (rq_id r) = None"
    and "fst (Resolve (fe_safety env) (fe_limits env) (ff_now fr) (fi_room inp) (fs_safety st)) = Inr lim"
    and "0 \<le> ff_now fr" and "fs_requests st (''feed_'' @ ff_feed fr) = None" and "log_inv ks st"
  shows "cooling live (fs_kv st') (fi_room inp) (ff_now fr) (ff_now fr + lm_room lim)"
proof -
  have old: "rq_id q = i" if "fs_requests st i = Some q" for i q using assms(7) that by (auto simp: log_inv_def sourced_def)
  obtain e1 st1 where fl: "create_flags env (ff_now fr) inp st = (e1, st1)" by (rule prod.exhaust)
  then obtain q where st1: "st1 = st\<lparr>fs_qps := q\<rparr>" using create_flags_frame by blast
  have dup: "rows = [] \<or> hd rows \<noteq> r" if "rows = filter (\<lambda>r. rq_idem r = fi_idem inp) (rows_in order (fs_requests st))" for rows
  proof (rule ccontr)
    assume "\<not> (rows = [] \<or> hd rows \<noteq> r)"
    then have "r \<in> set (rows_in order (fs_requests st))" using that by (metis filter_is_subset hd_in_set in_mono)
    then obtain i where "fs_requests st i = Some r" by (auto simp: rows_in_def List.map_filter_def)
    with old have "fs_requests st (rq_id r) = Some r" by metis
    then show False using assms(3) by simp
  qed
  obtain kv where first: "create_first env fr inp (st1\<lparr>fs_kv := kv\<rparr>) = (Inr r, st')"
    using assms(2) fl dup [OF refl] st1
    by (auto simp: svc_feed_create_def split: option.splits prod.splits sum.splits bool.splits list.splits if_splits)
  then obtain rm e2 st2 where rm: "create_room inp (st1\<lparr>fs_kv := kv\<rparr>) = Inr rm"
    "create_cooldown env (ff_now fr) inp rm (st1\<lparr>fs_kv := kv\<rparr>) = (e2, st2)"
    by (auto simp: create_first_def split: sum.splits) (metis prod.exhaust)
  then have e2: "e2 = None" using first by (auto simp: create_first_def split: option.splits)
  have lim: "fst (Resolve (fe_safety env) (fe_limits env) (ff_now fr) (fi_room inp) (fs_safety (st1\<lparr>fs_kv := kv\<rparr>))) = Inr lim"
    using assms(4) st1 by simp
  have cool: "cooling live (fs_kv st2) (fi_room inp) (ff_now fr) (ff_now fr + lm_room lim)"
    using create_cooldown_opens [OF assms(1) _ lim assms(5)] rm(2) e2 by simp
  obtain kv2 sf where st2: "st2 = st1\<lparr>fs_kv := kv, fs_safety := sf, fs_kv := kv2\<rparr>" using create_cooldown_frame [OF rm(2)] by blast
  have kv': "fs_kv st' = fs_kv st2"
  proof -
    obtain rc b where cm: "create_commit env fr inp rm rc (st2\<lparr>fs_billing := b\<rparr>) = (r, st')"
      using first rm e2 by (auto simp: create_first_def split: prod.splits sum.splits)
    have "log_inv ks (st2\<lparr>fs_billing := b\<rparr>)" "fs_requests (st2\<lparr>fs_billing := b\<rparr>) (rq_id (new_request fr inp rm)) = None"
      using assms(6,7) st1 st2 by (simp_all add: new_request_def)
    from create_commit_inv(6) [OF this cm] show ?thesis by simp
  qed
  show ?thesis using cool kv' by simp
qed


text \<open>Any call keeps a cooling room cooling and without a new request.\<close>

lemma call_cools:
  assumes "fe_kv env = ops" and "log_inv ks st" and "set (feed_ids [c]) \<inter> ks = {}"
    and "call_times [c] = [] \<or> call_times [c] = [now]"
    and "cooling live (fs_kv st) room now dl" and "now < dl" and "calendar_time dl"
  shows "cooling live (fs_kv (feed_call_step env c st)) room now dl \<and> requests_of room (feed_call_step env c st) = requests_of room st"
proof (cases c)
  case (FCreate order fr inp)
  then have "fs_requests st (''feed_'' @ ff_feed fr) = None" using assms(2,3) by (auto simp: log_inv_def)
  then show ?thesis using create_cools [OF assms(1) _ _ assms(7) _ assms(2), of room fr order inp] assms(4-6) FCreate by simp
next
  case (FAsync t)
  then show ?thesis using runAsync_frame [OF assms(2)] assms(5) by simp
next
  case (FAck fr ack)
  have "cooling live (snd (idem_insert ops (48 * hour) now ''ack'' (fa_cmd ack) (fs_kv st))) room now dl"
    by (rule cooling_same [OF assms(5)]) (simp add: idem_insert_room)
  then show ?thesis using HandleAck_frame [OF assms(2)] assms(1,4) FAck by simp
next
  case (FCancel fr i reason)
  then show ?thesis using svc_feed_cancel_frame [OF assms(2)] assms(5) by simp
next
  case (FTimeout order fr ttl)
  then show ?thesis using TimeoutScanRun_frame [OF assms(2)] assms(5) by simp
next
  case (FRegister r)
  then show ?thesis using assms(5) by (simp add: RegisterRoom_def)
qed

lemma call_times_Cons: "call_times (c # cs) = call_times [c] @ call_times cs"
  by (cases c) simp_all

lemma run_cools:
  "fe_kv env = ops \<Longrightarrow> log_inv ks st \<Longrightarrow> set (feed_ids cs) \<inter> ks = {} \<Longrightarrow> distinct (feed_ids cs) \<Longrightarrow>
   sorted (now # call_times cs) \<Longrightarrow> (\<forall>t \<in> set (call_times cs). t < dl) \<Longrightarrow> now < dl \<Longrightarrow> calendar_time dl \<Longrightarrow>
   cooling live (fs_kv st) room now dl \<Longrightarrow> requests_of room (feed_run env cs st) = requests_of room st"
proof (induction cs arbitrary: ks st now)
  case Nil
  then show ?case by (simp add: feed_run_def)
next
  case (Cons c cs)
  note ids = feed_ids_Cons [of c cs] and times = call_times_Cons [of c cs]
  obtain now' where now': "call_times [c] = [] \<and> now' = now \<or> call_times [c] = [now']" by (cases c) auto
  have fresh: "set (feed_ids [c]) \<inter> ks = {}" using Cons.prems(3) ids by auto
  have le: "now \<le> now'" "now' < dl" "sorted (now' # call_times cs)" using Cons.prems(5-7) now' times by auto
  have call: "cooling live (fs_kv (feed_call_step env c st)) room now' dl" "requests_of room (feed_call_step env c st) = requests_of room st"
    using call_cools [OF Cons.prems(1,2) fresh _ cooling_later [OF Cons.prems(9) le(1)] le(2) Cons.prems(8)] now' by auto
  have "requests_of room (feed_run env cs (feed_call_step env c st)) = requests_of room (feed_call_step env c st)"
    by (rule Cons.IH [OF Cons.prems(1) feed_call_step_inv [OF Cons.prems(2) fresh] _ _ le(3) _ le(2) Cons.prems(8) call(1)])
       (use Cons.prems(3,4,6) ids times in auto)
  then show ?case using call(2) by (simp add: feed_run_def)
qed

end

section \<open>When a creation is accepted\<close>

lemma consume_verdict_cong:
  assumes "live s' now (room_key room) = live s now (room_key room)" and "live s' now (user_key user room) = live s now (user_key user room)"
    and "live s' now (cat_key cat now) = live s now (cat_key cat now)"
  shows "consume_verdict live c now room user cat amount s' = consume_verdict live c now room user cat amount s"
  unfolding consume_verdict_def assms ..

context kv_store begin

lemma check_of_consume:
  assumes "consume_verdict live c now room user cat amount s = OK"
  shows "\<exists>d s'. cd_check ops c now room user cat amount s = (Inr (OK, d), s') \<and>
     consume_verdict live c now room user cat amount s' = OK"
proof -
  have "fst (cd_check ops c now room user cat amount s) = Inr (OK, 0)"
    using assms by (auto simp: cd_check_val consume_verdict_def split: option.splits if_splits)
  then obtain s' where ck: "cd_check ops c now room user cat amount s = (Inr (OK, 0), s')" by (metis prod.collapse)
  then have same: "live s' now = live s now" using check_room [of now now c room user cat amount s] by simp
  have "consume_verdict live c now room user cat amount s' = OK" using assms unfolding consume_verdict_def same .
  with ck show ?thesis by blast
qed

lemma create_cooldown_accepts:
  assumes "fe_kv env = ops" and "Resolve (fe_safety env) (fe_limits env) now (fi_room inp) (fs_safety st) = (Inr lim, sf)"
    and "consume_verdict live (cooldown_of lim) now (fi_room inp) (fi_user inp) (rm_cat rm) (fi_amount inp) (fs_kv st) = OK"
  shows "\<exists>kv. create_cooldown env now inp rm st = (None, st\<lparr>fs_safety := sf, fs_kv := kv\<rparr>)"
proof -
  obtain d kv where ck: "cd_check ops (cooldown_of lim) now (fi_room inp) (fi_user inp) (rm_cat rm) (fi_amount inp) (fs_kv st) = (Inr (OK, d), kv)"
    and ok: "consume_verdict live (cooldown_of lim) now (fi_room inp) (fi_user inp) (rm_cat rm) (fi_amount inp) kv = OK"
    using check_of_consume [OF assms(3)] by blast
  obtain kv' where cs: "cd_consume ops (cooldown_of lim) now (fi_room inp) (fi_user inp) (rm_cat rm) (fi_amount inp) kv = (Inr OK, kv')"
    using ok consume_OK_verdict by (metis prod.collapse)
  show ?thesis
    using create_cooldown_ok [of env now inp st lim sf rm d kv "Inr OK" kv'] assms(1,2) ck cs by auto
qed

end

text \<open>The three status changes of a creation in outbox mode.\<close>

definition creation_log :: "request \<Rightarrow> time \<Rightarrow> state_change list" where
  "creation_log r now =
     [\<lparr>sc_id = rq_id r, sc_from = Created, sc_to = Accepted, sc_reason = ''validated'',
        sc_snapshot = r\<lparr>rq_status := Accepted, rq_updated := now\<rparr>\<rparr>,
      \<lparr>sc_id = rq_id r, sc_from = Accepted, sc_to = Queued, sc_reason = ''queued to device-edge'',
        sc_snapshot = r\<lparr>rq_status := Queued, rq_updated := now\<rparr>\<rparr>,
      \<lparr>sc_id = rq_id r, sc_from = Queued, sc_to = Dispatched, sc_reason = ''dispatched via outbox'',
        sc_snapshot = r\<lparr>rq_status := Dispatched, rq_updated := now\<rparr>\<rparr>]"

lemma create_commit_outbox:
  assumes "fe_outbox env"
  shows "create_commit env fr inp room rc st =
    (let r0 = new_request fr inp room; r = r0\<lparr>rq_status := Dispatched, rq_updated := ff_now fr\<rparr>
     in (r, st\<lparr>fs_receipts := (fs_receipts st)(rq_id r0 \<mapsto> rc), fs_requests := (fs_requests st)(rq_id r0 \<mapsto> r),
              fs_log := fs_log st @ creation_log r0 (ff_now fr)\<rparr>))"
proof -
  have "rq_status (new_request fr inp room) = Created" by (simp add: new_request_def)
  moreover have "feed_step Created Accepted" "feed_step Accepted Queued" "feed_step Queued Dispatched"
    by (auto intro: feed_step.intros)
  ultimately show ?thesis
    using assms by (simp add: create_commit_def Let_def transitionLocked_cases change_request_cases creation_log_def)
qed

section \<open>Properties\<close>


text \<open>C2: once a feeding is accepted, its room gets no other feeding request before the room cooldown the
  policy gave has run out, whatever calls the service receives in between - creations by any user, acks,
  cancellations, time-outs - as long as the clock does not run backwards.\<close>

theorem fed_room_rests:
  assumes "fe_kv env = mem_ops" and "st = feed_run env cs (feeding_new kv sf b)"
    and "svc_feed_create env order fr inp st = (Inr r, st')" and "fs_requests st (rq_id r) = None"
    and "fst (Resolve (fe_safety env) (fe_limits env) (ff_now fr) (fi_room inp) (fs_safety st)) = Inr lim"
    and "0 \<le> ff_now fr" and "calendar_time (ff_now fr + lm_room lim)"
    and "distinct (feed_ids (cs @ FCreate order fr inp # cs'))"
    and "sorted (ff_now fr # call_times cs')" and "\<forall>t \<in> set (call_times cs'). t < ff_now fr + lm_room lim"
  shows "requests_of (fi_room inp) (feed_run env cs' st') = requests_of (fi_room inp) st'"
proof -
  have ids: "distinct (feed_ids cs)" "''feed_'' @ ff_feed fr \<notin> set (feed_ids cs)" "distinct (feed_ids cs')"
    "set (feed_ids cs') \<inter> insert (''feed_'' @ ff_feed fr) (set (feed_ids cs)) = {}"
    using assms(8) by auto
  have inv: "log_inv (set (feed_ids cs)) st"
    using feed_run_inv [OF feeding_new_inv _ ids(1), of env kv sf b] assms(2) by simp
  have new: "fs_requests st (''feed_'' @ ff_feed fr) = None" using inv ids(2) by (auto simp: log_inv_def)
  have inv': "log_inv (insert (''feed_'' @ ff_feed fr) (set (feed_ids cs))) st'"
    using svc_feed_create_inv [OF inv new, of env order inp] assms(3) by simp
  have "cooling mem_live (fs_kv st') (fi_room inp) (ff_now fr) (ff_now fr + lm_room lim)"
    by (rule mem.create_opens [OF assms(1,3-6) new inv])
  then show ?thesis
    using mem.run_cools [OF assms(1) inv' ids(4,3) assms(9,10) _ assms(7)] Resolve_room_pos [OF assms(5)] by simp
qed

end
