(* ===== verification/FeedingStore.thy ===== *)
theory FeedingStore
  imports FeedingService BillingPg
begin

text \<open>
  \<^verbatim>\<open>go/services/feeding-svc/internal/store/store.go\<close> and \<^verbatim>\<open>internal/service/outbox_listener.go\<close>: the
  persistence of feeding requests.  The two stores keep one row per request; the PostgreSQL store also
  appends to \<open>feeding_request_events\<close> and to the outbox in the same transaction.  Tables, statements and
  faults are those of the billing store: keys of \<^verbatim>\<open>go/migrations\<close>, the rest of the driver in \<open>pg_env\<close>.
  \<open>OutboxListener\<close> turns a status change of the service into one of these writes.
\<close>

section \<open>Rows\<close>

record feed_row =
  fw_id :: string
  fw_user :: string
  fw_room :: string
  fw_cat :: string
  fw_device :: string
  fw_cmd :: string
  fw_amount :: u32
  fw_status :: state
  fw_idem :: string
  fw_reject :: string
  fw_region :: string
  fw_created :: time
  fw_updated :: time

record feed_change =
  tr_request :: feed_row
  tr_from :: state
  tr_to :: state
  tr_reason :: string
  tr_actor :: string
  tr_events :: "outbox_event list"

record 's feed_ops =
  fo_create :: "feed_change \<Rightarrow> 's \<Rightarrow> (go_error, unit, 's) outcome"
  fo_save :: "feed_change \<Rightarrow> 's \<Rightarrow> (go_error, unit, 's) outcome"
  fo_load :: "string \<Rightarrow> 's \<Rightarrow> go_error + feed_row"
  fo_by_room :: "string \<Rightarrow> int \<Rightarrow> 's \<Rightarrow> go_error + feed_row list"
  fo_by_device :: "string \<Rightarrow> int \<Rightarrow> 's \<Rightarrow> go_error + feed_row list"

definition FeedNotFound :: go_error where
  "FeedNotFound = Plain ''feeding store: not found''"

section \<open>MemoryStore\<close>

type_synonym fmem = "string \<rightharpoonup> feed_row"

definition fmem_create :: "time \<Rightarrow> feed_change \<Rightarrow> fmem \<Rightarrow> (go_error, unit, fmem) outcome" where
  "fmem_create now t m =
     (Inr (), m(fw_id (tr_request t) \<mapsto> (tr_request t)\<lparr>fw_status := tr_to t, fw_updated := now\<rparr>))"

definition fmem_save :: "time \<Rightarrow> feed_change \<Rightarrow> fmem \<Rightarrow> (go_error, unit, fmem) outcome" where
  "fmem_save now t m =
     (let i = fw_id (tr_request t) in
      case m i of
        None \<Rightarrow> (Inr (), m(i \<mapsto> (tr_request t)\<lparr>fw_status := tr_to t, fw_updated := now\<rparr>))
      | Some r \<Rightarrow> (Inr (), m(i \<mapsto> r\<lparr>fw_status := tr_to t, fw_updated := now,
                     fw_reject := (if tr_reason t \<noteq> [] then tr_reason t else fw_reject r)\<rparr>)))"

definition fmem_load :: "string \<Rightarrow> fmem \<Rightarrow> go_error + feed_row" where
  "fmem_load i m = (case m i of None \<Rightarrow> Inl FeedNotFound | Some r \<Rightarrow> Inr r)"

text \<open>The limit only sizes the slice; \<open>order\<close> is the iteration order of the map.\<close>

definition fmem_by_room :: "string list \<Rightarrow> string \<Rightarrow> int \<Rightarrow> fmem \<Rightarrow> go_error + feed_row list" where
  "fmem_by_room order room limit m = Inr (filter (\<lambda>r. fw_room r = room) (rows_in order m))"

definition fmem_by_device :: "string list \<Rightarrow> string \<Rightarrow> int \<Rightarrow> fmem \<Rightarrow> go_error + feed_row list" where
  "fmem_by_device order dev limit m = Inr (filter (\<lambda>r. fw_device r = dev) (rows_in order m))"

definition fmem_ops :: "time \<Rightarrow> string list \<Rightarrow> fmem feed_ops" where
  "fmem_ops now order = \<lparr>fo_create = fmem_create now, fo_save = fmem_save now, fo_load = fmem_load,
     fo_by_room = fmem_by_room order, fo_by_device = fmem_by_device order\<rparr>"

section \<open>PgStore\<close>

record event_row =
  er_request :: string
  er_from :: state
  er_to :: state
  er_reason :: string
  er_actor :: string
  er_region :: string
  er_payload :: feed_row

record fpg =
  fp_rows :: "string \<rightharpoonup> feed_row"
  fp_idem :: "string \<times> string \<rightharpoonup> string"
  fp_events :: "event_row list"
  fp_outbox :: outbox_db

definition row_region :: "feed_row \<Rightarrow> string" where
  "row_region r = (if fw_region r = [] then ''global'' else fw_region r)"

text \<open>\<open>appendEvent\<close>; the event's request must be a row (the foreign key of the table).\<close>

definition appendEvent :: "pg_env \<Rightarrow> feed_change \<Rightarrow> fpg \<Rightarrow> (go_error, unit, fpg) outcome" where
  "appendEvent env t = stmt (pe_flt env) ''insert feeding_request_events'' (\<lambda>e. e)
     (\<lambda>d. if fp_rows d (fw_id (tr_request t)) = None
          then (Inl (pg_error ''violates foreign key constraint''), d)
          else (Inr (), d\<lparr>fp_events := fp_events d @
            [\<lparr>er_request = fw_id (tr_request t), er_from = tr_from t, er_to = tr_to t, er_reason = tr_reason t,
              er_actor = (if tr_actor t = [] then ''feeding-svc'' else tr_actor t),
              er_region = row_region (tr_request t), er_payload = tr_request t\<rparr>]\<rparr>))"

definition feed_writeOutbox :: "pg_env \<Rightarrow> feed_change \<Rightarrow> fpg \<Rightarrow> (go_error, unit, fpg) outcome" where
  "feed_writeOutbox env t d =
     (case writeOutbox env (row_region (tr_request t)) (tr_events t) (fp_outbox d) of
        (Inl e, ob) \<Rightarrow> (Inl e, d\<lparr>fp_outbox := ob\<rparr>)
      | (Inr _, ob) \<Rightarrow> (Inr (), d\<lparr>fp_outbox := ob\<rparr>))"

definition fpg_create :: "pg_env \<Rightarrow> feed_change \<Rightarrow> fpg \<Rightarrow> (go_error, unit, fpg) outcome" where
  "fpg_create env t = runTx (pe_flt env)
     (let r = tr_request t; k = (fw_user r, fw_idem r) in
      and_then (stmt (pe_flt env) ''insert feed_requests'' (Wrap ''insert feed_requests'')
        (\<lambda>d. if 2 ^ 31 \<le> unat (fw_amount r) then (Inl (Wrap ''insert feed_requests'' (pg_error ''integer out of range'')), d)
             else if fp_idem d k \<noteq> None then (Inr (), d)
             else if fp_rows d (fw_id r) \<noteq> None then (Inl (Wrap ''insert feed_requests'' (pg_error ''duplicate key value'')), d)
             else (Inr (), d\<lparr>fp_rows := (fp_rows d)(fw_id r \<mapsto> r\<lparr>fw_status := tr_to t, fw_reject := [],
                                  fw_region := row_region r, fw_updated := fw_created r\<rparr>),
                            fp_idem := (fp_idem d)(k \<mapsto> fw_id r)\<rparr>)))
       (\<lambda>_. and_then (appendEvent env t) (\<lambda>_. feed_writeOutbox env t)))"

definition fpg_save :: "pg_env \<Rightarrow> feed_change \<Rightarrow> fpg \<Rightarrow> (go_error, unit, fpg) outcome" where
  "fpg_save env t = runTx (pe_flt env)
     (and_then (stmt (pe_flt env) ''update feed_requests'' (Wrap ''update feed_requests'')
        (\<lambda>d. (Inr (), case fp_rows d (fw_id (tr_request t)) of
               None \<Rightarrow> d
             | Some r \<Rightarrow> d\<lparr>fp_rows := (fp_rows d)(fw_id r \<mapsto> r\<lparr>fw_status := tr_to t,
                             fw_reject := (if tr_reason t \<noteq> [] then tr_reason t else fw_reject r), fw_updated := pe_now env\<rparr>)\<rparr>)))
       (\<lambda>_. and_then (appendEvent env t) (\<lambda>_. feed_writeOutbox env t)))"

definition fpg_load :: "pg_env \<Rightarrow> string \<Rightarrow> fpg \<Rightarrow> go_error + feed_row" where
  "fpg_load env i d =
     (case pe_flt env ''select feed_requests'' of
        Some e \<Rightarrow> Inl e
      | None \<Rightarrow> (case fp_rows d i of None \<Rightarrow> Inl FeedNotFound | Some r \<Rightarrow> Inr r))"

text \<open>The newest rows first; \<open>order\<close> decides among rows of one instant.\<close>

definition fpg_list :: "pg_env \<Rightarrow> string list \<Rightarrow> (feed_row \<Rightarrow> bool) \<Rightarrow> int \<Rightarrow> fpg \<Rightarrow> go_error + feed_row list" where
  "fpg_list env order p limit d =
     (case pe_flt env ''list feed_requests'' of
        Some e \<Rightarrow> Inl e
      | None \<Rightarrow> Inr (take (nat (if limit \<le> 0 then 50 else limit))
                  (sort_key (\<lambda>r. - fw_created r) (filter p (rows_in order (fp_rows d))))))"

definition fpg_by_room :: "pg_env \<Rightarrow> string list \<Rightarrow> string \<Rightarrow> int \<Rightarrow> fpg \<Rightarrow> go_error + feed_row list" where
  "fpg_by_room env order room = fpg_list env order (\<lambda>r. fw_room r = room)"

definition fpg_by_device :: "pg_env \<Rightarrow> string list \<Rightarrow> string \<Rightarrow> int \<Rightarrow> fpg \<Rightarrow> go_error + feed_row list" where
  "fpg_by_device env order dev = fpg_list env order (\<lambda>r. fw_device r = dev)"

definition fpg_ops :: "pg_env \<Rightarrow> string list \<Rightarrow> fpg feed_ops" where
  "fpg_ops env order = \<lparr>fo_create = fpg_create env, fo_save = fpg_save env, fo_load = fpg_load env,
     fo_by_room = fpg_by_room env order, fo_by_device = fpg_by_device env order\<rparr>"

section \<open>The listener\<close>

definition toStoreRequest :: "request \<Rightarrow> feed_row" where
  "toStoreRequest r =
     \<lparr>fw_id = rq_id r, fw_user = rq_user r, fw_room = rq_room r, fw_cat = rq_cat r, fw_device = rq_device r,
      fw_cmd = rq_cmd r, fw_amount = rq_amount r, fw_status = rq_status r, fw_idem = rq_idem r,
      fw_reject = rq_reject r, fw_region = [], fw_created = rq_created r, fw_updated = rq_updated r\<rparr>"

definition cmd_json :: "request \<Rightarrow> (string \<times> json) list" where
  "cmd_json r =
     [(''feed_request_id'', JStr (rq_id r)), (''device_command_id'', JStr (rq_cmd r)), (''device_id'', JStr (rq_device r)),
      (''room_id'', JStr (rq_room r)), (''amount_grams'', JInt (uint (rq_amount r))), (''motor_duration_ms'', JInt 1200),
      (''expires_at'', JStr (format_rfc3339 (rq_updated r + 30 * second)))]"

definition buildOutboxEvents :: "string \<Rightarrow> fresh \<Rightarrow> state_change \<Rightarrow> outbox_event list" where
  "buildOutboxEvents src fr ev =
     (let r = sc_snapshot ev;
          rid = (''feed_request_id'', JStr (rq_id r)); cid = (''device_command_id'', JStr (rq_cmd r));
          dev = (''device_id'', JStr (rq_device r)); room = (''room_id'', JStr (rq_room r));
          grams = (''amount_grams'', JInt (uint (rq_amount r))); why = (''reason'', JStr (sc_reason ev))
      in if sc_from ev = Accepted \<and> sc_to ev = Queued then
           [ce_for src fr FeedCommandRequested (rq_device r) (rq_id r) (cmd_json r)]
         else if sc_from ev = Queued \<and> sc_to ev = Dispatched then
           [ce_for src fr FeedCommandDispatched (rq_room r) (rq_id r) [rid, cid, dev, room, grams]]
         else if sc_from ev = Dispatched \<and> sc_to ev = Acknowledged then
           [ce_for src fr FeedCommandAcked (rq_room r) (rq_id r) [rid, cid, room]]
         else if sc_from ev = Acknowledged \<and> sc_to ev = Succeeded then
           [ce_for src fr FeedCommandCompleted (rq_room r) (rq_id r) [rid, cid, room, grams]]
         else if sc_to ev = Failed then
           [ce_for src fr FeedCommandFailed (rq_room r) (rq_id r) [rid, cid, room, dev, why]]
         else if sc_to ev = Rejected \<and> (sc_from ev = Queued \<or> sc_from ev = Dispatched) then
           [ce_for src fr FeedCommandCancelled (rq_device r) (rq_id r) [rid, cid, dev, room, why]]
         else [])"

definition feed_change_of :: "string \<Rightarrow> fresh \<Rightarrow> state_change \<Rightarrow> feed_change" where
  "feed_change_of src fr ev =
     \<lparr>tr_request = toStoreRequest (sc_snapshot ev), tr_from = sc_from ev, tr_to = sc_to ev, tr_reason = sc_reason ev,
      tr_actor = src, tr_events = buildOutboxEvents src fr ev\<rparr>"

text \<open>\<open>Handle\<close>: an error is only counted.\<close>

definition listener_handle :: "'s feed_ops \<Rightarrow> string \<Rightarrow> fresh \<Rightarrow> state_change \<Rightarrow> 's \<Rightarrow> 's" where
  "listener_handle ops src fr ev s =
     (let t = feed_change_of src fr ev
      in if sc_from ev = Created then snd (fo_create ops t s) else snd (fo_save ops t s))"

section \<open>From the outbox to the bus\<close>

definition outbox_kafka_publish :: "(envelope \<Rightarrow> 'b \<Rightarrow> (go_error, unit, 'b) outcome) \<Rightarrow> outbox_row \<Rightarrow> 'b \<Rightarrow> (go_error, unit, 'b) outcome" where
  "outbox_kafka_publish bus row =
     bus \<lparr>env_topic = topic_of (or_topic row), env_key = or_key row,
          env_headers = (case or_headers row of None \<Rightarrow> [] | Some h \<Rightarrow> h), env_payload = or_payload row\<rparr>"

end
