(* ===== verification/FeedingPersist.thy ===== *)
theory FeedingPersist
  imports FeedingStore FeedingLog BillingPgRefine
begin

text \<open>
  The rows in PostgreSQL follow the service: feeding the log of status changes to the outbox listener, one
  transaction per change, leaves in \<open>feed_requests\<close> the status of every request, in
  \<open>feeding_request_events\<close> the log itself and in the outbox the events of the changes, in their order.
\<close>

section \<open>Writing a log\<close>

text \<open>Each change with the environment of its transaction and the fresh values of its event.\<close>

fun persist :: "string \<Rightarrow> (pg_env \<times> fresh \<times> state_change) list \<Rightarrow> fpg \<Rightarrow> fpg" where
  "persist src [] d = d"
| "persist src ((env, fr, ev) # evs) d = persist src evs (listener_handle (fpg_ops env []) src fr ev d)"

definition fpg_empty :: fpg where
  "fpg_empty = \<lparr>fp_rows = Map.empty, fp_idem = Map.empty, fp_events = [], fp_outbox = \<lparr>ob_table = [], ob_dlq = [], ob_next = 1\<rparr>\<rparr>"

text \<open>The topics of a change, as the package comment lists them.\<close>

definition change_topics :: "state_change \<Rightarrow> topic list" where
  "change_topics ev = map oe_topic (buildOutboxEvents [] \<lparr>fr_id = [], fr_uuid = [], fr_now = 0, fr_event_now = 0\<rparr> ev)"

definition outbox_topics :: "outbox_db \<Rightarrow> string list" where
  "outbox_topics ob = map (\<lambda>(r, p). or_topic r) (ob_table ob)"

section \<open>One write\<close>

lemma build_topics: "map oe_topic (buildOutboxEvents src fr ev) = change_topics ev"
  by (simp add: change_topics_def buildOutboxEvents_def Let_def ce_for_def)

lemma build_ok: "ok_events (buildOutboxEvents src fr ev)"
  by (simp add: ok_events_def buildOutboxEvents_def Let_def ce_for_def)

lemma writeOutbox_topics:
  assumes "pg_ok env" and "ok_events evs"
  shows "\<exists>ob'. writeOutbox env region evs ob = (Inr (), ob') \<and>
    outbox_topics ob' = outbox_topics ob @ map (topic_string \<circ> oe_topic) evs"
  using assms
proof (induction evs arbitrary: ob)
  case Nil
  then show ?case by simp
next
  case (Cons ev evs)
  obtain p where p: "p \<noteq> []" "pe_marshal env (oe_event ev) = Inr p" using Cons.prems(1) by (auto simp: pg_ok_def)
  have "topic_string (oe_topic ev) \<noteq> []" "pe_flt env = no_faults" using Cons.prems by (auto simp: ok_events_def pg_ok_def)
  moreover have "ok_events evs" using Cons.prems(2) by (simp add: ok_events_def)
  note rest = Cons.IH [OF Cons.prems(1) this]
  ultimately show ?case
    using p rest [of "snd (InsertOutbox no_faults (pe_now env)
                  \<lparr>or_id = 0, or_topic = topic_string (oe_topic ev), or_key = oe_key ev, or_payload = p,
                   or_headers = Some (case oe_headers ev of None \<Rightarrow> ce_headers (oe_topic ev) | Some h \<Rightarrow> h),
                   or_region = region, or_created = zero_time\<rparr> ob)"]
    by (auto simp: InsertOutbox_def outbox_topics_def stored_row_def)
qed

text \<open>What one transaction adds once the row is there.\<close>

definition event_key :: "event_row \<Rightarrow> string \<times> state \<times> state" where
  "event_key e = (er_request e, er_from e, er_to e)"

lemma append_and_outbox:
  assumes "pg_ok env" and "fp_rows d (fw_id (tr_request t)) \<noteq> None" and "ok_events (tr_events t)"
  shows "\<exists>d'. and_then (appendEvent env t) (\<lambda>_. feed_writeOutbox env t) d = (Inr (), d') \<and>
    fp_rows d' = fp_rows d \<and> fp_idem d' = fp_idem d \<and>
    map event_key (fp_events d') = map event_key (fp_events d) @ [(fw_id (tr_request t), tr_from t, tr_to t)] \<and>
    outbox_topics (fp_outbox d') = outbox_topics (fp_outbox d) @ map (topic_string \<circ> oe_topic) (tr_events t)"
proof -
  have flt: "pe_flt env = no_faults" using assms(1) by (simp add: pg_ok_def)
  obtain d1 where d1: "appendEvent env t d = (Inr (), d1)" "fp_rows d1 = fp_rows d" "fp_idem d1 = fp_idem d"
    "map event_key (fp_events d1) = map event_key (fp_events d) @ [(fw_id (tr_request t), tr_from t, tr_to t)]" "fp_outbox d1 = fp_outbox d"
    using assms(2) by (auto simp: appendEvent_def flt event_key_def)
  obtain ob' where "writeOutbox env (row_region (tr_request t)) (tr_events t) (fp_outbox d1) = (Inr (), ob')"
    "outbox_topics ob' = outbox_topics (fp_outbox d1) @ map (topic_string \<circ> oe_topic) (tr_events t)"
    using writeOutbox_topics [OF assms(1,3)] by blast
  then show ?thesis using d1 by (simp add: and_then_def feed_writeOutbox_def)
qed

section \<open>A log that can be written\<close>

definition change_key :: "state_change \<Rightarrow> string \<times> string" where
  "change_key e = (rq_user (sc_snapshot e), rq_idem (sc_snapshot e))"

text \<open>After the changes \<open>es\<close>: the first change of a request comes from \<open>Created\<close> under a key no change had, any
  other comes later.\<close>

definition writable :: "state_change list \<Rightarrow> state_change \<Rightarrow> bool" where
  "writable es e \<longleftrightarrow> rq_id (sc_snapshot e) = sc_id e \<and> unat (rq_amount (sc_snapshot e)) < 2 ^ 31 \<and>
     (if sc_from e = Created then changes (sc_id e) es = [] \<and> change_key e \<notin> change_key ` set es
      else changes (sc_id e) es \<noteq> [])"

fun writable_log :: "state_change list \<Rightarrow> state_change list \<Rightarrow> bool" where
  "writable_log es [] \<longleftrightarrow> True"
| "writable_log es (e # rest) \<longleftrightarrow> writable es e \<and> writable_log (es @ [e]) rest"

definition last_status :: "state_change list \<Rightarrow> string \<Rightarrow> state option" where
  "last_status es i = (if changes i es = [] then None else Some (sc_to (last (changes i es))))"

text \<open>The database mirrors the changes \<open>es\<close>.\<close>

definition mirrors :: "state_change list \<Rightarrow> fpg \<Rightarrow> bool" where
  "mirrors es d \<longleftrightarrow>
     (\<forall>i. map_option fw_status (fp_rows d i) = last_status es i) \<and>
     (\<forall>i r. fp_rows d i = Some r \<longrightarrow> fw_id r = i) \<and>
     dom (fp_idem d) \<subseteq> change_key ` set es \<and>
     map event_key (fp_events d) = map (\<lambda>e. (sc_id e, sc_from e, sc_to e)) es \<and>
     outbox_topics (fp_outbox d) = concat (map (\<lambda>e. map topic_string (change_topics e)) es)"

lemma last_status_append:
  "last_status (es @ [e]) i = (if sc_id e = i then Some (sc_to e) else last_status es i)"
  by (simp add: last_status_def)

lemma change_of_simps [simp]:
  "fw_id (tr_request (feed_change_of src fr e)) = rq_id (sc_snapshot e)"
  "fw_user (tr_request (feed_change_of src fr e)) = rq_user (sc_snapshot e)"
  "fw_idem (tr_request (feed_change_of src fr e)) = rq_idem (sc_snapshot e)"
  "fw_amount (tr_request (feed_change_of src fr e)) = rq_amount (sc_snapshot e)"
  "tr_from (feed_change_of src fr e) = sc_from e" "tr_to (feed_change_of src fr e) = sc_to e"
  "tr_events (feed_change_of src fr e) = buildOutboxEvents src fr e"
  by (simp_all add: feed_change_of_def toStoreRequest_def)

lemma mirrors_append:
  assumes "mirrors es d" and "fp_rows d'' = (fp_rows d)(sc_id e \<mapsto> r)" and "fw_status r = sc_to e" and "fw_id r = sc_id e"
    and "dom (fp_idem d'') \<subseteq> insert (change_key e) (dom (fp_idem d))"
    and "map event_key (fp_events d'') = map event_key (fp_events d) @ [(sc_id e, sc_from e, sc_to e)]"
    and "outbox_topics (fp_outbox d'') = outbox_topics (fp_outbox d) @ map topic_string (change_topics e)"
  shows "mirrors (es @ [e]) d''"
proof -
  have "map_option fw_status (fp_rows d'' i) = last_status (es @ [e]) i" for i
    using assms(1-3) by (simp add: mirrors_def last_status_append)
  moreover have "fp_rows d'' i = Some x \<Longrightarrow> fw_id x = i" for i x
    using assms(1,2,4) by (auto simp: mirrors_def split: if_splits)
  moreover have "dom (fp_idem d'') \<subseteq> change_key ` set (es @ [e])"
  proof -
    have "dom (fp_idem d) \<subseteq> change_key ` set es" using assms(1) unfolding mirrors_def by blast
    then have "insert (change_key e) (dom (fp_idem d)) \<subseteq> change_key ` set (es @ [e])" by auto
    then show ?thesis by (rule subset_trans [OF assms(5)])
  qed
  ultimately show ?thesis using assms(1,6,7) by (simp add: mirrors_def)
qed

lemma handle_mirrors:
  assumes "mirrors es d" and "writable es e" and "pg_ok env"
  shows "mirrors (es @ [e]) (listener_handle (fpg_ops env []) src fr e d)"
proof -
  let ?t = "feed_change_of src fr e"
  have flt: "pe_flt env = no_faults" using assms(3) by (simp add: pg_ok_def)
  have id: "rq_id (sc_snapshot e) = sc_id e" using assms(2) by (simp add: writable_def)
  have topics: "map (topic_string \<circ> oe_topic) (buildOutboxEvents src fr e) = map topic_string (change_topics e)"
    unfolding build_topics [of src fr e, symmetric] by simp
  define d' where "d' = (if sc_from e = Created
      then d\<lparr>fp_rows := (fp_rows d)(sc_id e \<mapsto> (tr_request ?t)\<lparr>fw_status := sc_to e, fw_reject := [],
               fw_region := row_region (tr_request ?t), fw_updated := fw_created (tr_request ?t)\<rparr>),
             fp_idem := (fp_idem d)(change_key e \<mapsto> sc_id e)\<rparr>
      else (case fp_rows d (sc_id e) of None \<Rightarrow> d
            | Some r \<Rightarrow> d\<lparr>fp_rows := (fp_rows d)(fw_id r \<mapsto> r\<lparr>fw_status := tr_to ?t,
                fw_reject := (if tr_reason ?t \<noteq> [] then tr_reason ?t else fw_reject r), fw_updated := pe_now env\<rparr>)\<rparr>))"
  have ids: "fp_rows d i = Some x \<Longrightarrow> fw_id x = i" for i x using assms(1) by (auto simp: mirrors_def)
  have row: "\<exists>r. fp_rows d' = (fp_rows d)(sc_id e \<mapsto> r) \<and> fw_status r = sc_to e \<and> fw_id r = sc_id e"
  proof (cases "sc_from e = Created")
    case True
    then show ?thesis using id
      by (intro exI [of _ "(tr_request ?t)\<lparr>fw_status := sc_to e, fw_reject := [],
               fw_region := row_region (tr_request ?t), fw_updated := fw_created (tr_request ?t)\<rparr>"]) (simp add: d'_def)
  next
    case False
    then have "changes (sc_id e) es \<noteq> []" using assms(2) by (simp add: writable_def)
    then have "map_option fw_status (fp_rows d (sc_id e)) \<noteq> None" using assms(1) by (simp add: mirrors_def last_status_def)
    then obtain r where "fp_rows d (sc_id e) = Some r" by auto
    then show ?thesis using False ids by (intro exI [of _ "r\<lparr>fw_status := sc_to e,
                fw_reject := (if tr_reason ?t \<noteq> [] then tr_reason ?t else fw_reject r), fw_updated := pe_now env\<rparr>"]) (simp add: d'_def)
  qed
  then obtain r where r: "fp_rows d' = (fp_rows d)(sc_id e \<mapsto> r)" "fw_status r = sc_to e" "fw_id r = sc_id e" by blast
  have rest: "dom (fp_idem d') \<subseteq> insert (change_key e) (dom (fp_idem d))" "fp_events d' = fp_events d" "fp_outbox d' = fp_outbox d"
    by (auto simp: d'_def split: option.split)
  have "fp_rows d' (fw_id (tr_request ?t)) \<noteq> None" using r(1) id by simp
  from append_and_outbox [OF assms(3) this] build_ok [of src fr e] obtain d'' where
    run: "and_then (appendEvent env ?t) (\<lambda>_. feed_writeOutbox env ?t) d' = (Inr (), d'')"
    and d'': "fp_rows d'' = fp_rows d'" "fp_idem d'' = fp_idem d'"
      "map event_key (fp_events d'') = map event_key (fp_events d') @ [(sc_id e, sc_from e, sc_to e)]"
      "outbox_topics (fp_outbox d'') = outbox_topics (fp_outbox d') @ map topic_string (change_topics e)"
    using topics id by auto
  have "listener_handle (fpg_ops env []) src fr e d = d''"
  proof (cases "sc_from e = Created")
    case True
    have "fp_idem d (change_key e) = None"
    proof -
      have "change_key e \<notin> change_key ` set es" "dom (fp_idem d) \<subseteq> change_key ` set es"
        using assms(1,2) True unfolding mirrors_def writable_def by simp_all
      then have "change_key e \<notin> dom (fp_idem d)" by (rule contra_subsetD [rotated])
      then show ?thesis by (simp only: domIff not_not)
    qed
    moreover have "fp_rows d (sc_id e) = None"
    proof -
      have "changes (sc_id e) es = []" using assms(2) True by (simp add: writable_def)
      then have "map_option fw_status (fp_rows d (sc_id e)) = None" using assms(1) by (simp add: mirrors_def last_status_def)
      then show ?thesis by simp
    qed
    moreover have "unat (rq_amount (sc_snapshot e)) < 2 ^ 31" using assms(2) by (simp add: writable_def)
    ultimately have "fpg_create env ?t d = (Inr (), d'')"
      using True id run unfolding fpg_create_def by (simp add: flt runTx_no_faults Let_def and_then_def [of "stmt _ _ _ _"] change_key_def d'_def)
    then show ?thesis using True by (simp add: listener_handle_def fpg_ops_def Let_def)
  next
    case False
    have "fpg_save env ?t d = (Inr (), d'')"
      using False id run unfolding fpg_save_def by (simp add: flt runTx_no_faults and_then_def [of "stmt _ _ _ _"] d'_def)
    then show ?thesis using False by (simp add: listener_handle_def fpg_ops_def Let_def)
  qed
  then show ?thesis using d'' r rest by (intro mirrors_append [OF assms(1), of _ e r]) simp_all
qed

lemma persist_mirrors:
  assumes "mirrors es d" and "writable_log es (map (\<lambda>(env, fr, ev). ev) evs)" and "\<forall>(env, fr, ev) \<in> set evs. pg_ok env"
  shows "mirrors (es @ map (\<lambda>(env, fr, ev). ev) evs) (persist src evs d)"
  using assms
proof (induction evs arbitrary: es d)
  case Nil
  then show ?case by simp
next
  case (Cons x evs)
  obtain env fr ev where x: "x = (env, fr, ev)" by (cases x)
  have one: "mirrors (es @ [ev]) (listener_handle (fpg_ops env []) src fr ev d)"
    by (rule handle_mirrors [OF Cons.prems(1)]) (use Cons.prems x in auto)
  show ?case using Cons.IH [OF one] Cons.prems x by simp
qed

section \<open>The service's log is writable\<close>

lemma chain_split: "chain s (xs @ ys) t \<longleftrightarrow> (\<exists>m. chain s xs m \<and> chain m ys t)"
  by (induction xs arbitrary: s) auto

lemma chain_last: "chain s es t \<Longrightarrow> es \<noteq> [] \<Longrightarrow> t = sc_to (last es) \<and> t \<noteq> Created"
  by (induction es arbitrary: s) (auto simp: feed_step_not_Created split: if_splits)

definition keys_apart :: "(string \<rightharpoonup> request) \<Rightarrow> bool" where
  "keys_apart reqs \<longleftrightarrow>
     (\<forall>i j r q. reqs i = Some r \<and> reqs j = Some q \<and> rq_user r = rq_user q \<and> rq_idem r = rq_idem q \<longrightarrow> i = j)"

lemma log_writable:
  assumes "sourced reqs log" and "snapshots reqs log" and "keys_apart reqs"
    and "\<forall>i r. reqs i = Some r \<longrightarrow> unat (rq_amount r) < 2 ^ 31"
  shows "es @ rest = log \<Longrightarrow> writable_log es rest"
proof (induction rest arbitrary: es)
  case Nil
  then show ?case by simp
next
  case (Cons e rest)
  have e: "e \<in> set log" using Cons.prems by auto
  then obtain r where r: "reqs (sc_id e) = Some r" "snapshot_of e r" using assms(2) unfolding snapshots_def by blast
  have ch: "chain Created (changes (sc_id e) log) (rq_status r)" using assms(1) r(1) by (simp add: sourced_def)
  have "changes (sc_id e) log = changes (sc_id e) es @ e # changes (sc_id e) rest"
    unfolding Cons.prems [symmetric] by (simp add: changes_def)
  then obtain m where m: "chain Created (changes (sc_id e) es) m" "sc_from e = m" using ch by (auto simp: chain_split)
  have first: "changes (sc_id e) es = [] \<longleftrightarrow> sc_from e = Created"
    using m chain_last [OF m(1)] by (cases "changes (sc_id e) es = []") auto
  have fresh: "change_key e \<notin> change_key ` set es" if "changes (sc_id e) es = []"
  proof
    assume "change_key e \<in> change_key ` set es"
    then obtain e' where e': "e' \<in> set es" "change_key e' = change_key e" by auto
    then have "e' \<in> set log" using Cons.prems by auto
    then obtain q where "reqs (sc_id e') = Some q" "snapshot_of e' q" using assms(2) unfolding snapshots_def by blast
    then have "sc_id e' = sc_id e" using assms(3) r e'(2) unfolding keys_apart_def snapshot_of_def change_key_def by (metis prod.inject)
    then have "e' \<in> set (changes (sc_id e) es)" using e'(1) by (simp add: changes_def)
    then show False using that by simp
  qed
  have "writable es e" using r assms(4) first fresh by (auto simp: writable_def snapshot_of_def)
  then show ?case using Cons by simp
qed

section \<open>Property\<close>


section \<open>A reused key\<close>

lemma handle_refused:
  assumes "fp_rows d (rq_id (sc_snapshot e)) = None" and "fp_idem d (change_key e) \<noteq> None" and "pe_flt env = no_faults"
    and "unat (rq_amount (sc_snapshot e)) < 2 ^ 31"
  shows "listener_handle (fpg_ops env []) src fr e d = d"
proof -
  let ?t = "feed_change_of src fr e"
  have refuse: "appendEvent env ?t d = (Inl (pg_error ''violates foreign key constraint''), d)"
    using assms(1,3) by (simp add: appendEvent_def)
  have "fpg_create env ?t d = (Inl (pg_error ''violates foreign key constraint''), d)"
    using assms refuse by (simp add: fpg_create_def runTx_no_faults and_then_def Let_def change_key_def)
  moreover have "fpg_save env ?t d = (Inl (pg_error ''violates foreign key constraint''), d)"
    using assms refuse by (simp add: fpg_save_def runTx_no_faults and_then_def)
  ultimately show ?thesis by (simp add: listener_handle_def fpg_ops_def Let_def)
qed

text \<open>A key a user has used before (the service forgets keys after 48 hours) keeps the new request out of the
  database for good: \<open>ON CONFLICT DO NOTHING\<close> inserts no row, the event row then violates its foreign
  key, and every change of the request - created, dispatched, acknowledged - is refused the same way, so that
  neither its row nor its events nor the command for the device is ever written.\<close>

theorem reused_key_is_never_persisted:
  assumes "\<forall>(pe, fr, ev) \<in> set evs. pe_flt pe = no_faults \<and> rq_id (sc_snapshot ev) = i \<and> change_key ev = k \<and>
      unat (rq_amount (sc_snapshot ev)) < 2 ^ 31"
    and "fp_rows d i = None" and "fp_idem d k \<noteq> None"
  shows "persist src evs d = d"
  using assms
proof (induction evs)
  case Nil
  then show ?case by simp
next
  case (Cons x evs)
  obtain pe fr ev where x: "x = (pe, fr, ev)" by (cases x)
  have "listener_handle (fpg_ops pe []) src fr ev d = d"
    by (rule handle_refused) (use Cons.prems x in auto)
  then show ?case using Cons x by simp
qed

end
