(* ===== verification/FeedingDemo.thy ===== *)
theory FeedingDemo
  imports FeedingSaga FeedingCooldown FeedingPersist
begin

text \<open>
  A small run of the feeding service - one creation in the room the service starts with, then its
  cancellation - on which the properties of the feeding theories apply.
\<close>

definition demo_env :: "(mem_store, safety_mem, unit \<times> bill_call list) feeding_env" where
  "demo_env = \<lparr>fe_kv = mem_ops, fe_safety = None, fe_limits = DefaultGlobal, fe_flags = None,
     fe_billing = recorded NoopBilling, fe_outbox = True, fe_publish = (\<lambda>_. None)\<rparr>"

definition demo_fresh :: "string \<Rightarrow> time \<Rightarrow> feed_fresh" where
  "demo_fresh i now = \<lparr>ff_feed = i, ff_cmd = i, ff_now = now, ff_bill = \<lparr>fr_id = i, fr_uuid = i, fr_now = now, fr_event_now = now\<rparr>\<rparr>"

definition demo_input :: "string \<Rightarrow> feed_input" where
  "demo_input key = \<lparr>fi_user = ''u1'', fi_room = ''room_demo'', fi_amount = 5, fi_idem = key\<rparr>"

definition demo_start :: "(mem_store, safety_mem, unit \<times> bill_call list) feeding" where
  "demo_start = feeding_new Map.empty Map.empty ((), [])"

definition feeding_room :: room where
  "feeding_room = \<lparr>rm_id = ''room_demo'', rm_cat = ''cat_demo'', rm_device = ''dev_demo'', rm_open = True, rm_no_feed = False\<rparr>"

definition demo_request :: request where
  "demo_request = (new_request (demo_fresh ''1'' hour) (demo_input ''k1'') feeding_room)\<lparr>rq_status := Dispatched, rq_updated := hour\<rparr>"

definition demo_run :: "feed_call list" where
  "demo_run = [FCreate [] (demo_fresh ''1'' hour) (demo_input ''k1''), FCancel (demo_fresh ''2'' (hour + 1)) ''feed_1'' ''no'']"

lemma demo_limits: "Resolve None DefaultGlobal now room s = (Inr DefaultGlobal, s)"
  by (simp add: Resolve_def merge_def DefaultGlobal_def second_def)

lemma demo_create:
  "\<exists>kv. svc_feed_create demo_env [] (demo_fresh ''1'' hour) (demo_input ''k1'') demo_start = (Inr demo_request, demo_start\<lparr>
     fs_requests := [''feed_1'' \<mapsto> demo_request], fs_receipts := [''feed_1'' \<mapsto> ''noop''],
     fs_log := creation_log (new_request (demo_fresh ''1'' hour) (demo_input ''k1'') feeding_room) hour,
     fs_kv := kv, fs_safety := Map.empty, fs_billing := ((), [BReserved ''noop''])\<rparr>)"
proof -
  have free: "mem_live Map.empty t k = None" for t k by (simp add: mem_live_def mem_gc_def)
  have setnx: "mem_setnx hour k ''1'' ttl Map.empty = (Inr True, [k \<mapsto> \<lparr>e_val = ''1'', e_counter = 0, e_expire = expiry hour ttl\<rparr>])" for k ttl
    by (simp add: mem_setnx_cases mem_gc_def)
  have live: "k \<noteq> idem_key ''feed'' ''k1'' \<Longrightarrow> mem_live [idem_key ''feed'' ''k1'' \<mapsto> e] hour k = None" for k e
    by (simp add: mem_live_def mem_gc_def)
  have keys: "user_key u x \<noteq> idem_key ''feed'' k" "cat_key c t \<noteq> idem_key ''feed'' k" for u x k c t
    by (simp_all add: user_key_def idem_key_def cat_key_def K_def)
  have ok: "consume_verdict mem_live (cooldown_of DefaultGlobal) hour ''room_demo'' ''u1'' ''cat_demo'' 5 [idem_key ''feed'' ''k1'' \<mapsto> e] = OK" for e
    by (simp add: consume_verdict_def time_left_def live keys over_daily_empty) (simp add: DefaultGlobal_def)
  define st where "st = demo_start\<lparr>fs_kv := [idem_key ''feed'' ''k1'' \<mapsto>
      \<lparr>e_val = ''1'', e_counter = 0, e_expire = expiry hour (48 * hour)\<rparr>]\<rparr>"
  have start: "svc_feed_create demo_env [] (demo_fresh ''1'' hour) (demo_input ''k1'') demo_start =
      create_first demo_env (demo_fresh ''1'' hour) (demo_input ''k1'') st"
    by (simp add: svc_feed_create_def create_flags_def idem_insert_def demo_env_def demo_fresh_def demo_input_def setnx
        demo_start_def feeding_new_def st_def)
  have room: "create_room (demo_input ''k1'') st = Inr feeding_room"
    by (simp add: create_room_def demo_input_def demo_start_def feeding_new_def feeding_room_def st_def)
  obtain kv where cd: "create_cooldown demo_env hour (demo_input ''k1'') feeding_room st = (None, st\<lparr>fs_safety := Map.empty, fs_kv := kv\<rparr>)"
    using mem.create_cooldown_accepts [of demo_env hour "demo_input ''k1''" st DefaultGlobal Map.empty feeding_room] ok
    by (auto simp: demo_env_def demo_input_def feeding_room_def demo_limits demo_start_def feeding_new_def st_def)
  have "ff_now (demo_fresh ''1'' hour) = hour" "fe_outbox demo_env" "fs_billing st = ((), [])" by (simp_all add: demo_fresh_def demo_env_def
      st_def demo_start_def feeding_new_def)
  moreover have "bh_reserve (fe_billing demo_env) fr i ((), []) = (Inr ''noop'', ((), [BReserved ''noop'']))" for fr i
    by (simp add: demo_env_def recorded_def NoopBilling_def)
  moreover have "new_request (demo_fresh ''1'' hour) (demo_input ''k1'') feeding_room\<lparr>rq_status := Dispatched, rq_updated := hour\<rparr> = demo_request"
    "rq_id (new_request (demo_fresh ''1'' hour) (demo_input ''k1'') feeding_room) = ''feed_1''"
    by (simp_all add: demo_request_def new_request_def demo_fresh_def)
  ultimately have "create_first demo_env (demo_fresh ''1'' hour) (demo_input ''k1'') st = (Inr demo_request, st\<lparr>fs_safety := Map.empty, fs_kv := kv,
      fs_billing := ((), [BReserved ''noop'']), fs_receipts := (fs_receipts st)(''feed_1'' \<mapsto> ''noop''), fs_requests := (fs_requests st)(''feed_1'' \<mapsto> demo_request),
      fs_log := fs_log st @ creation_log (new_request (demo_fresh ''1'' hour) (demo_input ''k1'') feeding_room) hour\<rparr>)"
    using room cd by (simp add: create_first_def create_commit_outbox Let_def)
  then show ?thesis
    unfolding start by (intro exI [of _ kv]) (simp add: st_def demo_start_def feeding_new_def)
qed


text \<open>The run: the request is rejected, its reservation cancelled.\<close>

lemma demo_run_result:
  "\<exists>st. feed_run demo_env demo_run demo_start = st \<and> snd (fs_billing st) = [BReserved ''noop'', BCancelled ''noop''] \<and>
     map_option rq_status (fs_requests st ''feed_1'') = Some Rejected \<and>
     dom (fs_requests st) = {''feed_1''} \<and> map_option rq_amount (fs_requests st ''feed_1'') = Some 5"
proof -
  have "rq_amount demo_request = 5" by (simp add: demo_request_def new_request_def demo_input_def)
  moreover have "rq_status demo_request = Dispatched" "rq_id demo_request = ''feed_1''"
    by (simp_all add: demo_request_def new_request_def demo_fresh_def)
  moreover have "feed_step Dispatched Rejected" by (auto intro: feed_step.intros)
  moreover obtain kv where "svc_feed_create demo_env [] (demo_fresh ''1'' hour) (demo_input ''k1'') demo_start = (Inr demo_request, demo_start\<lparr>
     fs_requests := [''feed_1'' \<mapsto> demo_request], fs_receipts := [''feed_1'' \<mapsto> ''noop''],
     fs_log := creation_log (new_request (demo_fresh ''1'' hour) (demo_input ''k1'') feeding_room) hour,
     fs_kv := kv, fs_safety := Map.empty, fs_billing := ((), [BReserved ''noop''])\<rparr>)"
    using demo_create by blast
  ultimately show ?thesis
    by (simp add: feed_run_def demo_run_def svc_feed_cancel_def change_request_cases Let_def receipt_of_def)
       (simp add: demo_env_def recorded_def NoopBilling_def)
qed

theorem feeding_is_event_sourced_witness:
  "sourced (fs_requests (feed_run demo_env demo_run demo_start)) (fs_log (feed_run demo_env demo_run demo_start)) \<and>
   map_option rq_status (fs_requests (feed_run demo_env demo_run demo_start) ''feed_1'') = Some Rejected"
proof
  show "sourced (fs_requests (feed_run demo_env demo_run demo_start)) (fs_log (feed_run demo_env demo_run demo_start))"
    unfolding demo_start_def by (rule feeding_is_event_sourced) (simp add: demo_run_def)
  show "map_option rq_status (fs_requests (feed_run demo_env demo_run demo_start) ''feed_1'') = Some Rejected"
    using demo_run_result by blast
qed

theorem feeding_saga_balanced_witness:
  "saga_balanced (saga_of (feed_run demo_env demo_run demo_start)) \<and>
   snd (fs_billing (feed_run demo_env demo_run demo_start)) = [BReserved ''noop'', BCancelled ''noop'']"
proof -
  have log: "snd (fs_billing (feed_run demo_env demo_run demo_start)) = [BReserved ''noop'', BCancelled ''noop'']"
    using demo_run_result by blast
  have "fe_outbox demo_env" "fe_billing demo_env = recorded NoopBilling" by (simp_all add: demo_env_def)
  moreover have "\<forall>fr inp b. fst (bh_reserve NoopBilling fr inp b) \<noteq> Inr []" by (simp add: NoopBilling_def)
  moreover have "distinct (feed_ids demo_run)" "\<forall>c \<in> set demo_run. in_outbox c" by (simp_all add: demo_run_def in_outbox_def)
  moreover have "distinct (reserves (snd (fs_billing (feed_run demo_env demo_run demo_start))))" by (simp add: log)
  ultimately show ?thesis
    using feeding_saga_balanced [of demo_env NoopBilling demo_run _ Map.empty Map.empty "()"] log unfolding demo_start_def by simp
qed

theorem fed_room_rests_witness:
  "requests_of ''room_demo'' (feed_run demo_env [FCreate [] (demo_fresh ''2'' (hour + 1)) (demo_input ''k2'')]
     (snd (svc_feed_create demo_env [] (demo_fresh ''1'' hour) (demo_input ''k1'') demo_start))) =
   requests_of ''room_demo'' (snd (svc_feed_create demo_env [] (demo_fresh ''1'' hour) (demo_input ''k1'') demo_start))"
proof -
  obtain st' where cr: "svc_feed_create demo_env [] (demo_fresh ''1'' hour) (demo_input ''k1'') demo_start = (Inr demo_request, st')"
    using demo_create by blast
  have "calendar_time (hour + 30 * second)" by (rule calendar_time_small) (simp_all add: second_def day_def)
  then show ?thesis
    using fed_room_rests [of demo_env demo_start "[]" Map.empty Map.empty "((), [])" "[]" "demo_fresh ''1'' hour" "demo_input ''k1''"
        demo_request st' DefaultGlobal "[FCreate [] (demo_fresh ''2'' (hour + 1)) (demo_input ''k2'')]"] cr
    by (simp add: demo_limits demo_env_def demo_fresh_def feed_run_def demo_start_def demo_input_def feeding_new_def)
       (simp add: DefaultGlobal_def second_def)
qed


theorem reused_key_is_never_persisted_witness:
  "persist ''f'' [(env_ex, fr_ex ''1'', \<lparr>sc_id = ''feed_2'', sc_from = Created, sc_to = Accepted, sc_reason = ''validated'',
       sc_snapshot = demo_request\<lparr>rq_id := ''feed_2'', rq_status := Accepted\<rparr>\<rparr>)]
     (fpg_empty\<lparr>fp_rows := [''feed_1'' \<mapsto> toStoreRequest demo_request], fp_idem := [(''u1'', ''k1'') \<mapsto> ''feed_1'']\<rparr>) =
   fpg_empty\<lparr>fp_rows := [''feed_1'' \<mapsto> toStoreRequest demo_request], fp_idem := [(''u1'', ''k1'') \<mapsto> ''feed_1'']\<rparr>"
  by (rule reused_key_is_never_persisted [where i = "''feed_2''" and k = "(''u1'', ''k1'')"])
     (simp_all add: env_ex_def change_key_def demo_request_def new_request_def demo_input_def)

end
