(* ===== verification/FeedingGaps.thy ===== *)
theory FeedingGaps
  imports FeedingDemo
begin

text \<open>
  Behaviours of the feeding service that its comments do not promise: an idempotency key is shared by all
  users, a refused creation uses its key up, and in the asynchronous mode an ack that overtakes the
  dispatch loses the reservation.
\<close>

text \<open>The idempotency key of a creation is not tied to the user: while the store remembers the key, a creation
  by anybody under that key is answered with the first user's request, and changes nothing but the store.\<close>

theorem key_shared_between_users:
  assumes "fe_kv env = mem_ops" and "fe_flags env = None"
    and "fi_user inp \<noteq> []" and "fi_room inp \<noteq> []" and "fi_amount inp \<noteq> 0" and "fi_idem inp \<noteq> []"
    and "ff_now fr < t" and "mem_live (fs_kv st) t (idem_key ''feed'' (fi_idem inp)) \<noteq> None"
    and "fs_requests st i = Some r" and "i \<in> set order" and "rq_idem r = fi_idem inp"
    and "\<forall>j q. fs_requests st j = Some q \<and> rq_idem q = fi_idem inp \<longrightarrow> q = r"
  shows "\<exists>kv. svc_feed_create env order fr inp st = (Inr r, st\<lparr>fs_kv := kv\<rparr>)"
proof -
  obtain kv where ins: "idem_insert mem_ops (48 * hour) (ff_now fr) ''feed'' (fi_idem inp) (fs_kv st) = (Inr False, kv)"
    using mem.idem_insert_dup [OF assms(8,7), of "48 * hour"] by (metis prod.collapse)
  let ?rows = "filter (\<lambda>r. rq_idem r = fi_idem inp) (rows_in order (fs_requests st))"
  have "r \<in> set ?rows" using assms(9-11) by (auto simp: set_rows_in)
  moreover have "q = r" if "q \<in> set ?rows" for q using that assms(12) by (auto simp: set_rows_in)
  ultimately obtain rest where "?rows = r # rest" by (cases ?rows) auto
  then show ?thesis
    using ins assms(1-6) by (intro exI [of _ kv]) (simp add: svc_feed_create_def create_flags_def)
qed

text \<open>Outside outbox mode an ack for a request that is still queued (it arrived before the publishing goroutine
  took the lock) leaves the request queued, but takes its receipt without confirming or cancelling it: no
  later call settles that reservation, for every further ack of the command is a duplicate and the
  receipt is gone.\<close>

theorem early_ack_loses_receipt:
  assumes "idem_insert (fe_kv env) (48 * hour) (ff_now fr) ''ack'' (fa_cmd ack) (fs_kv st) = (Inr True, kv)"
    and "fs_requests st (fa_request ack) = Some r" and "rq_id r = fa_request ack" and "rq_status r = Queued"
    and "fs_receipts st (fa_request ack) = Some rc"
  shows "fs_requests (snd (HandleAck env fr ack st)) = fs_requests st \<and>
    fs_receipts (snd (HandleAck env fr ack st)) (fa_request ack) = None \<and>
    fs_billing (snd (HandleAck env fr ack st)) = fs_billing st"
  using assms by (simp add: HandleAck_def Let_def settle_def)

text \<open>A creation that is refused after the key was inserted - the room is unknown or closed, the cooldown runs, the
  hook refuses - uses the key up: the same call is then answered with "duplicate request without
  record", although nothing was done.\<close>

theorem refused_creation_uses_key_up:
  assumes "fe_kv env = mem_ops" and "fe_flags env = None"
    and "fi_user inp \<noteq> []" and "fi_room inp \<noteq> []" and "fi_amount inp \<noteq> 0" and "fi_idem inp \<noteq> []"
    and "mem_live (fs_kv st) (ff_now fr) (idem_key ''feed'' (fi_idem inp)) = None" and "0 \<le> ff_now fr"
    and "fs_rooms st (fi_room inp) = None" and "\<forall>j q. fs_requests st j = Some q \<longrightarrow> rq_idem q \<noteq> fi_idem inp"
    and "ff_now fr \<le> ff_now fr'" and "ff_now fr' + 1 < ff_now fr + 48 * hour"
  shows "fst (svc_feed_create env order fr inp st) = Inl (yerr RoomNotFound ''room not found'') \<and>
    fst (svc_feed_create env order' fr' inp (RegisterRoom rm (snd (svc_feed_create env order fr inp st))))
      = Inl (yerr FeedDuplicateRequest ''duplicate request without record'')"
proof -
  let ?k = "idem_key ''feed'' (fi_idem inp)"
  have new: "fst (idem_insert mem_ops (48 * hour) (ff_now fr) ''feed'' (fi_idem inp) (fs_kv st)) = Inr True"
    by (rule mem.idem_insert_new [OF assms(7)])
  then obtain kv where ins: "idem_insert mem_ops (48 * hour) (ff_now fr) ''feed'' (fi_idem inp) (fs_kv st) = (Inr True, kv)"
    by (metis prod.collapse)
  have "mem_live kv (ff_now fr' + 1) ?k = Some ''1''"
    using mem.setnx_live [of "ff_now fr" ?k "''1''" "48 * hour" "fs_kv st" "ff_now fr' + 1"] ins assms(8,11,12) second_pos
    by (simp add: idem_insert_def)
  then obtain kv' where ins': "idem_insert mem_ops (48 * hour) (ff_now fr') ''feed'' (fi_idem inp) kv = (Inr False, kv')"
    using mem.idem_insert_dup [of kv "ff_now fr' + 1" "''feed''" "fi_idem inp" "ff_now fr'" "48 * hour"]
    by (metis option.distinct(1) prod.collapse zless_add1_eq)
  have first: "svc_feed_create env order fr inp st = (Inl (yerr RoomNotFound ''room not found''), st\<lparr>fs_kv := kv\<rparr>)"
    using ins assms(1-6,9) by (simp add: svc_feed_create_def create_flags_def create_first_def create_room_def)
  have "filter (\<lambda>r. rq_idem r = fi_idem inp) (rows_in order' (fs_requests st)) = []"
    using assms(10) by (auto simp: filter_empty_conv set_rows_in)
  then show ?thesis
    using first ins' assms(1-6) by (simp add: RegisterRoom_def) (simp add: svc_feed_create_def create_flags_def)
qed

section \<open>Witnesses\<close>

theorem key_shared_between_users_witness:
  "\<exists>kv. svc_feed_create demo_env [''feed_1''] (demo_fresh ''2'' hour) (demo_input ''k1''\<lparr>fi_user := ''u2''\<rparr>)
     (demo_start\<lparr>fs_requests := [''feed_1'' \<mapsto> demo_request],
        fs_kv := [idem_key ''feed'' ''k1'' \<mapsto> \<lparr>e_val = ''1'', e_counter = 0, e_expire = 3 * hour\<rparr>]\<rparr>) =
   (Inr demo_request, demo_start\<lparr>fs_requests := [''feed_1'' \<mapsto> demo_request], fs_kv := kv\<rparr>)"
proof -
  let ?st = "demo_start\<lparr>fs_requests := [''feed_1'' \<mapsto> demo_request],
        fs_kv := [idem_key ''feed'' ''k1'' \<mapsto> \<lparr>e_val = ''1'', e_counter = 0, e_expire = 3 * hour\<rparr>]\<rparr>"
  have "mem_live (fs_kv ?st) (hour + 1) (idem_key ''feed'' ''k1'') \<noteq> None"
    by (simp add: mem_live_def mem_gc_def second_def)
  moreover have "rq_idem demo_request = ''k1''" by (simp add: demo_request_def new_request_def demo_input_def)
  ultimately show ?thesis
    using key_shared_between_users [of demo_env "demo_input ''k1''\<lparr>fi_user := ''u2''\<rparr>" "demo_fresh ''2'' hour" "hour + 1" ?st
        "''feed_1''" demo_request "[''feed_1'']"]
    by (auto simp: demo_env_def demo_input_def demo_fresh_def split: if_splits)
qed

theorem early_ack_loses_receipt_witness:
  "fs_receipts (snd (HandleAck (demo_env\<lparr>fe_outbox := False\<rparr>) (demo_fresh ''2'' hour)
     \<lparr>fa_request = ''feed_1'', fa_cmd = ''cmd_1'', fa_device = ''dev_demo'', fa_room = ''room_demo'', fa_status = ''succeeded'',
      fa_amount = 5, fa_remaining = 95, fa_executed = [], fa_errors = []\<rparr>
     (demo_start\<lparr>fs_requests := [''feed_1'' \<mapsto> demo_request\<lparr>rq_status := Queued\<rparr>], fs_receipts := [''feed_1'' \<mapsto> ''noop'']\<rparr>))) ''feed_1'' = None"
proof -
  let ?ack = "\<lparr>fa_request = ''feed_1'', fa_cmd = ''cmd_1'', fa_device = ''dev_demo'', fa_room = ''room_demo'', fa_status = ''succeeded'',
      fa_amount = 5, fa_remaining = 95, fa_executed = [], fa_errors = []\<rparr>"
  let ?st = "demo_start\<lparr>fs_requests := [''feed_1'' \<mapsto> demo_request\<lparr>rq_status := Queued\<rparr>], fs_receipts := [''feed_1'' \<mapsto> ''noop'']\<rparr>"
  have "mem_live Map.empty hour k = None" for k by (simp add: mem_live_def mem_gc_def)
  then obtain kv where "idem_insert mem_ops (48 * hour) hour ''ack'' ''cmd_1'' Map.empty = (Inr True, kv)"
    using mem.idem_insert_new [of Map.empty hour "''ack''" "''cmd_1''" "48 * hour"] by (metis prod.collapse)
  then show ?thesis
    using early_ack_loses_receipt [of "demo_env\<lparr>fe_outbox := False\<rparr>" "demo_fresh ''2'' hour" ?ack ?st kv
        "demo_request\<lparr>rq_status := Queued\<rparr>" "''noop''"]
    by (simp add: demo_env_def demo_fresh_def demo_start_def feeding_new_def demo_request_def new_request_def)
qed

theorem refused_creation_uses_key_up_witness:
  "fst (svc_feed_create demo_env [] (demo_fresh ''2'' (hour + 1)) (demo_input ''k1''\<lparr>fi_room := ''r9''\<rparr>)
     (RegisterRoom (feeding_room\<lparr>rm_id := ''r9''\<rparr>) (snd (svc_feed_create demo_env [] (demo_fresh ''1'' hour) (demo_input ''k1''\<lparr>fi_room := ''r9''\<rparr>) demo_start))))
   = Inl (yerr FeedDuplicateRequest ''duplicate request without record'')"
proof -
  have "mem_live Map.empty hour k = None" for k by (simp add: mem_live_def mem_gc_def)
  then show ?thesis
    using refused_creation_uses_key_up [of demo_env "demo_input ''k1''\<lparr>fi_room := ''r9''\<rparr>" demo_start "demo_fresh ''1'' hour" "demo_fresh ''2'' (hour + 1)" "[]" "[]"
        "feeding_room\<lparr>rm_id := ''r9''\<rparr>"]
    by (simp add: demo_env_def demo_input_def demo_fresh_def demo_start_def feeding_new_def) (simp add: second_def)
qed

end
