(* ===== verification/FeedingHttpBilling.thy ===== *)
theory FeedingHttpBilling
  imports FeedingSaga
begin

text \<open>
  \<^verbatim>\<open>go/services/feeding-svc/internal/service/billing_http.go\<close>: the billing hook over HTTP.  The HTTP client
  and the remote service are one parameter, a function from a path and a body to an error or a status
  and a text, on a state of its own; the JSON decoder is another.
\<close>

record http_hold =
  hh_id :: string
  hh_status :: string

record 'b http_env =
  he_do :: "string \<Rightarrow> (string \<times> json) list option \<Rightarrow> 'b \<Rightarrow> (go_error, nat \<times> string, 'b) outcome"
  he_decode :: "string \<Rightarrow> go_error + http_hold"
  he_base :: string
  he_fallback :: bool

definition EOF :: go_error where
  "EOF = Plain ''EOF''"

definition http_post :: "'b http_env \<Rightarrow> string \<Rightarrow> (string \<times> json) list option \<Rightarrow> 'b \<Rightarrow> (go_error, http_hold, 'b) outcome" where
  "http_post env path body b =
     (case he_do env (he_base env @ path) body b of
        (Inl e, b') \<Rightarrow> (Inl e, b')
      | (Inr (code, text), b') \<Rightarrow>
          if 400 \<le> code then (Inl (Plain (''billing-svc '' @ path @ '' -> '' @ dec_int (int code) @ '': '' @ text)), b')
          else if code = 204 then (Inr \<lparr>hh_id = [], hh_status = []\<rparr>, b')
          else (case he_decode env text of
              Inl e \<Rightarrow> (if errors_is e EOF then Inr \<lparr>hh_id = [], hh_status = []\<rparr> else Inl e, b')
            | Inr h \<Rightarrow> (Inr h, b')))"

definition http_reserve :: "'b http_env \<Rightarrow> fresh \<Rightarrow> billing_input \<Rightarrow> 'b \<Rightarrow> (go_error, string, 'b) outcome" where
  "http_reserve env fr inp b =
     (case http_post env ''/api/v1/wallets/holds''
             (Some [(''user_id'', JStr (bi_user inp)), (''room_id'', JStr (bi_room inp)), (''cat_id'', JStr (bi_cat inp)),
                    (''idempotency_key'', JStr (bi_idem inp)), (''amount_grams'', JInt (uint (bi_amount inp))), (''ttl_seconds'', JInt 60)]) b of
        (Inl e, b') \<Rightarrow> (if he_fallback env then Inr ''noop'' else Inl e, b')
      | (Inr h, b') \<Rightarrow> (Inr (hh_id h), b'))"

definition http_confirm :: "'b http_env \<Rightarrow> fresh \<Rightarrow> string \<Rightarrow> 'b \<Rightarrow> (go_error, unit, 'b) outcome" where
  "http_confirm env fr rc b =
     (if rc = ''noop'' then (Inr (), b)
      else case http_post env (''/api/v1/wallets/holds/'' @ rc @ ''/confirm'') None b of
        (Inl e, b') \<Rightarrow> (Inl e, b') | (Inr _, b') \<Rightarrow> (Inr (), b'))"

definition http_cancel :: "'b http_env \<Rightarrow> fresh \<Rightarrow> string \<Rightarrow> 'b \<Rightarrow> (go_error, unit, 'b) outcome" where
  "http_cancel env fr rc b =
     (if rc = ''noop'' then (Inr (), b)
      else case http_post env (''/api/v1/wallets/holds/'' @ rc @ ''/cancel'') (Some [(''reason'', JStr ''feeding-svc cancel'')]) b of
        (Inl e, b') \<Rightarrow> (Inl e, b') | (Inr _, b') \<Rightarrow> (Inr (), b'))"

definition HTTPBilling :: "'b http_env \<Rightarrow> 'b billing_hook" where
  "HTTPBilling env = \<lparr>bh_reserve = http_reserve env, bh_confirm = http_confirm env, bh_cancel = http_cancel env\<rparr>"

definition NewHTTPBilling ::
  "(string \<Rightarrow> (string \<times> json) list option \<Rightarrow> 'b \<Rightarrow> (go_error, nat \<times> string, 'b) outcome) \<Rightarrow> (string \<Rightarrow> go_error + http_hold) \<Rightarrow> string \<Rightarrow> 'b http_env" where
  "NewHTTPBilling exchange decode base = \<lparr>he_do = exchange, he_decode = decode, he_base = base, he_fallback = False\<rparr>"

section \<open>What a reservation costs\<close>

text \<open>The hook over HTTP, whatever the other side answers.  With the fallback switched on a reservation is never
  refused, so no creation is; a reservation that fell back makes no further call; with the fallback
  off every transport error and every status from 400 on refuses the creation before a request exists.\<close>

theorem http_billing_degrades:
  "(he_fallback env \<longrightarrow> (\<exists>rc. fst (http_reserve env fr inp b) = Inr rc)) \<and>
   (\<forall>b. http_confirm env fr ''noop'' b = (Inr (), b) \<and> http_cancel env fr ''noop'' b = (Inr (), b)) \<and>
   (\<not> he_fallback env \<and> (\<forall>p q b c t. fst (he_do env p q b) = Inr (c, t) \<longrightarrow> 400 \<le> c) \<longrightarrow>
      (\<exists>e. fst (http_reserve env fr inp b) = Inl e) \<and>
      (fe_billing fenv = HTTPBilling env \<longrightarrow> fs_requests (snd (create_first fenv ffr finp st)) = fs_requests st))"
proof (intro conjI impI)
  assume "he_fallback env"
  then show "\<exists>rc. fst (http_reserve env fr inp b) = Inr rc" by (simp add: http_reserve_def split: prod.split sum.split)
next
  show "\<forall>b. http_confirm env fr ''noop'' b = (Inr (), b) \<and> http_cancel env fr ''noop'' b = (Inr (), b)"
    by (simp add: http_confirm_def http_cancel_def)
next
  assume down: "\<not> he_fallback env \<and> (\<forall>p q b c t. fst (he_do env p q b) = Inr (c, t) \<longrightarrow> 400 \<le> c)"
  have post: "\<exists>e b'. http_post env p q b = (Inl e, b')" for p q b
  proof -
    obtain x b' where call: "he_do env (he_base env @ p) q b = (x, b')" by (rule prod.exhaust)
    show ?thesis
    proof (cases x)
      case (Inl e)
      then show ?thesis using call by (simp add: http_post_def)
    next
      case (Inr ct)
      obtain c t where ct: "ct = (c, t)" by (cases ct)
      then have "fst (he_do env (he_base env @ p) q b) = Inr (c, t)" using call Inr by simp
      then have "400 \<le> c" using down by blast
      then show ?thesis using call Inr ct by (simp add: http_post_def)
    qed
  qed
  have refuse: "\<exists>e b'. http_reserve env fr inp b = (Inl e, b')" for fr inp b
  proof -
    obtain e b' where "http_post env ''/api/v1/wallets/holds''
             (Some [(''user_id'', JStr (bi_user inp)), (''room_id'', JStr (bi_room inp)), (''cat_id'', JStr (bi_cat inp)),
                    (''idempotency_key'', JStr (bi_idem inp)), (''amount_grams'', JInt (uint (bi_amount inp))), (''ttl_seconds'', JInt 60)]) b = (Inl e, b')"
      using post by blast
    then show ?thesis using down by (simp add: http_reserve_def)
  qed
  then show "\<exists>e. fst (http_reserve env fr inp b) = Inl e" by (metis fst_conv)
  show "fs_requests (snd (create_first fenv ffr finp st)) = fs_requests st" if hook: "fe_billing fenv = HTTPBilling env"
  proof (cases "create_room finp st")
      case (Inl e)
      then show ?thesis by (simp add: create_first_def)
    next
      case (Inr rm)
      obtain e1 st1 where cd: "create_cooldown fenv (ff_now ffr) finp rm st = (e1, st1)" by (rule prod.exhaust)
      then have "fs_requests st1 = fs_requests st" using create_cooldown_frame [OF cd] by auto
      moreover obtain e b' where "http_reserve env (ff_bill ffr)
          \<lparr>bi_user = fi_user finp, bi_room = fi_room finp, bi_cat = rm_cat rm, bi_amount = fi_amount finp, bi_idem = fi_idem finp\<rparr>
          (fs_billing st1) = (Inl e, b')" using refuse by blast
      ultimately show ?thesis using Inr cd hook by (simp add: create_first_def HTTPBilling_def split: option.split)
  qed
qed

definition http_down :: "unit http_env" where
  "http_down = NewHTTPBilling (\<lambda>p q b. (Inr (503, ''down''), b)) (\<lambda>_. Inl EOF) ''http://billing''"

theorem http_billing_degrades_witness:
  "(\<exists>e. fst (http_reserve http_down \<lparr>fr_id = ''1'', fr_uuid = ''1'', fr_now = 0, fr_event_now = 0\<rparr>
      \<lparr>bi_user = ''u'', bi_room = ''r'', bi_cat = ''c'', bi_amount = 5, bi_idem = ''k''\<rparr> ()) = Inl e)"
proof -
  have "\<not> he_fallback http_down \<and> (\<forall>p q b c t. fst (he_do http_down p q b) = Inr (c, t) \<longrightarrow> 400 \<le> c)"
    by (simp add: http_down_def NewHTTPBilling_def)
  then show ?thesis
    by (rule conjunct1 [OF mp [OF conjunct2 [OF conjunct2 [OF http_billing_degrades]]]])
qed

end
