(* ===== verification/Base64Url.thy ===== *)
theory Base64Url
  imports Prelude
begin

unbundle bit_operations_syntax

text \<open>
  \<open>base64URLEncode\<close>, written out by hand in \<^verbatim>\<open>go/pkg/yunmao/authjwt/keyprovider.go\<close> and once more in
  \<^verbatim>\<open>go/pkg/yunmao/kms/kms.go\<close>: bytes are shifted through a 32-bit buffer and six bits at a time are
  looked up.  The buffer is never masked and overflows; the proof shows that this does no harm.
\<close>

type_synonym byte = "8 word"

definition b64_alphabet :: string where
  "b64_alphabet = ''ABCDEFGHIJKLMNOPQRSTUVWXYZabcdefghijklmnopqrstuvwxyz0123456789-_''"

definition b64_char :: "u32 \<Rightarrow> char" where
  "b64_char w = b64_alphabet ! unat (w AND 0x3f)"

text \<open>The next byte is shifted in from below.\<close>

definition shift_in :: "u32 \<Rightarrow> byte \<Rightarrow> u32" where
  "shift_in buf x = (push_bit 8 buf OR ucast x)"

text \<open>The inner loop: while there are six bits, one character.\<close>

fun b64_flush :: "u32 \<Rightarrow> nat \<Rightarrow> string \<Rightarrow> nat \<times> string" where
  "b64_flush buf bits out =
     (if 6 \<le> bits then b64_flush buf (bits - 6) (out @ [b64_char (drop_bit (bits - 6) buf)]) else (bits, out))"

declare b64_flush.simps [simp del]

fun b64_loop :: "byte list \<Rightarrow> u32 \<Rightarrow> nat \<Rightarrow> string \<Rightarrow> u32 \<times> nat \<times> string" where
  "b64_loop [] buf bits out = (buf, bits, out)"
| "b64_loop (x # bs) buf bits out =
     (let buf' = shift_in buf x; (bits', out') = b64_flush buf' (bits + 8) out
      in b64_loop bs buf' bits' out')"

definition base64URLEncode :: "byte list \<Rightarrow> string" where
  "base64URLEncode bs =
     (case b64_loop bs 0 0 [] of (buf, bits, out) \<Rightarrow>
        if 0 < bits then out @ [b64_char (push_bit (6 - bits) buf)] else out)"

section \<open>The reference: RFC 4648 without padding\<close>

definition sextet :: "nat \<Rightarrow> char" where
  "sextet n = b64_alphabet ! n"

fun rfc4648 :: "byte list \<Rightarrow> string" where
  "rfc4648 [] = []"
| "rfc4648 [a] = [sextet (unat a div 4), sextet (unat a mod 4 * 16)]"
| "rfc4648 [a, b] = [sextet (unat a div 4), sextet (unat a mod 4 * 16 + unat b div 16), sextet (unat b mod 16 * 4)]"
| "rfc4648 (a # b # c # bs) =
     sextet (unat a div 4) # sextet (unat a mod 4 * 16 + unat b div 16) #
     sextet (unat b mod 16 * 4 + unat c div 64) # sextet (unat c mod 64) # rfc4648 bs"

section \<open>Equivalence\<close>

lemma low6: "unat ((w :: u32) AND 0x3f) = unat w mod 64"
proof -
  have "w AND 0x3f = w mod 64"
    using take_bit_eq_mask [of 6 w] by (simp add: mask_eq_exp_minus_1 take_bit_eq_mod)
  then show ?thesis by (simp add: unat_mod)
qed

lemma unat_byte: "unat (a :: byte) < 256"
  using unsigned_less [of a] by simp

text \<open>The buffer as a number: what lies above bit 32 is lost, what matters is below bit 16.\<close>

lemma unat_ucast_byte: "unat (ucast (x :: byte) :: u32) = unat x"
  by (simp add: unsigned_ucast_eq take_bit_nat_eq_self_iff) (use unat_byte [of x] in linarith)

lemma buf_step: "unat (shift_in buf x) mod 65536 = (unat buf * 256 + unat x) mod 65536"
proof -
  have "shift_in buf x = push_bit 8 buf + ucast x"
    unfolding shift_in_def
    by (rule disjunctive_add [symmetric]) (auto simp: bit_simps dest: bit_imp_le_length)
  then show ?thesis
    by (simp add: unat_word_ariths push_bit_eq_mult unat_ucast_byte mod_simps mod_mod_cancel)
qed

lemma unat_two_power: "k \<le> 6 \<Longrightarrow> unat (2 ^ k :: u32) = 2 ^ k"
  by (cases "k = 0 \<or> k = 1 \<or> k = 2 \<or> k = 3 \<or> k = 4 \<or> k = 5 \<or> k = 6") auto

lemma char_shift: "k \<le> 6 \<Longrightarrow> b64_char (drop_bit k buf) = sextet (unat buf div 2 ^ k mod 64)"
  by (simp add: b64_char_def sextet_def low6 drop_bit_eq_div unat_div unat_two_power)

lemma char_push: "k \<le> 6 \<Longrightarrow> b64_char (push_bit k buf) = sextet (unat buf * 2 ^ k mod 64)"
  by (simp add: b64_char_def sextet_def low6 push_bit_eq_mult unat_word_ariths mod_mod_cancel unat_two_power)

text \<open>What is emitted is only appended, so the output so far can be pulled out of the loop.\<close>

lemma flush_prefix: "b64_flush buf bits (p @ out) = (case b64_flush buf bits out of (n, q) \<Rightarrow> (n, p @ q))"
proof (induction buf bits out rule: b64_flush.induct)
  case (1 buf bits out)
  then show ?case
    by (subst (1 2) b64_flush.simps) simp
qed

lemma loop_prefix: "b64_loop bs buf bits (p @ out) = (case b64_loop bs buf bits out of (b, n, q) \<Rightarrow> (b, n, p @ q))"
  by (induction bs buf bits out rule: b64_loop.induct)
    (auto simp: flush_prefix Let_def split: prod.splits)

lemma flush_8: "b64_flush buf 8 out = (2, out @ [b64_char (drop_bit 2 buf)])"
  and flush_10: "b64_flush buf 10 out = (4, out @ [b64_char (drop_bit 4 buf)])"
  and flush_12: "b64_flush buf 12 out = (0, out @ [b64_char (drop_bit 6 buf), b64_char buf])"
  by (simp_all add: b64_flush.simps)

text \<open>The characters after the first, second and third byte of a group.\<close>

lemma shift_in_low: "unat (shift_in buf x) mod 256 = unat x"
proof -
  have "unat (shift_in buf x) mod 256 = unat (shift_in buf x) mod 65536 mod 256" by (simp add: mod_mod_cancel)
  also have "\<dots> = (unat buf * 256 + unat x) mod 256" by (simp add: buf_step mod_mod_cancel)
  finally show ?thesis using unat_byte [of x] by simp
qed

lemma cut_mod: "(m :: nat) mod (d * 64) div d = m div d mod 64"
  by (cases "d = 0") (simp_all add: mod_mult2_eq)

lemma cut_div: "\<lbrakk>m mod 65536 = e; d * 64 * r = 65536\<rbrakk> \<Longrightarrow> m div d mod 64 = e div d mod (64 :: nat)"
  by (metis cut_mod mod_mult_right_eq mod_mod_cancel dvd_triv_left)

lemma cut_16: "(x * 256 + y) div 16 mod 64 = x mod 4 * 16 + y div (16 :: nat)" if "y < 256"
proof -
  have "(x * 256 + y) div 16 = x * 16 + y div 16"
    using div_mult_self1 [of 16 y "x * 16"] by (simp add: ac_simps)
  moreover have "y div 16 < 16" using that by simp
  moreover have "x * 16 mod 64 = x mod 4 * 16" using mult_mod_left [of x 4 16] by simp
  ultimately show ?thesis using mod_mult2_eq [of "x*16 + y div 16" 16 4] by (simp add: ac_simps)
qed

lemma cut_64: "(x * 256 + y) div 64 mod 64 = x mod 16 * 4 + y div (64 :: nat)" if "y < 256"
proof -
  have "(x * 256 + y) div 64 = x * 4 + y div 64"
    using div_mult_self1 [of 64 y "x * 4"] by (simp add: ac_simps)
  moreover have "y div 64 < 4" using that by simp
  ultimately show ?thesis using mod_mult2_eq [of "x*4 + y div 64" 4 16] by (simp add: ac_simps)
qed

lemma low_4: "(m :: nat) mod 65536 = x * 256 + y \<Longrightarrow> m * 4 mod 64 = y mod 16 * 4"
proof -
  assume a: "m mod 65536 = x * 256 + y"
  have "m mod 16 = (m mod 65536) mod 16" by (simp add: mod_mod_cancel)
  also have "\<dots> = y mod 16" unfolding a using mod_mult_self1 [of y "x * 16" 16] by (simp add: ac_simps)
  finally show ?thesis using mult_mod_left [of m 16 4] mult_mod_left [of y 16 4] by simp
qed

lemma high_6: "(m :: nat) mod 256 = x \<Longrightarrow> m div 4 mod 64 = x div 4" using cut_mod [of m 4] by simp

lemma low_2: "(m :: nat) mod 256 = x \<Longrightarrow> m * 16 mod 64 = x mod 4 * 16"
  using mult_mod_left [of m 4 16] mod_mod_cancel [of 4 256 m] by simp

lemma low_6: "(m :: nat) mod 256 = x \<Longrightarrow> m mod 64 = x mod 64"
  using mod_mod_cancel [of 64 256 m] by simp

lemma nat_second: "\<lbrakk>m mod 65536 = (n * 256 + x) mod 65536; x < 256; n mod 256 = a\<rbrakk> \<Longrightarrow> m mod 65536 = a * 256 + (x :: nat)"
  using mod_mult2_eq [of "n * 256 + x" 256 256] by (simp add: ac_simps)

lemma shift_in_two: "unat (shift_in (shift_in buf x) y) mod 65536 = unat x * 256 + unat y"
  by (rule nat_second [OF buf_step unat_byte shift_in_low])

lemma char_1: "b64_char (drop_bit 2 (shift_in buf x)) = sextet (unat x div 4)"
  and char_1': "b64_char (push_bit 4 (shift_in buf x)) = sextet (unat x mod 4 * 16)"
  and char_4: "b64_char (shift_in buf x) = sextet (unat x mod 64)"
  using high_6 [OF shift_in_low [of buf x]] low_2 [OF shift_in_low [of buf x]] low_6 [OF shift_in_low [of buf x]]
    char_shift [of 0 "shift_in buf x"]
  by (simp_all add: char_shift char_push)

lemma char_2: "b64_char (drop_bit 4 (shift_in (shift_in buf x) y)) = sextet (unat x mod 4 * 16 + unat y div 16)"
  using cut_div [OF shift_in_two [of buf x y], of 16 64] cut_16 [OF unat_byte, of "unat x" y]
  by (simp add: char_shift)

lemma char_3: "b64_char (drop_bit 6 (shift_in (shift_in buf x) y)) = sextet (unat x mod 16 * 4 + unat y div 64)"
  using cut_div [OF shift_in_two [of buf x y], of 64 16] cut_64 [OF unat_byte, of "unat x" y]
  by (simp add: char_shift)

lemma char_2': "b64_char (push_bit 2 (shift_in (shift_in buf x) y)) = sextet (unat y mod 16 * 4)"
  using low_4 [OF shift_in_two [of buf x y]] by (simp add: char_push)

text \<open>From any buffer with no bits pending the rest is coded as RFC 4648 says.\<close>

lemma loop_group: "b64_loop (x # y # z # bs) buf 0 [] =
  (case b64_loop bs (shift_in (shift_in (shift_in buf x) y) z) 0 [] of (b, n, out) \<Rightarrow>
     (b, n, [sextet (unat x div 4), sextet (unat x mod 4 * 16 + unat y div 16),
             sextet (unat y mod 16 * 4 + unat z div 64), sextet (unat z mod 64)] @ out))"
proof -
  have "b64_loop (x # y # z # bs) buf 0 [] = b64_loop bs (shift_in (shift_in (shift_in buf x) y) z) 0
      ([sextet (unat x div 4), sextet (unat x mod 4 * 16 + unat y div 16),
        sextet (unat y mod 16 * 4 + unat z div 64), sextet (unat z mod 64)] @ [])"
    by (simp add: flush_8 flush_10 flush_12 char_1 char_2 char_3 char_4)
  then show ?thesis by (simp only: loop_prefix)
qed

lemma loop_one: "b64_loop [x] buf 0 [] = (shift_in buf x, 2, [sextet (unat x div 4)])"
  and loop_two: "b64_loop [x, y] buf 0 [] = (shift_in (shift_in buf x) y, 4,
    [sextet (unat x div 4), sextet (unat x mod 4 * 16 + unat y div 16)])"
  by (simp_all add: flush_8 flush_10 char_1 char_2)

lemma loop_rfc4648:
  "(case b64_loop bs buf 0 [] of (b, n, out) \<Rightarrow> if 0 < n then out @ [b64_char (push_bit (6 - n) b)] else out) = rfc4648 bs"
proof (induction bs arbitrary: buf rule: rfc4648.induct)
  case (4 x y z bs)
  show ?case
    using 4 [of "shift_in (shift_in (shift_in buf x) y) z"]
    by (auto simp: loop_group simp del: b64_loop.simps split: prod.splits if_splits)
next
  case (2 x)
  show ?case by (simp add: loop_one char_1' del: b64_loop.simps)
next
  case (3 x y)
  show ?case by (simp add: loop_two char_2' del: b64_loop.simps)
qed simp

text \<open>C38: base64URLEncode, with its unmasked and overflowing 32-bit buffer, is the URL-safe base64 of RFC 4648
  without padding, for inputs of any length.\<close>

theorem base64_is_rfc4648: "base64URLEncode bs = rfc4648 bs"
  unfolding base64URLEncode_def by (rule loop_rfc4648)

end
