(* ===== verification/Keys.thy ===== *)
theory Keys
  imports AppErrors GoTime Base64Url
begin

text \<open>
  Signing keys: \<^verbatim>\<open>go/pkg/yunmao/authjwt/keyprovider.go\<close> (the interface \<open>KeyProvider\<close> and the provider that
  holds RSA keys) and the local key management of \<^verbatim>\<open>go/pkg/yunmao/kms/kms.go\<close> with its rotation.  An RSA key is
  its public half and an opaque secret, as in \<^verbatim>\<open>crypto/rsa\<close>; PEM and X.509 are parameters, and a freshly
  generated key is an argument of the call that draws it.
\<close>

section \<open>Keys and the provider interface\<close>

datatype algorithm = AlgHS256 | AlgRS256 | OtherAlg string

record rsa_public =
  rp_n :: nat
  rp_e :: int

record 'd rsa_private =
  sk_pub :: rsa_public
  sk_secret :: 'd

text \<open>\<open>Material any\<close>: what the code puts there, and the remote signers it asks for with a type assertion.\<close>

datatype 'd material = RsaPrivate "'d rsa_private" | RsaPublic rsa_public | Remote "byte list \<Rightarrow> go_error + byte list"

record 'd signing_key =
  sg_kid :: string
  sg_alg :: algorithm
  sg_material :: "'d material"

record 'd verifying_key =
  vk_kid :: string
  vk_alg :: algorithm
  vk_material :: "'d material"

text \<open>An entry of the published key set.\<close>

record jwk =
  jw_kid :: string
  jw_n :: string
  jw_e :: string

record ('d, 's) key_provider =
  kp_active :: "'s \<Rightarrow> go_error + 'd signing_key"
  kp_jwks :: "'s \<Rightarrow> jwk list"
  kp_verifying :: "string \<Rightarrow> 's \<Rightarrow> (go_error, 'd verifying_key, 's) outcome"

section \<open>Numbers as base64\<close>

text \<open>\<open>big.Int.Bytes\<close>: big-endian, without leading zeros, of the absolute value.\<close>

fun be_bytes :: "nat \<Rightarrow> byte list" where
  "be_bytes n = (if n = 0 then [] else be_bytes (n div 256) @ [word_of_nat (n mod 256)])"

declare be_bytes.simps [simp del]

definition base64UrlBig :: "nat \<Rightarrow> string" where
  "base64UrlBig n = base64URLEncode (be_bytes n)"

definition base64UrlInt :: "int \<Rightarrow> string" where
  "base64UrlInt e = base64URLEncode (be_bytes (nat \<bar>e\<bar>))"

text \<open>The version of \<^verbatim>\<open>kms.go\<close>: four bytes, leading zeros removed but for the last byte.\<close>

fun strip_zero_bytes :: "byte list \<Rightarrow> byte list" where
  "strip_zero_bytes (b # c # bs) = (if b = 0 then strip_zero_bytes (c # bs) else b # c # bs)"
| "strip_zero_bytes bs = bs"

definition kms_base64UrlInt :: "int \<Rightarrow> string" where
  "kms_base64UrlInt e = base64URLEncode (strip_zero_bytes (map (\<lambda>i. word_of_int (e div 2 ^ (8 * i))) [3, 2, 1, 0]))"

definition rsa_jwk :: "string \<Rightarrow> rsa_public \<Rightarrow> jwk" where
  "rsa_jwk kid p = \<lparr>jw_kid = kid, jw_n = base64UrlBig (rp_n p), jw_e = base64UrlInt (rp_e p)\<rparr>"

definition kms_jwk :: "string \<Rightarrow> rsa_public \<Rightarrow> jwk" where
  "kms_jwk kid p = \<lparr>jw_kid = kid, jw_n = base64UrlBig (rp_n p), jw_e = kms_base64UrlInt (rp_e p)\<rparr>"

section \<open>The provider with RSA keys from a file\<close>

record 'd rs_provider =
  rs_kid :: string
  rs_priv :: "'d rsa_private"
  rs_pubs :: "string \<rightharpoonup> rsa_public"

text \<open>PEM blocks and key encodings of the standard library; \<open>None\<close> of the inner option is another kind of key.\<close>

record 'd key_codec =
  kc_encode :: "string \<Rightarrow> string \<Rightarrow> string"
  kc_decode :: "string \<Rightarrow> (string \<times> string) option"
  kc_pkcs1 :: "string \<Rightarrow> go_error + 'd rsa_private"
  kc_pkcs8 :: "string \<Rightarrow> go_error + 'd rsa_private option"
  kc_pkix :: "string \<Rightarrow> go_error + rsa_public option"
  kc_marshal_pkcs1 :: "'d rsa_private \<Rightarrow> string"
  kc_marshal_pkix :: "rsa_public \<Rightarrow> go_error + string"

definition parseRSAPrivateKey :: "'d key_codec \<Rightarrow> string \<Rightarrow> go_error + 'd rsa_private" where
  "parseRSAPrivateKey cd b =
     (case kc_decode cd b of
        None \<Rightarrow> Inl (Plain ''authjwt: not a PEM block'')
      | Some (ty, bytes) \<Rightarrow>
          if ty = ''RSA PRIVATE KEY'' then kc_pkcs1 cd bytes
          else if ty = ''PRIVATE KEY'' then
            (case kc_pkcs8 cd bytes of
               Inl e \<Rightarrow> Inl e
             | Inr None \<Rightarrow> Inl (Plain ''authjwt: not an RSA key'')
             | Inr (Some k) \<Rightarrow> Inr k)
          else Inl (Plain (''authjwt: unsupported PEM block '' @ ty)))"

text \<open>The extra public keys come as a map; an empty kid is skipped.  The list of kids the constructor
  also fills is never read.\<close>

definition NewRSKeyProviderFromPEM :: "'d key_codec \<Rightarrow> string \<Rightarrow> string \<Rightarrow> (string \<rightharpoonup> rsa_public) \<Rightarrow> go_error + 'd rs_provider" where
  "NewRSKeyProviderFromPEM cd kid pem extra =
     (if kid = [] then Inl (Plain ''authjwt: kid required for RS256'')
      else (case parseRSAPrivateKey cd pem of
          Inl e \<Rightarrow> Inl e
        | Inr priv \<Rightarrow> Inr \<lparr>rs_kid = kid, rs_priv = priv, rs_pubs = [kid \<mapsto> sk_pub priv] ++ (extra ([] := None))\<rparr>))"

definition rs_active :: "'d rs_provider \<Rightarrow> go_error + 'd signing_key" where
  "rs_active r = Inr \<lparr>sg_kid = rs_kid r, sg_alg = AlgRS256, sg_material = RsaPrivate (rs_priv r)\<rparr>"

text \<open>A map is ranged over in the order \<open>ks\<close>.\<close>

definition rs_jwks :: "string list \<Rightarrow> 'd rs_provider \<Rightarrow> jwk list" where
  "rs_jwks ks r = List.map_filter (\<lambda>k. map_option (rsa_jwk k) (rs_pubs r k)) ks"

definition rs_verifying :: "string \<Rightarrow> 'd rs_provider \<Rightarrow> (go_error, 'd verifying_key, 'd rs_provider) outcome" where
  "rs_verifying kid r =
     (let k = (if kid = [] then rs_kid r else kid)
      in (case rs_pubs r k of
            None \<Rightarrow> (Inl (Plain (''authjwt: unknown kid '' @ [CHR 0x22] @ k @ [CHR 0x22])), r)
          | Some p \<Rightarrow> (Inr \<lparr>vk_kid = k, vk_alg = AlgRS256, vk_material = RsaPublic p\<rparr>, r)))"

definition rs_rotate :: "string \<Rightarrow> 'd rsa_private \<Rightarrow> 'd rs_provider \<Rightarrow> 'd rs_provider" where
  "rs_rotate kid priv r = r\<lparr>rs_kid := kid, rs_priv := priv, rs_pubs := (rs_pubs r)(kid \<mapsto> sk_pub priv)\<rparr>"

section \<open>The local key management\<close>

datatype key_state = StateActive | StateRetiring | StateRetired

record 'd key_record =
  kr_kid :: string
  kr_alg :: algorithm
  kr_state :: key_state
  kr_not_before :: time
  kr_not_after :: time
  kr_created :: time
  kr_private_pem :: string
  kr_public_pem :: string
  kr_priv :: "'d rsa_private option"
  kr_pub :: "rsa_public option"

record version_policy =
  vp_rotate :: duration
  vp_retire :: duration

definition DefaultVersionPolicy :: version_policy where
  "DefaultVersionPolicy = \<lparr>vp_rotate = 30 * 24 * hour, vp_retire = 7 * 24 * hour\<rparr>"

text \<open>The store of key versions; the provider ignores what its writes answer.\<close>

record ('d, 's) version_ops =
  vs_list :: "'s \<Rightarrow> go_error + 'd key_record list"
  vs_save :: "'d key_record \<Rightarrow> 's \<Rightarrow> 's"
  vs_update :: "string \<Rightarrow> key_state \<Rightarrow> 's \<Rightarrow> 's"

record ('d, 's) mock_kms =
  mk_name :: string
  mk_policy :: version_policy
  mk_versions :: "string \<rightharpoonup> 'd key_record"
  mk_active :: string
  mk_store :: 's

record ('d, 's) kms_env =
  ke_store :: "('d, 's) version_ops option"
  ke_codec :: "'d key_codec"

definition hydrate_private :: "'d key_codec \<Rightarrow> string \<Rightarrow> 'd rsa_private option" where
  "hydrate_private cd pem =
     (if pem = [] then None
      else (case kc_decode cd pem of
          None \<Rightarrow> None
        | Some (ty, bytes) \<Rightarrow>
            if ty = ''RSA PRIVATE KEY'' then (case kc_pkcs1 cd bytes of Inl _ \<Rightarrow> None | Inr k \<Rightarrow> Some k)
            else if ty = ''PRIVATE KEY'' then (case kc_pkcs8 cd bytes of Inr (Some k) \<Rightarrow> Some k | _ \<Rightarrow> None)
            else None))"

definition hydrate_public :: "'d key_codec \<Rightarrow> string \<Rightarrow> rsa_public option" where
  "hydrate_public cd pem =
     (if pem = [] then None
      else (case kc_decode cd pem of
          None \<Rightarrow> None
        | Some (ty, bytes) \<Rightarrow> (case kc_pkix cd bytes of Inr (Some k) \<Rightarrow> Some k | _ \<Rightarrow> None)))"

definition hydrateRecord :: "'d key_codec \<Rightarrow> 'd key_record \<Rightarrow> go_error + 'd key_record" where
  "hydrateRecord cd r =
     (if kr_priv r \<noteq> None \<and> kr_pub r \<noteq> None then Inr r
      else (case hydrate_private cd (kr_private_pem r) of
          Some k \<Rightarrow> Inr (r\<lparr>kr_priv := Some k, kr_pub := Some (sk_pub k)\<rparr>)
        | None \<Rightarrow> (case hydrate_public cd (kr_public_pem r) of
            Some p \<Rightarrow> Inr (r\<lparr>kr_pub := Some p\<rparr>)
          | None \<Rightarrow> Inl (Plain ''kms: record missing usable key material''))))"

definition update_state :: "('d, 's) kms_env \<Rightarrow> string \<Rightarrow> key_state \<Rightarrow> ('d, 's) mock_kms \<Rightarrow> ('d, 's) mock_kms" where
  "update_state env kid ks m =
     (case mk_versions m kid of
        None \<Rightarrow> m
      | Some r \<Rightarrow> m\<lparr>mk_versions := (mk_versions m)(kid \<mapsto> r\<lparr>kr_state := ks\<rparr>),
                    mk_store := (case ke_store env of None \<Rightarrow> mk_store m | Some ops \<Rightarrow> vs_update ops kid ks (mk_store m))\<rparr>)"

text \<open>The old active key, when there is one and it is in the state active.\<close>

definition retire_active :: "('d, 's) kms_env \<Rightarrow> ('d, 's) mock_kms \<Rightarrow> ('d, 's) mock_kms" where
  "retire_active env m =
     (if mk_active m = [] then m
      else (case mk_versions m (mk_active m) of
          None \<Rightarrow> m
        | Some r \<Rightarrow> if kr_state r = StateActive then update_state env (mk_active m) StateRetiring m else m))"

text \<open>The last loop, over the versions in the order \<open>ks\<close>.\<close>

definition expire_one :: "('d, 's) kms_env \<Rightarrow> time \<Rightarrow> string \<Rightarrow> ('d, 's) mock_kms \<Rightarrow> ('d, 's) mock_kms" where
  "expire_one env now k m =
     (case mk_versions m k of
        None \<Rightarrow> m
      | Some r \<Rightarrow> if kr_state r = StateRetiring \<and> vp_rotate (mk_policy m) + vp_retire (mk_policy m) < now - kr_created r
                  then update_state env k StateRetired m else m)"

definition new_kid :: "time \<Rightarrow> ('d, 's) mock_kms \<Rightarrow> string" where
  "new_kid now m = mk_name m @ ''-'' @ dec_int now"

definition new_record :: "('d, 's) kms_env \<Rightarrow> time \<Rightarrow> 'd rsa_private \<Rightarrow> string \<Rightarrow> ('d, 's) mock_kms \<Rightarrow> 'd key_record" where
  "new_record env now priv pub_bytes m =
     \<lparr>kr_kid = new_kid now m, kr_alg = AlgRS256, kr_state = StateActive, kr_not_before = now,
      kr_not_after = now + (vp_rotate (mk_policy m) + vp_retire (mk_policy m)), kr_created = now,
      kr_private_pem = kc_encode (ke_codec env) ''RSA PRIVATE KEY'' (kc_marshal_pkcs1 (ke_codec env) priv),
      kr_public_pem = kc_encode (ke_codec env) ''PUBLIC KEY'' pub_bytes,
      kr_priv = Some priv, kr_pub = Some (sk_pub priv)\<rparr>"

text \<open>What \<open>rsa.GenerateKey\<close> answers is the argument \<open>gen\<close>.\<close>

definition RotateNow ::
  "('d, 's) kms_env \<Rightarrow> go_error + 'd rsa_private \<Rightarrow> time \<Rightarrow> string list \<Rightarrow> ('d, 's) mock_kms \<Rightarrow>
   (go_error, string, ('d, 's) mock_kms) outcome" where
  "RotateNow env gen now ks m =
     (case gen of
        Inl e \<Rightarrow> (Inl (Wrap ''kms: generate rsa'' e), m)
      | Inr priv \<Rightarrow>
          (case kc_marshal_pkix (ke_codec env) (sk_pub priv) of
             Inl e \<Rightarrow> (Inl e, m)
           | Inr bytes \<Rightarrow>
               let kid = new_kid now m; r = new_record env now priv bytes m; m1 = retire_active env m;
                   m2 = m1\<lparr>mk_versions := (mk_versions m1)(kid \<mapsto> r), mk_active := kid,
                           mk_store := (case ke_store env of None \<Rightarrow> mk_store m1 | Some ops \<Rightarrow> vs_save ops r (mk_store m1))\<rparr>
               in (Inr kid, fold (expire_one env now) ks m2)))"

text \<open>Loading: every record with usable key material, the last active one wins.\<close>

definition load_one :: "'d key_codec \<Rightarrow> 'd key_record \<Rightarrow> ('d, 's) mock_kms \<Rightarrow> ('d, 's) mock_kms" where
  "load_one cd r m =
     (case hydrateRecord cd r of
        Inl _ \<Rightarrow> m
      | Inr r' \<Rightarrow> m\<lparr>mk_versions := (mk_versions m)(kr_kid r' \<mapsto> r'),
                     mk_active := (if kr_state r' = StateActive then kr_kid r' else mk_active m)\<rparr>)"

definition NewMockKmsProvider ::
  "('d, 's) kms_env \<Rightarrow> string \<Rightarrow> version_policy \<Rightarrow> go_error + 'd rsa_private \<Rightarrow> time \<Rightarrow> string list \<Rightarrow> 's \<Rightarrow> go_error + ('d, 's) mock_kms" where
  "NewMockKmsProvider env name policy gen now ks s =
     (let m0 = \<lparr>mk_name = name, mk_policy = (if vp_rotate policy = 0 then DefaultVersionPolicy else policy),
                mk_versions = Map.empty, mk_active = [], mk_store = s\<rparr>;
          m1 = (case ke_store env of
                  None \<Rightarrow> m0
                | Some ops \<Rightarrow> (case vs_list ops s of Inl _ \<Rightarrow> m0 | Inr rs \<Rightarrow> fold (load_one (ke_codec env)) rs m0))
      in if mk_active m1 = [] then (case RotateNow env gen now ks m1 of (Inl e, _) \<Rightarrow> Inl e | (Inr _, m2) \<Rightarrow> Inr m2)
         else Inr m1)"

definition kms_active :: "('d, 's) mock_kms \<Rightarrow> go_error + 'd signing_key" where
  "kms_active m =
     (case mk_versions m (mk_active m) of
        None \<Rightarrow> Inl (Plain ''kms: no active key'')
      | Some r \<Rightarrow> (case kr_priv r of
          None \<Rightarrow> Inl (Plain ''kms: no active key'')
        | Some k \<Rightarrow> Inr \<lparr>sg_kid = kr_kid r, sg_alg = kr_alg r, sg_material = RsaPrivate k\<rparr>))"

text \<open>The public half of a record in the table is never nil (\<open>hydrateRecord\<close> and \<open>RotateNow\<close> set it), so the
  branches for \<open>kr_pub r = None\<close> below are not reached; see \<open>kms_inv\<close> in \<^verbatim>\<open>KeyRotation\<close>.\<close>

definition kms_jwks :: "string list \<Rightarrow> ('d, 's) mock_kms \<Rightarrow> jwk list" where
  "kms_jwks ks m =
     List.map_filter (\<lambda>k. case mk_versions m k of
        None \<Rightarrow> None
      | Some r \<Rightarrow> if kr_state r = StateRetired then None else map_option (kms_jwk (kr_kid r)) (kr_pub r)) ks"

definition kms_verifying :: "string \<Rightarrow> ('d, 's) mock_kms \<Rightarrow> (go_error, 'd verifying_key, ('d, 's) mock_kms) outcome" where
  "kms_verifying kid m =
     (let k = (if kid = [] then mk_active m else kid)
      in (case mk_versions m k of
            None \<Rightarrow> (Inl (Plain (''kms: unknown kid '' @ [CHR 0x22] @ k @ [CHR 0x22])), m)
          | Some r \<Rightarrow> (case kr_pub r of
              None \<Rightarrow> (Inl (Plain (''kms: unknown kid '' @ [CHR 0x22] @ k @ [CHR 0x22])), m)
            | Some p \<Rightarrow> (Inr \<lparr>vk_kid = kr_kid r, vk_alg = kr_alg r, vk_material = RsaPublic p\<rparr>, m))))"

definition SnapshotVersions :: "string list \<Rightarrow> ('d, 's) mock_kms \<Rightarrow> 'd key_record list" where
  "SnapshotVersions ks m = map (\<lambda>r. r\<lparr>kr_priv := None\<rparr>) (rows_in ks (mk_versions m))"

section \<open>What a verifier relies on\<close>

text \<open>The law between \<open>Active\<close> and \<open>VerifyingByKid\<close>: what a provider signs with now, it verifies with
  later.  \<open>later\<close> is what may happen to the provider in between.\<close>

locale key_source =
  fixes active :: "'s \<Rightarrow> go_error + 'd signing_key"
    and verifying :: "string \<Rightarrow> 's \<Rightarrow> (go_error, 'd verifying_key, 's) outcome"
    and inv :: "'s \<Rightarrow> bool"
    and later :: "'s \<Rightarrow> 's \<Rightarrow> bool"
  assumes local_key: "\<lbrakk>inv s; active s = Inr k\<rbrakk> \<Longrightarrow> \<exists>p. sg_material k = RsaPrivate p"
    and verifies: "\<lbrakk>inv s; active s = Inr k; sg_material k = RsaPrivate p; later s s'\<rbrakk>
      \<Longrightarrow> fst (verifying (sg_kid k) s') = Inr \<lparr>vk_kid = sg_kid k, vk_alg = sg_alg k, vk_material = RsaPublic (sk_pub p)\<rparr>"

section \<open>The provider from a file keeps its word\<close>

definition rs_inv :: "'d rs_provider \<Rightarrow> bool" where
  "rs_inv r \<longleftrightarrow> rs_kid r \<noteq> [] \<and> rs_pubs r (rs_kid r) = Some (sk_pub (rs_priv r))"

text \<open>Rotations to kids that are not in use.\<close>

inductive rs_later :: "'d rs_provider \<Rightarrow> 'd rs_provider \<Rightarrow> bool" where
  rs_refl: "rs_later r r"
| rs_step: "\<lbrakk>rs_later r r'; kid \<noteq> []; rs_pubs r' kid = None\<rbrakk> \<Longrightarrow> rs_later r (rs_rotate kid priv r')"

lemma rs_later_keeps: "rs_later r r' \<Longrightarrow> rs_pubs r k = Some p \<Longrightarrow> rs_pubs r' k = Some p"
  by (induction rule: rs_later.induct) (auto simp: rs_rotate_def)

interpretation rs: key_source rs_active rs_verifying rs_inv rs_later
proof
  fix r r' :: "'d rs_provider" and k p
  assume inv: "rs_inv r" and act: "rs_active r = Inr k"
  show "\<exists>p. sg_material k = RsaPrivate p" using act by (auto simp: rs_active_def)
  assume "sg_material k = RsaPrivate p" and "rs_later r r'"
  moreover have "rs_pubs r' (rs_kid r) = Some (sk_pub (rs_priv r))"
    by (rule rs_later_keeps [OF \<open>rs_later r r'\<close>]) (use inv in \<open>simp add: rs_inv_def\<close>)
  ultimately show "fst (rs_verifying (sg_kid k) r') = Inr \<lparr>vk_kid = sg_kid k, vk_alg = sg_alg k, vk_material = RsaPublic (sk_pub p)\<rparr>"
    using inv act by (auto simp: rs_active_def rs_verifying_def rs_inv_def)
qed

text \<open>A provider that was made starts within the invariant unless the extra keys list its own kid.\<close>

lemma rs_new_inv:
  "NewRSKeyProviderFromPEM cd kid pem extra = Inr r \<Longrightarrow> extra kid = None \<Longrightarrow> rs_inv r"
  by (auto simp: NewRSKeyProviderFromPEM_def rs_inv_def map_add_def split: if_splits sum.splits option.splits)

lemma rs_rotate_inv: "kid \<noteq> [] \<Longrightarrow> rs_inv (rs_rotate kid priv r)"
  by (simp add: rs_inv_def rs_rotate_def)

end
