(* ===== verification/KeyRotation.thy ===== *)
theory KeyRotation
  imports Keys
begin

text \<open>
  The life of a key under rotation (\<^verbatim>\<open>kms.go\<close>): one active key at any time, what the published set
  holds after a rotation, and that every key ever made keeps verifying.
\<close>

section \<open>A rotation in closed form\<close>

definition expired :: "version_policy \<Rightarrow> time \<Rightarrow> 'd key_record \<Rightarrow> bool" where
  "expired p now r \<longleftrightarrow> vp_rotate p + vp_retire p < now - kr_created r"

definition expire_record :: "version_policy \<Rightarrow> time \<Rightarrow> 'd key_record \<Rightarrow> 'd key_record" where
  "expire_record p now r = (if kr_state r = StateRetiring \<and> expired p now r then r\<lparr>kr_state := StateRetired\<rparr> else r)"

definition step_down :: "('d, 's) mock_kms \<Rightarrow> string \<Rightarrow> 'd key_record \<Rightarrow> 'd key_record" where
  "step_down m k r = (if k = mk_active m \<and> k \<noteq> [] \<and> kr_state r = StateActive then r\<lparr>kr_state := StateRetiring\<rparr> else r)"

lemma update_state_frame [simp]:
  "mk_name (update_state env k ks m) = mk_name m" "mk_policy (update_state env k ks m) = mk_policy m"
  "mk_active (update_state env k ks m) = mk_active m"
  "mk_versions (update_state env k ks m) = (mk_versions m)(k := map_option (\<lambda>r. r\<lparr>kr_state := ks\<rparr>) (mk_versions m k))"
  by (auto simp: update_state_def split: option.split)

lemma expire_one_frame [simp]:
  "mk_name (expire_one env now k m) = mk_name m" "mk_policy (expire_one env now k m) = mk_policy m"
  "mk_active (expire_one env now k m) = mk_active m"
  "mk_versions (expire_one env now k m) = (mk_versions m)(k := map_option (expire_record (mk_policy m) now) (mk_versions m k))"
  by (auto simp: expire_one_def expire_record_def expired_def split: option.split)

lemma expire_record_idem [simp]: "expire_record p now (expire_record p now r) = expire_record p now r"
  by (simp add: expire_record_def)

lemma fold_expire:
  "mk_name (fold (expire_one env now) ks m) = mk_name m \<and> mk_policy (fold (expire_one env now) ks m) = mk_policy m \<and>
   mk_active (fold (expire_one env now) ks m) = mk_active m \<and>
   mk_versions (fold (expire_one env now) ks m) k =
     (if k \<in> set ks then map_option (expire_record (mk_policy m) now) (mk_versions m k) else mk_versions m k)"
  by (induction ks arbitrary: m) (auto simp: option.map_comp comp_def)

lemma retire_active_frame [simp]:
  "mk_name (retire_active env m) = mk_name m" "mk_policy (retire_active env m) = mk_policy m"
  "mk_active (retire_active env m) = mk_active m"
  "mk_versions (retire_active env m) k = map_option (step_down m k) (mk_versions m k)"
  by (cases "mk_versions m k"; auto simp: retire_active_def step_down_def split: option.split)+

text \<open>What a successful rotation leaves.\<close>

lemma RotateNow_result:
  assumes "RotateNow env gen now ks m = (Inr kid, m')"
  obtains priv bytes where "gen = Inr priv" and "kid = new_kid now m" and "mk_active m' = kid"
    and "mk_name m' = mk_name m" and "mk_policy m' = mk_policy m"
    and "mk_versions m' = (\<lambda>k.
       if k = kid then Some (new_record env now priv bytes m)
       else if k \<in> set ks then map_option (\<lambda>r. expire_record (mk_policy m) now (step_down m k r)) (mk_versions m k)
       else map_option (step_down m k) (mk_versions m k))"
proof -
  obtain priv bytes where *: "gen = Inr priv" "kc_marshal_pkix (ke_codec env) (sk_pub priv) = Inr bytes"
    using assms by (auto simp: RotateNow_def split: sum.splits)
  have fresh: "expire_record p now (new_record env now priv bytes m) = new_record env now priv bytes m" for p
    by (simp add: expire_record_def new_record_def)
  show ?thesis
    by (rule that [of priv bytes])
      (use assms * fresh in \<open>auto simp: RotateNow_def Let_def fold_expire option.map_comp comp_def\<close>)
qed

lemma RotateNow_dom:
  assumes "RotateNow env gen now ks m = (Inr kid, m')"
  shows "dom (mk_versions m') = insert kid (dom (mk_versions m))"
  using assms by (rule RotateNow_result) (auto simp: dom_def)

lemma RotateNow_error: "RotateNow env gen now ks m = (Inl e, m') \<Longrightarrow> m' = m"
  by (auto simp: RotateNow_def Let_def split: sum.splits)

section \<open>The invariant\<close>

definition good_record :: "string \<Rightarrow> 'd key_record \<Rightarrow> bool" where
  "good_record k r \<longleftrightarrow> kr_kid r = k \<and> k \<noteq> [] \<and> kr_pub r \<noteq> None \<and> (\<forall>s. kr_priv r = Some s \<longrightarrow> kr_pub r = Some (sk_pub s))"

definition kms_inv :: "('d, 's) mock_kms \<Rightarrow> bool" where
  "kms_inv m \<longleftrightarrow>
     (\<forall>k r. mk_versions m k = Some r \<longrightarrow> good_record k r) \<and>
     (\<exists>r. mk_versions m (mk_active m) = Some r \<and> kr_state r = StateActive) \<and>
     (\<forall>k r. mk_versions m k = Some r \<and> kr_state r = StateActive \<longrightarrow> k = mk_active m)"

lemma step_expire_simps [simp]:
  "kr_kid (expire_record p now r) = kr_kid r" "kr_kid (step_down m k r) = kr_kid r"
  "kr_pub (expire_record p now r) = kr_pub r" "kr_pub (step_down m k r) = kr_pub r"
  "kr_priv (expire_record p now r) = kr_priv r" "kr_priv (step_down m k r) = kr_priv r"
  "kr_alg (expire_record p now r) = kr_alg r" "kr_alg (step_down m k r) = kr_alg r"
  "kr_created (expire_record p now r) = kr_created r" "kr_created (step_down m k r) = kr_created r"
  by (simp_all add: expire_record_def step_down_def)

lemma good_record_step [simp]:
  "good_record k (expire_record p now r) = good_record k r" "good_record k (step_down m k' r) = good_record k r"
  by (simp_all add: good_record_def)

lemma new_kid_nonempty [simp]: "new_kid now m \<noteq> []"
  by (simp add: new_kid_def)

lemma new_record_simps [simp]:
  "kr_kid (new_record env now priv bytes m) = new_kid now m" "kr_state (new_record env now priv bytes m) = StateActive"
  "kr_created (new_record env now priv bytes m) = now" "kr_alg (new_record env now priv bytes m) = AlgRS256"
  "kr_priv (new_record env now priv bytes m) = Some priv" "kr_pub (new_record env now priv bytes m) = Some (sk_pub priv)"
  by (simp_all add: new_record_def)

lemma good_new_record [simp]: "good_record (new_kid now m) (new_record env now priv bytes m)"
  by (simp add: good_record_def)

text \<open>A rotation leaves one active key, whatever number there was of keys that claim to be active but
  are not the current one: none, by the invariant.\<close>

lemma RotateNow_inv:
  assumes inv: "kms_inv m" and rot: "RotateNow env gen now ks m = (res, m')"
  shows "kms_inv m'"
proof (cases res)
  case (Inl e)
  then show ?thesis using inv RotateNow_error [of env gen now ks m e m'] rot by simp
next
  case (Inr kid)
  with rot have "RotateNow env gen now ks m = (Inr kid, m')" by simp
  then obtain priv bytes where "gen = Inr priv" and new: "kid = new_kid now m" "mk_active m' = kid"
    and "mk_name m' = mk_name m" and "mk_policy m' = mk_policy m" and v: "mk_versions m' = (\<lambda>k.
       if k = kid then Some (new_record env now priv bytes m)
       else if k \<in> set ks then map_option (\<lambda>r. expire_record (mk_policy m) now (step_down m k r)) (mk_versions m k)
       else map_option (step_down m k) (mk_versions m k))"
    by (rule RotateNow_result)
  have down: "kr_state (step_down m k r) \<noteq> StateActive" if "mk_versions m k = Some r" for k r
    using inv that by (auto simp: kms_inv_def step_down_def good_record_def)
  have down': "kr_state (expire_record p now (step_down m k r)) \<noteq> StateActive" if "mk_versions m k = Some r" for p k r
    using down [OF that] by (simp add: expire_record_def)
  have good: "good_record k r" if "mk_versions m k = Some r" for k r
    using inv that by (simp add: kms_inv_def)
  have "good_record k r" if "mk_versions m' k = Some r" for k r
    using that new(1) by (auto simp: v good split: if_splits)
  moreover have "\<exists>r. mk_versions m' (mk_active m') = Some r \<and> kr_state r = StateActive"
    by (simp add: new(2) v)
  moreover have "k = mk_active m'" if "mk_versions m' k = Some r \<and> kr_state r = StateActive" for k r
    using that new(2) by (auto simp: v dest: down down' split: if_splits)
  ultimately show ?thesis unfolding kms_inv_def by blast
qed

text \<open>A sequence of rotations, failed ones included.\<close>

record 'd rotation =
  ro_gen :: "go_error + 'd rsa_private"
  ro_now :: time
  ro_order :: "string list"

definition rotate_by :: "('d, 's) kms_env \<Rightarrow> 'd rotation \<Rightarrow> ('d, 's) mock_kms \<Rightarrow> ('d, 's) mock_kms" where
  "rotate_by env x m = snd (RotateNow env (ro_gen x) (ro_now x) (ro_order x) m)"

lemma rotate_by_inv: "kms_inv m \<Longrightarrow> kms_inv (rotate_by env x m)"
  unfolding rotate_by_def by (metis RotateNow_inv prod.collapse)

lemma rotations_inv: "kms_inv m \<Longrightarrow> kms_inv (fold (rotate_by env) xs m)"
  by (induction xs arbitrary: m) (auto intro: rotate_by_inv)

section \<open>Start\<close>

lemma empty_kms_rotated:
  assumes "RotateNow env gen now ks m = (Inr kid, m')" and "mk_active m = []"
    and "\<And>k r. mk_versions m k = Some r \<Longrightarrow> good_record k r \<and> kr_state r \<noteq> StateActive"
  shows "kms_inv m'"
proof -
  obtain priv bytes where "gen = Inr priv" and new: "kid = new_kid now m" "mk_active m' = kid"
    and "mk_name m' = mk_name m" and "mk_policy m' = mk_policy m" and v: "mk_versions m' = (\<lambda>k.
       if k = kid then Some (new_record env now priv bytes m)
       else if k \<in> set ks then map_option (\<lambda>r. expire_record (mk_policy m) now (step_down m k r)) (mk_versions m k)
       else map_option (step_down m k) (mk_versions m k))"
    using assms(1) by (rule RotateNow_result)
  have "kr_state (expire_record p now (step_down m k r)) \<noteq> StateActive" "kr_state (step_down m k r) \<noteq> StateActive"
    if "mk_versions m k = Some r" for p k r
    using assms(3) [OF that] by (auto simp: expire_record_def step_down_def)
  then show ?thesis
    unfolding kms_inv_def using new assms(3)
    by (auto simp: v split: if_splits)
qed

text \<open>Records as a store returns them: key material is not exported, kids are the primary key.\<close>

definition stored_record :: "'d key_record \<Rightarrow> bool" where
  "stored_record r \<longleftrightarrow> kr_priv r = None \<and> kr_pub r = None \<and> kr_kid r \<noteq> []"

definition single_active :: "'d key_codec \<Rightarrow> 'd key_record list \<Rightarrow> bool" where
  "single_active cd rs \<longleftrightarrow> (\<forall>r \<in> set rs. stored_record r) \<and> distinct (map kr_kid rs) \<and>
     (\<forall>r \<in> set rs. \<forall>r' \<in> set rs. kr_state r = StateActive \<and> kr_state r' = StateActive \<and>
        is_ok (hydrateRecord cd r) \<and> is_ok (hydrateRecord cd r') \<longrightarrow> kr_kid r = kr_kid r')"

lemma hydrated:
  "hydrateRecord cd r = Inr r' \<Longrightarrow> stored_record r \<Longrightarrow> good_record (kr_kid r) r' \<and> kr_state r' = kr_state r \<and> kr_kid r' = kr_kid r"
  by (auto simp: hydrateRecord_def good_record_def stored_record_def split: option.splits)

definition loaded_inv :: "'d key_codec \<Rightarrow> 'd key_record list \<Rightarrow> ('d, 's) mock_kms \<Rightarrow> bool" where
  "loaded_inv cd rs m \<longleftrightarrow>
     (\<forall>k r. mk_versions m k = Some r \<longrightarrow> good_record k r \<and>
        (kr_state r = StateActive \<longrightarrow> mk_active m \<noteq> [] \<and>
           (\<exists>x \<in> set rs. kr_kid x = k \<and> kr_state x = StateActive \<and> is_ok (hydrateRecord cd x)))) \<and>
     (mk_active m \<noteq> [] \<longrightarrow> (\<exists>r. mk_versions m (mk_active m) = Some r \<and> kr_state r = StateActive))"

lemma load_one_inv:
  assumes "loaded_inv cd rs m" and "stored_record r" and "kr_kid r \<notin> dom (mk_versions m)"
  shows "loaded_inv cd (rs @ [r]) (load_one cd r m) \<and> dom (mk_versions (load_one cd r m)) \<subseteq> insert (kr_kid r) (dom (mk_versions m))"
proof (cases "hydrateRecord cd r")
  case (Inl e)
  then show ?thesis using assms(1) by (fastforce simp: load_one_def loaded_inv_def)
next
  case (Inr r')
  note h = hydrated [OF Inr assms(2)]
  have "is_ok (hydrateRecord cd r)" using Inr by simp
  then show ?thesis
    using assms h Inr by (fastforce simp: load_one_def loaded_inv_def stored_record_def dom_def)
qed

lemma load_inv:
  "\<lbrakk>loaded_inv cd rs m; \<forall>r \<in> set xs. stored_record r; distinct (map kr_kid xs); dom (mk_versions m) \<inter> kr_kid ` set xs = {}\<rbrakk>
   \<Longrightarrow> loaded_inv cd (rs @ xs) (fold (load_one cd) xs m)"
proof (induction xs arbitrary: rs m)
  case (Cons r xs)
  have 1: "loaded_inv cd (rs @ [r]) (load_one cd r m)"
    and 2: "dom (mk_versions (load_one cd r m)) \<subseteq> insert (kr_kid r) (dom (mk_versions m))"
    using load_one_inv [of cd rs m r] Cons.prems by auto
  have "kr_kid r \<notin> kr_kid ` set xs" "dom (mk_versions m) \<inter> kr_kid ` set xs = {}"
    using Cons.prems(3,4) by auto
  then have "insert (kr_kid r) (dom (mk_versions m)) \<inter> kr_kid ` set xs = {}" by (simp only: Int_insert_left) simp
  then have "dom (mk_versions (load_one cd r m)) \<inter> kr_kid ` set xs = {}" by (rule subset_disjoint [OF 2])
  then show ?case using Cons.IH [OF 1] Cons.prems by simp
qed simp

lemma NewMockKms_inv:
  assumes new: "NewMockKmsProvider env name policy gen now ks s = Inr m"
    and single: "\<And>ops rs. ke_store env = Some ops \<Longrightarrow> vs_list ops s = Inr rs \<Longrightarrow> single_active (ke_codec env) rs"
  shows "kms_inv m"
proof -
  define m0 :: "('a, 'b) mock_kms" where "m0 = \<lparr>mk_name = name, mk_policy = (if vp_rotate policy = 0 then DefaultVersionPolicy else policy),
                mk_versions = Map.empty, mk_active = [], mk_store = s\<rparr>"
  define m1 where "m1 = (case ke_store env of None \<Rightarrow> m0
                | Some ops \<Rightarrow> (case vs_list ops s of Inl _ \<Rightarrow> m0 | Inr rs \<Rightarrow> fold (load_one (ke_codec env)) rs m0))"
  have m: "(if mk_active m1 = [] then (case RotateNow env gen now ks m1 of (Inl e, _) \<Rightarrow> Inl e | (Inr _, m2) \<Rightarrow> Inr m2) else Inr m1) = Inr m"
    using new unfolding NewMockKmsProvider_def Let_def m1_def m0_def .
  have start: "loaded_inv (ke_codec env) [] m0" by (simp add: loaded_inv_def m0_def)
  have "\<exists>rs. loaded_inv (ke_codec env) rs m1 \<and> single_active (ke_codec env) rs"
  proof (cases "\<exists>ops rs. ke_store env = Some ops \<and> vs_list ops s = Inr rs")
    case True
    then obtain ops rs where *: "ke_store env = Some ops" "vs_list ops s = Inr rs" by blast
    have "loaded_inv (ke_codec env) ([] @ rs) (fold (load_one (ke_codec env)) rs m0)"
      using single [OF *] by (intro load_inv [OF start]) (auto simp: single_active_def m0_def)
    then show ?thesis using * single [OF *] by (auto simp: m1_def)
  next
    case False
    then have "m1 = m0" by (auto simp: m1_def split: option.split sum.split)
    then show ?thesis using start by (intro exI [of _ "[]"]) (simp add: single_active_def)
  qed
  then obtain rs where inv: "loaded_inv (ke_codec env) rs m1" and one: "single_active (ke_codec env) rs" by blast
  show ?thesis
  proof (cases "mk_active m1 = []")
    case True
    then obtain kid where rot: "RotateNow env gen now ks m1 = (Inr kid, m)"
      using m by (auto split: prod.splits sum.splits)
    show ?thesis by (rule empty_kms_rotated [OF rot True]) (use inv True in \<open>auto simp: loaded_inv_def\<close>)
  next
    case False
    then have "m = m1" using m by simp
    then show ?thesis using inv one False unfolding kms_inv_def loaded_inv_def single_active_def by metis
  qed
qed

section \<open>One active key\<close>

text \<open>C12: the provider starts, from an empty store or from one with at most one usable active key, and is
  rotated any number of times, failed rotations included: exactly one version is in the state active, it is the one
  \<open>Active\<close> hands out, and whatever \<open>Active\<close> hands out verifies with its own public half under its kid.\<close>

theorem kms_one_active:
  assumes "NewMockKmsProvider env name policy gen now ks s = Inr m"
    and "\<forall>ops rs. ke_store env = Some ops \<and> vs_list ops s = Inr rs \<longrightarrow> single_active (ke_codec env) rs"
  shows "{k. \<exists>r. mk_versions (fold (rotate_by env) xs m) k = Some r \<and> kr_state r = StateActive} = {mk_active (fold (rotate_by env) xs m)} \<and>
    (\<forall>sk. kms_active (fold (rotate_by env) xs m) = Inr sk \<longrightarrow>
       sg_kid sk = mk_active (fold (rotate_by env) xs m) \<and>
       (\<exists>priv. sg_material sk = RsaPrivate priv \<and>
          kms_verifying (sg_kid sk) (fold (rotate_by env) xs m) =
            (Inr \<lparr>vk_kid = sg_kid sk, vk_alg = sg_alg sk, vk_material = RsaPublic (sk_pub priv)\<rparr>, fold (rotate_by env) xs m)))"
proof -
  define m' where "m' = fold (rotate_by env) xs m"
  have inv: "kms_inv m'"
    unfolding m'_def by (rule rotations_inv, rule NewMockKms_inv [OF assms(1)]) (use assms(2) in blast)
  then have "{k. \<exists>r. mk_versions m' k = Some r \<and> kr_state r = StateActive} = {mk_active m'}"
    unfolding kms_inv_def by blast
  moreover have "sg_kid sk = mk_active m' \<and> (\<exists>priv. sg_material sk = RsaPrivate priv \<and>
      kms_verifying (sg_kid sk) m' = (Inr \<lparr>vk_kid = sg_kid sk, vk_alg = sg_alg sk, vk_material = RsaPublic (sk_pub priv)\<rparr>, m'))"
    if "kms_active m' = Inr sk" for sk
  proof -
    obtain r where r: "mk_versions m' (mk_active m') = Some r" "good_record (mk_active m') r"
      using inv unfolding kms_inv_def by blast
    then show ?thesis using that
      by (auto simp: kms_active_def kms_verifying_def good_record_def split: option.splits)
  qed
  ultimately show ?thesis unfolding m'_def by blast
qed

section \<open>What a rotation publishes\<close>

definition published :: "('d, 's) mock_kms \<Rightarrow> string set" where
  "published m = {k. \<exists>r. mk_versions m k = Some r \<and> kr_state r \<noteq> StateRetired}"

lemma jwks_published:
  assumes "\<And>k r. mk_versions m k = Some r \<Longrightarrow> good_record k r" and "set ks = dom (mk_versions m)"
  shows "jw_kid ` set (kms_jwks ks m) = published m"
proof -
  have "jw_kid ` set (kms_jwks ks m) = {kr_kid r |k r. k \<in> set ks \<and> mk_versions m k = Some r \<and> kr_state r \<noteq> StateRetired \<and> kr_pub r \<noteq> None}"
    by (force simp: kms_jwks_def kms_jwk_def set_map_filter image_iff split: option.splits if_splits)
  also have "\<dots> = published m"
    using assms by (auto simp: published_def good_record_def) blast+
  finally show ?thesis .
qed

text \<open>After a rotation the key set holds the new key and, of the keys it held before, those made no longer than
  \<open>RotateEvery + RetirePeriod\<close> ago: the age counts from the creation of the key and not from the day it
  stopped signing.\<close>

theorem rotation_publishes:
  assumes inv: "kms_inv m" and rot: "RotateNow env gen now ks m = (Inr kid, m')"
    and order: "set ks = dom (mk_versions m')" "set ks0 = dom (mk_versions m)"
  shows "jw_kid ` set (kms_jwks ks m') =
    insert kid {k \<in> jw_kid ` set (kms_jwks ks0 m).
       \<exists>r. mk_versions m k = Some r \<and> now - kr_created r \<le> vp_rotate (mk_policy m) + vp_retire (mk_policy m)}"
proof -
  obtain priv bytes where "gen = Inr priv" and new: "kid = new_kid now m" "mk_active m' = kid"
    and "mk_name m' = mk_name m" and "mk_policy m' = mk_policy m" and v: "mk_versions m' = (\<lambda>k.
       if k = kid then Some (new_record env now priv bytes m)
       else if k \<in> set ks then map_option (\<lambda>r. expire_record (mk_policy m) now (step_down m k r)) (mk_versions m k)
       else map_option (step_down m k) (mk_versions m k))"
    using rot by (rule RotateNow_result)
  have good: "good_record k r" if "mk_versions m k = Some r" for k r
    using inv that by (simp add: kms_inv_def)
  have good': "good_record k r" if "mk_versions m' k = Some r" for k r
    using RotateNow_inv [OF inv rot] that by (simp add: kms_inv_def)
  have in_ks: "k \<in> set ks" if "mk_versions m k = Some r" for k r
    using that order(1) by (auto simp: v dom_def)
  have state: "kr_state (expire_record (mk_policy m) now (step_down m k r)) \<noteq> StateRetired \<longleftrightarrow>
      kr_state r \<noteq> StateRetired \<and> \<not> expired (mk_policy m) now r" if "mk_versions m k = Some r" for k r
  proof -
    have "kr_state r = StateActive \<Longrightarrow> k = mk_active m \<and> k \<noteq> []"
      using inv that good [OF that] by (auto simp: kms_inv_def good_record_def)
    then show ?thesis by (cases "kr_state r") (auto simp: expire_record_def step_down_def expired_def)
  qed
  have "published m' = insert kid {k \<in> published m. \<exists>r. mk_versions m k = Some r \<and> \<not> expired (mk_policy m) now r}"
    using in_ks state by (auto simp: published_def v split: if_splits)
  then show ?thesis
    by (simp add: jwks_published [OF good' order(1)] jwks_published [OF good order(2)] expired_def not_less)
qed

text \<open>C37: a rotation that comes later than \<open>RotateEvery + RetirePeriod\<close> after the last one takes the key that
  was active until this moment out of the published set at once: it never retires, its retirement period has
  already passed.  Tokens it signed a moment ago are refused by every verifier that goes by the published
  set, although the provider itself still verifies them.\<close>

theorem late_rotation_drops_key:
  assumes inv: "kms_inv m" and rot: "RotateNow env gen now ks m = (Inr kid, m')"
    and order: "set ks = dom (mk_versions m')" and fresh: "kid \<noteq> mk_active m"
    and act: "mk_versions m (mk_active m) = Some r" and late: "vp_rotate (mk_policy m) + vp_retire (mk_policy m) < now - kr_created r"
  shows "mk_active m \<notin> jw_kid ` set (kms_jwks ks m') \<and> is_ok (fst (kms_verifying (mk_active m) m'))"
proof -
  obtain ks0 where ks0: "set ks0 = dom (mk_versions m)"
    using RotateNow_dom [OF rot] order finite_list [of "dom (mk_versions m)"] by (metis List.finite_set finite_insert)
  have "mk_active m \<notin> jw_kid ` set (kms_jwks ks m')"
    using rotation_publishes [OF inv rot order ks0] fresh act late by auto
  moreover have "is_ok (fst (kms_verifying (mk_active m) m'))"
  proof -
    have "\<exists>r'. mk_versions m' (mk_active m) = Some r' \<and> kr_pub r' = kr_pub r"
      using rot by (rule RotateNow_result) (use act fresh in \<open>auto split: if_splits\<close>)
    then show ?thesis using inv act by (auto simp: kms_verifying_def kms_inv_def good_record_def split: option.split)
  qed
  ultimately show ?thesis ..
qed

section \<open>Every key keeps verifying\<close>

text \<open>Rotations that fail or take a kid that is not in use (two never fall into one nanosecond).\<close>

inductive rotated :: "('d, 's) kms_env \<Rightarrow> ('d, 's) mock_kms \<Rightarrow> ('d, 's) mock_kms \<Rightarrow> bool" for env where
  not_rotated: "rotated env m m"
| rotated_once: "\<lbrakk>rotated env m m'; mk_versions m' (new_kid (ro_now x) m') = None\<rbrakk> \<Longrightarrow> rotated env m (rotate_by env x m')"

lemma rotate_by_keeps:
  assumes "mk_versions m k = Some r" and "mk_versions m (new_kid (ro_now x) m) = None"
  shows "\<exists>r'. mk_versions (rotate_by env x m) k = Some r' \<and> kr_kid r' = kr_kid r \<and> kr_pub r' = kr_pub r \<and> kr_alg r' = kr_alg r"
proof (cases "RotateNow env (ro_gen x) (ro_now x) (ro_order x) m")
  case (Pair res m')
  show ?thesis
  proof (cases res)
    case (Inl e)
    then show ?thesis using Pair RotateNow_error assms(1) unfolding rotate_by_def by fastforce
  next
    case (Inr kid)
    note rot = Pair [unfolded Inr]
    show ?thesis
      using rot by (rule RotateNow_result) (use assms Pair in \<open>auto simp: rotate_by_def\<close>)
  qed
qed

lemma rotated_keeps:
  "rotated env m m' \<Longrightarrow> mk_versions m k = Some r \<Longrightarrow>
    \<exists>r'. mk_versions m' k = Some r' \<and> kr_kid r' = kr_kid r \<and> kr_pub r' = kr_pub r \<and> kr_alg r' = kr_alg r"
proof (induction rule: rotated.induct)
  case (rotated_once m m' x)
  then obtain r' where r': "mk_versions m' k = Some r'" "kr_kid r' = kr_kid r" "kr_pub r' = kr_pub r" "kr_alg r' = kr_alg r"
    by blast
  show ?case using rotate_by_keeps [OF r'(1) rotated_once.hyps(2)] r' by fastforce
qed simp

interpretation kms: key_source kms_active kms_verifying kms_inv "rotated env"
proof
  fix m m' :: "('a, 'b) mock_kms" and k p
  assume inv: "kms_inv m" and act: "kms_active m = Inr k"
  obtain r where r: "mk_versions m (mk_active m) = Some r" "good_record (mk_active m) r"
    using inv unfolding kms_inv_def by blast
  then show "\<exists>p. sg_material k = RsaPrivate p" using act by (auto simp: kms_active_def split: option.splits)
  assume mat: "sg_material k = RsaPrivate p" and rot: "rotated env m m'"
  obtain r' where "mk_versions m' (mk_active m) = Some r'" "kr_kid r' = kr_kid r" "kr_pub r' = kr_pub r" "kr_alg r' = kr_alg r"
    using rotated_keeps [OF rot r(1)] by blast
  then show "fst (kms_verifying (sg_kid k) m') = Inr \<lparr>vk_kid = sg_kid k, vk_alg = sg_alg k, vk_material = RsaPublic (sk_pub p)\<rparr>"
    using act mat r by (auto simp: kms_active_def kms_verifying_def good_record_def split: option.splits)
qed

end
