(* ===== verification/Tokens.thy ===== *)
theory Tokens
  imports KeyRotation
begin

text \<open>
  \<^verbatim>\<open>go/pkg/yunmao/authjwt/jwt.go\<close> with \<^verbatim>\<open>hs256_deprecation.go\<close> and \<^verbatim>\<open>signing_remote.go\<close>: what a service
  signs and what a service accepts.  The JWT library is a parameter; what the code relies on of it is
  \<open>jwt_contract\<close>.
\<close>

section \<open>Claims\<close>

datatype token_kind = KindLogin | KindRoomSubscription | OtherKind string
datatype token_scope = ScopeUser | ScopeGuest | ScopeAdmin | OtherScope string

text \<open>The registered claims the code sets or the library checks.\<close>

record claims =
  cl_subject :: string
  cl_audience :: "string list"
  cl_issuer :: string
  cl_issued :: "time option"
  cl_expires :: "time option"
  cl_not_before :: "time option"
  cl_scope :: token_scope
  cl_kind :: token_kind
  cl_room :: string
  cl_id :: string

text \<open>The library: the text to be signed for an algorithm, a kid and claims; signing; the token of text and
  signature; its decoding to algorithm, kid (empty when absent), claims, text and signature; the check of a
  signature; the check of the claims against the clock.  Signing texts and tokens are opaque to the code.\<close>

record ('d, 't, 'w) jwt_lib =
  jl_text :: "string \<Rightarrow> string \<Rightarrow> claims \<Rightarrow> go_error + 't"
  jl_sign :: "'d material \<Rightarrow> 't \<Rightarrow> go_error + byte list"
  jl_sha256 :: "'t \<Rightarrow> byte list"
  jl_compose :: "'t \<Rightarrow> byte list \<Rightarrow> 'w"
  jl_decode :: "'w \<Rightarrow> go_error + (string \<times> string \<times> claims \<times> 't \<times> byte list)"
  jl_verify :: "rsa_public \<Rightarrow> 't \<Rightarrow> byte list \<Rightarrow> go_error option"
  jl_validate :: "time \<Rightarrow> claims \<Rightarrow> go_error option"

text \<open>The sentinel; the non-ASCII part of its text is left out.\<close>

definition ErrHS256Removed :: go_error where
  "ErrHS256Removed = Sentinel ''authjwt: HS256 path removed (ADR-0019); use RS256/KMS''"

definition EnsureHS256Allowed :: "go_error option" where
  "EnsureHS256Allowed = Some ErrHS256Removed"

section \<open>Signing\<close>

record ('d, 's) signer =
  si_provider :: "('d, 's) key_provider"
  si_issuer :: string

definition NewSignerFromProvider :: "('d, 's) key_provider option \<Rightarrow> string \<Rightarrow> go_error + ('d, 's) signer" where
  "NewSignerFromProvider kp issuer =
     (case kp of
        None \<Rightarrow> Inl (Plain ''authjwt: nil KeyProvider'')
      | Some p \<Rightarrow> if issuer = [] then Inl (Plain ''authjwt: issuer required'') else Inr \<lparr>si_provider = p, si_issuer = issuer\<rparr>)"

text \<open>The signing method for keys held elsewhere.\<close>

definition remote_sign :: "('d, 't, 'w) jwt_lib \<Rightarrow> 'd material \<Rightarrow> 't \<Rightarrow> go_error + byte list" where
  "remote_sign lib mat body =
     (case mat of
        Remote f \<Rightarrow> f (jl_sha256 lib body)
      | _ \<Rightarrow> Inl (Plain ''authjwt: remote signing key not RemoteSigner''))"

definition alg_text :: "algorithm \<Rightarrow> string" where
  "alg_text a = (case a of AlgHS256 \<Rightarrow> ''HS256'' | AlgRS256 \<Rightarrow> ''RS256'' | OtherAlg s \<Rightarrow> s)"

definition signClaims :: "('d, 't, 'w) jwt_lib \<Rightarrow> ('d, 's) signer \<Rightarrow> claims \<Rightarrow> 's \<Rightarrow> go_error + 'w" where
  "signClaims lib sg c s =
     (case kp_active (si_provider sg) s of
        Inl e \<Rightarrow> Inl e
      | Inr sk \<Rightarrow>
          (case sg_alg sk of
             AlgHS256 \<Rightarrow> Inl ErrHS256Removed
           | OtherAlg a \<Rightarrow> Inl (Plain (''authjwt: unsupported alg '' @ a))
           | AlgRS256 \<Rightarrow>
               let sign = (case sg_material sk of Remote _ \<Rightarrow> remote_sign lib | _ \<Rightarrow> jl_sign lib)
               in (case jl_text lib ''RS256'' (sg_kid sk) c of
                     Inl e \<Rightarrow> Inl e
                   | Inr body \<Rightarrow> (case sign (sg_material sk) body of Inl e \<Rightarrow> Inl e | Inr sig \<Rightarrow> Inr (jl_compose lib body sig)))))"

text \<open>\<open>NewNumericDate\<close> cuts a time to its second.\<close>

definition numeric_date :: "time \<Rightarrow> time" where
  "numeric_date t = truncate_time t second"

definition login_claims :: "string \<Rightarrow> string \<Rightarrow> token_scope \<Rightarrow> string \<Rightarrow> duration \<Rightarrow> time \<Rightarrow> claims" where
  "login_claims issuer subject scope audience ttl now =
     \<lparr>cl_subject = subject, cl_audience = [audience], cl_issuer = issuer, cl_issued = Some (numeric_date now),
      cl_expires = Some (numeric_date (now + ttl)), cl_not_before = None, cl_scope = scope, cl_kind = KindLogin, cl_room = [], cl_id = []\<rparr>"

definition SignLogin ::
  "('d, 't, 'w) jwt_lib \<Rightarrow> ('d, 's) signer \<Rightarrow> string \<Rightarrow> token_scope \<Rightarrow> string \<Rightarrow> duration \<Rightarrow> time \<Rightarrow> 's \<Rightarrow> go_error + 'w" where
  "SignLogin lib sg subject scope audience ttl now s =
     signClaims lib sg (login_claims (si_issuer sg) subject scope audience ttl now) s"

definition SignRoomSubscription ::
  "('d, 't, 'w) jwt_lib \<Rightarrow> ('d, 's) signer \<Rightarrow> string \<Rightarrow> token_scope \<Rightarrow> string \<Rightarrow> string \<Rightarrow> duration \<Rightarrow> time \<Rightarrow> 's \<Rightarrow> go_error + 'w" where
  "SignRoomSubscription lib sg subject scope room audience ttl now s =
     (if room = [] then Inl (Plain ''authjwt: room required for room_subscription token'')
      else signClaims lib sg ((login_claims (si_issuer sg) subject scope audience ttl now)\<lparr>cl_kind := KindRoomSubscription, cl_room := room\<rparr>) s)"

section \<open>Verifying\<close>

text \<open>The key function handed to the library: the algorithm of the token's header and its kid decide on the key.\<close>

definition key_for ::
  "(string \<Rightarrow> 's \<Rightarrow> (go_error, 'd verifying_key, 's) outcome) \<Rightarrow> string \<Rightarrow> string \<Rightarrow> 's \<Rightarrow> (go_error, rsa_public, 's) outcome" where
  "key_for verifying alg kid s =
     (if alg = ''HS256'' then (Inl ErrHS256Removed, s)
      else (case verifying kid s of
          (Inl e, s') \<Rightarrow> (Inl e, s')
        | (Inr vk, s') \<Rightarrow>
            (case vk_alg vk of
               AlgHS256 \<Rightarrow> Inl ErrHS256Removed
             | OtherAlg a \<Rightarrow> Inl (Plain (''authjwt: unsupported alg '' @ a))
             | AlgRS256 \<Rightarrow>
                 if alg \<noteq> ''RS256'' then Inl (Plain (''authjwt: unexpected alg '' @ alg @ '', want RS256''))
                 else (case vk_material vk of
                     RsaPublic p \<Rightarrow> Inr p
                   | _ \<Rightarrow> Inl (Plain ''authjwt: RS verifying key not *rsa.PublicKey'')), s')))"

text \<open>\<open>jwt.ParseWithClaims\<close> as documented: decode, key function, signature, claims, in this order.  A token
  that comes through is valid, so the last check of \<open>Parse\<close> never fails.\<close>

definition Parse ::
  "('d, 't, 'w) jwt_lib \<Rightarrow> (string \<Rightarrow> 's \<Rightarrow> (go_error, 'd verifying_key, 's) outcome) \<Rightarrow> time \<Rightarrow> 'w \<Rightarrow> 's \<Rightarrow> (go_error, claims, 's) outcome" where
  "Parse lib verifying now tok s =
     (case jl_decode lib tok of
        Inl e \<Rightarrow> (Inl e, s)
      | Inr (alg, kid, c, body, sig) \<Rightarrow>
          (case key_for verifying alg kid s of
             (Inl e, s') \<Rightarrow> (Inl (Wrap ''token is unverifiable: error while executing keyfunc'' e), s')
           | (Inr p, s') \<Rightarrow>
               (case jl_verify lib p body sig of
                  Some e \<Rightarrow> (Inl (Wrap ''token signature is invalid'' e), s')
                | None \<Rightarrow> (case jl_validate lib now c of
                    Some e \<Rightarrow> (Inl (Wrap ''token has invalid claims'' e), s')
                  | None \<Rightarrow> (Inr c, s')))))"

section \<open>What the library promises\<close>

text \<open>Texts JSON carries unchanged.\<close>

definition plain_text :: "string \<Rightarrow> bool" where
  "plain_text s \<longleftrightarrow> (\<forall>c \<in> set s. of_char c < (128 :: nat))"

definition plain_claims :: "claims \<Rightarrow> bool" where
  "plain_claims c \<longleftrightarrow> plain_text (cl_subject c) \<and> list_all plain_text (cl_audience c) \<and> plain_text (cl_issuer c) \<and> plain_text (cl_room c) \<and> plain_text (cl_id c) \<and>
     (\<forall>s. cl_scope c = OtherScope s \<longrightarrow> plain_text s) \<and> (\<forall>s. cl_kind c = OtherKind s \<longrightarrow> plain_text s) \<and>
     (\<forall>t \<in> set_option (cl_issued c) \<union> set_option (cl_expires c) \<union> set_option (cl_not_before c). numeric_date t = t)"

text \<open>A token decodes to what was put into it, a signature made with a key verifies with its public half, and
  claims are valid before their expiry and from their start on.\<close>

definition jwt_contract :: "('d, 't, 'w) jwt_lib \<Rightarrow> bool" where
  "jwt_contract lib \<longleftrightarrow>
     (\<forall>kid c body sig. plain_text kid \<and> plain_claims c \<and> jl_text lib ''RS256'' kid c = Inr body \<longrightarrow>
        jl_decode lib (jl_compose lib body sig) = Inr (''RS256'', kid, c, body, sig)) \<and>
     (\<forall>p body sig. jl_sign lib (RsaPrivate p) body = Inr sig \<longrightarrow> jl_verify lib (sk_pub p) body sig = None) \<and>
     (\<forall>now c. jl_validate lib now c = None \<longleftrightarrow>
        (\<forall>e. cl_expires c = Some e \<longrightarrow> now < e) \<and> (\<forall>n. cl_not_before c = Some n \<longrightarrow> n \<le> now))"

lemma numeric_date_idem [simp]: "numeric_date (numeric_date t) = numeric_date t"
  by (simp add: numeric_date_def truncate_idem)

text \<open>The claims this package makes are unchanged by the second-precision of the wire.\<close>

lemma login_claims_simps [simp]:
  "cl_subject (login_claims i s sc a ttl now) = s" "cl_audience (login_claims i s sc a ttl now) = [a]"
  "cl_issuer (login_claims i s sc a ttl now) = i" "cl_issued (login_claims i s sc a ttl now) = Some (numeric_date now)"
  "cl_expires (login_claims i s sc a ttl now) = Some (numeric_date (now + ttl))"
  "cl_not_before (login_claims i s sc a ttl now) = None" "cl_scope (login_claims i s sc a ttl now) = sc"
  "cl_kind (login_claims i s sc a ttl now) = KindLogin" "cl_room (login_claims i s sc a ttl now) = []" "cl_id (login_claims i s sc a ttl now) = []"
  by (simp_all add: login_claims_def)

lemma plain_login_claims:
  "\<lbrakk>plain_text i; plain_text s; plain_text a; \<forall>x. sc = OtherScope x \<longrightarrow> plain_text x\<rbrakk>
   \<Longrightarrow> plain_claims (login_claims i s sc a ttl now)"
  by (simp add: plain_claims_def) (simp add: plain_text_def)

lemma plain_room_claims:
  "\<lbrakk>plain_claims c; plain_text r\<rbrakk> \<Longrightarrow> plain_claims (c\<lparr>cl_kind := KindRoomSubscription, cl_room := r\<rparr>)"
  by (simp add: plain_claims_def)

section \<open>Signing and verifying with any provider that keeps its word\<close>

text \<open>A signed token under a local key is text and signature of the active key.\<close>

lemma signClaims_Inr:
  assumes "signClaims lib sg c s = Inr tok"
  shows "\<exists>sk body sig. kp_active (si_provider sg) s = Inr sk \<and> sg_alg sk = AlgRS256 \<and>
    jl_text lib ''RS256'' (sg_kid sk) c = Inr body \<and> tok = jl_compose lib body sig \<and>
    (\<forall>p. sg_material sk = RsaPrivate p \<longrightarrow> jl_sign lib (RsaPrivate p) body = Inr sig)"
proof -
  obtain sk body where sk: "kp_active (si_provider sg) s = Inr sk" "sg_alg sk = AlgRS256" "jl_text lib ''RS256'' (sg_kid sk) c = Inr body"
    and "(case sg_material sk of Remote _ \<Rightarrow> remote_sign lib | _ \<Rightarrow> jl_sign lib) (sg_material sk) body \<noteq> Inl e" for e
    using assms by (auto simp: signClaims_def Let_def split: sum.splits algorithm.splits)
  then obtain sig where "(case sg_material sk of Remote _ \<Rightarrow> remote_sign lib | _ \<Rightarrow> jl_sign lib) (sg_material sk) body = Inr sig"
    by (metis sum.exhaust)
  then show ?thesis using assms sk
    by (intro exI [of _ sk] exI [of _ body] exI [of _ sig]) (auto simp: signClaims_def Let_def)
qed

context key_source
begin

lemma signed_token_parses:
  assumes contract: "jwt_contract lib" and inv: "inv s" and act: "kp_active (si_provider sg) = active"
    and sign: "signClaims lib sg c s = Inr tok" and plain: "plain_claims c"
    and kid: "\<And>sk. active s = Inr sk \<Longrightarrow> plain_text (sg_kid sk)" and later: "later s s'"
  shows "fst (Parse lib verifying now tok s') =
    (case jl_validate lib now c of None \<Rightarrow> Inr c | Some e \<Rightarrow> Inl (Wrap ''token has invalid claims'' e))"
proof -
  obtain sk body sig where sk: "active s = Inr sk" "sg_alg sk = AlgRS256"
      "jl_text lib ''RS256'' (sg_kid sk) c = Inr body" "tok = jl_compose lib body sig"
    and sig: "\<And>p. sg_material sk = RsaPrivate p \<Longrightarrow> jl_sign lib (RsaPrivate p) body = Inr sig"
    using signClaims_Inr [OF sign] act by auto
  obtain p where p: "sg_material sk = RsaPrivate p" using local_key [OF inv sk(1)] by blast
  have "jl_decode lib tok = Inr (''RS256'', sg_kid sk, c, body, sig)"
    using contract kid [OF sk(1)] plain sk(3,4) by (simp add: jwt_contract_def)
  moreover have "jl_verify lib (sk_pub p) body sig = None"
    using contract sig [OF p] by (simp add: jwt_contract_def)
  moreover have "fst (key_for verifying ''RS256'' (sg_kid sk) s') = Inr (sk_pub p)"
    using verifies [OF inv sk(1) p later] sk(2)
    by (cases "verifying (sg_kid sk) s'") (auto simp: key_for_def)
  ultimately show ?thesis
    by (cases "key_for verifying ''RS256'' (sg_kid sk) s'"; cases "jl_validate lib now c") (auto simp: Parse_def)
qed

end

lemma kms_token_parses:
  assumes "jwt_contract lib" and "kms_inv m" and "rotated env m m'" and "kp_active (si_provider sg) = kms_active"
    and "signClaims lib sg c m = Inr tok" and "plain_claims c" and "plain_text (mk_active m)"
  shows "fst (Parse lib kms_verifying now tok m') =
    (case jl_validate lib now c of None \<Rightarrow> Inr c | Some e \<Rightarrow> Inl (Wrap ''token has invalid claims'' e))"
proof (rule kms.signed_token_parses [OF assms(1,2,4-6) _ assms(3)])
  fix sk assume "kms_active m = Inr sk"
  then have "sg_kid sk = mk_active m"
    using assms(2) by (auto simp: kms_active_def kms_inv_def good_record_def split: option.splits)
  then show "plain_text (sg_kid sk)" using assms(7) by simp
qed

text \<open>C10: a login token signed by the key management's active key is accepted for exactly as long as the
  second in which it expires has not begun, through any number of key rotations in between, and yields exactly
  the claims that were signed.\<close>

theorem token_survives_rotation:
  assumes "jwt_contract lib" and "kms_inv m" and "rotated env m m'"
    and "kp_active (si_provider sg) = kms_active" and "SignLogin lib sg user scope audience ttl t m = Inr tok"
    and "plain_text (si_issuer sg) \<and> plain_text user \<and> plain_text audience \<and> plain_text (mk_active m)" and "\<nexists>x. scope = OtherScope x"
  shows "if now < numeric_date (t + ttl)
    then fst (Parse lib kms_verifying now tok m') = Inr (login_claims (si_issuer sg) user scope audience ttl t)
    else \<not> is_ok (fst (Parse lib kms_verifying now tok m'))"
proof -
  define c where "c = login_claims (si_issuer sg) user scope audience ttl t"
  have plain: "plain_claims c" unfolding c_def using assms(6,7) by (intro plain_login_claims) auto
  have parse: "fst (Parse lib kms_verifying now tok m') =
      (case jl_validate lib now c of None \<Rightarrow> Inr c | Some e \<Rightarrow> Inl (Wrap ''token has invalid claims'' e))"
    by (rule kms_token_parses [OF assms(1-4) _ plain]) (use assms(5,6) in \<open>simp_all add: SignLogin_def c_def\<close>)
  have "jl_validate lib now c = None \<longleftrightarrow> now < numeric_date (t + ttl)"
    using assms(1) by (simp add: jwt_contract_def c_def)
  then show ?thesis using parse by (auto simp: c_def split: option.splits)
qed

text \<open>Whatever provider answers for the keys, \<open>Parse\<close> accepts only a token whose header says RS256 (so never
  one signed with HS256 or without a signature), whose signature verifies under the key its kid names, and whose
  claims the library found valid; and it returns those claims.\<close>

theorem parse_accepts_only_verified:
  assumes "Parse lib verifying now tok s = (Inr c, s')"
  shows "\<exists>kid body sig p vk. jl_decode lib tok = Inr (''RS256'', kid, c, body, sig) \<and> verifying kid s = (Inr vk, s') \<and>
    vk_alg vk = AlgRS256 \<and> vk_material vk = RsaPublic p \<and> jl_verify lib p body sig = None \<and> jl_validate lib now c = None"
proof -
  obtain alg kid body sig where dec: "jl_decode lib tok = Inr (alg, kid, c, body, sig)"
    and key: "\<exists>p. key_for verifying alg kid s = (Inr p, s') \<and> jl_verify lib p body sig = None \<and> jl_validate lib now c = None"
    using assms by (auto simp: Parse_def split: sum.splits prod.splits option.splits)
  then obtain p where p: "key_for verifying alg kid s = (Inr p, s')" "jl_verify lib p body sig = None" "jl_validate lib now c = None"
    by blast
  have "alg = ''RS256'' \<and> (\<exists>vk. verifying kid s = (Inr vk, s') \<and> vk_alg vk = AlgRS256 \<and> vk_material vk = RsaPublic p)"
    using p(1) by (auto simp: key_for_def split: if_splits prod.splits sum.splits algorithm.splits material.splits)
  with dec p show ?thesis by blast
qed

end
