(* ===== verification/JwksClient.thy ===== *)
theory JwksClient
  imports Tokens
begin

unbundle bit_operations_syntax

text \<open>
  \<^verbatim>\<open>go/pkg/yunmao/authjwt/jwks_client.go\<close>: the gateway's side.  It fetches the published key sets, rebuilds the
  RSA keys from their base64 numbers and caches them.  What a GET of an endpoint answers is a parameter.
\<close>

section \<open>\<open>base64.RawURLEncoding.DecodeString\<close>\<close>

text \<open>Line breaks are skipped; four characters give three bytes; a rest of two or three characters gives one or
  two bytes, its unused bits are not looked at; a rest of one character is an error.\<close>

definition sextet_value :: "char \<Rightarrow> nat option" where
  "sextet_value c = map_option fst (List.find (\<lambda>(i, d). d = c) (zip [0..<64] b64_alphabet))"

fun decode_groups :: "nat list \<Rightarrow> byte list option" where
  "decode_groups [] = Some []"
| "decode_groups [a] = None"
| "decode_groups [a, b] = Some [word_of_nat (a * 4 + b div 16)]"
| "decode_groups [a, b, c] = Some [word_of_nat (a * 4 + b div 16), word_of_nat (b mod 16 * 16 + c div 4)]"
| "decode_groups (a # b # c # d # xs) =
     map_option (\<lambda>bs. word_of_nat (a * 4 + b div 16) # word_of_nat (b mod 16 * 16 + c div 4) #
                      word_of_nat (c mod 4 * 64 + d) # bs) (decode_groups xs)"

definition base64_decode :: "string \<Rightarrow> byte list option" where
  "base64_decode s =
     (let cs = map sextet_value (filter (\<lambda>c. c \<noteq> CHR 0x0A \<and> c \<noteq> CHR 0x0D) s)
      in if None \<in> set cs then None else decode_groups (map the cs))"

section \<open>The client\<close>

record raw_jwk =
  rj_kty :: string
  rj_kid :: string
  rj_n :: string
  rj_e :: string

text \<open>The answer of an endpoint: a transport error, or a status and the decoded document.\<close>

type_synonym fetched = "go_error + (int \<times> (go_error + raw_jwk list))"

record jwks_client =
  jc_endpoints :: "string list"
  jc_keys :: "string \<rightharpoonup> rsa_public"
  jc_fetched :: time
  jc_ttl :: duration

definition NewJWKSClient :: "string list \<Rightarrow> duration \<Rightarrow> jwks_client" where
  "NewJWKSClient eps ttl =
     \<lparr>jc_endpoints = eps, jc_keys = Map.empty, jc_fetched = zero_time, jc_ttl = (if ttl \<le> 0 then 5 * minute else ttl)\<rparr>"

text \<open>\<open>SetBytes\<close>, and \<open>Int64\<close> of it, which keeps the low 64 bits.\<close>

definition set_bytes :: "byte list \<Rightarrow> nat" where
  "set_bytes bs = fold (\<lambda>b n. n * 256 + unat b) bs 0"

definition big_int64 :: "nat \<Rightarrow> int" where
  "big_int64 n = sint (word_of_nat n :: i64)"

definition add_jwk :: "raw_jwk \<Rightarrow> (string \<rightharpoonup> rsa_public) \<Rightarrow> (string \<rightharpoonup> rsa_public)" where
  "add_jwk k m =
     (if rj_kty k \<noteq> ''RSA'' \<or> rj_kid k = [] \<or> rj_n k = [] \<or> rj_e k = [] then m
      else (case (base64_decode (rj_n k), base64_decode (rj_e k)) of
          (Some nb, Some eb) \<Rightarrow> m(rj_kid k \<mapsto> \<lparr>rp_n = set_bytes nb, rp_e = big_int64 (set_bytes eb)\<rparr>)
        | _ \<Rightarrow> m))"

definition fetch_one ::
  "(string \<Rightarrow> fetched) \<Rightarrow> string \<Rightarrow> (string \<rightharpoonup> rsa_public) \<times> go_error option \<Rightarrow> (string \<rightharpoonup> rsa_public) \<times> go_error option" where
  "fetch_one get ep = (\<lambda>(m, lerr).
     (case get ep of
        Inl e \<Rightarrow> (m, Some e)
      | Inr (status, doc) \<Rightarrow>
          if status \<noteq> 200 then (m, Some (Plain (''authjwt: jwks '' @ ep @ '' status '' @ dec_int status)))
          else (case doc of Inl e \<Rightarrow> (m, Some e) | Inr ks \<Rightarrow> (fold add_jwk ks m, lerr))))"

definition Refresh :: "(string \<Rightarrow> fetched) \<Rightarrow> time \<Rightarrow> jwks_client \<Rightarrow> go_error option \<times> jwks_client" where
  "Refresh get now c =
     (if jc_endpoints c = [] then (Some (Plain ''authjwt: no JWKS endpoints configured''), c)
      else (case fold (fetch_one get) (jc_endpoints c) (Map.empty, None) of
          (m, lerr) \<Rightarrow>
            if m = Map.empty then (Some (case lerr of None \<Rightarrow> Plain ''authjwt: empty JWKS'' | Some e \<Rightarrow> e), c)
            else (None, c\<lparr>jc_keys := m, jc_fetched := now\<rparr>)))"

definition ensureFresh :: "(string \<Rightarrow> fetched) \<Rightarrow> time \<Rightarrow> jwks_client \<Rightarrow> jwks_client" where
  "ensureFresh get now c = (if jc_ttl c < now - jc_fetched c then snd (Refresh get now c) else c)"

definition jwks_verifying ::
  "(string \<Rightarrow> fetched) \<Rightarrow> time \<Rightarrow> string \<Rightarrow> jwks_client \<Rightarrow> (go_error, 'd verifying_key, jwks_client) outcome" where
  "jwks_verifying get now kid c =
     (let c1 = ensureFresh get now c in
      case jc_keys c1 kid of
        Some p \<Rightarrow> (Inr \<lparr>vk_kid = kid, vk_alg = AlgRS256, vk_material = RsaPublic p\<rparr>, c1)
      | None \<Rightarrow>
          (case Refresh get now c1 of
             (None, c2) \<Rightarrow>
               (case jc_keys c2 kid of
                  Some p \<Rightarrow> (Inr \<lparr>vk_kid = kid, vk_alg = AlgRS256, vk_material = RsaPublic p\<rparr>, c2)
                | None \<Rightarrow> (Inl (Plain (''authjwt: unknown kid '' @ [CHR 0x22] @ kid @ [CHR 0x22])), c2))
           | (Some _, c2) \<Rightarrow> (Inl (Plain (''authjwt: unknown kid '' @ [CHR 0x22] @ kid @ [CHR 0x22])), c2)))"

definition jwks_active :: "jwks_client \<Rightarrow> go_error + 'd signing_key" where
  "jwks_active c = Inl (Plain ''authjwt: JWKSClient is verify-only'')"

definition jwks_public :: "string list \<Rightarrow> jwks_client \<Rightarrow> jwk list" where
  "jwks_public ks c = List.map_filter (\<lambda>k. map_option (rsa_jwk k) (jc_keys c k)) ks"

section \<open>Decoding undoes encoding\<close>

lemma sextet_facts:
  "\<forall>i \<in> {0..<64}. sextet_value (sextet i) = Some i \<and> sextet i \<noteq> CHR 0x0A \<and> sextet i \<noteq> CHR 0x0D"
  by code_simp

lemma sextet_value [simp]: "i < 64 \<Longrightarrow> sextet_value (sextet i) = Some i"
  and sextet_no_break [simp]: "i < 64 \<Longrightarrow> sextet i \<noteq> CHR 0x0A \<and> sextet i \<noteq> CHR 0x0D"
  using sextet_facts by auto

fun sextets_of :: "byte list \<Rightarrow> nat list" where
  "sextets_of [] = []"
| "sextets_of [a] = [unat a div 4, unat a mod 4 * 16]"
| "sextets_of [a, b] = [unat a div 4, unat a mod 4 * 16 + unat b div 16, unat b mod 16 * 4]"
| "sextets_of (a # b # c # bs) =
     unat a div 4 # (unat a mod 4 * 16 + unat b div 16) # (unat b mod 16 * 4 + unat c div 64) # (unat c mod 64) # sextets_of bs"

lemma rfc4648_sextets: "rfc4648 bs = map sextet (sextets_of bs)"
  by (induction bs rule: sextets_of.induct) simp_all

lemma sextets_bound: "x \<in> set (sextets_of bs) \<Longrightarrow> x < 64"
proof (induction bs rule: sextets_of.induct)
  case (2 a)
  then show ?case using unat_byte [of a] by auto
next
  case (3 a b)
  then show ?case using unat_byte [of a] unat_byte [of b] by auto
next
  case (4 a b c bs)
  have "unat a div 4 < 64" "unat a mod 4 * 16 + unat b div 16 < 64" "unat b mod 16 * 4 + unat c div 64 < 64" "unat c mod 64 < 64"
    using unat_byte [of a] unat_byte [of b] unat_byte [of c] by simp_all
  then show ?case using 4 by auto
qed simp

lemma regroup_first: "x < 16 \<Longrightarrow> word_of_nat (unat a div 4 * 4 + (unat a mod 4 * 16 + x) div 16) = (a :: byte)"
proof -
  assume "x < 16"
  then have "(unat a mod 4 * 16 + x) div 16 = unat a mod 4" by simp
  then show ?thesis by simp
qed

lemma regroup_second:
  "z < 4 \<Longrightarrow> word_of_nat ((y * 16 + unat b div 16) mod 16 * 16 + (unat b mod 16 * 4 + z) div 4) = (b :: byte)"
proof -
  assume "z < 4"
  then have "(unat b mod 16 * 4 + z) div 4 = unat b mod 16" by simp
  moreover have "(y * 16 + unat b div 16) mod 16 = unat b div 16" using unat_byte [of b] by simp
  ultimately show ?thesis by simp
qed

lemma regroup_third: "word_of_nat ((y * 4 + unat c div 64) mod 4 * 64 + unat c mod 64) = (c :: byte)"
proof -
  have "(y * 4 + unat c div 64) mod 4 = unat c div 64" using unat_byte [of c] by simp
  then show ?thesis by simp
qed

lemma decode_sextets: "decode_groups (sextets_of bs) = Some bs"
proof (induction bs rule: sextets_of.induct)
  case (2 a)
  show ?case using regroup_first [of 0 a] by simp
next
  case (3 a b)
  have "unat b div 16 < 16" using unat_byte [of b] by simp
  then show ?case using regroup_first [of "unat b div 16" a] regroup_second [of 0 "unat a mod 4" b] by simp
next
  case (4 a b c bs)
  have "unat b div 16 < 16" "unat c div 64 < 4" using unat_byte [of b] unat_byte [of c] by simp_all
  then show ?case
    using 4 regroup_first [of "unat b div 16" a] regroup_second [of "unat c div 64" "unat a mod 4" b] regroup_third [of "unat b mod 16" c] by simp
qed simp

lemma decode_encode: "base64_decode (base64URLEncode bs) = Some bs"
proof -
  have e: "base64URLEncode bs = map sextet (sextets_of bs)"
    unfolding base64URLEncode_def by (simp only: loop_rfc4648 rfc4648_sextets)
  have f: "filter (\<lambda>c. c \<noteq> CHR 0x0A \<and> c \<noteq> CHR 0x0D) (map sextet (sextets_of bs)) = map sextet (sextets_of bs)"
    using sextets_bound [of _ bs] by (auto simp: filter_id_conv)
  have m: "map sextet_value (map sextet (sextets_of bs)) = map Some (sextets_of bs)"
    using sextets_bound [of _ bs] by simp
  show ?thesis unfolding base64_decode_def Let_def e f m by (simp add: decode_sextets image_iff comp_def)
qed

section \<open>Numbers survive\<close>

lemma set_bytes_append: "set_bytes (bs @ [b]) = set_bytes bs * 256 + unat b"
  by (simp add: set_bytes_def)

lemma set_bytes_be_bytes: "set_bytes (be_bytes n) = n"
proof (induction n rule: be_bytes.induct)
  case (1 n)
  have "unat (word_of_nat (n mod 256) :: byte) = n mod 256" by (simp add: unat_of_nat)
  then show ?case using 1 by (subst be_bytes.simps) (simp add: set_bytes_append set_bytes_def [of "[]"])
qed

lemma set_bytes_Cons_zero: "set_bytes (0 # bs) = set_bytes bs"
  by (simp add: set_bytes_def)

lemma set_bytes_strip: "set_bytes (strip_zero_bytes bs) = set_bytes bs"
  by (induction bs rule: strip_zero_bytes.induct) (simp_all add: set_bytes_Cons_zero)

lemma strip_nonempty: "bs \<noteq> [] \<Longrightarrow> strip_zero_bytes bs \<noteq> []"
  by (induction bs rule: strip_zero_bytes.induct) simp_all

lemma four_bytes:
  assumes "0 \<le> e" and "e < 2 ^ 32"
  shows "set_bytes (map (\<lambda>i. word_of_int (e div 2 ^ (8 * i))) [3, 2, 1, 0]) = nat e"
proof -
  define n where "n = nat e"
  have e: "e = int n" and n: "n < 2 ^ 32" using assms by (simp_all add: n_def)
  have byte: "unat (word_of_int (e div 2 ^ k) :: byte) = n div 2 ^ k mod 256" for k
  proof -
    have "e div 2 ^ k = int (n div 2 ^ k)" by (simp add: e zdiv_int)
    then have "(word_of_int (e div 2 ^ k) :: byte) = word_of_nat (n div 2 ^ k)" by simp
    then show ?thesis by (simp add: unat_of_nat)
  qed
  have top: "n div 2 ^ 24 mod 256 = n div 2 ^ 24" using n by (simp add: div_less_iff_less_mult)
  have split: "n = n div 2 ^ 24 mod 256 * 16777216 + n div 2 ^ 16 mod 256 * 65536 + n div 2 ^ 8 mod 256 * 256 + n mod 256"
  proof -
    have "n div 2 ^ 16 = n div 2 ^ 24 * 256 + n div 2 ^ 16 mod 256"
      using div_mult_mod_eq [of "n div 2 ^ 16" 256] by (simp add: div_mult2_eq [symmetric])
    moreover have "n div 2 ^ 8 = n div 2 ^ 16 * 256 + n div 2 ^ 8 mod 256"
      using div_mult_mod_eq [of "n div 2 ^ 8" 256] by (simp add: div_mult2_eq [symmetric])
    moreover have "n = n div 2 ^ 8 * 256 + n mod 256" using div_mult_mod_eq [of n 256] by simp
    ultimately show ?thesis using top by linarith
  qed
  show ?thesis using byte [of 24] byte [of 16] byte [of 8] byte [of 0] split top
    by (simp add: set_bytes_def n_def [symmetric])
qed

lemma encode_nonempty: "bs \<noteq> [] \<Longrightarrow> base64URLEncode bs \<noteq> []"
proof
  assume "bs \<noteq> []" and "base64URLEncode bs = []"
  moreover have "base64_decode [] = Some []" by (simp add: base64_decode_def)
  ultimately show False using decode_encode [of bs] by simp
qed

text \<open>A published key with a positive modulus and a positive exponent below $2^{32}$ comes back as it was.\<close>

definition usable :: "rsa_public \<Rightarrow> bool" where
  "usable p \<longleftrightarrow> 0 < rp_n p \<and> 0 < rp_e p \<and> rp_e p < 2 ^ 32"

definition on_the_wire :: "jwk \<Rightarrow> raw_jwk" where
  "on_the_wire j = \<lparr>rj_kty = ''RSA'', rj_kid = jw_kid j, rj_n = jw_n j, rj_e = jw_e j\<rparr>"

lemma add_kms_jwk:
  assumes "usable p" and "kid \<noteq> []"
  shows "add_jwk (on_the_wire (kms_jwk kid p)) m = m(kid \<mapsto> p)"
proof -
  let ?four = "map (\<lambda>i. word_of_int (rp_e p div 2 ^ (8 * i))) [3, 2, 1, 0] :: byte list"
  have n: "be_bytes (rp_n p) \<noteq> []" using assms(1) by (subst be_bytes.simps) (simp add: usable_def)
  have e: "strip_zero_bytes ?four \<noteq> []" by (rule strip_nonempty) simp
  have "set_bytes (strip_zero_bytes ?four) = nat (rp_e p)"
    unfolding set_bytes_strip using assms(1) by (intro four_bytes) (simp_all add: usable_def)
  then have "big_int64 (set_bytes (strip_zero_bytes ?four)) = rp_e p"
    using assms(1) sint_of_nat_small [of "nat (rp_e p)"]
    unfolding big_int64_def usable_def by (simp only: int_nat_eq) (simp add: nat_less_iff)
  moreover have same: "\<lparr>rp_n = rp_n p, rp_e = rp_e p\<rparr> = p" by simp
  ultimately show ?thesis
    using assms(2) encode_nonempty [OF n] encode_nonempty [OF e] set_bytes_be_bytes [of "rp_n p"]
    unfolding add_jwk_def on_the_wire_def kms_jwk_def base64UrlBig_def kms_base64UrlInt_def
    by (simp only: raw_jwk.simps jwk.simps decode_encode) (simp add: same)
qed

section \<open>The gateway follows the provider\<close>

definition usable_keys :: "('d, 's) mock_kms \<Rightarrow> bool" where
  "usable_keys m \<longleftrightarrow> (\<forall>k r. mk_versions m k = Some r \<longrightarrow> kr_alg r = AlgRS256 \<and> (\<forall>p. kr_pub r = Some p \<longrightarrow> usable p))"

definition published_key :: "('d, 's) mock_kms \<Rightarrow> string \<rightharpoonup> rsa_public" where
  "published_key m k = (case mk_versions m k of
     None \<Rightarrow> None | Some r \<Rightarrow> if kr_state r = StateRetired then None else kr_pub r)"

lemma fold_add_jwks:
  assumes "\<And>k r. mk_versions m k = Some r \<Longrightarrow> good_record k r" and "usable_keys m"
  shows "fold add_jwk (map on_the_wire (kms_jwks ks m)) m0 k =
    (if k \<in> set ks \<and> published_key m k \<noteq> None then published_key m k else m0 k)"
proof (induction ks arbitrary: m0)
  case (Cons x ks)
  show ?case
  proof (cases "published_key m x")
    case None
    then have "kms_jwks (x # ks) m = kms_jwks ks m"
      by (auto simp: kms_jwks_def published_key_def map_filter_simps split: option.splits if_splits)
    then show ?thesis using Cons None by auto
  next
    case (Some p)
    then obtain r where r: "mk_versions m x = Some r" "kr_state r \<noteq> StateRetired" "kr_pub r = Some p"
      by (auto simp: published_key_def split: option.splits if_splits)
    then have good: "kr_kid r = x" "x \<noteq> []" and "usable p"
      using assms(1) [OF r(1)] assms(2) by (auto simp: good_record_def usable_keys_def)
    have "kms_jwks (x # ks) m = kms_jwk x p # kms_jwks ks m"
      using r good by (simp add: kms_jwks_def map_filter_simps)
    then have "fold add_jwk (map on_the_wire (kms_jwks (x # ks) m)) m0 k = fold add_jwk (map on_the_wire (kms_jwks ks m)) (m0(x \<mapsto> p)) k"
      by (simp add: add_kms_jwk [OF \<open>usable p\<close> good(2)])
    also have "\<dots> = (if k \<in> set ks \<and> published_key m k \<noteq> None then published_key m k else (m0(x \<mapsto> p)) k)"
      by (rule Cons.IH)
    finally show ?thesis using Some by auto
  qed
qed (simp add: kms_jwks_def map_filter_simps)

lemma Refresh_from_kms:
  assumes inv: "kms_inv m" and ok: "usable_keys m" and order: "set ks = dom (mk_versions m)"
    and eps: "jc_endpoints c = [ep]" and get: "get ep = Inr (200, Inr (map on_the_wire (kms_jwks ks m)))"
  shows "Refresh get now c = (None, c\<lparr>jc_keys := published_key m, jc_fetched := now\<rparr>)"
proof -
  have good: "good_record k r" if "mk_versions m k = Some r" for k r using inv that by (simp add: kms_inv_def)
  have out: "published_key m k = None" if "k \<notin> set ks" for k
    using that order by (auto simp: published_key_def dom_def)
  have "fold add_jwk (map on_the_wire (kms_jwks ks m)) Map.empty = published_key m"
    using out by (auto simp: fold_add_jwks [OF good ok] fun_eq_iff)
  moreover have "published_key m (mk_active m) \<noteq> None"
    using inv by (auto simp: kms_inv_def published_key_def good_record_def)
  then have "published_key m \<noteq> Map.empty" by (metis (full_types))
  ultimately show ?thesis by (simp add: Refresh_def eps fetch_one_def get)
qed

text \<open>C11: a gateway that fetches the key set of a service when its cache is stale or does not know the kid ends
  with exactly the provider's own key for every published kid, through the base64 form of modulus and exponent, and
  refuses every other kid, among them the retired ones that the provider itself still verifies.\<close>

theorem gateway_follows_provider:
  assumes inv: "kms_inv m" and ok: "usable_keys m" and order: "set ks = dom (mk_versions m)"
    and eps: "jc_endpoints c = [ep]" and get: "get ep = Inr (200, Inr (map on_the_wire (kms_jwks ks m)))"
    and asks: "jc_ttl c < now - jc_fetched c \<or> jc_keys c kid = None" and "kid \<noteq> []"
  shows "if kid \<in> jw_kid ` set (kms_jwks ks m)
    then fst (jwks_verifying get now kid c) = fst (kms_verifying kid m) \<and> is_ok (fst (kms_verifying kid m))
    else \<not> is_ok (fst (jwks_verifying get now kid c))"
proof -
  have good: "good_record k r" if "mk_versions m k = Some r" for k r using inv that by (simp add: kms_inv_def)
  have fresh: "Refresh get now c = (None, c\<lparr>jc_keys := published_key m, jc_fetched := now\<rparr>)"
    if "jc_endpoints c = [ep]" for c by (rule Refresh_from_kms [OF inv ok order, of c ep get now]) (rule that, rule get)
  have "kid \<in> published m \<longleftrightarrow> published_key m kid \<noteq> None"
    using good by (fastforce simp: published_def published_key_def good_record_def split: option.splits)
  then have pub: "kid \<in> jw_kid ` set (kms_jwks ks m) \<longleftrightarrow> published_key m kid \<noteq> None"
    by (simp add: jwks_published [OF good order])
  have client: "fst (jwks_verifying get now kid c) = (case published_key m kid of
      None \<Rightarrow> Inl (Plain (''authjwt: unknown kid '' @ [CHR 0x22] @ kid @ [CHR 0x22]))
    | Some p \<Rightarrow> Inr \<lparr>vk_kid = kid, vk_alg = AlgRS256, vk_material = RsaPublic p\<rparr>)"
    using asks eps by (auto simp: jwks_verifying_def ensureFresh_def Let_def fresh split: option.splits)
  have "fst (kms_verifying kid m) = Inr \<lparr>vk_kid = kid, vk_alg = AlgRS256, vk_material = RsaPublic p\<rparr>"
    if "published_key m kid = Some p" for p
    using that ok good \<open>kid \<noteq> []\<close>
    by (fastforce simp: kms_verifying_def published_key_def usable_keys_def good_record_def split: option.splits if_splits)
  then show ?thesis using pub by (cases "published_key m kid") (simp_all add: client)
qed

end
