(* ===== verification/KeyDemo.thy ===== *)
theory KeyDemo
  imports JwksClient
begin

text \<open>Concrete keys, a provider and a JWT library, on which the properties of the identity part are evaluated.\<close>

definition demo_key :: "nat \<Rightarrow> unit rsa_private" where
  "demo_key n = \<lparr>sk_pub = \<lparr>rp_n = n, rp_e = 65537\<rparr>, sk_secret = ()\<rparr>"

definition demo_codec :: "unit key_codec" where
  "demo_codec = \<lparr>kc_encode = (\<lambda>ty b. b), kc_decode = (\<lambda>_. None), kc_pkcs1 = (\<lambda>_. Inl (Plain [])), kc_pkcs8 = (\<lambda>_. Inr None),
     kc_pkix = (\<lambda>_. Inr None), kc_marshal_pkcs1 = (\<lambda>_. ''private''), kc_marshal_pkix = (\<lambda>_. Inr ''public'')\<rparr>"

definition demo_kms_env :: "(unit, unit) kms_env" where
  "demo_kms_env = \<lparr>ke_store = None, ke_codec = demo_codec\<rparr>"

definition demo_policy :: version_policy where
  "demo_policy = \<lparr>vp_rotate = 30, vp_retire = 7\<rparr>"

definition demo_record :: "string \<Rightarrow> time \<Rightarrow> nat \<Rightarrow> unit key_record" where
  "demo_record kid now n = \<lparr>kr_kid = kid, kr_alg = AlgRS256, kr_state = StateActive, kr_not_before = now,
      kr_not_after = now + 37, kr_created = now, kr_private_pem = ''private'', kr_public_pem = ''public'',
      kr_priv = Some (demo_key n), kr_pub = Some (sk_pub (demo_key n))\<rparr>"

definition demo_kms :: "(unit, unit) mock_kms" where
  "demo_kms = \<lparr>mk_name = ''user'', mk_policy = demo_policy, mk_versions = [''user-0'' \<mapsto> demo_record ''user-0'' 0 35],
     mk_active = ''user-0'', mk_store = ()\<rparr>"

lemma demo_kids: "''user'' @ ''-'' @ dec_int 0 = ''user-0''" "''user'' @ ''-'' @ dec_int 10 = ''user-10''" "''user'' @ ''-'' @ dec_int 50 = ''user-50''"
  by code_simp+

lemma demo_start: "NewMockKmsProvider demo_kms_env ''user'' demo_policy (Inr (demo_key 35)) 0 [] () = Inr demo_kms"
  using demo_kids
  by (simp add: NewMockKmsProvider_def demo_kms_env_def demo_policy_def RotateNow_def demo_codec_def new_kid_def retire_active_def
      new_record_def demo_kms_def demo_record_def Let_def)

lemma demo_kms_inv: "kms_inv demo_kms"
  by (rule NewMockKms_inv [OF demo_start]) (simp add: demo_kms_env_def)

definition demo_rotated :: "time \<Rightarrow> string list \<Rightarrow> (unit, unit) mock_kms" where
  "demo_rotated now ks = rotate_by demo_kms_env \<lparr>ro_gen = Inr (demo_key 77), ro_now = now, ro_order = ks\<rparr> demo_kms"

lemma demo_rotation:
  "RotateNow demo_kms_env (Inr (demo_key 77)) now ks demo_kms = (Inr (new_kid now demo_kms), demo_rotated now ks)"
  by (simp add: demo_rotated_def rotate_by_def RotateNow_def demo_kms_env_def demo_codec_def Let_def)

lemma demo_new_kids: "new_kid 10 demo_kms = ''user-10''" "new_kid 50 demo_kms = ''user-50''"
  using demo_kids by (simp_all add: new_kid_def demo_kms_def)

theorem kms_one_active_witness:
  "{k. \<exists>r. mk_versions (demo_rotated 10 []) k = Some r \<and> kr_state r = StateActive} = {mk_active (demo_rotated 10 [])}"
  using kms_one_active [OF demo_start, of "[\<lparr>ro_gen = Inr (demo_key 77), ro_now = 10, ro_order = []\<rparr>]"]
  by (simp add: demo_kms_env_def demo_rotated_def)

lemma demo_rotated_dom:
  "dom (mk_versions (demo_rotated 10 ks)) = {''user-10'', ''user-0''}" "dom (mk_versions (demo_rotated 50 ks)) = {''user-50'', ''user-0''}"
  using RotateNow_dom [OF demo_rotation, of 10 ks] RotateNow_dom [OF demo_rotation, of 50 ks]
  by (simp_all add: demo_new_kids) (simp_all add: demo_kms_def)

theorem rotation_publishes_witness:
  "''user-0'' \<in> jw_kid ` set (kms_jwks [''user-10'', ''user-0''] (demo_rotated 10 [''user-10'', ''user-0'']))"
proof -
  have "jw_kid ` set (kms_jwks [''user-0''] demo_kms) = {''user-0''}"
    by (simp add: kms_jwks_def map_filter_simps demo_kms_def demo_record_def kms_jwk_def)
  then show ?thesis
    using rotation_publishes [OF demo_kms_inv demo_rotation, of "[''user-10'', ''user-0'']" 10 "[''user-0'']"] demo_rotated_dom
    by (simp add: demo_new_kids) (simp add: demo_kms_def demo_record_def demo_policy_def)
qed

theorem late_rotation_drops_key_witness:
  "''user-0'' \<notin> jw_kid ` set (kms_jwks [''user-50'', ''user-0''] (demo_rotated 50 [''user-50'', ''user-0'']))"
  using late_rotation_drops_key [OF demo_kms_inv demo_rotation, of "[''user-50'', ''user-0'']" 50 "demo_record ''user-0'' 0 35"]
    demo_rotated_dom
  by (simp add: demo_new_kids) (simp add: demo_kms_def demo_record_def demo_policy_def)

section \<open>A JWT library that keeps the contract\<close>

text \<open>Signing texts and tokens are their parts; a signature is the modulus of the key.\<close>

definition demo_lib :: "(unit, string \<times> string \<times> claims, (string \<times> string \<times> claims) \<times> byte list) jwt_lib" where
  "demo_lib = \<lparr>jl_text = (\<lambda>alg kid c. Inr (alg, kid, c)),
     jl_sign = (\<lambda>mat t. case mat of RsaPrivate p \<Rightarrow> Inr (be_bytes (rp_n (sk_pub p))) | _ \<Rightarrow> Inl (Plain ''key is of invalid type'')),
     jl_sha256 = (\<lambda>_. []), jl_compose = Pair, jl_decode = (\<lambda>((alg, kid, c), sig). Inr (alg, kid, c, (alg, kid, c), sig)),
     jl_verify = (\<lambda>p t sig. if sig = be_bytes (rp_n p) then None else Some (Plain ''verification error'')),
     jl_validate = (\<lambda>now c. if (case cl_expires c of None \<Rightarrow> True | Some e \<Rightarrow> now < e) \<and> (case cl_not_before c of None \<Rightarrow> True | Some n \<Rightarrow> n \<le> now)
                            then None else Some (Plain ''token is expired''))\<rparr>"

lemma demo_contract: "jwt_contract demo_lib"
  by (auto simp: jwt_contract_def demo_lib_def split: option.splits)

definition demo_signer :: "(unit, (unit, unit) mock_kms) signer" where
  "demo_signer = \<lparr>si_provider = \<lparr>kp_active = kms_active, kp_jwks = kms_jwks [], kp_verifying = kms_verifying\<rparr>, si_issuer = ''yunmao.user-svc''\<rparr>"

definition demo_token :: "(string \<times> string \<times> claims) \<times> byte list" where
  "demo_token = ((''RS256'', ''user-0'', login_claims ''yunmao.user-svc'' ''usr_1'' ScopeUser ''yunmao.gateway'' hour 0), be_bytes 35)"

lemma demo_sign: "SignLogin demo_lib demo_signer ''usr_1'' ScopeUser ''yunmao.gateway'' hour 0 demo_kms = Inr demo_token"
  by (simp add: SignLogin_def signClaims_def demo_signer_def kms_active_def demo_kms_def demo_record_def demo_lib_def demo_token_def
      demo_key_def Let_def)

lemma demo_later: "rotated demo_kms_env demo_kms (demo_rotated 10 ks)"
proof -
  have "mk_versions demo_kms (new_kid 10 demo_kms) = None" by (simp add: demo_new_kids) (simp add: demo_kms_def)
  then show ?thesis unfolding demo_rotated_def by (intro rotated_once not_rotated) simp
qed

theorem token_survives_rotation_witness:
  "fst (Parse demo_lib kms_verifying second demo_token (demo_rotated 10 [])) =
     Inr (login_claims ''yunmao.user-svc'' ''usr_1'' ScopeUser ''yunmao.gateway'' hour 0)"
proof -
  have "kp_active (si_provider demo_signer) = kms_active" by (simp add: demo_signer_def)
  moreover have "plain_text (si_issuer demo_signer) \<and> plain_text ''usr_1'' \<and> plain_text ''yunmao.gateway'' \<and> plain_text (mk_active demo_kms)"
    by (simp add: plain_text_def demo_signer_def demo_kms_def)
  moreover have "second < numeric_date (0 + hour)" by (simp add: numeric_date_def truncate_time_def second_def zero_time_def)
  ultimately show ?thesis
    using token_survives_rotation [OF demo_contract demo_kms_inv demo_later _ demo_sign, of second "[]"]
    by (simp add: demo_signer_def)
qed

definition bare_provider :: "unit rs_provider" where
  "bare_provider = \<lparr>rs_kid = ''user-0'', rs_priv = demo_key 35, rs_pubs = [''user-0'' \<mapsto> sk_pub (demo_key 35)]\<rparr>"

theorem parse_accepts_only_verified_witness:
  "\<exists>c p. Parse demo_lib rs_verifying 0 demo_token bare_provider = (Inr c, bare_provider) \<and>
     jl_verify demo_lib p (''RS256'', ''user-0'', c) (be_bytes 35) = None"
proof -
  let ?c = "login_claims ''yunmao.user-svc'' ''usr_1'' ScopeUser ''yunmao.gateway'' hour 0"
  have decode: "jl_decode demo_lib demo_token = Inr (''RS256'', ''user-0'', ?c, (''RS256'', ''user-0'', ?c), be_bytes 35)"
    by (simp add: demo_lib_def demo_token_def)
  have key: "key_for rs_verifying ''RS256'' ''user-0'' bare_provider = (Inr (sk_pub (demo_key 35)), bare_provider)"
    by (simp add: key_for_def rs_verifying_def bare_provider_def Let_def)
  have verify: "jl_verify demo_lib (sk_pub (demo_key 35)) t (be_bytes 35) = None" for t
    by (simp add: demo_lib_def demo_key_def)
  have "0 < numeric_date hour" by (simp add: numeric_date_def truncate_time_def second_def zero_time_def)
  then have "jl_validate demo_lib 0 ?c = None" by (simp add: demo_lib_def)
  then have parse: "Parse demo_lib rs_verifying 0 demo_token bare_provider = (Inr ?c, bare_provider)"
    by (simp add: Parse_def decode key verify)
  have "\<exists>p. jl_verify demo_lib p (''RS256'', ''user-0'', ?c) (be_bytes 35) = None"
    using parse_accepts_only_verified [OF parse] by (auto simp: decode)
  then show ?thesis using parse by blast
qed

text \<open>A gateway whose only endpoint serves the key set after one rotation.\<close>

definition demo_client :: jwks_client where
  "demo_client = NewJWKSClient [''http://user-svc/jwks.json''] 0"

theorem gateway_follows_provider_witness:
  "is_ok (fst (jwks_verifying (\<lambda>_. Inr (200, Inr (map on_the_wire (kms_jwks [''user-0''] demo_kms)))) 0 ''user-0'' demo_client
     :: (go_error, unit verifying_key, jwks_client) outcome))"
proof -
  have "usable_keys demo_kms" by (simp add: usable_keys_def demo_kms_def demo_record_def usable_def demo_key_def)
  moreover have "set [''user-0''] = dom (mk_versions demo_kms)" by (simp add: demo_kms_def)
  moreover have "jc_endpoints demo_client = [''http://user-svc/jwks.json'']" "jc_keys demo_client ''user-0'' = None"
    by (simp_all add: demo_client_def NewJWKSClient_def)
  moreover have "''user-0'' \<in> jw_kid ` set (kms_jwks [''user-0''] demo_kms)"
    by (simp add: kms_jwks_def map_filter_simps demo_kms_def demo_record_def kms_jwk_def)
  ultimately show ?thesis
    using gateway_follows_provider [OF demo_kms_inv, of "[''user-0'']" demo_client "''http://user-svc/jwks.json''"
        "\<lambda>_. Inr (200, Inr (map on_the_wire (kms_jwks [''user-0''] demo_kms)))" 0 "''user-0''"]
    by simp
qed

end
