(* ===== verification/RoomStore.thy ===== *)
theory RoomStore
  imports Sql
begin

text \<open>
  \<^verbatim>\<open>go/services/room-svc/internal/store/store.go\<close>: the rooms, in memory and in the PostgreSQL table \<open>rooms\<close>.
  Every clock reading is an argument; a range over a Go map, and the order of equal rows of a query, follow the
  list \<open>ks\<close>.
\<close>

section \<open>Rooms\<close>

text \<open>The fields the store and the service share, then those of the store.\<close>

record room_base =
  rw_id :: string
  rw_cat :: string
  rw_device :: string
  rw_owner :: string
  rw_name :: string
  rw_description :: string
  rw_city :: string
  rw_region :: string
  rw_visibility :: string
  rw_live :: string
  rw_feeding :: string
  rw_status :: string
  rw_cooldown :: u32
  rw_no_feed_start :: string
  rw_no_feed_end :: string
  rw_stream_key :: string
  rw_cats :: "string list"
  rw_created :: time
  rw_updated :: time

record room_row = room_base +
  rw_key_rotated :: time

record room_filter =
  rf_owner :: string
  rf_region :: string
  rf_status :: string
  rf_limit :: int
  rf_offset :: int

text \<open>\<open>Update\<close> writes to the row it is given a pointer to; the row after the call is its answer.\<close>

record 's room_ops =
  ro_get :: "string \<Rightarrow> 's \<Rightarrow> go_error + room_row"
  ro_create :: "time \<Rightarrow> room_row \<Rightarrow> 's \<Rightarrow> (go_error, unit, 's) outcome"
  ro_update :: "time \<Rightarrow> room_row \<Rightarrow> 's \<Rightarrow> (go_error, room_row, 's) outcome"
  ro_list :: "string list \<Rightarrow> room_filter \<Rightarrow> 's \<Rightarrow> go_error + room_row list"
  ro_set_status :: "time \<Rightarrow> string \<Rightarrow> string \<Rightarrow> 's \<Rightarrow> (go_error, unit, 's) outcome"
  ro_set_key :: "time \<Rightarrow> string \<Rightarrow> string \<Rightarrow> time \<Rightarrow> 's \<Rightarrow> (go_error, unit, 's) outcome"

abbreviation no_room :: go_error where
  "no_room \<equiv> yerr RoomNotFound ''room not found''"

definition mapStatusToLive :: "string \<Rightarrow> string" where
  "mapStatusToLive st = (if st = ''live'' then ''online'' else ''offline'')"

definition room_matches :: "room_filter \<Rightarrow> room_row \<Rightarrow> bool" where
  "room_matches f r \<longleftrightarrow> (rf_owner f = [] \<or> rw_owner r = rf_owner f) \<and> (rf_region f = [] \<or> rw_region r = rf_region f) \<and>
     (rf_status f = [] \<or> rw_status r = rf_status f)"

section \<open>In memory\<close>

type_synonym room_mem = "string \<rightharpoonup> room_row"

definition demo_room :: "time \<Rightarrow> string \<Rightarrow> string \<Rightarrow> room_row" where
  "demo_room now name city = \<lparr>rw_id = ''room_demo'', rw_cat = ''cat_demo'', rw_device = ''dev_demo'', rw_owner = ''usr_demo'',
     rw_name = name, rw_description = [], rw_city = city, rw_region = ''global'', rw_visibility = ''public'', rw_live = ''online'',
     rw_feeding = ''open'', rw_status = ''live'', rw_cooldown = 30, rw_no_feed_start = [], rw_no_feed_end = [], rw_stream_key = [],
     rw_cats = [''cat_demo''], rw_created = now, rw_updated = now, rw_key_rotated = zero_time\<rparr>"

text \<open>Name and city of the first room are Chinese texts, here arguments.\<close>

definition room_mem_new :: "time \<Rightarrow> string \<Rightarrow> string \<Rightarrow> room_mem" where
  "room_mem_new now name city = [''room_demo'' \<mapsto> demo_room now name city]"

definition room_mem_get :: "string \<Rightarrow> room_mem \<Rightarrow> go_error + room_row" where
  "room_mem_get i m = (case m i of None \<Rightarrow> Inl no_room | Some r \<Rightarrow> Inr r)"

definition room_mem_create :: "time \<Rightarrow> room_row \<Rightarrow> room_mem \<Rightarrow> (go_error, unit, room_mem) outcome" where
  "room_mem_create now r m =
     (if rw_id r = [] then (Inl (Plain ''room.id required''), m)
      else (Inr (), m(rw_id r \<mapsto> r\<lparr>rw_created := (if is_zero_time (rw_created r) then now else rw_created r), rw_updated := now\<rparr>)))"

definition room_mem_update :: "time \<Rightarrow> room_row \<Rightarrow> room_mem \<Rightarrow> (go_error, room_row, room_mem) outcome" where
  "room_mem_update now r m =
     (if rw_id r = [] then (Inl (Plain ''room.id required''), m)
      else (case m (rw_id r) of
          None \<Rightarrow> (Inl no_room, m)
        | Some old \<Rightarrow> let r' = r\<lparr>rw_created := rw_created old, rw_updated := now\<rparr> in (Inr r', m(rw_id r \<mapsto> r'))))"

definition room_mem_list :: "string list \<Rightarrow> room_filter \<Rightarrow> room_mem \<Rightarrow> go_error + room_row list" where
  "room_mem_list ks f m =
     (let out = filter (room_matches f) (rows_in ks m)
      in Inr (if 0 < rf_limit f \<and> rf_limit f < int (length out) then take (nat (rf_limit f)) out else out))"

definition room_mem_set_status :: "time \<Rightarrow> string \<Rightarrow> string \<Rightarrow> room_mem \<Rightarrow> (go_error, unit, room_mem) outcome" where
  "room_mem_set_status now i st m =
     (case m i of
        None \<Rightarrow> (Inl no_room, m)
      | Some r \<Rightarrow> (Inr (), m(i \<mapsto> r\<lparr>rw_status := st, rw_live := mapStatusToLive st, rw_updated := now\<rparr>)))"

definition room_mem_set_key :: "time \<Rightarrow> string \<Rightarrow> string \<Rightarrow> time \<Rightarrow> room_mem \<Rightarrow> (go_error, unit, room_mem) outcome" where
  "room_mem_set_key now i sk at m =
     (case m i of
        None \<Rightarrow> (Inl no_room, m)
      | Some r \<Rightarrow> (Inr (), m(i \<mapsto> r\<lparr>rw_stream_key := sk, rw_key_rotated := at, rw_updated := now\<rparr>)))"

definition room_mem_ops :: "room_mem room_ops" where
  "room_mem_ops = \<lparr>ro_get = room_mem_get, ro_create = room_mem_create, ro_update = room_mem_update, ro_list = room_mem_list,
     ro_set_status = room_mem_set_status, ro_set_key = room_mem_set_key\<rparr>"

section \<open>In PostgreSQL\<close>

text \<open>The columns; \<open>NULLIF\<close> stores an empty text as null and \<open>COALESCE\<close> reads it back.  The cooldown is an
  \<open>INT\<close> of 32 signed bits, which the driver refuses to overflow.\<close>

record room_sql =
  sr_cat :: "string option"
  sr_device :: "string option"
  sr_owner :: "string option"
  sr_name :: string
  sr_description :: "string option"
  sr_city :: "string option"
  sr_region :: string
  sr_visibility :: string
  sr_live :: string
  sr_feeding :: string
  sr_status :: string
  sr_cooldown :: int
  sr_no_feed_start :: "string option"
  sr_no_feed_end :: "string option"
  sr_stream_key :: "string option"
  sr_key_rotated :: "time option"
  sr_cats :: "string list"
  sr_created :: time
  sr_updated :: time

type_synonym room_table = "string \<rightharpoonup> room_sql"

definition nullif :: "string \<Rightarrow> string option" where
  "nullif s = (if s = [] then None else Some s)"

definition coalesce :: "string option \<Rightarrow> string" where
  "coalesce x = (case x of None \<Rightarrow> [] | Some s \<Rightarrow> s)"

lemma coalesce_nullif [simp]: "coalesce (nullif s) = s"
  by (simp add: coalesce_def nullif_def)

definition scanRoom :: "string \<Rightarrow> room_sql \<Rightarrow> room_row" where
  "scanRoom i q = \<lparr>rw_id = i, rw_cat = coalesce (sr_cat q), rw_device = coalesce (sr_device q), rw_owner = coalesce (sr_owner q),
     rw_name = sr_name q, rw_description = coalesce (sr_description q), rw_city = coalesce (sr_city q), rw_region = sr_region q,
     rw_visibility = sr_visibility q, rw_live = sr_live q, rw_feeding = sr_feeding q, rw_status = sr_status q,
     rw_cooldown = word_of_int (sr_cooldown q), rw_no_feed_start = coalesce (sr_no_feed_start q), rw_no_feed_end = coalesce (sr_no_feed_end q),
     rw_stream_key = coalesce (sr_stream_key q), rw_cats = sr_cats q, rw_created = sr_created q, rw_updated = sr_updated q,
     rw_key_rotated = (case sr_key_rotated q of None \<Rightarrow> zero_time | Some t \<Rightarrow> t)\<rparr>"

definition int4_fits :: "u32 \<Rightarrow> bool" where
  "int4_fits n \<longleftrightarrow> uint n < 2 ^ 31"

abbreviation int4_error :: go_error where
  "int4_error \<equiv> Plain ''failed to encode args: value is greater than maximum value for int4''"

definition orElse :: "string \<Rightarrow> string \<Rightarrow> string" where
  "orElse s d = (if s = [] then d else s)"

lemma orElse_nonempty [simp]: "orElse s d = [] \<longleftrightarrow> s = [] \<and> d = []"
  by (simp add: orElse_def)

definition room_pg_get :: "faults \<Rightarrow> string \<Rightarrow> room_table \<Rightarrow> go_error + room_row" where
  "room_pg_get flt i t = fst (stmt flt ''get room'' (\<lambda>e. e)
     (\<lambda>t. (case t i of None \<Rightarrow> Inl no_room | Some q \<Rightarrow> Inr (scanRoom i q), t)) t)"

definition room_pg_create :: "faults \<Rightarrow> time \<Rightarrow> room_row \<Rightarrow> room_table \<Rightarrow> (go_error, unit, room_table) outcome" where
  "room_pg_create flt now r =
     (let created = (if is_zero_time (rw_created r) then now else rw_created r);
          cooldown = (if rw_cooldown r = 0 then 30 else rw_cooldown r);
          q = \<lparr>sr_cat = nullif (rw_cat r), sr_device = nullif (rw_device r), sr_owner = nullif (rw_owner r), sr_name = rw_name r,
               sr_description = nullif (rw_description r), sr_city = nullif (rw_city r), sr_region = orElse (rw_region r) ''global'',
               sr_visibility = orElse (rw_visibility r) ''public'', sr_live = orElse (rw_live r) ''offline'',
               sr_feeding = orElse (rw_feeding r) ''closed'', sr_status = orElse (rw_status r) ''offline'', sr_cooldown = uint cooldown,
               sr_no_feed_start = nullif (rw_no_feed_start r), sr_no_feed_end = nullif (rw_no_feed_end r),
               sr_stream_key = nullif (rw_stream_key r), sr_key_rotated = None, sr_cats = rw_cats r, sr_created = created, sr_updated = created\<rparr>
      in stmt flt ''insert room'' (\<lambda>e. e)
           (\<lambda>t. if \<not> int4_fits cooldown then (Inl int4_error, t)
                else (Inr (), if t (rw_id r) = None then t(rw_id r \<mapsto> q) else t)))"

definition room_pg_update :: "faults \<Rightarrow> time \<Rightarrow> room_row \<Rightarrow> room_table \<Rightarrow> (go_error, room_row, room_table) outcome" where
  "room_pg_update flt now r =
     stmt flt ''update room'' (\<lambda>e. e)
       (\<lambda>t. if \<not> int4_fits (rw_cooldown r) then (Inl int4_error, t)
            else (case t (rw_id r) of
              None \<Rightarrow> (Inl no_room, t)
            | Some q \<Rightarrow> (Inr (r\<lparr>rw_region := orElse (rw_region r) ''global''\<rparr>), t(rw_id r \<mapsto> q\<lparr>sr_cat := nullif (rw_cat r), sr_device := nullif (rw_device r), sr_owner := nullif (rw_owner r),
                sr_name := rw_name r, sr_description := nullif (rw_description r), sr_city := nullif (rw_city r),
                sr_region := orElse (rw_region r) ''global'', sr_visibility := rw_visibility r, sr_live := rw_live r, sr_feeding := rw_feeding r,
                sr_status := rw_status r, sr_cooldown := uint (rw_cooldown r), sr_no_feed_start := nullif (rw_no_feed_start r),
                sr_no_feed_end := nullif (rw_no_feed_end r), sr_cats := rw_cats r, sr_updated := now\<rparr>))))"

text \<open>The newest first; a limit out of \<open>1..200\<close> becomes 50, a negative offset is an error of the server.\<close>

definition room_pg_list :: "faults \<Rightarrow> string list \<Rightarrow> room_filter \<Rightarrow> room_table \<Rightarrow> go_error + room_row list" where
  "room_pg_list flt ks f t =
     (let limit = (if rf_limit f \<le> 0 \<or> 200 < rf_limit f then 50 else rf_limit f);
          rows = filter (room_matches f) (rows_in ks (\<lambda>i. map_option (scanRoom i) (t i)))
      in fst (stmt flt ''list rooms'' (\<lambda>e. e)
           (\<lambda>t. (if rf_offset f < 0 then Inl (Plain ''OFFSET must not be negative'')
                 else Inr (take (nat limit) (drop (nat (rf_offset f)) (sort_key (\<lambda>r. - rw_created r) rows))), t)) t))"

definition room_pg_set_status :: "faults \<Rightarrow> time \<Rightarrow> string \<Rightarrow> string \<Rightarrow> room_table \<Rightarrow> (go_error, unit, room_table) outcome" where
  "room_pg_set_status flt now i st = stmt flt ''set room status'' (\<lambda>e. e)
     (\<lambda>t. case t i of
        None \<Rightarrow> (Inl no_room, t)
      | Some q \<Rightarrow> (Inr (), t(i \<mapsto> q\<lparr>sr_status := st, sr_live := mapStatusToLive st, sr_updated := now\<rparr>)))"

definition room_pg_set_key :: "faults \<Rightarrow> time \<Rightarrow> string \<Rightarrow> string \<Rightarrow> time \<Rightarrow> room_table \<Rightarrow> (go_error, unit, room_table) outcome" where
  "room_pg_set_key flt now i sk at = stmt flt ''set stream key'' (\<lambda>e. e)
     (\<lambda>t. case t i of
        None \<Rightarrow> (Inl no_room, t)
      | Some q \<Rightarrow> (Inr (), t(i \<mapsto> q\<lparr>sr_stream_key := Some sk, sr_key_rotated := Some at, sr_updated := now\<rparr>)))"

definition room_pg_ops :: "faults \<Rightarrow> room_table room_ops" where
  "room_pg_ops flt = \<lparr>ro_get = room_pg_get flt, ro_create = room_pg_create flt, ro_update = room_pg_update flt, ro_list = room_pg_list flt,
     ro_set_status = room_pg_set_status flt, ro_set_key = room_pg_set_key flt\<rparr>"

section \<open>The contract the service relies on\<close>

text \<open>What both stores show of a room; \<open>updated_at\<close> is stamped by the clock of the store and left open.\<close>

definition stamped :: "room_row \<Rightarrow> room_row" where
  "stamped r = r\<lparr>rw_updated := 0\<rparr>"

text \<open>A room the service hands over for creation: the defaults are filled in.\<close>

definition complete_room :: "room_row \<Rightarrow> bool" where
  "complete_room r \<longleftrightarrow> rw_id r \<noteq> [] \<and> rw_region r \<noteq> [] \<and> rw_visibility r \<noteq> [] \<and> rw_live r \<noteq> [] \<and> rw_feeding r \<noteq> [] \<and> rw_status r \<noteq> [] \<and>
     rw_cooldown r \<noteq> 0 \<and> int4_fits (rw_cooldown r) \<and> \<not> is_zero_time (rw_created r) \<and> rw_key_rotated r = zero_time"

text \<open>An update that keeps what an update must keep.\<close>

definition edits :: "room_row \<Rightarrow> room_row \<Rightarrow> bool" where
  "edits old r \<longleftrightarrow> rw_id r = rw_id old \<and> rw_id r \<noteq> [] \<and> rw_region r \<noteq> [] \<and> int4_fits (rw_cooldown r) \<and> rw_stream_key r = rw_stream_key old \<and>
     rw_key_rotated r = rw_key_rotated old \<and> rw_created r = rw_created old"

locale room_store =
  fixes ops :: "'s room_ops" and rooms :: "'s \<Rightarrow> string \<rightharpoonup> room_row"
  assumes get_room: "map_sum id stamped (ro_get ops i s) = (case rooms s i of None \<Rightarrow> Inl no_room | Some r \<Rightarrow> Inr r)"
    and create_room: "\<lbrakk>complete_room r; rooms s (rw_id r) = None\<rbrakk> \<Longrightarrow>
      fst (ro_create ops now r s) = Inr () \<and> rooms (snd (ro_create ops now r s)) = (rooms s)(rw_id r \<mapsto> stamped r)"
    and update_room: "\<lbrakk>rooms s (rw_id r) = Some old; edits old r\<rbrakk> \<Longrightarrow>
      map_sum id stamped (fst (ro_update ops now r s)) = Inr (stamped r) \<and> rooms (snd (ro_update ops now r s)) = (rooms s)(rw_id r \<mapsto> stamped r)"
    and set_status_room: "(fst (ro_set_status ops now i st s), rooms (snd (ro_set_status ops now i st s))) =
      (case rooms s i of None \<Rightarrow> (Inl no_room, rooms s)
       | Some r \<Rightarrow> (Inr (), (rooms s)(i \<mapsto> r\<lparr>rw_status := st, rw_live := mapStatusToLive st\<rparr>)))"
    and set_key_room: "(fst (ro_set_key ops now i sk at s), rooms (snd (ro_set_key ops now i sk at s))) =
      (case rooms s i of None \<Rightarrow> (Inl no_room, rooms s)
       | Some r \<Rightarrow> (Inr (), (rooms s)(i \<mapsto> r\<lparr>rw_stream_key := sk, rw_key_rotated := at\<rparr>)))"

definition mem_rooms :: "room_mem \<Rightarrow> string \<rightharpoonup> room_row" where
  "mem_rooms m i = map_option stamped (m i)"

definition pg_rooms :: "room_table \<Rightarrow> string \<rightharpoonup> room_row" where
  "pg_rooms t i = map_option (\<lambda>q. stamped (scanRoom i q)) (t i)"

lemma stamped_simps [simp]:
  "stamped (r\<lparr>rw_updated := t\<rparr>) = stamped r" "stamped (stamped r) = stamped r"
  "rw_id (stamped r) = rw_id r" "rw_stream_key (stamped r) = rw_stream_key r" "rw_created (stamped r) = rw_created r"
  "rw_key_rotated (stamped r) = rw_key_rotated r"
  "stamped (r\<lparr>rw_status := st, rw_live := l\<rparr>) = (stamped r)\<lparr>rw_status := st, rw_live := l\<rparr>"
  "stamped (r\<lparr>rw_stream_key := k, rw_key_rotated := t\<rparr>) = (stamped r)\<lparr>rw_stream_key := k, rw_key_rotated := t\<rparr>"
  by (simp_all add: stamped_def)

interpretation room_mem: room_store room_mem_ops mem_rooms
proof
  fix r old :: room_row and s :: room_mem and now i st sk at
  show "map_sum id stamped (ro_get room_mem_ops i s) = (case mem_rooms s i of None \<Rightarrow> Inl no_room | Some r \<Rightarrow> Inr r)"
    by (simp add: room_mem_ops_def room_mem_get_def mem_rooms_def split: option.split)
  show "fst (ro_create room_mem_ops now r s) = Inr () \<and> mem_rooms (snd (ro_create room_mem_ops now r s)) = (mem_rooms s)(rw_id r \<mapsto> stamped r)"
    if "complete_room r" "mem_rooms s (rw_id r) = None"
    using that by (auto simp: room_mem_ops_def room_mem_create_def mem_rooms_def complete_room_def stamped_def)
  show "map_sum id stamped (fst (ro_update room_mem_ops now r s)) = Inr (stamped r) \<and> mem_rooms (snd (ro_update room_mem_ops now r s)) = (mem_rooms s)(rw_id r \<mapsto> stamped r)"
    if "mem_rooms s (rw_id r) = Some old" "edits old r"
    using that by (auto simp: room_mem_ops_def room_mem_update_def mem_rooms_def edits_def stamped_def Let_def)
  show "(fst (ro_set_status room_mem_ops now i st s), mem_rooms (snd (ro_set_status room_mem_ops now i st s))) =
      (case mem_rooms s i of None \<Rightarrow> (Inl no_room, mem_rooms s)
       | Some r \<Rightarrow> (Inr (), (mem_rooms s)(i \<mapsto> r\<lparr>rw_status := st, rw_live := mapStatusToLive st\<rparr>)))"
    by (auto simp: room_mem_ops_def room_mem_set_status_def mem_rooms_def stamped_def split: option.split)
  show "(fst (ro_set_key room_mem_ops now i sk at s), mem_rooms (snd (ro_set_key room_mem_ops now i sk at s))) =
      (case mem_rooms s i of None \<Rightarrow> (Inl no_room, mem_rooms s)
       | Some r \<Rightarrow> (Inr (), (mem_rooms s)(i \<mapsto> r\<lparr>rw_stream_key := sk, rw_key_rotated := at\<rparr>)))"
    by (auto simp: room_mem_ops_def room_mem_set_key_def mem_rooms_def stamped_def split: option.split)
qed

lemma scan_back: "int4_fits c \<Longrightarrow> word_of_int (uint c) = c"
  by simp

interpretation room_pg: room_store "room_pg_ops no_faults" pg_rooms
proof
  fix r old :: room_row and s :: room_table and now i st sk at
  show "map_sum id stamped (ro_get (room_pg_ops no_faults) i s) = (case pg_rooms s i of None \<Rightarrow> Inl no_room | Some r \<Rightarrow> Inr r)"
    by (simp add: room_pg_ops_def room_pg_get_def pg_rooms_def split: option.split)
  show "fst (ro_create (room_pg_ops no_faults) now r s) = Inr () \<and> pg_rooms (snd (ro_create (room_pg_ops no_faults) now r s)) = (pg_rooms s)(rw_id r \<mapsto> stamped r)"
    if "complete_room r" "pg_rooms s (rw_id r) = None"
    using that
    by (auto simp: room_pg_ops_def room_pg_create_def pg_rooms_def complete_room_def orElse_def Let_def scanRoom_def stamped_def fun_eq_iff)
  show "map_sum id stamped (fst (ro_update (room_pg_ops no_faults) now r s)) = Inr (stamped r) \<and> pg_rooms (snd (ro_update (room_pg_ops no_faults) now r s)) = (pg_rooms s)(rw_id r \<mapsto> stamped r)"
    if "pg_rooms s (rw_id r) = Some old" "edits old r"
    using that
    by (cases r; cases old)
      (auto simp: room_pg_ops_def room_pg_update_def pg_rooms_def edits_def orElse_def scanRoom_def stamped_def fun_eq_iff)
  show "(fst (ro_set_status (room_pg_ops no_faults) now i st s), pg_rooms (snd (ro_set_status (room_pg_ops no_faults) now i st s))) =
      (case pg_rooms s i of None \<Rightarrow> (Inl no_room, pg_rooms s)
       | Some r \<Rightarrow> (Inr (), (pg_rooms s)(i \<mapsto> r\<lparr>rw_status := st, rw_live := mapStatusToLive st\<rparr>)))"
    by (auto simp: room_pg_ops_def room_pg_set_status_def pg_rooms_def scanRoom_def stamped_def fun_eq_iff split: option.split)
  show "(fst (ro_set_key (room_pg_ops no_faults) now i sk at s), pg_rooms (snd (ro_set_key (room_pg_ops no_faults) now i sk at s))) =
      (case pg_rooms s i of None \<Rightarrow> (Inl no_room, pg_rooms s)
       | Some r \<Rightarrow> (Inr (), (pg_rooms s)(i \<mapsto> r\<lparr>rw_stream_key := sk, rw_key_rotated := at\<rparr>)))"
    by (auto simp: room_pg_ops_def room_pg_set_key_def pg_rooms_def scanRoom_def stamped_def coalesce_def fun_eq_iff split: option.split)
qed

end
