(* ===== verification/Turn.thy ===== *)
theory Turn
  imports AppErrors GoTime
begin

text \<open>
  \<^verbatim>\<open>go/services/room-svc/internal/turn/turn.go\<close>: short-lived TURN credentials.  The HMAC of the standard
  library with its base64 text is the parameter \<open>hm\<close> of secret and message.
\<close>

record turn_signer =
  ts_primary :: string
  ts_legacy :: string

definition turn_new :: "string \<Rightarrow> string \<Rightarrow> go_error + turn_signer" where
  "turn_new primary legacy =
     (if length primary < 16 then Inl (Plain ''turn: PrimarySecret too short (>=16 bytes)'')
      else Inr \<lparr>ts_primary = primary, ts_legacy = legacy\<rparr>)"

record turn_credential =
  tc_username :: string
  tc_credential :: string
  tc_ttl_seconds :: int
  tc_expires :: time

definition ErrExpired :: go_error where
  "ErrExpired = Sentinel ''turn: credential expired''"

definition ErrSignature :: go_error where
  "ErrSignature = Sentinel ''turn: credential signature mismatch''"

definition turn_issue :: "(string \<Rightarrow> string \<Rightarrow> string) \<Rightarrow> turn_signer \<Rightarrow> time \<Rightarrow> string \<Rightarrow> duration \<Rightarrow> go_error + turn_credential" where
  "turn_issue hm sg now user ttl =
     (if user = [] then Inl (Plain ''turn: userID required'')
      else if ttl \<le> 0 then Inl (Plain ''turn: ttl must be > 0'')
      else let ex = now + ttl; username = dec_int (unix_seconds ex) @ '':'' @ user
           in Inr \<lparr>tc_username = username, tc_credential = hm (ts_primary sg) username, tc_ttl_seconds = ttl div second, tc_expires = ex\<rparr>)"

text \<open>The user name is cut at its first colon; without one it is refused.\<close>

definition turn_verify :: "(string \<Rightarrow> string \<Rightarrow> string) \<Rightarrow> turn_signer \<Rightarrow> time \<Rightarrow> string \<Rightarrow> string \<Rightarrow> go_error option" where
  "turn_verify hm sg now username cred =
     (if CHR '':'' \<notin> set username then Some (Plain ''turn: invalid username format'')
      else (case parse_int64 (takeWhile (\<lambda>c. c \<noteq> CHR '':'') username) of
          None \<Rightarrow> Some (Wrap ''turn: invalid expiry'' (Plain ''strconv.ParseInt''))
        | Some ex \<Rightarrow>
            if ex * second < now then Some ErrExpired
            else if cred = hm (ts_primary sg) username then None
            else if ts_legacy sg \<noteq> [] \<and> cred = hm (ts_legacy sg) username then None
            else Some ErrSignature))"

definition ICEEndpoints :: "string list \<Rightarrow> int list \<Rightarrow> string list" where
  "ICEEndpoints hosts ports =
     (if hosts = [] then []
      else let ps = (if ports = [] then [3478] else ports)
           in concat (map (\<lambda>h. concat (map (\<lambda>p. [''turn:'' @ h @ '':'' @ dec_int p @ ''?transport=udp'',
                                                  ''turn:'' @ h @ '':'' @ dec_int p @ ''?transport=tcp'']) ps)) hosts))"

lemma dec_int_no_colon: "CHR '':'' \<notin> set (dec_int i)"
  using dec_nat_digits [of "CHR '':''"] by (auto simp: dec_int_def)

text \<open>A credential is accepted up to and including the second in which it expires and not later; it
  goes on being accepted after its secret has become the legacy one; and under a changed user name, or under
  secrets whose HMAC differs, it is refused.\<close>

theorem turn_roundtrip:
  assumes "turn_issue hm sg t user ttl = Inr c" and "\<bar>unix_seconds (t + ttl)\<bar> < 2 ^ 63"
    and "ts_primary sg \<noteq> []"
  shows "turn_verify hm sg now (tc_username c) (tc_credential c) =
      (if now \<le> unix_seconds (t + ttl) * second then None else Some ErrExpired) \<and>
    turn_verify hm \<lparr>ts_primary = fresh, ts_legacy = ts_primary sg\<rparr> now (tc_username c) (tc_credential c) =
      (if now \<le> unix_seconds (t + ttl) * second then None else Some ErrExpired) \<and>
    (\<forall>sg' u. tc_credential c \<noteq> hm (ts_primary sg') u \<and> tc_credential c \<noteq> hm (ts_legacy sg') u \<longrightarrow>
      turn_verify hm sg' now u (tc_credential c) \<noteq> None)"
proof -
  have c: "tc_username c = dec_int (unix_seconds (t + ttl)) @ '':'' @ user" "tc_credential c = hm (ts_primary sg) (tc_username c)"
    using assms(1) by (auto simp: turn_issue_def Let_def split: if_splits)
  have "takeWhile (\<lambda>x. x \<noteq> CHR '':'') (tc_username c) = dec_int (unix_seconds (t + ttl))"
    using takeWhile_neq_append [OF dec_int_no_colon] by (simp add: c(1))
  moreover have "parse_int64 (dec_int (unix_seconds (t + ttl))) = Some (unix_seconds (t + ttl))"
    using assms(2) by (intro parse_int64_dec_int) auto
  moreover have "CHR '':'' \<in> set (tc_username c)" by (simp add: c(1))
  ultimately show ?thesis
    using assms(3) by (auto simp: turn_verify_def c(2) split: option.split)
qed

definition mark_hmac :: "string \<Rightarrow> string \<Rightarrow> string" where
  "mark_hmac secret msg = secret @ ''/'' @ msg"

theorem turn_roundtrip_witness:
  "\<exists>c. turn_issue mark_hmac \<lparr>ts_primary = ''0123456789abcdef'', ts_legacy = []\<rparr> 0 ''usr_1'' (300 * second) = Inr c \<and>
     turn_verify mark_hmac \<lparr>ts_primary = ''0123456789abcdef'', ts_legacy = []\<rparr> second (tc_username c) (tc_credential c) = None"
proof -
  let ?sg = "\<lparr>ts_primary = ''0123456789abcdef'', ts_legacy = []\<rparr>"
  have "\<exists>c. turn_issue mark_hmac ?sg 0 ''usr_1'' (300 * second) = Inr c"
    by (simp add: turn_issue_def second_def Let_def)
  then obtain c where c: "turn_issue mark_hmac ?sg 0 ''usr_1'' (300 * second) = Inr c" by blast
  moreover have "unix_seconds (0 + 300 * second) = 300" by (simp add: unix_seconds_def second_def)
  ultimately show ?thesis using turn_roundtrip [OF c, of second] by (simp add: second_def)
qed

end
