(* ===== verification/RoomService.thy ===== *)
theory RoomService
  imports RoomStore Turn FeatureFlags Tokens
begin

text \<open>
  \<^verbatim>\<open>go/services/room-svc/internal/service/service.go\<close>: rooms, subscription tokens, stream keys, ICE servers and
  the gray release of WebRTC, over any room store, key provider and JWT library.
\<close>

section \<open>State and configuration\<close>

record room_view = room_base +
  rv_protocol :: string
  rv_gray :: bool
  rv_gray_pct :: int

text \<open>The service without its mutable parts: the store's state and the state of the key provider are passed
  through.  \<open>re_hmac\<close> is the first 16 bytes, in hexadecimal, of HMAC-SHA256 under the configured key.\<close>

record ('d, 's, 'k, 't, 'w) room_env =
  re_store :: "'s room_ops"
  re_signer :: "('d, 'k) signer"
  re_verifier :: "(string \<Rightarrow> 'k \<Rightarrow> (go_error, 'd verifying_key, 'k) outcome) option"
  re_lib :: "('d, 't, 'w) jwt_lib"
  re_ttl :: duration
  re_audience :: string
  re_region :: string
  re_hmac :: "string \<Rightarrow> string"
  re_turn :: "turn_signer option"
  re_turn_hmac :: "string \<Rightarrow> string \<Rightarrow> string"
  re_turn_hosts :: "string list"
  re_turn_ports :: "int list"
  re_stun :: "string list"
  re_turn_ttl :: duration
  re_flags :: "flag_cache option"
  re_flag_name :: string

text \<open>\<open>New\<close> fills in the defaults.\<close>

definition room_defaults :: "('d, 's, 'k, 't, 'w) room_env \<Rightarrow> ('d, 's, 'k, 't, 'w) room_env" where
  "room_defaults e =
     e\<lparr>re_ttl := (if re_ttl e = 0 then 10 * minute else re_ttl e), re_audience := orElse (re_audience e) ''yunmao.gateway'',
       re_region := orElse (re_region e) ''global'',
       re_stun := (if re_stun e = [] then [''stun:stun.l.google.com:19302''] else re_stun e),
       re_turn_ttl := (if re_turn_ttl e \<le> 0 then 5 * minute else re_turn_ttl e),
       re_flag_name := orElse (re_flag_name e) ''room.webrtc.enabled''\<rparr>"

definition toServiceRoom :: "room_row \<Rightarrow> room_view" where
  "toServiceRoom r = room_base.extend (room_base.truncate r) (room_view.fields [] False 0)"

definition toStoreRoom :: "room_view \<Rightarrow> room_row" where
  "toStoreRoom r = room_base.extend (room_base.truncate r) (room_row.fields zero_time)"

section \<open>The gray release\<close>

text \<open>The percentage shown to the client.\<close>

definition configured_percent :: "flag \<Rightarrow> int" where
  "configured_percent f = (case fl_value f ''gray_percent'' of None \<Rightarrow> 0
     | Some v \<Rightarrow> (case value_int v of None \<Rightarrow> 0 | Some n \<Rightarrow> n))"

definition ResolveProtocolPref :: "flag_cache option \<Rightarrow> string \<Rightarrow> room_view \<Rightarrow> room_view" where
  "ResolveProtocolPref flags name r =
     (let r1 = (case flags of
                  None \<Rightarrow> r
                | Some c \<Rightarrow> r\<lparr>rv_gray_pct := configured_percent (flags_get c name), rv_gray := IsRoomInGrayPercent c name (rw_id r)\<rparr>)
      in if rv_protocol r1 = [] then r1\<lparr>rv_protocol := (if rv_gray r1 then ''webrtc'' else ''ll-hls'')\<rparr> else r1)"

record gray_distribution =
  gd_samples :: int
  gd_hits :: int
  gd_configured :: int
  gd_flag :: string

text \<open>The share in percent is \<open>gd_hits / gd_samples * 100\<close> as a float, left to the reader.  Only a float
  counts as configured percentage here.\<close>

definition SimulateGrayDistribution :: "flag_cache option \<Rightarrow> string \<Rightarrow> int \<Rightarrow> gray_distribution" where
  "SimulateGrayDistribution flags name n =
     (let n' = (if n \<le> 0 then 1000 else n);
          hit = (\<lambda>i. case flags of None \<Rightarrow> False | Some c \<Rightarrow> IsRoomInGrayPercent c name (''room_sim_'' @ dec_nat i))
      in \<lparr>gd_samples = n', gd_hits = int (length (filter hit [0..<nat n'])),
          gd_configured = (case flags of None \<Rightarrow> 0
             | Some c \<Rightarrow> (case fl_value (flags_get c name) ''gray_percent'' of Some (FFloat m e) \<Rightarrow> trunc_float m e | _ \<Rightarrow> 0)),
          gd_flag = name\<rparr>)"

section \<open>ICE servers\<close>

record ice_server =
  ic_urls :: "string list"
  ic_username :: string
  ic_credential :: string

record ice_response =
  ir_servers :: "ice_server list"
  ir_username :: string
  ir_credential :: string
  ir_ttl :: int
  ir_expires :: time

definition IssueIceServers :: "('d, 's, 'k, 't, 'w) room_env \<Rightarrow> time \<Rightarrow> string \<Rightarrow> go_error + ice_response" where
  "IssueIceServers env now user =
     (if user = [] then Inl (yerr SystemInternal ''user_id required'')
      else let plain = \<lparr>ir_servers = [\<lparr>ic_urls = re_stun env, ic_username = [], ic_credential = []\<rparr>], ir_username = [],
                        ir_credential = [], ir_ttl = 0, ir_expires = zero_time\<rparr>
           in (case re_turn env of
                 None \<Rightarrow> Inr plain
               | Some sg \<Rightarrow>
                   if re_turn_hosts env = [] then Inr plain
                   else (case turn_issue (re_turn_hmac env) sg now user (re_turn_ttl env) of
                       Inl e \<Rightarrow> Inl (yerr SystemInternal (''turn issue: '' @ err_text e))
                     | Inr c \<Rightarrow> Inr \<lparr>ir_servers = ir_servers plain @ [\<lparr>ic_urls = ICEEndpoints (re_turn_hosts env) (re_turn_ports env),
                                     ic_username = tc_username c, ic_credential = tc_credential c\<rparr>],
                                   ir_username = tc_username c, ir_credential = tc_credential c, ir_ttl = tc_ttl_seconds c,
                                   ir_expires = tc_expires c\<rparr>)))"

section \<open>Rooms\<close>

definition room_get :: "('d, 's, 'k, 't, 'w) room_env \<Rightarrow> string \<Rightarrow> 's \<Rightarrow> go_error + room_view" where
  "room_get env i s =
     (case ro_get (re_store env) i s of
        Inl e \<Rightarrow> Inl e
      | Inr r \<Rightarrow> Inr (ResolveProtocolPref (re_flags env) (re_flag_name env) (toServiceRoom r)))"

definition room_list :: "('d, 's, 'k, 't, 'w) room_env \<Rightarrow> string list \<Rightarrow> room_filter \<Rightarrow> 's \<Rightarrow> go_error + room_view list" where
  "room_list env ks f s = map_sum id (map toServiceRoom) (ro_list (re_store env) ks f s)"

definition deriveStreamKey :: "('d, 's, 'k, 't, 'w) room_env \<Rightarrow> string \<Rightarrow> time \<Rightarrow> string" where
  "deriveStreamKey env i now =
     re_region env @ ''_'' @ re_hmac env (re_region env @ ''|'' @ i @ ''|'' @ dec_int now)"

text \<open>The room with the defaults filled in; \<open>fresh\<close> is the ULID of a new identifier.\<close>

definition filled_room :: "('d, 's, 'k, 't, 'w) room_env \<Rightarrow> string \<Rightarrow> time \<Rightarrow> room_view \<Rightarrow> room_view" where
  "filled_room env fresh now r =
     (let i = (if rw_id r = [] then ''room_'' @ fresh else rw_id r)
      in r\<lparr>rw_id := i, rw_live := orElse (rw_live r) ''offline'', rw_feeding := orElse (rw_feeding r) ''closed'',
           rw_status := orElse (rw_status r) ''offline'', rw_cooldown := (if rw_cooldown r = 0 then 30 else rw_cooldown r),
           rw_visibility := orElse (rw_visibility r) ''public'', rw_region := orElse (rw_region r) (re_region env),
           rw_created := now, rw_updated := now, rw_stream_key := orElse (rw_stream_key r) (deriveStreamKey env i now),
           rw_cats := (if rw_cat r \<noteq> [] \<and> rw_cats r = [] then [rw_cat r] else rw_cats r)\<rparr>)"

definition room_create ::
  "('d, 's, 'k, 't, 'w) room_env \<Rightarrow> string \<Rightarrow> time \<Rightarrow> room_view \<Rightarrow> 's \<Rightarrow> (go_error, room_view, 's) outcome" where
  "room_create env fresh now r s =
     (if rw_name r = [] then (Inl (yerr SystemInternal ''display_name required''), s)
      else let r' = filled_room env fresh now r
           in (case ro_create (re_store env) now (toStoreRoom r') s of (Inl e, s') \<Rightarrow> (Inl e, s') | (Inr _, s') \<Rightarrow> (Inr r', s')))"

text \<open>The fields given replace those of the stored room.\<close>

definition merged_room :: "room_view \<Rightarrow> room_row \<Rightarrow> room_row" where
  "merged_room r old =
     old\<lparr>rw_name := orElse (rw_name r) (rw_name old), rw_description := orElse (rw_description r) (rw_description old),
         rw_city := orElse (rw_city r) (rw_city old), rw_region := orElse (rw_region r) (rw_region old),
         rw_visibility := orElse (rw_visibility r) (rw_visibility old), rw_cat := orElse (rw_cat r) (rw_cat old),
         rw_device := orElse (rw_device r) (rw_device old), rw_owner := orElse (rw_owner r) (rw_owner old),
         rw_cooldown := (if rw_cooldown r \<noteq> 0 then rw_cooldown r else rw_cooldown old),
         rw_cats := (if rw_cats r \<noteq> [] then rw_cats r else rw_cats old),
         rw_no_feed_start := orElse (rw_no_feed_start r) (rw_no_feed_start old),
         rw_no_feed_end := orElse (rw_no_feed_end r) (rw_no_feed_end old)\<rparr>"

definition room_update ::
  "('d, 's, 'k, 't, 'w) room_env \<Rightarrow> time \<Rightarrow> room_view \<Rightarrow> 's \<Rightarrow> (go_error, room_view, 's) outcome" where
  "room_update env now r s =
     (if rw_id r = [] then (Inl (yerr SystemInternal ''id required''), s)
      else (case ro_get (re_store env) (rw_id r) s of
          Inl e \<Rightarrow> (Inl e, s)
        | Inr old \<Rightarrow> (case ro_update (re_store env) now (merged_room r old) s of
            (Inl e, s') \<Rightarrow> (Inl e, s')
          | (Inr r', s') \<Rightarrow> (Inr (toServiceRoom r'), s'))))"

definition room_set_status :: "('d, 's, 'k, 't, 'w) room_env \<Rightarrow> time \<Rightarrow> string \<Rightarrow> string \<Rightarrow> 's \<Rightarrow> (go_error, unit, 's) outcome" where
  "room_set_status env now i st s =
     (if st \<in> {''live'', ''offline'', ''banned''} then ro_set_status (re_store env) now i st s
      else (Inl (yerr SystemInternal (''invalid status: '' @ st)), s))"

definition RotateStreamKey :: "('d, 's, 'k, 't, 'w) room_env \<Rightarrow> time \<Rightarrow> string \<Rightarrow> 's \<Rightarrow> (go_error, string, 's) outcome" where
  "RotateStreamKey env now i s =
     (let sk = deriveStreamKey env i now
      in (case ro_set_key (re_store env) now i sk now s of (Inl e, s') \<Rightarrow> (Inl e, s') | (Inr _, s') \<Rightarrow> (Inr sk, s')))"

section \<open>Subscriptions\<close>

record 'w subscription =
  sb_token :: 'w
  sb_expires :: time
  sb_room :: room_view

text \<open>Who asks: the subject and scope of the user's token, or a guest where guests are allowed.  An empty
  token is \<open>None\<close>, an empty scope is \<open>OtherScope []\<close>.\<close>

definition subscriber ::
  "('d, 's, 'k, 't, 'w) room_env \<Rightarrow> time \<Rightarrow> 'w option \<Rightarrow> bool \<Rightarrow> 'k \<Rightarrow> (go_error, string \<times> token_scope, 'k) outcome" where
  "subscriber env now tok allow k =
     (case tok of
        Some t \<Rightarrow>
          (case re_verifier env of
             None \<Rightarrow> (Inl (Plain ''room-svc: verifier not configured''), k)
           | Some ver \<Rightarrow> (case Parse (re_lib env) ver now t k of
               (Inl e, k') \<Rightarrow> (Inl (yerr AuthTokenExpired (''user token invalid: '' @ err_text e)), k')
             | (Inr c, k') \<Rightarrow> (Inr (cl_subject c, if cl_scope c = OtherScope [] then ScopeUser else cl_scope c), k')))
      | None \<Rightarrow>
          if allow then (Inr (''guest'', ScopeGuest), k) else (Inl (yerr AuthLoginRequired ''login required''), k))"

definition IssueSubscription ::
  "('d, 's, 'k, 't, 'w) room_env \<Rightarrow> time \<Rightarrow> string \<Rightarrow> 'w option \<Rightarrow> bool \<Rightarrow> 's \<Rightarrow> 'k \<Rightarrow> (go_error, 'w subscription, 'k) outcome" where
  "IssueSubscription env now i tok allow s k =
     (case room_get env i s of
        Inl e \<Rightarrow> (Inl e, k)
      | Inr room \<Rightarrow>
          if rw_visibility room = ''private'' \<and> tok = None then (Inl (yerr AuthLoginRequired ''private room requires login''), k)
          else (case subscriber env now tok allow k of
              (Inl e, k') \<Rightarrow> (Inl e, k')
            | (Inr (subject, scope), k') \<Rightarrow>
                (case SignRoomSubscription (re_lib env) (re_signer env) subject scope (rw_id room) (re_audience env) (re_ttl env) now k' of
                   Inl e \<Rightarrow> (Inl (yerr SystemInternal (''sign jwt: '' @ err_text e)), k')
                 | Inr t \<Rightarrow> (Inr \<lparr>sb_token = t, sb_expires = now + re_ttl env, sb_room = room\<rparr>, k'))))"

section \<open>Any store does what the map of rooms does\<close>

datatype room_call =
    CallGet string
  | CallCreate string time room_view
  | CallUpdate time room_view
  | CallStatus time string string
  | CallRotate time string

datatype room_answer = AnsError go_error | AnsRoom room_view | AnsDone | AnsKey string

definition answer_of :: "('a \<Rightarrow> room_answer) \<Rightarrow> go_error + 'a \<Rightarrow> room_answer" where
  "answer_of f r = (case r of Inl e \<Rightarrow> AnsError e | Inr a \<Rightarrow> f a)"

definition unstamped :: "room_view \<Rightarrow> room_view" where
  "unstamped r = r\<lparr>rw_updated := 0\<rparr>"

abbreviation ans_room :: "room_view \<Rightarrow> room_answer" where
  "ans_room r \<equiv> AnsRoom (unstamped r)"

fun run_call :: "('d, 's, 'k, 't, 'w) room_env \<Rightarrow> room_call \<Rightarrow> 's \<Rightarrow> room_answer \<times> 's" where
  "run_call env (CallGet i) s = (answer_of ans_room (room_get env i s), s)"
| "run_call env (CallCreate fresh now r) s = map_prod (answer_of ans_room) id (room_create env fresh now r s)"
| "run_call env (CallUpdate now r) s = map_prod (answer_of ans_room) id (room_update env now r s)"
| "run_call env (CallStatus now i st) s = map_prod (answer_of (\<lambda>_. AnsDone)) id (room_set_status env now i st s)"
| "run_call env (CallRotate now i) s = map_prod (answer_of AnsKey) id (RotateStreamKey env now i s)"

text \<open>The specification: one map from identifiers to rooms.\<close>

type_synonym room_map = "string \<rightharpoonup> room_row"

definition show_room :: "('d, 's, 'k, 't, 'w) room_env \<Rightarrow> room_row \<Rightarrow> room_view" where
  "show_room env r = ResolveProtocolPref (re_flags env) (re_flag_name env) (toServiceRoom r)"

fun room_spec :: "('d, 's, 'k, 't, 'w) room_env \<Rightarrow> room_call \<Rightarrow> room_map \<Rightarrow> room_answer \<times> room_map" where
  "room_spec env (CallGet i) m = (case m i of None \<Rightarrow> AnsError no_room | Some r \<Rightarrow> ans_room (show_room env r), m)"
| "room_spec env (CallCreate fresh now r) m =
     (if rw_name r = [] then (AnsError (yerr SystemInternal ''display_name required''), m)
      else let r' = filled_room env fresh now r in (ans_room r', m(rw_id r' \<mapsto> stamped (toStoreRoom r'))))"
| "room_spec env (CallUpdate now r) m =
     (if rw_id r = [] then (AnsError (yerr SystemInternal ''id required''), m)
      else (case m (rw_id r) of
          None \<Rightarrow> (AnsError no_room, m)
        | Some old \<Rightarrow> (ans_room (toServiceRoom (merged_room r old)), m(rw_id r \<mapsto> merged_room r old))))"
| "room_spec env (CallStatus now i st) m =
     (if st \<in> {''live'', ''offline'', ''banned''}
      then (case m i of None \<Rightarrow> (AnsError no_room, m)
            | Some r \<Rightarrow> (AnsDone, m(i \<mapsto> r\<lparr>rw_status := st, rw_live := mapStatusToLive st\<rparr>)))
      else (AnsError (yerr SystemInternal (''invalid status: '' @ st)), m))"
| "room_spec env (CallRotate now i) m =
     (case m i of None \<Rightarrow> (AnsError no_room, m)
      | Some r \<Rightarrow> (AnsKey (deriveStreamKey env i now), m(i \<mapsto> r\<lparr>rw_stream_key := deriveStreamKey env i now, rw_key_rotated := now\<rparr>)))"

text \<open>Well-formed maps, and the calls whose outcome the two stores agree on: a room is created under an
  identifier that is not in use, at a time that is not the zero time, with a cooldown that fits the column.\<close>

definition room_wf :: "room_map \<Rightarrow> bool" where
  "room_wf m \<longleftrightarrow> (\<forall>i r. m i = Some r \<longrightarrow> rw_id r = i \<and> i \<noteq> [] \<and> rw_region r \<noteq> [] \<and> int4_fits (rw_cooldown r) \<and> stamped r = r)"

fun room_ok :: "('d, 's, 'k, 't, 'w) room_env \<Rightarrow> room_call \<Rightarrow> room_map \<Rightarrow> bool" where
  "room_ok env (CallCreate fresh now r) m \<longleftrightarrow> m (rw_id (filled_room env fresh now r)) = None \<and> \<not> is_zero_time now \<and>
     int4_fits (rw_cooldown r) \<and> re_region env \<noteq> []"
| "room_ok env (CallUpdate now r) m \<longleftrightarrow> int4_fits (rw_cooldown r)"
| "room_ok env _ m \<longleftrightarrow> True"

fun rooms_ok :: "('d, 's, 'k, 't, 'w) room_env \<Rightarrow> room_call list \<Rightarrow> room_map \<Rightarrow> bool" where
  "rooms_ok env [] m \<longleftrightarrow> True"
| "rooms_ok env (c # cs) m \<longleftrightarrow> room_ok env c m \<and> rooms_ok env cs (snd (room_spec env c m))"

fun room_answers :: "('d, 's, 'k, 't, 'w) room_env \<Rightarrow> room_call list \<Rightarrow> 's \<Rightarrow> room_answer list" where
  "room_answers env [] s = []"
| "room_answers env (c # cs) s = (case run_call env c s of (a, s') \<Rightarrow> a # room_answers env cs s')"

fun spec_answers :: "('d, 's, 'k, 't, 'w) room_env \<Rightarrow> room_call list \<Rightarrow> room_map \<Rightarrow> room_answer list" where
  "spec_answers env [] m = []"
| "spec_answers env (c # cs) m = (case room_spec env c m of (a, m') \<Rightarrow> a # spec_answers env cs m')"

lemma stamped_merge [simp]: "stamped (merged_room r old) = merged_room r (stamped old)"
  by (simp add: merged_room_def stamped_def)

lemma base_conversions [simp]:
  "rw_id (toServiceRoom r) = rw_id r" "rw_id (toStoreRoom v) = rw_id v" "rw_region (toStoreRoom v) = rw_region v"
  "rw_cooldown (toStoreRoom v) = rw_cooldown v"
  by (simp_all add: toServiceRoom_def toStoreRoom_def room_base.defs room_view.defs room_row.defs stamped_def unstamped_def)

lemma unstamped_service: "unstamped (toServiceRoom r) = unstamped (toServiceRoom (stamped r))"
  by (simp add: toServiceRoom_def room_base.defs room_view.defs stamped_def unstamped_def)

lemma unstamped_show: "unstamped (show_room env r) = unstamped (show_room env (stamped r))"
  by (simp add: show_room_def ResolveProtocolPref_def toServiceRoom_def room_base.defs room_view.defs stamped_def unstamped_def
      Let_def split: option.split)

lemma room_wf_upd: "\<lbrakk>room_wf m; rw_id r = i; i \<noteq> []; rw_region r \<noteq> []; int4_fits (rw_cooldown r); stamped r = r\<rbrakk> \<Longrightarrow> room_wf (m(i \<mapsto> r))"
  by (simp add: room_wf_def)

lemma wf_row: "room_wf m \<Longrightarrow> m i = Some r \<Longrightarrow>
    rw_id r = i \<and> i \<noteq> [] \<and> rw_region r \<noteq> [] \<and> int4_fits (rw_cooldown r) \<and> stamped r = r"
  by (simp add: room_wf_def)

lemma filled_complete:
  "\<lbrakk>\<not> is_zero_time now; int4_fits (rw_cooldown r); re_region env \<noteq> []\<rbrakk> \<Longrightarrow> complete_room (toStoreRoom (filled_room env fresh now r))"
  by (auto simp: complete_room_def toStoreRoom_def filled_room_def room_base.defs room_row.defs Let_def int4_fits_def)

lemma merged_simps [simp]:
  "rw_id (merged_room r old) = rw_id old" "rw_region (merged_room r old) = [] \<longleftrightarrow> rw_region r = [] \<and> rw_region old = []"
  "rw_stream_key (merged_room r old) = rw_stream_key old" "rw_key_rotated (merged_room r old) = rw_key_rotated old"
  "rw_created (merged_room r old) = rw_created old"
  "rw_cooldown (merged_room r old) = (if rw_cooldown r \<noteq> 0 then rw_cooldown r else rw_cooldown old)"
  by (simp_all add: merged_room_def)

lemma stamped_fits [simp]: "rw_cooldown (stamped r) = rw_cooldown r" "rw_region (stamped r) = rw_region r"
  by (simp_all add: stamped_def)

lemma merged_edits:
  "\<lbrakk>rw_id r = rw_id old; rw_id old \<noteq> []; rw_region old \<noteq> []; int4_fits (rw_cooldown r); int4_fits (rw_cooldown old)\<rbrakk> \<Longrightarrow>
    edits old (merged_room r old)"
  by (simp add: edits_def)

lemma spec_keeps_wf:
  assumes "room_wf m" and "room_ok env c m"
  shows "room_wf (snd (room_spec env c m))"
proof (cases c)
  case (CallCreate fresh now r)
  have "complete_room (toStoreRoom (filled_room env fresh now r))"
    using assms(2) CallCreate by (intro filled_complete) auto
  then show ?thesis using assms(1) CallCreate
    by (auto simp: Let_def complete_room_def intro!: room_wf_upd)
next
  case (CallUpdate now r)
  show ?thesis
  proof (cases "rw_id r = [] \<or> m (rw_id r) = None")
    case True
    then show ?thesis using assms(1) by (cases "rw_id r = []") (simp_all add: CallUpdate)
  next
    case False
    then obtain old where old: "m (rw_id r) = Some old" "rw_id r \<noteq> []" by auto
    then have wf: "rw_id old = rw_id r" "rw_region old \<noteq> []" "int4_fits (rw_cooldown old)" "stamped old = old"
      using assms(1) by (auto simp: room_wf_def)
    have "int4_fits (rw_cooldown r)" using assms(2) CallUpdate by simp
    have "room_wf (m(rw_id r \<mapsto> merged_room r old))"
    proof (rule room_wf_upd [OF assms(1)])
      show "rw_id (merged_room r old) = rw_id r" using wf(1) by simp
      show "rw_region (merged_room r old) \<noteq> []" using wf(2) by simp
      show "int4_fits (rw_cooldown (merged_room r old))" using wf(3) \<open>int4_fits (rw_cooldown r)\<close> by simp
      show "stamped (merged_room r old) = merged_room r old" using wf(4) by simp
    qed (rule old(2))
    then show ?thesis using old by (simp add: CallUpdate)
  qed
next
  case (CallStatus now i st)
  have "room_wf (m(i \<mapsto> r\<lparr>rw_status := st, rw_live := mapStatusToLive st\<rparr>))" if "m i = Some r" for r
    using wf_row [OF assms(1) that] by (intro room_wf_upd [OF assms(1)]) simp_all
  then show ?thesis using assms(1) by (cases "m i") (simp_all add: CallStatus)
next
  case (CallRotate now i)
  have "room_wf (m(i \<mapsto> r\<lparr>rw_stream_key := deriveStreamKey env i now, rw_key_rotated := now\<rparr>))" if "m i = Some r" for r
    using wf_row [OF assms(1) that] by (intro room_wf_upd [OF assms(1)]) simp_all
  then show ?thesis using assms(1) by (cases "m i") (simp_all add: CallRotate)
qed (use assms in simp)

context room_store
begin

lemma get_cases:
  assumes "rooms s i = Some r"
  obtains r' where "ro_get ops i s = Inr r'" and "stamped r' = r"
  using get_room [of i s] assms by (cases "ro_get ops i s") auto

lemma get_none: "rooms s i = None \<Longrightarrow> ro_get ops i s = Inl no_room"
  using get_room [of i s] by (cases "ro_get ops i s") auto

lemma call_refines:
  assumes ops: "re_store env = ops" and wf: "room_wf (rooms s)" and ok: "room_ok env c (rooms s)"
  shows "map_prod id rooms (run_call env c s) = room_spec env c (rooms s)"
proof (cases c)
  case (CallGet i)
  show ?thesis
  proof (cases "rooms s i")
    case None
    then show ?thesis using CallGet ops by (simp add: room_get_def get_none answer_of_def)
  next
    case (Some r)
    then obtain r' where "ro_get ops i s = Inr r'" "stamped r' = r" by (rule get_cases)
    then show ?thesis using CallGet ops Some unstamped_show [of env r']
      by (simp add: room_get_def answer_of_def show_room_def)
  qed
next
  case (CallCreate fresh now r)
  define r' where "r' = filled_room env fresh now r"
  have "complete_room (toStoreRoom r')" unfolding r'_def using ok CallCreate by (intro filled_complete) auto
  then have *: "fst (ro_create ops now (toStoreRoom r') s) = Inr ()"
      "rooms (snd (ro_create ops now (toStoreRoom r') s)) = (rooms s)(rw_id r' \<mapsto> stamped (toStoreRoom r'))"
    using create_room [of "toStoreRoom r'" s now] ok CallCreate by (simp_all add: r'_def)
  then show ?thesis using CallCreate ops
    by (cases "ro_create ops now (toStoreRoom r') s") (simp add: room_create_def answer_of_def r'_def [symmetric] Let_def)
next
  case (CallUpdate now r)
  show ?thesis
  proof (cases "rw_id r = [] \<or> rooms s (rw_id r) = None")
    case True
    then show ?thesis
      by (cases "rw_id r = []") (simp_all add: CallUpdate ops room_update_def answer_of_def get_none)
  next
    case False
    then obtain old where old: "rooms s (rw_id r) = Some old" and id: "rw_id r \<noteq> []" by auto
    obtain old' where get: "ro_get ops (rw_id r) s = Inr old'" "stamped old' = old" using old by (rule get_cases)
    have fits: "rw_id old' = rw_id r" "rw_region old' \<noteq> []" "int4_fits (rw_cooldown old')"
      using conjI [OF wf old] unfolding room_wf_def get(2) [symmetric] by (metis stamped_simps(3) stamped_fits)+
    have "edits old' (merged_room r old')"
      using fits id ok CallUpdate by (intro merged_edits) auto
    then have "edits old (merged_room r old')" using get(2) by (auto simp: edits_def)
    moreover have "rw_id (merged_room r old') = rw_id r" using fits(1) by simp
    ultimately have *: "map_sum id stamped (fst (ro_update ops now (merged_room r old') s)) = Inr (merged_room r old)"
        "rooms (snd (ro_update ops now (merged_room r old') s)) = (rooms s)(rw_id r \<mapsto> merged_room r old)"
      using update_room [of s "merged_room r old'" old now] old get(2) by simp_all
    obtain x s' where upd: "ro_update ops now (merged_room r old') s = (x, s')" by (rule prod.exhaust)
    with *(1) obtain r'' where r'': "x = Inr r''" "stamped r'' = merged_room r old" by (cases x) auto
    have "unstamped (toServiceRoom r'') = unstamped (toServiceRoom (merged_room r old))"
      using r''(2) unstamped_service [of r''] by simp
    then show ?thesis using CallUpdate ops id old get(1) upd r''(1) *(2)
      by (simp add: room_update_def answer_of_def)
  qed
next
  case (CallStatus now i st)
  then show ?thesis using set_status_room [of now i st s] ops
    by (cases "ro_set_status ops now i st s") (auto simp: room_set_status_def answer_of_def split: option.splits)
next
  case (CallRotate now i)
  then show ?thesis using set_key_room [of now i "deriveStreamKey env i now" now s] ops
    by (cases "ro_set_key ops now i (deriveStreamKey env i now) now s")
      (auto simp: RotateStreamKey_def answer_of_def Let_def split: option.splits)
qed

lemma run_refines:
  assumes ops: "re_store env = ops"
  shows "\<lbrakk>room_wf (rooms s); rooms_ok env cs (rooms s)\<rbrakk> \<Longrightarrow> room_answers env cs s = spec_answers env cs (rooms s)"
proof (induction cs arbitrary: s)
  case (Cons c cs)
  have *: "map_prod id rooms (run_call env c s) = room_spec env c (rooms s)"
    using Cons.prems by (intro call_refines [OF ops]) auto
  obtain a s' where c: "run_call env c s = (a, s')" by (rule prod.exhaust)
  with * have spec: "room_spec env c (rooms s) = (a, rooms s')" by (simp add: prod_eq_iff)
  have "room_wf (rooms s')" using spec_keeps_wf [of "rooms s" env c] Cons.prems spec by simp
  then show ?case using Cons c spec by simp
qed simp

end

end
