(* ===== verification/RoomProps.thy ===== *)
theory RoomProps
  imports RoomService KeyDemo
begin

text \<open>What holds of the room service: the two stores answer alike, what a subscription token says, and three
  behaviours of the code that its comments do not promise.\<close>

section \<open>The stores agree\<close>

text \<open>What of the configuration the rooms depend on.\<close>

definition same_rooms :: "('d, 's, 'k, 't, 'w) room_env \<Rightarrow> ('d2, 's2, 'k2, 't2, 'w2) room_env \<Rightarrow> bool" where
  "same_rooms env env' \<longleftrightarrow> re_region env = re_region env' \<and> re_hmac env = re_hmac env' \<and> re_flags env = re_flags env' \<and>
     re_flag_name env = re_flag_name env'"

lemma spec_same: "same_rooms env env' \<Longrightarrow> room_spec env c m = room_spec env' c m \<and> room_ok env c m = room_ok env' c m"
  by (cases c) (simp_all add: same_rooms_def show_room_def filled_room_def deriveStreamKey_def Let_def split: option.split)

lemma answers_same: "same_rooms env env' \<Longrightarrow> spec_answers env cs m = spec_answers env' cs m \<and> rooms_ok env cs m = rooms_ok env' cs m"
  by (induction cs arbitrary: m) (simp_all add: spec_same)


section \<open>Subscriptions\<close>

text \<open>A subscription is a token of kind \<open>room_subscription\<close> for the room that was asked for; without a user
  token it is the guest's, and only where guests are allowed and the room is not private; with one it carries the
  subject of that token, which the verifier accepted.\<close>

theorem subscription_names_room:
  assumes "IssueSubscription env now i tok allow s k = (Inr sub, k')"
  shows "room_get env i s = Inr (sb_room sub) \<and>
    (\<exists>subject scope. signClaims (re_lib env) (re_signer env)
        ((login_claims (si_issuer (re_signer env)) subject scope (re_audience env) (re_ttl env) now)
          \<lparr>cl_kind := KindRoomSubscription, cl_room := rw_id (sb_room sub)\<rparr>) k' = Inr (sb_token sub) \<and>
      (case tok of
         None \<Rightarrow> allow \<and> rw_visibility (sb_room sub) \<noteq> ''private'' \<and> subject = ''guest'' \<and> scope = ScopeGuest
       | Some t \<Rightarrow> \<exists>ver c. re_verifier env = Some ver \<and> Parse (re_lib env) ver now t k = (Inr c, k') \<and> subject = cl_subject c))"
proof -
  obtain room where room: "room_get env i s = Inr room"
      "\<not> (rw_visibility room = ''private'' \<and> tok = None)"
    using assms by (auto simp: IssueSubscription_def split: sum.splits if_splits)
  obtain subject scope where who: "subscriber env now tok allow k = (Inr (subject, scope), k')"
    and sign: "SignRoomSubscription (re_lib env) (re_signer env) subject scope (rw_id room) (re_audience env) (re_ttl env) now k' = Inr (sb_token sub)"
    and sub: "sb_room sub = room"
    using assms room by (auto simp: IssueSubscription_def split: sum.splits prod.splits if_splits)
  have "signClaims (re_lib env) (re_signer env)
        ((login_claims (si_issuer (re_signer env)) subject scope (re_audience env) (re_ttl env) now)
          \<lparr>cl_kind := KindRoomSubscription, cl_room := rw_id room\<rparr>) k' = Inr (sb_token sub)"
    using sign by (simp add: SignRoomSubscription_def split: if_splits)
  moreover have "case tok of
         None \<Rightarrow> allow \<and> rw_visibility room \<noteq> ''private'' \<and> subject = ''guest'' \<and> scope = ScopeGuest
       | Some t \<Rightarrow> \<exists>ver c. re_verifier env = Some ver \<and> Parse (re_lib env) ver now t k = (Inr c, k') \<and> subject = cl_subject c"
    using who room(2) by (auto simp: subscriber_def split: option.splits sum.splits prod.splits if_splits)
  ultimately show ?thesis using room(1) sub by blast
qed

text \<open>C22: The guest token of a public room opens every private room.  The service verifies it with its own keys,
  does not look at its kind or scope and signs a subscription for the private room, even where guests are not
  allowed, whatever the room's status.\<close>

theorem guest_enters_private_room:
  assumes contract: "jwt_contract (re_lib env)" and inv: "kms_inv k"
    and own: "kp_active (si_provider (re_signer env)) = kms_active" "re_verifier env = Some kms_verifying"
    and signs: "\<forall>c. \<exists>t. signClaims (re_lib env) (re_signer env) c k = Inr t"
    and plain: "plain_text (si_issuer (re_signer env)) \<and> plain_text (re_audience env) \<and> plain_text (mk_active k)"
    and guest: "IssueSubscription env t i None True s k = (Inr sub, k)" and "plain_text (rw_id (sb_room sub))"
    and later: "now < numeric_date (t + re_ttl env)"
    and priv: "room_get env j s = Inr room" "rw_visibility room = ''private''" "rw_id room \<noteq> []"
  shows "\<exists>sub'. IssueSubscription env now j (Some (sb_token sub)) False s k = (Inr sub', k) \<and> sb_room sub' = room"
proof -
  let ?c = "(login_claims (si_issuer (re_signer env)) ''guest'' ScopeGuest (re_audience env) (re_ttl env) t)
      \<lparr>cl_kind := KindRoomSubscription, cl_room := rw_id (sb_room sub)\<rparr>"
  have sign: "signClaims (re_lib env) (re_signer env) ?c k = Inr (sb_token sub)"
  proof -
    have "subscriber env t None True k = (Inr (''guest'', ScopeGuest), k)" by (simp add: subscriber_def)
    then show ?thesis using guest
      by (auto simp: IssueSubscription_def SignRoomSubscription_def split: sum.splits if_splits)
  qed
  have "plain_claims ?c"
    using plain \<open>plain_text (rw_id (sb_room sub))\<close>
    by (intro plain_room_claims plain_login_claims) (auto simp: plain_text_def)
  moreover have "sg_kid sk = mk_active k" if "kms_active k = Inr sk" for sk
    using that inv by (auto simp: kms_active_def kms_inv_def good_record_def split: option.splits)
  then have "plain_text (sg_kid sk)" if "kms_active k = Inr sk" for sk using that plain by simp
  moreover have "jl_validate (re_lib env) now ?c = None"
    using contract later by (simp add: jwt_contract_def)
  ultimately have "fst (Parse (re_lib env) kms_verifying now (sb_token sub) k) = Inr ?c"
    using kms.signed_token_parses [OF contract inv own(1) sign _ _ not_rotated, of now] by simp
  moreover have "snd (Parse (re_lib env) kms_verifying now (sb_token sub) k) = k"
    by (auto simp: Parse_def key_for_def kms_verifying_def Let_def split: sum.split option.split prod.split)
  ultimately have "Parse (re_lib env) kms_verifying now (sb_token sub) k = (Inr ?c, k)"
    by (simp add: prod_eq_iff)
  then have "subscriber env now (Some (sb_token sub)) False k = (Inr (''guest'', ScopeGuest), k)"
    by (simp add: subscriber_def own(2))
  moreover obtain tok where "SignRoomSubscription (re_lib env) (re_signer env) ''guest'' ScopeGuest (rw_id room) (re_audience env) (re_ttl env) now k = Inr tok"
    using signs priv(3) by (auto simp: SignRoomSubscription_def)
  ultimately show ?thesis using priv(1) by (simp add: IssueSubscription_def)
qed

section \<open>Creating a room that exists\<close>

text \<open>Creating a room under an identifier in use is answered as a success on both stores.  In memory it replaces
  the other owner's room; on PostgreSQL nothing is stored, and the caller holds the stream key of a room that is
  still the other owner's.\<close>

theorem room_created_twice:
  assumes r: "rw_name r \<noteq> []" "rw_id r \<noteq> []" "int4_fits (rw_cooldown r)"
    and mem: "re_store env = room_mem_ops" "s (rw_id r) = Some old"
    and pg: "re_store env' = room_pg_ops no_faults" "t (rw_id r) = Some q"
  shows "room_create env fresh now r s = (Inr (filled_room env fresh now r), snd (room_create env fresh now r s)) \<and>
      (\<exists>r'. snd (room_create env fresh now r s) (rw_id r) = Some r' \<and> rw_owner r' = rw_owner r) \<and>
    room_create env' fresh now r t = (Inr (filled_room env' fresh now r), t)"
proof -
  have id: "rw_id (filled_room e fresh now r) = rw_id r" "rw_owner (filled_room e fresh now r) = rw_owner r" for e :: "('x, 'y, 'z, 'u, 'v) room_env"
    using r(2) by (simp_all add: filled_room_def Let_def)
  have fits: "int4_fits (if rw_cooldown r = 0 then 30 else rw_cooldown r)" using r(3) by (simp add: int4_fits_def)
  have cool: "rw_cooldown (filled_room env' fresh now r) = (if rw_cooldown r = 0 then 30 else rw_cooldown r)"
    by (simp add: filled_room_def Let_def)
  have own: "rw_owner (toStoreRoom v) = rw_owner v" for v
    by (simp add: toStoreRoom_def room_base.defs room_row.defs)
  show ?thesis
    using r mem pg fits cool
    by (auto simp: room_create_def room_mem_ops_def room_mem_create_def room_pg_ops_def room_pg_create_def id own Let_def split: if_splits)
qed

section \<open>Concrete rooms\<close>

definition demo_room_env :: "(unit, room_mem, (unit, unit) mock_kms, string \<times> string \<times> claims, (string \<times> string \<times> claims) \<times> byte list) room_env" where
  "demo_room_env = \<lparr>re_store = room_mem_ops, re_signer = demo_signer, re_verifier = Some kms_verifying, re_lib = demo_lib,
     re_ttl = 10 * minute, re_audience = ''yunmao.gateway'', re_region = ''global'', re_hmac = (\<lambda>m. ''h:'' @ m), re_turn = None,
     re_turn_hmac = mark_hmac, re_turn_hosts = [], re_turn_ports = [], re_stun = [''stun:stun.l.google.com:19302''],
     re_turn_ttl = 5 * minute, re_flags = None, re_flag_name = ''room.webrtc.enabled''\<rparr>"

definition demo_pg_env :: "(unit, room_table, (unit, unit) mock_kms, string \<times> string \<times> claims, (string \<times> string \<times> claims) \<times> byte list) room_env" where
  "demo_pg_env = \<lparr>re_store = room_pg_ops no_faults, re_signer = demo_signer, re_verifier = Some kms_verifying, re_lib = demo_lib,
     re_ttl = 10 * minute, re_audience = ''yunmao.gateway'', re_region = ''global'', re_hmac = (\<lambda>m. ''h:'' @ m), re_turn = None,
     re_turn_hmac = mark_hmac, re_turn_hosts = [], re_turn_ports = [], re_stun = [''stun:stun.l.google.com:19302''],
     re_turn_ttl = 5 * minute, re_flags = None, re_flag_name = ''room.webrtc.enabled''\<rparr>"

definition public_row :: room_row where
  "public_row = (demo_room 1 ''demo'' ''city'')\<lparr>rw_updated := 0\<rparr>"

definition private_row :: room_row where
  "private_row = public_row\<lparr>rw_id := ''room_private'', rw_owner := ''usr_2'', rw_visibility := ''private'', rw_status := ''banned''\<rparr>"

definition demo_rooms :: room_mem where
  "demo_rooms = [''room_demo'' \<mapsto> public_row, ''room_private'' \<mapsto> private_row]"

definition wish :: room_view where
  "wish = (toServiceRoom public_row)\<lparr>rw_id := ''room_private'', rw_name := ''mine'', rw_owner := ''usr_3''\<rparr>"


lemma demo_visit:
  "IssueSubscription demo_room_env 0 ''room_demo'' None True demo_rooms demo_kms =
    (Inr \<lparr>sb_token = ((''RS256'', ''user-0'', (login_claims ''yunmao.user-svc'' ''guest'' ScopeGuest ''yunmao.gateway'' (10 * minute) 0)
            \<lparr>cl_kind := KindRoomSubscription, cl_room := ''room_demo''\<rparr>), be_bytes 35),
          sb_expires = 10 * minute, sb_room = (toServiceRoom public_row)\<lparr>rv_protocol := ''ll-hls''\<rparr>\<rparr>, demo_kms)"
  by (simp add: IssueSubscription_def room_get_def demo_room_env_def room_mem_ops_def room_mem_get_def demo_rooms_def subscriber_def
      ResolveProtocolPref_def toServiceRoom_def room_base.defs room_view.defs public_row_def demo_room_def SignRoomSubscription_def
      signClaims_def demo_signer_def kms_active_def demo_kms_def demo_record_def demo_lib_def demo_key_def Let_def)

theorem subscription_names_room_witness:
  "room_get demo_room_env ''room_demo'' demo_rooms = Inr ((toServiceRoom public_row)\<lparr>rv_protocol := ''ll-hls''\<rparr>)"
  using subscription_names_room [OF demo_visit] by simp

theorem guest_enters_private_room_witness:
  "\<exists>sub t. IssueSubscription demo_room_env second ''room_private'' (Some t) False demo_rooms demo_kms = (Inr sub, demo_kms) \<and>
     rw_visibility (sb_room sub) = ''private'' \<and> rw_status (sb_room sub) = ''banned''"
proof -
  have "jwt_contract (re_lib demo_room_env)" using demo_contract by (simp add: demo_room_env_def)
  moreover have "kp_active (si_provider (re_signer demo_room_env)) = kms_active" "re_verifier demo_room_env = Some kms_verifying"
    by (simp_all add: demo_room_env_def demo_signer_def)
  moreover have "\<forall>c. \<exists>t. signClaims (re_lib demo_room_env) (re_signer demo_room_env) c demo_kms = Inr t"
    by (simp add: signClaims_def demo_room_env_def demo_signer_def kms_active_def demo_kms_def demo_record_def demo_lib_def demo_key_def Let_def)
  moreover have "plain_text (si_issuer (re_signer demo_room_env)) \<and> plain_text (re_audience demo_room_env) \<and> plain_text (mk_active demo_kms)"
    by (simp add: plain_text_def demo_room_env_def demo_signer_def demo_kms_def)
  moreover have "plain_text (rw_id ((toServiceRoom public_row)\<lparr>rv_protocol := ''ll-hls''\<rparr>))"
    by (simp add: toServiceRoom_def room_base.defs room_view.defs public_row_def demo_room_def plain_text_def)
  moreover have "second < numeric_date (0 + re_ttl demo_room_env)"
    by (simp add: numeric_date_def truncate_time_def second_def zero_time_def demo_room_env_def)
  moreover have "room_get demo_room_env ''room_private'' demo_rooms = Inr ((toServiceRoom private_row)\<lparr>rv_protocol := ''ll-hls''\<rparr>)"
    by (simp add: room_get_def demo_room_env_def room_mem_ops_def room_mem_get_def demo_rooms_def ResolveProtocolPref_def
        toServiceRoom_def room_base.defs room_view.defs Let_def)
  moreover have "rw_visibility ((toServiceRoom private_row)\<lparr>rv_protocol := ''ll-hls''\<rparr>) = ''private''"
    "rw_id ((toServiceRoom private_row)\<lparr>rv_protocol := ''ll-hls''\<rparr>) \<noteq> []"
    "rw_status ((toServiceRoom private_row)\<lparr>rv_protocol := ''ll-hls''\<rparr>) = ''banned''"
    by (simp_all add: toServiceRoom_def room_base.defs room_view.defs private_row_def public_row_def demo_room_def)
  ultimately show ?thesis
    using guest_enters_private_room [OF _ demo_kms_inv _ _ _ _ demo_visit, of second "''room_private''"] by (metis subscription.select_convs(3))
qed

definition other_row :: room_sql where
  "other_row = \<lparr>sr_cat = None, sr_device = None, sr_owner = Some ''usr_2'', sr_name = ''theirs'', sr_description = None, sr_city = None,
     sr_region = ''global'', sr_visibility = ''private'', sr_live = ''offline'', sr_feeding = ''closed'', sr_status = ''offline'', sr_cooldown = 30,
     sr_no_feed_start = None, sr_no_feed_end = None, sr_stream_key = Some ''k'', sr_key_rotated = None, sr_cats = [], sr_created = 1, sr_updated = 1\<rparr>"

theorem room_created_twice_witness:
  "\<exists>r'. snd (room_create demo_room_env ''01'' second wish demo_rooms) ''room_private'' = Some r' \<and> rw_owner r' = ''usr_3''"
proof -
  have "rw_name wish \<noteq> []" "rw_id wish = ''room_private''" "int4_fits (rw_cooldown wish)" "rw_owner wish = ''usr_3''"
    by (simp_all add: int4_fits_def wish_def toServiceRoom_def room_base.defs room_view.defs public_row_def demo_room_def)
  moreover have "re_store demo_room_env = room_mem_ops" "re_store demo_pg_env = room_pg_ops no_faults"
    "demo_rooms ''room_private'' = Some private_row"
    by (simp_all add: demo_room_env_def demo_pg_env_def demo_rooms_def)
  ultimately show ?thesis
    using room_created_twice [of wish demo_room_env demo_rooms private_row demo_pg_env "[''room_private'' \<mapsto> other_row]" other_row "''01''" second]
    by simp
qed

end
