(* ===== verification/UserStore.thy ===== *)
theory UserStore
  imports Sql
begin

text \<open>
  \<^verbatim>\<open>go/services/user-svc/internal/store/store.go\<close>: users and the login history, in memory and in PostgreSQL.  The
  table \<open>users\<close> is the list of its rows in the order they were inserted; its keys are \<open>id\<close> and the unique
  column \<open>phone_hash\<close>.
\<close>

record user =
  us_id :: string
  us_nickname :: string
  us_phone :: string
  us_role :: string
  us_created :: time

record login_entry =
  le_user :: string
  le_channel :: string
  le_ip :: string
  le_agent :: string
  le_kid :: string
  le_at :: time

record 's user_ops =
  uo_by_id :: "string \<Rightarrow> 's \<Rightarrow> go_error + user"
  uo_by_phone :: "string \<Rightarrow> 's \<Rightarrow> go_error + user"
  uo_upsert :: "time \<Rightarrow> user \<Rightarrow> 's \<Rightarrow> (go_error, unit, 's) outcome"
  uo_append_login :: "time \<Rightarrow> login_entry \<Rightarrow> 's \<Rightarrow> (go_error, unit, 's) outcome"

abbreviation no_user :: go_error where
  "no_user \<equiv> yerr UserNotFound ''user not found''"

section \<open>In memory\<close>

text \<open>Two maps; the history is dropped.\<close>

record user_mem =
  um_by_id :: "string \<rightharpoonup> user"
  um_by_phone :: "string \<rightharpoonup> user"

definition user_mem_new :: user_mem where
  "user_mem_new = \<lparr>um_by_id = Map.empty, um_by_phone = Map.empty\<rparr>"

definition user_mem_by_id :: "string \<Rightarrow> user_mem \<Rightarrow> go_error + user" where
  "user_mem_by_id i m = (case um_by_id m i of None \<Rightarrow> Inl no_user | Some u \<Rightarrow> Inr u)"

definition user_mem_by_phone :: "string \<Rightarrow> user_mem \<Rightarrow> go_error + user" where
  "user_mem_by_phone ph m = (case um_by_phone m ph of None \<Rightarrow> Inl no_user | Some u \<Rightarrow> Inr u)"

definition user_mem_upsert :: "time \<Rightarrow> user \<Rightarrow> user_mem \<Rightarrow> (go_error, unit, user_mem) outcome" where
  "user_mem_upsert now u m =
     (if us_id u = [] then (Inl (Plain ''user.id required''), m)
      else (Inr (), m\<lparr>um_by_id := (um_by_id m)(us_id u \<mapsto> u),
                      um_by_phone := (if us_phone u = [] then um_by_phone m else (um_by_phone m)(us_phone u \<mapsto> u))\<rparr>))"

definition user_mem_append_login :: "time \<Rightarrow> login_entry \<Rightarrow> user_mem \<Rightarrow> (go_error, unit, user_mem) outcome" where
  "user_mem_append_login now e m = (Inr (), m)"

definition user_mem_ops :: "user_mem user_ops" where
  "user_mem_ops = \<lparr>uo_by_id = user_mem_by_id, uo_by_phone = user_mem_by_phone, uo_upsert = user_mem_upsert,
     uo_append_login = user_mem_append_login\<rparr>"

section \<open>In PostgreSQL\<close>

record user_pg =
  up_users :: "user list"
  up_logins :: "login_entry list"

definition user_pg_by_id :: "faults \<Rightarrow> string \<Rightarrow> user_pg \<Rightarrow> go_error + user" where
  "user_pg_by_id flt i d = fst (stmt flt ''select user by id'' (\<lambda>e. e)
     (\<lambda>d. (case List.find (\<lambda>u. us_id u = i) (up_users d) of None \<Rightarrow> Inl no_user | Some u \<Rightarrow> Inr u, d)) d)"

definition user_pg_by_phone :: "faults \<Rightarrow> string \<Rightarrow> user_pg \<Rightarrow> go_error + user" where
  "user_pg_by_phone flt ph d = fst (stmt flt ''select user by phone'' (\<lambda>e. e)
     (\<lambda>d. (case List.find (\<lambda>u. us_phone u = ph) (up_users d) of None \<Rightarrow> Inl no_user | Some u \<Rightarrow> Inr u, d)) d)"

text \<open>The row to be inserted has the identifier for an empty phone hash; on a conflict of \<open>id\<close> it replaces nickname,
  phone hash and role of the stored row; another row with its phone hash is a violation of the unique column.\<close>

definition user_pg_upsert :: "faults \<Rightarrow> time \<Rightarrow> user \<Rightarrow> user_pg \<Rightarrow> (go_error, unit, user_pg) outcome" where
  "user_pg_upsert flt now u =
     (let row = \<lparr>us_id = us_id u, us_nickname = us_nickname u, us_phone = (if us_phone u = [] then us_id u else us_phone u),
                 us_role = (if us_role u = [] then ''user'' else us_role u),
                 us_created = (if is_zero_time (us_created u) then now else us_created u)\<rparr>
      in stmt flt ''upsert user'' (\<lambda>e. e)
           (\<lambda>d. if \<exists>x \<in> set (up_users d). us_id x \<noteq> us_id row \<and> us_phone x = us_phone row
                then (Inl (Plain ''duplicate key value violates unique constraint users_phone_hash_key''), d)
                else if \<exists>x \<in> set (up_users d). us_id x = us_id row
                then (Inr (), d\<lparr>up_users := map (\<lambda>x. if us_id x = us_id row
                        then x\<lparr>us_nickname := us_nickname row, us_phone := (if us_phone row = [] then us_phone x else us_phone row),
                               us_role := us_role row\<rparr> else x) (up_users d)\<rparr>)
                else (Inr (), d\<lparr>up_users := up_users d @ [row]\<rparr>)))"

text \<open>The foreign key of the history is a fault of the statement or holds.\<close>

definition user_pg_append_login :: "faults \<Rightarrow> time \<Rightarrow> login_entry \<Rightarrow> user_pg \<Rightarrow> (go_error, unit, user_pg) outcome" where
  "user_pg_append_login flt now e = stmt flt ''insert login_history'' (\<lambda>e. e)
     (\<lambda>d. if \<exists>x \<in> set (up_users d). us_id x = le_user e
          then (Inr (), d\<lparr>up_logins := up_logins d @ [e\<lparr>le_channel := (if le_channel e = [] then ''sms'' else le_channel e),
                                                          le_at := (if is_zero_time (le_at e) then now else le_at e)\<rparr>]\<rparr>)
          else (Inl (Plain ''insert violates foreign key constraint''), d))"

definition user_pg_ops :: "faults \<Rightarrow> user_pg user_ops" where
  "user_pg_ops flt = \<lparr>uo_by_id = user_pg_by_id flt, uo_by_phone = user_pg_by_phone flt, uo_upsert = user_pg_upsert flt,
     uo_append_login = user_pg_append_login flt\<rparr>"

section \<open>The contract\<close>

text \<open>What the service relies on: lookups read two maps; an insertion under an unused identifier and phone hash keeps
  every entry and, when it succeeds, makes the user's own; a failed one changes nothing; the history does not
  touch the users.\<close>

locale user_store =
  fixes ops :: "'s user_ops" and ids :: "'s \<Rightarrow> string \<rightharpoonup> user" and phones :: "'s \<Rightarrow> string \<rightharpoonup> user" and inv :: "'s \<Rightarrow> bool"
  assumes by_id: "inv s \<Longrightarrow> uo_by_id ops i s = (case ids s i of None \<Rightarrow> Inl no_user | Some u \<Rightarrow> Inr u)"
    and by_phone: "inv s \<Longrightarrow> uo_by_phone ops ph s = (case phones s ph of None \<Rightarrow> Inl no_user | Some u \<Rightarrow> Inr u)"
    and upsert: "\<lbrakk>inv s; us_id u \<noteq> []; ids s (us_id u) = None; us_phone u = [] \<or> phones s (us_phone u) = None; us_role u \<noteq> [];
        \<not> is_zero_time (us_created u); uo_upsert ops now u s = (r, s')\<rbrakk> \<Longrightarrow>
      inv s' \<and> ids s \<subseteq>\<^sub>m ids s' \<and> phones s \<subseteq>\<^sub>m phones s' \<and>
      (r = Inr () \<longrightarrow> (\<exists>u'. ids s' (us_id u) = Some u' \<and> us_id u' = us_id u) \<and> (us_phone u \<noteq> [] \<longrightarrow> phones s' (us_phone u) = Some u))"
    and append_login: "inv s \<Longrightarrow> uo_append_login ops now e s = (r, s') \<Longrightarrow> inv s' \<and> ids s' = ids s \<and> phones s' = phones s"

interpretation user_mem: user_store user_mem_ops um_by_id um_by_phone "\<lambda>_. True"
  by unfold_locales
    (auto simp: user_mem_ops_def user_mem_by_id_def user_mem_by_phone_def user_mem_upsert_def user_mem_append_login_def map_le_def
      split: if_splits)

definition pg_ids :: "user_pg \<Rightarrow> string \<rightharpoonup> user" where
  "pg_ids d i = List.find (\<lambda>u. us_id u = i) (up_users d)"

definition pg_phones :: "user_pg \<Rightarrow> string \<rightharpoonup> user" where
  "pg_phones d ph = List.find (\<lambda>u. us_phone u = ph) (up_users d)"

interpretation user_pg: user_store "user_pg_ops no_faults" pg_ids pg_phones "\<lambda>_. True"
proof
  fix u :: user and s s' :: user_pg and now r
  assume u: "us_id u \<noteq> []" "us_role u \<noteq> []" "\<not> is_zero_time (us_created u)"
    and free: "pg_ids s (us_id u) = None" "us_phone u = [] \<or> pg_phones s (us_phone u) = None"
    and ins: "uo_upsert (user_pg_ops no_faults) now u s = (r, s')"
  have new: "\<not> (\<exists>x \<in> set (up_users s). us_id x = us_id u)"
    using free(1) by (auto simp: pg_ids_def find_None)
  let ?row = "u\<lparr>us_phone := (if us_phone u = [] then us_id u else us_phone u)\<rparr>"
  have row: "\<lparr>us_id = us_id u, us_nickname = us_nickname u, us_phone = (if us_phone u = [] then us_id u else us_phone u),
      us_role = us_role u, us_created = us_created u\<rparr> = ?row" by (cases u) simp
  consider "s' = s" "r \<noteq> Inr ()" | "s' = s\<lparr>up_users := up_users s @ [?row]\<rparr>"
    using ins new u row by (auto simp: user_pg_ops_def user_pg_upsert_def Let_def split: if_splits)
  then show "True \<and> pg_ids s \<subseteq>\<^sub>m pg_ids s' \<and> pg_phones s \<subseteq>\<^sub>m pg_phones s' \<and>
      (r = Inr () \<longrightarrow> (\<exists>u'. pg_ids s' (us_id u) = Some u' \<and> us_id u' = us_id u) \<and> (us_phone u \<noteq> [] \<longrightarrow> pg_phones s' (us_phone u) = Some u))"
  proof cases
    case 2
    then show ?thesis using free
      by (auto simp: pg_ids_def pg_phones_def find_append map_le_def split: option.splits)
  qed simp
qed (auto simp: user_pg_ops_def user_pg_by_id_def user_pg_by_phone_def user_pg_append_login_def pg_ids_def pg_phones_def fun_eq_iff Let_def
    split: option.split if_splits)

text \<open>The statement means to keep the stored phone hash when the new one is empty, but the row to be inserted never
  has an empty one: the identifier takes its place, and the user is no longer found by phone.\<close>

lemma upsert_forgets_phone:
  assumes "up_users d = [u]" and "us_phone u = ph" and "ph \<noteq> us_id u" and "us_id u \<noteq> []"
  shows "uo_by_phone (user_pg_ops no_faults) ph (snd (uo_upsert (user_pg_ops no_faults) now (u\<lparr>us_phone := []\<rparr>) d)) = Inl no_user"
  using assms by (auto simp: user_pg_ops_def user_pg_upsert_def user_pg_by_phone_def Let_def)

end
