(* ===== verification/UserService.thy ===== *)
theory UserService
  imports UserStore KeyDemo
begin

text \<open>
  \<^verbatim>\<open>go/services/user-svc/internal/service/service.go\<close>: login by SMS code and the login of the development
  environment.  The random bytes of a code, fresh identifiers, the clock and the hash of a phone number (SHA-256 in
  hexadecimal) are arguments; a login that is signed uses the key provider in its current state.
\<close>

section \<open>State\<close>

record challenge =
  ch_phone :: string
  ch_code :: string
  ch_expires :: time

record 's users =
  uv_challenges :: "string \<rightharpoonup> challenge"
  uv_store :: 's

record ('d, 's, 'k, 't, 'w) user_env =
  ue_store :: "'s user_ops"
  ue_signer :: "('d, 'k) signer"
  ue_lib :: "('d, 't, 'w) jwt_lib"
  ue_ttl :: duration
  ue_audience :: string
  ue_hash :: "string \<Rightarrow> string"

definition user_defaults :: "('d, 's, 'k, 't, 'w) user_env \<Rightarrow> ('d, 's, 'k, 't, 'w) user_env" where
  "user_defaults e = e\<lparr>ue_ttl := (if ue_ttl e = 0 then 24 * hour else ue_ttl e),
     ue_audience := (if ue_audience e = [] then ''yunmao.gateway'' else ue_audience e)\<rparr>"

section \<open>SMS login\<close>

text \<open>\<open>genCode\<close>: 24 random bits modulo a million, six digits.\<close>

definition genCode :: "go_error + (nat \<times> nat \<times> nat) \<Rightarrow> go_error + string" where
  "genCode r = (case r of Inl e \<Rightarrow> Inl e | Inr (a, b, c) \<Rightarrow> Inr (pad 6 ((a * 65536 + b * 256 + c) mod 1000000)))"

definition StartSmsLogin ::
  "('d, 's, 'k, 't, 'w) user_env \<Rightarrow> go_error + (nat \<times> nat \<times> nat) \<Rightarrow> string \<Rightarrow> time \<Rightarrow> string \<Rightarrow> 's users \<Rightarrow>
   (go_error, string \<times> string \<times> duration, 's users) outcome" where
  "StartSmsLogin env rnd fresh now phone st =
     (if length phone < 5 then (Inl (yerr SystemInternal ''invalid phone''), st)
      else (case genCode rnd of
          Inl e \<Rightarrow> (Inl e, st)
        | Inr code \<Rightarrow>
            let i = ''ch_sess_'' @ fresh
            in (Inr (i, code, 5 * minute),
                st\<lparr>uv_challenges := (uv_challenges st)(i \<mapsto> \<lparr>ch_phone = ue_hash env phone, ch_code = code, ch_expires = now + 5 * minute\<rparr>)\<rparr>)))"

definition not_found :: "go_error \<Rightarrow> bool" where
  "not_found e \<longleftrightarrow> (case as_app_error (Some e) of Some a \<Rightarrow> ae_code a = UserNotFound | None \<Rightarrow> False)"

definition signerKid :: "('d, 's, 'k, 't, 'w) user_env \<Rightarrow> 'k \<Rightarrow> string" where
  "signerKid env k = (case kp_active (si_provider (ue_signer env)) k of Inl _ \<Rightarrow> [] | Inr sk \<Rightarrow> sg_kid sk)"

text \<open>The token and the line of the history both logins end with; what the history answers is ignored.\<close>

definition finish_login ::
  "('d, 's, 'k, 't, 'w) user_env \<Rightarrow> time \<Rightarrow> string \<Rightarrow> user \<Rightarrow> 'k \<Rightarrow> 's users \<Rightarrow> (go_error, user \<times> 'w, 's users) outcome" where
  "finish_login env now channel u k st =
     (case SignLogin (ue_lib env) (ue_signer env) (us_id u) ScopeUser (ue_audience env) (ue_ttl env) now k of
        Inl e \<Rightarrow> (Inl (yerr SystemInternal (''sign jwt: '' @ err_text e)), st)
      | Inr tok \<Rightarrow>
          (Inr (u, tok),
           st\<lparr>uv_store := snd (uo_append_login (ue_store env) now
               \<lparr>le_user = us_id u, le_channel = channel, le_ip = [], le_agent = [], le_kid = signerKid env k, le_at = now\<rparr> (uv_store st))\<rparr>))"

definition new_user :: "string \<Rightarrow> string \<Rightarrow> string \<Rightarrow> time \<Rightarrow> user" where
  "new_user i nick ph now = \<lparr>us_id = i, us_nickname = ''yunmao_'' @ take 6 nick, us_phone = ph, us_role = ''user'', us_created = now\<rparr>"

lemma new_user_simps [simp]:
  "us_id (new_user i nick ph now) = i" "us_phone (new_user i nick ph now) = ph" "us_role (new_user i nick ph now) = ''user''"
  "us_created (new_user i nick ph now) = now"
  by (simp_all add: new_user_def)

definition new_user_id :: "string \<Rightarrow> string" where
  "new_user_id fresh = ''usr_'' @ fresh"

lemma new_user_id_nonempty [simp]: "new_user_id fresh \<noteq> []"
  by (simp add: new_user_id_def)

text \<open>The user of a phone hash, made when there is none.\<close>

definition user_of_phone ::
  "('d, 's, 'k, 't, 'w) user_env \<Rightarrow> string \<Rightarrow> time \<Rightarrow> string \<Rightarrow> 's \<Rightarrow> (go_error, user, 's) outcome" where
  "user_of_phone env fresh now ph s =
     (case uo_by_phone (ue_store env) ph s of
        Inr u \<Rightarrow> (Inr u, s)
      | Inl e \<Rightarrow>
          if \<not> not_found e then (Inl (yerr SystemInternal (''load user: '' @ err_text e)), s)
          else let u = new_user (new_user_id fresh) ph ph now
               in (case uo_upsert (ue_store env) now u s of
                     (Inl e, s') \<Rightarrow> (Inl (yerr SystemInternal (''store user: '' @ err_text e)), s')
                   | (Inr _, s') \<Rightarrow> (Inr u, s')))"

definition CompleteSmsLogin ::
  "('d, 's, 'k, 't, 'w) user_env \<Rightarrow> string \<Rightarrow> time \<Rightarrow> string \<Rightarrow> string \<Rightarrow> 'k \<Rightarrow> 's users \<Rightarrow> (go_error, user \<times> 'w, 's users) outcome" where
  "CompleteSmsLogin env fresh now i code k st =
     (case uv_challenges st i of
        None \<Rightarrow> (Inl (yerr AuthLoginRequired ''challenge not found''), st)
      | Some ch \<Rightarrow>
          if ch_expires ch < now then (Inl (yerr AuthTokenExpired ''challenge expired''), st\<lparr>uv_challenges := (uv_challenges st)(i := None)\<rparr>)
          else if ch_code ch \<noteq> code then (Inl (yerr AuthLoginRequired ''code mismatch''), st)
          else let st1 = st\<lparr>uv_challenges := (uv_challenges st)(i := None)\<rparr>
               in (case user_of_phone env fresh now (ch_phone ch) (uv_store st1) of
                     (Inl e, s') \<Rightarrow> (Inl e, st1\<lparr>uv_store := s'\<rparr>)
                   | (Inr u, s') \<Rightarrow> finish_login env now ''sms'' u k (st1\<lparr>uv_store := s'\<rparr>)))"

section \<open>Development login\<close>

definition found_by :: "go_error + user \<Rightarrow> go_error + user option" where
  "found_by r = (case r of Inr u \<Rightarrow> Inr (Some u)
     | Inl e \<Rightarrow> if not_found e then Inr None else Inl (yerr SystemInternal (''load user: '' @ err_text e)))"

definition DevLogin ::
  "('d, 's, 'k, 't, 'w) user_env \<Rightarrow> string \<Rightarrow> time \<Rightarrow> string \<Rightarrow> string \<Rightarrow> 'k \<Rightarrow> 's users \<Rightarrow> (go_error, user \<times> 'w, 's users) outcome" where
  "DevLogin env fresh now uid phone k st =
     (if uid = [] \<and> phone = [] then (Inl (yerr SystemInternal ''user_id or phone_e164 required''), st)
      else let ph = (if phone \<noteq> [] then ue_hash env phone else []) in
      (case (if uid \<noteq> [] then found_by (uo_by_id (ue_store env) uid (uv_store st)) else Inr None) of
         Inl e \<Rightarrow> (Inl e, st)
       | Inr (Some u) \<Rightarrow> finish_login env now ''dev'' u k st
       | Inr None \<Rightarrow>
           (case (if ph \<noteq> [] then found_by (uo_by_phone (ue_store env) ph (uv_store st)) else Inr None) of
              Inl e \<Rightarrow> (Inl e, st)
            | Inr (Some u) \<Rightarrow> finish_login env now ''dev'' u k st
            | Inr None \<Rightarrow>
                let i = (if uid = [] then new_user_id fresh else uid);
                    u = new_user i (if ph = [] then i else ph) ph now
                in (case uo_upsert (ue_store env) now u (uv_store st) of
                      (Inl e, s') \<Rightarrow> (Inl (yerr SystemInternal (''store user: '' @ err_text e)), st\<lparr>uv_store := s'\<rparr>)
                    | (Inr _, s') \<Rightarrow> finish_login env now ''dev'' u k (st\<lparr>uv_store := s'\<rparr>)))))"

definition user_get :: "('d, 's, 'k, 't, 'w) user_env \<Rightarrow> string \<Rightarrow> 's users \<Rightarrow> go_error + user" where
  "user_get env i st = uo_by_id (ue_store env) i (uv_store st)"

section \<open>Sequences of calls\<close>

datatype user_call =
    CallStart "go_error + (nat \<times> nat \<times> nat)" string time string
  | CallComplete string time string string
  | CallDev string time string string

fun user_step :: "('d, 's, 'k, 't, 'w) user_env \<Rightarrow> 'k \<Rightarrow> user_call \<Rightarrow> 's users \<Rightarrow> 's users" where
  "user_step env k (CallStart rnd fresh now phone) st = snd (StartSmsLogin env rnd fresh now phone st)"
| "user_step env k (CallComplete fresh now i code) st = snd (CompleteSmsLogin env fresh now i code k st)"
| "user_step env k (CallDev fresh now uid phone) st = snd (DevLogin env fresh now uid phone k st)"

text \<open>Fresh identifiers: a new user does not take an identifier in use, and no time is the zero time.\<close>

fun fresh_call :: "(string \<rightharpoonup> user) \<Rightarrow> user_call \<Rightarrow> bool" where
  "fresh_call ids (CallStart rnd fresh now phone) \<longleftrightarrow> True"
| "fresh_call ids (CallComplete fresh now i code) \<longleftrightarrow> ids (new_user_id fresh) = None \<and> \<not> is_zero_time now"
| "fresh_call ids (CallDev fresh now uid phone) \<longleftrightarrow> ids (new_user_id fresh) = None \<and> \<not> is_zero_time now"

fun fresh_calls ::
  "('d, 's, 'k, 't, 'w) user_env \<Rightarrow> ('s \<Rightarrow> string \<rightharpoonup> user) \<Rightarrow> 'k \<Rightarrow> user_call list \<Rightarrow> 's users \<Rightarrow> bool" where
  "fresh_calls env ids k [] st \<longleftrightarrow> True"
| "fresh_calls env ids k (c # cs) st \<longleftrightarrow> fresh_call (ids (uv_store st)) c \<and> fresh_calls env ids k cs (user_step env k c st)"

section \<open>The identity of a phone number\<close>

lemma not_found_no_user [simp]: "not_found no_user"
  by (simp add: not_found_def)

context user_store
begin

lemma finish_login_keeps:
  assumes "ue_store env = ops" and "inv (uv_store st)" and "finish_login env now ch u k st = (r, st')"
  shows "inv (uv_store st') \<and> ids (uv_store st') = ids (uv_store st) \<and> phones (uv_store st') = phones (uv_store st) \<and>
    uv_challenges st' = uv_challenges st \<and> (\<forall>v t. r = Inr (v, t) \<longrightarrow> v = u \<and>
      SignLogin (ue_lib env) (ue_signer env) (us_id u) ScopeUser (ue_audience env) (ue_ttl env) now k = Inr t)"
proof -
  let ?e = "\<lparr>le_user = us_id u, le_channel = ch, le_ip = [], le_agent = [], le_kid = signerKid env k, le_at = now\<rparr>"
  obtain x s' where app: "uo_append_login ops now ?e (uv_store st) = (x, s')" by (rule prod.exhaust)
  show ?thesis
    using assms(3) append_login [OF assms(2) app] assms(2)
    by (auto simp: finish_login_def assms(1) app split: sum.splits)
qed

lemma user_of_phone_keeps:
  assumes env: "ue_store env = ops" and inv: "inv s" and ph: "ph \<noteq> []" and fresh: "ids s (new_user_id fresh) = None" "\<not> is_zero_time now"
    and call: "user_of_phone env fresh now ph s = (r, s')"
  shows "inv s' \<and> ids s \<subseteq>\<^sub>m ids s' \<and> phones s \<subseteq>\<^sub>m phones s' \<and> (\<forall>u. r = Inr u \<longrightarrow> phones s' ph = Some u)"
proof (cases "phones s ph")
  case None
  let ?u = "new_user (new_user_id fresh) ph ph now"
  obtain x t where ins: "uo_upsert ops now ?u s = (x, t)" by (rule prod.exhaust)
  have "inv t \<and> ids s \<subseteq>\<^sub>m ids t \<and> phones s \<subseteq>\<^sub>m phones t \<and> (x = Inr () \<longrightarrow> phones t ph = Some ?u)"
    using upsert [OF inv _ _ _ _ _ ins] fresh None ph by simp
  then show ?thesis
    using call by (auto simp: user_of_phone_def env by_phone [OF inv] None ins Let_def split: sum.splits)
next
  case (Some u)
  then show ?thesis using call inv by (auto simp: user_of_phone_def env by_phone [OF inv])
qed

lemma user_step_keeps:
  assumes env: "ue_store env = ops" and inv: "inv (uv_store st)" and hash: "\<forall>p. ue_hash env p \<noteq> []"
    and ok: "fresh_call (ids (uv_store st)) c" and chs: "\<forall>i ch. uv_challenges st i = Some ch \<longrightarrow> ch_phone ch \<noteq> []"
  shows "inv (uv_store (user_step env k c st)) \<and> phones (uv_store st) \<subseteq>\<^sub>m phones (uv_store (user_step env k c st)) \<and>
    (\<forall>i ch. uv_challenges (user_step env k c st) i = Some ch \<longrightarrow> ch_phone ch \<noteq> [])"
proof (cases c)
  case (CallStart rnd fresh now phone)
  then show ?thesis using inv hash chs by (auto simp: StartSmsLogin_def Let_def split: sum.splits)
next
  case (CallComplete fresh now i code)
  show ?thesis
  proof (cases "uv_challenges st i")
    case None
    then show ?thesis using CallComplete inv chs by (simp add: CompleteSmsLogin_def)
  next
    case (Some ch)
    define st1 where "st1 = st\<lparr>uv_challenges := (uv_challenges st)(i := None)\<rparr>"
    have chs1: "\<forall>j ch. uv_challenges st1 j = Some ch \<longrightarrow> ch_phone ch \<noteq> []" using chs by (simp add: st1_def)
    have s1: "uv_store st1 = uv_store st" by (simp add: st1_def)
    obtain r s' where call: "user_of_phone env fresh now (ch_phone ch) (uv_store st) = (r, s')" by (rule prod.exhaust)
    have keep: "inv s' \<and> phones (uv_store st) \<subseteq>\<^sub>m phones s'"
      using user_of_phone_keeps [OF env inv _ _ _ call] ok chs Some CallComplete by auto
    consider "ch_expires ch < now" | "\<not> ch_expires ch < now" "ch_code ch \<noteq> code" | "\<not> ch_expires ch < now" "ch_code ch = code" by blast
    then show ?thesis
    proof cases
      case 3
      show ?thesis
      proof (cases r)
        case (Inl e)
        then have "user_step env k c st = st1\<lparr>uv_store := s'\<rparr>"
          using CallComplete Some 3 call by (simp add: CompleteSmsLogin_def Let_def st1_def)
        then show ?thesis using keep chs1 by simp
      next
        case (Inr u)
        obtain x st' where fin: "finish_login env now ''sms'' u k (st1\<lparr>uv_store := s'\<rparr>) = (x, st')" by (rule prod.exhaust)
        then have "user_step env k c st = st'"
          using CallComplete Some 3 call Inr by (simp add: CompleteSmsLogin_def Let_def st1_def)
        then show ?thesis using finish_login_keeps [OF env _ fin] keep chs1 by simp
      qed
    qed (use CallComplete Some inv chs chs1 in \<open>simp_all add: CompleteSmsLogin_def Let_def\<close>)
  qed
next
  case (CallDev fresh now uid phone)
  have fin: "inv (uv_store st') \<and> phones (uv_store st) \<subseteq>\<^sub>m phones (uv_store st') \<and> uv_challenges st' = uv_challenges st"
    if "finish_login env now ''dev'' u k (st\<lparr>uv_store := s\<rparr>) = (x, st')" "inv s" "phones (uv_store st) \<subseteq>\<^sub>m phones s" for s u x st'
    using finish_login_keeps [OF env _ that(1)] that(2,3) by simp
  have fin0: "inv (uv_store st') \<and> phones (uv_store st) \<subseteq>\<^sub>m phones (uv_store st') \<and> uv_challenges st' = uv_challenges st"
    if "finish_login env now ''dev'' u k st = (x, st')" for u x st'
    using fin [of u "uv_store st"] that inv by simp
  define ph where "ph = (if phone \<noteq> [] then ue_hash env phone else [])"
  define i where "i = (if uid = [] then new_user_id fresh else uid)"
  define u where "u = new_user i (if ph = [] then i else ph) ph now"
  obtain x s' where ins: "uo_upsert ops now u (uv_store st) = (x, s')" by (rule prod.exhaust)
  have keep: "inv s' \<and> phones (uv_store st) \<subseteq>\<^sub>m phones s'" if "ids (uv_store st) i = None" "ph = [] \<or> phones (uv_store st) ph = None"
    using upsert [OF inv _ _ _ _ _ ins] that ok CallDev by (auto simp: u_def i_def)
  obtain y st' where dev: "DevLogin env fresh now uid phone k st = (y, st')" by (rule prod.exhaust)
  have id_known: "DevLogin env fresh now uid phone k st = finish_login env now ''dev'' v k st"
    if "uid \<noteq> []" "ids (uv_store st) uid = Some v" for v
    using that by (simp add: DevLogin_def env by_id [OF inv] found_by_def Let_def)
  have id_free: "ids (uv_store st) i = None" if "\<not> (uid \<noteq> [] \<and> ids (uv_store st) uid \<noteq> None)"
    using that ok CallDev by (auto simp: i_def)
  have ph_known: "DevLogin env fresh now uid phone k st = finish_login env now ''dev'' v k st"
    if "\<not> (uid \<noteq> [] \<and> ids (uv_store st) uid \<noteq> None)" "ph \<noteq> []" "phones (uv_store st) ph = Some v" for v
    using that by (auto simp: DevLogin_def env by_id [OF inv] by_phone [OF inv] found_by_def Let_def ph_def)
  have made: "DevLogin env fresh now uid phone k st =
      (case x of Inl e \<Rightarrow> (Inl (yerr SystemInternal (''store user: '' @ err_text e)), st\<lparr>uv_store := s'\<rparr>)
       | Inr _ \<Rightarrow> finish_login env now ''dev'' u k (st\<lparr>uv_store := s'\<rparr>))"
    if "uid \<noteq> [] \<or> phone \<noteq> []" "\<not> (uid \<noteq> [] \<and> ids (uv_store st) uid \<noteq> None)" "ph = [] \<or> phones (uv_store st) ph = None"
    using that ins
    by (auto simp: DevLogin_def env by_id [OF inv] by_phone [OF inv] found_by_def Let_def ph_def u_def i_def split: sum.splits)
  have "inv (uv_store st') \<and> phones (uv_store st) \<subseteq>\<^sub>m phones (uv_store st') \<and> uv_challenges st' = uv_challenges st"
  proof -
    consider "uid = [] \<and> phone = []" | v where "uid \<noteq> []" "ids (uv_store st) uid = Some v"
      | v where "\<not> (uid \<noteq> [] \<and> ids (uv_store st) uid \<noteq> None)" "ph \<noteq> []" "phones (uv_store st) ph = Some v"
      | "uid \<noteq> [] \<or> phone \<noteq> []" "\<not> (uid \<noteq> [] \<and> ids (uv_store st) uid \<noteq> None)" "ph = [] \<or> phones (uv_store st) ph = None"
      by fastforce
    then show ?thesis
    proof cases
      case 1
      then show ?thesis using dev inv by (auto simp: DevLogin_def)
    next
      case 2
      then show ?thesis using dev id_known fin0 by metis
    next
      case 3
      then show ?thesis using dev ph_known fin0 by metis
    next
      case 4
      note k = keep [OF id_free [OF 4(2)] 4(3)]
      show ?thesis
      proof (cases x)
        case (Inl e)
        then show ?thesis using dev made [OF 4] k by auto
      next
        case (Inr z)
        then have "finish_login env now ''dev'' u k (st\<lparr>uv_store := s'\<rparr>) = (y, st')" using dev made [OF 4] by simp
        then show ?thesis using fin k by blast
      qed
    qed
  qed
  then show ?thesis using CallDev dev chs by simp
qed

lemma user_steps_keep:
  assumes env: "ue_store env = ops" and hash: "\<forall>p. ue_hash env p \<noteq> []"
  shows "\<lbrakk>inv (uv_store st); fresh_calls env ids k cs st; \<forall>i ch. uv_challenges st i = Some ch \<longrightarrow> ch_phone ch \<noteq> []\<rbrakk> \<Longrightarrow>
    inv (uv_store (fold (user_step env k) cs st)) \<and> phones (uv_store st) \<subseteq>\<^sub>m phones (uv_store (fold (user_step env k) cs st))"
proof (induction cs arbitrary: st)
  case (Cons c cs)
  note step = user_step_keeps [OF env Cons.prems(1) hash _ Cons.prems(3), of c k]
  then show ?case using Cons.IH [of "user_step env k c st"] Cons.prems(2) by (auto intro: map_le_trans)
qed simp

text \<open>A login that succeeds ends with the user of its phone hash.\<close>

lemma complete_login:
  assumes env: "ue_store env = ops" and inv: "inv (uv_store st)" and ph: "ph \<noteq> []"
    and ok: "ids (uv_store st) (new_user_id fresh) = None" "\<not> is_zero_time now"
    and ch: "uv_challenges st i = Some ch" "ch_phone ch = ph"
    and call: "CompleteSmsLogin env fresh now i code k st = (Inr (u, tok), st')"
  shows "phones (uv_store st') ph = Some u \<and> (\<forall>v. phones (uv_store st) ph = Some v \<longrightarrow> v = u) \<and>
    SignLogin (ue_lib env) (ue_signer env) (us_id u) ScopeUser (ue_audience env) (ue_ttl env) now k = Inr tok"
proof -
  define st1 where "st1 = st\<lparr>uv_challenges := (uv_challenges st)(i := None)\<rparr>"
  obtain r s' where of_ph: "user_of_phone env fresh now ph (uv_store st) = (r, s')" by (rule prod.exhaust)
  have "(case r of Inl e \<Rightarrow> (Inl e, st1\<lparr>uv_store := s'\<rparr>) | Inr u \<Rightarrow> finish_login env now ''sms'' u k (st1\<lparr>uv_store := s'\<rparr>)) = (Inr (u, tok), st')"
    using call ch of_ph unfolding st1_def by (auto simp: CompleteSmsLogin_def Let_def split: if_splits)
  then obtain v where v: "r = Inr v" "finish_login env now ''sms'' v k (st1\<lparr>uv_store := s'\<rparr>) = (Inr (u, tok), st')"
    by (auto split: sum.splits)
  have keep: "inv s'" "phones (uv_store st) \<subseteq>\<^sub>m phones s'" "phones s' ph = Some v"
    using user_of_phone_keeps [OF env inv ph ok of_ph] v(1) by auto
  have "u = v" "phones (uv_store st') = phones s'"
      "SignLogin (ue_lib env) (ue_signer env) (us_id v) ScopeUser (ue_audience env) (ue_ttl env) now k = Inr tok"
    using finish_login_keeps [OF env _ v(2)] keep(1) by auto
  then show ?thesis using keep(2,3) by (auto simp: map_le_def dom_def)
qed

lemma login_stable:
  assumes env: "ue_store env = ops" and inv: "inv (uv_store st)" and hash: "\<forall>p. ue_hash env p \<noteq> []"
    and chs: "\<forall>i ch. uv_challenges st i = Some ch \<longrightarrow> ch_phone ch \<noteq> []"
    and calls: "fresh_calls env ids k (CallComplete fresh now i code # cs @ [CallComplete fresh' now' i' code']) st"
    and first: "uv_challenges st i = Some ch" "CompleteSmsLogin env fresh now i code k st = (Inr (u, tok), st1)"
    and st2: "st2 = fold (user_step env k) cs st1"
    and again: "uv_challenges st2 i' = Some ch'" "ch_phone ch' = ch_phone ch" "CompleteSmsLogin env fresh' now' i' code' k st2 = (Inr (v, tok'), st3)"
  shows "v = u"
proof -
  have ph: "ch_phone ch \<noteq> []" using chs first(1) by blast
  have st1: "st1 = user_step env k (CallComplete fresh now i code) st" using first(2) by simp
  have "phones (uv_store st1) (ch_phone ch) = Some u"
    using complete_login [OF env inv ph _ _ first(1) refl first(2)] calls by simp
  moreover have k1: "inv (uv_store st1)" "\<forall>i ch. uv_challenges st1 i = Some ch \<longrightarrow> ch_phone ch \<noteq> []"
    using user_step_keeps [OF env inv hash _ chs, of "CallComplete fresh now i code" k] calls unfolding st1 by simp_all
  have split: "fresh_calls env ids k (cs @ [c]) s \<longleftrightarrow> fresh_calls env ids k cs s \<and> fresh_call (ids (uv_store (fold (user_step env k) cs s))) c" for c s
    by (induction cs arbitrary: s) simp_all
  have cs: "fresh_calls env ids k (cs @ [CallComplete fresh' now' i' code']) st1" using calls st1 by simp
  then have "inv (uv_store st2)" "phones (uv_store st1) \<subseteq>\<^sub>m phones (uv_store st2)"
    using user_steps_keep [OF env hash k1(1) _ k1(2), of k cs] st2 split by simp_all
  ultimately have "phones (uv_store st2) (ch_phone ch) = Some u" by (auto simp: map_le_def dom_def)
  moreover have "fresh_call (ids (uv_store st2)) (CallComplete fresh' now' i' code')" using cs split st2 by simp
  ultimately show ?thesis
    using complete_login [OF env \<open>inv (uv_store st2)\<close> ph _ _ again(1,2,3)] by auto
qed

end

section \<open>Properties\<close>

text \<open>C20: A phone number is one user.  After a login by SMS, whatever logins, registrations and development logins
  follow, the next successful login by SMS with the same phone hash is the same user, and its token is signed for
  that user's identifier.\<close>

theorem phone_is_one_user:
  assumes "ue_store env = user_pg_ops no_faults" and "\<forall>p. ue_hash env p \<noteq> []"
    and "\<forall>i ch. uv_challenges st i = Some ch \<longrightarrow> ch_phone ch \<noteq> []"
    and "fresh_calls env pg_ids k (CallComplete fresh now i code # cs @ [CallComplete fresh' now' i' code']) st"
    and "uv_challenges st i = Some ch" and "CompleteSmsLogin env fresh now i code k st = (Inr (u, tok), st1)"
    and "st2 = fold (user_step env k) cs st1" and "uv_challenges st2 i' = Some ch'" and "ch_phone ch' = ch_phone ch"
    and "CompleteSmsLogin env fresh' now' i' code' k st2 = (Inr (v, tok'), st3)"
  shows "v = u \<and> SignLogin (ue_lib env) (ue_signer env) (us_id u) ScopeUser (ue_audience env) (ue_ttl env) now k = Inr tok"
proof -
  have "v = u" by (rule user_pg.login_stable [OF assms(1) TrueI assms(2-10)])
  moreover have "ch_phone ch \<noteq> []" using assms(3,5) by blast
  then have "SignLogin (ue_lib env) (ue_signer env) (us_id u) ScopeUser (ue_audience env) (ue_ttl env) now k = Inr tok"
    using user_pg.complete_login [OF assms(1) TrueI _ _ _ assms(5) refl assms(6)] assms(4) by simp
  ultimately show ?thesis ..
qed

text \<open>A challenge logs in at most once, and never after its five minutes: both a login and a late attempt
  remove it, and an attempt on a removed challenge is refused without a token.\<close>

theorem challenge_used_once:
  assumes "uv_challenges st i = Some ch" and "CompleteSmsLogin env fresh now i code k st = (r, st')"
    and "is_ok r \<or> ch_expires ch < now"
  shows "(is_ok r \<longrightarrow> now \<le> ch_expires ch \<and> code = ch_code ch) \<and>
    CompleteSmsLogin env fresh' now' i code' k' st' = (Inl (yerr AuthLoginRequired ''challenge not found''), st')"
proof -
  have fin: "uv_challenges s' = uv_challenges s" if "finish_login env now ch u k s = (x, s')" for ch u s x s'
    using that by (auto simp: finish_login_def split: sum.splits)
  have "is_ok r \<longrightarrow> now \<le> ch_expires ch \<and> code = ch_code ch"
    using assms by (auto simp: CompleteSmsLogin_def is_ok_def split: if_splits sum.splits)
  moreover have "uv_challenges st' i = None"
    using assms by (auto simp: CompleteSmsLogin_def Let_def split: if_splits sum.splits prod.splits dest: fin)
  ultimately show ?thesis by (simp add: CompleteSmsLogin_def)
qed

definition try_codes ::
  "('d, 's, 'k, 't, 'w) user_env \<Rightarrow> string \<Rightarrow> time \<Rightarrow> string \<Rightarrow> 'k \<Rightarrow> string list \<Rightarrow> 's users \<Rightarrow> 's users" where
  "try_codes env fresh now i k codes st = fold (\<lambda>c st. snd (CompleteSmsLogin env fresh now i c k st)) codes st"

text \<open>Wrong codes cost nothing.  Any number of wrong attempts within the five minutes leaves the state as it
  was, and then the right one of a million codes still logs in.\<close>

theorem sms_code_guessable:
  assumes "uv_challenges st i = Some ch" and "now \<le> ch_expires ch" and "ch_code ch \<notin> set codes"
  shows "try_codes env fresh now i k codes st = st \<and>
    CompleteSmsLogin env fresh now i (ch_code ch) k (try_codes env fresh now i k codes st) = CompleteSmsLogin env fresh now i (ch_code ch) k st"
proof -
  have "try_codes env fresh now i k codes st = st"
    using assms(3) unfolding try_codes_def
    by (induction codes) (use assms(1,2) in \<open>simp_all add: CompleteSmsLogin_def\<close>)
  then show ?thesis by simp
qed

section \<open>A concrete phone\<close>

definition demo_user_env :: "(unit, user_pg, (unit, unit) mock_kms, string \<times> string \<times> claims, (string \<times> string \<times> claims) \<times> byte list) user_env" where
  "demo_user_env = \<lparr>ue_store = user_pg_ops no_faults, ue_signer = demo_signer, ue_lib = demo_lib, ue_ttl = day,
     ue_audience = ''yunmao.gateway'', ue_hash = (\<lambda>p. ''sha256:'' @ p)\<rparr>"

definition demo_challenge :: challenge where
  "demo_challenge = \<lparr>ch_phone = ''sha256:+8610086'', ch_code = ''012345'', ch_expires = 300\<rparr>"

definition demo_users :: "user_pg users" where
  "demo_users = \<lparr>uv_challenges = [''c1'' \<mapsto> demo_challenge, ''c2'' \<mapsto> demo_challenge], uv_store = \<lparr>up_users = [], up_logins = []\<rparr>\<rparr>"

definition demo_user :: user where
  "demo_user = new_user (new_user_id ''01'') ''sha256:+8610086'' ''sha256:+8610086'' 100"

lemma demo_demo_user: "us_phone demo_user = ''sha256:+8610086''" "us_id demo_user = ''usr_01''" "us_role demo_user = ''user''" "us_created demo_user = 100"
  by (simp_all add: demo_user_def new_user_id_def)

definition demo_login_token :: "time \<Rightarrow> (string \<times> string \<times> claims) \<times> byte list" where
  "demo_login_token now = ((''RS256'', ''user-0'', login_claims ''yunmao.user-svc'' ''usr_01'' ScopeUser ''yunmao.gateway'' day now), be_bytes 35)"

lemma demo_signs: "SignLogin demo_lib demo_signer ''usr_01'' ScopeUser ''yunmao.gateway'' day now demo_kms = Inr (demo_login_token now)"
  by (simp add: SignLogin_def signClaims_def demo_signer_def kms_active_def demo_kms_def demo_record_def demo_lib_def demo_login_token_def
      demo_key_def Let_def)

definition demo_entry :: "time \<Rightarrow> login_entry" where
  "demo_entry now = \<lparr>le_user = ''usr_01'', le_channel = ''sms'', le_ip = [], le_agent = [], le_kid = ''user-0'', le_at = now\<rparr>"

lemma demo_finish:
  "now \<noteq> zero_time \<Longrightarrow> up_users (uv_store st) = [demo_user] \<Longrightarrow>
   finish_login demo_user_env now ''sms'' demo_user demo_kms st =
     (Inr (demo_user, demo_login_token now), st\<lparr>uv_store := \<lparr>up_users = [demo_user], up_logins = up_logins (uv_store st) @ [demo_entry now]\<rparr>\<rparr>)"
  by (simp add: finish_login_def demo_user_env_def demo_demo_user demo_signs signerKid_def user_pg_ops_def user_pg_append_login_def
      demo_entry_def is_zero_time_def) (simp add: demo_signer_def kms_active_def demo_kms_def demo_record_def)

definition demo_users_after :: "time list \<Rightarrow> (string \<rightharpoonup> challenge) \<Rightarrow> user_pg users" where
  "demo_users_after ts chs = \<lparr>uv_challenges = chs, uv_store = \<lparr>up_users = [demo_user], up_logins = map demo_entry ts\<rparr>\<rparr>"

lemma demo_first: "CompleteSmsLogin demo_user_env ''01'' 100 ''c1'' ''012345'' demo_kms demo_users =
    (Inr (demo_user, demo_login_token 100), demo_users_after [100] [''c2'' \<mapsto> demo_challenge])"
proof -
  have "user_of_phone demo_user_env ''01'' 100 ''sha256:+8610086'' \<lparr>up_users = [], up_logins = []\<rparr> = (Inr demo_user, \<lparr>up_users = [demo_user], up_logins = []\<rparr>)"
    by (simp add: user_of_phone_def demo_user_env_def user_pg_ops_def user_pg_by_phone_def user_pg_upsert_def demo_user_def
        new_user_def is_zero_time_def Let_def)
  moreover have "finish_login demo_user_env 100 ''sms'' demo_user demo_kms
      \<lparr>uv_challenges = [''c2'' \<mapsto> demo_challenge], uv_store = \<lparr>up_users = [demo_user], up_logins = []\<rparr>\<rparr> =
      (Inr (demo_user, demo_login_token 100), demo_users_after [100] [''c2'' \<mapsto> demo_challenge])"
    by (simp add: demo_finish demo_users_after_def)
  moreover have "[''c1'' \<mapsto> demo_challenge, ''c2'' \<mapsto> demo_challenge](''c1'' := None) = [''c2'' \<mapsto> demo_challenge]"
    by (simp add: fun_upd_twist)
  ultimately show ?thesis
    by (simp add: CompleteSmsLogin_def demo_users_def demo_challenge_def [symmetric] Let_def) (simp add: demo_challenge_def)
qed

lemma demo_second: "CompleteSmsLogin demo_user_env ''02'' 200 ''c2'' ''012345'' demo_kms (demo_users_after [100] [''c2'' \<mapsto> demo_challenge]) =
    (Inr (demo_user, demo_login_token 200), demo_users_after [100, 200] Map.empty)"
proof -
  have "user_of_phone demo_user_env ''02'' 200 ''sha256:+8610086'' \<lparr>up_users = [demo_user], up_logins = [demo_entry 100]\<rparr> =
      (Inr demo_user, \<lparr>up_users = [demo_user], up_logins = [demo_entry 100]\<rparr>)"
    by (simp add: user_of_phone_def demo_user_env_def user_pg_ops_def user_pg_by_phone_def demo_demo_user)
  then show ?thesis
    by (simp add: CompleteSmsLogin_def demo_users_after_def Let_def demo_challenge_def demo_finish)
qed

theorem phone_is_one_user_witness:
  "CompleteSmsLogin demo_user_env ''02'' 200 ''c2'' ''012345'' demo_kms (demo_users_after [100] [''c2'' \<mapsto> demo_challenge]) =
    (Inr (demo_user, demo_login_token 200), demo_users_after [100, 200] Map.empty) \<and> us_phone demo_user = ''sha256:+8610086''"
proof -
  have "fresh_calls demo_user_env pg_ids demo_kms (CallComplete ''01'' 100 ''c1'' ''012345'' # [] @ [CallComplete ''02'' 200 ''c2'' ''012345'']) demo_users"
    using demo_first by (simp add: demo_users_after_def demo_users_def pg_ids_def is_zero_time_def demo_demo_user new_user_id_def)
  moreover have "\<forall>i ch. uv_challenges demo_users i = Some ch \<longrightarrow> ch_phone ch \<noteq> []"
    by (simp add: demo_users_def demo_challenge_def)
  moreover have "uv_challenges demo_users ''c1'' = Some demo_challenge"
    "uv_challenges (demo_users_after [100] [''c2'' \<mapsto> demo_challenge]) ''c2'' = Some demo_challenge"
    by (simp_all add: demo_users_def demo_users_after_def)
  moreover have "ue_store demo_user_env = user_pg_ops no_faults" "\<forall>p. ue_hash demo_user_env p \<noteq> []"
    by (simp_all add: demo_user_env_def)
  ultimately show ?thesis
    using phone_is_one_user [OF _ _ _ _ _ demo_first _ _ refl demo_second] demo_second demo_demo_user by auto
qed

theorem challenge_used_once_witness:
  "CompleteSmsLogin demo_user_env ''03'' 250 ''c1'' ''012345'' demo_kms (demo_users_after [100] [''c2'' \<mapsto> demo_challenge]) =
    (Inl (yerr AuthLoginRequired ''challenge not found''), demo_users_after [100] [''c2'' \<mapsto> demo_challenge])"
proof -
  have "uv_challenges demo_users ''c1'' = Some demo_challenge" by (simp add: demo_users_def)
  then show ?thesis using challenge_used_once [OF _ demo_first, of demo_challenge "''03''" 250 "''012345''" demo_kms] by auto
qed

theorem sms_code_guessable_witness:
  "CompleteSmsLogin demo_user_env ''01'' 100 ''c1'' ''012345'' demo_kms (try_codes demo_user_env ''01'' 100 ''c1'' demo_kms [''000000'', ''000001''] demo_users) =
    (Inr (demo_user, demo_login_token 100), demo_users_after [100] [''c2'' \<mapsto> demo_challenge])"
  using sms_code_guessable [of demo_users "''c1''" demo_challenge 100 "[''000000'', ''000001'']" demo_user_env "''01''" demo_kms]
  by (simp add: demo_users_def) (simp add: demo_challenge_def demo_first [unfolded demo_users_def demo_challenge_def])

end
