(* ===== verification/GoText.thy ===== *)
theory GoText
  imports Prelude
begin

text \<open>
  What the services use of Go's \<^verbatim>\<open>strings\<close>, \<^verbatim>\<open>unicode/utf8\<close> and \<^verbatim>\<open>net/url\<close> on byte strings: searching and
  replacing, trimming white space, counting runes, escaping a query.  A byte that starts no valid encoding counts
  as a rune of its own, as in Go.
\<close>

section \<open>Searching and replacing\<close>

definition has_prefix :: "string \<Rightarrow> string \<Rightarrow> bool" where
  "has_prefix s w \<longleftrightarrow> take (length w) s = w"

fun contains :: "string \<Rightarrow> string \<Rightarrow> bool" where
  "contains [] w = (w = [])"
| "contains (c # cs) w = (has_prefix (c # cs) w \<or> contains cs w)"

text \<open>\<open>ReplaceAll\<close> for a text that is not empty; the services give it no other.\<close>

function replace_all :: "string \<Rightarrow> string \<Rightarrow> string \<Rightarrow> string" where
  "replace_all [] old new = []"
| "replace_all (c # cs) old new =
     (if old \<noteq> [] \<and> has_prefix (c # cs) old then new @ replace_all (drop (length old) (c # cs)) old new
      else c # replace_all cs old new)"
  by pat_completeness auto

termination
  by (relation "measure (\<lambda>(s, old, new). length s)") auto

lemma has_prefix_append [simp]: "has_prefix (w @ s) w"
  by (simp add: has_prefix_def)

lemma has_prefix_conv: "has_prefix s w \<longleftrightarrow> (\<exists>r. s = w @ r)"
  by (metis append_take_drop_id has_prefix_append has_prefix_def)

lemma contains_conv: "contains s w \<longleftrightarrow> (\<exists>a b. s = a @ w @ b)"
proof (induction s)
  case Nil
  then show ?case by simp
next
  case (Cons c cs)
  have "(\<exists>a b. c # cs = a @ w @ b) \<longleftrightarrow> (\<exists>b. c # cs = w @ b) \<or> (\<exists>a b. cs = a @ w @ b)"
    by (metis append_Cons append_Nil list.exhaust list.inject)
  then show ?case using Cons by (simp add: has_prefix_conv)
qed

lemma replace_all_absent: "\<not> contains s old \<Longrightarrow> replace_all s old new = s"
  by (induction s) auto

section \<open>Runes\<close>

definition byte_at :: "string \<Rightarrow> nat \<Rightarrow> nat" where
  "byte_at s i = (if i < length s then of_char (s ! i) else 0)"

definition between :: "nat \<Rightarrow> nat \<Rightarrow> nat \<Rightarrow> bool" where
  "between lo hi b \<longleftrightarrow> lo \<le> b \<and> b \<le> hi"

abbreviation tail_byte :: "nat \<Rightarrow> bool" where
  "tail_byte b \<equiv> between 0x80 0xBF b"

text \<open>The length of the rune at the start of a text that is not empty, by the table of \<^verbatim>\<open>unicode/utf8\<close>.\<close>

definition rune_len :: "string \<Rightarrow> nat" where
  "rune_len s =
     (let a = byte_at s 0; b = byte_at s 1; c = byte_at s 2; d = byte_at s 3
      in if between 0xC2 0xDF a \<and> tail_byte b then 2
         else if tail_byte c \<and> (a = 0xE0 \<and> between 0xA0 0xBF b \<or> (between 0xE1 0xEC a \<or> between 0xEE 0xEF a) \<and> tail_byte b \<or>
             a = 0xED \<and> between 0x80 0x9F b) then 3
         else if tail_byte c \<and> tail_byte d \<and> (a = 0xF0 \<and> between 0x90 0xBF b \<or> between 0xF1 0xF3 a \<and> tail_byte b \<or>
             a = 0xF4 \<and> between 0x80 0x8F b) then 4
         else 1)"

lemma rune_len_pos [simp]: "0 < rune_len s"
  by (simp add: rune_len_def Let_def)

function utf8Len :: "string \<Rightarrow> nat" where
  "utf8Len s = (if s = [] then 0 else 1 + utf8Len (drop (rune_len s) s))"
  by pat_completeness auto

termination
  by (relation "measure length") (auto simp: rune_len_pos)

declare utf8Len.simps [simp del]

lemma utf8Len_le: "utf8Len s \<le> length s"
proof (induction s rule: utf8Len.induct)
  case (1 s)
  show ?case
  proof (cases "s = []")
    case True
    then show ?thesis by (simp add: utf8Len.simps)
  next
    case False
    then have "utf8Len s = 1 + utf8Len (drop (rune_len s) s)" by (simp add: utf8Len.simps [of s])
    moreover have "utf8Len (drop (rune_len s) s) \<le> length s - rune_len s" using 1 False by simp
    moreover have "0 < rune_len s" "0 < length s" using False by simp_all
    ultimately show ?thesis by linarith
  qed
qed

section \<open>White space\<close>

text \<open>The encodings of the runes with the property \<open>White_Space\<close>.\<close>

definition spaces :: "string list" where
  "spaces = [''\<newline>'', '' '', [CHR 0x09], [CHR 0x0B], [CHR 0x0C], [CHR 0x0D], [CHR 0xC2, CHR 0x85], [CHR 0xC2, CHR 0xA0],
     [CHR 0xE1, CHR 0x9A, CHR 0x80]] @
     map (\<lambda>n. [CHR 0xE2, CHR 0x80, char_of (n :: nat)]) ([0x80..<0x8B] @ [0xA8, 0xA9, 0xAF]) @
     [[CHR 0xE2, CHR 0x81, CHR 0x9F], [CHR 0xE3, CHR 0x80, CHR 0x80]]"

lemma spaces_nonempty: "w \<in> set spaces \<Longrightarrow> w \<noteq> []"
  by (auto simp: spaces_def)

lemma found_space: "List.find P spaces = Some w \<Longrightarrow> w \<noteq> [] \<and> P w"
  using spaces_nonempty by (metis find_Some_iff nth_mem)

function trim_left :: "string \<Rightarrow> string" where
  "trim_left s = (case List.find (has_prefix s) spaces of None \<Rightarrow> s | Some w \<Rightarrow> trim_left (drop (length w) s))"
  by pat_completeness auto

termination
proof (relation "measure length")
  fix s w
  assume "List.find (has_prefix s) spaces = Some w"
  then have "w \<noteq> []" "has_prefix s w" using found_space by blast+
  then show "(drop (length w) s, s) \<in> measure length" by (cases w) (auto simp: has_prefix_conv)
qed simp

function trim_right :: "string \<Rightarrow> string" where
  "trim_right s = (case List.find (\<lambda>w. has_prefix (rev s) (rev w)) spaces of None \<Rightarrow> s | Some w \<Rightarrow> trim_right (take (length s - length w) s))"
  by pat_completeness auto

termination
proof (relation "measure length")
  fix s w
  assume "List.find (\<lambda>w. has_prefix (rev s) (rev w)) spaces = Some w"
  then have "w \<noteq> []" "has_prefix (rev s) (rev w)" using found_space by blast+
  then have "0 < length w" "0 < length s" by (auto simp: has_prefix_conv)
  then show "(take (length s - length w) s, s) \<in> measure length" by simp
qed simp

declare trim_left.simps [simp del] trim_right.simps [simp del]

definition TrimSpace :: "string \<Rightarrow> string" where
  "TrimSpace s = trim_right (trim_left s)"

lemma trim_left_suffix: "\<exists>a. s = a @ trim_left s"
proof (induction s rule: trim_left.induct)
  case (1 s)
  show ?case
  proof (cases "List.find (has_prefix s) spaces")
    case None
    then show ?thesis by (simp add: trim_left.simps [of s])
  next
    case (Some w)
    then obtain a where "drop (length w) s = a @ trim_left (drop (length w) s)" using 1 by blast
    then have "s = (take (length w) s @ a) @ trim_left s"
      using Some by (metis append_assoc append_take_drop_id option.simps(5) trim_left.simps)
    then show ?thesis by blast
  qed
qed

section \<open>Escaping a query\<close>

definition hex_upper :: "nat \<Rightarrow> char" where
  "hex_upper n = ''0123456789ABCDEF'' ! n"

definition percent_byte :: "char \<Rightarrow> string" where
  "percent_byte c = [CHR ''%'', hex_upper (of_char c div 16), hex_upper (of_char c mod 16)]"

definition unreserved :: "char \<Rightarrow> bool" where
  "unreserved c \<longleftrightarrow> (let n = of_char c in between 65 90 n \<or> between 97 122 n \<or> between 48 57 n) \<or> c \<in> set ''-_.~''"

definition escape_byte :: "char \<Rightarrow> string" where
  "escape_byte c = (if unreserved c then [c] else if c = CHR '' '' then ''+'' else percent_byte c)"

definition QueryEscape :: "string \<Rightarrow> string" where
  "QueryEscape s = concat (map escape_byte s)"

section \<open>Parameters of a URL\<close>

text \<open>A list of parameters stands for \<open>url.Values\<close> with one value per key; keys are sorted bytewise.\<close>

fun bytes_le :: "string \<Rightarrow> string \<Rightarrow> bool" where
  "bytes_le [] t = True"
| "bytes_le (c # s) [] = False"
| "bytes_le (c # s) (d # t) = ((of_char c :: nat) < of_char d \<or> c = d \<and> bytes_le s t)"

fun insert_key :: "string \<times> string \<Rightarrow> (string \<times> string) list \<Rightarrow> (string \<times> string) list" where
  "insert_key p [] = [p]"
| "insert_key p (q # ps) = (if bytes_le (fst p) (fst q) then p # q # ps else q # insert_key p ps)"

definition sort_keys :: "(string \<times> string) list \<Rightarrow> (string \<times> string) list" where
  "sort_keys ps = foldr insert_key ps []"

fun join_amp :: "string list \<Rightarrow> string" where
  "join_amp [] = []"
| "join_amp [p] = p"
| "join_amp (p # q # ps) = p @ CHR ''&'' # join_amp (q # ps)"

definition encode_values :: "(string \<times> string) list \<Rightarrow> string" where
  "encode_values params = join_amp (map (\<lambda>(k, v). QueryEscape k @ ''='' @ QueryEscape v) (sort_keys params))"

end
