(* ===== verification/GoJson.thy ===== *)
theory GoJson
  imports Events
begin

text \<open>
  How \<^verbatim>\<open>encoding/json\<close> fills a Go struct from a parsed object.  The parser itself is a parameter of the models that
  use this.
\<close>

text \<open>A key matches a field without regard to case, and the last occurrence counts; a null leaves the zero value.\<close>

definition to_lower :: "char \<Rightarrow> char" where
  "to_lower c = (let n = of_char c :: nat in if 65 \<le> n \<and> n \<le> 90 then char_of (n + 32) else c)"

lemma to_lower_simps [simp]:
  "to_lower CHR ''a'' = CHR ''a''" "to_lower CHR ''b'' = CHR ''b''" "to_lower CHR ''c'' = CHR ''c''" "to_lower CHR ''d'' = CHR ''d''"
  "to_lower CHR ''e'' = CHR ''e''" "to_lower CHR ''f'' = CHR ''f''" "to_lower CHR ''g'' = CHR ''g''" "to_lower CHR ''h'' = CHR ''h''"
  "to_lower CHR ''i'' = CHR ''i''" "to_lower CHR ''j'' = CHR ''j''" "to_lower CHR ''k'' = CHR ''k''" "to_lower CHR ''l'' = CHR ''l''"
  "to_lower CHR ''m'' = CHR ''m''" "to_lower CHR ''n'' = CHR ''n''" "to_lower CHR ''o'' = CHR ''o''" "to_lower CHR ''p'' = CHR ''p''"
  "to_lower CHR ''q'' = CHR ''q''" "to_lower CHR ''r'' = CHR ''r''" "to_lower CHR ''s'' = CHR ''s''" "to_lower CHR ''t'' = CHR ''t''"
  "to_lower CHR ''u'' = CHR ''u''" "to_lower CHR ''v'' = CHR ''v''" "to_lower CHR ''w'' = CHR ''w''" "to_lower CHR ''x'' = CHR ''x''"
  "to_lower CHR ''y'' = CHR ''y''" "to_lower CHR ''z'' = CHR ''z''" "to_lower CHR ''_'' = CHR ''_''"
  by code_simp+

definition same_key :: "string \<Rightarrow> string \<Rightarrow> bool" where
  "same_key k k' \<longleftrightarrow> map to_lower k = map to_lower k'"

fun field :: "string \<Rightarrow> (string \<times> json) list \<Rightarrow> json" where
  "field k [] = JNull"
| "field k ((k', v) # fs) = (if field k fs \<noteq> JNull then field k fs else if same_key k k' then v else JNull)"

abbreviation wrong_type :: go_error where
  "wrong_type \<equiv> Plain ''json: cannot unmarshal into Go value''"

definition as_string :: "json \<Rightarrow> go_error + string" where
  "as_string v = (case v of JStr s \<Rightarrow> Inr s | JNull \<Rightarrow> Inr [] | _ \<Rightarrow> Inl wrong_type)"

definition as_u32 :: "json \<Rightarrow> go_error + u32" where
  "as_u32 v = (case v of JInt n \<Rightarrow> if 0 \<le> n \<and> n < 2 ^ 32 then Inr (word_of_int n) else Inl wrong_type | JNull \<Rightarrow> Inr 0 | _ \<Rightarrow> Inl wrong_type)"

definition as_i64 :: "json \<Rightarrow> go_error + i64" where
  "as_i64 v = (case v of JInt n \<Rightarrow> if - (2 ^ 63) \<le> n \<and> n < 2 ^ 63 then Inr (word_of_int n) else Inl wrong_type | JNull \<Rightarrow> Inr 0 | _ \<Rightarrow> Inl wrong_type)"

definition as_strings :: "json \<Rightarrow> go_error + string list option" where
  "as_strings v = (case v of JStrs xs \<Rightarrow> Inr (Some xs) | JNull \<Rightarrow> Inr None | _ \<Rightarrow> Inl wrong_type)"

definition as_object :: "json \<Rightarrow> go_error + (string \<times> json) list" where
  "as_object v = (case v of JObj fs \<Rightarrow> Inr fs | JNull \<Rightarrow> Inr [] | _ \<Rightarrow> Inl wrong_type)"

text \<open>Reading fields one after the other.\<close>

definition read_with :: "('a \<Rightarrow> go_error + 'b) \<Rightarrow> go_error + 'a \<Rightarrow> go_error + 'b" where
  "read_with f r = (case r of Inl e \<Rightarrow> Inl e | Inr a \<Rightarrow> f a)"

lemma read_with_Inr [simp]: "read_with f (Inr a) = f a"
  by (simp add: read_with_def)

end
