(* ===== verification/PayChannel.thy ===== *)
theory PayChannel
  imports GoJson
begin

text \<open>
  \<^verbatim>\<open>go/services/billing-svc/internal/pay\<close>: the interface of a payment channel and the registry (\<^verbatim>\<open>channel.go\<close>),
  the mock channel (\<^verbatim>\<open>mock.go\<close>), and the helpers around RSA and AES-GCM the other channels share (\<^verbatim>\<open>wechat.go\<close>).
  Cryptography, PEM and X.509, base64 and JSON are parameters.  \<open>now\<close> is the clock in Unix seconds; header keys
  and bodies are byte strings.
\<close>

section \<open>Data\<close>

type_synonym channel = string

definition channel_validate :: "channel \<Rightarrow> go_error option" where
  "channel_validate c = (if c \<in> {''mock'', ''wechat'', ''alipay'', ''appleiap''} then None else Some (Plain (''pay: unknown channel '' @ c)))"

record prepay_request =
  pr_order :: string
  pr_amount :: i64
  pr_subject :: string
  pr_currency :: string
  pr_user :: string
  pr_return :: string
  pr_notify :: string
  pr_client :: string
  pr_extra :: "string \<Rightarrow> string"

record prepay_response =
  pp_channel :: channel
  pp_id :: string
  pp_url :: string
  pp_qr :: string
  pp_hints :: "(string \<times> string) list"

record webhook_event =
  we_channel :: channel
  we_order :: string
  we_trade :: string
  we_amount :: i64
  we_status :: string
  we_at :: i64

record query_result =
  qr_order :: string
  qr_trade :: string
  qr_status :: string
  qr_amount :: i64
  qr_channel :: channel

record refund_request =
  rq_order :: string
  rq_trade :: string
  rq_amount :: i64
  rq_reason :: string

record refund_result =
  rr_order :: string
  rr_id :: string
  rr_status :: string
  rr_amount :: i64
  rr_channel :: channel

text \<open>The mutable part all four channels have: the last status of an order, the nonces that were used.\<close>

record chan_state =
  cn_status :: "string \<rightharpoonup> string"
  cn_nonces :: "string \<rightharpoonup> i64"

definition chan_new :: chan_state where
  "chan_new = \<lparr>cn_status = Map.empty, cn_nonces = Map.empty\<rparr>"

text \<open>The interface; \<open>pc_prepay\<close> takes the wall clock, its text and the nonce the request is signed with, \<open>pc_verify\<close>
  the body and the headers.  \<open>pc_real\<close> is \<open>IsRealMode\<close>.\<close>

record stamp =
  sp_unix :: i64
  sp_text :: string
  sp_nonce :: string

record pay_channel =
  pc_name :: channel
  pc_prepay :: "stamp \<Rightarrow> prepay_request \<Rightarrow> go_error + prepay_response"
  pc_verify :: "i64 \<Rightarrow> string \<Rightarrow> (string \<Rightarrow> string) \<Rightarrow> chan_state \<Rightarrow> (go_error, webhook_event, chan_state) outcome"
  pc_query :: "string \<Rightarrow> chan_state \<Rightarrow> query_result"
  pc_refund :: "refund_request \<Rightarrow> refund_result"
  pc_real :: bool

type_synonym registry = "channel \<rightharpoonup> pay_channel \<times> chan_state"

definition reg_register :: "pay_channel \<Rightarrow> registry \<Rightarrow> registry" where
  "reg_register c r = r(pc_name c \<mapsto> (c, chan_new))"

definition reg_get :: "channel \<Rightarrow> registry \<Rightarrow> go_error + (pay_channel \<times> chan_state)" where
  "reg_get c r = (case r c of None \<Rightarrow> Inl (Plain (''pay: channel not registered: '' @ c)) | Some x \<Rightarrow> Inr x)"

text \<open>\<open>ks\<close> is the iteration order of the map.\<close>

definition reg_names :: "channel list \<Rightarrow> registry \<Rightarrow> channel list" where
  "reg_names ks r = filter (\<lambda>c. r c \<noteq> None) ks"

section \<open>Helpers\<close>

text \<open>Private and public keys are \<open>'q\<close> and \<open>'p\<close>; \<open>None\<close> inside a result of X.509 is a key of another kind.\<close>

record ('q, 'p) pay_lib =
  pl_hmac :: "string \<Rightarrow> string \<Rightarrow> string"
  pl_pem :: "string \<Rightarrow> string option"
  pl_pkcs1 :: "string \<Rightarrow> 'q option"
  pl_pkcs8 :: "string \<Rightarrow> go_error + 'q option"
  pl_pkix :: "string \<Rightarrow> 'p option"
  pl_cert :: "string \<Rightarrow> go_error + 'p option"
  pl_sign :: "'q \<Rightarrow> string \<Rightarrow> go_error + string"
  pl_verify :: "'p \<Rightarrow> string \<Rightarrow> string \<Rightarrow> go_error option"
  pl_enc64 :: "string \<Rightarrow> string"
  pl_dec64 :: "string \<Rightarrow> go_error + string"
  pl_gcm_open :: "string \<Rightarrow> string \<Rightarrow> string \<Rightarrow> string \<Rightarrow> go_error + string"
  pl_print :: "json \<Rightarrow> string"
  pl_parse :: "string \<Rightarrow> go_error + json"

definition newline :: string where
  "newline = [CHR 0x0A]"

text \<open>What the three \<open>MockSign\<close> functions compute: HMAC-SHA256 over time stamp, nonce and body, in hexadecimal.\<close>

definition mock_sign :: "('q, 'p) pay_lib \<Rightarrow> string \<Rightarrow> string \<Rightarrow> string \<Rightarrow> string \<Rightarrow> string" where
  "mock_sign lib key body ts nonce = pl_hmac lib key (ts @ newline @ nonce @ newline @ body)"

definition abs64 :: "i64 \<Rightarrow> i64" where
  "abs64 x = (if sint x < 0 then - x else x)"

definition outside_window :: "i64 \<Rightarrow> i64 \<Rightarrow> i64 \<Rightarrow> bool" where
  "outside_window now ts w \<longleftrightarrow> sint w < sint (abs64 (now - ts))"

text \<open>The first use of a nonce records it.\<close>

definition use_nonce :: "string \<Rightarrow> i64 \<Rightarrow> chan_state \<Rightarrow> chan_state option" where
  "use_nonce nonce ts st = (if cn_nonces st nonce \<noteq> None then None else Some (st\<lparr>cn_nonces := (cn_nonces st)(nonce \<mapsto> ts)\<rparr>))"

definition set_order_status :: "string \<Rightarrow> string \<Rightarrow> chan_state \<Rightarrow> chan_state" where
  "set_order_status i s st = st\<lparr>cn_status := (cn_status st)(i \<mapsto> s)\<rparr>"

definition firstNonEmpty :: "string list \<Rightarrow> string" where
  "firstNonEmpty vs = (case List.find (\<lambda>v. v \<noteq> []) vs of None \<Rightarrow> [] | Some v \<Rightarrow> v)"

definition clientModeOrDefault :: "string \<Rightarrow> string \<Rightarrow> string" where
  "clientModeOrDefault ct d = (if ct = [] then d else ct)"

definition pay_parseRSAPrivateKey :: "('q, 'p) pay_lib \<Rightarrow> string \<Rightarrow> go_error + 'q" where
  "pay_parseRSAPrivateKey lib pem =
     (case pl_pem lib pem of
        None \<Rightarrow> Inl (Plain ''pem decode failed'')
      | Some der \<Rightarrow> (case pl_pkcs1 lib der of
          Some k \<Rightarrow> Inr k
        | None \<Rightarrow> (case pl_pkcs8 lib der of
            Inl e \<Rightarrow> Inl e
          | Inr None \<Rightarrow> Inl (Plain ''not an rsa private key'')
          | Inr (Some k) \<Rightarrow> Inr k)))"

definition pay_parseRSAPublicKey :: "('q, 'p) pay_lib \<Rightarrow> string \<Rightarrow> go_error + 'p" where
  "pay_parseRSAPublicKey lib pem =
     (case pl_pem lib pem of
        None \<Rightarrow> Inl (Plain ''pem decode failed'')
      | Some der \<Rightarrow> (case pl_pkix lib der of
          Some k \<Rightarrow> Inr k
        | None \<Rightarrow> (case pl_cert lib der of
            Inl e \<Rightarrow> Inl e
          | Inr None \<Rightarrow> Inl (Plain ''certificate doesn't carry rsa public key'')
          | Inr (Some k) \<Rightarrow> Inr k)))"

definition aesGCMDecrypt :: "('q, 'p) pay_lib \<Rightarrow> string \<Rightarrow> string \<Rightarrow> string \<Rightarrow> string \<Rightarrow> go_error + string" where
  "aesGCMDecrypt lib key ciphertext aad nonce =
     (case pl_dec64 lib ciphertext of
        Inl e \<Rightarrow> Inl e
      | Inr ct \<Rightarrow>
          if length key \<noteq> 32 then Inl (Plain (''aes-gcm: key length='' @ dec_nat (length key) @ '' (need 32)''))
          else if length nonce \<noteq> 12 then Inl (Plain (''aes-gcm: nonce size='' @ dec_nat (length nonce) @ '' need 12''))
          else pl_gcm_open lib key nonce ct aad)"

text \<open>The last status a webhook reported; no channel asks its provider.\<close>

definition pay_last_status :: "string \<Rightarrow> chan_state \<Rightarrow> string" where
  "pay_last_status i st = (case cn_status st i of None \<Rightarrow> ''pending'' | Some s \<Rightarrow> s)"

section \<open>The mock channel\<close>

record mock_config =
  mk_secret :: string
  mk_window :: i64

definition NewMockChannel :: "mock_config \<Rightarrow> mock_config" where
  "NewMockChannel c = \<lparr>mk_secret = (if mk_secret c = [] then ''mock-secret'' else mk_secret c),
     mk_window = (if sint (mk_window c) \<le> 0 then 300 else mk_window c)\<rparr>"

definition mock_prepay :: "prepay_request \<Rightarrow> go_error + prepay_response" where
  "mock_prepay r =
     (if pr_order r = [] then Inl (Plain ''mock: order_id required'')
      else if sint (pr_amount r) \<le> 0 then Inl (Plain ''mock: amount_fen must be > 0'')
      else Inr \<lparr>pp_channel = ''mock'', pp_id = ''mockprepay_'' @ pr_order r,
                pp_url = ''https://mock.pay.local/pay?prepay_id=mockprepay_'' @ pr_order r,
                pp_qr = ''weixin://wxpay/mock/'' @ pr_order r, pp_hints = [(''amount_fen'', dec_int (sint (pr_amount r)))]\<rparr>)"

record mock_body =
  mb_order :: string
  mb_trade :: string
  mb_amount :: i64
  mb_status :: string

definition read_mock_body :: "(string \<times> json) list \<Rightarrow> go_error + mock_body" where
  "read_mock_body fs =
     read_with (\<lambda>i. read_with (\<lambda>trade. read_with (\<lambda>amount. read_with (\<lambda>status.
        Inr \<lparr>mb_order = i, mb_trade = trade, mb_amount = amount, mb_status = status\<rparr>)
     (as_string (field ''status'' fs))) (as_i64 (field ''amount_fen'' fs))) (as_string (field ''external_trade_no'' fs)))
     (as_string (field ''order_id'' fs))"

definition mock_verify ::
  "('q, 'p) pay_lib \<Rightarrow> mock_config \<Rightarrow> i64 \<Rightarrow> string \<Rightarrow> (string \<Rightarrow> string) \<Rightarrow> chan_state \<Rightarrow> (go_error, webhook_event, chan_state) outcome" where
  "mock_verify lib c now raw headers st =
     (let ts = headers ''X-Yunmao-Pay-Ts''; nonce = headers ''X-Yunmao-Pay-Nonce''; sig = headers ''X-Yunmao-Pay-Sig''
      in if ts = [] \<or> nonce = [] \<or> sig = [] then (Inl (Plain ''mock: missing X-Yunmao-Pay-Ts/Nonce/Sig''), st)
         else (case parse_int64 ts of
             None \<Rightarrow> (Inl (Plain ''mock: invalid ts''), st)
           | Some n \<Rightarrow>
               let t = word_of_int n
               in if outside_window now t (mk_window c) then (Inl (Plain ''mock: timestamp outside window''), st)
                  else if mock_sign lib (mk_secret c) raw ts nonce \<noteq> sig then (Inl (Plain ''mock: signature mismatch''), st)
                  else (case use_nonce nonce t st of
                      None \<Rightarrow> (Inl (Plain ''mock: nonce replayed''), st)
                    | Some st' \<Rightarrow> (case read_with read_mock_body (read_with as_object (pl_parse lib raw)) of
                          Inl e \<Rightarrow> (Inl (Plain ''mock: invalid json body''), st')
                        | Inr b \<Rightarrow> (Inr \<lparr>we_channel = ''mock'', we_order = mb_order b, we_trade = mb_trade b, we_amount = mb_amount b,
                                        we_status = mb_status b, we_at = t\<rparr>, set_order_status (mb_order b) (mb_status b) st')))))"

definition mock_query :: "string \<Rightarrow> chan_state \<Rightarrow> query_result" where
  "mock_query i st = \<lparr>qr_order = i, qr_trade = ''mocktrade_'' @ i, qr_status = pay_last_status i st, qr_amount = 0, qr_channel = ''mock''\<rparr>"

definition mock_refund :: "refund_request \<Rightarrow> refund_result" where
  "mock_refund r = \<lparr>rr_order = rq_order r, rr_id = ''mockrefund_'' @ rq_order r, rr_status = ''ok'', rr_amount = rq_amount r, rr_channel = ''mock''\<rparr>"

definition mock_channel :: "('q, 'p) pay_lib \<Rightarrow> mock_config \<Rightarrow> pay_channel" where
  "mock_channel lib c = \<lparr>pc_name = ''mock'', pc_prepay = (\<lambda>_. mock_prepay), pc_verify = mock_verify lib (NewMockChannel c),
     pc_query = mock_query, pc_refund = mock_refund, pc_real = False\<rparr>"

end
