(* ===== verification/PayWechat.thy ===== *)
theory PayWechat
  imports PayChannel
begin

text \<open>\<^verbatim>\<open>go/services/billing-svc/internal/pay/wechat.go\<close>: WeChat Pay, in mock mode and with keys.\<close>

section \<open>Configuration\<close>

record wechat_config =
  wc_mch :: string
  wc_key :: string
  wc_serial :: string
  wc_notify :: string
  wc_client_key :: string
  wc_platform :: string
  wc_sandbox :: string
  wc_mock :: bool

record ('q, 'p) wechat =
  wx_config :: wechat_config
  wx_priv :: "'q option"
  wx_pub :: "'p option"

text \<open>Missing credentials switch the mock mode on.\<close>

definition wechat_defaults :: "wechat_config \<Rightarrow> wechat_config" where
  "wechat_defaults c =
     c\<lparr>wc_mock := wc_mock c \<or> wc_mch c = [] \<or> wc_key c = [] \<or> wc_serial c = [] \<or> wc_client_key c = [],
       wc_key := (if wc_key c = [] then ''wechat-mock-key'' else wc_key c)\<rparr>"

definition NewWeChatChannel :: "('q, 'p) pay_lib \<Rightarrow> wechat_config \<Rightarrow> go_error + ('q, 'p) wechat" where
  "NewWeChatChannel lib c0 =
     (let c = wechat_defaults c0
      in if wc_mock c then Inr \<lparr>wx_config = c, wx_priv = None, wx_pub = None\<rparr>
         else (case pay_parseRSAPrivateKey lib (wc_client_key c) of
             Inl e \<Rightarrow> Inl (Wrap ''wechat: parse apiclient_key'' e)
           | Inr q \<Rightarrow>
               if wc_platform c = [] then Inr \<lparr>wx_config = c, wx_priv = Some q, wx_pub = None\<rparr>
               else (case pay_parseRSAPublicKey lib (wc_platform c) of
                   Inl e \<Rightarrow> Inl (Wrap ''wechat: parse platform_pub'' e)
                 | Inr p \<Rightarrow> Inr \<lparr>wx_config = c, wx_priv = Some q, wx_pub = Some p\<rparr>)))"

section \<open>Prepayment\<close>

definition wechat_order_json :: "wechat_config \<Rightarrow> prepay_request \<Rightarrow> json" where
  "wechat_order_json c r = JObj
     [(''appid'', JStr (pr_extra r ''appid'')), (''mchid'', JStr (wc_mch c)), (''description'', JStr (pr_subject r)),
      (''out_trade_no'', JStr (pr_order r)), (''notify_url'', JStr (firstNonEmpty [pr_notify r, wc_notify c])),
      (''amount'', JObj [(''total'', JInt (sint (pr_amount r))), (''currency'', JStr (firstNonEmpty [pr_currency r, ''CNY'']))])]"

definition quoted :: "string \<Rightarrow> string" where
  "quoted s = CHR 0x22 # s @ [CHR 0x22]"

definition wechat_auth :: "wechat_config \<Rightarrow> string \<Rightarrow> string \<Rightarrow> string \<Rightarrow> string" where
  "wechat_auth c nonce ts sig =
     ''WECHATPAY2-SHA256-RSA2048 mchid='' @ quoted (wc_mch c) @ '',nonce_str='' @ quoted nonce @ '',timestamp='' @ quoted ts @
     '',serial_no='' @ quoted (wc_serial c) @ '',signature='' @ quoted sig"

text \<open>A channel outside mock mode has its private key; without one the library would panic.\<close>

definition wechat_real_prepay :: "('q, 'p) pay_lib \<Rightarrow> ('q, 'p) wechat \<Rightarrow> stamp \<Rightarrow> prepay_request \<Rightarrow> go_error + prepay_response" where
  "wechat_real_prepay lib w sp r =
     (let c = wx_config w; mode = clientModeOrDefault (pr_client r) ''native''; path = ''/v3/pay/transactions/'' @ mode;
          raw = pl_print lib (wechat_order_json c r); ts = dec_int (sint (sp_unix sp));
          signing = ''POST'' @ newline @ path @ newline @ ts @ newline @ sp_nonce sp @ newline @ raw @ newline
      in case wx_priv w of
           None \<Rightarrow> Inl (Plain ''panic: nil private key'')
         | Some q \<Rightarrow> (case pl_sign lib q signing of
             Inl e \<Rightarrow> Inl (Wrap ''wechat: sign'' e)
           | Inr sig \<Rightarrow> Inr \<lparr>pp_channel = ''wechat'', pp_id = ''wxpay_real_'' @ pr_order r,
               pp_url = ''https://api.mch.weixin.qq.com'' @ path, pp_qr = [],
               pp_hints = [(''authorization'', wechat_auth c (sp_nonce sp) ts (pl_enc64 lib sig)), (''body'', raw), (''mode'', mode)]\<rparr>))"

definition wechat_prepay :: "('q, 'p) pay_lib \<Rightarrow> ('q, 'p) wechat \<Rightarrow> stamp \<Rightarrow> prepay_request \<Rightarrow> go_error + prepay_response" where
  "wechat_prepay lib w sp r =
     (if pr_order r = [] \<or> sint (pr_amount r) \<le> 0 then Inl (Plain ''wechat: order_id+amount required'')
      else if \<not> wc_mock (wx_config w) then wechat_real_prepay lib w sp r
      else let i = ''wxpay_'' @ pr_order r; url = ''weixin://wxpay/bizpayurl?pr='' @ i
           in Inr \<lparr>pp_channel = ''wechat'', pp_id = i, pp_url = url, pp_qr = url,
                   pp_hints = [(''client_type'', pr_client r), (''mode'', clientModeOrDefault (pr_client r) ''native''), (''mock'', ''true'')]\<rparr>)"

section \<open>Notifications\<close>

record wechat_body =
  xb_order :: string
  xb_trade :: string
  xb_state :: string
  xb_total :: i64
  xb_cipher :: string
  xb_aad :: string
  xb_nonce :: string

definition empty_wechat_body :: wechat_body where
  "empty_wechat_body = \<lparr>xb_order = [], xb_trade = [], xb_state = [], xb_total = 0, xb_cipher = [], xb_aad = [], xb_nonce = []\<rparr>"

text \<open>Filling the struct, which may hold values already: a field that is missing or null keeps its value.\<close>

definition keep_string :: "string \<Rightarrow> json \<Rightarrow> go_error + string" where
  "keep_string old v = (if v = JNull then Inr old else as_string v)"

definition keep_i64 :: "i64 \<Rightarrow> json \<Rightarrow> go_error + i64" where
  "keep_i64 old v = (if v = JNull then Inr old else as_i64 v)"

definition fill_wechat_body :: "wechat_body \<Rightarrow> (string \<times> json) list \<Rightarrow> go_error + wechat_body" where
  "fill_wechat_body b fs =
     read_with (\<lambda>amount. read_with (\<lambda>resource.
     read_with (\<lambda>i. read_with (\<lambda>trade. read_with (\<lambda>state. read_with (\<lambda>total. read_with (\<lambda>cipher. read_with (\<lambda>aad. read_with (\<lambda>nonce.
     read_with (\<lambda>_.
        Inr \<lparr>xb_order = i, xb_trade = trade, xb_state = state, xb_total = total, xb_cipher = cipher, xb_aad = aad, xb_nonce = nonce\<rparr>)
     (as_string (field ''algorithm'' resource))) (keep_string (xb_nonce b) (field ''nonce'' resource))) (keep_string (xb_aad b) (field ''associated_data'' resource)))
     (keep_string (xb_cipher b) (field ''ciphertext'' resource))) (keep_i64 (xb_total b) (field ''total'' amount)))
     (keep_string (xb_state b) (field ''trade_state'' fs))) (keep_string (xb_trade b) (field ''transaction_id'' fs)))
     (keep_string (xb_order b) (field ''out_trade_no'' fs)))
     (as_object (field ''resource'' fs))) (as_object (field ''amount'' fs))"

definition wechat_status :: "string \<Rightarrow> string" where
  "wechat_status s =
     (if s = ''SUCCESS'' then ''paid'' else if s = ''REFUND'' then ''refunded'' else if s = ''CLOSED'' \<or> s = ''REVOKED'' then ''closed''
      else if s = ''PAYERROR'' then ''failed'' else ''pending'')"

text \<open>The check of the signature: \<open>None\<close> when it holds.\<close>

definition wechat_signature ::
  "('q, 'p) pay_lib \<Rightarrow> ('q, 'p) wechat \<Rightarrow> string \<Rightarrow> string \<Rightarrow> string \<Rightarrow> string \<Rightarrow> go_error option" where
  "wechat_signature lib w raw ts nonce sig =
     (if wc_mock (wx_config w)
      then (if mock_sign lib (wc_key (wx_config w)) raw ts nonce \<noteq> sig then Some (Plain ''wechat: signature mismatch'') else None)
      else (case wx_pub w of
          None \<Rightarrow> Some (Plain ''wechat: PlatformPublicKey missing'')
        | Some p \<Rightarrow> (case pl_dec64 lib sig of
            Inl e \<Rightarrow> Some (Plain ''wechat: invalid base64 signature'')
          | Inr bytes \<Rightarrow> map_option (Wrap ''wechat: signature verify'')
              (pl_verify lib p (ts @ newline @ nonce @ newline @ raw @ newline) bytes))))"

text \<open>The body, decrypted where it carries a ciphertext.\<close>

definition wechat_decode :: "('q, 'p) pay_lib \<Rightarrow> ('q, 'p) wechat \<Rightarrow> string \<Rightarrow> go_error + wechat_body" where
  "wechat_decode lib w raw =
     (case read_with (fill_wechat_body empty_wechat_body) (read_with as_object (pl_parse lib raw)) of
        Inl e \<Rightarrow> Inl (Plain ''wechat: invalid json body'')
      | Inr b \<Rightarrow>
          if wc_mock (wx_config w) \<or> xb_cipher b = [] then Inr b
          else (case aesGCMDecrypt lib (wc_key (wx_config w)) (xb_cipher b) (xb_aad b) (xb_nonce b) of
              Inl e \<Rightarrow> Inl (Wrap ''wechat: aes-gcm decrypt'' e)
            | Inr plain \<Rightarrow> (case read_with (fill_wechat_body b) (read_with as_object (pl_parse lib plain)) of
                Inl e \<Rightarrow> Inl (Plain ''wechat: resource decrypt json'')
              | Inr b' \<Rightarrow> Inr b')))"

definition wechat_verify ::
  "('q, 'p) pay_lib \<Rightarrow> ('q, 'p) wechat \<Rightarrow> i64 \<Rightarrow> string \<Rightarrow> (string \<Rightarrow> string) \<Rightarrow> chan_state \<Rightarrow> (go_error, webhook_event, chan_state) outcome" where
  "wechat_verify lib w now raw headers st =
     (let ts = headers ''Wechatpay-Timestamp''; nonce = headers ''Wechatpay-Nonce''; sig = headers ''Wechatpay-Signature''
      in if ts = [] \<or> nonce = [] \<or> sig = [] then (Inl (Plain ''wechat: missing v3 signature headers''), st)
         else (case parse_int64 ts of
             None \<Rightarrow> (Inl (Plain ''wechat: invalid Wechatpay-Timestamp''), st)
           | Some n \<Rightarrow>
               let t = word_of_int n
               in if outside_window now t 300 then (Inl (Plain ''wechat: ts outside 5min window''), st)
                  else (case wechat_signature lib w raw ts nonce sig of
                      Some e \<Rightarrow> (Inl e, st)
                    | None \<Rightarrow> (case use_nonce nonce t st of
                        None \<Rightarrow> (Inl (Plain ''wechat: nonce replayed''), st)
                      | Some st' \<Rightarrow> (case wechat_decode lib w raw of
                          Inl e \<Rightarrow> (Inl e, st')
                        | Inr b \<Rightarrow> (Inr \<lparr>we_channel = ''wechat'', we_order = xb_order b, we_trade = xb_trade b, we_amount = xb_total b,
                                        we_status = wechat_status (xb_state b), we_at = t\<rparr>,
                                   set_order_status (xb_order b) (wechat_status (xb_state b)) st'))))))"

definition wechat_query :: "string \<Rightarrow> chan_state \<Rightarrow> query_result" where
  "wechat_query i st = \<lparr>qr_order = i, qr_trade = ''wxtrade_'' @ i, qr_status = pay_last_status i st, qr_amount = 0, qr_channel = ''wechat''\<rparr>"

definition wechat_refund :: "refund_request \<Rightarrow> refund_result" where
  "wechat_refund r = \<lparr>rr_order = rq_order r, rr_id = ''wxrefund_'' @ rq_order r, rr_status = ''ok'', rr_amount = rq_amount r, rr_channel = ''wechat''\<rparr>"

definition wechat_channel :: "('q, 'p) pay_lib \<Rightarrow> ('q, 'p) wechat \<Rightarrow> pay_channel" where
  "wechat_channel lib w = \<lparr>pc_name = ''wechat'', pc_prepay = wechat_prepay lib w, pc_verify = wechat_verify lib w,
     pc_query = wechat_query, pc_refund = wechat_refund, pc_real = \<not> wc_mock (wx_config w)\<rparr>"

end
