(* ===== verification/PayAlipay.thy ===== *)
theory PayAlipay
  imports Complex_Main PayChannel GoText
begin

text \<open>
  \<^verbatim>\<open>go/services/billing-svc/internal/pay/alipay.go\<close>: Alipay, in mock mode and with keys.  Amounts travel in yuan with
  two decimals, through \<open>float64\<close>: \<open>round53\<close> rounds a rational to the nearest double, ties to even, in the normal range.
\<close>

section \<open>Doubles\<close>

definition round_even :: "rat \<Rightarrow> int" where
  "round_even x =
     (let f = \<lfloor>x\<rfloor>; d = x - of_int f
      in if d < 1 / 2 then f else if 1 / 2 < d then f + 1 else if even f then f else f + 1)"

fun bits :: "nat \<Rightarrow> nat" where
  "bits n = (if n = 0 then 0 else Suc (bits (n div 2)))"

declare bits.simps [simp del]

text \<open>The exponent of the last of 53 bits of a positive rational.\<close>

definition ulp_exponent :: "rat \<Rightarrow> int" where
  "ulp_exponent x =
     (let (p, q) = quotient_of x; e = int (bits (nat p)) - int (bits (nat q)) - 53
      in if x / 2 powi e < 2 ^ 53 then e else e + 1)"

definition round53 :: "rat \<Rightarrow> rat" where
  "round53 x =
     (if x = 0 then 0
      else let e = ulp_exponent \<bar>x\<bar> in sgn x * of_int (round_even (\<bar>x\<bar> / 2 powi e)) * 2 powi e)"

section \<open>Amounts\<close>

text \<open>The plain decimal form of \<open>ParseFloat\<close>, before rounding: digits, with a fraction or not.\<close>

definition parse_plain :: "string \<Rightarrow> rat option" where
  "parse_plain s =
     (let whole = takeWhile (\<lambda>c. c \<noteq> CHR ''.'') s; frac = drop 1 (dropWhile (\<lambda>c. c \<noteq> CHR ''.'') s)
      in if whole = [] \<and> frac = [] then None
         else (case (undigits 0 whole, undigits 0 frac) of
             (Some w, Some f) \<Rightarrow> Some (of_nat w + of_nat f / 10 ^ length frac)
           | _ \<Rightarrow> None))"

text \<open>Signs, exponents, hexadecimal and special values are left to the parameter \<open>other\<close>, as is the syntax error.\<close>

definition ParseFloat :: "(string \<Rightarrow> go_error + rat) \<Rightarrow> string \<Rightarrow> go_error + rat" where
  "ParseFloat other s = (case parse_plain s of Some x \<Rightarrow> Inr (round53 x) | None \<Rightarrow> other s)"

definition truncate_i64 :: "rat \<Rightarrow> i64" where
  "truncate_i64 x = word_of_int (if 0 \<le> x then \<lfloor>x\<rfloor> else \<lceil>x\<rceil>)"

definition parseAmountYuanToFen :: "(string \<Rightarrow> go_error + rat) \<Rightarrow> string \<Rightarrow> i64 \<times> go_error option" where
  "parseAmountYuanToFen other yuan =
     (if yuan = [] then (0, None)
      else (case ParseFloat other yuan of
          Inl e \<Rightarrow> (0, Some e)
        | Inr f \<Rightarrow> (truncate_i64 (round53 (round53 (f * 100) + 1 / 2)), None)))"

text \<open>\<^verbatim>\<open>fmt.Sprintf("%.2f", float64(fen)/100.0)\<close>.\<close>

definition yuan_text :: "i64 \<Rightarrow> string" where
  "yuan_text fen =
     (let d = round53 (round53 (of_int (sint fen)) / 100); c = nat (round_even (\<bar>d\<bar> * 100))
      in (if d < 0 then ''-'' else []) @ dec_nat (c div 100) @ ''.'' @ pad 2 (c mod 100))"

section \<open>Configuration\<close>

record alipay_config =
  ac_app :: string
  ac_private :: string
  ac_public :: string
  ac_notify :: string
  ac_sandbox :: string
  ac_mock :: bool

text \<open>The libraries the channel uses beside those all channels share.\<close>

record ('q, 'p) alipay =
  al_config :: alipay_config
  al_priv :: "'q option"
  al_pub :: "'p option"
  al_query :: "string \<Rightarrow> go_error + (string \<times> string) list"
  al_float :: "string \<Rightarrow> go_error + rat"

definition alipay_defaults :: "alipay_config \<Rightarrow> alipay_config" where
  "alipay_defaults c = c\<lparr>ac_mock := ac_mock c \<or> ac_app c = [] \<or> ac_private c = [] \<or> ac_public c = []\<rparr>"

definition NewAlipayChannel ::
  "('q, 'p) pay_lib \<Rightarrow> (string \<Rightarrow> go_error + (string \<times> string) list) \<Rightarrow> (string \<Rightarrow> go_error + rat) \<Rightarrow> alipay_config \<Rightarrow>
     go_error + ('q, 'p) alipay" where
  "NewAlipayChannel lib query float c0 =
     (let c = alipay_defaults c0; ch = \<lparr>al_config = c, al_priv = None, al_pub = None, al_query = query, al_float = float\<rparr>
      in if ac_mock c then Inr ch
         else (case pay_parseRSAPrivateKey lib (ac_private c) of
             Inl e \<Rightarrow> Inl (Wrap ''alipay: parse priv'' e)
           | Inr q \<Rightarrow> (case pay_parseRSAPublicKey lib (ac_public c) of
               Inl e \<Rightarrow> Inl (Wrap ''alipay: parse pub'' e)
             | Inr p \<Rightarrow> Inr (ch\<lparr>al_priv := Some q, al_pub := Some p\<rparr>))))"

section \<open>The signature\<close>

text \<open>The text signed: the parameters in the order of their keys, without the signature itself and without empty ones.\<close>

definition signed_param :: "string \<times> string \<Rightarrow> bool" where
  "signed_param p \<longleftrightarrow> fst p \<noteq> ''sign'' \<and> fst p \<noteq> ''sign_type'' \<and> snd p \<noteq> []"

definition alipay_text :: "(string \<times> string) list \<Rightarrow> string" where
  "alipay_text params = join_amp (map (\<lambda>(k, v). k @ ''='' @ v) (sort_keys (filter signed_param params)))"

definition alipayRSA2Sign :: "('q, 'p) pay_lib \<Rightarrow> 'q \<Rightarrow> (string \<times> string) list \<Rightarrow> go_error + string" where
  "alipayRSA2Sign lib q params =
     (case pl_sign lib q (alipay_text params) of Inl e \<Rightarrow> Inl e | Inr sig \<Rightarrow> Inr (pl_enc64 lib sig))"

text \<open>A form may give a key several values; the first counts.\<close>

definition form_get :: "(string \<times> string) list \<Rightarrow> string \<Rightarrow> string" where
  "form_get values k = (case map_of values k of None \<Rightarrow> [] | Some v \<Rightarrow> v)"

definition form_params :: "(string \<times> string) list \<Rightarrow> (string \<times> string) list" where
  "form_params values = map (\<lambda>k. (k, form_get values k)) (remdups (map fst values))"

definition alipayVerify :: "('q, 'p) pay_lib \<Rightarrow> 'p \<Rightarrow> (string \<times> string) list \<Rightarrow> string \<Rightarrow> go_error option" where
  "alipayVerify lib p values sig =
     (case pl_dec64 lib sig of Inl e \<Rightarrow> Some e | Inr bytes \<Rightarrow> pl_verify lib p (alipay_text (form_params values)) bytes)"

section \<open>Prepayment\<close>

definition alipay_method :: "string \<Rightarrow> string" where
  "alipay_method mode = (if mode = ''wap'' \<or> mode = ''h5'' then ''alipay.trade.wap.pay''
     else if mode = ''app'' then ''alipay.trade.app.pay'' else ''alipay.trade.page.pay'')"

definition product_code :: "string \<Rightarrow> string" where
  "product_code m = (if m = ''alipay.trade.wap.pay'' then ''QUICK_WAP_WAY''
     else if m = ''alipay.trade.app.pay'' then ''QUICK_MSECURITY_PAY'' else ''FAST_INSTANT_TRADE_PAY'')"

definition alipay_params :: "('q, 'p) pay_lib \<Rightarrow> alipay_config \<Rightarrow> stamp \<Rightarrow> prepay_request \<Rightarrow> (string \<times> string) list" where
  "alipay_params lib c sp r =
     (let m = alipay_method (clientModeOrDefault (pr_client r) ''pc'');
          biz = pl_print lib (JObj [(''out_trade_no'', JStr (pr_order r)), (''total_amount'', JStr (yuan_text (pr_amount r))),
                  (''subject'', JStr (pr_subject r)), (''product_code'', JStr (product_code m))])
      in [(''app_id'', ac_app c), (''method'', m), (''format'', ''JSON''), (''charset'', ''utf-8''), (''sign_type'', ''RSA2''),
          (''timestamp'', sp_text sp), (''version'', ''1.0''), (''notify_url'', firstNonEmpty [pr_notify r, ac_notify c]),
          (''return_url'', pr_return r), (''biz_content'', biz)])"

definition alipay_real_prepay :: "('q, 'p) pay_lib \<Rightarrow> ('q, 'p) alipay \<Rightarrow> stamp \<Rightarrow> prepay_request \<Rightarrow> go_error + prepay_response" where
  "alipay_real_prepay lib a sp r =
     (let c = al_config a; mode = clientModeOrDefault (pr_client r) ''pc''; params = alipay_params lib c sp r
      in case al_priv a of
           None \<Rightarrow> Inl (Plain ''panic: nil private key'')
         | Some q \<Rightarrow> (case alipayRSA2Sign lib q params of
             Inl e \<Rightarrow> Inl (Wrap ''alipay: sign'' e)
           | Inr sig \<Rightarrow>
               let values = filter (\<lambda>p. snd p \<noteq> []) (params @ [(''sign'', sig)]);
                   gateway = (if ac_sandbox c \<noteq> [] then ac_sandbox c else ''https://openapi.alipay.com/gateway.do'')
               in Inr \<lparr>pp_channel = ''alipay'', pp_id = ''ali_real_'' @ pr_order r, pp_url = gateway @ ''?'' @ encode_values values, pp_qr = [],
                       pp_hints = [(''mode'', mode), (''method'', alipay_method mode)]\<rparr>))"

definition alipay_prepay :: "('q, 'p) pay_lib \<Rightarrow> ('q, 'p) alipay \<Rightarrow> stamp \<Rightarrow> prepay_request \<Rightarrow> go_error + prepay_response" where
  "alipay_prepay lib a sp r =
     (if pr_order r = [] \<or> sint (pr_amount r) \<le> 0 then Inl (Plain ''alipay: order_id+amount required'')
      else if ac_mock (al_config a)
      then Inr \<lparr>pp_channel = ''alipay'', pp_id = ''ali_'' @ pr_order r,
                pp_url = ''https://openapi.alipay.com/gateway.do?out_trade_no='' @ pr_order r,
                pp_qr = ''alipays://platformapi/startapp?saId=10000007&qrcode=ali_'' @ pr_order r,
                pp_hints = [(''client_type'', pr_client r), (''mode'', clientModeOrDefault (pr_client r) ''pc''), (''mock'', ''true'')]\<rparr>
      else alipay_real_prepay lib a sp r)"

section \<open>Notifications\<close>

definition mapAlipayStatus :: "string \<Rightarrow> string" where
  "mapAlipayStatus s = (if s = ''TRADE_SUCCESS'' \<or> s = ''TRADE_FINISHED'' then ''paid'' else if s = ''TRADE_CLOSED'' then ''closed'' else ''pending'')"

text \<open>What a notification says, in either mode: order, trade, trade status, amt amount.\<close>

type_synonym alipay_notice = "string \<times> string \<times> string \<times> string"

definition read_alipay_body :: "(string \<times> json) list \<Rightarrow> go_error + alipay_notice" where
  "read_alipay_body fs =
     read_with (\<lambda>i. read_with (\<lambda>trade. read_with (\<lambda>status. read_with (\<lambda>amt. Inr (i, trade, status, amt))
     (as_string (field ''total_amount'' fs))) (as_string (field ''trade_status'' fs))) (as_string (field ''trade_no'' fs)))
     (as_string (field ''out_trade_no'' fs))"

definition alipay_event :: "('q, 'p) alipay \<Rightarrow> i64 \<Rightarrow> alipay_notice \<Rightarrow> chan_state \<Rightarrow> (go_error, webhook_event, chan_state) outcome" where
  "alipay_event a t n st =
     (case n of (i, trade, status, amt) \<Rightarrow>
        (Inr \<lparr>we_channel = ''alipay'', we_order = i, we_trade = trade, we_amount = fst (parseAmountYuanToFen (al_float a) amt),
              we_status = mapAlipayStatus status, we_at = t\<rparr>, set_order_status i (mapAlipayStatus status) st))"

definition alipay_mock_key :: "alipay_config \<Rightarrow> string" where
  "alipay_mock_key c = (if ac_app c = [] then ''alipay-mock-key'' else ac_app c)"

definition alipay_mock_verify ::
  "('q, 'p) pay_lib \<Rightarrow> ('q, 'p) alipay \<Rightarrow> i64 \<Rightarrow> string \<Rightarrow> string \<Rightarrow> string \<Rightarrow> string \<Rightarrow> chan_state \<Rightarrow> (go_error, webhook_event, chan_state) outcome" where
  "alipay_mock_verify lib a t raw ts nonce sig st =
     (if nonce = [] \<or> sig = [] then (Inl (Plain ''alipay: missing nonce/sig in mock''), st)
      else if mock_sign lib (alipay_mock_key (al_config a)) raw ts nonce \<noteq> sig then (Inl (Plain ''alipay: signature mismatch''), st)
      else (case use_nonce nonce t st of
          None \<Rightarrow> (Inl (Plain ''alipay: nonce replayed''), st)
        | Some st' \<Rightarrow> (case read_with read_alipay_body (read_with as_object (pl_parse lib raw)) of
            Inl e \<Rightarrow> (Inl (Plain ''alipay: invalid json body''), st')
          | Inr n \<Rightarrow> alipay_event a t n st')))"

definition alipay_form_verify ::
  "('q, 'p) pay_lib \<Rightarrow> ('q, 'p) alipay \<Rightarrow> i64 \<Rightarrow> string \<Rightarrow> chan_state \<Rightarrow> (go_error, webhook_event, chan_state) outcome" where
  "alipay_form_verify lib a t raw st =
     (case al_query a raw of
        Inl e \<Rightarrow> (Inl (Wrap ''alipay: parse form'' e), st)
      | Inr values \<Rightarrow>
          if form_get values ''sign'' = [] then (Inl (Plain ''alipay: form sign missing''), st)
          else (case al_pub a of
              None \<Rightarrow> (Inl (Plain ''panic: nil public key''), st)
            | Some p \<Rightarrow> (case alipayVerify lib p values (form_get values ''sign'') of
                Some e \<Rightarrow> (Inl (Wrap ''alipay: verify'' e), st)
              | None \<Rightarrow> alipay_event a t (form_get values ''out_trade_no'', form_get values ''trade_no'', form_get values ''trade_status'',
                                          form_get values ''total_amount'') st)))"

text \<open>Without a time stamp in the headers the clock takes its place.\<close>

definition alipay_verify ::
  "('q, 'p) pay_lib \<Rightarrow> ('q, 'p) alipay \<Rightarrow> i64 \<Rightarrow> string \<Rightarrow> (string \<Rightarrow> string) \<Rightarrow> chan_state \<Rightarrow> (go_error, webhook_event, chan_state) outcome" where
  "alipay_verify lib a now raw headers st =
     (let ts = (if headers ''Alipay-Timestamp'' = [] then dec_int (sint now) else headers ''Alipay-Timestamp'')
      in case parse_int64 ts of
           None \<Rightarrow> (Inl (Plain ''alipay: invalid ts''), st)
         | Some n \<Rightarrow>
             let t = word_of_int n
             in if outside_window now t 600 then (Inl (Plain ''alipay: ts outside 10min''), st)
                else if ac_mock (al_config a) then alipay_mock_verify lib a t raw ts (headers ''Alipay-Nonce'') (headers ''Alipay-Sign'') st
                else alipay_form_verify lib a t raw st)"

definition alipay_query_status :: "string \<Rightarrow> chan_state \<Rightarrow> query_result" where
  "alipay_query_status i st = \<lparr>qr_order = i, qr_trade = ''alitrade_'' @ i, qr_status = pay_last_status i st, qr_amount = 0, qr_channel = ''alipay''\<rparr>"

definition alipay_refund :: "refund_request \<Rightarrow> refund_result" where
  "alipay_refund r = \<lparr>rr_order = rq_order r, rr_id = ''alirefund_'' @ rq_order r, rr_status = ''ok'', rr_amount = rq_amount r, rr_channel = ''alipay''\<rparr>"

definition alipay_channel :: "('q, 'p) pay_lib \<Rightarrow> ('q, 'p) alipay \<Rightarrow> pay_channel" where
  "alipay_channel lib a = \<lparr>pc_name = ''alipay'', pc_prepay = alipay_prepay lib a, pc_verify = alipay_verify lib a,
     pc_query = alipay_query_status, pc_refund = alipay_refund, pc_real = \<not> ac_mock (al_config a)\<rparr>"

end
