(* ===== verification/PayApple.thy ===== *)
theory PayApple
  imports PayChannel
begin

text \<open>
  \<^verbatim>\<open>go/services/billing-svc/internal/pay/appleiap.go\<close>: Apple in-app purchases, in mock mode and with signed
  notifications.  Certificates are \<open>'c\<close>, and \<open>ap_verify\<close> checks a signature of 64 bytes with the key of one.
\<close>

section \<open>Configuration\<close>

record 'c apple_lib =
  ap_cert :: "string \<Rightarrow> go_error + 'c"
  ap_chain :: "'c list \<Rightarrow> 'c list \<Rightarrow> 'c \<Rightarrow> go_error option"
  ap_ecdsa :: "'c \<Rightarrow> bool"
  ap_verify :: "'c \<Rightarrow> string \<Rightarrow> string \<Rightarrow> bool"
  ap_raw64 :: "string \<Rightarrow> go_error + string"
  ap_std64 :: "string \<Rightarrow> go_error + string"
  ap_parse :: "string \<Rightarrow> go_error + json"

record apple_config =
  ai_bundle :: string
  ai_app :: string
  ai_secret :: string
  ai_mock :: bool
  ai_roots :: "string list"

text \<open>\<open>None\<close> for the roots is the nil pool.\<close>

record 'c apple =
  ax_config :: apple_config
  ax_roots :: "'c list option"

definition apple_defaults :: "apple_config \<Rightarrow> apple_config" where
  "apple_defaults c = c\<lparr>ai_mock := ai_mock c \<or> ai_bundle c = [], ai_bundle := (if ai_bundle c = [] then ''live.yunmao.app'' else ai_bundle c)\<rparr>"

fun parse_certs :: "(string \<Rightarrow> go_error + 'c) \<Rightarrow> (nat \<Rightarrow> go_error \<Rightarrow> go_error) \<Rightarrow> nat \<Rightarrow> string list \<Rightarrow> go_error + 'c list" where
  "parse_certs p wrap n [] = Inr []"
| "parse_certs p wrap n (d # ds) =
     (case p d of Inl e \<Rightarrow> Inl (wrap n e)
      | Inr c \<Rightarrow> (case parse_certs p wrap (Suc n) ds of Inl e \<Rightarrow> Inl e | Inr cs \<Rightarrow> Inr (c # cs)))"

definition NewAppleIAPChannel :: "'c apple_lib \<Rightarrow> apple_config \<Rightarrow> go_error + 'c apple" where
  "NewAppleIAPChannel lib c0 =
     (let c = apple_defaults c0
      in if ai_roots c = [] then Inr \<lparr>ax_config = c, ax_roots = None\<rparr>
         else (case parse_certs (ap_cert lib) (\<lambda>_. Wrap ''appleiap: parse trusted root'') 0 (ai_roots c) of
             Inl e \<Rightarrow> Inl e
           | Inr cs \<Rightarrow> Inr \<lparr>ax_config = c, ax_roots = Some cs\<rparr>))"

definition apple_prepay :: "'c apple \<Rightarrow> prepay_request \<Rightarrow> go_error + prepay_response" where
  "apple_prepay a r =
     (if pr_order r = [] \<or> sint (pr_amount r) \<le> 0 then Inl (Plain ''appleiap: order_id+amount required'')
      else let pid = (if pr_extra r ''apple_product_id'' = [] then ''yunmao.feed.5g'' else pr_extra r ''apple_product_id'')
           in Inr \<lparr>pp_channel = ''appleiap'', pp_id = ''iap_'' @ pr_order r, pp_url = [], pp_qr = [],
                   pp_hints = [(''apple_product_id'', pid), (''bundle_id'', ai_bundle (ax_config a))] @
                     (if ai_mock (ax_config a) then [(''mock'', ''true'')] else [])\<rparr>)"

section \<open>Mock notifications\<close>

definition mapAppleStatus :: "string \<Rightarrow> string" where
  "mapAppleStatus t =
     (if t \<in> {''DID_RENEW'', ''SUBSCRIBED'', ''ONE_TIME_PURCHASE'', ''CONSUMABLE''} then ''paid''
      else if t \<in> {''REFUND'', ''REFUND_REVERSED''} then ''refunded''
      else if t \<in> {''CANCEL'', ''REVOKE'', ''EXPIRED''} then ''closed'' else ''pending'')"

record apple_body =
  yb_order :: string
  yb_trade :: string
  yb_type :: string
  yb_price :: i64
  yb_bundle :: string

definition read_apple_body :: "(string \<times> json) list \<Rightarrow> go_error + apple_body" where
  "read_apple_body fs =
     read_with (\<lambda>i. read_with (\<lambda>trade. read_with (\<lambda>type. read_with (\<lambda>price. read_with (\<lambda>bundle.
        Inr \<lparr>yb_order = i, yb_trade = trade, yb_type = type, yb_price = price, yb_bundle = bundle\<rparr>)
     (as_string (field ''bundle_id'' fs))) (as_i64 (field ''price_fen'' fs))) (as_string (field ''notification_type'' fs)))
     (as_string (field ''original_transaction_id'' fs))) (as_string (field ''order_id'' fs))"

definition apple_mock_key :: "apple_config \<Rightarrow> string" where
  "apple_mock_key c = (if ai_secret c = [] then ai_bundle c else ai_secret c)"

definition apple_verify_mock ::
  "('q, 'p) pay_lib \<Rightarrow> apple_config \<Rightarrow> i64 \<Rightarrow> string \<Rightarrow> (string \<Rightarrow> string) \<Rightarrow> chan_state \<Rightarrow> (go_error, webhook_event, chan_state) outcome" where
  "apple_verify_mock lib c now raw headers st =
     (let ts = headers ''X-Apple-Timestamp''; nonce = headers ''X-Apple-Nonce''; sig = headers ''X-Apple-Sig''
      in if ts = [] \<or> nonce = [] \<or> sig = [] then (Inl (Plain ''appleiap: missing X-Apple-Timestamp/Nonce/Sig''), st)
         else (case parse_int64 ts of
             None \<Rightarrow> (Inl (Plain ''appleiap: invalid ts''), st)
           | Some n \<Rightarrow>
               let t = word_of_int n
               in if outside_window now t 300 then (Inl (Plain ''appleiap: ts outside 5min''), st)
                  else if mock_sign lib (apple_mock_key c) raw ts nonce \<noteq> sig then (Inl (Plain ''appleiap: signature mismatch''), st)
                  else (case use_nonce nonce t st of
                      None \<Rightarrow> (Inl (Plain ''appleiap: nonce replayed''), st)
                    | Some st' \<Rightarrow> (case read_with read_apple_body (read_with as_object (pl_parse lib raw)) of
                        Inl e \<Rightarrow> (Inl (Plain ''appleiap: invalid json body''), st')
                      | Inr b \<Rightarrow>
                          if yb_bundle b \<noteq> [] \<and> yb_bundle b \<noteq> ai_bundle c then (Inl (Plain ''appleiap: bundle_id mismatch''), st')
                          else (Inr \<lparr>we_channel = ''appleiap'', we_order = yb_order b, we_trade = yb_trade b, we_amount = yb_price b,
                                     we_status = mapAppleStatus (yb_type b), we_at = t\<rparr>,
                                set_order_status (yb_order b) (mapAppleStatus (yb_type b)) st')))))"

section \<open>Signed notifications\<close>

fun split_dots :: "string \<Rightarrow> string \<Rightarrow> string list" where
  "split_dots acc [] = [rev acc]"
| "split_dots acc (c # cs) = (if c = CHR ''.'' then rev acc # split_dots [] cs else split_dots (c # acc) cs)"

definition read_jws_header :: "(string \<times> json) list \<Rightarrow> go_error + (string \<times> string list)" where
  "read_jws_header fs =
     read_with (\<lambda>alg. read_with (\<lambda>x5c. Inr (alg, case x5c of None \<Rightarrow> [] | Some xs \<Rightarrow> xs)) (as_strings (field ''x5c'' fs)))
     (as_string (field ''alg'' fs))"

definition wrapped :: "string \<Rightarrow> go_error + 'a \<Rightarrow> go_error + 'a" where
  "wrapped what r = (case r of Inl e \<Rightarrow> Inl (Wrap what e) | Inr a \<Rightarrow> Inr a)"

text \<open>The certificate chain, where roots are configured; \<open>x5c\<close> is the rest of the chain in the header.\<close>

definition check_chain :: "'c apple_lib \<Rightarrow> 'c list option \<Rightarrow> string list \<Rightarrow> 'c \<Rightarrow> go_error + unit" where
  "check_chain lib roots x5c leaf =
     (case roots of
        None \<Rightarrow> Inr ()
      | Some rs \<Rightarrow> (case parse_certs (\<lambda>d. read_with (\<lambda>der. wrapped ''parse'' (ap_cert lib der)) (wrapped ''decode'' (ap_std64 lib d)))
                     (\<lambda>n. Wrap (''x5c['' @ dec_nat n @ '']'')) 1 x5c of
            Inl e \<Rightarrow> Inl e
          | Inr cs \<Rightarrow> (case ap_chain lib rs cs leaf of Some e \<Rightarrow> Inl (Wrap ''chain verify'' e) | None \<Rightarrow> Inr ())))"

definition check_signature :: "'c apple_lib \<Rightarrow> 'c \<Rightarrow> string \<Rightarrow> string \<Rightarrow> go_error + unit" where
  "check_signature lib leaf text sig =
     (if \<not> ap_ecdsa lib leaf then Inl (Plain ''leaf cert not ECDSA'')
      else read_with (\<lambda>bytes.
             if length bytes \<noteq> 64 then Inl (Plain (''ES256 signature length='' @ dec_nat (length bytes) @ '' (need 64)''))
             else if \<not> ap_verify lib leaf text bytes then Inl (Plain ''ecdsa verify failed'')
             else Inr ())
           (wrapped ''sig decode'' (ap_raw64 lib sig)))"

definition decodeAndVerifyAppleJWS :: "'c apple_lib \<Rightarrow> string \<Rightarrow> 'c list option \<Rightarrow> go_error + string" where
  "decodeAndVerifyAppleJWS lib jws roots =
     (case split_dots [] jws of
        [h, p, s] \<Rightarrow>
          read_with (\<lambda>(alg, x5c).
            if alg \<noteq> ''ES256'' then Inl (Plain (''unsupported alg '' @ alg @ '' (want ES256)''))
            else (case x5c of
                [] \<Rightarrow> Inl (Plain ''x5c missing'')
              | l # rest \<Rightarrow>
                  read_with (\<lambda>leaf.
                    read_with (\<lambda>_. read_with (\<lambda>_. wrapped ''payload decode'' (ap_raw64 lib p))
                      (check_signature lib leaf (h @ ''.'' @ p) s))
                      (check_chain lib roots rest leaf))
                  (read_with (\<lambda>der. wrapped ''parse leaf'' (ap_cert lib der)) (wrapped ''x5c[0] decode'' (ap_std64 lib l)))))
          (read_with (\<lambda>t. wrapped ''hdr json'' (read_with read_jws_header (read_with as_object (ap_parse lib t))))
            (wrapped ''hdr decode'' (ap_raw64 lib h)))
      | _ \<Rightarrow> Inl (Plain ''not a JWS''))"

record apple_notice =
  yn_type :: string
  yn_bundle :: string
  yn_app :: i64
  yn_tx :: string
  yn_signed :: i64

definition read_apple_notice :: "(string \<times> json) list \<Rightarrow> go_error + apple_notice" where
  "read_apple_notice fs =
     read_with (\<lambda>dat. read_with (\<lambda>type. read_with (\<lambda>bundle. read_with (\<lambda>app. read_with (\<lambda>tx. read_with (\<lambda>signed.
     read_with (\<lambda>_. read_with (\<lambda>_. read_with (\<lambda>_.
        Inr \<lparr>yn_type = type, yn_bundle = bundle, yn_app = app, yn_tx = tx, yn_signed = signed\<rparr>)
     (as_string (field ''subtype'' fs))) (as_string (field ''notificationUUID'' fs))) (as_string (field ''signedRenewalInfo'' dat)))
     (as_i64 (field ''signedDate'' fs))) (as_string (field ''signedTransactionInfo'' dat))) (as_i64 (field ''appAppleId'' dat)))
     (as_string (field ''bundleId'' dat))) (as_string (field ''notificationType'' fs)))
     (as_object (field ''data'' fs))"

text \<open>The transaction: its identifier, the original one and the price.  An error of \<open>Unmarshal\<close> is ignored: what has
  another type is left empty, as is everything where the signature is wrong.\<close>

type_synonym apple_tx = "string \<times> string \<times> i64"

definition or_else :: "'a \<Rightarrow> go_error + 'a \<Rightarrow> 'a" where
  "or_else d r = (case r of Inl e \<Rightarrow> d | Inr a \<Rightarrow> a)"

definition read_apple_tx :: "(string \<times> json) list \<Rightarrow> apple_tx" where
  "read_apple_tx fs =
     (or_else [] (as_string (field ''transactionId'' fs)), or_else [] (as_string (field ''originalTransactionId'' fs)),
      or_else 0 (as_i64 (field ''price'' fs)))"

definition apple_transaction :: "'c apple_lib \<Rightarrow> 'c apple \<Rightarrow> string \<Rightarrow> apple_tx" where
  "apple_transaction lib a jws =
     (if jws = [] then ([], [], 0)
      else (case read_with (\<lambda>t. read_with as_object (ap_parse lib t)) (decodeAndVerifyAppleJWS lib jws (ax_roots a)) of
          Inl e \<Rightarrow> ([], [], 0)
        | Inr fs \<Rightarrow> read_apple_tx fs))"

definition apple_claims :: "'c apple_lib \<Rightarrow> 'c apple \<Rightarrow> string \<Rightarrow> go_error + apple_notice" where
  "apple_claims lib a raw =
     read_with (\<lambda>payload.
       if payload = [] then Inl (Plain ''appleiap: empty signedPayload'')
       else read_with (\<lambda>t. wrapped ''appleiap: parse claims'' (read_with read_apple_notice (read_with as_object (ap_parse lib t))))
              (wrapped ''appleiap: jws'' (decodeAndVerifyAppleJWS lib payload (ax_roots a))))
     (wrapped ''appleiap: parse outer json''
        (read_with (\<lambda>fs. as_string (field ''signedPayload'' fs)) (read_with as_object (ap_parse lib raw))))"

text \<open>Division of Go, which truncates towards zero.\<close>

definition quot_i64 :: "int \<Rightarrow> int \<Rightarrow> int" where
  "quot_i64 a b = sgn a * sgn b * (\<bar>a\<bar> div \<bar>b\<bar>)"

definition apple_verify_jws :: "'c apple_lib \<Rightarrow> 'c apple \<Rightarrow> string \<Rightarrow> chan_state \<Rightarrow> (go_error, webhook_event, chan_state) outcome" where
  "apple_verify_jws lib a raw st =
     (case apple_claims lib a raw of
        Inl e \<Rightarrow> (Inl e, st)
      | Inr n \<Rightarrow>
          if yn_bundle n \<noteq> ai_bundle (ax_config a) then (Inl (Plain (''appleiap: bundle_id mismatch (got '' @ yn_bundle n @ '')'')), st)
          else if ai_app (ax_config a) \<noteq> [] \<and> dec_int (sint (yn_app n)) \<noteq> ai_app (ax_config a)
          then (Inl (Plain ''appleiap: app_apple_id mismatch''), st)
          else (case apple_transaction lib a (yn_tx n) of (i, orig, price) \<Rightarrow>
            (Inr \<lparr>we_channel = ''appleiap'', we_order = orig, we_trade = i, we_amount = word_of_int (quot_i64 (sint price) 10000),
                  we_status = mapAppleStatus (yn_type n), we_at = word_of_int (quot_i64 (sint (yn_signed n)) 1000)\<rparr>,
             set_order_status orig (mapAppleStatus (yn_type n)) st)))"

definition apple_verify ::
  "('q, 'p) pay_lib \<Rightarrow> 'c apple_lib \<Rightarrow> 'c apple \<Rightarrow> i64 \<Rightarrow> string \<Rightarrow> (string \<Rightarrow> string) \<Rightarrow> chan_state \<Rightarrow> (go_error, webhook_event, chan_state) outcome" where
  "apple_verify lib alib a now raw headers st =
     (if ai_mock (ax_config a) then apple_verify_mock lib (ax_config a) now raw headers st else apple_verify_jws alib a raw st)"

definition apple_query :: "string \<Rightarrow> chan_state \<Rightarrow> query_result" where
  "apple_query i st = \<lparr>qr_order = i, qr_trade = ''iaptrade_'' @ i, qr_status = pay_last_status i st, qr_amount = 0, qr_channel = ''appleiap''\<rparr>"

definition apple_refund :: "refund_request \<Rightarrow> refund_result" where
  "apple_refund r = \<lparr>rr_order = rq_order r, rr_id = ''iaprefund_'' @ rq_order r, rr_status = ''pending'', rr_amount = rq_amount r, rr_channel = ''appleiap''\<rparr>"

definition apple_channel :: "('q, 'p) pay_lib \<Rightarrow> 'c apple_lib \<Rightarrow> 'c apple \<Rightarrow> pay_channel" where
  "apple_channel lib alib a = \<lparr>pc_name = ''appleiap'', pc_prepay = (\<lambda>_. apple_prepay a), pc_verify = apple_verify lib alib a,
     pc_query = apple_query, pc_refund = apple_refund, pc_real = \<not> ai_mock (ax_config a)\<rparr>"

end
