(* ===== verification/PayReconcile.thy ===== *)
theory PayReconcile
  imports PayWechat PayAlipay PayApple
begin

text \<open>
  \<^verbatim>\<open>go/services/billing-svc/internal/pay\<close>: the comparison of the orders with what the channels say (\<^verbatim>\<open>reconcile.go\<close>)
  and the report on the credentials (\<^verbatim>\<open>credential_readiness.go\<close>).
\<close>

section \<open>Reconciliation\<close>

record reconcile_record =
  rc_run :: string
  rc_channel :: channel
  rc_order :: string
  rc_trade :: string
  rc_local_status :: string
  rc_remote_status :: string
  rc_local_amount :: i64
  rc_remote_amount :: i64
  rc_diff :: string
  rc_created :: time

record local_order =
  lo_id :: string
  lo_channel :: channel
  lo_status :: string
  lo_amount :: i64

text \<open>The sink of the tests: everything that was written, and the differences among it.\<close>

record reconcile_sink =
  sk_records :: "reconcile_record list"
  sk_diffs :: "reconcile_record list"

definition WriteRecord :: "reconcile_record \<Rightarrow> reconcile_sink \<Rightarrow> reconcile_sink" where
  "WriteRecord r s = s\<lparr>sk_records := sk_records s @ [r]\<rparr>"

definition EmitDiff :: "reconcile_record \<Rightarrow> reconcile_sink \<Rightarrow> reconcile_sink" where
  "EmitDiff r s = s\<lparr>sk_diffs := sk_diffs s @ [r]\<rparr>"

definition diff_reason :: "local_order \<Rightarrow> string \<Rightarrow> i64 \<Rightarrow> string" where
  "diff_reason lo status amount =
     (let d = (if status \<noteq> lo_status lo \<and> status \<noteq> [] then ''status_mismatch'' else [])
      in if 0 < sint amount \<and> amount \<noteq> lo_amount lo
         then (if d = [] then ''amount_mismatch'' else d @ '',amount_mismatch'') else d)"

text \<open>One order; \<open>QueryStatus\<close> of the four channels gives no error.\<close>

definition reconcile_order :: "string \<Rightarrow> registry \<Rightarrow> local_order \<times> time \<Rightarrow> reconcile_sink \<Rightarrow> reconcile_sink" where
  "reconcile_order run reg lot s =
     (let (lo, created) = lot
      in case reg_get (lo_channel lo) reg of
           Inl e \<Rightarrow> s
         | Inr (c, st) \<Rightarrow>
             let q = pc_query c (lo_id lo) st;
                 r = \<lparr>rc_run = run, rc_channel = lo_channel lo, rc_order = lo_id lo, rc_trade = [], rc_local_status = lo_status lo,
                      rc_remote_status = qr_status q, rc_local_amount = lo_amount lo, rc_remote_amount = qr_amount q,
                      rc_diff = diff_reason lo (qr_status q) (qr_amount q), rc_created = created\<rparr>;
                 s' = WriteRecord r s
             in if rc_diff r \<noteq> [] then EmitDiff r s' else s')"

text \<open>\<open>now\<close> is the clock at the start; \<open>clock\<close> at each record.  The source gives the orders
  since \<open>now - lookback\<close>.\<close>

definition RunOnce ::
  "(time \<Rightarrow> go_error + local_order list) \<Rightarrow> registry \<Rightarrow> duration \<Rightarrow> time \<Rightarrow> (nat \<Rightarrow> time) \<Rightarrow> reconcile_sink \<Rightarrow> (go_error, unit, reconcile_sink) outcome" where
  "RunOnce src reg lookback now clock s =
     (case src (now - lookback) of
        Inl e \<Rightarrow> (Inl e, s)
      | Inr los \<Rightarrow> (Inr (), fold (reconcile_order (''reco_'' @ dec_int (unix_seconds now)) reg) (zip los (map clock [0..<length los])) s))"

text \<open>The worker runs at its start and at every tick; its errors are dropped.\<close>

fun worker_run ::
  "(time \<Rightarrow> go_error + local_order list) \<Rightarrow> registry \<Rightarrow> duration \<Rightarrow> (time \<times> (nat \<Rightarrow> time)) list \<Rightarrow> reconcile_sink \<Rightarrow> reconcile_sink" where
  "worker_run src reg lookback [] s = s"
| "worker_run src reg lookback ((now, clock) # ticks) s = worker_run src reg lookback ticks (snd (RunOnce src reg lookback now clock s))"

definition MarshalForLog :: "(json \<Rightarrow> go_error + string) \<Rightarrow> reconcile_record \<Rightarrow> go_error + string" where
  "MarshalForLog marshal r = marshal (JObj
     [(''run_id'', JStr (rc_run r)), (''channel'', JStr (rc_channel r)), (''order_id'', JStr (rc_order r)),
      (''external_trade_no'', JStr (rc_trade r)), (''local_status'', JStr (rc_local_status r)), (''remote_status'', JStr (rc_remote_status r)),
      (''local_amount_fen'', JInt (sint (rc_local_amount r))), (''remote_amount_fen'', JInt (sint (rc_remote_amount r))),
      (''diff_reason'', JStr (rc_diff r)), (''created_at'', JStr (format_nano (rc_created r)))])"

section \<open>Credentials\<close>

datatype credential_status = CredMissing | CredPartial | CredMock | CredSandbox | CredReady

fun credential_text :: "credential_status \<Rightarrow> string" where
  "credential_text CredMissing = ''missing''"
| "credential_text CredPartial = ''partial''"
| "credential_text CredMock = ''mock''"
| "credential_text CredSandbox = ''sandbox''"
| "credential_text CredReady = ''ready''"

record credential_check =
  cc_channel :: channel
  cc_field :: string
  cc_status :: credential_status
  cc_detail :: string

definition AllReady :: "credential_check list \<Rightarrow> bool" where
  "AllReady cs \<longleftrightarrow> list_all (\<lambda>c. cc_status c \<in> {CredReady, CredMock, CredSandbox}) cs"

definition HasRealMode :: "credential_check list \<Rightarrow> bool" where
  "HasRealMode cs \<longleftrightarrow> list_ex (\<lambda>c. cc_status c \<in> {CredReady, CredSandbox}) cs"

fun join_lines :: "string list \<Rightarrow> string" where
  "join_lines [] = []"
| "join_lines [l] = l"
| "join_lines (l # m # ls) = l @ newline @ join_lines (m # ls)"

definition Summary :: "credential_check list \<Rightarrow> string" where
  "Summary cs = join_lines (map (\<lambda>c. ''  '' @ cc_channel c @ ''/'' @ cc_field c @ '': '' @ credential_text (cc_status c) @ '' ('' @ cc_detail c @ '')'') cs)"

text \<open>A field that is there or not: what it is called, the status and text when it is not, the text when it is.\<close>

definition presence :: "channel \<Rightarrow> string \<Rightarrow> bool \<Rightarrow> credential_status \<Rightarrow> string \<Rightarrow> string \<Rightarrow> credential_check" where
  "presence ch f set_p missing_st missing_text set_text =
     (if set_p then \<lparr>cc_channel = ch, cc_field = f, cc_status = CredReady, cc_detail = set_text\<rparr>
      else \<lparr>cc_channel = ch, cc_field = f, cc_status = missing_st, cc_detail = missing_text\<rparr>)"

definition mock_check :: "channel \<Rightarrow> credential_check" where
  "mock_check ch = \<lparr>cc_channel = ch, cc_field = ''mode'', cc_status = CredMock, cc_detail = ''MockMode=true''\<rparr>"

definition sandbox_check :: "channel \<Rightarrow> string \<Rightarrow> credential_check list" where
  "sandbox_check ch base = (if base = [] then [] else [\<lparr>cc_channel = ch, cc_field = ''sandbox'', cc_status = CredSandbox, cc_detail = base\<rparr>])"

definition byte_count :: "nat \<Rightarrow> string" where
  "byte_count n = dec_nat n @ '' bytes''"

definition CheckWeChatCredentials :: "wechat_config \<Rightarrow> credential_check list" where
  "CheckWeChatCredentials c =
     (let ch = ''wechat''
      in if wc_mock c then [mock_check ch]
         else [presence ch ''mch_id'' (wc_mch c \<noteq> []) CredMissing ''YUNMAO_WECHAT_MCH_ID not set'' ''set'',
               presence ch ''api_v3_key'' (wc_key c \<noteq> []) CredMissing ''YUNMAO_WECHAT_APIV3_KEY not set'' ''set'',
               presence ch ''serial_no'' (wc_serial c \<noteq> []) CredMissing ''YUNMAO_WECHAT_SERIAL_NO not set'' ''set'',
               presence ch ''api_client_key'' (wc_client_key c \<noteq> []) CredMissing ''YUNMAO_WECHAT_API_CLIENT_KEY_PATH not set'' (byte_count (length (wc_client_key c))),
               presence ch ''platform_public_key'' (wc_platform c \<noteq> []) CredPartial ''optional for webhook verify; not set'' (byte_count (length (wc_platform c)))] @
              sandbox_check ch (wc_sandbox c))"

definition CheckAlipayCredentials :: "alipay_config \<Rightarrow> credential_check list" where
  "CheckAlipayCredentials c =
     (let ch = ''alipay''
      in if ac_mock c then [mock_check ch]
         else [presence ch ''app_id'' (ac_app c \<noteq> []) CredMissing ''YUNMAO_ALIPAY_APP_ID not set'' ''set'',
               presence ch ''merchant_private_key'' (ac_private c \<noteq> []) CredMissing ''YUNMAO_ALIPAY_PRIVATE_KEY_PEM_PATH not set'' (byte_count (length (ac_private c))),
               presence ch ''alipay_public_key'' (ac_public c \<noteq> []) CredPartial ''optional for notify verify; not set'' (byte_count (length (ac_public c)))] @
              sandbox_check ch (ac_sandbox c))"

definition CheckAppleIAPCredentials :: "apple_config \<Rightarrow> credential_check list" where
  "CheckAppleIAPCredentials c =
     (let ch = ''appleiap''
      in if ai_mock c then [mock_check ch]
         else [presence ch ''bundle_id'' (ai_bundle c \<noteq> []) CredMissing ''YUNMAO_APPLE_BUNDLE_ID not set'' (ai_bundle c),
               presence ch ''app_apple_id'' (ai_app c \<noteq> []) CredPartial
                 ''YUNMAO_APPLE_APP_APPLE_ID not set (optional for server-side receipt validation)'' (ai_app c),
               presence ch ''trusted_roots'' (ai_roots c \<noteq> []) CredPartial
                 ''Apple Root CA PEM not set; JWS x5c chain validation will be skipped'' (byte_count (length (ai_roots c)))])"

definition CheckAllCredentials :: "wechat_config \<Rightarrow> alipay_config \<Rightarrow> apple_config \<Rightarrow> credential_check list" where
  "CheckAllCredentials w a i = CheckWeChatCredentials w @ CheckAlipayCredentials a @ CheckAppleIAPCredentials i"

end
