(* ===== verification/PayHttp.thy ===== *)
theory PayHttp
  imports PayReconcile BillingService
begin

text \<open>
  The handlers of \<^verbatim>\<open>go/services/billing-svc/internal/transport/http.go\<close> that join the payment channels and the orders,
  and the registration of the channels in \<^verbatim>\<open>go/services/billing-svc/server/server.go\<close>, over any order store.  Decoding
  of the request and encoding of the answer are left out: an answer is a status with its content as a value.
\<close>

section \<open>Answers\<close>

datatype pay_answer =
    ErrorAnswer go_error
  | PrepayAnswer prepay_response
  | EventAnswer bool string webhook_event
  | RefundAnswer refund_result
  | RefundPartly refund_result string

fun answer_status :: "pay_answer \<Rightarrow> nat" where
  "answer_status (ErrorAnswer e) = error_status e"
| "answer_status (PrepayAnswer r) = 201"
| "answer_status (EventAnswer ok reason ev) = 200"
| "answer_status (RefundAnswer r) = 200"
| "answer_status (RefundPartly r reason) = 200"

section \<open>Handlers\<close>

text \<open>The state: the channels with their mutable parts, and the store.\<close>

type_synonym 's pay_state = "registry \<times> 's"

definition pick_channel :: "string \<Rightarrow> string \<Rightarrow> channel" where
  "pick_channel header query = firstNonEmpty [header, query, ''mock'']"

text \<open>\<open>AmountCny\<close> is in yuan.\<close>

definition order_fen :: "order_dto \<Rightarrow> i64" where
  "order_fen d = ucast (od_amount d) * 100"

definition http_prepay ::
  "'s billing_ops \<Rightarrow> stamp \<Rightarrow> channel \<Rightarrow> string \<Rightarrow> (go_error + prepay_request) \<Rightarrow> 's pay_state \<Rightarrow> pay_answer" where
  "http_prepay ops sp ch i body st =
     (case reg_get ch (fst st) of
        Inl e \<Rightarrow> ErrorAnswer (yerr SystemInternal (err_text e))
      | Inr (c, _) \<Rightarrow> (case body of
          Inl _ \<Rightarrow> ErrorAnswer (yerr SystemInternal ''invalid json'')
        | Inr r \<Rightarrow> (case svc_get ops i (snd st) of
            Inl e \<Rightarrow> ErrorAnswer e
          | Inr d \<Rightarrow> (case pc_prepay c sp (r\<lparr>pr_order := i, pr_amount := (if pr_amount r = 0 then order_fen d else pr_amount r)\<rparr>) of
              Inl e \<Rightarrow> ErrorAnswer (yerr SystemInternal (''prepay: '' @ err_text e))
            | Inr resp \<Rightarrow> PrepayAnswer resp))))"

text \<open>A body above 1 MiB is refused; \<open>now\<close> is the clock in seconds, \<open>fr\<close> what \<open>MarkPaid\<close> draws.\<close>

definition max_webhook :: nat where
  "max_webhook = 2 ^ 20"

definition http_webhook ::
  "'s billing_ops \<Rightarrow> string \<Rightarrow> i64 \<Rightarrow> fresh \<Rightarrow> channel \<Rightarrow> string \<Rightarrow> (string \<Rightarrow> string) \<Rightarrow> 's pay_state \<Rightarrow> pay_answer \<times> 's pay_state" where
  "http_webhook ops src now fr ch raw headers st =
     (case reg_get ch (fst st) of
        Inl e \<Rightarrow> (ErrorAnswer (yerr SystemInternal (err_text e)), st)
      | Inr (c, cs) \<Rightarrow>
          if max_webhook < length raw then (ErrorAnswer (yerr SystemInternal ''body too large''), st)
          else (case pc_verify c now raw headers cs of
              (Inl e, cs') \<Rightarrow> (ErrorAnswer (yerr SystemInternal (''webhook: '' @ err_text e)), ((fst st)(ch \<mapsto> (c, cs')), snd st))
            | (Inr ev, cs') \<Rightarrow>
                let reg' = (fst st)(ch \<mapsto> (c, cs'))
                in if we_status ev = ''paid''
                   then (case svc_mark_paid ops src fr (we_order ev) (snd st) of
                       (Inl e, s') \<Rightarrow> (EventAnswer False (err_text e) ev, (reg', s'))
                     | (Inr _, s') \<Rightarrow> (EventAnswer True [] ev, (reg', s')))
                   else (EventAnswer True [] ev, (reg', snd st))))"

definition http_channel_refund ::
  "'s billing_ops \<Rightarrow> string \<Rightarrow> fresh \<Rightarrow> channel \<Rightarrow> string \<Rightarrow> refund_request \<Rightarrow> 's pay_state \<Rightarrow> pay_answer \<times> 's pay_state" where
  "http_channel_refund ops src fr ch i body st =
     (case reg_get ch (fst st) of
        Inl e \<Rightarrow> (ErrorAnswer (yerr SystemInternal (err_text e)), st)
      | Inr (c, _) \<Rightarrow> (case svc_get ops i (snd st) of
          Inl e \<Rightarrow> (ErrorAnswer e, st)
        | Inr d \<Rightarrow>
            let res = pc_refund c (body\<lparr>rq_order := i, rq_amount := (if rq_amount body = 0 then order_fen d else rq_amount body)\<rparr>)
            in (case svc_refund ops src fr i (snd st) of
                (Inl e, s') \<Rightarrow> (RefundPartly res (err_text e), (fst st, s'))
              | (Inr _, s') \<Rightarrow> (RefundAnswer res, (fst st, s')))))"

definition http_list_channels :: "channel list \<Rightarrow> registry \<Rightarrow> (channel \<times> string) list" where
  "http_list_channels ks reg =
     map (\<lambda>n. (n, case reg n of Some (c, _) \<Rightarrow> if pc_real c then ''real'' else ''mock'' | None \<Rightarrow> ''mock'')) (reg_names ks reg)"

section \<open>The server\<close>

record pay_deps =
  pd_secret :: string
  pd_wechat :: wechat_config
  pd_alipay :: alipay_config
  pd_apple :: apple_config
  pd_on_wechat :: bool
  pd_on_alipay :: bool
  pd_on_apple :: bool

text \<open>Where the keys of a channel do not parse, the server registers a nil pointer and its first use panics; that server is
  left out as \<open>None\<close>.\<close>

definition with_channel :: "bool \<Rightarrow> ('a \<Rightarrow> pay_channel) \<Rightarrow> go_error + 'a \<Rightarrow> registry option \<Rightarrow> registry option" where
  "with_channel on f r reg =
     (if \<not> on then reg else (case r of Inl e \<Rightarrow> None | Inr a \<Rightarrow> map_option (reg_register (f a)) reg))"

definition pay_registry ::
  "('q, 'p) pay_lib \<Rightarrow> (string \<Rightarrow> go_error + (string \<times> string) list) \<Rightarrow> (string \<Rightarrow> go_error + rat) \<Rightarrow> 'c apple_lib \<Rightarrow> pay_deps \<Rightarrow> registry option" where
  "pay_registry lib query float alib d =
     with_channel (pd_on_apple d) (apple_channel lib alib) (NewAppleIAPChannel alib (pd_apple d))
       (with_channel (pd_on_alipay d) (alipay_channel lib) (NewAlipayChannel lib query float (pd_alipay d))
         (with_channel (pd_on_wechat d) (wechat_channel lib) (NewWeChatChannel lib (pd_wechat d))
           (Some (reg_register (mock_channel lib \<lparr>mk_secret = pd_secret d, mk_window = 0\<rparr>) Map.empty))))"

end
