(* ===== verification/PayAmounts.thy ===== *)
theory PayAmounts
  imports PayAlipay
begin

text \<open>
  Amounts of the Alipay channel: rounding to doubles moves a number by at most its 2^53rd part, so an amount survives the
  text of a request and the parser of a notification, below 2^49 fen.
\<close>

section \<open>Rounding\<close>

lemma round_even_near: "\<bar>of_int (round_even x) - x\<bar> \<le> 1 / 2"
proof -
  have "of_int \<lfloor>x\<rfloor> \<le> x" "x < of_int \<lfloor>x\<rfloor> + 1" by linarith+
  then show ?thesis by (auto simp: round_even_def Let_def abs_le_iff)
qed

lemma round_even_unique:
  assumes "\<bar>of_int n - x\<bar> < 1 / 2"
  shows "round_even x = n"
proof -
  have "\<bar>of_int (round_even x) - (of_int n :: rat)\<bar> < 1" using round_even_near [of x] assms by linarith
  then have "\<bar>round_even x - n\<bar> < 1" by (metis of_int_abs of_int_diff of_int_less_1_iff)
  then show ?thesis by simp
qed

lemma bits_bounds: "0 < n \<Longrightarrow> 2 ^ (bits n - 1) \<le> n \<and> n < 2 ^ bits n"
proof (induction n rule: bits.induct)
  case (1 n)
  then have b: "bits n = Suc (bits (n div 2))" by (simp add: bits.simps [of n])
  show ?case
  proof (cases "n div 2 = 0")
    case True
    then have "n = 1" using 1 by simp
    then show ?thesis using b by (simp add: bits.simps)
  next
    case False
    then have ih: "2 ^ (bits (n div 2) - 1) \<le> n div 2" "n div 2 < 2 ^ bits (n div 2)" using 1 by simp_all
    have pos: "0 < bits (n div 2)" using False by (simp add: bits.simps)
    then have "2 * 2 ^ (bits (n div 2) - 1) = (2 :: nat) ^ bits (n div 2)" by (simp add: power_eq_if)
    moreover have "n div 2 \<le> k \<Longrightarrow> n \<le> 2 * k + 1" "k \<le> n div 2 \<Longrightarrow> 2 * k \<le> n" "n div 2 < k \<Longrightarrow> n < 2 * k" for k by linarith+
    ultimately show ?thesis using ih by (simp add: b)
  qed
qed

lemma ulp_bound:
  assumes "0 < x"
  shows "2 ^ 52 * 2 powi ulp_exponent x \<le> x"
proof -
  obtain p q where pq: "quotient_of x = (p, q)" by (cases "quotient_of x")
  then have x: "x = of_int p / of_int q" and q: "0 < q" by (auto dest: quotient_of_div quotient_of_denom_pos)
  then have p: "0 < p" using assms by (simp add: zero_less_divide_iff)
  define m n where "m = nat p" and "n = nat q"
  have x: "x = of_nat m / of_nat n" and mn: "0 < m" "0 < n" using x p q by (auto simp: m_def n_def)
  define e where "e = int (bits m) - int (bits n) - 53"
  have "0 < bits m" using mn(1) by (simp add: bits.simps [of m])
  then have "52 + e = int (bits m - 1) - int (bits n)" by (simp add: e_def of_nat_diff)
  moreover have "(2 :: rat) ^ 52 * 2 powi e = 2 powi (52 + e)" using power_int_add [of "2 :: rat" 52 e] by simp
  ultimately have "(2 :: rat) ^ 52 * 2 powi e = 2 powi (int (bits m - 1) - int (bits n))" by (simp only:)
  also have "\<dots> = 2 ^ (bits m - 1) / 2 ^ bits n" by (simp add: power_int_diff)
  also have "\<dots> \<le> x"
  proof -
    have "(2 :: rat) ^ (bits m - 1) \<le> of_nat m" using bits_bounds [OF mn(1)] by (metis of_nat_le_iff of_nat_numeral of_nat_power)
    moreover have "of_nat n \<le> (2 :: rat) ^ bits n" using bits_bounds [OF mn(2)] by (metis less_imp_le of_nat_le_iff of_nat_numeral of_nat_power)
    ultimately show ?thesis unfolding x by (intro frac_le) (use mn in auto)
  qed
  finally have low: "2 ^ 52 * 2 powi e \<le> x" .
  show ?thesis
  proof (cases "x / 2 powi e < 2 ^ 53")
    case True
    then show ?thesis using low pq by (simp add: ulp_exponent_def e_def m_def n_def)
  next
    case False
    have pos: "(0 :: rat) < 2 powi e" by simp
    with False have "2 ^ 53 * 2 powi e \<le> x" by (simp add: not_less pos_le_divide_eq [OF pos])
    then have "2 ^ 52 * 2 powi (e + 1) \<le> x" by (simp add: power_int_add)
    with False pq show ?thesis by (simp add: ulp_exponent_def e_def m_def n_def)
  qed
qed

text \<open>The relative error of rounding.\<close>

lemma round53_near:
  assumes "0 \<le> x"
  shows "\<bar>round53 x - x\<bar> \<le> x / 2 ^ 53"
proof (cases "x = 0")
  case False
  define u where "u = (2 :: rat) powi ulp_exponent x"
  have pos: "0 < u" and x: "0 < x" using False assms by (simp_all add: u_def)
  have r: "round53 x = of_int (round_even (x / u)) * u" using False x by (simp add: round53_def u_def Let_def)
  have "\<bar>round53 x - x\<bar> = \<bar>of_int (round_even (x / u)) - x / u\<bar> * u"
  proof -
    have "round53 x - x = (of_int (round_even (x / u)) - x / u) * u" using pos by (simp add: r left_diff_distrib)
    then show ?thesis using pos by (simp add: abs_mult)
  qed
  also have "\<dots> \<le> 1 / 2 * u" using round_even_near pos by (intro mult_right_mono) auto
  also have "\<dots> \<le> x / 2 ^ 53" using ulp_bound [OF x] by (simp add: u_def)
  finally show ?thesis .
qed (simp add: round53_def)

section \<open>Texts\<close>

definition cents_text :: "nat \<Rightarrow> string" where
  "cents_text c = dec_nat (c div 100) @ ''.'' @ pad 2 (c mod 100)"

lemma parse_cents: "parse_plain (cents_text c) = Some (of_nat c / 100)"
proof -
  have nd: "CHR ''.'' \<notin> set (dec_nat k)" for k using dec_nat_digits [of "CHR ''.''" k] by auto
  have whole: "takeWhile (\<lambda>x. x \<noteq> CHR ''.'') (cents_text c) = dec_nat (c div 100)"
    and frac: "dropWhile (\<lambda>x. x \<noteq> CHR ''.'') (cents_text c) = CHR ''.'' # pad 2 (c mod 100)"
    using takeWhile_neq_append [OF nd [of "c div 100"]] dropWhile_neq_append [OF nd [of "c div 100"]] by (simp_all add: cents_text_def)
  have u: "undigits 0 (pad 2 (c mod 100)) = Some (c mod 100)" by (rule undigits_pad_small) simp
  have "of_nat (c div 100) + of_nat (c mod 100) / 100 = (of_nat (100 * (c div 100) + c mod 100) / 100 :: rat)"
    by (simp only: of_nat_add of_nat_mult of_nat_numeral) simp
  also have "100 * (c div 100) + c mod 100 = c" by simp
  finally show ?thesis by (simp add: parse_plain_def whole frac u Let_def del: of_nat_add)
qed

text \<open>The arithmetic of the formatter and of the parser, with the error bounds in place of the rounding.\<close>

lemma format_error:
  fixes n a d :: rat
  assumes "0 \<le> n" "n < 562949953421312" "\<bar>a - n\<bar> \<le> n / 9007199254740992" "\<bar>d - a / 100\<bar> \<le> a / 100 / 9007199254740992"
  shows "\<bar>n - d * 100\<bar> < 1 / 2" and "0 \<le> a" and "0 \<le> d"
  using assms by linarith+

lemma parse_error:
  fixes n f g h :: rat
  assumes "0 \<le> n" "n < 562949953421312" "\<bar>f - n / 100\<bar> \<le> n / 100 / 9007199254740992" "\<bar>g - f * 100\<bar> \<le> f * 100 / 9007199254740992"
    "\<bar>h - (g + 1 / 2)\<bar> \<le> (g + 1 / 2) / 9007199254740992"
  shows "n \<le> h" and "h < n + 1"
proof -
  have "0 \<le> f" using assms(1,3) by linarith
  then have "\<bar>f * 100 - n\<bar> \<le> 1 / 8" "\<bar>g - f * 100\<bar> \<le> 1 / 8" using assms(1-4) by linarith+
  then have gn: "\<bar>g - n\<bar> \<le> 1 / 4" by linarith
  then have "g \<le> 562949953421313" using assms(2) by linarith
  then have "(g + 1 / 2) / 9007199254740992 < 1 / 8" by simp
  then have "\<bar>h - (g + 1 / 2)\<bar> < 1 / 8" using assms(5) by linarith
  with gn show "n \<le> h" "h < n + 1" by linarith+
qed

lemma near: "0 \<le> x \<Longrightarrow> \<bar>round53 x - x\<bar> \<le> x / 9007199254740992"
  using round53_near [of x] by simp

lemma yuan_text_cents:
  assumes "0 \<le> sint fen" "sint fen < 562949953421312"
  shows "yuan_text fen = cents_text (nat (sint fen))"
proof -
  define i where "i = sint fen"
  define n :: rat where "n = of_int i"
  have n: "0 \<le> n" "n < 562949953421312" using assms unfolding n_def i_def [symmetric] by simp_all
  define a where "a = round53 n"
  define d where "d = round53 (a / 100)"
  have a: "\<bar>a - n\<bar> \<le> n / 9007199254740992" using n near by (simp add: a_def)
  then have "0 \<le> a" using n by linarith
  then have d: "\<bar>d - a / 100\<bar> \<le> a / 100 / 9007199254740992" using near [of "a / 100"] unfolding d_def by linarith
  note e = format_error [OF n a d]
  have "round_even (\<bar>d\<bar> * 100) = i"
    by (rule round_even_unique) (use e in \<open>simp add: n_def [symmetric] abs_of_nonneg\<close>)
  moreover have "\<not> d < 0" using e by simp
  ultimately show ?thesis
    unfolding yuan_text_def i_def [symmetric] n_def [symmetric] a_def [symmetric] d_def [symmetric] cents_text_def Let_def by simp
qed

lemma parse_amount_cents:
  assumes "n < 562949953421312"
  shows "parseAmountYuanToFen other (cents_text n) = (word_of_nat n, None)"
proof -
  define x :: rat where "x = of_nat n"
  have x: "0 \<le> x" "x < 562949953421312" using assms unfolding x_def by simp_all
  define f where "f = round53 (x / 100)"
  define g where "g = round53 (f * 100)"
  define h where "h = round53 (g + 1 / 2)"
  have f: "\<bar>f - x / 100\<bar> \<le> x / 100 / 9007199254740992" using x near [of "x / 100"] unfolding f_def by linarith
  then have "0 \<le> f" using x by linarith
  then have g: "\<bar>g - f * 100\<bar> \<le> f * 100 / 9007199254740992" using near [of "f * 100"] unfolding g_def by linarith
  then have "0 \<le> g" using \<open>0 \<le> f\<close> by linarith
  then have h: "\<bar>h - (g + 1 / 2)\<bar> \<le> (g + 1 / 2) / 9007199254740992" using near [of "g + 1 / 2"] unfolding h_def by linarith
  note e = parse_error [OF x f g h]
  have "\<lfloor>h\<rfloor> = int n" by (rule floor_unique) (use e in \<open>simp_all add: x_def\<close>)
  moreover have "0 \<le> h" using e x by linarith
  moreover have "cents_text n \<noteq> []" by (simp add: cents_text_def)
  ultimately show ?thesis
    unfolding parseAmountYuanToFen_def ParseFloat_def parse_cents x_def [symmetric]
    by (simp add: f_def [symmetric] g_def [symmetric] h_def [symmetric] truncate_i64_def)
qed

text \<open>C17: The amount of an Alipay request comes back as the same number of fen: for every amount from 0 below 2^49 fen, the text
  the channel writes, through two roundings, is parsed to that amount, through three more.\<close>

theorem alipay_amount_roundtrip:
  assumes "0 \<le> sint fen" and "sint fen < 2 ^ 49"
  shows "parseAmountYuanToFen other (yuan_text fen) = (fen, None)"
proof -
  have "word_of_nat (nat (sint fen)) = fen" using assms(1) by (simp add: of_nat_nat)
  moreover have "nat (sint fen) < 562949953421312" using assms by (simp add: nat_less_iff)
  ultimately show ?thesis using assms by (simp add: yuan_text_cents parse_amount_cents)
qed

theorem alipay_amount_roundtrip_witness:
  "parseAmountYuanToFen (\<lambda>_. Inl (Plain ''syntax'')) (yuan_text 1999) = (1999, None)"
  by (rule alipay_amount_roundtrip) simp_all

end
