(* ===== verification/PayProps.thy ===== *)
theory PayProps
  imports PayHttp PayAmounts
begin

text \<open>
  What the payment channels and their handlers guarantee, and what they do not: nonces, signatures and certificates on
  one side; known keys, replays and comparisons that compare nothing on the other.
\<close>

section \<open>Nonces\<close>

text \<open>A sequence of notifications to one channel, each with the clock, the body and the headers.\<close>

type_synonym notice = "i64 \<times> string \<times> (string \<Rightarrow> string)"

fun notify_run ::
  "(i64 \<Rightarrow> string \<Rightarrow> (string \<Rightarrow> string) \<Rightarrow> chan_state \<Rightarrow> (go_error, webhook_event, chan_state) outcome) \<Rightarrow> notice list \<Rightarrow> chan_state \<Rightarrow>
     (go_error + webhook_event) list" where
  "notify_run ver [] st = []"
| "notify_run ver ((now, raw, h) # ns) st = (let (r, st') = ver now raw h st in r # notify_run ver ns st')"

definition accepted_nonces :: "string \<Rightarrow> notice list \<Rightarrow> (go_error + webhook_event) list \<Rightarrow> string list" where
  "accepted_nonces name ns rs = map (\<lambda>((now, raw, h), r). h name) (filter (\<lambda>(n, r). is_ok r) (zip ns rs))"

text \<open>A verifier that records the nonce of what it accepts and refuses a recorded one.\<close>

definition guards_nonce ::
  "string \<Rightarrow> (i64 \<Rightarrow> string \<Rightarrow> (string \<Rightarrow> string) \<Rightarrow> chan_state \<Rightarrow> (go_error, webhook_event, chan_state) outcome) \<Rightarrow> bool" where
  "guards_nonce name ver \<longleftrightarrow> (\<forall>now raw h st.
     dom (cn_nonces st) \<subseteq> dom (cn_nonces (snd (ver now raw h st))) \<and>
     (is_ok (fst (ver now raw h st)) \<longrightarrow> h name \<notin> dom (cn_nonces st) \<and> h name \<in> dom (cn_nonces (snd (ver now raw h st)))))"

lemma nonces_distinct:
  assumes "guards_nonce name ver"
  shows "distinct (accepted_nonces name ns (notify_run ver ns st)) \<and>
    set (accepted_nonces name ns (notify_run ver ns st)) \<inter> dom (cn_nonces st) = {}"
proof (induction ns arbitrary: st)
  case Nil
  then show ?case by (simp add: accepted_nonces_def)
next
  case (Cons n ns)
  obtain now raw h where n: "n = (now, raw, h)" by (cases n)
  obtain r st' where v: "ver now raw h st = (r, st')" by (cases "ver now raw h st")
  have grow: "dom (cn_nonces st) \<subseteq> dom (cn_nonces st')"
    and new: "is_ok r \<Longrightarrow> h name \<notin> dom (cn_nonces st) \<and> h name \<in> dom (cn_nonces st')"
    using assms v unfolding guards_nonce_def by (metis fst_conv snd_conv)+
  have "accepted_nonces name (n # ns) (notify_run ver (n # ns) st) =
      (if is_ok r then [h name] else []) @ accepted_nonces name ns (notify_run ver ns st')"
    by (simp add: n v accepted_nonces_def)
  then show ?case using Cons.IH [of st'] grow new by auto
qed

lemma use_nonce_Some: "use_nonce n t st = Some st' \<Longrightarrow> n \<notin> dom (cn_nonces st) \<and> dom (cn_nonces st') = insert n (dom (cn_nonces st))"
  by (auto simp: use_nonce_def split: if_splits)

lemma set_order_status_nonces [simp]: "cn_nonces (set_order_status i s st) = cn_nonces st"
  by (simp add: set_order_status_def)

lemma mock_guards: "guards_nonce ''X-Yunmao-Pay-Nonce'' (mock_verify lib c)"
  by (auto simp: guards_nonce_def mock_verify_def Let_def dest!: use_nonce_Some split: option.splits sum.splits)

lemma wechat_guards: "guards_nonce ''Wechatpay-Nonce'' (wechat_verify lib w)"
  by (auto simp: guards_nonce_def wechat_verify_def Let_def dest!: use_nonce_Some split: option.splits sum.splits)

lemma apple_guards: "guards_nonce ''X-Apple-Nonce'' (apple_verify_mock lib c)"
  by (auto simp: guards_nonce_def apple_verify_mock_def Let_def dest!: use_nonce_Some split: option.splits sum.splits)

text \<open>C15: Over any sequence of notifications, at any times, no nonce is accepted twice: not by the mock channel, not by WeChat in
  either mode, not by Apple in mock mode.\<close>

theorem nonce_accepted_once:
  "distinct (accepted_nonces ''X-Yunmao-Pay-Nonce'' ns (notify_run (mock_verify lib mc) ns st)) \<and>
   distinct (accepted_nonces ''Wechatpay-Nonce'' ns (notify_run (wechat_verify lib w) ns st)) \<and>
   distinct (accepted_nonces ''X-Apple-Nonce'' ns (notify_run (apple_verify_mock lib ac) ns st))"
  using nonces_distinct [OF mock_guards] nonces_distinct [OF wechat_guards] nonces_distinct [OF apple_guards] by blast

section \<open>The window of the time stamps\<close>

text \<open>The check of the time stamp is the one it means to be wherever the difference fits into 64 bits, and wrong at one
  time stamp: 2^63 seconds before the clock passes every window.\<close>

theorem window_check:
  "(- (2 ^ 63) < sint now - sint ts \<and> sint now - sint ts < 2 ^ 63 \<longrightarrow> (outside_window now ts w \<longleftrightarrow> sint w < \<bar>sint now - sint ts\<bar>)) \<and>
   (0 \<le> sint w \<longrightarrow> \<not> outside_window now (now - word_of_int (2 ^ 63)) w)"
proof (intro conjI impI)
  assume b: "- (2 ^ 63) < sint now - sint ts \<and> sint now - sint ts < 2 ^ 63"
  then have d: "sint (now - ts) = sint now - sint ts" by (intro sint_sub_i64) simp_all
  then have m: "sint (0 - (now - ts)) = 0 - (sint now - sint ts)"
    using b by (subst sint_sub_i64) (simp_all add: d)
  show "outside_window now ts w \<longleftrightarrow> sint w < \<bar>sint now - sint ts\<bar>"
    using d m by (simp add: outside_window_def abs64_def)
next
  assume "0 \<le> sint w"
  moreover have "now - (now - word_of_int (2 ^ 63)) = (word_of_int (2 ^ 63) :: i64)" by simp
  moreover have "abs64 (word_of_int (2 ^ 63)) = word_of_int (2 ^ 63)" "sint (word_of_int (2 ^ 63) :: i64) = - (2 ^ 63)"
    by (simp_all add: abs64_def)
  ultimately show "\<not> outside_window now (now - word_of_int (2 ^ 63)) w" by (simp only: outside_window_def) simp
qed

theorem window_check_witness: "outside_window 1000 600 300 \<and> \<not> outside_window 1000 800 300"
  using window_check [of 1000 600 300] window_check [of 1000 800 300] by simp

section \<open>Known keys\<close>

lemma mock_verify_accepts:
  assumes "headers ''X-Yunmao-Pay-Ts'' = dec_int (sint now)" and "headers ''X-Yunmao-Pay-Nonce'' = nonce" and "nonce \<noteq> []"
    and "headers ''X-Yunmao-Pay-Sig'' = mock_sign lib (mk_secret c) raw (dec_int (sint now)) nonce"
    and "mock_sign lib (mk_secret c) raw (dec_int (sint now)) nonce \<noteq> []" and "0 \<le> sint (mk_window c)"
    and "cn_nonces st nonce = None" and "read_with read_mock_body (read_with as_object (pl_parse lib raw)) = Inr b"
  shows "\<exists>st'. mock_verify lib c now raw headers st =
    (Inr \<lparr>we_channel = ''mock'', we_order = mb_order b, we_trade = mb_trade b, we_amount = mb_amount b, we_status = mb_status b, we_at = now\<rparr>, st')"
proof -
  have p: "parse_int64 (dec_int (sint now)) = Some (sint now)"
    using sint_range_i64 [of now] by (intro parse_int64_dec_int) simp_all
  have w: "\<not> outside_window now now (mk_window c)" using assms(6) by (simp add: outside_window_def abs64_def)
  have "dec_int (sint now) \<noteq> []" by (simp add: dec_int_def)
  then show ?thesis using assms p w by (simp add: mock_verify_def Let_def use_nonce_def)
qed

text \<open>A server with the default secret and one order, for the witnesses; the text of a body is taken for what it says.\<close>

definition demo_pay_lib :: "(unit, unit) pay_lib" where
  "demo_pay_lib =
     \<lparr>pl_hmac = (\<lambda>key msg. key @ msg), pl_pem = Some, pl_pkcs1 = (\<lambda>_. Some ()), pl_pkcs8 = (\<lambda>_. Inr None), pl_pkix = (\<lambda>_. Some ()),
      pl_cert = (\<lambda>_. Inr None), pl_sign = (\<lambda>_ m. Inr m), pl_verify = (\<lambda>_ m sig. None), pl_enc64 = id, pl_dec64 = Inr,
      pl_gcm_open = (\<lambda>_ _ c _. Inr c), pl_print = (\<lambda>_. []),
      pl_parse = (\<lambda>raw. Inr (JObj [(''order_id'', JStr raw), (''amount_fen'', JInt 1), (''status'', JStr ''paid'')]))\<rparr>"

definition demo_apple_lib :: "unit apple_lib" where
  "demo_apple_lib =
     \<lparr>ap_cert = (\<lambda>_. Inr ()), ap_chain = (\<lambda>_ _ _. None), ap_ecdsa = (\<lambda>_. True), ap_verify = (\<lambda>_ _ _. True), ap_raw64 = Inr, ap_std64 = Inr,
      ap_parse = (\<lambda>raw. Inr (if raw = ''h'' then JObj [(''alg'', JStr ''ES256''), (''x5c'', JStrs [''leaf''])]
                       else JObj [(''signedPayload'', JStr (''h.'' @ raw @ ''.'' @ replicate 64 CHR ''s'')),
                                  (''data'', JObj [(''bundleId'', JStr ''live.cats'')])]))\<rparr>"

definition demo_deps :: pay_deps where
  "demo_deps =
     \<lparr>pd_secret = [], pd_wechat = \<lparr>wc_mch = [], wc_key = [], wc_serial = [], wc_notify = [], wc_client_key = [], wc_platform = [], wc_sandbox = [], wc_mock = True\<rparr>,
      pd_alipay = \<lparr>ac_app = [], ac_private = [], ac_public = [], ac_notify = [], ac_sandbox = [], ac_mock = True\<rparr>,
      pd_apple = \<lparr>ai_bundle = ''live.cats'', ai_app = [], ai_secret = [], ai_mock = False, ai_roots = []\<rparr>,
      pd_on_wechat = False, pd_on_alipay = False, pd_on_apple = True\<rparr>"

definition demo_float :: "string \<Rightarrow> go_error + rat" where
  "demo_float _ = Inl (Plain ''syntax'')"

definition demo_form :: "string \<Rightarrow> go_error + (string \<times> string) list" where
  "demo_form raw = Inr [(''out_trade_no'', raw), (''trade_status'', ''TRADE_SUCCESS''), (''total_amount'', ''1.00''), (''sign'', ''s'')]"

definition demo_order :: order where
  "demo_order = \<lparr>o_id = ''ord_1'', o_user = ''u'', o_channel = ''mock'', o_biz = ''feed'', o_amount = 88, o_status = ''created'', o_idem = ''k'',
     o_region = ''cn'', o_created = 0, o_updated = 0, o_paid_at = 0, o_refunded_at = 0\<rparr>"

definition demo_store :: bmem where
  "demo_store = bmem_new\<lparr>bm_orders := [''ord_1'' \<mapsto> demo_order]\<rparr>"

definition pay_fresh :: fresh where
  "pay_fresh = \<lparr>fr_id = ''e'', fr_uuid = ''u'', fr_now = 0, fr_event_now = 0\<rparr>"

definition demo_registry :: registry where
  "demo_registry = the (pay_registry demo_pay_lib demo_form demo_float demo_apple_lib demo_deps)"

lemma demo_registry: "pay_registry demo_pay_lib demo_form demo_float demo_apple_lib demo_deps = Some demo_registry"
  by (simp add: demo_registry_def pay_registry_def with_channel_def demo_deps_def NewAppleIAPChannel_def apple_defaults_def Let_def)

text \<open>The answer and the order after a notification of a payment.\<close>

lemma webhook_paid:
  assumes "fst st ch = Some (c, cs)" and "length raw \<le> max_webhook" and "pc_verify c now raw headers cs = (Inr ev, cs')"
    and "we_status ev = ''paid''" and "bm_orders (snd st) (we_order ev) = Some ord" and "o_status ord \<noteq> ''paid''"
  shows "fst (http_webhook bmem_ops src now fr ch raw headers st) = EventAnswer True [] ev \<and>
    map_option o_status (bm_orders (snd (snd (http_webhook bmem_ops src now fr ch raw headers st))) (we_order ev)) = Some ''paid''"
  using assms
  by (simp add: http_webhook_def reg_get_def svc_mark_paid_def bmem_ops_def bmem_mark_paid_def Let_def)

lemma registered_mock:
  assumes "pay_registry lib query float alib d = Some reg"
  shows "reg ''mock'' = Some (mock_channel lib \<lparr>mk_secret = pd_secret d, mk_window = 0\<rparr>, chan_new)"
  using assms
  by (auto simp: pay_registry_def with_channel_def reg_register_def mock_channel_def wechat_channel_def alipay_channel_def apple_channel_def
      split: if_splits sum.splits)

text \<open>The headers of a notification signed with the default key of the source.\<close>

definition forged_headers :: "('q, 'p) pay_lib \<Rightarrow> i64 \<Rightarrow> string \<Rightarrow> string \<Rightarrow> string \<Rightarrow> string" where
  "forged_headers lib now nonce raw k =
     (if k = ''X-Yunmao-Pay-Ts'' then dec_int (sint now) else if k = ''X-Yunmao-Pay-Nonce'' then nonce
      else if k = ''X-Yunmao-Pay-Sig'' then mock_sign lib ''mock-secret'' raw (dec_int (sint now)) nonce else [])"

text \<open>C13: On a server without \<open>PayMockSecret\<close>, whatever the other channels, anyone who knows an order marks it paid: one request
  to the webhook of the channel \<open>mock\<close>, signed with the key that is in the source, whose body names the order and any amount at
  all.\<close>

theorem mock_webhook_forged:
  assumes "pay_registry lib query float alib d = Some reg" and "pd_secret d = []"
    and "pl_parse lib raw = Inr (JObj [(''order_id'', JStr i), (''amount_fen'', JInt amount), (''status'', JStr ''paid'')])"
    and "- (2 ^ 63) \<le> amount" and "amount < 2 ^ 63" and "length raw \<le> max_webhook" and "nonce \<noteq> []"
    and "mock_sign lib ''mock-secret'' raw (dec_int (sint now)) nonce \<noteq> []"
    and "bm_orders s i = Some ord" and "o_status ord \<noteq> ''paid''"
  shows "map_option o_status
    (bm_orders (snd (snd (http_webhook bmem_ops src now fr ''mock'' raw (forged_headers lib now nonce raw) (reg, s)))) i) = Some ''paid''"
proof -
  let ?c = "NewMockChannel \<lparr>mk_secret = pd_secret d, mk_window = 0\<rparr>"
  have c: "mk_secret ?c = ''mock-secret''" "0 \<le> sint (mk_window ?c)" using assms(2) by (simp_all add: NewMockChannel_def)
  have b: "read_with read_mock_body (read_with as_object (pl_parse lib raw)) =
      Inr \<lparr>mb_order = i, mb_trade = [], mb_amount = word_of_int amount, mb_status = ''paid''\<rparr>"
    using assms(3-5) by (simp add: read_mock_body_def as_object_def as_string_def as_i64_def same_key_def)
  have "forged_headers lib now nonce raw ''X-Yunmao-Pay-Ts'' = dec_int (sint now)"
    "forged_headers lib now nonce raw ''X-Yunmao-Pay-Nonce'' = nonce"
    "forged_headers lib now nonce raw ''X-Yunmao-Pay-Sig'' = mock_sign lib (mk_secret ?c) raw (dec_int (sint now)) nonce"
    by (simp_all add: forged_headers_def c(1))
  from mock_verify_accepts [OF this(1,2) assms(7) this(3) _ c(2) _ b, of chan_new]
  obtain cs' where v: "mock_verify lib ?c now raw (forged_headers lib now nonce raw) chan_new =
      (Inr \<lparr>we_channel = ''mock'', we_order = i, we_trade = [], we_amount = word_of_int amount, we_status = ''paid'', we_at = now\<rparr>, cs')"
    using assms(8) by (auto simp: c(1) chan_new_def)
  have "fst (reg, s) ''mock'' = Some (mock_channel lib \<lparr>mk_secret = pd_secret d, mk_window = 0\<rparr>, chan_new)"
    using registered_mock [OF assms(1)] by simp
  moreover have "pc_verify (mock_channel lib \<lparr>mk_secret = pd_secret d, mk_window = 0\<rparr>) now raw (forged_headers lib now nonce raw) chan_new =
      (Inr \<lparr>we_channel = ''mock'', we_order = i, we_trade = [], we_amount = word_of_int amount, we_status = ''paid'', we_at = now\<rparr>, cs')"
    using v by (simp add: mock_channel_def)
  ultimately show ?thesis using webhook_paid [OF _ assms(6)] assms(9,10) by fastforce
qed

theorem mock_webhook_forged_witness:
  "map_option o_status
    (bm_orders (snd (snd (http_webhook bmem_ops ''b'' 1000 pay_fresh ''mock'' ''ord_1'' (forged_headers demo_pay_lib 1000 ''n'' ''ord_1'')
       (demo_registry, demo_store)))) ''ord_1'') = Some ''paid''"
proof -
  have "bm_orders demo_store ''ord_1'' = Some demo_order" "o_status demo_order \<noteq> ''paid''" by (simp_all add: demo_store_def demo_order_def)
  note f = mock_webhook_forged [where amount = 1 and raw = "''ord_1''" and i = "''ord_1''" and nonce = "''n''" and now = 1000
    and fr = pay_fresh and src = "''b''", OF demo_registry _ _ _ _ _ _ _ this]
  show ?thesis by (rule f) (simp_all add: demo_deps_def demo_pay_lib_def max_webhook_def mock_sign_def)
qed

text \<open>Alipay with an application and a private key but no public key: the report calls it real and its missing key optional,
  while the channel runs in mock mode, where the key is the identifier of the application.\<close>

theorem alipay_reported_real_is_mock:
  assumes "\<not> ac_mock c" and "ac_app c \<noteq> []" and "ac_private c \<noteq> []" and "ac_public c = []"
  shows "HasRealMode (CheckAlipayCredentials c) \<and> list_all (\<lambda>k. cc_status k \<noteq> CredMissing) (CheckAlipayCredentials c) \<and>
    (\<exists>a. NewAlipayChannel lib query float c = Inr a \<and> \<not> pc_real (alipay_channel lib a) \<and> alipay_mock_key (al_config a) = ac_app c)"
  using assms
  by (simp add: CheckAlipayCredentials_def HasRealMode_def presence_def sandbox_check_def NewAlipayChannel_def alipay_defaults_def
      alipay_channel_def alipay_mock_key_def Let_def)

theorem alipay_reported_real_is_mock_witness:
  "HasRealMode (CheckAlipayCredentials
     \<lparr>ac_app = ''2021'', ac_private = ''pem'', ac_public = [], ac_notify = [], ac_sandbox = [], ac_mock = False\<rparr>)"
  using alipay_reported_real_is_mock [of "\<lparr>ac_app = ''2021'', ac_private = ''pem'', ac_public = [], ac_notify = [], ac_sandbox = [], ac_mock = False\<rparr>"
    demo_pay_lib demo_form demo_float] by simp

section \<open>Replays\<close>

text \<open>Signed Alipay notifications carry no nonce, and a missing time stamp is taken from the clock: a notification that was
  accepted once is accepted at every later time and in every state.\<close>

lemma alipay_now:
  assumes "headers ''Alipay-Timestamp'' = []" and "\<not> ac_mock (al_config a)"
  shows "alipay_verify lib a now raw headers st = alipay_form_verify lib a now raw st"
proof -
  have "parse_int64 (dec_int (sint now)) = Some (sint now)"
    using sint_range_i64 [of now] by (intro parse_int64_dec_int) simp_all
  then show ?thesis using assms by (simp add: alipay_verify_def outside_window_def abs64_def Let_def)
qed

lemma alipay_form_state:
  assumes "alipay_form_verify lib a t raw st = (Inr ev, st')"
  shows "\<exists>st''. alipay_form_verify lib a t2 raw st2 = (Inr (ev\<lparr>we_at := t2\<rparr>), st'')"
  using assms by (auto simp: alipay_form_verify_def alipay_event_def split: sum.splits if_splits option.splits)

lemma refund_order:
  assumes "reg ch = Some (c, cs)" and "bm_orders s i = Some ord"
  shows "fst (snd (http_channel_refund bmem_ops src fr ch i body (reg, s))) = reg"
    and "map_option o_status (bm_orders (snd (snd (http_channel_refund bmem_ops src fr ch i body (reg, s)))) i) = Some ''refunded''"
  using assms
  by (simp_all add: http_channel_refund_def reg_get_def svc_get_def svc_refund_def bmem_ops_def bmem_get_order_def bmem_refund_def Let_def)

text \<open>C14: An Alipay order that was paid and refunded is paid again by a repetition of the notification of its payment: whoever
  holds that request, the provider included, undoes the refund in the books.\<close>

theorem replay_undoes_refund:
  assumes "\<not> ac_mock (al_config a)" and "headers ''Alipay-Timestamp'' = []" and "length raw \<le> max_webhook"
    and "alipay_verify lib a now raw headers cs = (Inr ev, cs')" and "we_status ev = ''paid''"
    and "reg ''alipay'' = Some (alipay_channel lib a, cs'')" and "bm_orders s (we_order ev) = Some ord"
    and "refunded = snd (http_channel_refund bmem_ops src fr ''alipay'' (we_order ev) body (reg, s))"
  shows "map_option o_status (bm_orders (snd refunded) (we_order ev)) = Some ''refunded'' \<and>
    map_option o_status (bm_orders (snd (snd (http_webhook bmem_ops src later fr' ''alipay'' raw headers refunded))) (we_order ev)) = Some ''paid''"
proof -
  note r = refund_order [where reg = reg and ch = "''alipay''" and s = s and i = "we_order ev" and src = src and fr = fr and body = body,
    OF assms(6,7), folded assms(8)]
  obtain st'' where v: "pc_verify (alipay_channel lib a) later raw headers cs'' = (Inr (ev\<lparr>we_at := later\<rparr>), st'')"
    using alipay_form_state [of lib a now raw cs ev cs' later cs''] assms(1,2,4) by (auto simp: alipay_now alipay_channel_def)
  obtain ord' where ord': "bm_orders (snd refunded) (we_order ev) = Some ord'" "o_status ord' = ''refunded''" using r(2) by auto
  have "fst refunded ''alipay'' = Some (alipay_channel lib a, cs'')" using r(1) assms(6) by simp
  with webhook_paid [OF this assms(3) v, of ord' src fr'] show ?thesis using r(2) ord' assms(5) by simp
qed

definition demo_alipay :: "(unit, unit) alipay" where
  "demo_alipay = \<lparr>al_config = \<lparr>ac_app = ''2021'', ac_private = ''pem'', ac_public = ''pem'', ac_notify = [], ac_sandbox = [], ac_mock = False\<rparr>,
     al_priv = Some (), al_pub = Some (), al_query = demo_form, al_float = demo_float\<rparr>"

theorem replay_undoes_refund_witness:
  "\<exists>ev cs'. alipay_verify demo_pay_lib demo_alipay 1000 ''ord_1'' (\<lambda>_. []) chan_new = (Inr ev, cs') \<and>
     map_option o_status (bm_orders (snd (snd (http_webhook bmem_ops ''b'' 2000 pay_fresh ''alipay'' ''ord_1'' (\<lambda>_. [])
       (snd (http_channel_refund bmem_ops ''b'' pay_fresh ''alipay'' (we_order ev)
          \<lparr>rq_order = [], rq_trade = [], rq_amount = 0, rq_reason = []\<rparr> ([''alipay'' \<mapsto> (alipay_channel demo_pay_lib demo_alipay, cs')], demo_store))))))
       (we_order ev)) = Some ''paid''"
proof -
  let ?h = "\<lambda>_ :: string. [] :: string"
  let ?amount = "fst (parseAmountYuanToFen demo_float ''1.00'')"
  let ?ev = "\<lparr>we_channel = ''alipay'', we_order = ''ord_1'', we_trade = [], we_amount = ?amount, we_status = ''paid'', we_at = 1000\<rparr>"
  let ?cs = "set_order_status ''ord_1'' ''paid'' chan_new"
  have v: "alipay_verify demo_pay_lib demo_alipay 1000 ''ord_1'' ?h chan_new = (Inr ?ev, ?cs)"
    by (simp add: alipay_now demo_alipay_def alipay_form_verify_def demo_form_def form_get_def alipayVerify_def demo_pay_lib_def
      alipay_event_def mapAlipayStatus_def)
  have "bm_orders demo_store (we_order ?ev) = Some demo_order" by (simp add: demo_store_def)
  from replay_undoes_refund [where reg = "[''alipay'' \<mapsto> (alipay_channel demo_pay_lib demo_alipay, ?cs)]" and fr' = pay_fresh and later = 2000
      and src = "''b''" and fr = pay_fresh and body = "\<lparr>rq_order = [], rq_trade = [], rq_amount = 0, rq_reason = []\<rparr>",
      OF _ _ _ v _ _ this refl]
  show ?thesis using v by (intro exI [of _ ?ev] exI [of _ ?cs]) (simp add: demo_alipay_def max_webhook_def)
qed

end
