(* ===== verification/PayChecks.thy ===== *)
theory PayChecks
  imports PayProps
begin

text \<open>
  What an accepted Apple notification carries, and what the reconciliation compares.
\<close>

section \<open>Apple\<close>

lemma read_with_ok: "read_with f r = Inr x \<longleftrightarrow> (\<exists>a. r = Inr a \<and> f a = Inr x)"
  by (cases r) (auto simp: read_with_def)

lemma wrapped_ok [simp]: "wrapped what r = Inr x \<longleftrightarrow> r = Inr x"
  by (cases r) (auto simp: wrapped_def)

text \<open>Three parts; a header with ES256 and a certificate; 64 bytes that are the signature of header and payload under the
  key of this certificate; and a chain to the roots, where there are any.\<close>

definition jws_verified :: "'c apple_lib \<Rightarrow> 'c list option \<Rightarrow> string \<Rightarrow> string \<Rightarrow> bool" where
  "jws_verified lib roots jws payload \<longleftrightarrow> (\<exists>h p s t fs l rest der leaf sig.
     split_dots [] jws = [h, p, s] \<and> ap_raw64 lib h = Inr t \<and> read_with as_object (ap_parse lib t) = Inr fs \<and>
     read_jws_header fs = Inr (''ES256'', l # rest) \<and> ap_std64 lib l = Inr der \<and> ap_cert lib der = Inr leaf \<and>
     (\<forall>rs. roots = Some rs \<longrightarrow> (\<exists>cs. length cs = length rest \<and> ap_chain lib rs cs leaf = None)) \<and>
     ap_ecdsa lib leaf \<and> ap_raw64 lib s = Inr sig \<and> length sig = 64 \<and> ap_verify lib leaf (h @ ''.'' @ p) sig \<and>
     ap_raw64 lib p = Inr payload)"

lemma parse_certs_length: "parse_certs p wrap n ds = Inr cs \<Longrightarrow> length cs = length ds"
  by (induction ds arbitrary: n cs) (auto split: sum.splits)

lemma check_chain_ok:
  assumes "check_chain lib roots x5c leaf = Inr u" and "roots = Some rs"
  shows "\<exists>cs. length cs = length x5c \<and> ap_chain lib rs cs leaf = None"
  using assms by (auto simp: check_chain_def split: sum.splits option.splits dest: parse_certs_length)

lemma check_signature_ok:
  "check_signature lib leaf m sig = Inr u \<longleftrightarrow>
     ap_ecdsa lib leaf \<and> (\<exists>bytes. ap_raw64 lib sig = Inr bytes \<and> length bytes = 64 \<and> ap_verify lib leaf m bytes)"
  by (auto simp: check_signature_def read_with_ok)

lemma jws_accepted:
  assumes "decodeAndVerifyAppleJWS lib jws roots = Inr payload"
  shows "jws_verified lib roots jws payload"
proof -
  obtain h p s where parts: "split_dots [] jws = [h, p, s]"
    using assms by (auto simp: decodeAndVerifyAppleJWS_def split: list.splits)
  then obtain alg x5c t fs where hdr: "ap_raw64 lib h = Inr t" "read_with as_object (ap_parse lib t) = Inr fs" "read_jws_header fs = Inr (alg, x5c)"
    and alg: "alg = ''ES256''" and rest: "x5c \<noteq> []"
    using assms by (auto simp: decodeAndVerifyAppleJWS_def read_with_ok split: if_splits list.splits)
  then obtain l rest' where x: "x5c = l # rest'" by (cases x5c) auto
  obtain der leaf where leaf: "ap_std64 lib l = Inr der" "ap_cert lib der = Inr leaf"
    and chain: "check_chain lib roots rest' leaf = Inr ()" and sig: "check_signature lib leaf (h @ ''.'' @ p) s = Inr ()"
    and pay: "ap_raw64 lib p = Inr payload"
    using assms hdr by (auto simp: decodeAndVerifyAppleJWS_def parts read_with_ok alg x)
  have "\<exists>cs. length cs = length rest' \<and> ap_chain lib rs cs leaf = None" if "roots = Some rs" for rs
    using check_chain_ok [OF chain that] .
  moreover obtain bytes where "ap_ecdsa lib leaf" "ap_raw64 lib s = Inr bytes" "length bytes = 64" "ap_verify lib leaf (h @ ''.'' @ p) bytes"
    using sig by (auto simp: check_signature_ok)
  ultimately show ?thesis
    unfolding jws_verified_def using parts hdr leaf pay by (auto simp: alg x)
qed

lemma apple_transaction_order:
  assumes "apple_transaction lib a jws = (i, orig, price)" and "orig \<noteq> []"
  shows "\<exists>t. jws_verified lib (ax_roots a) jws t"
  using assms
  by (auto simp: apple_transaction_def read_with_ok split: if_splits sum.splits dest!: jws_accepted)

text \<open>C16: With Apple in real mode an accepted notification is one whose payload is signed, and names this application; an event that names an order
  has a signed transaction too.  Without configured roots the certificate of the signature is anyone's.\<close>

theorem apple_event_verified:
  assumes "\<not> ai_mock (ax_config a)" and "apple_verify lib alib a now raw headers st = (Inr ev, st')"
  shows "(\<exists>fs payload t n. read_with as_object (ap_parse alib raw) = Inr fs \<and> as_string (field ''signedPayload'' fs) = Inr payload \<and>
      jws_verified alib (ax_roots a) payload t \<and> read_with read_apple_notice (read_with as_object (ap_parse alib t)) = Inr n \<and>
      yn_bundle n = ai_bundle (ax_config a) \<and> we_status ev = mapAppleStatus (yn_type n) \<and>
      (we_order ev \<noteq> [] \<longrightarrow> (\<exists>t'. jws_verified alib (ax_roots a) (yn_tx n) t')))"
proof -
  obtain n where claims: "apple_claims alib a raw = Inr n" and own: "yn_bundle n = ai_bundle (ax_config a)"
    and ev: "we_status ev = mapAppleStatus (yn_type n)" "we_order ev = fst (snd (apple_transaction alib a (yn_tx n)))"
    using assms by (auto simp: apple_verify_def apple_verify_jws_def split: sum.splits if_splits prod.splits)
  obtain fs payload t where "read_with as_object (ap_parse alib raw) = Inr fs" "as_string (field ''signedPayload'' fs) = Inr payload"
    "decodeAndVerifyAppleJWS alib payload (ax_roots a) = Inr t" "read_with read_apple_notice (read_with as_object (ap_parse alib t)) = Inr n"
    using claims by (auto simp: apple_claims_def read_with_ok split: if_splits)
  moreover have "\<exists>t'. jws_verified alib (ax_roots a) (yn_tx n) t'" if "we_order ev \<noteq> []"
    using that ev(2) apple_transaction_order [of alib a "yn_tx n"] by (cases "apple_transaction alib a (yn_tx n)") auto
  ultimately show ?thesis using own ev(1) by (blast dest: jws_accepted)
qed

section \<open>Reconciliation\<close>

definition record_of :: "string \<Rightarrow> registry \<Rightarrow> local_order \<times> time \<Rightarrow> reconcile_record list" where
  "record_of run reg lot =
     (case reg (lo_channel (fst lot)) of
        None \<Rightarrow> []
      | Some (c, st) \<Rightarrow>
          let lo = fst lot; q = pc_query c (lo_id lo) st
          in [\<lparr>rc_run = run, rc_channel = lo_channel lo, rc_order = lo_id lo, rc_trade = [], rc_local_status = lo_status lo,
               rc_remote_status = qr_status q, rc_local_amount = lo_amount lo, rc_remote_amount = qr_amount q,
               rc_diff = diff_reason lo (qr_status q) (qr_amount q), rc_created = snd lot\<rparr>])"

lemma reconcile_fold:
  "fold (reconcile_order run reg) xs s =
     s\<lparr>sk_records := sk_records s @ concat (map (record_of run reg) xs),
       sk_diffs := sk_diffs s @ filter (\<lambda>r. rc_diff r \<noteq> []) (concat (map (record_of run reg) xs))\<rparr>"
proof (induction xs arbitrary: s)
  case Nil
  then show ?case by simp
next
  case (Cons x xs)
  have "reconcile_order run reg x s =
      s\<lparr>sk_records := sk_records s @ record_of run reg x, sk_diffs := sk_diffs s @ filter (\<lambda>r. rc_diff r \<noteq> []) (record_of run reg x)\<rparr>"
    by (cases s; cases x)
      (auto simp: reconcile_order_def record_of_def reg_get_def WriteRecord_def EmitDiff_def Let_def split: option.splits)
  then show ?case by (simp add: Cons.IH)
qed

text \<open>The four channels, whatever their configuration, answer a query from their own memory, without an amount.\<close>

definition from_memory :: "registry \<Rightarrow> bool" where
  "from_memory reg \<longleftrightarrow> (\<forall>ch c st. reg ch = Some (c, st) \<longrightarrow>
     (\<forall>i st. qr_amount (pc_query c i st) = 0 \<and> qr_status (pc_query c i st) = pay_last_status i st))"

lemma from_memory_register:
  assumes "from_memory reg" and "\<And>i st. qr_amount (pc_query c i st) = 0 \<and> qr_status (pc_query c i st) = pay_last_status i st"
  shows "from_memory (reg_register c reg)"
  using assms by (auto simp: from_memory_def reg_register_def)

lemma from_memory_with:
  assumes "\<And>r. reg = Some r \<Longrightarrow> from_memory r" and "with_channel on f x reg = Some r'"
    and "\<And>a i st. qr_amount (pc_query (f a) i st) = 0 \<and> qr_status (pc_query (f a) i st) = pay_last_status i st"
  shows "from_memory r'"
  using assms by (cases reg; cases x) (auto simp: with_channel_def split: if_splits intro: from_memory_register)

lemma registry_from_memory:
  assumes "pay_registry lib query float alib d = Some reg"
  shows "from_memory reg"
proof (rule from_memory_with [OF _ assms [unfolded pay_registry_def]])
  fix r assume "with_channel (pd_on_alipay d) (alipay_channel lib) (NewAlipayChannel lib query float (pd_alipay d))
    (with_channel (pd_on_wechat d) (wechat_channel lib) (NewWeChatChannel lib (pd_wechat d))
      (Some (reg_register (mock_channel lib \<lparr>mk_secret = pd_secret d, mk_window = 0\<rparr>) Map.empty))) = Some r"
  then show "from_memory r"
  proof (rule from_memory_with [rotated])
    fix r assume "with_channel (pd_on_wechat d) (wechat_channel lib) (NewWeChatChannel lib (pd_wechat d))
      (Some (reg_register (mock_channel lib \<lparr>mk_secret = pd_secret d, mk_window = 0\<rparr>) Map.empty)) = Some r"
    then show "from_memory r"
      by (rule from_memory_with [rotated])
        (auto simp: wechat_channel_def wechat_query_def mock_channel_def mock_query_def from_memory_def reg_register_def)
  qed (simp add: alipay_channel_def alipay_query_status_def)
qed (simp add: apple_channel_def apple_query_def)

text \<open>C18: A run of the reconciliation, with the channels of a server in any state: each record sets the order against the last
  notification this process received about it, never against the provider, and no record has an amount; so the differences are exactly
  the orders whose status is not that of the notification, and a difference between amounts is never found.\<close>

theorem reconcile_compares_notifications:
  assumes "pay_registry lib query float alib d = Some reg0" and "\<And>ch. map_option fst (reg ch) = map_option fst (reg0 ch)"
    and "RunOnce src reg lookback now clock \<lparr>sk_records = [], sk_diffs = []\<rparr> = (Inr (), s)"
  shows "sk_diffs s = filter (\<lambda>r. rc_remote_status r \<notin> {[], rc_local_status r}) (sk_records s) \<and>
    list_all (\<lambda>r. rc_remote_amount r = 0 \<and> rc_diff r \<in> {[], ''status_mismatch''} \<and>
      (\<exists>c st. reg (rc_channel r) = Some (c, st) \<and> rc_remote_status r = pay_last_status (rc_order r) st)) (sk_records s)"
proof -
  have q: "from_memory reg"
    unfolding from_memory_def
  proof (intro allI impI)
    fix ch c st i and st' :: chan_state assume "reg ch = Some (c, st)"
    then obtain st0 where "reg0 ch = Some (c, st0)" using assms(2) [of ch] by (cases "reg0 ch") auto
    then show "qr_amount (pc_query c i st') = 0 \<and> qr_status (pc_query c i st') = pay_last_status i st'"
      using registry_from_memory [OF assms(1)] unfolding from_memory_def by blast
  qed
  obtain los where "src (now - lookback) = Inr los" using assms(3) by (auto simp: RunOnce_def split: sum.splits)
  then obtain xs run where recs: "sk_records s = concat (map (record_of run reg) xs)"
    and diffs: "sk_diffs s = filter (\<lambda>r. rc_diff r \<noteq> []) (sk_records s)"
    using assms(3) by (auto simp: RunOnce_def reconcile_fold)
  have each: "rc_remote_amount r = 0 \<and> rc_diff r = (if rc_remote_status r \<notin> {[], rc_local_status r} then ''status_mismatch'' else []) \<and>
      (\<exists>c st. reg (rc_channel r) = Some (c, st) \<and> rc_remote_status r = pay_last_status (rc_order r) st)"
    if mem: "r \<in> set (sk_records s)" for r
  proof -
    obtain x where "r \<in> set (record_of run reg x)" using mem by (auto simp: recs)
    then obtain c st where c: "reg (lo_channel (fst x)) = Some (c, st)"
      and r: "r = \<lparr>rc_run = run, rc_channel = lo_channel (fst x), rc_order = lo_id (fst x), rc_trade = [], rc_local_status = lo_status (fst x),
        rc_remote_status = qr_status (pc_query c (lo_id (fst x)) st), rc_local_amount = lo_amount (fst x),
        rc_remote_amount = qr_amount (pc_query c (lo_id (fst x)) st),
        rc_diff = diff_reason (fst x) (qr_status (pc_query c (lo_id (fst x)) st)) (qr_amount (pc_query c (lo_id (fst x)) st)), rc_created = snd x\<rparr>"
      by (cases "reg (lo_channel (fst x))") (auto simp: record_of_def Let_def)
    have "qr_amount (pc_query c (lo_id (fst x)) st) = 0 \<and> qr_status (pc_query c (lo_id (fst x)) st) = pay_last_status (lo_id (fst x)) st"
      using q c by (auto simp: from_memory_def)
    then show ?thesis using c by (auto simp: r diff_reason_def)
  qed
  have "sk_diffs s = filter (\<lambda>r. rc_remote_status r \<notin> {[], rc_local_status r}) (sk_records s)"
    unfolding diffs by (rule filter_cong) (use each in \<open>auto split: if_splits\<close>)
  then show ?thesis using each by (auto simp: list_all_iff)
qed

theorem apple_event_verified_witness:
  "\<exists>a ev st'. NewAppleIAPChannel demo_apple_lib (pd_apple demo_deps) = Inr a \<and>
     apple_verify demo_pay_lib demo_apple_lib a 0 ''p'' (\<lambda>_. []) chan_new = (Inr ev, st') \<and> we_status ev = mapAppleStatus []"
proof -
  define a :: "unit apple" where "a = \<lparr>ax_config = pd_apple demo_deps, ax_roots = None\<rparr>"
  then have cfg: "ax_config a = pd_apple demo_deps" "ax_roots a = None" by simp_all
  have a: "NewAppleIAPChannel demo_apple_lib (pd_apple demo_deps) = Inr a" unfolding a_def
    by (simp add: NewAppleIAPChannel_def apple_defaults_def demo_deps_def)
  have "decodeAndVerifyAppleJWS demo_apple_lib (''h.'' @ ''p'' @ ''.'' @ replicate 64 CHR ''s'') None = Inr ''p''"
    by (simp add: decodeAndVerifyAppleJWS_def demo_apple_lib_def read_jws_header_def as_object_def as_string_def as_strings_def
      check_chain_def check_signature_def wrapped_def same_key_def numeral_eq_Suc)
  then have v: "apple_verify demo_pay_lib demo_apple_lib a 0 ''p'' (\<lambda>_. []) chan_new =
    (Inr \<lparr>we_channel = ''appleiap'', we_order = [], we_trade = [], we_amount = 0, we_status = mapAppleStatus [], we_at = 0\<rparr>,
     set_order_status [] (mapAppleStatus []) chan_new)"
    by (simp add: apple_verify_def apple_verify_jws_def apple_claims_def cfg demo_deps_def demo_apple_lib_def as_object_def as_string_def as_i64_def
      read_apple_notice_def apple_transaction_def wrapped_def same_key_def quot_i64_def)
  have "\<not> ai_mock (ax_config a)" by (simp add: cfg demo_deps_def)
  from apple_event_verified [OF this v] show ?thesis using a v by auto
qed

theorem reconcile_compares_notifications_witness:
  "\<exists>s. RunOnce (\<lambda>_. Inr [\<lparr>lo_id = ''ord_1'', lo_channel = ''mock'', lo_status = ''paid'', lo_amount = 8800\<rparr>]) demo_registry 0 0 (\<lambda>_. 0)
       \<lparr>sk_records = [], sk_diffs = []\<rparr> = (Inr (), s) \<and>
     sk_diffs s = filter (\<lambda>r. rc_remote_status r \<notin> {[], rc_local_status r}) (sk_records s)"
proof -
  obtain s where r: "RunOnce (\<lambda>_. Inr [\<lparr>lo_id = ''ord_1'', lo_channel = ''mock'', lo_status = ''paid'', lo_amount = 8800\<rparr>]) demo_registry 0 0 (\<lambda>_. 0)
       \<lparr>sk_records = [], sk_diffs = []\<rparr> = (Inr (), s)"
    by (simp add: RunOnce_def)
  from reconcile_compares_notifications [OF demo_registry refl r] show ?thesis using r by blast
qed

end
