(* ===== verification/Moderation.thy ===== *)
theory Moderation
  imports GoText AppErrors GoTime
begin

text \<open>
  \<^verbatim>\<open>go/services/chat-svc/internal/moderation\<close>: the word list, the stand-in and the real client of the cloud
  service, and the manager that falls back from one to the other (\<^verbatim>\<open>provider.go\<close>, \<^verbatim>\<open>aliyun_green.go\<close>).
  \<open>lower\<close> is \<open>strings.ToLower\<close>, with its tables of Unicode; a call that runs into its time-out is an error of the
  provider; the score, which nothing reads, is left out.
\<close>

section \<open>Decisions and providers\<close>

datatype action = ActionPass | ActionWarn | ActionHide | ActionRecall | ActionBlock

record decision =
  dc_action :: action
  dc_reason :: string
  dc_provider :: string
  dc_cleaned :: string

record provider =
  pv_name :: string
  pv_inspect :: "string \<Rightarrow> go_error + decision"

definition DefaultWords :: "string list" where
  "DefaultWords =
     [[CHR 0xE8, CHR 0x8D, CHR 0x89, CHR 0xE4, CHR 0xBD, CHR 0xA0, CHR 0xE5, CHR 0xA6, CHR 0x88],
      [CHR 0xE6, CHR 0x93, CHR 0x8D, CHR 0xE4, CHR 0xBD, CHR 0xA0, CHR 0xE5, CHR 0xA6, CHR 0x88],
      [CHR 0xE5, CHR 0x82, CHR 0xBB, CHR 0xE9, CHR 0x80, CHR 0xBC], ''fuck'', ''shit'', ''spam'']"

definition NewLocalProvider :: "string list \<Rightarrow> string list" where
  "NewLocalProvider words = (if words = [] then DefaultWords else words)"

definition SetWords :: "string list \<Rightarrow> string list \<Rightarrow> string list" where
  "SetWords words old = words"

text \<open>The first word of the list that occurs decides.\<close>

definition found_word :: "(string \<Rightarrow> string) \<Rightarrow> string list \<Rightarrow> string \<Rightarrow> string option" where
  "found_word lower words text = List.find (\<lambda>w. w \<noteq> [] \<and> contains (lower text) (lower w)) words"

definition local_inspect :: "(string \<Rightarrow> string) \<Rightarrow> string list \<Rightarrow> string \<Rightarrow> go_error + decision" where
  "local_inspect lower words text =
     (case found_word lower words text of
        Some w \<Rightarrow> Inr \<lparr>dc_action = ActionHide, dc_reason = ''sensitive_word'', dc_provider = ''local'',
                       dc_cleaned = replace_all text w (replicate (utf8Len w) CHR ''*'')\<rparr>
      | None \<Rightarrow> Inr \<lparr>dc_action = ActionPass, dc_reason = [], dc_provider = ''local'', dc_cleaned = text\<rparr>)"

definition local_provider :: "(string \<Rightarrow> string) \<Rightarrow> string list \<Rightarrow> provider" where
  "local_provider lower words = \<lparr>pv_name = ''local'', pv_inspect = local_inspect lower words\<rparr>"

section \<open>The stand-in for the cloud service\<close>

record green_config =
  gc_key :: string
  gc_secret :: string
  gc_region :: string
  gc_endpoint :: string
  gc_mock :: bool

definition green_inspect :: "(string \<Rightarrow> string) \<Rightarrow> string \<Rightarrow> go_error + decision" where
  "green_inspect lower text =
     (let d = (\<lambda>a r. Inr \<lparr>dc_action = a, dc_reason = r, dc_provider = ''aliyun_green'', dc_cleaned = text\<rparr>)
      in if contains (lower text) ''aliyun-block-test'' then d ActionBlock ''policy:block_mock''
         else if contains (lower text) ''aliyun-warn-test'' then d ActionWarn ''policy:warn_mock''
         else d ActionPass [])"

definition NewAliyunGreenProvider :: "(string \<Rightarrow> string) \<Rightarrow> green_config \<Rightarrow> go_error + provider" where
  "NewAliyunGreenProvider lower c =
     (if \<not> gc_mock c \<and> (gc_key c = [] \<or> gc_secret c = [])
      then Inl (Plain ''moderation/aliyun_green: ak/sk required when MockMode=false'')
      else Inr \<lparr>pv_name = ''aliyun_green'', pv_inspect = green_inspect lower\<rparr>)"

section \<open>The real client\<close>

definition percentEncode :: "string \<Rightarrow> string" where
  "percentEncode s = replace_all (replace_all (replace_all (QueryEscape s) ''+'' ''%20'') ''*'' ''%2A'') ''%7E'' ''~''"

text \<open>\<open>hmac key text\<close> is HMAC-SHA1 in standard base64.\<close>

definition string_to_sign :: "string \<Rightarrow> (string \<times> string) list \<Rightarrow> string" where
  "string_to_sign verb params =
     verb @ ''&'' @ percentEncode ''/'' @ ''&'' @
     percentEncode (join_amp (map (\<lambda>(k, v). percentEncode k @ ''='' @ percentEncode v) (sort_keys params)))"

definition signAliyunRPC :: "(string \<Rightarrow> string \<Rightarrow> string) \<Rightarrow> string \<Rightarrow> (string \<times> string) list \<Rightarrow> string \<Rightarrow> string" where
  "signAliyunRPC hmac verb params secret = hmac (secret @ ''&'') (string_to_sign verb params)"

text \<open>The answer of the service as \<open>json.Unmarshal\<close> fills the struct.\<close>

record green_result =
  gr_suggestion :: string
  gr_label :: string

record green_response =
  gp_code :: int
  gp_msg :: string
  gp_data :: "green_result list list"

definition severity :: "string \<Rightarrow> nat" where
  "severity s = (if s = ''review'' then 1 else if s = ''block'' then 2 else 0)"

definition worst_result :: "green_result list list \<Rightarrow> string \<times> string" where
  "worst_result data =
     fold (\<lambda>r (w, l). if severity w < severity (gr_suggestion r) then (gr_suggestion r, gr_label r) else (w, l)) (concat data) (''pass'', [])"

definition parseAliyunGreenResponse :: "(string \<Rightarrow> go_error + green_response) \<Rightarrow> string \<Rightarrow> string \<Rightarrow> go_error + decision" where
  "parseAliyunGreenResponse parse raw text =
     (case parse raw of
        Inl e \<Rightarrow> Inl (Wrap ''aliyun_green: parse'' e)
      | Inr resp \<Rightarrow>
          if gp_code resp \<noteq> 200 then Inl (Plain (''aliyun_green: code='' @ dec_int (gp_code resp) @ '' msg='' @ gp_msg resp))
          else let (worst, label) = worst_result (gp_data resp)
               in Inr \<lparr>dc_action = (if worst = ''block'' then ActionBlock else if worst = ''review'' then ActionWarn else ActionPass),
                       dc_reason = ''aliyun_green:'' @ label, dc_provider = ''aliyun_green'', dc_cleaned = text\<rparr>)"

text \<open>The client: \<open>gn_bad_url\<close> is the refusal of a URL that does not parse, \<open>gn_post\<close> the exchange with the server,
  for a URL and a body; the body, which holds the text and the four scenes, the time stamp and the nonce depend on the
  clock and are arguments.\<close>

record green_client =
  gn_config :: green_config
  gn_endpoint :: string
  gn_hmac :: "string \<Rightarrow> string \<Rightarrow> string"
  gn_bad_url :: "string \<Rightarrow> go_error option"
  gn_post :: "string \<Rightarrow> string \<Rightarrow> go_error + (int \<times> string)"
  gn_parse :: "string \<Rightarrow> go_error + green_response"

definition green_endpoint :: "green_config \<Rightarrow> string" where
  "green_endpoint c = (if gc_endpoint c \<noteq> [] then gc_endpoint c else ''https://green.'' @ gc_region c @ ''.aliyuncs.com'')"

definition green_params :: "green_config \<Rightarrow> string \<Rightarrow> string \<Rightarrow> (string \<times> string) list" where
  "green_params c stamp nonce =
     [(''Format'', ''JSON''), (''Version'', ''2018-05-09''), (''AccessKeyId'', gc_key c), (''SignatureMethod'', ''HMAC-SHA1''),
      (''Timestamp'', stamp), (''SignatureVersion'', ''1.0''), (''SignatureNonce'', nonce), (''Action'', ''TextScan'')]"

definition green_real_inspect :: "green_client \<Rightarrow> string \<Rightarrow> string \<Rightarrow> string \<Rightarrow> string \<Rightarrow> go_error + decision" where
  "green_real_inspect g stamp nonce body text =
     (if gc_key (gn_config g) = [] \<or> gc_secret (gn_config g) = [] then Inl (Plain ''aliyun_green: missing AK/SK'')
      else let params = green_params (gn_config g) stamp nonce;
               signature = signAliyunRPC (gn_hmac g) ''POST'' params (gc_secret (gn_config g));
               url = gn_endpoint g @ ''/green/text/scan?'' @ encode_values (params @ [(''Signature'', signature)])
           in (case gn_bad_url g url of
                 Some e \<Rightarrow> Inl e
               | None \<Rightarrow> (case gn_post g url body of
                   Inl e \<Rightarrow> Inl (Wrap ''aliyun_green: http'' e)
                 | Inr (status, raw) \<Rightarrow>
                     if status \<noteq> 200 then Inl (Plain (''aliyun_green: status='' @ dec_int status @ '' body='' @ raw))
                     else parseAliyunGreenResponse (gn_parse g) raw text)))"

section \<open>The manager\<close>

record moderation_manager =
  mo_primary :: provider
  mo_fallback :: provider

definition NewManager :: "(string \<Rightarrow> string) \<Rightarrow> provider option \<Rightarrow> provider option \<Rightarrow> moderation_manager" where
  "NewManager lower primary fallback =
     (let fb = (case fallback of None \<Rightarrow> local_provider lower (NewLocalProvider []) | Some p \<Rightarrow> p)
      in \<lparr>mo_primary = (case primary of None \<Rightarrow> fb | Some p \<Rightarrow> p), mo_fallback = fb\<rparr>)"

definition SetPrimary :: "provider option \<Rightarrow> moderation_manager \<Rightarrow> moderation_manager" where
  "SetPrimary p m = (case p of None \<Rightarrow> m | Some q \<Rightarrow> m\<lparr>mo_primary := q\<rparr>)"

definition Inspect :: "moderation_manager \<Rightarrow> string \<Rightarrow> decision" where
  "Inspect m text =
     (case pv_inspect (mo_primary m) text of
        Inr d \<Rightarrow> d
      | Inl e \<Rightarrow> (case pv_inspect (mo_fallback m) text of
            Inl e2 \<Rightarrow> \<lparr>dc_action = ActionPass, dc_reason = ''fallback-error:'' @ err_text e2, dc_provider = pv_name (mo_fallback m), dc_cleaned = text\<rparr>
          | Inr d \<Rightarrow> d\<lparr>dc_reason := ''fallback:'' @ pv_name (mo_primary m) @ '':'' @ err_text e\<rparr>))"

definition moderation_active :: "moderation_manager \<Rightarrow> string" where
  "moderation_active m = pv_name (mo_primary m)"

text \<open>The provider the server chooses (\<^verbatim>\<open>go/services/chat-svc/server/server.go\<close>): the name in the configuration
  selects the stand-in, whatever the credentials.\<close>

definition server_manager :: "(string \<Rightarrow> string) \<Rightarrow> string \<Rightarrow> green_config \<Rightarrow> moderation_manager" where
  "server_manager lower name c =
     (let loc = local_provider lower (NewLocalProvider []);
          primary = (if name = ''aliyun_green''
                     then (case NewAliyunGreenProvider lower (c\<lparr>gc_mock := gc_mock c \<or> gc_key c = []\<rparr>) of Inl e \<Rightarrow> loc | Inr p \<Rightarrow> p)
                     else loc)
      in NewManager lower (Some primary) (Some loc))"

end
