(* ===== verification/ChatStore.thy ===== *)
theory ChatStore
  imports RoomStore GoText
begin

text \<open>
  \<^verbatim>\<open>go/services/chat-svc/internal/store/store.go\<close>: the messages, in memory and in the PostgreSQL table
  \<open>chat_messages\<close> with its constraints (\<^verbatim>\<open>go/migrations/0006_chat_messages.sql\<close>).
\<close>

section \<open>Messages\<close>

record chat_message =
  cm_id :: string
  cm_user :: string
  cm_room :: string
  cm_body :: string
  cm_emojis :: "string list"
  cm_status :: string
  cm_reason :: string
  cm_client :: string
  cm_created :: time

record 's chat_ops =
  co_insert :: "chat_message \<Rightarrow> 's \<Rightarrow> (go_error, chat_message, 's) outcome"
  co_get :: "string \<Rightarrow> 's \<Rightarrow> go_error + chat_message"
  co_moderate :: "time \<Rightarrow> string \<Rightarrow> string \<Rightarrow> string \<Rightarrow> 's \<Rightarrow> (go_error, chat_message, 's) outcome"
  co_list :: "string list \<Rightarrow> string \<Rightarrow> int \<Rightarrow> 's \<Rightarrow> go_error + chat_message list"

abbreviation chat_not_found :: go_error where
  "chat_not_found \<equiv> Sentinel ''chat: not found''"

definition shown :: "string \<Rightarrow> chat_message \<Rightarrow> bool" where
  "shown room m \<longleftrightarrow> cm_room m = room \<and> (cm_status m = ''published'' \<or> cm_status m = ''flagged'')"

section \<open>In memory\<close>

type_synonym chat_mem = "string \<rightharpoonup> chat_message"

definition chat_mem_insert :: "chat_message \<Rightarrow> chat_mem \<Rightarrow> (go_error, chat_message, chat_mem) outcome" where
  "chat_mem_insert m s = (if s (cm_id m) \<noteq> None then (Inl (Plain ''duplicate id''), s) else (Inr m, s(cm_id m \<mapsto> m)))"

definition chat_mem_get :: "string \<Rightarrow> chat_mem \<Rightarrow> go_error + chat_message" where
  "chat_mem_get i s = (case s i of None \<Rightarrow> Inl chat_not_found | Some m \<Rightarrow> Inr m)"

definition chat_mem_moderate :: "time \<Rightarrow> string \<Rightarrow> string \<Rightarrow> string \<Rightarrow> chat_mem \<Rightarrow> (go_error, chat_message, chat_mem) outcome" where
  "chat_mem_moderate now i status reason s =
     (case s i of
        None \<Rightarrow> (Inl chat_not_found, s)
      | Some m \<Rightarrow> let m' = m\<lparr>cm_status := status, cm_reason := reason\<rparr> in (Inr m', s(i \<mapsto> m')))"

text \<open>The newest first, equal times in any order; a negative limit, which the service never gives, panics.\<close>

definition chat_mem_list :: "string list \<Rightarrow> string \<Rightarrow> int \<Rightarrow> chat_mem \<Rightarrow> go_error + chat_message list" where
  "chat_mem_list ks room limit s = Inr (take (nat limit) (sort_key (\<lambda>m. - cm_created m) (filter (shown room) (rows_in ks s))))"

definition chat_mem_ops :: "chat_mem chat_ops" where
  "chat_mem_ops = \<lparr>co_insert = chat_mem_insert, co_get = chat_mem_get, co_moderate = chat_mem_moderate, co_list = chat_mem_list\<rparr>"

section \<open>In PostgreSQL\<close>

record chat_sql =
  cq_user :: string
  cq_room :: string
  cq_body :: string
  cq_emojis :: string
  cq_status :: string
  cq_reason :: "string option"
  cq_client :: "string option"
  cq_created :: time
  cq_updated :: time

type_synonym chat_table = "string \<rightharpoonup> chat_sql"

text \<open>\<open>joinSafe\<close> goes over the runes; a byte that starts no valid encoding becomes \<open>U+FFFD\<close>.\<close>

function safe_runes :: "string \<Rightarrow> string" where
  "safe_runes s =
     (if s = [] then []
      else (if rune_len s = 1 \<and> 0x80 \<le> byte_at s 0 then [CHR 0xEF, CHR 0xBF, CHR 0xBD]
            else if byte_at s 0 = 0x22 \<or> byte_at s 0 = 0x5C \<or> byte_at s 0 < 0x20 then []
            else take (rune_len s) s) @ safe_runes (drop (rune_len s) s))"
  by pat_completeness auto

termination
  by (relation "measure length") (auto simp: rune_len_pos)

declare safe_runes.simps [simp del]

fun joinSafe :: "string list \<Rightarrow> string" where
  "joinSafe [] = []"
| "joinSafe [s] = safe_runes s"
| "joinSafe (s # t # ss) = safe_runes s @ [CHR 0x22, CHR '','', CHR 0x22] @ joinSafe (t # ss)"

definition emojis_json :: "string list \<Rightarrow> string" where
  "emojis_json es = (if es = [] then ''[]'' else [CHR ''['', CHR 0x22] @ joinSafe es @ [CHR 0x22, CHR '']''])"

text \<open>The constraints of the table.\<close>

definition status_check :: "string \<Rightarrow> bool" where
  "status_check st \<longleftrightarrow> st \<in> {''pending'', ''published'', ''hidden'', ''deleted'', ''flagged''}"

definition client_taken :: "string \<Rightarrow> string option \<Rightarrow> chat_table \<Rightarrow> bool" where
  "client_taken user client t \<longleftrightarrow> client \<noteq> None \<and> (\<exists>q \<in> ran t. cq_user q = user \<and> cq_client q = client)"

abbreviation check_error :: go_error where
  "check_error \<equiv> Plain ''new row for relation chat_messages violates check constraint (SQLSTATE 23514)''"

abbreviation unique_error :: go_error where
  "unique_error \<equiv> Plain ''duplicate key value violates unique constraint (SQLSTATE 23505)''"

definition chat_pg_insert :: "faults \<Rightarrow> chat_message \<Rightarrow> chat_table \<Rightarrow> (go_error, chat_message, chat_table) outcome" where
  "chat_pg_insert flt m =
     stmt flt ''insert message'' (\<lambda>e. e)
       (\<lambda>t. if \<not> status_check (cm_status m) then (Inl check_error, t)
            else if t (cm_id m) \<noteq> None \<or> client_taken (cm_user m) (nullif (cm_client m)) t then (Inl unique_error, t)
            else (Inr m, t(cm_id m \<mapsto> \<lparr>cq_user = cm_user m, cq_room = cm_room m, cq_body = cm_body m, cq_emojis = emojis_json (cm_emojis m),
                    cq_status = cm_status m, cq_reason = nullif (cm_reason m), cq_client = nullif (cm_client m),
                    cq_created = cm_created m, cq_updated = cm_created m\<rparr>)))"

text \<open>The column \<open>emojis\<close> is read by no query.\<close>

definition read_message :: "string \<Rightarrow> chat_sql \<Rightarrow> chat_message" where
  "read_message i q = \<lparr>cm_id = i, cm_user = cq_user q, cm_room = cq_room q, cm_body = cq_body q, cm_emojis = [], cm_status = cq_status q,
     cm_reason = coalesce (cq_reason q), cm_client = coalesce (cq_client q), cm_created = cq_created q\<rparr>"

definition chat_pg_get :: "faults \<Rightarrow> string \<Rightarrow> chat_table \<Rightarrow> go_error + chat_message" where
  "chat_pg_get flt i t = fst (stmt flt ''get message'' (\<lambda>e. e)
     (\<lambda>t. (case t i of None \<Rightarrow> Inl chat_not_found | Some q \<Rightarrow> Inr (read_message i q), t)) t)"

text \<open>The check constrains the row of an \<open>UPDATE\<close>, when there is one; the answer is read back.\<close>

definition chat_pg_moderate ::
  "faults \<Rightarrow> time \<Rightarrow> string \<Rightarrow> string \<Rightarrow> string \<Rightarrow> chat_table \<Rightarrow> (go_error, chat_message, chat_table) outcome" where
  "chat_pg_moderate flt now i status reason t =
     (case stmt flt ''moderate message'' (\<lambda>e. e)
          (\<lambda>t. case t i of
             None \<Rightarrow> (Inr (), t)
           | Some q \<Rightarrow> if \<not> status_check status then (Inl check_error, t)
               else (Inr (), t(i \<mapsto> q\<lparr>cq_status := status, cq_reason := nullif reason, cq_updated := now\<rparr>))) t of
        (Inl e, t') \<Rightarrow> (Inl e, t')
      | (Inr _, t') \<Rightarrow> (chat_pg_get flt i t', t'))"

definition chat_pg_list :: "faults \<Rightarrow> string list \<Rightarrow> string \<Rightarrow> int \<Rightarrow> chat_table \<Rightarrow> go_error + chat_message list" where
  "chat_pg_list flt ks room limit t = fst (stmt flt ''list messages'' (\<lambda>e. e)
     (\<lambda>t. (Inr (take (nat limit) (sort_key (\<lambda>m. - cm_created m) (filter (shown room) (rows_in ks (\<lambda>i. map_option (read_message i) (t i)))))), t)) t)"

definition chat_pg_ops :: "faults \<Rightarrow> chat_table chat_ops" where
  "chat_pg_ops flt = \<lparr>co_insert = chat_pg_insert flt, co_get = chat_pg_get flt, co_moderate = chat_pg_moderate flt, co_list = chat_pg_list flt\<rparr>"

section \<open>The contract the service relies on\<close>

text \<open>What both stores keep of a message: everything but the emojis.\<close>

definition bare :: "chat_message \<Rightarrow> chat_message" where
  "bare m = m\<lparr>cm_emojis := []\<rparr>"

definition client_free :: "chat_message \<Rightarrow> (string \<rightharpoonup> chat_message) \<Rightarrow> bool" where
  "client_free m ms \<longleftrightarrow> cm_client m = [] \<or> (\<forall>x \<in> ran ms. cm_user x = cm_user m \<longrightarrow> cm_client x \<noteq> cm_client m)"

locale chat_store =
  fixes ops :: "'s chat_ops" and messages :: "'s \<Rightarrow> string \<rightharpoonup> chat_message"
  assumes get_message: "map_sum id bare (co_get ops i s) = (case messages s i of None \<Rightarrow> Inl chat_not_found | Some m \<Rightarrow> Inr m)"
    and insert_message: "\<lbrakk>messages s (cm_id m) = None; client_free m (messages s); status_check (cm_status m)\<rbrakk> \<Longrightarrow>
      fst (co_insert ops m s) = Inr m \<and> messages (snd (co_insert ops m s)) = (messages s)(cm_id m \<mapsto> bare m)"
    and insert_refused: "messages s (cm_id m) \<noteq> None \<Longrightarrow> (\<exists>e. fst (co_insert ops m s) = Inl e) \<and> snd (co_insert ops m s) = s"
    and moderate_message: "\<lbrakk>messages s i = Some m; status_check st\<rbrakk> \<Longrightarrow>
      map_sum id bare (fst (co_moderate ops now i st reason s)) = Inr (m\<lparr>cm_status := st, cm_reason := reason\<rparr>) \<and>
      messages (snd (co_moderate ops now i st reason s)) = (messages s)(i \<mapsto> m\<lparr>cm_status := st, cm_reason := reason\<rparr>)"
    and moderate_absent: "messages s i = None \<Longrightarrow>
      fst (co_moderate ops now i st reason s) = Inl chat_not_found \<and> messages (snd (co_moderate ops now i st reason s)) = messages s"
    and list_messages: "map_sum id (map bare) (co_list ops ks room limit s) =
      Inr (take (nat limit) (sort_key (\<lambda>m. - cm_created m) (filter (shown room) (rows_in ks (messages s)))))"

lemma bare_simps [simp]:
  "cm_id (bare m) = cm_id m" "cm_user (bare m) = cm_user m" "cm_room (bare m) = cm_room m" "cm_body (bare m) = cm_body m"
  "cm_status (bare m) = cm_status m" "cm_reason (bare m) = cm_reason m" "cm_client (bare m) = cm_client m"
  "cm_created (bare m) = cm_created m" "bare (bare m) = bare m" "shown room (bare m) = shown room m"
  by (simp_all add: bare_def shown_def)

lemma bare_moderated: "bare (m\<lparr>cm_status := st, cm_reason := r\<rparr>) = (bare m)\<lparr>cm_status := st, cm_reason := r\<rparr>"
  by (cases m) (simp add: bare_def)

definition chat_mem_view :: "chat_mem \<Rightarrow> string \<rightharpoonup> chat_message" where
  "chat_mem_view s = (\<lambda>i. map_option bare (s i))"

definition chat_pg_view :: "chat_table \<Rightarrow> string \<rightharpoonup> chat_message" where
  "chat_pg_view t = (\<lambda>i. map_option (read_message i) (t i))"

lemma rows_in_map: "rows_in ks (\<lambda>i. map_option f (m i)) = map f (rows_in ks m)"
  by (induction ks) (auto split: option.split)

lemma map_sort_key: "(\<And>x. g (f x) = g' x) \<Longrightarrow> map f (sort_key g' xs) = sort_key g (map f xs)"
proof (induction xs)
  case (Cons x xs)
  have "map f (insort_key g' x ys) = insort_key g (f x) (map f ys)" for ys
    by (induction ys) (simp_all add: Cons.prems)
  with Cons show ?case by simp
qed simp

lemma read_bare [simp]: "bare (read_message i q) = read_message i q"
  by (simp add: bare_def read_message_def)

lemma bare_list:
  "map bare (take n (sort_key (\<lambda>m. - cm_created m) (filter (shown room) xs))) =
     take n (sort_key (\<lambda>m. - cm_created m) (filter (shown room) (map bare xs)))"
proof -
  have "map bare (filter (shown room) xs) = filter (shown room) (map bare xs)" by (simp add: filter_map comp_def)
  then show ?thesis using map_sort_key [of "\<lambda>m. - cm_created m" bare "\<lambda>m. - cm_created m" "filter (shown room) xs"]
    by (metis bare_simps(8) take_map)
qed

interpretation chat_mem: chat_store chat_mem_ops chat_mem_view
proof
  fix i s m now st reason ks room limit
  show "map_sum id bare (co_get chat_mem_ops i s) = (case chat_mem_view s i of None \<Rightarrow> Inl chat_not_found | Some m \<Rightarrow> Inr m)"
    by (simp add: chat_mem_ops_def chat_mem_get_def chat_mem_view_def split: option.split)
  show "\<lbrakk>chat_mem_view s (cm_id m) = None; client_free m (chat_mem_view s); status_check (cm_status m)\<rbrakk> \<Longrightarrow>
      fst (co_insert chat_mem_ops m s) = Inr m \<and> chat_mem_view (snd (co_insert chat_mem_ops m s)) = (chat_mem_view s)(cm_id m \<mapsto> bare m)"
    by (auto simp: chat_mem_ops_def chat_mem_insert_def chat_mem_view_def)
  show "chat_mem_view s (cm_id m) \<noteq> None \<Longrightarrow> (\<exists>e. fst (co_insert chat_mem_ops m s) = Inl e) \<and> snd (co_insert chat_mem_ops m s) = s"
    by (auto simp: chat_mem_ops_def chat_mem_insert_def chat_mem_view_def)
  show "\<lbrakk>chat_mem_view s i = Some m; status_check st\<rbrakk> \<Longrightarrow>
      map_sum id bare (fst (co_moderate chat_mem_ops now i st reason s)) = Inr (m\<lparr>cm_status := st, cm_reason := reason\<rparr>) \<and>
      chat_mem_view (snd (co_moderate chat_mem_ops now i st reason s)) = (chat_mem_view s)(i \<mapsto> m\<lparr>cm_status := st, cm_reason := reason\<rparr>)"
    by (auto simp: chat_mem_ops_def chat_mem_moderate_def chat_mem_view_def Let_def bare_moderated)
  show "chat_mem_view s i = None \<Longrightarrow>
      fst (co_moderate chat_mem_ops now i st reason s) = Inl chat_not_found \<and>
      chat_mem_view (snd (co_moderate chat_mem_ops now i st reason s)) = chat_mem_view s"
    by (auto simp: chat_mem_ops_def chat_mem_moderate_def chat_mem_view_def)
  show "map_sum id (map bare) (co_list chat_mem_ops ks room limit s) =
      Inr (take (nat limit) (sort_key (\<lambda>m. - cm_created m) (filter (shown room) (rows_in ks (chat_mem_view s)))))"
    by (simp add: chat_mem_ops_def chat_mem_list_def chat_mem_view_def rows_in_map bare_list)
qed

lemma client_taken_view:
  assumes "client_free m (chat_pg_view t)"
  shows "\<not> client_taken (cm_user m) (nullif (cm_client m)) t"
proof
  assume "client_taken (cm_user m) (nullif (cm_client m)) t"
  then obtain i q where q: "t i = Some q" "cq_user q = cm_user m" "cq_client q = Some (cm_client m)" "cm_client m \<noteq> []"
    by (auto simp: client_taken_def nullif_def ran_def split: if_splits)
  then have "read_message i q \<in> ran (chat_pg_view t)" by (auto simp: chat_pg_view_def ran_def)
  then show False using assms q by (auto simp: client_free_def read_message_def coalesce_def)
qed

interpretation chat_pg: chat_store "chat_pg_ops no_faults" chat_pg_view
proof
  fix i s m now st reason ks room limit
  show "map_sum id bare (co_get (chat_pg_ops no_faults) i s) = (case chat_pg_view s i of None \<Rightarrow> Inl chat_not_found | Some m \<Rightarrow> Inr m)"
    by (simp add: chat_pg_ops_def chat_pg_get_def chat_pg_view_def split: option.split)
  show "\<lbrakk>chat_pg_view s (cm_id m) = None; client_free m (chat_pg_view s); status_check (cm_status m)\<rbrakk> \<Longrightarrow>
      fst (co_insert (chat_pg_ops no_faults) m s) = Inr m \<and>
      chat_pg_view (snd (co_insert (chat_pg_ops no_faults) m s)) = (chat_pg_view s)(cm_id m \<mapsto> bare m)"
    using client_taken_view [of m s]
    by (auto simp: chat_pg_ops_def chat_pg_insert_def chat_pg_view_def read_message_def bare_def)
  show "chat_pg_view s (cm_id m) \<noteq> None \<Longrightarrow>
      (\<exists>e. fst (co_insert (chat_pg_ops no_faults) m s) = Inl e) \<and> snd (co_insert (chat_pg_ops no_faults) m s) = s"
    by (auto simp: chat_pg_ops_def chat_pg_insert_def chat_pg_view_def)
  show "\<lbrakk>chat_pg_view s i = Some m; status_check st\<rbrakk> \<Longrightarrow>
      map_sum id bare (fst (co_moderate (chat_pg_ops no_faults) now i st reason s)) = Inr (m\<lparr>cm_status := st, cm_reason := reason\<rparr>) \<and>
      chat_pg_view (snd (co_moderate (chat_pg_ops no_faults) now i st reason s)) = (chat_pg_view s)(i \<mapsto> m\<lparr>cm_status := st, cm_reason := reason\<rparr>)"
    by (auto simp: chat_pg_ops_def chat_pg_moderate_def chat_pg_get_def chat_pg_view_def read_message_def bare_def)
  show "chat_pg_view s i = None \<Longrightarrow>
      fst (co_moderate (chat_pg_ops no_faults) now i st reason s) = Inl chat_not_found \<and>
      chat_pg_view (snd (co_moderate (chat_pg_ops no_faults) now i st reason s)) = chat_pg_view s"
    by (auto simp: chat_pg_ops_def chat_pg_moderate_def chat_pg_get_def chat_pg_view_def)
  have "map bare (rows_in ks (chat_pg_view s)) = rows_in ks (chat_pg_view s)"
    by (induction ks) (auto simp: chat_pg_view_def split: option.split)
  then show "map_sum id (map bare) (co_list (chat_pg_ops no_faults) ks room limit s) =
      Inr (take (nat limit) (sort_key (\<lambda>m. - cm_created m) (filter (shown room) (rows_in ks (chat_pg_view s)))))"
    by (simp add: chat_pg_ops_def chat_pg_list_def chat_pg_view_def [symmetric] bare_list)
qed

end
