(* ===== verification/ChatService.thy ===== *)
theory ChatService
  imports ChatStore Moderation CacheClients Events
begin

text \<open>
  \<^verbatim>\<open>go/services/chat-svc/internal/service\<close>: sending, moderating and listing messages (\<^verbatim>\<open>service.go\<close>), the
  word filter of the package (\<^verbatim>\<open>sensitive.go\<close>) and the filter over the moderation manager
  (\<^verbatim>\<open>moderation_filter.go\<close>), with the publisher of \<^verbatim>\<open>server/server.go\<close>; over any message store, cache and bus.
  Metrics are left out.  A nil list of emojis is an empty one.
\<close>

section \<open>Filters\<close>

type_synonym filter_result = "string \<times> bool \<times> string"

definition defaultBadWords :: "string list" where
  "defaultBadWords = butlast DefaultWords"

text \<open>The mask has a star for every byte of the word.\<close>

definition localFilter_Check :: "(string \<Rightarrow> string) \<Rightarrow> string list \<Rightarrow> string \<Rightarrow> filter_result" where
  "localFilter_Check lower words text =
     (case List.find (\<lambda>w. contains (lower text) (lower w)) words of
        Some w \<Rightarrow> (replace_all text w (replicate (length w) CHR ''*''), True, ''sensitive_word'')
      | None \<Rightarrow> (text, False, []))"

definition ModerationFilter_Check :: "moderation_manager option \<Rightarrow> string \<Rightarrow> filter_result" where
  "ModerationFilter_Check mgr text =
     (case mgr of
        None \<Rightarrow> (text, False, [])
      | Some m \<Rightarrow>
          let d = Inspect m text; body = (if dc_cleaned d = [] then text else dc_cleaned d)
          in if dc_action d \<in> {ActionBlock, ActionHide, ActionRecall, ActionWarn} then (body, True, dc_provider d @ '':'' @ dc_reason d)
             else (body, False, []))"

section \<open>Configuration and state\<close>

record ('c, 's, 'b) chat_env =
  ce_store :: "'s chat_ops"
  ce_pub :: "(envelope \<Rightarrow> 'b \<Rightarrow> (go_error, unit, 'b) outcome) option"
  ce_filter :: "string \<Rightarrow> filter_result"
  ce_rate :: "'c kv_ops option"
  ce_rate_max :: int
  ce_rate_win :: duration
  ce_max_body :: int
  ce_origin :: string
  ce_marshal :: "cloud_event \<Rightarrow> go_error + string"

record ('c, 's, 'b) chat_state =
  ct_cache :: 'c
  ct_store :: 's
  ct_bus :: 'b

text \<open>\<open>New\<close>; a filter that is not given is \<open>None\<close>.\<close>

definition chat_new :: "(string \<Rightarrow> string) \<Rightarrow> (string \<Rightarrow> filter_result) option \<Rightarrow> ('c, 's, 'b) chat_env \<Rightarrow> ('c, 's, 'b) chat_env" where
  "chat_new lower flt c =
     c\<lparr>ce_rate_max := (if ce_rate_max c = 0 then 3 else ce_rate_max c), ce_rate_win := (if ce_rate_win c = 0 then 5 * second else ce_rate_win c),
       ce_max_body := (if ce_max_body c = 0 then 256 else ce_max_body c),
       ce_filter := (case flt of None \<Rightarrow> localFilter_Check lower defaultBadWords | Some f \<Rightarrow> f),
       ce_origin := orElse (ce_origin c) ''chat-svc@dev''\<rparr>"

record send_input =
  si_user :: string
  si_room :: string
  si_body :: string
  si_emojis :: "string list"
  si_client :: string

section \<open>The rate limit\<close>

definition itoa :: "i64 \<Rightarrow> string" where
  "itoa n = (if n = 0 then ''0'' else dec_acc (nat (sint n)) [])"

text \<open>\<open>int(val[i]-'0')\<close> is a subtraction of bytes.\<close>

fun read_count :: "i64 \<Rightarrow> string \<Rightarrow> i64" where
  "read_count n [] = n"
| "read_count n (c # cs) = read_count (n * 10 + word_of_nat ((of_char c + 208) mod 256)) cs"

definition chat_key :: "string \<Rightarrow> string \<Rightarrow> string" where
  "chat_key user room = ''chat:rl:'' @ room @ '':'' @ user"

text \<open>The cache is read at \<open>t\<close> and written at \<open>u\<close>, under the mutex.\<close>

definition allowed :: "'c kv_ops \<Rightarrow> int \<Rightarrow> duration \<Rightarrow> time \<Rightarrow> time \<Rightarrow> string \<Rightarrow> 'c \<Rightarrow> (go_error, bool, 'c) outcome" where
  "allowed ops mx win t u key c =
     (case op_get ops t key c of
        (Inl e, c') \<Rightarrow> (Inl e, c')
      | (Inr v, c') \<Rightarrow>
          let count = read_count 0 (coalesce v)
          in if mx \<le> sint count then (Inr False, c')
             else (case op_set ops u key (itoa (count + 1)) win c' of
                     (Inl e, c'') \<Rightarrow> (Inl e, c'')
                   | (Inr _, c'') \<Rightarrow> (Inr True, c'')))"

section \<open>Publishing\<close>

text \<open>The publisher's error is ignored.\<close>

definition chat_publish :: "('c, 's, 'b) chat_env \<Rightarrow> topic \<Rightarrow> string \<Rightarrow> cloud_event \<Rightarrow> 'b \<Rightarrow> 'b" where
  "chat_publish env t key ev b =
     (case ce_pub env of
        None \<Rightarrow> b
      | Some pub \<Rightarrow> (case new_envelope (ce_marshal env) t key ev of Inl e \<Rightarrow> b | Inr en \<Rightarrow> snd (pub en b)))"

definition message_event :: "string \<Rightarrow> fresh \<Rightarrow> chat_message \<Rightarrow> cloud_event" where
  "message_event src fr m =
     ce_new (fr_uuid fr) (fr_event_now fr) (topic_string ChatMessageTopic) src (cm_id m)
       [(''id'', JStr (cm_id m)), (''user_id'', JStr (cm_user m)), (''room_id'', JStr (cm_room m)), (''body'', JStr (cm_body m)),
        (''emojis'', JStrs (cm_emojis m)), (''status'', JStr (cm_status m)), (''ts'', JStr (format_rfc3339 (cm_created m)))]"

definition moderation_event :: "string \<Rightarrow> fresh \<Rightarrow> string \<Rightarrow> string \<Rightarrow> string \<Rightarrow> cloud_event" where
  "moderation_event src fr i status reason =
     ce_new (fr_uuid fr) (fr_event_now fr) (topic_string ChatModerationTopic) src i
       [(''id'', JStr i), (''action'', JStr status), (''reason'', JStr reason)]"

section \<open>Operations\<close>

definition new_message :: "('c, 's, 'b) chat_env \<Rightarrow> fresh \<Rightarrow> send_input \<Rightarrow> chat_message" where
  "new_message env fr inp =
     (case ce_filter env (TrimSpace (si_body inp)) of (clean, flagged, reason) \<Rightarrow>
        \<lparr>cm_id = ''msg_'' @ fr_id fr, cm_user = si_user inp, cm_room = si_room inp, cm_body = clean, cm_emojis = si_emojis inp,
         cm_status = (if flagged then ''flagged'' else ''published''), cm_reason = reason, cm_client = si_client inp, cm_created = fr_now fr\<rparr>)"

text \<open>What follows the rate limit.\<close>

definition send_allowed ::
  "('c, 's, 'b) chat_env \<Rightarrow> fresh \<Rightarrow> send_input \<Rightarrow> ('c, 's, 'b) chat_state \<Rightarrow> (go_error, chat_message, ('c, 's, 'b) chat_state) outcome" where
  "send_allowed env fr inp st =
     (case co_insert (ce_store env) (new_message env fr inp) (ct_store st) of
        (Inl e, s) \<Rightarrow> (Inl (yerr SystemInternal (''store: '' @ err_text e)), st\<lparr>ct_store := s\<rparr>)
      | (Inr m, s) \<Rightarrow> (Inr m, st\<lparr>ct_store := s,
            ct_bus := chat_publish env ChatMessageTopic (cm_room m) (message_event (ce_origin env) fr m) (ct_bus st)\<rparr>))"

definition send_error :: "('c, 's, 'b) chat_env \<Rightarrow> send_input \<Rightarrow> go_error option" where
  "send_error env inp =
     (let body = TrimSpace (si_body inp)
      in if si_user inp = [] \<or> si_room inp = [] then Some (yerr SystemInternal ''user_id and room_id required'')
         else if body = [] then Some (yerr SystemInternal ''body empty'')
         else if ce_max_body env < int (utf8Len body) then Some (yerr SystemInternal ''body too long'')
         else None)"

definition chat_send ::
  "('c, 's, 'b) chat_env \<Rightarrow> time \<Rightarrow> time \<Rightarrow> fresh \<Rightarrow> send_input \<Rightarrow> ('c, 's, 'b) chat_state \<Rightarrow>
     (go_error, chat_message, ('c, 's, 'b) chat_state) outcome" where
  "chat_send env t u fr inp st =
     (case send_error env inp of
        Some e \<Rightarrow> (Inl e, st)
      | None \<Rightarrow> (case ce_rate env of
          None \<Rightarrow> send_allowed env fr inp st
        | Some ops \<Rightarrow>
            (case allowed ops (ce_rate_max env) (ce_rate_win env) t u (chat_key (si_user inp) (si_room inp)) (ct_cache st) of
               (Inl e, c) \<Rightarrow> (Inl (yerr SystemDependencyUnavailable (''ratelimit: '' @ err_text e)), st\<lparr>ct_cache := c\<rparr>)
             | (Inr ok, c) \<Rightarrow>
                 if \<not> ok then (Inl (yerr SystemRateLimited ''rate limited''), st\<lparr>ct_cache := c\<rparr>)
                 else send_allowed env fr inp (st\<lparr>ct_cache := c\<rparr>))))"

definition validModerationStatus :: "string \<Rightarrow> bool" where
  "validModerationStatus st \<longleftrightarrow> st \<in> {''pending'', ''published'', ''hidden'', ''deleted'', ''flagged'', ''recall'', ''warn'', ''mute''}"

definition chat_moderate ::
  "('c, 's, 'b) chat_env \<Rightarrow> time \<Rightarrow> fresh \<Rightarrow> string \<Rightarrow> string \<Rightarrow> string \<Rightarrow> ('c, 's, 'b) chat_state \<Rightarrow>
     (go_error, chat_message, ('c, 's, 'b) chat_state) outcome" where
  "chat_moderate env now fr i status reason st =
     (if \<not> validModerationStatus status then (Inl (yerr SystemInternal ''invalid moderation status''), st)
      else (case co_moderate (ce_store env) now i status reason (ct_store st) of
          (Inl e, s) \<Rightarrow> (Inl (yerr SystemInternal (if errors_is e chat_not_found then ''message not found'' else ''moderate: '' @ err_text e)),
                         st\<lparr>ct_store := s\<rparr>)
        | (Inr m, s) \<Rightarrow> (Inr m, st\<lparr>ct_store := s,
            ct_bus := chat_publish env ChatModerationTopic (cm_room m) (moderation_event (ce_origin env) fr i status reason) (ct_bus st)\<rparr>)))"

definition chat_list :: "('c, 's, 'b) chat_env \<Rightarrow> string list \<Rightarrow> string \<Rightarrow> int \<Rightarrow> ('c, 's, 'b) chat_state \<Rightarrow> go_error + chat_message list" where
  "chat_list env ks room limit st =
     (case co_list (ce_store env) ks room (if limit \<le> 0 \<or> 200 < limit then 50 else limit) (ct_store st) of
        Inl e \<Rightarrow> Inl (yerr SystemInternal (''list: '' @ err_text e))
      | Inr ms \<Rightarrow> Inr ms)"

text \<open>The service of \<^verbatim>\<open>server.go\<close>: the moderation manager filters, and the cache always limits.\<close>

definition chat_server ::
  "(string \<Rightarrow> string) \<Rightarrow> string \<Rightarrow> green_config \<Rightarrow> 's chat_ops \<Rightarrow> 'c kv_ops \<Rightarrow>
     (envelope \<Rightarrow> 'b \<Rightarrow> (go_error, unit, 'b) outcome) option \<Rightarrow> string \<Rightarrow> (cloud_event \<Rightarrow> go_error + string) \<Rightarrow> ('c, 's, 'b) chat_env" where
  "chat_server lower name gc store cache pub src marshal =
     chat_new lower (Some (ModerationFilter_Check (Some (server_manager lower name gc))))
       \<lparr>ce_store = store, ce_pub = pub, ce_filter = localFilter_Check lower [], ce_rate = Some cache, ce_rate_max = 0, ce_rate_win = 0,
        ce_max_body = 0, ce_origin = src, ce_marshal = marshal\<rparr>"

section \<open>Counters\<close>

lemma read_count_digit: "read_count n (digit_char k # cs) = read_count (n * 10 + word_of_nat (k mod 10)) cs"
proof -
  have "(48 + k mod 10 + 208) mod 256 = k mod 10" using mod_less_divisor [of 10 k] by simp
  then show ?thesis by simp
qed

lemma read_count_dec_acc: "read_count 0 (dec_acc k acc) = read_count (word_of_nat k) acc"
proof (induction k acc rule: dec_acc.induct)
  case (1 k acc)
  show ?case
  proof (cases "k = 0")
    case True
    then show ?thesis by (simp add: dec_acc.simps)
  next
    case False
    have "word_of_nat (k div 10) * 10 + word_of_nat (k mod 10) = (word_of_nat (k div 10 * 10 + k mod 10) :: i64)"
      by (simp only: of_nat_add of_nat_mult of_nat_numeral)
    also have "k div 10 * 10 + k mod 10 = k" by simp
    finally have "word_of_nat (k div 10) * 10 + word_of_nat (k mod 10) = (word_of_nat k :: i64)" .
    with False "1.IH" show ?thesis by (simp only: dec_acc.simps [of k] if_False read_count_digit) simp
  qed
qed

lemma read_count_itoa: "n < 2 ^ 63 \<Longrightarrow> read_count 0 (itoa (word_of_nat n)) = word_of_nat n"
proof (cases "n = 0")
  case False
  assume n: "n < 2 ^ 63"
  then have s: "sint (word_of_nat n :: i64) = int n" by (rule sint_of_nat_small)
  then have "(word_of_nat n :: i64) \<noteq> 0" using False by (metis of_nat_eq_0_iff signed_0)
  then show ?thesis using s by (simp add: itoa_def read_count_dec_acc)
qed (simp add: itoa_def)

end
