(* ===== verification/ChatLimit.thy ===== *)
theory ChatLimit
  imports ChatService
begin

text \<open>
  What the rate limit of \<^verbatim>\<open>go/services/chat-svc/internal/service/service.go\<close> promises and what it does not:
  the bound of a window, proved from the contract of the cache, and the steady sender it refuses.
\<close>

section \<open>Runs\<close>

text \<open>Calls of \<open>allowed\<close> for one key, each with the clock readings of its two calls to the cache.\<close>

fun allowed_run :: "'c kv_ops \<Rightarrow> int \<Rightarrow> duration \<Rightarrow> string \<Rightarrow> (time \<times> time) list \<Rightarrow> 'c \<Rightarrow> (go_error + bool) list" where
  "allowed_run ops mx win key [] c = []"
| "allowed_run ops mx win key ((t, u) # ts) c =
     (let (r, c') = allowed ops mx win t u key c in r # allowed_run ops mx win key ts c')"

text \<open>Calls of \<open>Send\<close>, with their clock readings and fresh values.\<close>

type_synonym send_call = "time \<times> time \<times> fresh \<times> send_input"

fun send_run ::
  "('c, 's, 'b) chat_env \<Rightarrow> send_call list \<Rightarrow> ('c, 's, 'b) chat_state \<Rightarrow> (go_error + chat_message) list" where
  "send_run env [] st = []"
| "send_run env ((t, u, fr, inp) # cs) st =
     (let (r, st') = chat_send env t u fr inp st in r # send_run env cs st')"

text \<open>Clock readings that follow each other, as the mutex orders them.\<close>

fun clocked :: "time \<Rightarrow> (time \<times> time) list \<Rightarrow> bool" where
  "clocked now [] = True"
| "clocked now ((t, u) # ts) \<longleftrightarrow> now \<le> t \<and> t \<le> u \<and> clocked u ts"

definition call_times :: "send_call \<Rightarrow> time \<times> time" where
  "call_times c = (case c of (t, u, _) \<Rightarrow> (t, u))"

lemma call_times_simp [simp]: "call_times (t, u, x) = (t, u)"
  by (simp add: call_times_def)

text \<open>The messages of a user in a room a run accepted between two instants.\<close>

definition accepted :: "string \<Rightarrow> string \<Rightarrow> time \<Rightarrow> time \<Rightarrow> send_call list \<Rightarrow> (go_error + chat_message) list \<Rightarrow> nat" where
  "accepted user room a b calls rs =
     length (filter (\<lambda>((t, u, fr, inp), r). si_user inp = user \<and> si_room inp = room \<and> a \<le> t \<and> t < b \<and> is_ok r) (zip calls rs))"

section \<open>One call\<close>

lemma small_count: "n < 2 ^ 63 \<Longrightarrow> sint (read_count 0 (itoa (word_of_nat n))) = int n"
  by (simp add: read_count_itoa sint_of_nat_small)

context kv_store begin

text \<open>The cache shows for the key, from \<open>now\<close> on, nothing or one count from 1 to \<open>mx\<close>.\<close>

definition counted :: "nat \<Rightarrow> string \<Rightarrow> time \<Rightarrow> 's \<Rightarrow> bool" where
  "counted mx key now s \<longleftrightarrow> (\<forall>t \<ge> now. live s t key = None \<or> (\<exists>m. 1 \<le> m \<and> m \<le> mx \<and> live s t key = Some (itoa (word_of_nat m))))"

text \<open>It shows at least \<open>n\<close> up to \<open>b\<close>.\<close>

definition at_least :: "nat \<Rightarrow> nat \<Rightarrow> string \<Rightarrow> time \<Rightarrow> time \<Rightarrow> 's \<Rightarrow> bool" where
  "at_least n mx key now b s \<longleftrightarrow>
     (0 < n \<longrightarrow> (\<forall>t. now \<le> t \<and> t < b \<longrightarrow> (\<exists>m. n \<le> m \<and> m \<le> mx \<and> live s t key = Some (itoa (word_of_nat m)))))"

lemma set_kept:
  assumes "0 \<le> now" "0 < ttl" "now \<le> t"
  shows "live (snd (op_set ops now k v ttl s)) t k = None \<or> live (snd (op_set ops now k v ttl s)) t k = Some v"
  using assms set_live [of now ttl now k v s] live_const [of now t "snd (op_set ops now k v ttl s)" k] by fastforce

lemma allowed_at:
  fixes mx :: nat
  assumes "m \<le> mx" "mx < 2 ^ 63" "live s t key = None \<and> m = 0 \<or> live s t key = Some (itoa (word_of_nat m))"
  shows "allowed ops (int mx) win t u key s =
      (if m = mx then (Inr False, snd (op_get ops t key s))
       else (Inr True, snd (op_set ops u key (itoa (word_of_nat (Suc m))) win (snd (op_get ops t key s)))))"
proof -
  have c: "read_count 0 (coalesce (live s t key)) = word_of_nat m"
    using assms by (auto simp: coalesce_def read_count_itoa)
  have s: "sint (word_of_nat m :: i64) = int m" using assms(1,2) by (intro sint_of_nat_small) simp
  have g: "op_get ops t key s = (Inr (live s t key), snd (op_get ops t key s))" by (metis get_val prod.collapse)
  have w: "(case op_set ops u key v win x of (Inl e, c) \<Rightarrow> (Inl e, c) | (Inr _, c) \<Rightarrow> (Inr True, c)) =
      (Inr True, snd (op_set ops u key v win x))" for v x
    using set_ok [of u key v win x] by (cases "op_set ops u key v win x") auto
  show ?thesis using assms(1) by (subst allowed_def, subst g) (simp add: c s w add.commute)
qed

lemma allowed_cases:
  fixes mx :: nat
  assumes "counted mx key now s" and "now \<le> t" and "mx < 2 ^ 63"
  obtains m where "m \<le> mx" and "live s t key = None \<and> m = 0 \<or> live s t key = Some (itoa (word_of_nat m))"
    and "allowed ops (int mx) win t u key s =
      (if m = mx then (Inr False, snd (op_get ops t key s))
       else (Inr True, snd (op_set ops u key (itoa (word_of_nat (Suc m))) win (snd (op_get ops t key s)))))"
proof -
  obtain m where m: "m \<le> mx" "live s t key = None \<and> m = 0 \<or> live s t key = Some (itoa (word_of_nat m))"
    using assms(1,2) unfolding counted_def by (metis le0)
  from that [OF m allowed_at [OF m(1) assms(3) m(2)]] show thesis .
qed

lemma allowed_keeps:
  fixes mx :: nat
  assumes inv: "counted mx key now s" "at_least n mx key now b s"
    and t: "now \<le> t" "t \<le> u" "0 \<le> t" "0 < win" "mx < 2 ^ 63"
    and r: "allowed ops (int mx) win t u key s = (r, s')"
  shows "counted mx key u s'" and "r = Inr False \<Longrightarrow> at_least n mx key u b s'"
    and "t < b \<Longrightarrow> b \<le> u + win \<Longrightarrow> r \<noteq> Inr False \<Longrightarrow> at_least (Suc n) mx key u b s' \<and> n < mx"
    and "b \<le> t \<Longrightarrow> at_least n mx key u b s'" and "r = Inr True \<or> r = Inr False"
proof -
  obtain m where m: "m \<le> mx" "live s t key = None \<and> m = 0 \<or> live s t key = Some (itoa (word_of_nat m))"
    and e: "(r, s') = (if m = mx then (Inr False, snd (op_get ops t key s))
       else (Inr True, snd (op_set ops u key (itoa (word_of_nat (Suc m))) win (snd (op_get ops t key s)))))"
    using allowed_cases [OF inv(1) t(1,5), of win u] r by metis
  show tf: "r = Inr True \<or> r = Inr False" using e by (auto split: if_splits)
  have old: "live (snd (op_get ops t key s)) x = live s x" if "u \<le> x" for x using that t by (simp add: get_live)
  show "counted mx key u s'"
  proof (cases "m = mx")
    case True
    then show ?thesis using e inv(1) t old by (simp add: counted_def)
  next
    case False
    then have "live s' x key = None \<or> live s' x key = Some (itoa (word_of_nat (Suc m)))" if "u \<le> x" for x
      using e t that by (simp add: set_kept)
    then show ?thesis using False m(1) unfolding counted_def by (metis Suc_leI le_neq_implies_less le_add1 plus_1_eq_Suc)
  qed
  show "at_least n mx key u b s'" if "r = Inr False"
    using that e inv(2) t old by (auto simp: at_least_def split: if_splits)
  show "at_least n mx key u b s'" if "b \<le> t"
    using that t by (auto simp: at_least_def)
  show "at_least (Suc n) mx key u b s' \<and> n < mx" if "t < b" "b \<le> u + win" "r \<noteq> Inr False"
  proof -
    have new: "m < mx" "live s' x key = Some (itoa (word_of_nat (Suc m)))" if "u \<le> x" "x < u + win" for x
      using e \<open>r \<noteq> Inr False\<close> m(1) that t set_live by (auto split: if_splits)
    have "n \<le> m"
    proof (cases "n = 0")
      case False
      then obtain k where k: "n \<le> k" "k \<le> mx" "live s t key = Some (itoa (word_of_nat k))"
        using inv(2) t(1) \<open>t < b\<close> by (auto simp: at_least_def)
      have "m \<noteq> 0 \<or> live s t key = Some (itoa (word_of_nat m))" using m(2) k(3) by auto
      then have "itoa (word_of_nat m) = itoa (word_of_nat k)" using m(2) k(3) by auto
      then have "int m = int k" using small_count m(1) k(2) t(5) by (metis le_less_trans)
      then show ?thesis using k by simp
    qed simp
    moreover have "m < mx" using new(1) [of u] t by simp
    ultimately show ?thesis using new(2) that(2) unfolding at_least_def by (metis Suc_leI Suc_le_mono le_less_trans less_le_trans)
  qed
qed

lemma counted_later: "counted mx key now s \<Longrightarrow> now \<le> u \<Longrightarrow> counted mx key u s"
  by (simp add: counted_def)

lemma at_least_later: "at_least n mx key now b s \<Longrightarrow> now \<le> u \<Longrightarrow> at_least n mx key u b s"
  by (simp add: at_least_def)

lemma at_least_less: "at_least n mx key now b s \<Longrightarrow> k \<le> n \<Longrightarrow> at_least k mx key now b s"
  unfolding at_least_def by (meson le_trans less_le_trans)

text \<open>A call for another key leaves this one alone.\<close>

lemma allowed_frame:
  assumes "key' \<noteq> key" "t \<le> u" "u \<le> x"
  shows "live (snd (allowed ops mx win t u key' s)) x key = live s x key"
proof -
  have g: "live (snd (op_get ops t key' s)) x key = live s x key" using assms by (simp add: get_live)
  have w: "live (snd (op_set ops u key' v win y)) x key = live y x key" for v y using assms by (simp add: set_frame)
  obtain v s1 where s1: "op_get ops t key' s = (Inr v, s1)" by (metis get_val prod.collapse)
  obtain s2 where s2: "op_set ops u key' (itoa (read_count 0 (coalesce v) + 1)) win s1 = (Inr (), s2)" by (metis set_ok prod.collapse)
  have "snd (allowed ops mx win t u key' s) = s1 \<or> snd (allowed ops mx win t u key' s) = s2"
    using s1 s2 by (simp add: allowed_def Let_def)
  moreover have "live s1 x key = live s x key" using g s1 by simp
  moreover have "live s2 x key = live s1 x key" using w [of _ s1] s2 by (metis snd_conv)
  ultimately show ?thesis by auto
qed

lemma counted_frame:
  assumes "\<And>x. u \<le> x \<Longrightarrow> live s' x key = live s x key" and "now \<le> u"
  shows "counted mx key now s \<Longrightarrow> counted mx key u s'" and "at_least n mx key now b s \<Longrightarrow> at_least n mx key u b s'"
  using assms by (auto simp: counted_def at_least_def)

text \<open>One call of \<open>allowed\<close>, for any key, before, in or after the window from \<open>a\<close>.\<close>

lemma allowed_step:
  fixes mx :: nat
  assumes inv: "counted mx key now s" "at_least n mx key now (a + win) s" "n \<le> mx" "0 < n \<longrightarrow> a \<le> now"
    and t: "now \<le> t" "t \<le> u" "0 \<le> t" "0 < win" "mx < 2 ^ 63"
    and r: "allowed ops (int mx) win t u key' s = (r, s')"
    and k: "k \<le> (if key' = key \<and> a \<le> t \<and> t < a + win \<and> r = Inr True then 1 else 0)"
  shows "counted mx key u s' \<and> at_least (n + k) mx key u (a + win) s' \<and> n + k \<le> mx"
proof (cases "key' = key")
  case False
  then have same: "u \<le> x \<Longrightarrow> live s' x key = live s x key" for x using allowed_frame [OF False t(2)] r by (metis snd_conv)
  have "counted mx key u s'" by (rule counted_frame(1) [OF same _ inv(1)]) (use t in simp_all)
  moreover have "at_least n mx key u (a + win) s'" by (rule counted_frame(2) [OF same _ inv(2)]) (use t in simp_all)
  ultimately show ?thesis using k False inv(3) by simp
next
  case True
  note keeps = allowed_keeps [OF inv(1,2) t r [unfolded True]]
  show ?thesis
  proof (cases "r = Inr False \<or> a + win \<le> t")
    case True
    then have "k = 0" using k by auto
    then show ?thesis using keeps(1,2,4) True inv(3) by auto
  next
    case no: False
    show ?thesis
    proof (cases "t < a")
      case True
      then have "n = 0" "k = 0" using inv(4) t(1) k by auto
      then show ?thesis using keeps(1) by (simp add: at_least_def)
    next
      case False
      then have "at_least (Suc n) mx key u (a + win) s' \<and> n < mx" using keeps(3) no t by auto
      moreover have "n + k \<le> Suc n" using k by (auto split: if_splits)
      ultimately show ?thesis using keeps(1) at_least_less by fastforce
    qed
  qed
qed

end

section \<open>Runs of sends\<close>

lemma send_allowed_cache: "ct_cache (snd (send_allowed env fr inp st)) = ct_cache st"
  by (auto simp: send_allowed_def split: prod.split sum.split)

lemma chat_send_cases:
  assumes "ce_rate env = Some ops" and "chat_send env t u fr inp st = (r, st')"
  shows "(\<exists>e. r = Inl e) \<and> ct_cache st' = ct_cache st \<or>
    (\<exists>ra. allowed ops (ce_rate_max env) (ce_rate_win env) t u (chat_key (si_user inp) (si_room inp)) (ct_cache st) = (ra, ct_cache st') \<and>
      (is_ok r \<longrightarrow> ra = Inr True))"
proof (cases "send_error env inp")
  case None
  obtain ra c where a: "allowed ops (ce_rate_max env) (ce_rate_win env) t u (chat_key (si_user inp) (si_room inp)) (ct_cache st) = (ra, c)"
    by (cases "allowed ops (ce_rate_max env) (ce_rate_win env) t u (chat_key (si_user inp) (si_room inp)) (ct_cache st)")
  then have "ct_cache (snd (chat_send env t u fr inp st)) = c \<and> (is_ok (fst (chat_send env t u fr inp st)) \<longrightarrow> ra = Inr True)"
    using assms(1) None by (auto simp: chat_send_def send_allowed_cache split: sum.splits)
  with a assms(2) show ?thesis by auto
qed (use assms in \<open>auto simp: chat_send_def\<close>)

lemma accepted_Cons:
  "accepted user room a b ((t, u, fr, inp) # cs) (r # rs) =
     (if si_user inp = user \<and> si_room inp = room \<and> a \<le> t \<and> t < b \<and> is_ok r then 1 else 0) + accepted user room a b cs rs"
  by (simp add: accepted_def)

context kv_store begin

lemma send_run_bound:
  assumes env: "ce_rate env = Some ops" "ce_rate_max env = int mx" "0 < ce_rate_win env" "mx < 2 ^ 63"
    and "counted mx (chat_key user room) now (ct_cache st)" "at_least n mx (chat_key user room) now (a + ce_rate_win env) (ct_cache st)"
    and "clocked now (map call_times calls)" "0 \<le> now" "n \<le> mx" "0 < n \<longrightarrow> a \<le> now"
  shows "n + accepted user room a (a + ce_rate_win env) calls (send_run env calls st) \<le> mx"
  using assms(5-)
proof (induction calls arbitrary: n now st)
  case (Cons c calls)
  obtain t u fr inp where c: "c = (t, u, fr, inp)" by (metis prod_cases4)
  obtain r st' where r: "chat_send env t u fr inp st = (r, st')" by (cases "chat_send env t u fr inp st")
  let ?key = "chat_key user room" and ?b = "a + ce_rate_win env"
  have time: "now \<le> t" "t \<le> u" "0 \<le> t" and later: "clocked u (map call_times calls)" using Cons.prems c by auto
  define k where "k = (if si_user inp = user \<and> si_room inp = room \<and> a \<le> t \<and> t < ?b \<and> is_ok r then 1 else 0 :: nat)"
  have "counted mx ?key u (ct_cache st') \<and> at_least (n + k) mx ?key u ?b (ct_cache st') \<and> n + k \<le> mx"
    using chat_send_cases [OF env(1) r]
  proof (elim disjE exE conjE)
    fix e assume e: "r = Inl e" "ct_cache st' = ct_cache st"
    have "counted mx ?key u (ct_cache st)" "at_least n mx ?key u ?b (ct_cache st)"
      using counted_later [OF Cons.prems(1)] at_least_later [OF Cons.prems(2)] time by auto
    then show ?thesis using e Cons.prems(5) by (simp add: k_def)
  next
    fix ra assume ra: "allowed ops (ce_rate_max env) (ce_rate_win env) t u (chat_key (si_user inp) (si_room inp)) (ct_cache st) = (ra, ct_cache st')"
      and ok: "is_ok r \<longrightarrow> ra = Inr True"
    show ?thesis
      by (rule allowed_step [OF Cons.prems(1,2,5,6) time(1,2,3) env(3,4) ra [unfolded env(2)]]) (use ok in \<open>auto simp: k_def\<close>)
  qed
  moreover have "0 < n + k \<longrightarrow> a \<le> u" using Cons.prems(6) time by (auto simp: k_def split: if_splits)
  ultimately have "n + k + accepted user room a ?b calls (send_run env calls st') \<le> mx"
    using later time by (intro Cons.IH) auto
  then show ?case using c r by (simp add: accepted_Cons k_def)
qed (use assms in \<open>simp add: accepted_def\<close>)

end

section \<open>The bound and the steady sender\<close>

text \<open>C29: Whatever the runs of sends on the in-process cache, of any users in any rooms and with any store and filter:
  in no interval as long as the window are more than \<open>RateLimitMax\<close> messages of a user in a room accepted.\<close>

theorem chat_rate_bound:
  assumes "ce_rate env = Some mem_ops" and "ce_rate_max env = int mx" and "mx < 2 ^ 63" and "0 < ce_rate_win env"
    and "clocked now (map call_times calls)" and "0 \<le> now" and "mem_live (ct_cache st) now (chat_key user room) = None"
  shows "accepted user room a (a + ce_rate_win env) calls (send_run env calls st) \<le> mx"
proof -
  have "mem.counted mx (chat_key user room) now (ct_cache st)"
    using assms(7) mem.live_decays unfolding mem.counted_def by blast
  moreover have "mem.at_least 0 mx (chat_key user room) now (a + ce_rate_win env) (ct_cache st)" by (simp add: mem.at_least_def)
  ultimately show ?thesis using mem.send_run_bound [OF assms(1,2,4,3), where n = 0] assms(5,6) by simp
qed

text \<open>A sender who never pauses for a whole window, from one accepted message to the next attempt.\<close>

fun brisk :: "duration \<Rightarrow> (time \<times> time) list \<Rightarrow> bool" where
  "brisk win ((t, u) # (t', u') # ts) \<longleftrightarrow> t' < u + win \<and> brisk win ((t', u') # ts)"
| "brisk win ts = True"

context kv_store begin

lemma brisk_run:
  fixes mx :: nat
  assumes "0 < win" "mx < 2 ^ 63"
    and "\<And>x. now \<le> x \<Longrightarrow> x < e \<Longrightarrow> live s x key = None \<and> m = 0 \<or> live s x key = Some (itoa (word_of_nat m))"
    and "clocked now ts" "0 \<le> now" "ts \<noteq> [] \<longrightarrow> fst (hd ts) < e" "brisk win ts" "m + length ts \<le> Suc mx"
  shows "allowed_run ops (int mx) win key ts s = map (\<lambda>i. Inr (i < mx)) [m..<m + length ts]"
  using assms(3-)
proof (induction ts arbitrary: m now e s)
  case (Cons c ts)
  obtain t u where c: "c = (t, u)" by (cases c)
  have time: "now \<le> t" "t \<le> u" "t < e" "m \<le> mx" using Cons.prems c by auto
  note a = allowed_at [OF time(4) assms(2) Cons.prems(1) [OF time(1,3)], of win u]
  have list: "map (\<lambda>i. Inr (i < mx)) [m..<m + length (c # ts)] = Inr (m < mx) # map (\<lambda>i. Inr (i < mx)) [Suc m..<Suc m + length ts]"
    by (simp add: upt_conv_Cons del: upt_Suc)
  show ?case
  proof (cases "m = mx")
    case True
    then have "ts = []" using Cons.prems(6) by simp
    then show ?thesis using a True c by (simp add: list)
  next
    case False
    let ?s = "snd (op_set ops u key (itoa (word_of_nat (Suc m))) win (snd (op_get ops t key s)))"
    have "allowed_run ops (int mx) win key ts ?s = map (\<lambda>i. Inr (i < mx)) [Suc m..<Suc m + length ts]"
    proof (rule Cons.IH)
      show "live ?s x key = None \<and> Suc m = 0 \<or> live ?s x key = Some (itoa (word_of_nat (Suc m)))" if "u \<le> x" "x < u + win" for x
        using that assms(1) time Cons.prems(3) by (simp add: set_live)
      show "ts \<noteq> [] \<longrightarrow> fst (hd ts) < u + win" "brisk win ts" using Cons.prems(5) c by (cases ts; auto)+
    qed (use Cons.prems c time in auto)
    then show ?thesis unfolding list using a False time(4) c by (simp del: upt_Suc)
  qed
qed simp

end

text \<open>The limit is not the one its name says: of a sender who waits a little less than the window between messages,
  so that no window holds more than one or two, the message after the first \<open>RateLimitMax\<close> is refused.\<close>

theorem chat_steady_sender_refused:
  assumes "0 < win" and "mx < 2 ^ 63" and "clocked now ts" and "0 \<le> now" and "brisk win ts" and "length ts = Suc mx"
    and "mem_live c now key = None"
  shows "allowed_run mem_ops (int mx) win key ts c = replicate mx (Inr True) @ [Inr False]"
proof -
  have "mem_live c x key = None" if "now \<le> x" for x using assms(7) that mem.live_decays by blast
  then have "allowed_run mem_ops (int mx) win key ts c = map (\<lambda>i. Inr (i < mx)) [0..<0 + length ts]"
    using assms by (intro mem.brisk_run [of win mx now "fst (hd ts) + 1"]) auto
  also have "\<dots> = replicate mx (Inr True) @ [Inr False]"
    by (rule nth_equalityI) (auto simp: assms(6) nth_append)
  finally show ?thesis .
qed

end
