(* ===== verification/ChatProps.thy ===== *)
theory ChatProps
  imports ChatLimit
begin

text \<open>
  What holds of the chat service: the messages it keeps and lists, the mask of the word filter, the choice of the
  moderation provider, the request signature, and the witnesses of the rate limit.
\<close>

section \<open>A concrete service\<close>

definition demo_chat :: "(mem_store, chat_table, unit) chat_env" where
  "demo_chat = chat_server (\<lambda>s. s) [] \<lparr>gc_key = [], gc_secret = [], gc_region = [], gc_endpoint = [], gc_mock = False\<rparr>
     (chat_pg_ops no_faults) mem_ops None [] (\<lambda>_. Inr [])"

definition demo_send :: send_input where
  "demo_send = \<lparr>si_user = ''u'', si_room = ''r'', si_body = '' you fuck '', si_emojis = [], si_client = []\<rparr>"

definition demo_fresh :: "string \<Rightarrow> time \<Rightarrow> fresh" where
  "demo_fresh i now = \<lparr>fr_id = i, fr_uuid = ''e'', fr_now = now, fr_event_now = now\<rparr>"

definition demo_state :: "(mem_store, chat_table, unit) chat_state" where
  "demo_state = \<lparr>ct_cache = Map.empty, ct_store = Map.empty, ct_bus = ()\<rparr>"

lemma demo_chat_simps [simp]:
  "ce_rate demo_chat = Some mem_ops" "ce_rate_max demo_chat = 3" "ce_rate_win demo_chat = 5 * second" "ce_max_body demo_chat = 256"
  "ce_store demo_chat = chat_pg_ops no_faults" "ce_pub demo_chat = None"
  by (simp_all add: demo_chat_def chat_server_def chat_new_def)

lemma no_entry [simp]: "mem_live Map.empty t k = None"
  by (simp add: mem_live_def mem_gc_def)

theorem chat_rate_bound_witness:
  "accepted ''u'' ''r'' 1 (1 + 5 * second)
     [(1, 1, demo_fresh ''a'' 1, demo_send), (2, 3, demo_fresh ''b'' 3, demo_send)]
     (send_run demo_chat [(1, 1, demo_fresh ''a'' 1, demo_send), (2, 3, demo_fresh ''b'' 3, demo_send)] demo_state) \<le> 3"
  using chat_rate_bound [where env = demo_chat and mx = 3 and now = 0 and st = demo_state and user = "''u''" and room = "''r''" and a = 1
      and calls = "[(1, 1, demo_fresh ''a'' 1, demo_send), (2, 3, demo_fresh ''b'' 3, demo_send)]"]
  by (simp add: demo_state_def)

text \<open>With the limit of the server, 3 messages in 5 seconds: a message every 4.9 seconds.\<close>

theorem chat_steady_sender_refused_witness:
  "allowed_run mem_ops 3 5000 ''k'' [(0, 0), (4900, 4900), (9800, 9800), (14700, 14700)] Map.empty =
     [Inr True, Inr True, Inr True, Inr False]"
  using chat_steady_sender_refused [where win = 5000 and mx = 3 and now = 0 and c = Map.empty and key = "''k''"
      and ts = "[(0, 0), (4900, 4900), (9800, 9800), (14700, 14700)]"]
  by (simp add: numeral_3_eq_3)

section \<open>Messages are kept and listed\<close>

context chat_store begin

lemma sent_listed:
  assumes "send_allowed env fr inp st = (Inr m, st')" and "ce_store env = ops"
    and "messages (ct_store st) (cm_id m) = None" and "client_free m (messages (ct_store st))"
    and "\<forall>x \<in> ran (messages (ct_store st)). cm_created x < cm_created m"
    and "iterates ks (messages (ct_store st'))" "new_message env fr inp = m"
    and "limit = (if l \<le> 0 \<or> 200 < l then 50 else l)"
  shows "\<exists>rest. map_sum id (map bare) (chat_list env ks (cm_room m) l st') = Inr (bare m # rest)"
proof -
  have status: "status_check (cm_status m)" "shown (cm_room m) m"
    using assms(7) by (auto simp: new_message_def status_check_def shown_def split: prod.splits if_splits)
  have ins: "co_insert ops m (ct_store st) = (Inr m, ct_store st')"
    using assms(1,2,7) by (auto simp: send_allowed_def split: prod.splits sum.splits)
  have view: "messages (ct_store st') = (messages (ct_store st))(cm_id m \<mapsto> bare m)"
    using insert_message [OF assms(3,4) status(1)] ins by simp
  let ?rows = "filter (shown (cm_room m)) (rows_in ks (messages (ct_store st')))"
  have mem: "bare m \<in> set ?rows"
    using assms(6) status(2) by (force simp: set_rows_in view iterates_def)
  have others: "x = bare m \<or> cm_created x < cm_created m" if "x \<in> set ?rows" for x
    using that assms(5) by (auto simp: set_rows_in view ranI split: if_splits)
  obtain y ys where sorted: "sort_key (\<lambda>m. - cm_created m) ?rows = y # ys"
    using mem by (metis empty_iff empty_set list.exhaust set_sort)
  then have "\<forall>x \<in> set ys. - cm_created y \<le> - cm_created x"
    using sorted_sort_key [of "\<lambda>m. - cm_created m" ?rows] by simp
  moreover have "set (y # ys) = set ?rows" using sorted by (metis set_sort)
  ultimately have "bare m \<in> set (y # ys)" "y \<in> set ?rows" "\<forall>x \<in> set ys. cm_created x \<le> cm_created y"
    using mem by (simp, metis list.set_intros(1), simp)
  then have "y = bare m" using others [of y] by auto
  moreover have "0 < nat limit" using assms(8) by simp
  moreover have "map_sum id (map bare) (chat_list env ks (cm_room m) l st') =
      Inr (take (nat limit) (sort_key (\<lambda>m. - cm_created m) ?rows))"
    using list_messages [of ks "cm_room m" limit "ct_store st'"] unfolding chat_list_def assms(2) assms(8) [symmetric]
    by (cases "co_list ops ks (cm_room m) limit (ct_store st')") auto
  ultimately show ?thesis using sorted by (cases "nat limit") auto
qed

end

lemma client_free_view: "\<not> client_taken (cm_user m) (nullif (cm_client m)) t \<Longrightarrow> client_free m (chat_pg_view t)"
  by (auto simp: client_free_def client_taken_def chat_pg_view_def ran_def nullif_def read_message_def coalesce_def split: option.splits) metis

lemma chat_send_ok:
  assumes "chat_send env t u fr inp st = (Inr m, st')"
  obtains st0 where "send_allowed env fr inp st0 = (Inr m, st')" and "ct_store st0 = ct_store st"
  using assms by (auto simp: chat_send_def split: option.splits prod.splits sum.splits if_splits)

lemma pg_insert_ok:
  assumes "chat_pg_insert flt m t = (Inr m', t')"
  shows "m' = m" and "status_check (cm_status m)" and "t (cm_id m) = None" and "\<not> client_taken (cm_user m) (nullif (cm_client m)) t"
  using assms by (auto simp: chat_pg_insert_def stmt_def split: option.splits if_splits)

lemma send_allowed_pg:
  assumes "send_allowed env fr inp st = (Inr m, st')" and "ce_store env = chat_pg_ops flt"
  shows "chat_pg_insert flt m (ct_store st) = (Inr m, ct_store st')" and "new_message env fr inp = m"
  using assms pg_insert_ok(1)
  by (auto simp: send_allowed_def chat_pg_ops_def split: prod.splits sum.splits) (metis prod.inject)+

text \<open>C30: On PostgreSQL every message \<open>Send\<close> accepts is listed in its room until it is moderated, first when it is the newest; so is
  a message the moderation decided to block, hide or recall, as \<open>flagged\<close>.  It comes back without its emojis.\<close>

theorem sent_message_listed:
  assumes "chat_send env t u fr inp st = (Inr m, st')" and "ce_store env = chat_pg_ops no_faults"
    and "\<forall>q \<in> ran (ct_store st). cq_created q < cm_created m" and "iterates ks (ct_store st')"
  shows "(\<exists>rest. chat_list env ks (cm_room m) l st' = Inr (bare m # rest)) \<and>
    cm_status m = (if fst (snd (ce_filter env (TrimSpace (si_body inp)))) then ''flagged'' else ''published'')"
proof -
  obtain st0 where st0: "send_allowed env fr inp st0 = (Inr m, st')" "ct_store st0 = ct_store st" using assms(1) by (rule chat_send_ok)
  note pg = send_allowed_pg [OF st0(1) assms(2)]
  note ok = pg_insert_ok [OF pg(1)]
  have "\<forall>x \<in> ran (chat_pg_view (ct_store st0)). cm_created x < cm_created m"
    using assms(3) st0(2) by (auto simp: chat_pg_view_def ran_def read_message_def)
  moreover have "iterates ks (chat_pg_view (ct_store st'))" using assms(4) by (simp add: iterates_def chat_pg_view_def dom_def)
  moreover have "chat_pg_view (ct_store st0) (cm_id m) = None" using ok(3) by (simp add: chat_pg_view_def)
  ultimately obtain rest where "map_sum id (map bare) (chat_list env ks (cm_room m) l st') = Inr (bare m # rest)"
    using chat_pg.sent_listed [OF st0(1) assms(2) _ client_free_view [OF ok(4)] _ _ pg(2) refl] by blast
  then obtain ms where ms: "chat_list env ks (cm_room m) l st' = Inr ms" "map bare ms = bare m # rest"
    by (cases "chat_list env ks (cm_room m) l st'") auto
  have "bare x = x" if "x \<in> set ms" for x
    using that ms(1) assms(2)
    by (auto simp: chat_list_def chat_pg_ops_def chat_pg_list_def set_rows_in dest!: in_set_takeD split: if_splits)
  then have "map bare ms = ms" by (simp add: map_idI)
  then show ?thesis using ms pg(2) by (auto simp: new_message_def split: prod.splits)
qed

definition demo_message :: chat_message where
  "demo_message = new_message demo_chat (demo_fresh ''a'' 1) demo_send"

definition demo_sent :: "(mem_store, chat_table, unit) chat_state" where
  "demo_sent = snd (chat_send demo_chat 1 1 (demo_fresh ''a'' 1) demo_send demo_state)"

lemma demo_trim: "TrimSpace (si_body demo_send) = ''you fuck''" "utf8Len ''you fuck'' = 8"
  by code_simp+

lemma demo_filter: "ce_filter demo_chat ''you fuck'' = (''you ****'', True, ''local:sensitive_word'')"
proof -
  have "ce_filter demo_chat = ModerationFilter_Check (Some (server_manager (\<lambda>s. s) []
      \<lparr>gc_key = [], gc_secret = [], gc_region = [], gc_endpoint = [], gc_mock = False\<rparr>))"
    by (simp add: demo_chat_def chat_server_def chat_new_def)
  moreover have "ModerationFilter_Check (Some (server_manager (\<lambda>s. s) []
      \<lparr>gc_key = [], gc_secret = [], gc_region = [], gc_endpoint = [], gc_mock = False\<rparr>)) ''you fuck'' =
    (''you ****'', True, ''local:sensitive_word'')"
    by code_simp
  ultimately show ?thesis by simp
qed

lemma demo_message_simps: "cm_id demo_message = ''msg_a''" "cm_room demo_message = ''r''" "cm_status demo_message = ''flagged''"
    "cm_created demo_message = 1" "cm_client demo_message = []"
  by (simp_all add: demo_message_def new_message_def demo_trim demo_filter demo_fresh_def) (simp_all add: demo_send_def)

lemma demo_sent_ok: "chat_send demo_chat 1 1 (demo_fresh ''a'' 1) demo_send demo_state = (Inr demo_message, demo_sent)"
proof -
  have e: "send_error demo_chat demo_send = None"
    by (simp add: send_error_def demo_trim Let_def) (simp add: demo_send_def)
  obtain c where c: "allowed mem_ops 3 (5 * second) 1 1 (chat_key (si_user demo_send) (si_room demo_send)) Map.empty = (Inr True, c)"
    by (simp add: allowed_def mem_get_def mem_set_def mem_gc_def coalesce_def)
  have "fst (send_allowed demo_chat (demo_fresh ''a'' 1) demo_send (demo_state\<lparr>ct_cache := c\<rparr>)) = Inr demo_message"
    by (simp add: send_allowed_def demo_message_def [symmetric] demo_state_def chat_pg_ops_def chat_pg_insert_def demo_message_simps
        status_check_def client_taken_def)
  then have "fst (chat_send demo_chat 1 1 (demo_fresh ''a'' 1) demo_send demo_state) = Inr demo_message"
    using c by (simp add: chat_send_def e demo_state_def)
  then show ?thesis by (simp add: demo_sent_def prod_eq_iff)
qed

lemma demo_sent_store: "dom (ct_store demo_sent) = {''msg_a''}"
proof -
  obtain st0 where st0: "send_allowed demo_chat (demo_fresh ''a'' 1) demo_send st0 = (Inr demo_message, demo_sent)"
    "ct_store st0 = ct_store demo_state"
    using demo_sent_ok by (rule chat_send_ok)
  then obtain q where "ct_store demo_sent = Map.empty(''msg_a'' \<mapsto> q)"
    using send_allowed_pg(1) [OF st0(1), of no_faults]
    by (auto simp: demo_state_def chat_pg_insert_def demo_message_simps client_taken_def dest: sym split: if_splits)
  then show ?thesis by simp
qed

theorem sent_message_listed_witness:
  "(\<exists>rest. chat_list demo_chat [''msg_a''] (cm_room demo_message) 0 demo_sent = Inr (bare demo_message # rest)) \<and>
    cm_status demo_message = (if fst (snd (ce_filter demo_chat (TrimSpace (si_body demo_send)))) then ''flagged'' else ''published'')"
  by (rule sent_message_listed [OF demo_sent_ok]) (simp_all add: demo_state_def iterates_def demo_sent_store)

section \<open>The table is well-typed\<close>

datatype chat_request =
    SendReq time time fresh send_input
  | ModerateReq time fresh string string string

fun chat_handle :: "('c, 's, 'b) chat_env \<Rightarrow> chat_request \<Rightarrow> ('c, 's, 'b) chat_state \<Rightarrow> ('c, 's, 'b) chat_state" where
  "chat_handle env (SendReq t u fr inp) st = snd (chat_send env t u fr inp st)"
| "chat_handle env (ModerateReq now fr i status reason) st = snd (chat_moderate env now fr i status reason st)"

definition typed_row :: "chat_sql \<Rightarrow> bool" where
  "typed_row q \<longleftrightarrow> cq_user q \<noteq> [] \<and> cq_room q \<noteq> [] \<and> status_check (cq_status q) \<and> cq_client q \<noteq> Some [] \<and> cq_reason q \<noteq> Some []"

definition client_key :: "chat_table \<Rightarrow> string \<Rightarrow> (string \<times> string option) option" where
  "client_key t i = map_option (\<lambda>q. (cq_user q, cq_client q)) (t i)"

definition typed_table :: "chat_table \<Rightarrow> bool" where
  "typed_table t \<longleftrightarrow> (\<forall>i q. t i = Some q \<longrightarrow> typed_row q) \<and>
     (\<forall>i j user c. client_key t i = Some (user, Some c) \<and> client_key t j = Some (user, Some c) \<longrightarrow> i = j)"

lemma nullif_not_empty [simp]: "nullif s \<noteq> Some []"
  by (simp add: nullif_def)

lemma typed_update:
  assumes "typed_table t" "t i = Some q" "typed_row q'" "cq_user q' = cq_user q" "cq_client q' = cq_client q"
  shows "typed_table (t(i \<mapsto> q'))"
proof -
  have "client_key (t(i \<mapsto> q')) = client_key t" by (rule ext) (use assms in \<open>simp add: client_key_def\<close>)
  then show ?thesis using assms(1,3) by (simp add: typed_table_def)
qed

lemma typed_insert:
  assumes "typed_table t" "typed_row q" "\<not> client_taken (cq_user q) (cq_client q) t"
  shows "typed_table (t(i \<mapsto> q))"
proof -
  have "client_key t j \<noteq> Some (cq_user q, Some c)" if "cq_client q = Some c" for j c
    using assms(3) that by (auto simp: client_taken_def client_key_def ran_def)
  moreover have "client_key (t(i \<mapsto> q)) j = (if j = i then Some (cq_user q, cq_client q) else client_key t j)" for j
    by (simp add: client_key_def)
  ultimately show ?thesis using assms(1,2) by (auto simp: typed_table_def split: if_splits)
qed

lemma insert_typed:
  assumes "typed_table t" "cm_user m \<noteq> []" "cm_room m \<noteq> []"
  shows "typed_table (snd (chat_pg_insert flt m t))"
  using assms
  by (auto simp: chat_pg_insert_def stmt_def typed_row_def intro!: typed_insert split: option.split)

lemma moderate_typed:
  assumes "typed_table t"
  shows "typed_table (snd (chat_pg_moderate flt now i status reason t))"
proof -
  have "typed_table (t(i \<mapsto> q\<lparr>cq_status := status, cq_reason := nullif reason, cq_updated := now\<rparr>))"
    if "t i = Some q" "status_check status" for q
    using assms that by (intro typed_update [OF assms that(1)]) (auto simp: typed_table_def typed_row_def)
  then show ?thesis using assms by (auto simp: chat_pg_moderate_def stmt_def split: option.splits)
qed

lemma chat_handle_typed:
  assumes "ce_store env = chat_pg_ops flt" and "typed_table (ct_store st)"
  shows "typed_table (ct_store (chat_handle env req st))"
proof (cases req)
  case (SendReq t u fr inp)
  show ?thesis
  proof (cases "send_error env inp")
    case None
    then have "cm_user (new_message env fr inp) \<noteq> []" "cm_room (new_message env fr inp) \<noteq> []"
      by (auto simp: send_error_def new_message_def Let_def split: if_splits prod.split)
    then have "typed_table (snd (co_insert (ce_store env) (new_message env fr inp) (ct_store st)))"
      using insert_typed assms by (simp add: chat_pg_ops_def)
    then have "typed_table (ct_store (snd (send_allowed env fr inp (st\<lparr>ct_cache := c\<rparr>))))"
      "typed_table (ct_store (snd (send_allowed env fr inp st)))" for c
      by (auto simp: send_allowed_def split: prod.split sum.split)
    then show ?thesis using SendReq None assms(2) by (auto simp: chat_send_def split: option.split prod.split sum.split)
  qed (use SendReq assms in \<open>simp add: chat_send_def\<close>)
next
  case (ModerateReq now fr i status reason)
  have "typed_table (snd (co_moderate (ce_store env) now i status reason (ct_store st)))"
    using moderate_typed assms by (simp add: chat_pg_ops_def)
  then show ?thesis using ModerateReq assms(2) by (auto simp: chat_moderate_def split: prod.split sum.split)
qed



section \<open>Statuses the service accepts and the table refuses\<close>

text \<open>The statuses \<open>recall\<close>, \<open>warn\<close> and \<open>mute\<close> pass the service's own validation; on PostgreSQL the moderation of a
  stored message with one of them fails on the check and changes nothing, in memory it succeeds and unlists the message.\<close>

theorem moderate_status_refused:
  assumes "status \<in> {''recall'', ''warn'', ''mute''}" and "ct_store st i = Some q" and "ce_store env = chat_pg_ops no_faults"
    and "ct_store st' i = Some m" and "ce_store env' = chat_mem_ops"
  shows "chat_moderate env now fr i status reason st = (Inl (yerr SystemInternal (''moderate: '' @ err_text check_error)), st) \<and>
    (\<exists>m'. fst (chat_moderate env' now fr i status reason st') = Inr m' \<and> \<not> shown room m')"
  using assms
  by (auto simp: chat_moderate_def validModerationStatus_def chat_pg_ops_def chat_pg_moderate_def status_check_def chat_mem_ops_def
      chat_mem_moderate_def shown_def Let_def)

theorem moderate_status_refused_witness:
  "fst (chat_moderate demo_chat 5 (demo_fresh ''b'' 5) ''msg_a'' ''recall'' [] demo_sent) =
     Inl (yerr SystemInternal (''moderate: '' @ err_text check_error))"
proof -
  obtain q where "ct_store demo_sent ''msg_a'' = Some q" using demo_sent_store by blast
  then show ?thesis
    using moderate_status_refused [of "''recall''" demo_sent "''msg_a''" q demo_chat
        "\<lparr>ct_cache = Map.empty, ct_store = [''msg_a'' \<mapsto> demo_message], ct_bus = ()\<rparr>" demo_message "chat_server (\<lambda>s. s) [] \<lparr>gc_key = [], gc_secret = [], gc_region = [], gc_endpoint = [], gc_mock = False\<rparr> chat_mem_ops mem_ops None [] (\<lambda>_. Inr [])"
        5 "demo_fresh ''b'' 5" "[]" "[]"]
    by (simp add: chat_server_def chat_new_def)
qed

section \<open>The mask\<close>

lemma contains_stars:
  assumes "w \<noteq> []" "CHR ''*'' \<notin> set w"
  shows "contains (replicate n CHR ''*'' @ s) w = contains s w"
proof (induction n)
  case (Suc n)
  have "\<not> has_prefix (CHR ''*'' # r) w" for r using assms by (cases w) (auto simp: has_prefix_conv)
  with Suc show ?case by simp
qed simp

lemma replaced_prefix:
  assumes "CHR ''*'' \<notin> set v" "0 < n" "has_prefix (replace_all s w (replicate n CHR ''*'')) v"
  shows "has_prefix s v"
  using assms
proof (induction s arbitrary: v)
  case (Cons c cs)
  show ?case
  proof (cases v)
    case (Cons d ds)
    show ?thesis
    proof (cases "w \<noteq> [] \<and> has_prefix (c # cs) w")
      case True
      then show ?thesis using Cons.prems Cons by (cases n) (auto simp: has_prefix_conv)
    next
      case False
      then have "c = d" "has_prefix (replace_all cs w (replicate n CHR ''*'')) ds"
        using Cons.prems(3) Cons by (auto simp: has_prefix_def)
      then show ?thesis using Cons.IH [of ds] Cons.prems Cons by (auto simp: has_prefix_def)
    qed
  qed (simp add: has_prefix_def)
qed (auto simp: has_prefix_def)

lemma replaced_absent:
  assumes "w \<noteq> []" "CHR ''*'' \<notin> set w" "0 < n"
  shows "\<not> contains (replace_all s w (replicate n CHR ''*'')) w"
proof (induction "length s" arbitrary: s rule: less_induct)
  case less
  show ?case
  proof (cases s)
    case (Cons c cs)
    have shorter: "\<not> contains (replace_all r w (replicate n CHR ''*'')) w" if "length r < length s" for r using less that by blast
    show ?thesis
    proof (cases "has_prefix s w")
      case True
      have "length (drop (length w) s) < length s" using assms(1) Cons by (cases w) simp_all
      with True Cons assms show ?thesis using shorter by (simp add: contains_stars)
    next
      case False
      have eq: "replace_all s w (replicate n CHR ''*'') = c # replace_all cs w (replicate n CHR ''*'')" using False Cons by simp
      moreover have "\<not> has_prefix (replace_all s w (replicate n CHR ''*'')) w" using False replaced_prefix [OF assms(2,3)] by blast
      moreover have "\<not> contains (replace_all cs w (replicate n CHR ''*'')) w" using shorter Cons by simp
      ultimately show ?thesis by (metis contains.simps(2))
    qed
  qed (use assms in simp)
qed

text \<open>A text with a word of the list is hidden, and the text put in its place no longer has that word as it is spelt in
  the list; but where the text spells it in another case only, nothing is masked.\<close>

theorem mask_removes_word:
  assumes "found_word lower words text = Some w" and "CHR ''*'' \<notin> set w"
  shows "\<exists>d. local_inspect lower words text = Inr d \<and> dc_action d = ActionHide \<and> \<not> contains (dc_cleaned d) w \<and>
    (contains text w \<or> dc_cleaned d = text)"
proof -
  have w: "w \<noteq> []" using assms(1) by (auto simp: found_word_def find_Some_iff)
  then have "0 < utf8Len w" by (simp add: utf8Len.simps [of w])
  then show ?thesis
    using replaced_absent [OF w assms(2)] replace_all_absent [of "text" w] assms(1) by (auto simp: local_inspect_def)
qed

theorem mask_removes_word_witness:
  "\<exists>d. local_inspect (\<lambda>s. s) [''shit'', ''fuck''] ''oh fuck'' = Inr d \<and> dc_action d = ActionHide \<and> \<not> contains (dc_cleaned d) ''fuck'' \<and>
    (contains ''oh fuck'' ''fuck'' \<or> dc_cleaned d = ''oh fuck'')"
  by (rule mask_removes_word) (simp_all add: found_word_def has_prefix_def)

section \<open>The choice of the provider\<close>

text \<open>Choosing \<open>aliyun_green\<close> with full credentials, or in mock mode, turns the moderation off: the stand-in passes every
  text without its two test markers, unchanged, also one the word list would hide.\<close>

theorem green_choice_passes_all:
  assumes "gc_mock c \<or> gc_key c = [] \<or> gc_secret c \<noteq> []" and "\<not> contains (lower text) ''aliyun-block-test''"
    and "\<not> contains (lower text) ''aliyun-warn-test''" and "found_word lower DefaultWords text = Some w"
  shows "ModerationFilter_Check (Some (server_manager lower ''aliyun_green'' c)) text = (text, False, []) \<and>
    fst (snd (ModerationFilter_Check (Some (server_manager lower ''local'' c)) text))"
proof -
  have "NewAliyunGreenProvider lower (c\<lparr>gc_mock := gc_mock c \<or> gc_key c = []\<rparr>) =
      Inr \<lparr>pv_name = ''aliyun_green'', pv_inspect = green_inspect lower\<rparr>"
    using assms(1) by (auto simp: NewAliyunGreenProvider_def)
  then have "Inspect (server_manager lower ''aliyun_green'' c) text =
      \<lparr>dc_action = ActionPass, dc_reason = [], dc_provider = ''aliyun_green'', dc_cleaned = text\<rparr>"
    using assms(2,3) by (simp add: server_manager_def NewManager_def Inspect_def green_inspect_def Let_def)
  moreover have "dc_action (Inspect (server_manager lower ''local'' c) text) = ActionHide"
    using assms(4) by (simp add: server_manager_def NewManager_def Inspect_def local_provider_def local_inspect_def NewLocalProvider_def Let_def)
  ultimately show ?thesis by (simp add: ModerationFilter_Check_def Let_def)
qed

theorem green_choice_passes_all_witness:
  "ModerationFilter_Check (Some (server_manager (\<lambda>s. s) ''aliyun_green''
      \<lparr>gc_key = ''k'', gc_secret = ''s'', gc_region = ''cn'', gc_endpoint = [], gc_mock = False\<rparr>)) ''fuck'' = (''fuck'', False, [])"
  using green_choice_passes_all [of "\<lparr>gc_key = ''k'', gc_secret = ''s'', gc_region = ''cn'', gc_endpoint = [], gc_mock = False\<rparr>"
      "\<lambda>s. s" "''fuck''" "''fuck''"]
  by (simp add: found_word_def DefaultWords_def has_prefix_def)

section \<open>The signature\<close>

text \<open>The percent-encoding of RFC 3986, which the signature is over.\<close>

definition percent_token :: "char \<Rightarrow> string" where
  "percent_token c = (if unreserved c then [c] else percent_byte c)"

definition rfc3986 :: "string \<Rightarrow> string" where
  "rfc3986 s = concat (map percent_token s)"

lemma replace_one: "replace_all s [c] new = concat (map (\<lambda>x. if x = c then new else [x]) s)"
  by (induction s) (auto simp: has_prefix_def)

lemma hex_upper_set: "n < 16 \<Longrightarrow> hex_upper n \<in> set ''0123456789ABCDEF''"
  unfolding hex_upper_def by (rule nth_mem) simp

lemma hex_upper_inj: "n < 16 \<Longrightarrow> hex_upper n = CHR ''7'' \<Longrightarrow> n = 7" "n < 16 \<Longrightarrow> hex_upper n = CHR ''E'' \<Longrightarrow> n = 14"
  by (auto simp: hex_upper_def nth_Cons' split: if_splits)

lemma high_digit: "of_char c div 16 < (16 :: nat)"
proof -
  have "of_char c < (256 :: nat)" by (cases c) (simp add: of_char_def)
  then show ?thesis by linarith
qed

lemma hex_of_char: "hex_upper (of_char c div 16) \<in> set ''0123456789ABCDEF''" "hex_upper (of_char c mod 16) \<in> set ''0123456789ABCDEF''"
  by (rule hex_upper_set [OF high_digit], rule hex_upper_set, simp)

lemma not_tilde:
  assumes "\<not> unreserved c"
  shows "\<not> (hex_upper (of_char c div 16) = CHR ''7'' \<and> hex_upper (of_char c mod 16) = CHR ''E'')"
proof
  assume "hex_upper (of_char c div 16) = CHR ''7'' \<and> hex_upper (of_char c mod 16) = CHR ''E''"
  then have "of_char c div 16 = (7 :: nat)" "of_char c mod 16 = (14 :: nat)" using hex_upper_inj high_digit by simp_all
  then have "of_char c = (126 :: nat)" by presburger
  then have "c = char_of (126 :: nat)" using char_of_char [of c, where ?'a = nat] by simp
  moreover have "char_of (126 :: nat) = CHR ''~''" by code_simp
  ultimately have "c = CHR ''~''" by simp
  then show False using assms by (simp add: unreserved_def)
qed

lemma plus_token: "concat (map (\<lambda>x. if x = CHR ''+'' then ''%20'' else [x]) (escape_byte c)) = percent_token c"
  using hex_of_char [of c] by (auto simp: escape_byte_def percent_token_def percent_byte_def unreserved_def between_def hex_upper_def)

lemma keep_token: "d \<notin> set t \<Longrightarrow> concat (map (\<lambda>x. if x = d then new else [x]) t) = t"
  by (induction t) auto

lemma no_star: "CHR ''*'' \<notin> set (percent_token c)"
  using hex_of_char [of c] by (auto simp: percent_token_def percent_byte_def unreserved_def between_def)

lemma no_encoded_tilde: "replace_all (rfc3986 s) ''%7E'' ''~'' = rfc3986 s"
proof (induction s)
  case (Cons c s)
  show ?case
  proof (cases "unreserved c")
    case True
    then have "c \<noteq> CHR ''%''" by (auto simp: unreserved_def between_def)
    with True Cons show ?thesis by (simp add: rfc3986_def percent_token_def has_prefix_def)
  next
    case False
    note ne = not_tilde [OF False] hex_of_char [of c]
    have "hex_upper (of_char c div 16) \<noteq> CHR ''%''" "hex_upper (of_char c mod 16) \<noteq> CHR ''%''" using ne by auto
    with False ne(1) Cons show ?thesis
      by (simp add: rfc3986_def percent_token_def percent_byte_def has_prefix_def)
  qed
qed (simp add: rfc3986_def)

text \<open>C32: \<open>percentEncode\<close>, three replacements after Go's query escaping, is the percent-encoding of RFC 3986.\<close>

theorem percent_encode_rfc3986: "percentEncode s = rfc3986 s"
proof -
  have "replace_all (QueryEscape s) ''+'' ''%20'' = rfc3986 s"
    by (induction s) (simp_all add: replace_one QueryEscape_def rfc3986_def plus_token)
  moreover have "replace_all (rfc3986 s) ''*'' ''%2A'' = rfc3986 s"
    by (induction s) (simp_all add: replace_one rfc3986_def keep_token no_star)
  ultimately show ?thesis using no_encoded_tilde by (simp add: percentEncode_def)
qed

end
