(* ===== verification/AdminService.thy ===== *)
theory AdminService
  imports FeedingSafety FeatureFlags
begin

text \<open>
  \<^verbatim>\<open>go/services/admin-svc/internal/service/service.go\<close>: the operators' switches, over any store of safety limits, any
  store of flags and any sink of word lists.
\<close>

section \<open>Data\<close>

record feeding_policy =
  fp_room :: string
  fp_open :: bool
  fp_cooldown :: u32
  fp_user_cooldown :: u32
  fp_start :: string
  fp_end :: string
  fp_daily :: u32

record wordlist_entry =
  wl_region :: string
  wl_language :: string
  wl_word :: string
  wl_action :: string

record 'w wordlist_ops =
  wo_upsert :: "wordlist_entry list \<Rightarrow> string \<Rightarrow> 'w \<Rightarrow> (go_error, int, 'w) outcome"
  wo_list :: "string \<Rightarrow> string \<Rightarrow> 'w \<Rightarrow> go_error + wordlist_entry list"
  wo_version :: "'w \<Rightarrow> go_error + int"

section \<open>The in-process word list\<close>

record wordlist =
  ws_entries :: "wordlist_entry list"
  ws_version :: int

definition NewInMemoryWordlistSink :: wordlist where
  "NewInMemoryWordlistSink = \<lparr>ws_entries = [], ws_version = 0\<rparr>"

definition word_key :: "wordlist_entry \<Rightarrow> string" where
  "word_key e = wl_region e @ ''/'' @ wl_language e @ ''/'' @ wl_word e"

definition word_defaults :: "wordlist_entry \<Rightarrow> wordlist_entry" where
  "word_defaults e =
     e\<lparr>wl_action := (if wl_action e = [] then ''hide'' else wl_action e), wl_region := (if wl_region e = [] then ''global'' else wl_region e),
       wl_language := (if wl_language e = [] then ''zh'' else wl_language e)\<rparr>"

text \<open>The index: the last position of each key.\<close>

definition word_index :: "wordlist_entry list \<Rightarrow> string \<rightharpoonup> nat" where
  "word_index es = fold (\<lambda>(i, e) m. m(word_key e \<mapsto> i)) (zip [0..<length es] es) Map.empty"

definition upsert_word :: "wordlist_entry \<Rightarrow> wordlist_entry list \<times> (string \<rightharpoonup> nat) \<Rightarrow> wordlist_entry list \<times> (string \<rightharpoonup> nat)" where
  "upsert_word e0 st =
     (let (es, idx) = st; e = word_defaults e0
      in case idx (word_key e) of
           Some i \<Rightarrow> (es[i := e], idx)
         | None \<Rightarrow> (es @ [e], idx(word_key e \<mapsto> length es)))"

definition wordlist_upsert :: "wordlist_entry list \<Rightarrow> string \<Rightarrow> wordlist \<Rightarrow> (go_error, int, wordlist) outcome" where
  "wordlist_upsert new by_whom s =
     (let es = fst (fold upsert_word new (ws_entries s, word_index (ws_entries s)))
      in (Inr (ws_version s + 1), \<lparr>ws_entries = es, ws_version = ws_version s + 1\<rparr>))"

definition wordlist_list :: "string \<Rightarrow> string \<Rightarrow> wordlist \<Rightarrow> go_error + wordlist_entry list" where
  "wordlist_list region language s =
     Inr (filter (\<lambda>e. (region = [] \<or> wl_region e = region) \<and> (language = [] \<or> wl_language e = language)) (ws_entries s))"

definition wordlist_version :: "wordlist \<Rightarrow> go_error + int" where
  "wordlist_version s = Inr (ws_version s)"

definition wordlist_ops :: "wordlist wordlist_ops" where
  "wordlist_ops = \<lparr>wo_upsert = wordlist_upsert, wo_list = wordlist_list, wo_version = wordlist_version\<rparr>"

section \<open>The service\<close>

text \<open>The mutable part, and what is configured; \<open>None\<close> is a nil interface.\<close>

record ('s, 'f, 'w) admin_state =
  ad_policies :: "string \<rightharpoonup> feeding_policy"
  ad_safety :: 's
  ad_flags :: 'f
  ad_words :: 'w

record ('s, 'f, 'w) admin_env =
  ae_safety :: "'s safety_ops option"
  ae_flags :: "'f flag_ops option"
  ae_words :: "'w wordlist_ops option"

definition room_demo_policy :: feeding_policy where
  "room_demo_policy = \<lparr>fp_room = ''room_demo'', fp_open = True, fp_cooldown = 30, fp_user_cooldown = 60, fp_start = [], fp_end = [], fp_daily = 12\<rparr>"

definition admin_new :: "'s \<Rightarrow> 'f \<Rightarrow> 'w \<Rightarrow> ('s, 'f, 'w) admin_state" where
  "admin_new s f w = \<lparr>ad_policies = [''room_demo'' \<mapsto> room_demo_policy], ad_safety = s, ad_flags = f, ad_words = w\<rparr>"

definition ImportWordlist ::
  "('s, 'f, 'w) admin_env \<Rightarrow> wordlist_entry list \<Rightarrow> string \<Rightarrow> ('s, 'f, 'w) admin_state \<Rightarrow> (go_error, int, ('s, 'f, 'w) admin_state) outcome" where
  "ImportWordlist env es by_whom st =
     (case ae_words env of
        None \<Rightarrow> (Inl (yerr SystemInternal ''wordlist sink not configured''), st)
      | Some ops \<Rightarrow>
          if es = [] then (Inl (yerr SystemInternal ''empty entries''), st)
          else (case wo_upsert ops es by_whom (ad_words st) of (r, w) \<Rightarrow> (r, st\<lparr>ad_words := w\<rparr>)))"

definition ListWordlist :: "('s, 'f, 'w) admin_env \<Rightarrow> string \<Rightarrow> string \<Rightarrow> ('s, 'f, 'w) admin_state \<Rightarrow> go_error + wordlist_entry list" where
  "ListWordlist env region language st =
     (case ae_words env of
        None \<Rightarrow> Inl (yerr SystemInternal ''wordlist sink not configured'')
      | Some ops \<Rightarrow> wo_list ops region language (ad_words st))"

definition WordlistVersion :: "('s, 'f, 'w) admin_env \<Rightarrow> ('s, 'f, 'w) admin_state \<Rightarrow> go_error + int" where
  "WordlistVersion env st = (case ae_words env of None \<Rightarrow> Inr 0 | Some ops \<Rightarrow> wo_version ops (ad_words st))"

abbreviation no_flag_store :: go_error where
  "no_flag_store \<equiv> yerr SystemInternal ''feature flag store not configured''"

definition ListFlags :: "('s, 'f, 'w) admin_env \<Rightarrow> ('s, 'f, 'w) admin_state \<Rightarrow> go_error + flag list" where
  "ListFlags env st = (case ae_flags env of None \<Rightarrow> Inl no_flag_store | Some ops \<Rightarrow> fo_list ops (ad_flags st))"

definition GetFlag :: "('s, 'f, 'w) admin_env \<Rightarrow> string \<Rightarrow> ('s, 'f, 'w) admin_state \<Rightarrow> go_error + flag" where
  "GetFlag env name st = (case ae_flags env of None \<Rightarrow> Inl no_flag_store | Some ops \<Rightarrow> fo_get ops name (ad_flags st))"

definition SetFlag ::
  "('s, 'f, 'w) admin_env \<Rightarrow> time \<Rightarrow> flag \<Rightarrow> ('s, 'f, 'w) admin_state \<Rightarrow> (go_error, unit, ('s, 'f, 'w) admin_state) outcome" where
  "SetFlag env now f st =
     (case ae_flags env of
        None \<Rightarrow> (Inl no_flag_store, st)
      | Some ops \<Rightarrow>
          if fl_name f = [] then (Inl (yerr SystemInternal ''missing flag name''), st)
          else (case fo_set ops now (f\<lparr>fl_scope := (if fl_scope f = [] then ''global'' else fl_scope f)\<rparr>) (ad_flags st) of
              (r, fl) \<Rightarrow> (r, st\<lparr>ad_flags := fl\<rparr>)))"

definition GetPolicy :: "string \<Rightarrow> ('s, 'f, 'w) admin_state \<Rightarrow> go_error + feeding_policy" where
  "GetPolicy room st =
     (case ad_policies st room of None \<Rightarrow> Inl (yerr RoomNotFound ''policy not found'') | Some p \<Rightarrow> Inr p)"

text \<open>Products of a 32-bit number of seconds fit into a duration.\<close>

definition toLimits :: "feeding_policy \<Rightarrow> limits" where
  "toLimits p = \<lparr>lm_room = uint (fp_cooldown p) * second, lm_user = uint (fp_user_cooldown p) * second, lm_daily = fp_daily p\<rparr>"

definition UpdatePolicy ::
  "('s, 'f, 'w) admin_env \<Rightarrow> time \<Rightarrow> feeding_policy \<Rightarrow> ('s, 'f, 'w) admin_state \<Rightarrow> (go_error, unit, ('s, 'f, 'w) admin_state) outcome" where
  "UpdatePolicy env now p st =
     (if fp_room p = [] then (Inl (yerr SystemInternal ''missing room_id''), st)
      else let st' = st\<lparr>ad_policies := (ad_policies st)(fp_room p \<mapsto> p)\<rparr>
           in (case ae_safety env of
               None \<Rightarrow> (Inr (), st')
             | Some ops \<Rightarrow> (case so_put ops now (fp_room p) (toLimits p) (ad_safety st) of (r, s) \<Rightarrow> (r, st'\<lparr>ad_safety := s\<rparr>))))"

definition GetGlobalSafety ::
  "('s, 'f, 'w) admin_env \<Rightarrow> time \<Rightarrow> ('s, 'f, 'w) admin_state \<Rightarrow> (go_error, limits, ('s, 'f, 'w) admin_state) outcome" where
  "GetGlobalSafety env now st =
     (case ae_safety env of
        None \<Rightarrow> (Inr DefaultGlobal, st)
      | Some ops \<Rightarrow> (case so_get ops now [] (ad_safety st) of
          (Inl e, s) \<Rightarrow> (Inl e, st\<lparr>ad_safety := s\<rparr>)
        | (Inr None, s) \<Rightarrow> (Inr DefaultGlobal, st\<lparr>ad_safety := s\<rparr>)
        | (Inr (Some l), s) \<Rightarrow> (Inr l, st\<lparr>ad_safety := s\<rparr>)))"

definition PutGlobalSafety ::
  "('s, 'f, 'w) admin_env \<Rightarrow> time \<Rightarrow> limits \<Rightarrow> ('s, 'f, 'w) admin_state \<Rightarrow> (go_error, unit, ('s, 'f, 'w) admin_state) outcome" where
  "PutGlobalSafety env now l st =
     (case ae_safety env of
        None \<Rightarrow> (Inl (yerr SystemInternal ''safety store not configured''), st)
      | Some ops \<Rightarrow> (case so_put ops now [] l (ad_safety st) of (r, s) \<Rightarrow> (r, st\<lparr>ad_safety := s\<rparr>)))"

section \<open>The simulation of the gray release\<close>

record gray_simulation =
  gs_flag :: string
  gs_enabled :: bool
  gs_samples :: int
  gs_hits :: int
  gs_configured :: int

text \<open>The share in percent is \<open>gs_hits / gs_samples * 100\<close> as a float, left to the reader.  Without a flag store the code
  calls a method of a nil interface.\<close>

definition SimulateWebrtcGray :: "('s, 'f, 'w) admin_env \<Rightarrow> int \<Rightarrow> ('s, 'f, 'w) admin_state \<Rightarrow> go_error + gray_simulation" where
  "SimulateWebrtcGray env n st =
     (let samples = (if n \<le> 0 then 1000 else n); name = ''room.webrtc.enabled''
      in case ae_flags env of
           None \<Rightarrow> Inl (Plain ''panic: nil flag store'')
         | Some ops \<Rightarrow> (case fo_get ops name (ad_flags st) of
             Inl e \<Rightarrow> Inl e
           | Inr f \<Rightarrow>
               let pct = (case fl_value f ''gray_percent'' of None \<Rightarrow> 0 | Some v \<Rightarrow> (case value_int v of None \<Rightarrow> 0 | Some p \<Rightarrow> p));
                   hit = (\<lambda>i. 100 \<le> pct \<or> 0 < pct \<and> Hash100 (''room_sim_'' @ dec_nat i) < pct)
               in Inr \<lparr>gs_flag = name, gs_enabled = fl_enabled f, gs_samples = samples,
                       gs_hits = (if fl_enabled f then int (length (filter hit [0..<nat samples])) else 0), gs_configured = pct\<rparr>))"

end
