(* ===== verification/AdminHttp.thy ===== *)
theory AdminHttp
  imports AdminService GoText GoJson Tokens
begin

text \<open>
  \<^verbatim>\<open>go/services/admin-svc/internal/transport\<close>: the guard of the operators' routes and their login (\<^verbatim>\<open>auth.go\<close>), the
  handlers and the proxies (\<^verbatim>\<open>http.go\<close>).  Bodies come decoded, or with the error of the decoder; an answer is a value.
\<close>

section \<open>The guard\<close>

datatype 'w auth_header = NoBearer | Bearer 'w

text \<open>Without a verifier everyone passes; the answer is then no claims.\<close>

definition RequireAdmin ::
  "('d, 't, 'w) jwt_lib \<Rightarrow> (string \<Rightarrow> 'k \<Rightarrow> (go_error, 'd verifying_key, 'k) outcome) option \<Rightarrow> time \<Rightarrow> 'w auth_header \<Rightarrow> 'k \<Rightarrow>
     (go_error, claims option, 'k) outcome" where
  "RequireAdmin lib verifier now auth k =
     (case verifier of
        None \<Rightarrow> (Inr None, k)
      | Some verifying \<Rightarrow> (case auth of
          NoBearer \<Rightarrow> (Inl (yerr AuthLoginRequired ''missing bearer token''), k)
        | Bearer tok \<Rightarrow> (case Parse lib verifying now tok k of
            (Inl e, k') \<Rightarrow> (Inl (yerr AuthTokenExpired (err_text e)), k')
          | (Inr c, k') \<Rightarrow>
              if cl_scope c \<noteq> ScopeAdmin then (Inl (yerr AuthForbidden ''admin scope required''), k') else (Inr (Some c), k'))))"

record login_config =
  lc_password :: string
  lc_audience :: string
  lc_ttl :: duration

text \<open>The routes use this audience and eight hours.\<close>

definition admin_login_config :: "string \<Rightarrow> login_config" where
  "admin_login_config password = \<lparr>lc_password = password, lc_audience = ''yunmao.admin'', lc_ttl = 8 * 3600 * second\<rparr>"

definition HandleAdminLogin ::
  "('d, 't, 'w) jwt_lib \<Rightarrow> ('d, 'k) signer option \<Rightarrow> login_config \<Rightarrow> time \<Rightarrow> go_error + string \<Rightarrow> 'k \<Rightarrow> go_error + ('w \<times> int)" where
  "HandleAdminLogin lib signer cfg now body k =
     (case signer of
        None \<Rightarrow> Inl (yerr AuthLoginRequired ''admin login unavailable'')
      | Some sg \<Rightarrow>
          if lc_password cfg = [] then Inl (yerr AuthLoginRequired ''admin login unavailable'')
          else (case body of
              Inl _ \<Rightarrow> Inl (yerr SystemInternal ''invalid json'')
            | Inr password \<Rightarrow>
                if password = [] \<or> password \<noteq> lc_password cfg then Inl (yerr AuthLoginRequired ''invalid credentials'')
                else (case SignLogin lib sg ''admin'' ScopeAdmin (lc_audience cfg) (lc_ttl cfg) now k of
                    Inl e \<Rightarrow> Inl (yerr SystemInternal (''sign token: '' @ err_text e))
                  | Inr tok \<Rightarrow> Inr (tok, lc_ttl cfg div second))))"

section \<open>Requests and answers\<close>

record safety_dto =
  sd_room :: u32
  sd_user :: u32
  sd_daily :: u32

record flag_dto =
  fd_enabled :: bool
  fd_scope :: string
  fd_value :: "(string \<rightharpoonup> flag_value) option"
  fd_by :: string

datatype wordlist_body = CsvBody string string | JsonBody "go_error + (wordlist_entry list \<times> string)"

datatype admin_request =
    GetPolicyReq string
  | UpdatePolicyReq string "go_error + feeding_policy"
  | GetSafetyReq
  | PutSafetyReq "go_error + safety_dto"
  | ListFlagsReq
  | GetFlagReq string
  | SetFlagReq string "go_error + flag_dto"
  | GraySimReq string
  | PutWordsReq wordlist_body
  | ListWordsReq string string
  | WordsVersionReq

datatype admin_answer =
    AdError go_error
  | AdNoContent
  | AdPolicy feeding_policy
  | AdSafety safety_dto
  | AdFlags "flag list"
  | AdFlag flag
  | AdGray gray_simulation
  | AdImported int nat
  | AdWords "wordlist_entry list"
  | AdVersion int

section \<open>Handlers\<close>

abbreviation bad_json :: admin_answer where
  "bad_json \<equiv> AdError (yerr SystemInternal ''invalid json'')"

fun answered :: "('a \<Rightarrow> admin_answer) \<Rightarrow> go_error + 'a \<Rightarrow> admin_answer" where
  "answered f (Inl e) = AdError e"
| "answered f (Inr a) = f a"

definition updatePolicy ::
  "('s, 'f, 'w) admin_env \<Rightarrow> time \<Rightarrow> string \<Rightarrow> go_error + feeding_policy \<Rightarrow> ('s, 'f, 'w) admin_state \<Rightarrow> admin_answer \<times> ('s, 'f, 'w) admin_state" where
  "updatePolicy env now room body st =
     (case body of
        Inl _ \<Rightarrow> (bad_json, st)
      | Inr p \<Rightarrow> (case UpdatePolicy env now (p\<lparr>fp_room := room\<rparr>) st of (r, st') \<Rightarrow> (answered (\<lambda>_. AdNoContent) r, st')))"

text \<open>The stores refuse negative durations, so the division rounds as in Go.\<close>

definition getGlobalSafety :: "('s, 'f, 'w) admin_env \<Rightarrow> time \<Rightarrow> ('s, 'f, 'w) admin_state \<Rightarrow> admin_answer \<times> ('s, 'f, 'w) admin_state" where
  "getGlobalSafety env now st =
     (case GetGlobalSafety env now st of (r, st') \<Rightarrow>
        (answered (\<lambda>l. AdSafety \<lparr>sd_room = word_of_int (lm_room l div second), sd_user = word_of_int (lm_user l div second),
           sd_daily = lm_daily l\<rparr>) r, st'))"

definition putGlobalSafety ::
  "('s, 'f, 'w) admin_env \<Rightarrow> time \<Rightarrow> go_error + safety_dto \<Rightarrow> ('s, 'f, 'w) admin_state \<Rightarrow> admin_answer \<times> ('s, 'f, 'w) admin_state" where
  "putGlobalSafety env now body st =
     (case body of
        Inl _ \<Rightarrow> (bad_json, st)
      | Inr d \<Rightarrow> (case PutGlobalSafety env now
            \<lparr>lm_room = uint (sd_room d) * second, lm_user = uint (sd_user d) * second, lm_daily = sd_daily d\<rparr> st of
          (r, st') \<Rightarrow> (answered (\<lambda>_. AdNoContent) r, st')))"

definition getFlag :: "('s, 'f, 'w) admin_env \<Rightarrow> string \<Rightarrow> ('s, 'f, 'w) admin_state \<Rightarrow> admin_answer" where
  "getFlag env name st =
     (case GetFlag env name st of
        Inl e \<Rightarrow> AdError (if errors_is e FlagNotFound then yerr RoomNotFound ''flag not found'' else e)
      | Inr f \<Rightarrow> AdFlag f)"

definition setFlag ::
  "('s, 'f, 'w) admin_env \<Rightarrow> time \<Rightarrow> string \<Rightarrow> go_error + flag_dto \<Rightarrow> ('s, 'f, 'w) admin_state \<Rightarrow> admin_answer \<times> ('s, 'f, 'w) admin_state" where
  "setFlag env now name body st =
     (case body of
        Inl _ \<Rightarrow> (bad_json, st)
      | Inr d \<Rightarrow>
          let f = \<lparr>fl_name = name, fl_enabled = fd_enabled d, fl_scope = fd_scope d,
                   fl_value = (case fd_value d of None \<Rightarrow> Map.empty | Some m \<Rightarrow> m), fl_updated = zero_time, fl_by = fd_by d\<rparr>
          in (case SetFlag env now f st of
              (Inl e, st') \<Rightarrow> (AdError e, st')
            | (Inr _, st') \<Rightarrow> (case GetFlag env name st' of Inl _ \<Rightarrow> (AdNoContent, st') | Inr g \<Rightarrow> (AdFlag g, st'))))"

text \<open>\<open>Atoi\<close> of the query: 0 where it is no number, the nearest bound where it does not fit.\<close>

definition grayWebrtcSim :: "(string \<Rightarrow> int) \<Rightarrow> ('s, 'f, 'w) admin_env \<Rightarrow> string \<Rightarrow> ('s, 'f, 'w) admin_state \<Rightarrow> admin_answer" where
  "grayWebrtcSim atoi env room_count st = answered AdGray (SimulateWebrtcGray env (atoi room_count) st)"

section \<open>The word list\<close>

fun split_char :: "char \<Rightarrow> string \<Rightarrow> string list" where
  "split_char sep [] = [[]]"
| "split_char sep (c # cs) =
     (if c = sep then [] # split_char sep cs
      else (case split_char sep cs of [] \<Rightarrow> [[c]] | p # ps \<Rightarrow> (c # p) # ps))"

definition column :: "nat \<Rightarrow> string list \<Rightarrow> string" where
  "column n cols = (if n < length cols then TrimSpace (cols ! n) else [])"

definition csv_entry :: "string \<Rightarrow> wordlist_entry list" where
  "csv_entry line0 =
     (let line = TrimSpace line0
      in if line = [] \<or> has_prefix line ''#'' then []
         else let cols = split_char CHR '','' line;
                  e = \<lparr>wl_region = column 0 cols, wl_language = column 1 cols, wl_word = column 2 cols, wl_action = column 3 cols\<rparr>
              in if wl_word e \<noteq> [] then [e] else [])"

definition csv_entries :: "string \<Rightarrow> wordlist_entry list" where
  "csv_entries dat = concat (map csv_entry (split_char CHR 0x0A dat))"

definition putWordlist ::
  "('s, 'f, 'w) admin_env \<Rightarrow> wordlist_body \<Rightarrow> ('s, 'f, 'w) admin_state \<Rightarrow> admin_answer \<times> ('s, 'f, 'w) admin_state" where
  "putWordlist env body st =
     (let dto = (case body of
            CsvBody admin dat \<Rightarrow>
              if 2 ^ 20 < length dat then Inl (yerr SystemInternal ''body too large'') else Inr (csv_entries dat, admin)
          | JsonBody (Inl _) \<Rightarrow> Inl (yerr SystemInternal ''invalid json'')
          | JsonBody (Inr d) \<Rightarrow> Inr d)
      in case dto of
           Inl e \<Rightarrow> (AdError e, st)
         | Inr (es, by_whom) \<Rightarrow> (case ImportWordlist env es by_whom st of
             (r, st') \<Rightarrow> (answered (\<lambda>v. AdImported v (length es)) r, st')))"

section \<open>All routes\<close>

fun admin_handle ::
  "(string \<Rightarrow> int) \<Rightarrow> ('s, 'f, 'w) admin_env \<Rightarrow> time \<Rightarrow> admin_request \<Rightarrow> ('s, 'f, 'w) admin_state \<Rightarrow> admin_answer \<times> ('s, 'f, 'w) admin_state" where
  "admin_handle atoi env now (GetPolicyReq room) st = (answered AdPolicy (GetPolicy room st), st)"
| "admin_handle atoi env now (UpdatePolicyReq room body) st = updatePolicy env now room body st"
| "admin_handle atoi env now GetSafetyReq st = getGlobalSafety env now st"
| "admin_handle atoi env now (PutSafetyReq body) st = putGlobalSafety env now body st"
| "admin_handle atoi env now ListFlagsReq st = (answered AdFlags (ListFlags env st), st)"
| "admin_handle atoi env now (GetFlagReq name) st = (getFlag env name st, st)"
| "admin_handle atoi env now (SetFlagReq name body) st = setFlag env now name body st"
| "admin_handle atoi env now (GraySimReq n) st = (grayWebrtcSim atoi env n st, st)"
| "admin_handle atoi env now (PutWordsReq body) st = putWordlist env body st"
| "admin_handle atoi env now (ListWordsReq region language) st = (answered AdWords (ListWordlist env region language st), st)"
| "admin_handle atoi env now WordsVersionReq st = (answered AdVersion (WordlistVersion env st), st)"

text \<open>A route: the guard, and behind it the handler.\<close>

definition admin_route ::
  "('d, 't, 'v) jwt_lib \<Rightarrow> (string \<Rightarrow> 'k \<Rightarrow> (go_error, 'd verifying_key, 'k) outcome) option \<Rightarrow> (string \<Rightarrow> int) \<Rightarrow> ('s, 'f, 'w) admin_env \<Rightarrow>
     time \<Rightarrow> 'v auth_header \<Rightarrow> admin_request \<Rightarrow> 'k \<times> ('s, 'f, 'w) admin_state \<Rightarrow> admin_answer \<times> 'k \<times> ('s, 'f, 'w) admin_state" where
  "admin_route lib verifier atoi env now auth req st =
     (case RequireAdmin lib verifier now auth (fst st) of
        (Inl e, k) \<Rightarrow> (AdError e, k, snd st)
      | (Inr _, k) \<Rightarrow> (case admin_handle atoi env now req (snd st) of (ans, st') \<Rightarrow> (ans, k, st')))"

section \<open>Proxies\<close>

record proxy_request =
  px_method :: string
  px_url :: string
  px_headers :: "(string \<times> string) list"

definition trim_slashes :: "string \<Rightarrow> string" where
  "trim_slashes base = rev (dropWhile (\<lambda>c. c = CHR ''/'') (rev base))"

text \<open>The headers that are there, in this order.\<close>

definition forwarded :: "string list \<Rightarrow> (string \<Rightarrow> string) \<Rightarrow> (string \<times> string) list" where
  "forwarded names headers = map (\<lambda>n. (n, headers n)) (filter (\<lambda>n. headers n \<noteq> []) names)"

definition proxy_answer :: "string \<Rightarrow> (proxy_request \<Rightarrow> go_error + (nat \<times> string)) \<Rightarrow> proxy_request \<Rightarrow> go_error + (nat \<times> string)" where
  "proxy_answer what client req =
     (case client req of Inl e \<Rightarrow> Inl (yerr SystemDependencyUnavailable (what @ '': '' @ err_text e)) | Inr r \<Rightarrow> Inr r)"

definition proxyGetWallet :: "(proxy_request \<Rightarrow> go_error + (nat \<times> string)) \<Rightarrow> string \<Rightarrow> string \<Rightarrow> go_error + (nat \<times> string)" where
  "proxyGetWallet client base user =
     proxy_answer ''billing'' client \<lparr>px_method = ''GET'', px_url = trim_slashes base @ ''/api/v1/wallets/'' @ user, px_headers = []\<rparr>"

definition proxyGetHold :: "(proxy_request \<Rightarrow> go_error + (nat \<times> string)) \<Rightarrow> string \<Rightarrow> string \<Rightarrow> go_error + (nat \<times> string)" where
  "proxyGetHold client base hold =
     proxy_answer ''billing'' client \<lparr>px_method = ''GET'', px_url = trim_slashes base @ ''/api/v1/wallets/holds/'' @ hold, px_headers = []\<rparr>"

text \<open>For a base that \<open>net/url\<close> prints as it was written.\<close>

definition proxyListRooms ::
  "(proxy_request \<Rightarrow> go_error + (nat \<times> string)) \<Rightarrow> string \<Rightarrow> (string \<times> string) list \<Rightarrow> (string \<Rightarrow> string) \<Rightarrow> go_error + (nat \<times> string)" where
  "proxyListRooms client base query headers =
     (let q = encode_values query
      in proxy_answer ''room-svc'' client
           \<lparr>px_method = ''GET'', px_url = trim_slashes base @ ''/v1/rooms'' @ (if q = [] then [] else ''?'' @ q),
            px_headers = forwarded [''Authorization'', ''Cookie''] headers\<rparr>)"

definition proxyGetRoom ::
  "(proxy_request \<Rightarrow> go_error + (nat \<times> string)) \<Rightarrow> string \<Rightarrow> string \<Rightarrow> (string \<Rightarrow> string) \<Rightarrow> go_error + (nat \<times> string)" where
  "proxyGetRoom client base i headers =
     proxy_answer ''room-svc'' client
       \<lparr>px_method = ''GET'', px_url = trim_slashes base @ ''/v1/rooms/'' @ i, px_headers = forwarded [''Authorization''] headers\<rparr>"

definition proxyRotateStreamKey ::
  "(proxy_request \<Rightarrow> go_error + (nat \<times> string)) \<Rightarrow> string \<Rightarrow> string \<Rightarrow> (string \<Rightarrow> string) \<Rightarrow> go_error + (nat \<times> string)" where
  "proxyRotateStreamKey client base i headers =
     proxy_answer ''room-svc'' client
       \<lparr>px_method = ''POST'', px_url = trim_slashes base @ ''/v1/rooms/'' @ i @ ''/rotate-stream-key'', px_headers = forwarded [''Authorization''] headers\<rparr>"

end
