(* ===== verification/AdminProps.thy ===== *)
theory AdminProps
  imports AdminHttp RoomService FeedingService KeyDemo FeedingDemo
begin

text \<open>
  What the operators' service guarantees: its word list is a map, its guard lets through administrators only, its
  simulation is the release; and what it only shows.
\<close>

section \<open>The word list\<close>

definition word_map :: "wordlist_entry list \<Rightarrow> string \<rightharpoonup> wordlist_entry" where
  "word_map es = map_of (map (\<lambda>e. (word_key e, e)) es)"

text \<open>Keys are distinct and the index finds each entry.\<close>

definition indexed :: "wordlist_entry list \<Rightarrow> (string \<rightharpoonup> nat) \<Rightarrow> bool" where
  "indexed es idx \<longleftrightarrow> distinct (map word_key es) \<and> (\<forall>k i. idx k = Some i \<longleftrightarrow> i < length es \<and> word_key (es ! i) = k)"

definition put_word :: "wordlist_entry \<Rightarrow> (string \<rightharpoonup> wordlist_entry) \<Rightarrow> string \<rightharpoonup> wordlist_entry" where
  "put_word e m = m(word_key e \<mapsto> e)"

lemma indexed_None: "indexed es idx \<Longrightarrow> idx k = None \<longleftrightarrow> k \<notin> set (map word_key es)"
  unfolding indexed_def in_set_conv_nth length_map by (metis length_map not_Some_eq nth_map)

lemma word_index_snoc: "word_index (es @ [e]) = (word_index es)(word_key e \<mapsto> length es)"
  by (simp add: word_index_def)

lemma indexed_snoc:
  assumes "indexed es idx" and "idx (word_key e) = None"
  shows "indexed (es @ [e]) (idx(word_key e \<mapsto> length es))"
proof -
  have new: "word_key e \<notin> set (map word_key es)"
    using assms(2) indexed_None [OF assms(1)] by blast
  have "(idx(word_key e \<mapsto> length es)) k = Some i \<longleftrightarrow> i < length (es @ [e]) \<and> word_key ((es @ [e]) ! i) = k" for k i
  proof (cases "i < length es")
    case True
    then have "word_key (es ! i) \<in> set (map word_key es)" by (metis length_map nth_map nth_mem)
    then have "word_key (es ! i) \<noteq> word_key e" using new by metis
    then show ?thesis using assms(1) True by (auto simp: indexed_def nth_append)
  next
    case False
    then show ?thesis using assms(1) by (auto simp: indexed_def nth_append)
  qed
  then show ?thesis using assms(1) new by (simp add: indexed_def)
qed

lemma indexed_word_index: "distinct (map word_key es) \<Longrightarrow> indexed es (word_index es)"
proof (induction es rule: rev_induct)
  case Nil
  then show ?case by (simp add: indexed_def word_index_def)
next
  case (snoc e es)
  then have i: "indexed es (word_index es)" "word_key e \<notin> set (map word_key es)" by simp_all
  then have "word_index es (word_key e) = None" using indexed_None [OF i(1)] by blast
  then show ?case unfolding word_index_snoc by (rule indexed_snoc [OF i(1)])
qed

lemma word_map_snoc: "word_key e \<notin> set (map word_key es) \<Longrightarrow> word_map (es @ [e]) = (word_map es)(word_key e \<mapsto> e)"
  by (induction es) (auto simp: word_map_def)

lemma word_map_update:
  assumes "distinct (map word_key es)" and "i < length es" and "word_key (es ! i) = word_key e"
  shows "word_map (es[i := e]) = (word_map es)(word_key e \<mapsto> e) \<and> map word_key (es[i := e]) = map word_key es"
  using assms
proof (induction es arbitrary: i)
  case (Cons a es)
  show ?case
  proof (cases i)
    case 0
    then show ?thesis using Cons.prems by (auto simp: word_map_def fun_eq_iff)
  next
    case (Suc j)
    then have IH: "word_map (es[j := e]) = (word_map es)(word_key e \<mapsto> e)" "map word_key (es[j := e]) = map word_key es"
      using Cons by auto
    have "es ! j \<in> set es" using Cons.prems Suc by simp
    then have "word_key (es ! j) \<in> word_key ` set es" by (rule imageI)
    then have "word_key a \<noteq> word_key e" using Cons.prems Suc by auto
    then show ?thesis using IH Suc by (auto simp: word_map_def)
  qed
qed simp

lemma upsert_word_indexed:
  assumes "indexed es idx" and "upsert_word e0 (es, idx) = (es', idx')"
  shows "indexed es' idx' \<and> word_map es' = put_word (word_defaults e0) (word_map es)"
proof (cases "idx (word_key (word_defaults e0))")
  case None
  then have "word_key (word_defaults e0) \<notin> set (map word_key es)"
    using None indexed_None [OF assms(1)] by blast
  then show ?thesis using assms None by (auto simp: upsert_word_def Let_def indexed_snoc word_map_snoc put_word_def)
next
  case (Some i)
  then have i: "i < length es" "word_key (es ! i) = word_key (word_defaults e0)" using assms(1) by (auto simp: indexed_def)
  have "distinct (map word_key es)" using assms(1) by (simp add: indexed_def)
  note upd = word_map_update [OF this i]
  have "word_key (es' ! j) = word_key (es ! j)" if "j < length es" for j
    using upd that assms(2) Some by (metis (no_types, lifting) case_prod_conv fst_conv length_list_update length_map nth_map option.simps(5) upsert_word_def)
  moreover have "es' = es[i := word_defaults e0]" "idx' = idx" using assms(2) Some by (auto simp: upsert_word_def Let_def)
  ultimately show ?thesis using assms(1) upd by (auto simp: indexed_def put_word_def)
qed

lemma upsert_fold:
  assumes "indexed es idx"
  shows "indexed (fst (fold upsert_word new (es, idx))) (snd (fold upsert_word new (es, idx))) \<and>
    word_map (fst (fold upsert_word new (es, idx))) = fold put_word (map word_defaults new) (word_map es)"
  using assms
proof (induction new arbitrary: es idx)
  case (Cons e new)
  obtain es' idx' where u: "upsert_word e (es, idx) = (es', idx')" by (cases "upsert_word e (es, idx)")
  show ?case using Cons.IH [of es' idx'] upsert_word_indexed [OF Cons.prems u] u by simp
qed simp

definition import_all :: "wordlist_entry list list \<Rightarrow> wordlist \<Rightarrow> wordlist" where
  "import_all bs s = fold (\<lambda>b s. snd (wordlist_upsert b [] s)) bs s"

lemma import_all_map:
  assumes "distinct (map word_key (ws_entries s))"
  shows "distinct (map word_key (ws_entries (import_all bs s))) \<and>
    word_map (ws_entries (import_all bs s)) = fold put_word (map word_defaults (concat bs)) (word_map (ws_entries s)) \<and>
    ws_version (import_all bs s) = ws_version s + int (length bs)"
  using assms
proof (induction bs arbitrary: s)
  case Nil
  then show ?case by (simp add: import_all_def)
next
  case (Cons b bs)
  let ?s = "snd (wordlist_upsert b [] s)"
  have step: "distinct (map word_key (ws_entries ?s))" "ws_version ?s = ws_version s + 1"
    "word_map (ws_entries ?s) = fold put_word (map word_defaults b) (word_map (ws_entries s))"
    using upsert_fold [OF indexed_word_index [OF Cons.prems], of b] by (simp_all add: wordlist_upsert_def indexed_def Let_def)
  have "import_all (b # bs) s = import_all bs ?s" by (simp add: import_all_def)
  then show ?case using Cons.IH [OF step(1)] step(2,3) by simp
qed

text \<open>C34: However many batches are imported into an empty list, with whatever repetitions inside a batch and between
  batches: the list holds one entry for each key, the one imported last with the defaults filled in, and its version is the number
  of imports.\<close>

theorem wordlist_is_map:
  "distinct (map word_key (ws_entries (import_all bs NewInMemoryWordlistSink))) \<and>
   word_map (ws_entries (import_all bs NewInMemoryWordlistSink)) = fold put_word (map word_defaults (concat bs)) Map.empty \<and>
   wordlist_version (import_all bs NewInMemoryWordlistSink) = Inr (int (length bs))"
  using import_all_map [of NewInMemoryWordlistSink bs]
  by (simp add: NewInMemoryWordlistSink_def wordlist_version_def word_map_def)

section \<open>The simulation\<close>

text \<open>The operators' simulation of the release of WebRTC, a second implementation of the rule, counts for any number of
  rooms what the room service decides with the same flag.\<close>

theorem gray_simulation_is_release:
  assumes "ae_flags env = Some ops" and "fo_get ops ''room.webrtc.enabled'' (ad_flags st) = Inr f"
    and "c ''room.webrtc.enabled'' = Some f"
  shows "map_sum id gs_hits (SimulateWebrtcGray env n st) =
    Inr (gd_hits (SimulateGrayDistribution (Some c) ''room.webrtc.enabled'' n))"
proof -
  let ?pct = "gray_percent f"
  have "(100 \<le> ?pct \<or> 0 < ?pct \<and> Hash100 (''room_sim_'' @ dec_nat i) < ?pct) \<and> fl_enabled f \<longleftrightarrow>
      IsRoomInGrayPercent c ''room.webrtc.enabled'' (''room_sim_'' @ dec_nat i)" for i
    using assms(3) by (auto simp: IsRoomInGrayPercent_def)
  then have "filter (\<lambda>i. IsRoomInGrayPercent c ''room.webrtc.enabled'' (''room_sim_'' @ dec_nat i)) js =
      (if fl_enabled f then filter (\<lambda>i. 100 \<le> ?pct \<or> 0 < ?pct \<and> Hash100 (''room_sim_'' @ dec_nat i) < ?pct) js else [])" for js
    by (auto intro!: filter_cong simp: filter_empty_conv)
  then show ?thesis
    using assms by (simp add: SimulateWebrtcGray_def SimulateGrayDistribution_def gray_percent_def Let_def)
qed

section \<open>The guard\<close>

text \<open>Behind a verifier nothing but a bearer token that \<open>Parse\<close> accepts with the scope of administrators reaches a
  handler; every other request is answered with an error and leaves the state of the service as it was.\<close>

theorem admin_guard:
  "(\<exists>tok c. auth = Bearer tok \<and> fst (Parse lib verifying now tok k) = Inr c \<and> cl_scope c = ScopeAdmin \<and>
      fst (admin_route lib (Some verifying) atoi env now auth req (k, st)) = fst (admin_handle atoi env now req st) \<and>
      snd (snd (admin_route lib (Some verifying) atoi env now auth req (k, st))) = snd (admin_handle atoi env now req st)) \<or>
   (\<exists>e. fst (admin_route lib (Some verifying) atoi env now auth req (k, st)) = AdError e \<and> error_status e \<in> {401, 403} \<and>
      snd (snd (admin_route lib (Some verifying) atoi env now auth req (k, st))) = st)"
proof (cases auth)
  case NoBearer
  then show ?thesis by (simp add: admin_route_def RequireAdmin_def)
next
  case (Bearer tok)
  then show ?thesis
    by (cases "Parse lib verifying now tok k"; cases "fst (Parse lib verifying now tok k)")
      (auto simp: admin_route_def RequireAdmin_def split: prod.splits)
qed

text \<open>C33: A login with the configured password gives a session of eight hours: whatever key rotations follow, the routes serve
  it until the second of its expiry and refuse it from then on; with any other password, or with none configured, there is no
  session.\<close>

theorem admin_session:
  assumes "jwt_contract lib" and "kms_inv m" and "rotated kenv m m'" and "kp_active (si_provider sg) = kms_active"
    and "HandleAdminLogin lib (Some sg) (admin_login_config password) t body m = Inr (tok, secs)"
    and "plain_text (si_issuer sg) \<and> plain_text (mk_active m)"
  shows "body = Inr password \<and> password \<noteq> [] \<and> secs = 8 * 3600 \<and>
    (if now < numeric_date (t + 8 * 3600 * second)
     then fst (admin_route lib (Some kms_verifying) atoi env now (Bearer tok) req (m', st)) = fst (admin_handle atoi env now req st)
     else \<exists>e. fst (admin_route lib (Some kms_verifying) atoi env now (Bearer tok) req (m', st)) = AdError (yerr AuthTokenExpired e))"
proof -
  define ttl :: int where "ttl = 8 * 3600 * second"
  define c where "c = login_claims (si_issuer sg) ''admin'' ScopeAdmin ''yunmao.admin'' ttl t"
  have login: "body = Inr password" "password \<noteq> []" "secs = ttl div second" "signClaims lib sg c m = Inr tok"
    using assms(5) unfolding HandleAdminLogin_def admin_login_config_def SignLogin_def c_def ttl_def
    by (auto split: sum.splits if_splits)
  have plain: "plain_claims c"
    unfolding c_def using assms(6) by (intro plain_login_claims) (simp_all add: plain_text_def)
  have parse: "fst (Parse lib kms_verifying now tok m') =
      (case jl_validate lib now c of None \<Rightarrow> Inr c | Some e \<Rightarrow> Inl (Wrap ''token has invalid claims'' e))"
    using assms(6) by (intro kms_token_parses [OF assms(1-4) login(4) plain]) simp
  have valid: "jl_validate lib now c = None \<longleftrightarrow> now < numeric_date (t + ttl)"
    using assms(1) by (simp add: jwt_contract_def c_def)
  have "if now < numeric_date (t + ttl)
     then fst (admin_route lib (Some kms_verifying) atoi env now (Bearer tok) req (m', st)) = fst (admin_handle atoi env now req st)
     else \<exists>e. fst (admin_route lib (Some kms_verifying) atoi env now (Bearer tok) req (m', st)) = AdError (yerr AuthTokenExpired e)"
    using parse valid
    by (cases "Parse lib kms_verifying now tok m'")
      (auto simp: admin_route_def RequireAdmin_def c_def split: option.splits prod.splits)
  moreover have "ttl div second = 8 * 3600" by (simp add: ttl_def second_def)
  ultimately show ?thesis using login(1-3) by (simp add: ttl_def)
qed

section \<open>Switches that switch nothing\<close>


text \<open>A policy the database refuses, because a cooldown has more seconds than its column holds, is answered with an error
  and shown to every operator from then on, while the room keeps the limits it had.\<close>

theorem refused_policy_is_shown:
  assumes "ae_safety env = Some (safety_pg_ops no_faults)" and "fp_room p \<noteq> []" and "2 ^ 31 \<le> uint (fp_cooldown p)"
  shows "\<not> is_ok (fst (UpdatePolicy env now p st)) \<and> GetPolicy (fp_room p) (snd (UpdatePolicy env now p st)) = Inr p \<and>
    fst (Resolve (Some (safety_pg_ops no_faults)) lim now (fp_room p) (ad_safety (snd (UpdatePolicy env now p st)))) =
    fst (Resolve (Some (safety_pg_ops no_faults)) lim now (fp_room p) (ad_safety st))"
proof -
  have "\<not> fits_int4 (uint (fp_cooldown p) * second div second)" using assms(3) by (simp add: fits_int4_def second_def)
  then have "safety_pg_put no_faults now (fp_room p) (toLimits p) (ad_safety st) = (Inl (Plain ''ERROR: integer out of range''), ad_safety st)"
    by (simp add: safety_pg_put_def toLimits_def Let_def) (simp add: second_def)
  then show ?thesis
    using assms(1,2) by (simp add: UpdatePolicy_def GetPolicy_def safety_pg_ops_def Let_def)
qed

section \<open>On concrete inputs\<close>

definition demo_flag :: flag where
  "demo_flag = \<lparr>fl_name = ''room.webrtc.enabled'', fl_enabled = True, fl_scope = ''global'', fl_value = [''gray_percent'' \<mapsto> FFloat 5 0],
     fl_updated = 0, fl_by = []\<rparr>"

definition demo_admin_env :: "(safety_pg, flag_mem, wordlist) admin_env" where
  "demo_admin_env = \<lparr>ae_safety = Some (safety_pg_ops no_faults), ae_flags = Some (flag_mem_ops (\<lambda>_. [])), ae_words = Some wordlist_ops\<rparr>"

definition demo_admin :: "(safety_pg, flag_mem, wordlist) admin_state" where
  "demo_admin = admin_new (new_safety_pg 0) [''room.webrtc.enabled'' \<mapsto> demo_flag] NewInMemoryWordlistSink"

theorem gray_simulation_is_release_witness:
  "map_sum id gs_hits (SimulateWebrtcGray demo_admin_env 3 demo_admin) =
     Inr (gd_hits (SimulateGrayDistribution (Some [''room.webrtc.enabled'' \<mapsto> demo_flag]) ''room.webrtc.enabled'' 3))"
  by (rule gray_simulation_is_release [where f = demo_flag and ops = "flag_mem_ops (\<lambda>_. [])"])
    (simp_all add: demo_admin_env_def demo_admin_def admin_new_def flag_mem_ops_def flag_mem_get_def)

definition admin_token :: "(string \<times> string \<times> claims) \<times> byte list" where
  "admin_token = ((''RS256'', ''user-0'', login_claims ''yunmao.user-svc'' ''admin'' ScopeAdmin ''yunmao.admin'' (8 * 3600 * second) 0), be_bytes 35)"

theorem admin_session_witness:
  "HandleAdminLogin demo_lib (Some demo_signer) (admin_login_config ''pw'') 0 (Inr ''pw'') demo_kms = Inr (admin_token, 8 * 3600) \<and>
   fst (admin_route demo_lib (Some kms_verifying) (\<lambda>_. 0) demo_admin_env second (Bearer admin_token) (GetPolicyReq ''room_demo'')
     (demo_rotated 10 [], demo_admin)) = AdPolicy room_demo_policy"
proof -
  have login: "HandleAdminLogin demo_lib (Some demo_signer) (admin_login_config ''pw'') 0 (Inr ''pw'') demo_kms = Inr (admin_token, 8 * 3600)"
    by (simp add: HandleAdminLogin_def admin_login_config_def SignLogin_def signClaims_def demo_signer_def kms_active_def demo_kms_def
      demo_record_def demo_lib_def admin_token_def demo_key_def second_def Let_def)
  have act: "kp_active (si_provider demo_signer) = kms_active" by (simp add: demo_signer_def)
  have plain: "plain_text (si_issuer demo_signer) \<and> plain_text (mk_active demo_kms)"
    by (simp add: plain_text_def demo_signer_def demo_kms_def)
  have "second < numeric_date (0 + 8 * 3600 * second)" by (simp add: numeric_date_def truncate_time_def second_def zero_time_def)
  moreover have "fst (admin_handle (\<lambda>_. 0) demo_admin_env second (GetPolicyReq ''room_demo'') demo_admin) = AdPolicy room_demo_policy"
    by (simp add: GetPolicy_def demo_admin_def admin_new_def)
  ultimately show ?thesis
    using admin_session [OF demo_contract demo_kms_inv demo_later [of "[]"] act login plain, of second "\<lambda>_. 0" demo_admin_env
      "GetPolicyReq ''room_demo''" demo_admin] login by simp
qed


theorem refused_policy_is_shown_witness:
  "\<not> is_ok (fst (UpdatePolicy demo_admin_env 0 (room_demo_policy\<lparr>fp_cooldown := 3000000000\<rparr>) demo_admin)) \<and>
   GetPolicy ''room_demo'' (snd (UpdatePolicy demo_admin_env 0 (room_demo_policy\<lparr>fp_cooldown := 3000000000\<rparr>) demo_admin)) =
     Inr (room_demo_policy\<lparr>fp_cooldown := 3000000000\<rparr>)"
  using refused_policy_is_shown [of demo_admin_env "room_demo_policy\<lparr>fp_cooldown := 3000000000\<rparr>" 0 demo_admin]
  by (simp add: demo_admin_env_def room_demo_policy_def)

end
