(* ===== verification/DeviceStore.thy ===== *)
theory DeviceStore
  imports RoomStore
begin

text \<open>
  \<^verbatim>\<open>go/services/device-svc/internal/store/store.go\<close>: the feeders, in memory and in the PostgreSQL table
  \<open>devices\<close>.  SHA-256 in hexadecimal is the argument \<open>sha\<close>; clock readings and map orders are arguments as in
  the room store.
\<close>

section \<open>Devices\<close>

text \<open>The values of a capability are JSON as the client sent it; a nil map is \<open>None\<close>.\<close>

type_synonym capability = "(string \<rightharpoonup> json) option"

text \<open>The fields of the service's \<open>Device\<close>, then the ones only the store has.\<close>

record device_base =
  dv_id :: string
  dv_room :: string
  dv_owner :: string
  dv_type :: string
  dv_hardware :: string
  dv_firmware :: string
  dv_target :: string
  dv_online :: string
  dv_seen :: time
  dv_food :: u32
  dv_health :: string
  dv_region :: string
  dv_mqtt_user :: string
  dv_mqtt_expires :: time
  dv_capability :: capability
  dv_created :: time

record device_row = device_base +
  dv_certificate :: string
  dv_mqtt_hash :: string
  dv_updated :: time

record device_filter =
  df_owner :: string
  df_room :: string
  df_region :: string
  df_status :: string
  df_limit :: int
  df_offset :: int

record 's device_ops =
  do_get :: "string \<Rightarrow> 's \<Rightarrow> go_error + device_row"
  do_create :: "time \<Rightarrow> device_row \<Rightarrow> 's \<Rightarrow> (go_error, unit, 's) outcome"
  do_update :: "time \<Rightarrow> device_row \<Rightarrow> 's \<Rightarrow> (go_error, device_row, 's) outcome"
  do_list :: "string list \<Rightarrow> device_filter \<Rightarrow> 's \<Rightarrow> go_error + device_row list"
  do_set_status :: "time \<Rightarrow> string \<Rightarrow> string \<Rightarrow> 's \<Rightarrow> (go_error, unit, 's) outcome"
  do_mark_online :: "string \<Rightarrow> u32 \<Rightarrow> time \<Rightarrow> 's \<Rightarrow> (go_error, unit, 's) outcome"
  do_bind :: "time \<Rightarrow> string \<Rightarrow> string \<Rightarrow> 's \<Rightarrow> (go_error, unit, 's) outcome"
  do_unbind :: "time \<Rightarrow> string \<Rightarrow> 's \<Rightarrow> (go_error, unit, 's) outcome"
  do_set_credential :: "time \<Rightarrow> string \<Rightarrow> string \<Rightarrow> string \<Rightarrow> time \<Rightarrow> 's \<Rightarrow> (go_error, unit, 's) outcome"
  do_set_target :: "time \<Rightarrow> string \<Rightarrow> string \<Rightarrow> 's \<Rightarrow> (go_error, unit, 's) outcome"

abbreviation no_device :: go_error where
  "no_device \<equiv> yerr DeviceUnbound ''device not found''"

definition HashPassword :: "(string \<Rightarrow> string) \<Rightarrow> string \<Rightarrow> string \<Rightarrow> string" where
  "HashPassword sha username password = (if password = [] then [] else sha (username @ '':'' @ password))"

definition device_matches :: "device_filter \<Rightarrow> device_row \<Rightarrow> bool" where
  "device_matches f d \<longleftrightarrow> (df_owner f = [] \<or> dv_owner d = df_owner f) \<and> (df_room f = [] \<or> dv_room d = df_room f) \<and>
     (df_region f = [] \<or> dv_region d = df_region f) \<and> (df_status f = [] \<or> dv_online d = df_status f)"

text \<open>The frame of most operations: look the device up, and change it in place.\<close>

definition on_device :: "string \<Rightarrow> ('d \<Rightarrow> 'd) \<Rightarrow> (string \<rightharpoonup> 'd) \<Rightarrow> (go_error, unit, string \<rightharpoonup> 'd) outcome" where
  "on_device i f m = (case m i of None \<Rightarrow> (Inl no_device, m) | Some d \<Rightarrow> (Inr (), m(i \<mapsto> f d)))"

section \<open>In memory\<close>

type_synonym device_mem = "string \<rightharpoonup> device_row"

definition demo_device :: "time \<Rightarrow> device_row" where
  "demo_device now = \<lparr>dv_id = ''dev_demo'', dv_room = ''room_demo'', dv_owner = ''usr_demo'', dv_type = ''feeder'',
     dv_hardware = ''demo-feeder-v1'', dv_firmware = ''1.0.0'', dv_target = [], dv_online = ''online'', dv_seen = now,
     dv_food = 1000, dv_health = ''ok'', dv_region = ''global'', dv_mqtt_user = [], dv_mqtt_expires = zero_time,
     dv_capability = None, dv_created = now, dv_certificate = [], dv_mqtt_hash = [], dv_updated = now\<rparr>"

definition device_mem_new :: "time \<Rightarrow> device_mem" where
  "device_mem_new now = [''dev_demo'' \<mapsto> demo_device now]"

definition device_mem_get :: "string \<Rightarrow> device_mem \<Rightarrow> go_error + device_row" where
  "device_mem_get i m = (case m i of None \<Rightarrow> Inl no_device | Some d \<Rightarrow> Inr d)"

definition device_mem_create :: "time \<Rightarrow> device_row \<Rightarrow> device_mem \<Rightarrow> (go_error, unit, device_mem) outcome" where
  "device_mem_create now d m =
     (if dv_id d = [] then (Inl (Plain ''device.id required''), m)
      else (Inr (), m(dv_id d \<mapsto> d\<lparr>dv_created := (if is_zero_time (dv_created d) then now else dv_created d), dv_updated := now\<rparr>)))"

definition device_mem_update :: "time \<Rightarrow> device_row \<Rightarrow> device_mem \<Rightarrow> (go_error, device_row, device_mem) outcome" where
  "device_mem_update now d m =
     (if dv_id d = [] then (Inl (Plain ''device.id required''), m)
      else (case m (dv_id d) of
          None \<Rightarrow> (Inl no_device, m)
        | Some old \<Rightarrow> let d' = d\<lparr>dv_created := dv_created old, dv_updated := now\<rparr> in (Inr d', m(dv_id d \<mapsto> d'))))"

definition device_mem_list :: "string list \<Rightarrow> device_filter \<Rightarrow> device_mem \<Rightarrow> go_error + device_row list" where
  "device_mem_list ks f m =
     (let out = filter (device_matches f) (rows_in ks m)
      in Inr (if 0 < df_limit f \<and> df_limit f < int (length out) then take (nat (df_limit f)) out else out))"

definition device_mem_set_status :: "time \<Rightarrow> string \<Rightarrow> string \<Rightarrow> device_mem \<Rightarrow> (go_error, unit, device_mem) outcome" where
  "device_mem_set_status now i st = on_device i (\<lambda>d. d\<lparr>dv_online := st, dv_updated := now\<rparr>)"

definition device_mem_mark_online :: "string \<Rightarrow> u32 \<Rightarrow> time \<Rightarrow> device_mem \<Rightarrow> (go_error, unit, device_mem) outcome" where
  "device_mem_mark_online i grams at = on_device i
     (\<lambda>d. d\<lparr>dv_online := ''online'', dv_seen := at, dv_food := (if 0 < grams then grams else dv_food d), dv_updated := at\<rparr>)"

definition device_mem_bind :: "time \<Rightarrow> string \<Rightarrow> string \<Rightarrow> device_mem \<Rightarrow> (go_error, unit, device_mem) outcome" where
  "device_mem_bind now i room = on_device i (\<lambda>d. d\<lparr>dv_room := room, dv_updated := now\<rparr>)"

definition device_mem_unbind :: "time \<Rightarrow> string \<Rightarrow> device_mem \<Rightarrow> (go_error, unit, device_mem) outcome" where
  "device_mem_unbind now i = on_device i (\<lambda>d. d\<lparr>dv_room := [], dv_updated := now\<rparr>)"

definition device_mem_set_credential ::
  "(string \<Rightarrow> string) \<Rightarrow> time \<Rightarrow> string \<Rightarrow> string \<Rightarrow> string \<Rightarrow> time \<Rightarrow> device_mem \<Rightarrow> (go_error, unit, device_mem) outcome" where
  "device_mem_set_credential sha now i username password expires = on_device i
     (\<lambda>d. d\<lparr>dv_mqtt_user := username, dv_mqtt_hash := HashPassword sha username password, dv_mqtt_expires := expires, dv_updated := now\<rparr>)"

definition device_mem_set_target :: "time \<Rightarrow> string \<Rightarrow> string \<Rightarrow> device_mem \<Rightarrow> (go_error, unit, device_mem) outcome" where
  "device_mem_set_target now i target = on_device i (\<lambda>d. d\<lparr>dv_target := target, dv_updated := now\<rparr>)"

definition device_mem_ops :: "(string \<Rightarrow> string) \<Rightarrow> device_mem device_ops" where
  "device_mem_ops sha = \<lparr>do_get = device_mem_get, do_create = device_mem_create, do_update = device_mem_update, do_list = device_mem_list,
     do_set_status = device_mem_set_status, do_mark_online = device_mem_mark_online, do_bind = device_mem_bind,
     do_unbind = device_mem_unbind, do_set_credential = device_mem_set_credential sha, do_set_target = device_mem_set_target\<rparr>"

section \<open>In PostgreSQL\<close>

text \<open>The columns.  A capability comes back from its \<open>JSONB\<close> column as it was marshalled, a nil one as the empty
  map; the grams are an \<open>INT\<close> of 32 signed bits.  The table has foreign keys to rooms and users; their violation is
  a fault of the statement.\<close>

record device_sql =
  sd_room :: "string option"
  sd_owner :: "string option"
  sd_type :: string
  sd_hardware :: string
  sd_firmware :: "string option"
  sd_target :: "string option"
  sd_certificate :: "string option"
  sd_online :: string
  sd_seen :: time
  sd_food :: int
  sd_health :: string
  sd_mqtt_user :: "string option"
  sd_mqtt_hash :: "string option"
  sd_mqtt_expires :: "time option"
  sd_capability :: "string \<rightharpoonup> json"
  sd_region :: string
  sd_created :: time
  sd_updated :: time

type_synonym device_table = "string \<rightharpoonup> device_sql"

definition coalesceMap :: "capability \<Rightarrow> string \<rightharpoonup> json" where
  "coalesceMap c = (case c of None \<Rightarrow> Map.empty | Some m \<Rightarrow> m)"

definition scanDevice :: "string \<Rightarrow> device_sql \<Rightarrow> device_row" where
  "scanDevice i q = \<lparr>dv_id = i, dv_room = coalesce (sd_room q), dv_owner = coalesce (sd_owner q), dv_type = sd_type q,
     dv_hardware = sd_hardware q, dv_firmware = coalesce (sd_firmware q), dv_target = coalesce (sd_target q), dv_online = sd_online q,
     dv_seen = sd_seen q, dv_food = word_of_int (sd_food q), dv_health = sd_health q, dv_region = sd_region q,
     dv_mqtt_user = coalesce (sd_mqtt_user q), dv_mqtt_expires = (case sd_mqtt_expires q of None \<Rightarrow> zero_time | Some t \<Rightarrow> t),
     dv_capability = Some (sd_capability q), dv_created = sd_created q, dv_certificate = coalesce (sd_certificate q),
     dv_mqtt_hash = coalesce (sd_mqtt_hash q), dv_updated = sd_updated q\<rparr>"

definition device_pg_get :: "faults \<Rightarrow> string \<Rightarrow> device_table \<Rightarrow> go_error + device_row" where
  "device_pg_get flt i t = fst (stmt flt ''get device'' (\<lambda>e. e)
     (\<lambda>t. (case t i of None \<Rightarrow> Inl no_device | Some q \<Rightarrow> Inr (scanDevice i q), t)) t)"

definition inserted_device :: "time \<Rightarrow> device_row \<Rightarrow> device_sql" where
  "inserted_device now d =
     (let created = (if is_zero_time (dv_created d) then now else dv_created d)
      in \<lparr>sd_room = nullif (dv_room d), sd_owner = nullif (dv_owner d), sd_type = orElse (dv_type d) ''feeder'',
          sd_hardware = dv_hardware d, sd_firmware = nullif (dv_firmware d), sd_target = nullif (dv_target d),
          sd_certificate = nullif (dv_certificate d), sd_online = orElse (dv_online d) ''offline'',
          sd_seen = (if is_zero_time (dv_seen d) then created else dv_seen d), sd_food = uint (dv_food d),
          sd_health = orElse (dv_health d) ''unknown'', sd_mqtt_user = nullif (dv_mqtt_user d), sd_mqtt_hash = nullif (dv_mqtt_hash d),
          sd_mqtt_expires = (if is_zero_time (dv_mqtt_expires d) then None else Some (dv_mqtt_expires d)),
          sd_capability = coalesceMap (dv_capability d), sd_region = orElse (dv_region d) ''global'', sd_created = created, sd_updated = created\<rparr>)"

definition device_pg_create :: "faults \<Rightarrow> time \<Rightarrow> device_row \<Rightarrow> device_table \<Rightarrow> (go_error, unit, device_table) outcome" where
  "device_pg_create flt now d = stmt flt ''insert device'' (\<lambda>e. e)
     (\<lambda>t. if \<not> int4_fits (dv_food d) then (Inl int4_error, t)
          else (Inr (), if t (dv_id d) = None then t(dv_id d \<mapsto> inserted_device now d) else t))"

text \<open>Neither the heartbeat nor the credential columns are in the update.\<close>

definition updated_device :: "time \<Rightarrow> device_row \<Rightarrow> device_sql \<Rightarrow> device_sql" where
  "updated_device now d q =
     q\<lparr>sd_room := nullif (dv_room d), sd_owner := nullif (dv_owner d), sd_type := dv_type d, sd_hardware := dv_hardware d,
       sd_firmware := nullif (dv_firmware d), sd_target := nullif (dv_target d), sd_certificate := nullif (dv_certificate d),
       sd_online := dv_online d, sd_health := dv_health d, sd_capability := coalesceMap (dv_capability d),
       sd_region := dv_region d, sd_updated := now\<rparr>"

definition device_pg_update :: "faults \<Rightarrow> time \<Rightarrow> device_row \<Rightarrow> device_table \<Rightarrow> (go_error, device_row, device_table) outcome" where
  "device_pg_update flt now d =
     (let d' = d\<lparr>dv_region := orElse (dv_region d) ''global''\<rparr>
      in stmt flt ''update device'' (\<lambda>e. e)
           (\<lambda>t. case t (dv_id d) of
               None \<Rightarrow> (Inl no_device, t)
             | Some q \<Rightarrow> (Inr d', t(dv_id d \<mapsto> updated_device now d' q))))"

definition device_pg_list :: "faults \<Rightarrow> string list \<Rightarrow> device_filter \<Rightarrow> device_table \<Rightarrow> go_error + device_row list" where
  "device_pg_list flt ks f t =
     (let limit = (if df_limit f \<le> 0 \<or> 200 < df_limit f then 50 else df_limit f);
          rows = filter (device_matches f) (rows_in ks (\<lambda>i. map_option (scanDevice i) (t i)))
      in fst (stmt flt ''list devices'' (\<lambda>e. e)
           (\<lambda>t. (if df_offset f < 0 then Inl (Plain ''OFFSET must not be negative'')
                 else Inr (take (nat limit) (drop (nat (df_offset f)) (sort_key (\<lambda>d. - dv_created d) rows))), t)) t))"

definition device_pg_set_status :: "faults \<Rightarrow> time \<Rightarrow> string \<Rightarrow> string \<Rightarrow> device_table \<Rightarrow> (go_error, unit, device_table) outcome" where
  "device_pg_set_status flt now i st = stmt flt ''set device status'' (\<lambda>e. e)
     (on_device i (\<lambda>q. q\<lparr>sd_online := st, sd_updated := now\<rparr>))"

text \<open>An unknown device is no error here.\<close>

definition device_pg_mark_online :: "faults \<Rightarrow> string \<Rightarrow> u32 \<Rightarrow> time \<Rightarrow> device_table \<Rightarrow> (go_error, unit, device_table) outcome" where
  "device_pg_mark_online flt i grams at = stmt flt ''mark online'' (\<lambda>e. e)
     (\<lambda>t. if \<not> int4_fits grams then (Inl int4_error, t)
          else (Inr (), snd (on_device i (\<lambda>q. q\<lparr>sd_online := ''online'', sd_seen := at,
                  sd_food := (if 0 < grams then uint grams else sd_food q), sd_updated := at\<rparr>) t)))"

definition device_pg_bind :: "faults \<Rightarrow> time \<Rightarrow> string \<Rightarrow> string \<Rightarrow> device_table \<Rightarrow> (go_error, unit, device_table) outcome" where
  "device_pg_bind flt now i room = stmt flt ''bind room'' (\<lambda>e. e) (on_device i (\<lambda>q. q\<lparr>sd_room := Some room, sd_updated := now\<rparr>))"

definition device_pg_unbind :: "faults \<Rightarrow> time \<Rightarrow> string \<Rightarrow> device_table \<Rightarrow> (go_error, unit, device_table) outcome" where
  "device_pg_unbind flt now i = stmt flt ''unbind room'' (\<lambda>e. e) (on_device i (\<lambda>q. q\<lparr>sd_room := None, sd_updated := now\<rparr>))"

definition device_pg_set_credential ::
  "(string \<Rightarrow> string) \<Rightarrow> faults \<Rightarrow> time \<Rightarrow> string \<Rightarrow> string \<Rightarrow> string \<Rightarrow> time \<Rightarrow> device_table \<Rightarrow> (go_error, unit, device_table) outcome" where
  "device_pg_set_credential sha flt now i username password expires = stmt flt ''set credential'' (\<lambda>e. e) (on_device i
     (\<lambda>q. q\<lparr>sd_mqtt_user := Some username, sd_mqtt_hash := Some (HashPassword sha username password), sd_mqtt_expires := Some expires, sd_updated := now\<rparr>))"

definition device_pg_set_target :: "faults \<Rightarrow> time \<Rightarrow> string \<Rightarrow> string \<Rightarrow> device_table \<Rightarrow> (go_error, unit, device_table) outcome" where
  "device_pg_set_target flt now i target = stmt flt ''set target'' (\<lambda>e. e) (on_device i (\<lambda>q. q\<lparr>sd_target := nullif target, sd_updated := now\<rparr>))"

definition device_pg_ops :: "(string \<Rightarrow> string) \<Rightarrow> faults \<Rightarrow> device_table device_ops" where
  "device_pg_ops sha flt = \<lparr>do_get = device_pg_get flt, do_create = device_pg_create flt, do_update = device_pg_update flt,
     do_list = device_pg_list flt, do_set_status = device_pg_set_status flt, do_mark_online = device_pg_mark_online flt,
     do_bind = device_pg_bind flt, do_unbind = device_pg_unbind flt, do_set_credential = device_pg_set_credential sha flt,
     do_set_target = device_pg_set_target flt\<rparr>"

section \<open>The contract the service relies on\<close>

text \<open>What both stores show of a device: \<open>updated_at\<close> is left open, and a nil capability is an empty one.\<close>

definition shown :: "device_row \<Rightarrow> device_row" where
  "shown d = d\<lparr>dv_updated := 0, dv_capability := Some (coalesceMap (dv_capability d))\<rparr>"

definition complete_device :: "device_row \<Rightarrow> bool" where
  "complete_device d \<longleftrightarrow> dv_id d \<noteq> [] \<and> dv_type d \<noteq> [] \<and> dv_online d \<noteq> [] \<and> dv_health d \<noteq> [] \<and> dv_region d \<noteq> [] \<and>
     int4_fits (dv_food d) \<and> \<not> is_zero_time (dv_created d) \<and> \<not> is_zero_time (dv_seen d)"

text \<open>An update that leaves to the others what an update does not write.\<close>

definition edits_device :: "device_row \<Rightarrow> device_row \<Rightarrow> bool" where
  "edits_device old d \<longleftrightarrow> dv_id d = dv_id old \<and> dv_id d \<noteq> [] \<and> dv_region d \<noteq> [] \<and> dv_created d = dv_created old \<and>
     dv_seen d = dv_seen old \<and> dv_food d = dv_food old \<and> dv_mqtt_user d = dv_mqtt_user old \<and>
     dv_mqtt_hash d = dv_mqtt_hash old \<and> dv_mqtt_expires d = dv_mqtt_expires old"

definition beat :: "u32 \<Rightarrow> time \<Rightarrow> device_row \<Rightarrow> device_row" where
  "beat grams at d = d\<lparr>dv_online := ''online'', dv_seen := at, dv_food := (if 0 < grams then grams else dv_food d)\<rparr>"

locale device_store =
  fixes ops :: "'s device_ops" and devs :: "'s \<Rightarrow> string \<rightharpoonup> device_row" and sha :: "string \<Rightarrow> string"
  assumes get_device: "map_sum id shown (do_get ops i s) = (case devs s i of None \<Rightarrow> Inl no_device | Some d \<Rightarrow> Inr d)"
    and create_device: "\<lbrakk>complete_device d; devs s (dv_id d) = None\<rbrakk> \<Longrightarrow>
      map_prod id devs (do_create ops now d s) = (Inr (), (devs s)(dv_id d \<mapsto> shown d))"
    and update_device: "\<lbrakk>devs s (dv_id d) = Some old; edits_device old d\<rbrakk> \<Longrightarrow>
      map_prod (map_sum id shown) devs (do_update ops now d s) = (Inr (shown d), (devs s)(dv_id d \<mapsto> shown d))"
    and set_status_device: "map_prod id devs (do_set_status ops now i st s) = on_device i (\<lambda>d. d\<lparr>dv_online := st\<rparr>) (devs s)"
    and mark_device: "int4_fits grams \<Longrightarrow> devs (snd (do_mark_online ops i grams at s)) = snd (on_device i (beat grams at) (devs s))"
    and bind_device: "map_prod id devs (do_bind ops now i room s) = on_device i (\<lambda>d. d\<lparr>dv_room := room\<rparr>) (devs s)"
    and unbind_device: "map_prod id devs (do_unbind ops now i s) = on_device i (\<lambda>d. d\<lparr>dv_room := []\<rparr>) (devs s)"
    and credential_device: "map_prod id devs (do_set_credential ops now i u p e s) =
      on_device i (\<lambda>d. d\<lparr>dv_mqtt_user := u, dv_mqtt_hash := HashPassword sha u p, dv_mqtt_expires := e\<rparr>) (devs s)"
    and target_device: "map_prod id devs (do_set_target ops now i t s) = on_device i (\<lambda>d. d\<lparr>dv_target := t\<rparr>) (devs s)"

definition view :: "(string \<Rightarrow> 'd \<Rightarrow> device_row) \<Rightarrow> (string \<rightharpoonup> 'd) \<Rightarrow> string \<rightharpoonup> device_row" where
  "view h m i = map_option (h i) (m i)"

lemma view_update: "view h (m(i \<mapsto> d)) = (view h m)(i \<mapsto> h i d)"
  by (auto simp: view_def)

lemma on_device_view:
  assumes "\<And>d. m i = Some d \<Longrightarrow> h i (f d) = g (h i d)"
  shows "map_prod id (view h) (on_device i f m) = on_device i g (view h m)"
  using assms by (cases "m i") (simp_all add: on_device_def view_update, simp_all add: view_def)

definition mem_devices :: "device_mem \<Rightarrow> string \<rightharpoonup> device_row" where
  "mem_devices = view (\<lambda>i. shown)"

definition pg_devices :: "device_table \<Rightarrow> string \<rightharpoonup> device_row" where
  "pg_devices = view (\<lambda>i q. shown (scanDevice i q))"

lemma coalesceMap_Some [simp]: "coalesceMap (Some m) = m"
  by (simp add: coalesceMap_def)

lemma device_row_eqI:
  fixes a b :: device_row
  assumes "device_base.truncate a = device_base.truncate b" and "dv_certificate a = dv_certificate b"
    and "dv_mqtt_hash a = dv_mqtt_hash b" and "dv_updated a = dv_updated b"
  shows "a = b"
  using assms by (cases a; cases b) (simp add: device_base.defs)

lemma created_kept: "dv_created d = c \<Longrightarrow> d\<lparr>dv_created := c\<rparr> = (d :: device_row)"
  by (cases d) simp

interpretation device_mem: device_store "device_mem_ops sha" mem_devices sha
proof
  fix d old :: device_row and s :: device_mem and now at e :: time and i st room u p t :: string and grams :: u32
  note ops = device_mem_ops_def mem_devices_def
  show "map_sum id shown (do_get (device_mem_ops sha) i s) = (case mem_devices s i of None \<Rightarrow> Inl no_device | Some d \<Rightarrow> Inr d)"
    by (simp add: ops device_mem_get_def view_def split: option.split)
  show "map_prod id mem_devices (do_create (device_mem_ops sha) now d s) = (Inr (), (mem_devices s)(dv_id d \<mapsto> shown d))"
    if "complete_device d" "mem_devices s (dv_id d) = None"
    using that by (simp add: ops device_mem_create_def view_update complete_device_def shown_def)
  show "map_prod (map_sum id shown) mem_devices (do_update (device_mem_ops sha) now d s) = (Inr (shown d), (mem_devices s)(dv_id d \<mapsto> shown d))"
    if old: "mem_devices s (dv_id d) = Some old" "edits_device old d"
  proof -
    obtain z where z: "s (dv_id d) = Some z" "old = shown z" using old(1) by (auto simp: mem_devices_def view_def)
    then have "d\<lparr>dv_created := dv_created z\<rparr> = d" "dv_id d \<noteq> []"
      using old(2) by (auto simp: created_kept edits_device_def shown_def)
    then show ?thesis using z by (simp add: ops device_mem_update_def view_update Let_def) (simp add: shown_def)
  qed
  show "map_prod id mem_devices (do_set_status (device_mem_ops sha) now i st s) = on_device i (\<lambda>d. d\<lparr>dv_online := st\<rparr>) (mem_devices s)"
    by (simp add: ops device_mem_set_status_def on_device_view shown_def)
  show "mem_devices (snd (do_mark_online (device_mem_ops sha) i grams at s)) = snd (on_device i (beat grams at) (mem_devices s))"
    using on_device_view [of s i "\<lambda>i. shown" "\<lambda>d. d\<lparr>dv_online := ''online'', dv_seen := at, dv_food := (if 0 < grams then grams else dv_food d), dv_updated := at\<rparr>" "beat grams at"]
    by (simp add: ops device_mem_mark_online_def shown_def beat_def prod_eq_iff)
  show "map_prod id mem_devices (do_bind (device_mem_ops sha) now i room s) = on_device i (\<lambda>d. d\<lparr>dv_room := room\<rparr>) (mem_devices s)"
    by (simp add: ops device_mem_bind_def on_device_view shown_def)
  show "map_prod id mem_devices (do_unbind (device_mem_ops sha) now i s) = on_device i (\<lambda>d. d\<lparr>dv_room := []\<rparr>) (mem_devices s)"
    by (simp add: ops device_mem_unbind_def on_device_view shown_def)
  show "map_prod id mem_devices (do_set_credential (device_mem_ops sha) now i u p e s) =
      on_device i (\<lambda>d. d\<lparr>dv_mqtt_user := u, dv_mqtt_hash := HashPassword sha u p, dv_mqtt_expires := e\<rparr>) (mem_devices s)"
    by (simp add: ops device_mem_set_credential_def on_device_view shown_def)
  show "map_prod id mem_devices (do_set_target (device_mem_ops sha) now i t s) = on_device i (\<lambda>d. d\<lparr>dv_target := t\<rparr>) (mem_devices s)"
    by (simp add: ops device_mem_set_target_def on_device_view shown_def)
qed

lemma scan_inserted: "complete_device d \<Longrightarrow> shown (scanDevice (dv_id d) (inserted_device now d)) = shown d"
  by (cases d) (simp add: complete_device_def inserted_device_def scanDevice_def shown_def orElse_def is_zero_time_def Let_def)

lemma scan_updated:
  "edits_device (shown (scanDevice (dv_id d) q)) d \<Longrightarrow> shown (scanDevice (dv_id d) (updated_device now d q)) = shown d"
  by (cases d) (simp add: edits_device_def updated_device_def scanDevice_def shown_def)

interpretation device_pg: device_store "device_pg_ops sha no_faults" pg_devices sha
proof
  fix d old :: device_row and s :: device_table and now at e :: time and i st room u p t :: string and grams :: u32
  note ops = device_pg_ops_def pg_devices_def
  note row = shown_def scanDevice_def coalesce_def
  show "map_sum id shown (do_get (device_pg_ops sha no_faults) i s) = (case pg_devices s i of None \<Rightarrow> Inl no_device | Some d \<Rightarrow> Inr d)"
    by (simp add: ops device_pg_get_def view_def split: option.split)
  show "map_prod id pg_devices (do_create (device_pg_ops sha no_faults) now d s) = (Inr (), (pg_devices s)(dv_id d \<mapsto> shown d))"
    if "complete_device d" "pg_devices s (dv_id d) = None"
    using that scan_inserted [OF that(1)] by (simp add: ops device_pg_create_def complete_device_def view_update) (simp add: view_def)
  show "map_prod (map_sum id shown) pg_devices (do_update (device_pg_ops sha no_faults) now d s) = (Inr (shown d), (pg_devices s)(dv_id d \<mapsto> shown d))"
    if old: "pg_devices s (dv_id d) = Some old" "edits_device old d"
  proof -
    obtain q where "s (dv_id d) = Some q" "shown (scanDevice (dv_id d) q) = old"
      using old(1) by (auto simp: pg_devices_def view_def)
    moreover from this(2) have "shown (scanDevice (dv_id d) (updated_device now d q)) = shown d"
      using old(2) by (intro scan_updated) simp
    ultimately show ?thesis using old(2)
      by (simp add: ops device_pg_update_def orElse_def view_update) (simp add: edits_device_def)
  qed
  show "map_prod id pg_devices (do_set_status (device_pg_ops sha no_faults) now i st s) = on_device i (\<lambda>d. d\<lparr>dv_online := st\<rparr>) (pg_devices s)"
    by (simp add: ops device_pg_set_status_def on_device_view row)
  show "pg_devices (snd (do_mark_online (device_pg_ops sha no_faults) i grams at s)) = snd (on_device i (beat grams at) (pg_devices s))"
    if "int4_fits grams"
    using that on_device_view [of s i "\<lambda>i q. shown (scanDevice i q)" "\<lambda>q. q\<lparr>sd_online := ''online'', sd_seen := at,
                  sd_food := (if 0 < grams then uint grams else sd_food q), sd_updated := at\<rparr>" "beat grams at"]
    by (simp add: ops device_pg_mark_online_def row beat_def prod_eq_iff)
  show "map_prod id pg_devices (do_bind (device_pg_ops sha no_faults) now i room s) = on_device i (\<lambda>d. d\<lparr>dv_room := room\<rparr>) (pg_devices s)"
    by (simp add: ops device_pg_bind_def on_device_view row)
  show "map_prod id pg_devices (do_unbind (device_pg_ops sha no_faults) now i s) = on_device i (\<lambda>d. d\<lparr>dv_room := []\<rparr>) (pg_devices s)"
    by (simp add: ops device_pg_unbind_def on_device_view row)
  show "map_prod id pg_devices (do_set_credential (device_pg_ops sha no_faults) now i u p e s) =
      on_device i (\<lambda>d. d\<lparr>dv_mqtt_user := u, dv_mqtt_hash := HashPassword sha u p, dv_mqtt_expires := e\<rparr>) (pg_devices s)"
    by (simp add: ops device_pg_set_credential_def on_device_view row)
  show "map_prod id pg_devices (do_set_target (device_pg_ops sha no_faults) now i t s) = on_device i (\<lambda>d. d\<lparr>dv_target := t\<rparr>) (pg_devices s)"
    by (simp add: ops device_pg_set_target_def on_device_view shown_def scanDevice_def)
qed

end
