(* ===== verification/DeviceService.thy ===== *)
theory DeviceService
  imports DeviceStore Tokens
begin

text \<open>
  \<^verbatim>\<open>go/services/device-svc/internal/service/service.go\<close>: the feeders' registry, their heartbeats and the
  credentials they connect to the MQTT broker with, over any device store, key provider and JWT library.
\<close>

section \<open>Configuration\<close>

text \<open>\<open>de_token_text\<close> is the compact text of a token.\<close>

record ('d, 's, 'k, 't, 'w) device_env =
  de_store :: "'s device_ops"
  de_provider :: "('d, 'k) key_provider option"
  de_lib :: "('d, 't, 'w) jwt_lib"
  de_token_text :: "'w \<Rightarrow> string"
  de_ttl :: duration
  de_issuer :: string
  de_audience :: string
  de_region :: string

definition device_defaults :: "('d, 's, 'k, 't, 'w) device_env \<Rightarrow> ('d, 's, 'k, 't, 'w) device_env" where
  "device_defaults e =
     e\<lparr>de_ttl := (if de_ttl e = 0 then 12 * hour else de_ttl e), de_issuer := orElse (de_issuer e) ''yunmao.device-svc'',
       de_audience := orElse (de_audience e) ''yunmao.emqx'', de_region := orElse (de_region e) ''global''\<rparr>"

definition toServiceDevice :: "device_row \<Rightarrow> device_base" where
  "toServiceDevice d = device_base.truncate d"

definition toStoreDevice :: "device_base \<Rightarrow> device_row" where
  "toStoreDevice d = device_base.extend d (device_row.fields [] [] zero_time)"

section \<open>The registry\<close>

definition device_get :: "('d, 's, 'k, 't, 'w) device_env \<Rightarrow> string \<Rightarrow> 's \<Rightarrow> go_error + device_base" where
  "device_get env i s = map_sum id toServiceDevice (do_get (de_store env) i s)"

definition device_list :: "('d, 's, 'k, 't, 'w) device_env \<Rightarrow> string list \<Rightarrow> device_filter \<Rightarrow> 's \<Rightarrow> go_error + device_base list" where
  "device_list env ks f s = map_sum id (map toServiceDevice) (do_list (de_store env) ks f s)"

text \<open>\<open>fresh\<close> is the ULID of a new identifier.\<close>

definition filled_device :: "('d, 's, 'k, 't, 'w) device_env \<Rightarrow> string \<Rightarrow> time \<Rightarrow> device_base \<Rightarrow> device_base" where
  "filled_device env fresh now d =
     d\<lparr>dv_id := (if dv_id d = [] then ''dev_'' @ fresh else dv_id d), dv_type := orElse (dv_type d) ''feeder'',
       dv_region := orElse (dv_region d) (de_region env), dv_online := orElse (dv_online d) ''offline'',
       dv_health := orElse (dv_health d) ''unknown'', dv_created := now, dv_seen := now\<rparr>"

definition Register :: "('d, 's, 'k, 't, 'w) device_env \<Rightarrow> string \<Rightarrow> time \<Rightarrow> time \<Rightarrow> device_base \<Rightarrow> 's \<Rightarrow> (go_error, device_base, 's) outcome" where
  "Register env fresh now store_now d s =
     (if dv_hardware d = [] then (Inl (yerr SystemInternal ''hardware_model required''), s)
      else let d' = filled_device env fresh now d
           in (case do_create (de_store env) store_now (toStoreDevice d') s of
                 (Inl e, s') \<Rightarrow> (Inl e, s')
               | (Inr _, s') \<Rightarrow> (Inr d', s')))"

definition merged_device :: "device_base \<Rightarrow> device_row \<Rightarrow> device_row" where
  "merged_device d old =
     old\<lparr>dv_room := orElse (dv_room d) (dv_room old), dv_owner := orElse (dv_owner d) (dv_owner old),
         dv_type := orElse (dv_type d) (dv_type old), dv_hardware := orElse (dv_hardware d) (dv_hardware old),
         dv_firmware := orElse (dv_firmware d) (dv_firmware old), dv_target := orElse (dv_target d) (dv_target old),
         dv_online := orElse (dv_online d) (dv_online old), dv_health := orElse (dv_health d) (dv_health old),
         dv_region := orElse (dv_region d) (dv_region old),
         dv_capability := (if dv_capability d = None then dv_capability old else dv_capability d)\<rparr>"

text \<open>An update reads the row, merges and writes it back; other calls may come between the two.\<close>

definition update_read :: "('d, 's, 'k, 't, 'w) device_env \<Rightarrow> device_base \<Rightarrow> 's \<Rightarrow> go_error + device_row" where
  "update_read env d s =
     (if dv_id d = [] then Inl (yerr SystemInternal ''id required'')
      else map_sum id (merged_device d) (do_get (de_store env) (dv_id d) s))"

definition update_write :: "('d, 's, 'k, 't, 'w) device_env \<Rightarrow> time \<Rightarrow> device_row \<Rightarrow> 's \<Rightarrow> (go_error, device_base, 's) outcome" where
  "update_write env now merged s = map_prod (map_sum id toServiceDevice) id (do_update (de_store env) now merged s)"

definition device_update :: "('d, 's, 'k, 't, 'w) device_env \<Rightarrow> time \<Rightarrow> device_base \<Rightarrow> 's \<Rightarrow> (go_error, device_base, 's) outcome" where
  "device_update env now d s = (case update_read env d s of Inl e \<Rightarrow> (Inl e, s) | Inr merged \<Rightarrow> update_write env now merged s)"

definition BindRoom :: "('d, 's, 'k, 't, 'w) device_env \<Rightarrow> time \<Rightarrow> string \<Rightarrow> string \<Rightarrow> 's \<Rightarrow> (go_error, unit, 's) outcome" where
  "BindRoom env now i room s =
     (if room = [] then (Inl (yerr SystemInternal ''room_id required''), s) else do_bind (de_store env) now i room s)"

definition UnbindRoom :: "('d, 's, 'k, 't, 'w) device_env \<Rightarrow> time \<Rightarrow> string \<Rightarrow> 's \<Rightarrow> (go_error, unit, 's) outcome" where
  "UnbindRoom env now i s = do_unbind (de_store env) now i s"

definition device_set_status :: "('d, 's, 'k, 't, 'w) device_env \<Rightarrow> time \<Rightarrow> string \<Rightarrow> string \<Rightarrow> 's \<Rightarrow> (go_error, unit, 's) outcome" where
  "device_set_status env now i st s =
     (if st = ''online'' \<or> st = ''offline'' \<or> st = ''error'' then do_set_status (de_store env) now i st s
      else (Inl (yerr SystemInternal (''invalid status: '' @ st)), s))"

definition UpdateFirmware :: "('d, 's, 'k, 't, 'w) device_env \<Rightarrow> time \<Rightarrow> string \<Rightarrow> string \<Rightarrow> 's \<Rightarrow> (go_error, unit, 's) outcome" where
  "UpdateFirmware env now i target s =
     (if target = [] then (Inl (yerr SystemInternal ''target required''), s) else do_set_target (de_store env) now i target s)"

text \<open>The errors of both are dropped.\<close>

definition MarkOnline :: "('d, 's, 'k, 't, 'w) device_env \<Rightarrow> time \<Rightarrow> string \<Rightarrow> u32 \<Rightarrow> 's \<Rightarrow> 's" where
  "MarkOnline env now i grams s = snd (do_mark_online (de_store env) i grams now s)"

definition HeartbeatAt :: "('d, 's, 'k, 't, 'w) device_env \<Rightarrow> string \<Rightarrow> time \<Rightarrow> 's \<Rightarrow> 's" where
  "HeartbeatAt env i at s = snd (do_mark_online (de_store env) i 0 at s)"

section \<open>Credentials\<close>

record mqtt_credential =
  mq_device :: string
  mq_username :: string
  mq_password :: string
  mq_expires :: time
  mq_alg :: string
  mq_kid :: string

text \<open>Twelve random bytes in base64; an empty text when there are none to be had.\<close>

definition randomJTI :: "byte list option \<Rightarrow> string" where
  "randomJTI rand = (case rand of None \<Rightarrow> [] | Some bs \<Rightarrow> rfc4648 bs)"

text \<open>The claims; a token of this kind has no \<open>kind\<close>, and its times are whole seconds.\<close>

definition mqtt_claims :: "string \<Rightarrow> string \<Rightarrow> string \<Rightarrow> duration \<Rightarrow> string \<Rightarrow> time \<Rightarrow> claims" where
  "mqtt_claims issuer audience device ttl jti now =
     \<lparr>cl_subject = device, cl_audience = [audience], cl_issuer = issuer, cl_issued = Some (numeric_date now),
      cl_expires = Some (numeric_date (now + ttl)), cl_not_before = None, cl_scope = OtherScope ''device'', cl_kind = OtherKind [],
      cl_room = [], cl_id = jti\<rparr>"

text \<open>Signing: the method depends on the algorithm and on where the key is.\<close>

definition sign_credential :: "('d, 't, 'w) jwt_lib \<Rightarrow> 'd signing_key \<Rightarrow> claims \<Rightarrow> go_error + 'w" where
  "sign_credential lib sk c =
     (case sg_alg sk of
        AlgHS256 \<Rightarrow> Inl (Wrap ''device-svc'' ErrHS256Removed)
      | OtherAlg a \<Rightarrow> Inl (Plain (''device-svc: unsupported alg '' @ a))
      | AlgRS256 \<Rightarrow>
          let sign = (case sg_material sk of Remote _ \<Rightarrow> remote_sign lib | _ \<Rightarrow> jl_sign lib)
          in (case jl_text lib ''RS256'' (sg_kid sk) c of
                Inl e \<Rightarrow> Inl e
              | Inr body \<Rightarrow> (case sign (sg_material sk) body of Inl e \<Rightarrow> Inl e | Inr sig \<Rightarrow> Inr (jl_compose lib body sig))))"

definition IssueMqttCredential ::
  "('d, 's, 'k, 't, 'w) device_env \<Rightarrow> byte list option \<Rightarrow> time \<Rightarrow> time \<Rightarrow> string \<Rightarrow> 'k \<Rightarrow> 's \<Rightarrow> (go_error, mqtt_credential, 's) outcome" where
  "IssueMqttCredential env rand now store_now i k s =
     (case de_provider env of
        None \<Rightarrow> (Inl (yerr SystemDependencyUnavailable ''key provider not configured''), s)
      | Some kp \<Rightarrow>
          (case do_get (de_store env) i s of
             Inl e \<Rightarrow> (Inl e, s)
           | Inr _ \<Rightarrow>
               (case kp_active kp k of
                  Inl e \<Rightarrow> (Inl e, s)
                | Inr sk \<Rightarrow>
                    let username = ''device:'' @ i; expires = now + de_ttl env
                    in (case sign_credential (de_lib env) sk (mqtt_claims (de_issuer env) (de_audience env) i (de_ttl env) (randomJTI rand) now) of
                          Inl e \<Rightarrow> (Inl e, s)
                        | Inr tok \<Rightarrow>
                            (case do_set_credential (de_store env) store_now i username (de_token_text env tok) expires s of
                               (Inl e, s') \<Rightarrow> (Inl e, s')
                             | (Inr _, s') \<Rightarrow> (Inr \<lparr>mq_device = i, mq_username = username, mq_password = de_token_text env tok,
                                   mq_expires = expires, mq_alg = alg_text (sg_alg sk), mq_kid = sg_kid sk\<rparr>, s'))))))"

definition device_jwks :: "('d, 's, 'k, 't, 'w) device_env \<Rightarrow> 'k \<Rightarrow> jwk list" where
  "device_jwks env k = (case de_provider env of None \<Rightarrow> [] | Some kp \<Rightarrow> kp_jwks kp k)"

end
