(* ===== verification/Routes.thy ===== *)
theory Routes
  imports PayReconcile BillingService UserService RoomService DeviceService ChatService FeedingService
begin

text \<open>
  The HTTP handlers of the user, room, device, feeding, chat and billing services, by service; those of the operators are in
  \<^verbatim>\<open>AdminHttp\<close> and those of the payment channels in \<^verbatim>\<open>PayHttp\<close>.
\<close>

section \<open>What the handlers share\<close>

text \<open>
  What the handlers of the services share: a body that comes decoded, or with the error of the decoder, and an answer
  with its status; \<^verbatim>\<open>httpx.WriteError\<close> answers with the status of the error.
\<close>

datatype 'a http_answer = HttpOk nat 'a | HttpError go_error

fun reply :: "nat \<Rightarrow> go_error + 'a \<Rightarrow> 'a http_answer" where
  "reply status (Inl e) = HttpError e"
| "reply status (Inr a) = HttpOk status a"

fun http_code :: "'a http_answer \<Rightarrow> nat" where
  "http_code (HttpOk status a) = status"
| "http_code (HttpError e) = error_status e"

definition replied :: "nat \<Rightarrow> (go_error, 'a, 's) outcome \<Rightarrow> 'a http_answer \<times> 's" where
  "replied status r = map_prod (reply status) id r"

text \<open>A handler that needs its body.\<close>

definition with_body :: "go_error + 'b \<Rightarrow> ('b \<Rightarrow> 's \<Rightarrow> 'a http_answer \<times> 's) \<Rightarrow> 's \<Rightarrow> 'a http_answer \<times> 's" where
  "with_body body f s = (case body of Inl _ \<Rightarrow> (HttpError (yerr SystemInternal ''invalid json''), s) | Inr b \<Rightarrow> f b s)"

text \<open>\<open>Atoi\<close> of a parameter of the query, kept at its default where it is missing or no number.\<close>

definition query_int :: "string \<Rightarrow> int option" where
  "query_int v = (if v = [] then None else parse_int64 v)"

lemma replied_simps [simp]:
  "replied n (Inl e, s) = (HttpError e, s)" "replied n (Inr a, s) = (HttpOk n a, s)"
  by (simp_all add: replied_def)

lemma with_body_simps [simp]:
  "with_body (Inr b) f s = f b s" "with_body (Inl e) f s = (HttpError (yerr SystemInternal ''invalid json''), s)"
  by (simp_all add: with_body_def)

section \<open>Logins and users\<close>

text \<open>
  \<^verbatim>\<open>go/services/user-svc/internal/transport/http.go\<close>: the routes of the logins and of a user, which ask for no token.
\<close>

subsection \<open>Handlers\<close>

record sms_started =
  sm_challenge :: string
  sm_code :: string
  sm_seconds :: int

definition http_start_login ::
  "('d, 's, 'k, 't, 'w) user_env \<Rightarrow> go_error + (nat \<times> nat \<times> nat) \<Rightarrow> string \<Rightarrow> time \<Rightarrow> go_error + string \<Rightarrow> 's users \<Rightarrow> sms_started http_answer \<times> 's users" where
  "http_start_login env rnd fresh now = (\<lambda>body. with_body body (\<lambda>phone st.
     case StartSmsLogin env rnd fresh now phone st of
       (Inl e, st') \<Rightarrow> (HttpError e, st')
     | (Inr (i, code, ttl), st') \<Rightarrow> (HttpOk 200 \<lparr>sm_challenge = i, sm_code = code, sm_seconds = ttl div second\<rparr>, st')))"

definition http_complete_login ::
  "('d, 's, 'k, 't, 'w) user_env \<Rightarrow> string \<Rightarrow> time \<Rightarrow> 'k \<Rightarrow> go_error + (string \<times> string) \<Rightarrow> 's users \<Rightarrow> (user \<times> 'w) http_answer \<times> 's users" where
  "http_complete_login env fresh now k = (\<lambda>body. with_body body (\<lambda>(i, code) st. replied 200 (CompleteSmsLogin env fresh now i code k st)))"

definition http_dev_login ::
  "('d, 's, 'k, 't, 'w) user_env \<Rightarrow> string \<Rightarrow> time \<Rightarrow> 'k \<Rightarrow> go_error + (string \<times> string) \<Rightarrow> 's users \<Rightarrow> (user \<times> 'w) http_answer \<times> 's users" where
  "http_dev_login env fresh now k = (\<lambda>body. with_body body (\<lambda>(uid, phone) st. replied 200 (DevLogin env fresh now uid phone k st)))"

definition http_get_user :: "('d, 's, 'k, 't, 'w) user_env \<Rightarrow> string \<Rightarrow> 's users \<Rightarrow> user http_answer" where
  "http_get_user env i st = reply 200 (user_get env i st)"

subsection \<open>Who may log in\<close>

text \<open>C19: Whoever knows a phone number logs in as its user: the answer to the first request carries the code that was meant for
  the phone, and a second request with it gives a token of that user.  The route of the development login, which is mounted always,
  needs one request.\<close>

theorem phone_taken_over:
  assumes "5 \<le> length phone" and "ue_hash env phone \<noteq> []" and "genCode rnd = Inr code" and "uo_by_phone (ue_store env) (ue_hash env phone) (uv_store st) = Inr u"
    and "later \<le> now + 5 * minute" and "SignLogin (ue_lib env) (ue_signer env) (us_id u) ScopeUser (ue_audience env) (ue_ttl env) later k = Inr tok"
    and "http_start_login env rnd fresh now (Inr phone) st = (answer, st1)"
  shows "\<exists>started. answer = HttpOk 200 started \<and>
    fst (http_complete_login env fresh' later k (Inr (sm_challenge started, sm_code started)) st1) = HttpOk 200 (u, tok) \<and>
    fst (http_dev_login env fresh' later k (Inr ([], phone)) st) = HttpOk 200 (u, tok)"
proof -
  let ?i = "''ch_sess_'' @ fresh"
  have start: "answer = HttpOk 200 \<lparr>sm_challenge = ?i, sm_code = code, sm_seconds = 5 * minute div second\<rparr>"
    "st1 = st\<lparr>uv_challenges := (uv_challenges st)(?i \<mapsto> \<lparr>ch_phone = ue_hash env phone, ch_code = code, ch_expires = now + 5 * minute\<rparr>)\<rparr>"
    using assms(1,3,7) by (auto simp: http_start_login_def StartSmsLogin_def Let_def)
  have "fst (http_complete_login env fresh' later k (Inr (?i, code)) st1) = HttpOk 200 (u, tok)"
    using assms(4-6) by (simp add: start http_complete_login_def CompleteSmsLogin_def user_of_phone_def finish_login_def Let_def)
  moreover have "phone \<noteq> []" using assms(1) by auto
  then have "fst (http_dev_login env fresh' later k (Inr ([], phone)) st) = HttpOk 200 (u, tok)"
    using assms(2,4,6) by (simp add: http_dev_login_def DevLogin_def found_by_def finish_login_def Let_def)
  ultimately show ?thesis using start(1) by simp
qed

theorem phone_taken_over_witness:
  "\<exists>st1 started. http_start_login demo_user_env (Inr (0, 48, 57)) ''c9'' 100 (Inr ''+8610086'') (demo_users_after [100] Map.empty) = (HttpOk 200 started, st1) \<and>
     fst (http_complete_login demo_user_env ''09'' 100 demo_kms (Inr (sm_challenge started, sm_code started)) st1) = HttpOk 200 (demo_user, demo_login_token 100)"
proof -
  obtain answer st1 where start: "http_start_login demo_user_env (Inr (0, 48, 57)) ''c9'' 100 (Inr ''+8610086'') (demo_users_after [100] Map.empty) = (answer, st1)"
    by (rule prod.exhaust)
  have "uo_by_phone (ue_store demo_user_env) (ue_hash demo_user_env ''+8610086'') (uv_store (demo_users_after [100] Map.empty)) = Inr demo_user"
    by (simp add: demo_user_env_def user_pg_ops_def user_pg_by_phone_def demo_users_after_def demo_demo_user)
  moreover have "SignLogin (ue_lib demo_user_env) (ue_signer demo_user_env) (us_id demo_user) ScopeUser (ue_audience demo_user_env)
      (ue_ttl demo_user_env) 100 demo_kms = Inr (demo_login_token 100)"
    by (simp add: demo_user_env_def demo_demo_user demo_signs)
  moreover have "ue_hash demo_user_env ''+8610086'' \<noteq> []" "genCode (Inr (0, 48, 57)) = Inr (pad 6 ((0 * 65536 + 48 * 256 + 57) mod 1000000))"
    by (simp_all add: demo_user_env_def genCode_def)
  moreover have "(100 :: int) \<le> 100 + 5 * minute" by (simp add: second_def)
  ultimately show ?thesis
    using phone_taken_over [OF _ _ _ _ _ _ start, of _ demo_user 100 demo_kms "demo_login_token 100" "''09''"] start by auto
qed

section \<open>Rooms\<close>

text \<open>
  \<^verbatim>\<open>go/services/room-svc/internal/transport/http.go\<close>.  Only the subscription looks at a token.
\<close>

definition http_ice_servers ::
  "('d, 's, 'k, 't, 'w) room_env \<Rightarrow> time \<Rightarrow> string \<Rightarrow> string \<Rightarrow> string \<Rightarrow> string \<Rightarrow> ice_response http_answer" where
  "http_ice_servers env now header query auth i =
     (let bearer = (if take 7 auth = ''Bearer '' then drop 7 auth else auth);
          user = (if header \<noteq> [] then header else if query \<noteq> [] then query else if bearer \<noteq> [] then ''anon-'' @ i else ''guest-'' @ i)
      in reply 200 (IssueIceServers env now user))"

definition room_query :: "string \<Rightarrow> string \<Rightarrow> string \<Rightarrow> string \<Rightarrow> string \<Rightarrow> room_filter" where
  "room_query owner region status limit offset =
     \<lparr>rf_owner = owner, rf_region = region, rf_status = status,
      rf_limit = (case query_int limit of None \<Rightarrow> 0 | Some n \<Rightarrow> n), rf_offset = (case query_int offset of None \<Rightarrow> 0 | Some n \<Rightarrow> n)\<rparr>"

definition http_list_rooms ::
  "('d, 's, 'k, 't, 'w) room_env \<Rightarrow> string list \<Rightarrow> string \<Rightarrow> string \<Rightarrow> string \<Rightarrow> string \<Rightarrow> string \<Rightarrow> 's \<Rightarrow> room_view list http_answer" where
  "http_list_rooms env ks owner region status limit offset s = reply 200 (room_list env ks (room_query owner region status limit offset) s)"

definition http_get_room :: "('d, 's, 'k, 't, 'w) room_env \<Rightarrow> string \<Rightarrow> 's \<Rightarrow> room_view http_answer" where
  "http_get_room env i s = reply 200 (room_get env i s)"

definition http_create_room ::
  "('d, 's, 'k, 't, 'w) room_env \<Rightarrow> string \<Rightarrow> time \<Rightarrow> go_error + room_view \<Rightarrow> 's \<Rightarrow> room_view http_answer \<times> 's" where
  "http_create_room env fresh now = (\<lambda>body. with_body body (\<lambda>r s. replied 201 (room_create env fresh now r s)))"

definition http_update_room ::
  "('d, 's, 'k, 't, 'w) room_env \<Rightarrow> time \<Rightarrow> string \<Rightarrow> go_error + room_view \<Rightarrow> 's \<Rightarrow> room_view http_answer \<times> 's" where
  "http_update_room env now i = (\<lambda>body. with_body body (\<lambda>r s. replied 200 (room_update env now (r\<lparr>rw_id := i\<rparr>) s)))"

definition http_room_status ::
  "('d, 's, 'k, 't, 'w) room_env \<Rightarrow> time \<Rightarrow> string \<Rightarrow> go_error + string \<Rightarrow> 's \<Rightarrow> (string \<times> string) http_answer \<times> 's" where
  "http_room_status env now i = (\<lambda>body. with_body body (\<lambda>status s.
     replied 200 (map_prod (map_sum id (\<lambda>_. (i, status))) id (room_set_status env now i status s))))"

definition http_rotate_key :: "('d, 's, 'k, 't, 'w) room_env \<Rightarrow> time \<Rightarrow> string \<Rightarrow> 's \<Rightarrow> (string \<times> string) http_answer \<times> 's" where
  "http_rotate_key env now i s = replied 200 (map_prod (map_sum id (Pair i)) id (RotateStreamKey env now i s))"

text \<open>\<open>tok\<close> is the text after the prefix \<^verbatim>\<open>Bearer\<close>, and \<open>None\<close> where it is missing or empty.\<close>

definition http_subscribe ::
  "('d, 's, 'k, 't, 'w) room_env \<Rightarrow> time \<Rightarrow> string \<Rightarrow> 'w option \<Rightarrow> bool \<Rightarrow> 's \<Rightarrow> 'k \<Rightarrow> 'w subscription http_answer \<times> 'k" where
  "http_subscribe env now i tok allow s k = replied 200 (IssueSubscription env now i tok allow s k)"

section \<open>Devices and feedings\<close>

text \<open>
  \<^verbatim>\<open>go/services/device-svc/internal/transport/http.go\<close>, which asks for no token, and the gRPC answer of the feeding service it
  relays (\<^verbatim>\<open>go/services/feeding-svc/internal/transport/grpc.go\<close>).
\<close>

subsection \<open>Devices\<close>

definition device_query :: "string \<Rightarrow> string \<Rightarrow> string \<Rightarrow> string \<Rightarrow> string \<Rightarrow> string \<Rightarrow> device_filter" where
  "device_query owner room region status limit offset =
     \<lparr>df_owner = owner, df_room = room, df_region = region, df_status = status,
      df_limit = (case query_int limit of None \<Rightarrow> 0 | Some n \<Rightarrow> n), df_offset = (case query_int offset of None \<Rightarrow> 0 | Some n \<Rightarrow> n)\<rparr>"

definition http_list_devices :: "('d, 's, 'k, 't, 'w) device_env \<Rightarrow> string list \<Rightarrow> device_filter \<Rightarrow> 's \<Rightarrow> device_base list http_answer" where
  "http_list_devices env ks f s = reply 200 (device_list env ks f s)"

definition http_get_device :: "('d, 's, 'k, 't, 'w) device_env \<Rightarrow> string \<Rightarrow> 's \<Rightarrow> device_base http_answer" where
  "http_get_device env i s = reply 200 (device_get env i s)"

definition http_register ::
  "('d, 's, 'k, 't, 'w) device_env \<Rightarrow> string \<Rightarrow> time \<Rightarrow> time \<Rightarrow> go_error + device_base \<Rightarrow> 's \<Rightarrow> device_base http_answer \<times> 's" where
  "http_register env fresh now store_now = (\<lambda>body. with_body body (\<lambda>d s. replied 201 (Register env fresh now store_now d s)))"

definition http_update_device ::
  "('d, 's, 'k, 't, 'w) device_env \<Rightarrow> time \<Rightarrow> string \<Rightarrow> go_error + device_base \<Rightarrow> 's \<Rightarrow> device_base http_answer \<times> 's" where
  "http_update_device env now i = (\<lambda>body. with_body body (\<lambda>d s. replied 200 (device_update env now (d\<lparr>dv_id := i\<rparr>) s)))"

text \<open>The answer of the handlers below repeats the identifier and what was asked for.\<close>

definition echoed :: "string \<Rightarrow> string \<Rightarrow> (go_error, unit, 's) outcome \<Rightarrow> (string \<times> string) http_answer \<times> 's" where
  "echoed i x r = replied 200 (map_prod (map_sum id (\<lambda>_. (i, x))) id r)"

definition http_bind :: "('d, 's, 'k, 't, 'w) device_env \<Rightarrow> time \<Rightarrow> string \<Rightarrow> go_error + string \<Rightarrow> 's \<Rightarrow> (string \<times> string) http_answer \<times> 's" where
  "http_bind env now i = (\<lambda>body. with_body body (\<lambda>room s. echoed i room (BindRoom env now i room s)))"

definition http_unbind :: "('d, 's, 'k, 't, 'w) device_env \<Rightarrow> time \<Rightarrow> string \<Rightarrow> 's \<Rightarrow> (string \<times> string) http_answer \<times> 's" where
  "http_unbind env now i s = echoed i [] (UnbindRoom env now i s)"

definition http_device_status ::
  "('d, 's, 'k, 't, 'w) device_env \<Rightarrow> time \<Rightarrow> string \<Rightarrow> go_error + string \<Rightarrow> 's \<Rightarrow> (string \<times> string) http_answer \<times> 's" where
  "http_device_status env now i = (\<lambda>body. with_body body (\<lambda>status s. echoed i status (device_set_status env now i status s)))"

definition http_mqtt_credential ::
  "('d, 's, 'k, 't, 'w) device_env \<Rightarrow> byte list option \<Rightarrow> time \<Rightarrow> time \<Rightarrow> string \<Rightarrow> 'k \<Rightarrow> 's \<Rightarrow> mqtt_credential http_answer \<times> 's" where
  "http_mqtt_credential env rand now store_now i k s = replied 200 (IssueMqttCredential env rand now store_now i k s)"

definition http_firmware ::
  "('d, 's, 'k, 't, 'w) device_env \<Rightarrow> time \<Rightarrow> string \<Rightarrow> go_error + string \<Rightarrow> 's \<Rightarrow> (string \<times> string) http_answer \<times> 's" where
  "http_firmware env now i = (\<lambda>body. with_body body (\<lambda>target s. echoed i target (UpdateFirmware env now i target s)))"

subsection \<open>The last feed request\<close>

datatype pb_status =
    PbUnspecified | PbCreated | PbAccepted | PbQueued | PbDispatched | PbAcknowledged | PbSucceeded | PbFailed | PbRejected | PbCompensated

definition mapStatus :: "string \<Rightarrow> pb_status" where
  "mapStatus s =
     (if s = ''created'' then PbCreated else if s = ''accepted'' then PbAccepted else if s = ''queued'' then PbQueued
      else if s = ''dispatched'' then PbDispatched else if s = ''acknowledged'' then PbAcknowledged else if s = ''succeeded'' then PbSucceeded
      else if s = ''failed'' then PbFailed else if s = ''rejected'' then PbRejected else if s = ''compensated'' then PbCompensated
      else PbUnspecified)"

record pb_request =
  pb_id :: string
  pb_user :: string
  pb_room :: string
  pb_device :: string
  pb_grams :: u32
  pb_status :: pb_status
  pb_created :: time

definition GetFeedRequest :: "string \<Rightarrow> ('k, 's, 'b) feeding \<Rightarrow> go_error + pb_request" where
  "GetFeedRequest i st =
     (case svc_feed_get i st of
        Inl e \<Rightarrow> Inl (Plain (''rpc error: code = NotFound desc = '' @ err_text e))
      | Inr r \<Rightarrow> Inr \<lparr>pb_id = rq_id r, pb_user = rq_user r, pb_room = rq_room r, pb_device = rq_device r, pb_grams = rq_amount r,
                      pb_status = mapStatus (state_string (rq_status r)), pb_created = rq_created r\<rparr>)"

text \<open>The connection to the feeding service, or the error of dialling, is \<open>client\<close>; only some fields are shown.\<close>

definition http_last_feed :: "string \<Rightarrow> (go_error + (string \<Rightarrow> go_error + pb_request)) \<Rightarrow> string \<Rightarrow> pb_request http_answer" where
  "http_last_feed addr client feed =
     (if addr = [] then HttpError (yerr SystemDependencyUnavailable ''feeding gRPC not configured'')
      else (case client of
          Inl e \<Rightarrow> HttpError (yerr SystemDependencyUnavailable (''grpc dial: '' @ err_text e))
        | Inr call \<Rightarrow> (case call feed of
            Inl e \<Rightarrow> HttpError (yerr SystemDependencyUnavailable (''grpc call: '' @ err_text e))
          | Inr r \<Rightarrow> HttpOk 200 r)))"

text \<open>A status that crosses the wire names the state of the request.\<close>

lemma status_crosses_wire:
  "mapStatus s = mapStatus t \<Longrightarrow> mapStatus s \<noteq> PbUnspecified \<Longrightarrow> s = t"
  by (auto simp: mapStatus_def split: if_splits)

subsection \<open>Feeding\<close>

text \<open>\<^verbatim>\<open>go/services/feeding-svc/internal/transport/http.go\<close>.  Who feeds is what the body says.\<close>

definition http_create_feed ::
  "('k, 's, 'b) feeding_env \<Rightarrow> string list \<Rightarrow> feed_fresh \<Rightarrow> go_error + feed_input \<Rightarrow> ('k, 's, 'b) feeding \<Rightarrow> request http_answer \<times> ('k, 's, 'b) feeding" where
  "http_create_feed env order fr = (\<lambda>body. with_body body (\<lambda>inp st. replied 202 (svc_feed_create env order fr inp st)))"

definition http_get_feed :: "string \<Rightarrow> ('k, 's, 'b) feeding \<Rightarrow> request http_answer" where
  "http_get_feed i st = reply 200 (svc_feed_get i st)"

text \<open>The body is optional; what cannot be read leaves the reason empty.\<close>

definition http_cancel_feed ::
  "('k, 's, 'b) feeding_env \<Rightarrow> feed_fresh \<Rightarrow> string \<Rightarrow> go_error + string \<Rightarrow> ('k, 's, 'b) feeding \<Rightarrow> request http_answer \<times> ('k, 's, 'b) feeding" where
  "http_cancel_feed env fr i body st = replied 200 (svc_feed_cancel env fr i (case body of Inl _ \<Rightarrow> [] | Inr reason \<Rightarrow> reason) st)"

definition http_ack ::
  "('k, 's, 'b) feeding_env \<Rightarrow> feed_fresh \<Rightarrow> go_error + feed_ack \<Rightarrow> ('k, 's, 'b) feeding \<Rightarrow> unit http_answer \<times> ('k, 's, 'b) feeding" where
  "http_ack env fr = (\<lambda>body. with_body body (\<lambda>ack st.
     case HandleAck env fr ack st of (Some e, st') \<Rightarrow> (HttpError e, st') | (None, st') \<Rightarrow> (HttpOk 204 (), st')))"

section \<open>Chat\<close>

text \<open>
  \<^verbatim>\<open>go/services/chat-svc/internal/transport/http.go\<close>.  The header \<^verbatim>\<open>X-User-Id\<close> names the sender, and where it is missing
  the body does.  Moderation asks for no token.
\<close>

definition http_chat_send ::
  "('c, 's, 'b) chat_env \<Rightarrow> time \<Rightarrow> time \<Rightarrow> fresh \<Rightarrow> string \<Rightarrow> string \<Rightarrow> go_error + send_input \<Rightarrow> ('c, 's, 'b) chat_state \<Rightarrow>
     chat_message http_answer \<times> ('c, 's, 'b) chat_state" where
  "http_chat_send env t u fr room header = (\<lambda>body. with_body body (\<lambda>inp st.
     replied 201 (chat_send env t u fr (inp\<lparr>si_room := room, si_user := (if header \<noteq> [] then header else si_user inp)\<rparr>) st)))"

definition http_chat_list ::
  "('c, 's, 'b) chat_env \<Rightarrow> string list \<Rightarrow> string \<Rightarrow> (string \<Rightarrow> int) \<Rightarrow> string \<Rightarrow> ('c, 's, 'b) chat_state \<Rightarrow> chat_message list http_answer" where
  "http_chat_list env ks room atoi limit st = reply 200 (chat_list env ks room (atoi limit) st)"

definition http_chat_moderate ::
  "('c, 's, 'b) chat_env \<Rightarrow> time \<Rightarrow> fresh \<Rightarrow> string \<Rightarrow> go_error + (string \<times> string) \<Rightarrow> ('c, 's, 'b) chat_state \<Rightarrow>
     chat_message http_answer \<times> ('c, 's, 'b) chat_state" where
  "http_chat_moderate env now fr i = (\<lambda>body. with_body body (\<lambda>(status, reason) st. replied 200 (chat_moderate env now fr i status reason st)))"

section \<open>Billing\<close>

text \<open>
  The handlers of \<^verbatim>\<open>go/services/billing-svc/internal/transport/http.go\<close> that call one operation of the billing service, and
  the report on the credentials.  None asks for a token.
\<close>

definition http_order_create ::
  "'s billing_ops \<Rightarrow> string \<Rightarrow> fresh \<Rightarrow> go_error + create_input \<Rightarrow> 's \<Rightarrow> order_dto http_answer \<times> 's" where
  "http_order_create ops src fr = (\<lambda>body. with_body body (\<lambda>inp s. replied 201 (svc_create ops src fr inp s)))"

definition http_order_get :: "'s billing_ops \<Rightarrow> string \<Rightarrow> 's \<Rightarrow> order_dto http_answer" where
  "http_order_get ops i s = reply 200 (svc_get ops i s)"

definition http_order_paid :: "'s billing_ops \<Rightarrow> string \<Rightarrow> fresh \<Rightarrow> string \<Rightarrow> 's \<Rightarrow> order_dto http_answer \<times> 's" where
  "http_order_paid ops src fr i s = replied 200 (svc_mark_paid ops src fr i s)"

definition http_order_refund :: "'s billing_ops \<Rightarrow> string \<Rightarrow> fresh \<Rightarrow> string \<Rightarrow> 's \<Rightarrow> order_dto http_answer \<times> 's" where
  "http_order_refund ops src fr i s = replied 200 (svc_refund ops src fr i s)"

definition http_reserve :: "'s billing_ops \<Rightarrow> string \<Rightarrow> fresh \<Rightarrow> go_error + reserve_input \<Rightarrow> 's \<Rightarrow> hold_dto http_answer \<times> 's" where
  "http_reserve ops src fr = (\<lambda>body. with_body body (\<lambda>inp s. replied 201 (svc_reserve ops src fr inp s)))"

definition http_confirm :: "'s billing_ops \<Rightarrow> string \<Rightarrow> fresh \<Rightarrow> string \<Rightarrow> 's \<Rightarrow> hold_dto http_answer \<times> 's" where
  "http_confirm ops src fr i s = replied 200 (svc_confirm ops src fr i s)"

text \<open>The body is optional.\<close>

definition http_cancel :: "'s billing_ops \<Rightarrow> string \<Rightarrow> fresh \<Rightarrow> string \<Rightarrow> go_error + string \<Rightarrow> 's \<Rightarrow> hold_dto http_answer \<times> 's" where
  "http_cancel ops src fr i body s = replied 200 (svc_cancel ops src fr i (case body of Inl _ \<Rightarrow> [] | Inr reason \<Rightarrow> reason) s)"

definition http_hold :: "'s billing_ops \<Rightarrow> string \<Rightarrow> 's \<Rightarrow> hold_dto http_answer" where
  "http_hold ops i s = reply 200 (svc_get_hold ops i s)"

definition http_wallet :: "'s billing_ops \<Rightarrow> string \<Rightarrow> 's \<Rightarrow> wallet_balance http_answer" where
  "http_wallet ops user s = reply 200 (svc_wallet ops user s)"

definition http_topup :: "'s billing_ops \<Rightarrow> fresh \<Rightarrow> string \<Rightarrow> go_error + i64 \<Rightarrow> 's \<Rightarrow> unit http_answer \<times> 's" where
  "http_topup ops fr user = (\<lambda>body. with_body body (\<lambda>amount s. replied 200 (svc_topup ops fr user amount s)))"

record diagnosis =
  dg_ready :: bool
  dg_real :: bool
  dg_checks :: "credential_check list"

definition diagnoseCredentials :: "credential_check list \<Rightarrow> diagnosis http_answer" where
  "diagnoseCredentials cs = HttpOk 200 \<lparr>dg_ready = AllReady cs, dg_real = HasRealMode cs, dg_checks = cs\<rparr>"

end
