(* ===== verification/Mqtt.thy ===== *)
theory Mqtt
  imports AppErrors
begin

text \<open>
  \<^verbatim>\<open>go/pkg/yunmao/mqttx/mqttx.go\<close>: topics, filters and the in-process broker.  A handler is a name here, and
  publishing answers the calls of handlers it makes, in their order; the order of the clients, a Go map, is an
  argument.
\<close>

section \<open>Topics\<close>

fun split_on :: "string \<Rightarrow> string \<Rightarrow> string list" where
  "split_on cur [] = [cur]"
| "split_on cur (c # cs) = (if c = CHR ''/'' then cur # split_on [] cs else split_on (cur @ [c]) cs)"

definition splitTopic :: "string \<Rightarrow> string list" where
  "splitTopic t = (if t = [] then [] else split_on [] t)"

definition DeviceEventTopic :: "string \<Rightarrow> string \<Rightarrow> string" where
  "DeviceEventTopic dev ty = ''device/'' @ dev @ ''/event/'' @ ty"

definition DeviceCommandTopic :: "string \<Rightarrow> string \<Rightarrow> string" where
  "DeviceCommandTopic dev ty = ''device/'' @ dev @ ''/cmd/'' @ ty"

text \<open>The segments joined again.\<close>

fun join_topic :: "string list \<Rightarrow> string" where
  "join_topic [] = []"
| "join_topic [p] = p"
| "join_topic (p # q # ps) = p @ CHR ''/'' # join_topic (q # ps)"

abbreviation no_slash :: "string \<Rightarrow> bool" where
  "no_slash s \<equiv> CHR ''/'' \<notin> set s"

lemma split_on_nonempty [simp]: "split_on cur t \<noteq> []"
  by (induction cur t rule: split_on.induct) auto

lemma join_split_on: "join_topic (split_on cur t) = cur @ t"
proof (induction cur t rule: split_on.induct)
  case (2 cur c cs)
  then show ?case
    by (cases "split_on [] cs") auto
qed simp

lemma split_on_no_slash: "no_slash cur \<Longrightarrow> p \<in> set (split_on cur t) \<Longrightarrow> no_slash p"
  by (induction cur t rule: split_on.induct) (auto split: if_splits)

lemma split_on_segment: "no_slash p \<Longrightarrow> split_on cur p = [cur @ p]"
  by (induction p arbitrary: cur) auto

lemma split_on_slash: "no_slash p \<Longrightarrow> split_on cur (p @ CHR ''/'' # t) = (cur @ p) # split_on [] t"
  by (induction p arbitrary: cur) auto

lemma split_on_join: "ps \<noteq> [] \<Longrightarrow> \<forall>p \<in> set ps. no_slash p \<Longrightarrow> split_on [] (join_topic ps) = ps"
  by (induction ps rule: join_topic.induct) (simp_all add: split_on_segment split_on_slash)

lemma splitTopic_join: "ps \<noteq> [] \<Longrightarrow> ps \<noteq> [[]] \<Longrightarrow> \<forall>p \<in> set ps. no_slash p \<Longrightarrow> splitTopic (join_topic ps) = ps"
  by (cases ps rule: join_topic.cases) (simp_all add: splitTopic_def split_on_join split_on_segment split_on_slash)

lemma join_splitTopic [simp]: "join_topic (splitTopic t) = t"
  by (simp add: splitTopic_def join_split_on)

lemma splitTopic_inj [simp]: "splitTopic t = splitTopic u \<longleftrightarrow> t = u"
  by (metis join_splitTopic)

lemma event_topic_segments:
  "no_slash dev \<Longrightarrow> no_slash ty \<Longrightarrow> splitTopic (DeviceEventTopic dev ty) = [''device'', dev, ''event'', ty]"
  using splitTopic_join [of "[''device'', dev, ''event'', ty]"] by (simp add: DeviceEventTopic_def)

lemma command_topic_segments:
  "no_slash dev \<Longrightarrow> no_slash ty \<Longrightarrow> splitTopic (DeviceCommandTopic dev ty) = [''device'', dev, ''cmd'', ty]"
  using splitTopic_join [of "[''device'', dev, ''cmd'', ty]"] by (simp add: DeviceCommandTopic_def)

section \<open>Filters\<close>

text \<open>The loop over both lists with its checks afterwards: a remaining \<open>#\<close> matches the parent.\<close>

fun matchFilter :: "string list \<Rightarrow> string list \<Rightarrow> bool" where
  "matchFilter (f # fs) (p # ps) =
     (if f = ''#'' then True
      else if f = ''+'' then matchFilter fs ps
      else f = p \<and> matchFilter fs ps)"
| "matchFilter [] [] = True"
| "matchFilter (f # fs) [] = (f = ''#'')"
| "matchFilter [] (p # ps) = False"

text \<open>The matching rules of the MQTT standard for a well-formed filter, in which \<open>#\<close> stands only at the end.\<close>

definition wf_filter :: "string list \<Rightarrow> bool" where
  "wf_filter fs \<longleftrightarrow> fs \<noteq> [] \<and> ''#'' \<notin> set (butlast fs)"

inductive mqtt_match :: "string list \<Rightarrow> string list \<Rightarrow> bool" where
  all_levels: "mqtt_match [''#''] ps"
| no_level: "mqtt_match [] []"
| one_level: "mqtt_match fs ps \<Longrightarrow> mqtt_match (''+'' # fs) (p # ps)"
| same_level: "mqtt_match fs ps \<Longrightarrow> p \<noteq> ''+'' \<Longrightarrow> p \<noteq> ''#'' \<Longrightarrow> mqtt_match (p # fs) (p # ps)"

inductive_simps mqtt_match_simps [simp]:
  "mqtt_match [] ps" "mqtt_match (f # fs) []" "mqtt_match (f # fs) (p # ps)"

lemma matchFilter_mqtt:
  "''#'' \<notin> set (butlast fs) \<Longrightarrow> matchFilter fs ps \<longleftrightarrow> mqtt_match fs ps"
proof (induction fs ps rule: matchFilter.induct)
  case (1 f fs p ps)
  show ?case
  proof (cases "f = ''#''")
    case True
    then have "fs = []" using 1(3) by (cases fs) auto
    then show ?thesis using True by simp
  next
    case False
    then have "''#'' \<notin> set (butlast fs)" using 1(3) by (cases fs) auto
    then show ?thesis using False 1(1) 1(2) by auto
  qed
next
  case (3 f fs)
  then show ?case by (cases fs) auto
qed auto

section \<open>The in-process broker\<close>

record mqtt_message =
  mm_topic :: string
  mm_payload :: string

type_synonym 'h broker = "string \<rightharpoonup> (string list \<times> 'h) list"

record 'h mqtt_client =
  mc_id :: string
  mc_connected :: bool

definition ErrNotConnected :: go_error where
  "ErrNotConnected = Sentinel ''mqttx: not connected''"

definition broker_publish :: "string list \<Rightarrow> string \<Rightarrow> string \<Rightarrow> 'h broker \<Rightarrow> ('h \<times> mqtt_message) list" where
  "broker_publish cs topic payload b =
     map (\<lambda>(f, h). (h, \<lparr>mm_topic = topic, mm_payload = payload\<rparr>))
       (filter (\<lambda>(f, h). matchFilter f (splitTopic topic)) (concat (rows_in cs b)))"

definition broker_subscribe :: "string \<Rightarrow> string \<Rightarrow> 'h \<Rightarrow> 'h broker \<Rightarrow> 'h broker" where
  "broker_subscribe cid flt h b = b(cid \<mapsto> (case b cid of None \<Rightarrow> [] | Some l \<Rightarrow> l) @ [(splitTopic flt, h)])"

definition client_connect :: "'h mqtt_client \<Rightarrow> 'h mqtt_client" where
  "client_connect c = c\<lparr>mc_connected := True\<rparr>"

definition client_disconnect :: "'h mqtt_client \<Rightarrow> 'h broker \<Rightarrow> 'h mqtt_client \<times> 'h broker" where
  "client_disconnect c b = (c\<lparr>mc_connected := False\<rparr>, b(mc_id c := None))"

definition client_subscribe :: "'h mqtt_client \<Rightarrow> string \<Rightarrow> 'h \<Rightarrow> 'h broker \<Rightarrow> (go_error, unit, 'h broker) outcome" where
  "client_subscribe c flt h b = (if mc_connected c then (Inr (), broker_subscribe (mc_id c) flt h b) else (Inl ErrNotConnected, b))"

definition client_publish :: "string list \<Rightarrow> 'h mqtt_client \<Rightarrow> string \<Rightarrow> string \<Rightarrow> 'h broker \<Rightarrow> go_error + ('h \<times> mqtt_message) list" where
  "client_publish cs c topic payload b =
     (if mc_connected c then Inr (broker_publish cs topic payload b) else Inl ErrNotConnected)"

text \<open>The filter of the bridge takes exactly the topics of device events.\<close>

definition all_devices_filter :: string where
  "all_devices_filter = ''device/+/event/+''"

lemma all_devices_filter_matches:
  "matchFilter (splitTopic all_devices_filter) ps \<longleftrightarrow> (\<exists>dev ty. ps = [''device'', dev, ''event'', ty])"
  by (cases ps; cases "tl ps"; cases "tl (tl ps)"; cases "tl (tl (tl ps))"; cases "tl (tl (tl (tl ps)))")
    (auto simp: all_devices_filter_def splitTopic_def)


definition demo_broker :: "string broker" where
  "demo_broker = broker_subscribe ''bridge'' all_devices_filter ''events'' (broker_subscribe ''app'' ''device/#'' ''all'' Map.empty)"


end
