(* ===== verification/EventBus.thy ===== *)
theory EventBus
  imports Events "HOL-Library.Multiset"
begin

text \<open>
  The in-process bus of \<^verbatim>\<open>go/pkg/yunmao/eventbus/eventbus.go\<close>.  A publication reads the subscribers under
  the lock and sends to their channels after releasing it, so publications, consumers and the closing of the bus
  interleave: every send is a step of its own.  A consumer is its goroutine with its channel.
\<close>

section \<open>State and operations\<close>

record consumer =
  cs_topics :: "topic list"
  cs_queue :: "envelope list"
  cs_running :: bool

record bus =
  eb_subs :: "topic \<Rightarrow> nat list"
  eb_consumers :: "consumer list"
  eb_closed :: bool
  eb_pending :: "(envelope \<times> nat list) list"

definition NewMemoryBus :: bus where
  "NewMemoryBus = \<lparr>eb_subs = (\<lambda>_. []), eb_consumers = [], eb_closed = False, eb_pending = []\<rparr>"

abbreviation bus_closed :: go_error where
  "bus_closed \<equiv> Plain ''eventbus: closed''"

text \<open>The part of \<open>Publish\<close> under the lock.\<close>

definition publish_begin :: "envelope \<Rightarrow> bus \<Rightarrow> (go_error, nat list, bus) outcome" where
  "publish_begin env b =
     (if eb_closed b then (Inl bus_closed, b)
      else (Inr (eb_subs b (env_topic env)), b\<lparr>eb_pending := eb_pending b @ [(env, eb_subs b (env_topic env))]\<rparr>))"

definition channel_size :: nat where
  "channel_size = 256"

definition queue_of :: "bus \<Rightarrow> nat \<Rightarrow> envelope list" where
  "queue_of b n = (if n < length (eb_consumers b) then cs_queue (eb_consumers b ! n) else [])"

definition running :: "bus \<Rightarrow> nat \<Rightarrow> bool" where
  "running b n \<longleftrightarrow> n < length (eb_consumers b) \<and> cs_running (eb_consumers b ! n)"

definition enqueue :: "nat \<Rightarrow> envelope \<Rightarrow> bus \<Rightarrow> bus" where
  "enqueue n env b = b\<lparr>eb_consumers := (eb_consumers b)[n := (eb_consumers b ! n)\<lparr>cs_queue := queue_of b n @ [env]\<rparr>]\<rparr>"

definition dequeue :: "nat \<Rightarrow> bus \<Rightarrow> bus" where
  "dequeue n b = b\<lparr>eb_consumers := (eb_consumers b)[n := (eb_consumers b ! n)\<lparr>cs_queue := tl (queue_of b n)\<rparr>]\<rparr>"

text \<open>The next send of the publication at place \<open>i\<close>; a full channel drops the envelope.\<close>

definition send_next :: "nat \<Rightarrow> bus \<Rightarrow> bus" where
  "send_next i b =
     (case eb_pending b ! i of
        (env, []) \<Rightarrow> b
      | (env, n # ns) \<Rightarrow>
          let b' = b\<lparr>eb_pending := (eb_pending b)[i := (env, ns)]\<rparr>
          in if length (queue_of b n) < channel_size then enqueue n env b' else b')"

definition bus_subscribe :: "topic list \<Rightarrow> bus \<Rightarrow> (go_error, nat, bus) outcome" where
  "bus_subscribe ts b =
     (if eb_closed b then (Inl bus_closed, b)
      else let n = length (eb_consumers b)
           in (Inr n, b\<lparr>eb_subs := fold (\<lambda>t subs. subs(t := subs t @ [n])) ts (eb_subs b),
                        eb_consumers := eb_consumers b @ [\<lparr>cs_topics = ts, cs_queue = [], cs_running = True\<rparr>]\<rparr>))"

text \<open>The goroutine ends, on its context or on the closed bus, and takes its channel out of the map.\<close>

definition unsub :: "nat \<Rightarrow> bus \<Rightarrow> bus" where
  "unsub n b =
     (let c = eb_consumers b ! n
      in b\<lparr>eb_subs := fold (\<lambda>t subs. subs(t := remove1 n (subs t))) (cs_topics c) (eb_subs b),
           eb_consumers := (eb_consumers b)[n := c\<lparr>cs_running := False\<rparr>]\<rparr>)"

definition bus_close :: "bus \<Rightarrow> bus" where
  "bus_close b = b\<lparr>eb_closed := True\<rparr>"

section \<open>Runs\<close>

datatype bus_label =
    Published envelope "nat list"
  | Refused envelope
  | Sent nat envelope
  | Dropped nat envelope
  | Subscribed nat "topic list"
  | Handled nat envelope
  | Stopped nat
  | Closed

inductive bus_step :: "bus \<Rightarrow> bus_label \<Rightarrow> bus \<Rightarrow> bool" where
  publish: "publish_begin env b = (Inr ns, b') \<Longrightarrow> bus_step b (Published env ns) b'"
| refuse: "publish_begin env b = (Inl e, b') \<Longrightarrow> bus_step b (Refused env) b'"
| send: "i < length (eb_pending b) \<Longrightarrow> eb_pending b ! i = (env, n # ns) \<Longrightarrow> length (queue_of b n) < channel_size
    \<Longrightarrow> bus_step b (Sent n env) (send_next i b)"
| drop: "i < length (eb_pending b) \<Longrightarrow> eb_pending b ! i = (env, n # ns) \<Longrightarrow> \<not> length (queue_of b n) < channel_size
    \<Longrightarrow> bus_step b (Dropped n env) (send_next i b)"
| subscribe: "bus_subscribe ts b = (Inr n, b') \<Longrightarrow> bus_step b (Subscribed n ts) b'"
| handle: "running b n \<Longrightarrow> queue_of b n = env # q \<Longrightarrow> bus_step b (Handled n env) (dequeue n b)"
| stop: "running b n \<Longrightarrow> bus_step b (Stopped n) (unsub n b)"
| close: "bus_step b Closed (bus_close b)"

inductive_cases bus_step_elims: "bus_step b l b'"

inductive bus_run :: "bus_label list \<Rightarrow> bus \<Rightarrow> bool" where
  start: "bus_run [] NewMemoryBus"
| step: "bus_run tr b \<Longrightarrow> bus_step b l b' \<Longrightarrow> bus_run (tr @ [l]) b'"

text \<open>What a consumer was offered, what its channel took and dropped, and what its handler was given.\<close>

definition offered :: "nat \<Rightarrow> bus_label list \<Rightarrow> envelope multiset" where
  "offered n tr = (\<Sum>l \<leftarrow> tr. case l of Published env ns \<Rightarrow> replicate_mset (count_list ns n) env | _ \<Rightarrow> {#})"

definition taken :: "nat \<Rightarrow> bus_label list \<Rightarrow> envelope list" where
  "taken n tr = List.map_filter (\<lambda>l. case l of Sent m env \<Rightarrow> if m = n then Some env else None | _ \<Rightarrow> None) tr"

definition dropped :: "nat \<Rightarrow> bus_label list \<Rightarrow> envelope list" where
  "dropped n tr = List.map_filter (\<lambda>l. case l of Dropped m env \<Rightarrow> if m = n then Some env else None | _ \<Rightarrow> None) tr"

definition handled :: "nat \<Rightarrow> bus_label list \<Rightarrow> envelope list" where
  "handled n tr = List.map_filter (\<lambda>l. case l of Handled m env \<Rightarrow> if m = n then Some env else None | _ \<Rightarrow> None) tr"

definition in_flight :: "nat \<Rightarrow> bus \<Rightarrow> envelope multiset" where
  "in_flight n b = (\<Sum>(env, ns) \<leftarrow> eb_pending b. replicate_mset (count_list ns n) env)"

lemma offered_simps [simp]:
  "offered n [] = {#}" "offered n (tr @ [l]) = offered n tr + (case l of Published env ns \<Rightarrow> replicate_mset (count_list ns n) env | _ \<Rightarrow> {#})"
  by (simp_all add: offered_def)

lemma map_filter_snoc: "List.map_filter f (xs @ [x]) = List.map_filter f xs @ (case f x of None \<Rightarrow> [] | Some y \<Rightarrow> [y])"
  by (induction xs) (auto simp: map_filter_simps split: option.splits)

lemma trace_simps [simp]:
  "taken n [] = []" "dropped n [] = []" "handled n [] = []"
  "taken n (tr @ [l]) = taken n tr @ (case l of Sent m env \<Rightarrow> if m = n then [env] else [] | _ \<Rightarrow> [])"
  "dropped n (tr @ [l]) = dropped n tr @ (case l of Dropped m env \<Rightarrow> if m = n then [env] else [] | _ \<Rightarrow> [])"
  "handled n (tr @ [l]) = handled n tr @ (case l of Handled m env \<Rightarrow> if m = n then [env] else [] | _ \<Rightarrow> [])"
  by (simp_all add: taken_def dropped_def handled_def map_filter_simps map_filter_snoc split: bus_label.split)

section \<open>What the bus keeps\<close>

text \<open>A well-formed bus: every channel named anywhere exists, and a running consumer stands in the list of each
  of its topics as often as it asked for, a stopped one nowhere.\<close>

definition wanted :: "bus \<Rightarrow> nat \<Rightarrow> topic \<Rightarrow> nat" where
  "wanted b n t = (if running b n then count_list (cs_topics (eb_consumers b ! n)) t else 0)"

definition bus_wf :: "bus \<Rightarrow> bool" where
  "bus_wf b \<longleftrightarrow> (\<forall>p \<in> set (eb_pending b). \<forall>n \<in> set (snd p). n < length (eb_consumers b)) \<and>
     (\<forall>t n. count_list (eb_subs b t) n = wanted b n t) \<and> (\<forall>n. length (queue_of b n) \<le> channel_size)"

lemma count_list_remove1: "count_list (remove1 x xs) y = count_list xs y - (if x = y then 1 else 0)"
  by (induction xs) auto

lemma fold_append_count:
  "count_list (fold (\<lambda>t subs. subs(t := subs t @ [n])) ts subs t) m = count_list (subs t) m + (if m = n then count_list ts t else 0)"
  by (induction ts arbitrary: subs) (auto simp: count_list_append)

lemma fold_remove_count:
  "count_list (fold (\<lambda>t subs. subs(t := remove1 n (subs t))) ts subs t) m = count_list (subs t) m - (if m = n then count_list ts t else 0)"
  by (induction ts arbitrary: subs) (auto simp: count_list_remove1)

lemma nth_update_field: "(\<And>c. g (f c) = g c) \<Longrightarrow> g (xs[n := f (xs ! n)] ! m) = g (xs ! m)"
  by (cases "n < length xs"; cases "m = n") (simp_all add: list_update_beyond)

lemma queue_simps [simp]:
  "eb_subs (enqueue n env b) = eb_subs b" "eb_pending (enqueue n env b) = eb_pending b" "eb_closed (enqueue n env b) = eb_closed b"
  "length (eb_consumers (enqueue n env b)) = length (eb_consumers b)"
  "n < length (eb_consumers b) \<Longrightarrow> queue_of (enqueue n env b) m = queue_of b m @ (if m = n then [env] else [])"
  "running (enqueue n env b) m = running b m" "cs_topics (eb_consumers (enqueue n env b) ! m) = cs_topics (eb_consumers b ! m)"
  "eb_subs (dequeue n b) = eb_subs b" "eb_pending (dequeue n b) = eb_pending b" "eb_closed (dequeue n b) = eb_closed b"
  "length (eb_consumers (dequeue n b)) = length (eb_consumers b)"
  "n < length (eb_consumers b) \<Longrightarrow> queue_of (dequeue n b) m = (if m = n then tl (queue_of b m) else queue_of b m)"
  "running (dequeue n b) m = running b m" "cs_topics (eb_consumers (dequeue n b) ! m) = cs_topics (eb_consumers b ! m)"
  by (simp_all add: enqueue_def dequeue_def running_def)
    (auto simp: queue_of_def nth_list_update nth_update_field [of cs_running "\<lambda>c. c\<lparr>cs_queue := x\<rparr>" for x]
      nth_update_field [of cs_topics "\<lambda>c. c\<lparr>cs_queue := x\<rparr>" for x])

lemma pending_simps [simp]:
  "queue_of (b\<lparr>eb_pending := p\<rparr>) m = queue_of b m" "running (b\<lparr>eb_pending := p\<rparr>) m = running b m"
  by (simp_all add: queue_of_def running_def)

lemma unsub_simps [simp]:
  "eb_pending (unsub n b) = eb_pending b" "length (eb_consumers (unsub n b)) = length (eb_consumers b)"
  "queue_of (unsub n b) m = queue_of b m" "cs_topics (eb_consumers (unsub n b) ! m) = cs_topics (eb_consumers b ! m)"
  "n < length (eb_consumers b) \<Longrightarrow> running (unsub n b) m \<longleftrightarrow> running b m \<and> m \<noteq> n"
  by (simp_all add: unsub_def Let_def running_def queue_of_def)
    (auto simp: nth_list_update nth_update_field [of cs_queue "\<lambda>c. c\<lparr>cs_running := x\<rparr>" for x]
      nth_update_field [of cs_topics "\<lambda>c. c\<lparr>cs_running := x\<rparr>" for x])

lemma subscribe_simps:
  assumes "bus_subscribe ts b = (Inr n, b')"
  shows "n = length (eb_consumers b)" and "eb_pending b' = eb_pending b" and "length (eb_consumers b') = Suc n"
    and "queue_of b' m = queue_of b m" and "running b' m \<longleftrightarrow> running b m \<or> m = n"
    and "running b' m \<Longrightarrow> cs_topics (eb_consumers b' ! m) = (if m = n then ts else cs_topics (eb_consumers b ! m))"
    and "count_list (eb_subs b' t) m = count_list (eb_subs b t) m + (if m = n then count_list ts t else 0)"
  using assms by (auto simp: bus_subscribe_def Let_def queue_of_def running_def nth_append fold_append_count split: if_splits)

lemma wanted_simps [simp]:
  "wanted (enqueue n env b) m t = wanted b m t" "wanted (dequeue n b) m t = wanted b m t"
  "wanted (b\<lparr>eb_pending := p\<rparr>) m t = wanted b m t" "wanted (bus_close b) m t = wanted b m t"
  "n < length (eb_consumers b) \<Longrightarrow> wanted (unsub n b) m t = (if m = n then 0 else wanted b m t)"
  by (simp_all add: wanted_def) (auto simp: running_def bus_close_def)

lemma wanted_subscribe:
  "bus_subscribe ts b = (Inr n, b') \<Longrightarrow> wanted b' m t = wanted b m t + (if m = n then count_list ts t else 0)"
  using subscribe_simps [of ts b n b'] by (auto simp: wanted_def running_def)

lemma send_next_simps:
  assumes "eb_pending b ! i = (env, n # ns)" and "n < length (eb_consumers b)"
  shows "eb_pending (send_next i b) = (eb_pending b)[i := (env, ns)]" and "eb_subs (send_next i b) = eb_subs b"
    and "length (eb_consumers (send_next i b)) = length (eb_consumers b)" and "wanted (send_next i b) m t = wanted b m t"
    and "queue_of (send_next i b) m = queue_of b m @ (if m = n \<and> length (queue_of b n) < channel_size then [env] else [])"
  using assms by (simp_all add: send_next_def Let_def)

lemma pending_channel:
  "bus_wf b \<Longrightarrow> i < length (eb_pending b) \<Longrightarrow> eb_pending b ! i = (env, n # ns) \<Longrightarrow> n < length (eb_consumers b)"
  by (metis bus_wf_def list.set_intros(1) nth_mem snd_conv)

lemma pending_update:
  assumes "i < length ps" and "ps ! i = (env, n # ns)" and "\<forall>p \<in> set ps. \<forall>n \<in> set (snd p). P n"
  shows "\<forall>p \<in> set (ps[i := (env, ns)]). \<forall>n \<in> set (snd p). P n"
  using assms by (metis list.set_intros(2) nth_mem set_update_subset_insert insertE subsetD snd_conv)

lemma subscriber_exists: "bus_wf b \<Longrightarrow> n \<in> set (eb_subs b t) \<Longrightarrow> n < length (eb_consumers b)"
  by (metis bus_wf_def count_list_0_iff running_def wanted_def)

lemma bus_step_wf:
  assumes "bus_step b l b'" and "bus_wf b"
  shows "bus_wf b'"
  using assms
proof (induction rule: bus_step.induct)
  case (publish env b ns b')
  have "\<forall>n \<in> set (eb_subs b t). n < length (eb_consumers b)" for t using subscriber_exists [OF publish(2)] by blast
  then show ?case using publish by (auto simp: publish_begin_def bus_wf_def split: if_splits)
next
  case (send i b env n ns)
  then show ?case
    using pending_update [OF send(1,2), of "\<lambda>n. n < length (eb_consumers b)"] pending_channel [OF send(4,1,2)]
    by (simp add: bus_wf_def send_next_simps [OF send(2) pending_channel [OF send(4,1,2)]])
next
  case (drop i b env n ns)
  then show ?case
    using pending_update [OF drop(1,2), of "\<lambda>n. n < length (eb_consumers b)"] pending_channel [OF drop(4,1,2)]
    by (simp add: bus_wf_def send_next_simps [OF drop(2) pending_channel [OF drop(4,1,2)]])
next
  case (subscribe ts b n b')
  then show ?case
    by (auto simp: bus_wf_def wanted_subscribe [OF subscribe(1)] subscribe_simps [OF subscribe(1)] intro: less_SucI)
next
  case (handle b n env q)
  then have "n < length (eb_consumers b)" by (simp add: running_def)
  moreover have "length q \<le> channel_size" using handle(2,3) by (metis Suc_leD bus_wf_def length_Cons)
  ultimately show ?case using handle by (auto simp: bus_wf_def)
next
  case (stop b n)
  then have n: "n < length (eb_consumers b)" by (simp add: running_def)
  have "count_list (eb_subs (unsub n b) t) m = (if m = n then 0 else wanted b m t)" for t m
    using stop n by (auto simp: unsub_def Let_def fold_remove_count bus_wf_def wanted_def)
  with stop n show ?case by (simp add: bus_wf_def)
qed (auto simp: publish_begin_def bus_wf_def bus_close_def queue_of_def wanted_def running_def split: if_splits)

lemma bus_run_wf: "bus_run tr b \<Longrightarrow> bus_wf b"
proof (induction rule: bus_run.induct)
  case start
  show ?case by (simp add: NewMemoryBus_def bus_wf_def running_def wanted_def queue_of_def)
qed (rule bus_step_wf)

section \<open>Delivery\<close>

lemma in_flight_simps [simp]:
  "in_flight n (b\<lparr>eb_pending := p\<rparr>) = (\<Sum>(env, ns) \<leftarrow> p. replicate_mset (count_list ns n) env)"
  by (simp add: in_flight_def)

lemma in_flight_cong: "eb_pending b = eb_pending b' \<Longrightarrow> in_flight n b = in_flight n b'"
  by (simp add: in_flight_def)

lemma in_flight_send:
  assumes "i < length (eb_pending b)" and "eb_pending b ! i = (env, m # ns)" and "eb_pending b' = (eb_pending b)[i := (env, ns)]"
  shows "in_flight n b = in_flight n b' + (if m = n then {#env#} else {#})"
proof -
  let ?f = "\<lambda>(env, ns). replicate_mset (count_list ns n) env :: envelope multiset"
  have split: "eb_pending b = take i (eb_pending b) @ (env, m # ns) # drop (Suc i) (eb_pending b)"
    using assms(1,2) by (metis id_take_nth_drop)
  then have "eb_pending b' = take i (eb_pending b) @ (env, ns) # drop (Suc i) (eb_pending b)"
    using assms(1,3) by (simp add: upd_conv_take_nth_drop)
  then show ?thesis
    by (subst in_flight_def, subst split) (simp add: in_flight_def)
qed


text \<open>What a publication offers a consumer: once for each time it asked for the topic, while it is running.\<close>

lemma publication_offers:
  assumes "bus_run tr b" and "bus_step b (Published env ns) b'"
  shows "count_list ns n = wanted b n (env_topic env)"
  using assms(2) bus_run_wf [OF assms(1)] by cases (auto simp: publish_begin_def bus_wf_def split: if_splits)

section \<open>A run\<close>

definition demo_envelope :: envelope where
  "demo_envelope = \<lparr>env_topic = FeedCommandAcked, env_key = ''room_1'', env_headers = [], env_payload = ''{}''\<rparr>"

definition demo_bus :: bus where
  "demo_bus = \<lparr>eb_subs = (\<lambda>_. [])(FeedCommandAcked := [0]),
     eb_consumers = [\<lparr>cs_topics = [FeedCommandAcked], cs_queue = [], cs_running = True\<rparr>], eb_closed = False,
     eb_pending = [(demo_envelope, [])]\<rparr>"

lemma demo_bus_run:
  "bus_run [Subscribed 0 [FeedCommandAcked], Published demo_envelope [0], Sent 0 demo_envelope, Handled 0 demo_envelope] demo_bus"
proof -
  define c where "c q = \<lparr>cs_topics = [FeedCommandAcked], cs_queue = q, cs_running = True\<rparr>" for q
  define b where "b q p = \<lparr>eb_subs = (\<lambda>_. [])(FeedCommandAcked := [0]), eb_consumers = [c q], eb_closed = False, eb_pending = p\<rparr>" for q p
  have "bus_step NewMemoryBus (Subscribed 0 [FeedCommandAcked]) (b [] [])"
    by (rule bus_step.subscribe) (simp add: bus_subscribe_def NewMemoryBus_def b_def c_def)
  then have run1: "bus_run [Subscribed 0 [FeedCommandAcked]] (b [] [])"
    using bus_run.step [OF bus_run.start] by force
  have "bus_step (b [] []) (Published demo_envelope [0]) (b [] [(demo_envelope, [0])])"
    by (rule bus_step.publish) (simp add: publish_begin_def b_def demo_envelope_def)
  then have run2: "bus_run [Subscribed 0 [FeedCommandAcked], Published demo_envelope [0]] (b [] [(demo_envelope, [0])])"
    using bus_run.step [OF run1] by force
  have "bus_step (b [] [(demo_envelope, [0])]) (Sent 0 demo_envelope) (send_next 0 (b [] [(demo_envelope, [0])]))"
    by (rule bus_step.send [of _ _ _ _ "[]"]) (simp_all add: b_def c_def queue_of_def channel_size_def)
  moreover have "send_next 0 (b [] [(demo_envelope, [0])]) = b [demo_envelope] [(demo_envelope, [])]"
    by (simp add: send_next_def enqueue_def b_def c_def queue_of_def channel_size_def)
  ultimately have run3: "bus_run [Subscribed 0 [FeedCommandAcked], Published demo_envelope [0], Sent 0 demo_envelope]
      (b [demo_envelope] [(demo_envelope, [])])"
    using bus_run.step [OF run2] by force
  have "bus_step (b [demo_envelope] [(demo_envelope, [])]) (Handled 0 demo_envelope) (dequeue 0 (b [demo_envelope] [(demo_envelope, [])]))"
    by (rule bus_step.handle [of _ _ _ "[]"]) (simp_all add: b_def c_def queue_of_def running_def)
  moreover have "dequeue 0 (b [demo_envelope] [(demo_envelope, [])]) = demo_bus"
    by (simp add: dequeue_def b_def c_def queue_of_def demo_bus_def)
  ultimately show ?thesis using bus_run.step [OF run3] by force
qed


end
