(* ===== verification/DeviceProps.thy ===== *)
theory DeviceProps
  imports DeviceService KeyDemo
begin

text \<open>What holds of the device service: any store behaves as one map of devices, the credential a device gets is
  the one its row knows and the broker accepts, and an update in memory may undo a heartbeat.\<close>

section \<open>One map of devices\<close>

definition device_map_ops :: "(string \<Rightarrow> string) \<Rightarrow> (string \<rightharpoonup> device_row) device_ops" where
  "device_map_ops sha = \<lparr>do_get = device_mem_get,
     do_create = (\<lambda>now d m. (Inr (), m(dv_id d \<mapsto> shown d))),
     do_update = (\<lambda>now d m. if m (dv_id d) = None then (Inl no_device, m) else (Inr (shown d), m(dv_id d \<mapsto> shown d))),
     do_list = device_mem_list,
     do_set_status = (\<lambda>now i st. on_device i (\<lambda>d. d\<lparr>dv_online := st\<rparr>)),
     do_mark_online = (\<lambda>i grams at. on_device i (beat grams at)),
     do_bind = (\<lambda>now i room. on_device i (\<lambda>d. d\<lparr>dv_room := room\<rparr>)),
     do_unbind = (\<lambda>now i. on_device i (\<lambda>d. d\<lparr>dv_room := []\<rparr>)),
     do_set_credential = (\<lambda>now i u p e. on_device i (\<lambda>d. d\<lparr>dv_mqtt_user := u, dv_mqtt_hash := HashPassword sha u p, dv_mqtt_expires := e\<rparr>)),
     do_set_target = (\<lambda>now i t. on_device i (\<lambda>d. d\<lparr>dv_target := t\<rparr>))\<rparr>"

text \<open>The calls; each comes with the clock readings of the service and of the store.\<close>

datatype 'k device_call =
    DGet string
  | DRegister string time time device_base
  | DUpdate time device_base
  | DBind time string string
  | DUnbind time string
  | DStatus time string string
  | DFirmware time string string
  | DOnline time string u32
  | DHeartbeat string time
  | DCredential "byte list option" time time string 'k

datatype device_answer = DError go_error | DDevice device_base | DDone | DCred mqtt_credential

definition answer :: "('a \<Rightarrow> device_answer) \<Rightarrow> go_error + 'a \<Rightarrow> device_answer" where
  "answer f r = (case r of Inl e \<Rightarrow> DError e | Inr a \<Rightarrow> f a)"

text \<open>A nil capability and an empty one are the same answer.\<close>

definition ans_device :: "device_base \<Rightarrow> device_answer" where
  "ans_device d = DDevice (d\<lparr>dv_capability := Some (coalesceMap (dv_capability d))\<rparr>)"

fun run_device :: "('d, 's, 'k, 't, 'w) device_env \<Rightarrow> 'k device_call \<Rightarrow> 's \<Rightarrow> device_answer \<times> 's" where
  "run_device env (DGet i) s = (answer ans_device (device_get env i s), s)"
| "run_device env (DRegister fresh now t d) s = map_prod (answer ans_device) id (Register env fresh now t d s)"
| "run_device env (DUpdate t d) s = map_prod (answer ans_device) id (device_update env t d s)"
| "run_device env (DBind t i room) s = map_prod (answer (\<lambda>_. DDone)) id (BindRoom env t i room s)"
| "run_device env (DUnbind t i) s = map_prod (answer (\<lambda>_. DDone)) id (UnbindRoom env t i s)"
| "run_device env (DStatus t i st) s = map_prod (answer (\<lambda>_. DDone)) id (device_set_status env t i st s)"
| "run_device env (DFirmware t i target) s = map_prod (answer (\<lambda>_. DDone)) id (UpdateFirmware env t i target s)"
| "run_device env (DOnline now i grams) s = (DDone, MarkOnline env now i grams s)"
| "run_device env (DHeartbeat i at) s = (DDone, HeartbeatAt env i at s)"
| "run_device env (DCredential rand now t i k) s = map_prod (answer DCred) id (IssueMqttCredential env rand now t i k s)"

fun device_answers :: "('d, 's, 'k, 't, 'w) device_env \<Rightarrow> 'k device_call list \<Rightarrow> 's \<Rightarrow> device_answer list" where
  "device_answers env [] s = []"
| "device_answers env (c # cs) s = (case run_device env c s of (a, s') \<Rightarrow> a # device_answers env cs s')"

section \<open>The calls on which the stores agree\<close>

definition device_wf :: "(string \<rightharpoonup> device_row) \<Rightarrow> bool" where
  "device_wf m \<longleftrightarrow> (\<forall>i d. m i = Some d \<longrightarrow> dv_id d = i \<and> i \<noteq> [] \<and> dv_region d \<noteq> [] \<and> shown d = d)"

text \<open>A device is registered under an identifier that is not in use, at a time that is not the zero time; the grams
  fit the column.\<close>

fun device_ok :: "('d, 's, 'k, 't, 'w) device_env \<Rightarrow> 'k device_call \<Rightarrow> (string \<rightharpoonup> device_row) \<Rightarrow> bool" where
  "device_ok env (DRegister fresh now t d) m \<longleftrightarrow>
     m (dv_id (filled_device env fresh now d)) = None \<and> \<not> is_zero_time now \<and> int4_fits (dv_food d) \<and> de_region env \<noteq> []"
| "device_ok env (DOnline now i grams) m \<longleftrightarrow> int4_fits grams"
| "device_ok env _ m \<longleftrightarrow> True"

text \<open>The configuration but for the store.\<close>

definition same_config :: "('d, 's, 'k, 't, 'w) device_env \<Rightarrow> ('d, 's2, 'k, 't, 'w) device_env \<Rightarrow> bool" where
  "same_config env env' \<longleftrightarrow> de_provider env = de_provider env' \<and> de_lib env = de_lib env' \<and> de_token_text env = de_token_text env' \<and>
     de_ttl env = de_ttl env' \<and> de_issuer env = de_issuer env' \<and> de_audience env = de_audience env' \<and> de_region env = de_region env'"

lemma shown_simps [simp]:
  "dv_id (shown d) = dv_id d" "dv_region (shown d) = dv_region d" "shown (shown d) = shown d"
  "shown (d\<lparr>dv_online := a\<rparr>) = (shown d)\<lparr>dv_online := a\<rparr>" "shown (d\<lparr>dv_room := a\<rparr>) = (shown d)\<lparr>dv_room := a\<rparr>"
  "shown (d\<lparr>dv_target := a\<rparr>) = (shown d)\<lparr>dv_target := a\<rparr>"
  "shown (d\<lparr>dv_mqtt_user := u, dv_mqtt_hash := h, dv_mqtt_expires := t\<rparr>) = (shown d)\<lparr>dv_mqtt_user := u, dv_mqtt_hash := h, dv_mqtt_expires := t\<rparr>"
  "shown (beat g at d) = beat g at (shown d)" "dv_id (beat g at d) = dv_id d" "dv_region (beat g at d) = dv_region d"
  by (simp_all add: shown_def beat_def)

lemma device_wf_upd: "\<lbrakk>device_wf m; dv_id d = i; i \<noteq> []; dv_region d \<noteq> []; shown d = d\<rbrakk> \<Longrightarrow> device_wf (m(i \<mapsto> d))"
  by (simp add: device_wf_def)

lemma on_device_wf:
  assumes "device_wf m" and "\<And>d. dv_id (f d) = dv_id d \<and> dv_region (f d) = dv_region d \<and> shown (f d) = f (shown d)"
  shows "device_wf (snd (on_device i f m))"
  using assms by (auto simp: on_device_def device_wf_def split: option.split)

lemma ans_device_shown: "ans_device (toServiceDevice (shown d)) = ans_device (toServiceDevice d)"
  by (simp add: ans_device_def toServiceDevice_def device_base.defs shown_def)

lemma store_conversions [simp]:
  "dv_id (toStoreDevice d) = dv_id d" "dv_region (toStoreDevice d) = dv_region d" "dv_food (toStoreDevice d) = dv_food d"
  by (simp_all add: toStoreDevice_def device_base.defs device_row.defs)

lemma filled_device_complete:
  "\<lbrakk>\<not> is_zero_time now; int4_fits (dv_food d); de_region env \<noteq> []\<rbrakk> \<Longrightarrow> complete_device (toStoreDevice (filled_device env fresh now d))"
  by (auto simp: complete_device_def toStoreDevice_def filled_device_def device_base.defs device_row.defs)

lemma filled_device_id: "dv_id (filled_device env fresh now d) \<noteq> []"
  by (simp add: filled_device_def)

lemma merged_device_simps [simp]:
  "dv_id (merged_device d old) = dv_id old" "dv_region (merged_device d old) = [] \<longleftrightarrow> dv_region d = [] \<and> dv_region old = []"
  "shown (merged_device d (shown old)) = shown (merged_device d old)"
  by (simp_all add: merged_device_def shown_def)

lemma merged_device_edits: "\<lbrakk>dv_id old \<noteq> []; dv_region old \<noteq> []\<rbrakk> \<Longrightarrow> edits_device (shown old) (merged_device d old)"
  by (simp add: edits_device_def merged_device_def shown_def orElse_def)

lemma map_device_keeps_wf:
  assumes "de_store env = device_map_ops sha" and "device_wf m" and "device_ok env c m"
  shows "device_wf (snd (run_device env c m))"
proof (cases c)
  case (DRegister fresh now t d)
  let ?d = "filled_device env fresh now d"
  have "dv_region ?d \<noteq> []" using assms(3) DRegister by (simp add: filled_device_def)
  then have "device_wf (m(dv_id ?d \<mapsto> shown (toStoreDevice ?d)))"
    by (intro device_wf_upd assms(2) filled_device_id) simp_all
  then show ?thesis using assms DRegister by (simp add: Register_def device_map_ops_def Let_def)
next
  case (DUpdate t d)
  show ?thesis
  proof (cases "dv_id d = [] \<or> m (dv_id d) = None")
    case True
    then show ?thesis using assms DUpdate
      by (auto simp: device_update_def update_read_def device_map_ops_def device_mem_get_def)
  next
    case False
    then obtain old where old: "m (dv_id d) = Some old" "dv_id d \<noteq> []" by auto
    then have row: "dv_id old = dv_id d" "dv_region old \<noteq> []" using assms(2) by (auto simp: device_wf_def)
    then have "device_wf (m(dv_id d \<mapsto> shown (merged_device d old)))"
      using old by (intro device_wf_upd assms(2)) simp_all
    then show ?thesis using assms(1) DUpdate old row
      by (simp add: device_update_def update_read_def update_write_def device_map_ops_def device_mem_get_def)
  qed
next
  case (DCredential rand now t i k)
  have "device_wf m'" if "on_device i (\<lambda>d. d\<lparr>dv_mqtt_user := u, dv_mqtt_hash := h, dv_mqtt_expires := e\<rparr>) m = (r, m')" for u h e r m'
    using on_device_wf [OF assms(2), of "\<lambda>d. d\<lparr>dv_mqtt_user := u, dv_mqtt_hash := h, dv_mqtt_expires := e\<rparr>" i] that by simp
  then show ?thesis using assms(1,2) DCredential
    by (auto simp: IssueMqttCredential_def device_map_ops_def Let_def split: option.split sum.split prod.splits)
qed (use assms in \<open>auto simp: BindRoom_def UnbindRoom_def device_set_status_def UpdateFirmware_def MarkOnline_def HeartbeatAt_def
      device_map_ops_def intro: on_device_wf\<close>)

section \<open>Any store refines it\<close>

context device_store
begin

lemma get_none: "devs s i = None \<Longrightarrow> do_get ops i s = Inl no_device"
  using get_device [of i s] by (cases "do_get ops i s") auto

lemma get_some: "devs s i = Some d \<Longrightarrow> \<exists>d'. do_get ops i s = Inr d' \<and> shown d' = d"
  using get_device [of i s] by (cases "do_get ops i s") auto

lemma register_refines:
  assumes "de_store env = ops" and "de_store env' = device_map_ops sha" and "same_config env env'"
    and ok: "device_ok env (DRegister fresh now t d) (devs s)"
  shows "map_prod id devs (Register env fresh now t d s) = Register env' fresh now t d (devs s)"
proof -
  let ?d = "filled_device env fresh now d"
  have same: "filled_device env' fresh now d = ?d" using assms(3) by (simp add: filled_device_def same_config_def)
  have "complete_device (toStoreDevice ?d)" using ok by (intro filled_device_complete) simp_all
  then have "map_prod id devs (do_create ops t (toStoreDevice ?d) s) = (Inr (), (devs s)(dv_id ?d \<mapsto> shown (toStoreDevice ?d)))"
    using create_device [of "toStoreDevice ?d" s t] ok by simp
  then show ?thesis using assms(1,2) same
    by (cases "do_create ops t (toStoreDevice ?d) s") (auto simp: Register_def device_map_ops_def Let_def)
qed

lemma update_refines:
  assumes "de_store env = ops" and "de_store env' = device_map_ops sha" and wf: "device_wf (devs s)"
  shows "map_prod (answer ans_device) devs (device_update env t d s) = map_prod (answer ans_device) id (device_update env' t d (devs s))"
proof (cases "dv_id d = [] \<or> devs s (dv_id d) = None")
  case True
  then show ?thesis
    by (cases "dv_id d = []") (simp_all add: assms(1,2) device_update_def update_read_def device_map_ops_def device_mem_get_def get_none)
next
  case False
  then obtain old where old: "devs s (dv_id d) = Some old" and id: "dv_id d \<noteq> []" by auto
  obtain r where r: "do_get ops (dv_id d) s = Inr r" "shown r = old" using get_some [OF old] by blast
  have row: "dv_id r = dv_id d" "dv_region r \<noteq> []" using wf old r(2) unfolding device_wf_def by (metis shown_simps(1,2))+
  have edits: "edits_device old (merged_device d r)"
    using merged_device_edits [of r d] row id r(2) by simp
  have same: "shown (merged_device d old) = shown (merged_device d r)" using r(2) merged_device_simps(3) by metis
  have upd: "map_prod (map_sum id shown) devs (do_update ops t (merged_device d r) s) =
      (Inr (shown (merged_device d r)), (devs s)(dv_id d \<mapsto> shown (merged_device d r)))"
    using update_device [of s "merged_device d r" old t] old row edits by simp
  then obtain d' s' where d': "do_update ops t (merged_device d r) s = (Inr d', s')" "shown d' = shown (merged_device d r)"
      "devs s' = (devs s)(dv_id d \<mapsto> shown (merged_device d r))"
    by (cases "do_update ops t (merged_device d r) s"; cases "fst (do_update ops t (merged_device d r) s)") auto
  have "ans_device (toServiceDevice d') = ans_device (toServiceDevice (shown (merged_device d r)))"
    using ans_device_shown [of d'] d'(2) by simp
  moreover have "dv_id old = dv_id d" using r(2) row(1) by (metis shown_simps(1))
  ultimately show ?thesis using assms(1,2) id old r(1) d'(1,3) same
    by (simp add: device_update_def update_read_def update_write_def device_map_ops_def device_mem_get_def answer_def)
qed

lemma credential_refines:
  assumes "de_store env = ops" and "de_store env' = device_map_ops sha" and "same_config env env'"
  shows "map_prod id devs (IssueMqttCredential env rand now t i k s) = IssueMqttCredential env' rand now t i k (devs s)"
proof (cases "devs s i")
  case None
  then show ?thesis using assms get_none [OF None]
    by (simp add: IssueMqttCredential_def device_map_ops_def device_mem_get_def same_config_def split: option.split)
next
  case (Some d)
  then obtain d' where get: "do_get ops i s = Inr d'" using get_some by blast
  have cred: "fst (do_set_credential ops t i u p e s) = Inr () \<and> devs (snd (do_set_credential ops t i u p e s)) =
      (devs s)(i \<mapsto> d\<lparr>dv_mqtt_user := u, dv_mqtt_hash := HashPassword sha u p, dv_mqtt_expires := e\<rparr>)" for u p e
    using credential_device [of t i u p e s] Some by (simp add: on_device_def prod_eq_iff)
  define c where "c = mqtt_claims (de_issuer env) (de_audience env) i (de_ttl env) (randomJTI rand) now"
  note unfold = IssueMqttCredential_def device_map_ops_def device_mem_get_def Let_def
  have same: "de_provider env' = de_provider env" "de_lib env' = de_lib env" "de_token_text env' = de_token_text env" "de_ttl env' = de_ttl env"
    "mqtt_claims (de_issuer env') (de_audience env') i (de_ttl env) (randomJTI rand) now = c"
    using assms(3) by (simp_all add: same_config_def c_def)
  show ?thesis
  proof (cases "\<exists>kp sk tok. de_provider env = Some kp \<and> kp_active kp k = Inr sk \<and> sign_credential (de_lib env) sk c = Inr tok")
    case True
    then obtain kp sk tok where "de_provider env = Some kp" "kp_active kp k = Inr sk" "sign_credential (de_lib env) sk c = Inr tok" by blast
    then show ?thesis using cred [of "''device:'' @ i" "de_token_text env tok" "now + de_ttl env"] Some get
      by (cases "do_set_credential ops t i (''device:'' @ i) (de_token_text env tok) (now + de_ttl env) s")
        (simp add: unfold assms(1,2) same c_def [symmetric] on_device_def)
  next
    case False
    then show ?thesis using Some get
      by (auto simp: unfold assms(1,2) same c_def [symmetric] split: option.split sum.split)
  qed
qed

lemma device_call_refines:
  assumes "de_store env = ops" and "de_store env' = device_map_ops sha" and "same_config env env'"
    and "device_wf (devs s)" and "device_ok env c (devs s)"
  shows "map_prod id devs (run_device env c s) = run_device env' c (devs s)"
proof (cases c)
  case (DGet i)
  show ?thesis
  proof (cases "devs s i")
    case None
    then show ?thesis using DGet assms(1,2)
      by (simp add: device_get_def get_none device_map_ops_def device_mem_get_def)
  next
    case (Some d)
    then obtain d' where "do_get ops i s = Inr d'" "shown d' = d" using get_some by blast
    then show ?thesis using DGet assms(1,2) Some ans_device_shown [of d']
      by (simp add: device_get_def device_map_ops_def device_mem_get_def answer_def)
  qed
next
  case (DRegister fresh now t d)
  then show ?thesis using register_refines [OF assms(1-3), of fresh now t d s] assms(5)
    by (cases "Register env fresh now t d s") (auto simp: prod_eq_iff)
next
  case (DUpdate t d)
  then show ?thesis using update_refines [OF assms(1,2,4), of t d] by (simp add: prod.map_comp o_def)
next
  case (DCredential rand now t i k)
  then show ?thesis using credential_refines [OF assms(1-3), of rand now t i k s]
    by (cases "IssueMqttCredential env rand now t i k s") (auto simp: prod_eq_iff)
qed (use assms set_status_device bind_device unbind_device target_device mark_device in
    \<open>auto simp: BindRoom_def UnbindRoom_def device_set_status_def UpdateFirmware_def MarkOnline_def HeartbeatAt_def device_map_ops_def
      int4_fits_def prod_eq_iff\<close>)

end

definition on_map :: "(string \<Rightarrow> string) \<Rightarrow> ('d, 's, 'k, 't, 'w) device_env \<Rightarrow> ('d, string \<rightharpoonup> device_row, 'k, 't, 'w) device_env" where
  "on_map sha env = \<lparr>de_store = device_map_ops sha, de_provider = de_provider env, de_lib = de_lib env, de_token_text = de_token_text env,
     de_ttl = de_ttl env, de_issuer = de_issuer env, de_audience = de_audience env, de_region = de_region env\<rparr>"

lemma on_map_simps [simp]: "de_store (on_map sha env) = device_map_ops sha" "same_config env (on_map sha env)"
  by (simp_all add: on_map_def same_config_def)

lemma on_map_same: "same_config env env' \<Longrightarrow> on_map sha env' = on_map sha env"
  by (simp add: on_map_def same_config_def)

fun devices_ok :: "('d, string \<rightharpoonup> device_row, 'k, 't, 'w) device_env \<Rightarrow> 'k device_call list \<Rightarrow> (string \<rightharpoonup> device_row) \<Rightarrow> bool" where
  "devices_ok env [] m \<longleftrightarrow> True"
| "devices_ok env (c # cs) m \<longleftrightarrow> device_ok env c m \<and> devices_ok env cs (snd (run_device env c m))"

lemma device_ok_config: "same_config env env' \<Longrightarrow> device_ok env c m = device_ok env' c m"
  by (cases c) (simp_all add: same_config_def filled_device_def)

context device_store
begin

lemma device_run_refines:
  assumes "de_store env = ops"
  shows "\<lbrakk>device_wf (devs s); devices_ok (on_map sha env) cs (devs s)\<rbrakk> \<Longrightarrow>
    device_answers env cs s = device_answers (on_map sha env) cs (devs s)"
proof (induction cs arbitrary: s)
  case (Cons c cs)
  have ok: "device_ok (on_map sha env) c (devs s)" using Cons.prems(2) by simp
  then have "device_ok env c (devs s)" using device_ok_config [of env "on_map sha env"] by simp
  then have *: "map_prod id devs (run_device env c s) = run_device (on_map sha env) c (devs s)"
    by (intro device_call_refines assms Cons.prems(1)) simp_all
  obtain a s' where c: "run_device env c s = (a, s')" by (rule prod.exhaust)
  with * have spec: "run_device (on_map sha env) c (devs s) = (a, devs s')" by simp
  have "device_wf (devs s')"
    using map_device_keeps_wf [of "on_map sha env" sha "devs s" c] Cons.prems(1) ok spec by simp
  then show ?case using Cons c spec by simp
qed simp

end


section \<open>Credentials\<close>

lemma plain_sextet: "n < 64 \<Longrightarrow> of_char (sextet n) < (128 :: nat)"
proof -
  have "list_all (\<lambda>c. of_char c < (128 :: nat)) b64_alphabet" "length b64_alphabet = 64"
    unfolding b64_alphabet_def by code_simp+
  then show "n < 64 \<Longrightarrow> of_char (sextet n) < (128 :: nat)"
    unfolding sextet_def list_all_iff by (metis nth_mem)
qed

lemma plain_jti: "plain_text (randomJTI rand)"
proof -
  have byte: "unat (a :: byte) < 256" for a using unsigned_less [of a] by simp
  have "plain_text (rfc4648 bs)" for bs
  proof (induction bs rule: rfc4648.induct)
    case (2 a)
    then show ?case using byte [of a] by (simp add: plain_text_def plain_sextet)
  next
    case (3 a b)
    then show ?case using byte [of a] byte [of b] by (simp add: plain_text_def plain_sextet)
  next
    case (4 a b c bs)
    then show ?case using byte [of a] byte [of b] byte [of c] by (simp add: plain_text_def plain_sextet)
  qed (simp add: plain_text_def)
  then show ?thesis by (cases rand) (simp_all add: randomJTI_def, simp add: plain_text_def)
qed

lemma sign_credential_signClaims:
  assumes "sign_credential lib sk c = Inr tok" and "kp_active (si_provider sg) k = Inr sk"
  shows "signClaims lib sg c k = Inr tok"
  using assms by (cases "sg_alg sk") (auto simp: sign_credential_def signClaims_def)

text \<open>C25: A device that is given a credential can use it: its password is a token for this device which the broker
  accepts, with the published keys and through any number of rotations, until the second of its expiry begins and
  no longer; and the row of the device holds its user name, its expiry and the hash of exactly this password.\<close>

theorem mqtt_credential_accepted:
  assumes "jwt_contract (de_lib env)" and "kms_inv k" and "rotated kenv k k'" and "de_provider env = Some kp" and "kp_active kp = kms_active"
    and "de_store env = device_pg_ops sha no_faults" and "IssueMqttCredential env rand now t i k s = (Inr cred, s')"
    and "plain_text (de_issuer env) \<and> plain_text (de_audience env) \<and> plain_text i \<and> plain_text (mk_active k)"
  shows "\<exists>tok d. mq_password cred = de_token_text env tok \<and>
    (if later < numeric_date (now + de_ttl env)
     then fst (Parse (de_lib env) kms_verifying later tok k') = Inr (mqtt_claims (de_issuer env) (de_audience env) i (de_ttl env) (randomJTI rand) now)
     else \<not> is_ok (fst (Parse (de_lib env) kms_verifying later tok k'))) \<and>
    pg_devices s' i = Some d \<and> dv_mqtt_user d = mq_username cred \<and> dv_mqtt_expires d = mq_expires cred \<and>
    dv_mqtt_hash d = HashPassword sha (mq_username cred) (mq_password cred)"
proof -
  define c where "c = mqtt_claims (de_issuer env) (de_audience env) i (de_ttl env) (randomJTI rand) now"
  obtain sk tok where sk: "kms_active k = Inr sk" and tok: "sign_credential (de_lib env) sk c = Inr tok"
      and set: "do_set_credential (de_store env) t i (''device:'' @ i) (de_token_text env tok) (now + de_ttl env) s = (Inr (), s')"
      and cred: "mq_username cred = ''device:'' @ i" "mq_password cred = de_token_text env tok" "mq_expires cred = now + de_ttl env"
    using assms(4,5,7) unfolding IssueMqttCredential_def Let_def c_def
    by (auto split: sum.splits prod.splits)
  have plain: "plain_claims c"
    using assms(8) by (simp add: c_def mqtt_claims_def plain_claims_def plain_jti) (simp add: plain_text_def)
  have parse: "fst (Parse (de_lib env) kms_verifying later tok k') =
      (case jl_validate (de_lib env) later c of None \<Rightarrow> Inr c | Some e \<Rightarrow> Inl (Wrap ''token has invalid claims'' e))"
    using sign_credential_signClaims [OF tok, of "\<lparr>si_provider = kp, si_issuer = []\<rparr>" k] sk assms(5,8)
    by (intro kms_token_parses [OF assms(1-3) _ _ plain, of "\<lparr>si_provider = kp, si_issuer = []\<rparr>"]) simp_all
  have valid: "jl_validate (de_lib env) later c = None \<longleftrightarrow> later < numeric_date (now + de_ttl env)"
    using assms(1) by (simp add: jwt_contract_def c_def mqtt_claims_def)
  have "\<exists>d. pg_devices s' i = Some d \<and> dv_mqtt_user d = ''device:'' @ i \<and> dv_mqtt_expires d = now + de_ttl env \<and>
      dv_mqtt_hash d = HashPassword sha (''device:'' @ i) (de_token_text env tok)"
    using device_pg.credential_device [of sha t i "''device:'' @ i" "de_token_text env tok" "now + de_ttl env" s] set assms(6)
    by (auto simp: on_device_def split: option.splits)
  then show ?thesis using parse valid cred by (auto simp: c_def is_ok_def split: option.splits)
qed

section \<open>A heartbeat between the two halves of an update\<close>

text \<open>An update whose read and write enclose a heartbeat undoes the heartbeat in the in-process store, and keeps
  it on PostgreSQL, which does not write the columns of the heartbeat.\<close>

theorem update_undoes_heartbeat:
  assumes "de_store env = device_mem_ops sha" and "de_store env' = device_pg_ops sha no_faults"
    and "s (dv_id d) = Some row" and "dv_id row = dv_id d" and "t (dv_id d) = Some q"
    and "update_read env d s = Inr m" and "update_read env' d t = Inr m'"
  shows "map_option dv_seen (snd (update_write env now m (HeartbeatAt env (dv_id d) at s)) (dv_id d)) = Some (dv_seen row) \<and>
    map_option sd_seen (snd (update_write env' now m' (HeartbeatAt env' (dv_id d) at t)) (dv_id d)) = Some at"
proof -
  have m: "m = merged_device d row" "m' = merged_device d (scanDevice (dv_id d) q)" "dv_id d \<noteq> []"
    using assms by (auto simp: update_read_def device_mem_ops_def device_pg_ops_def device_mem_get_def device_pg_get_def split: if_splits)
  have "dv_id (merged_device d row) = dv_id d" "dv_seen (merged_device d row) = dv_seen row"
    using assms(4) by (simp_all add: merged_device_def)
  moreover have "dv_id (merged_device d (scanDevice (dv_id d) q)) = dv_id d"
    by (simp add: merged_device_def scanDevice_def)
  ultimately show ?thesis
    using assms(1-5) m
    by (simp add: update_write_def HeartbeatAt_def device_mem_ops_def device_mem_update_def device_mem_mark_online_def device_pg_ops_def
        device_pg_update_def device_pg_mark_online_def on_device_def updated_device_def int4_fits_def Let_def)
qed

section \<open>Concrete calls\<close>

definition demo_device_env :: "'s device_ops \<Rightarrow> (unit, 's, (unit, unit) mock_kms, string \<times> string \<times> claims, (string \<times> string \<times> claims) \<times> byte list) device_env" where
  "demo_device_env ops = \<lparr>de_store = ops, de_provider = Some (si_provider demo_signer), de_lib = demo_lib, de_token_text = (\<lambda>_. ''token''),
     de_ttl = 12 * hour, de_issuer = ''yunmao.device-svc'', de_audience = ''yunmao.emqx'', de_region = ''global''\<rparr>"

definition demo_feeder :: device_base where
  "demo_feeder = (toServiceDevice (demo_device second))\<lparr>dv_id := ''dev_7'', dv_online := []\<rparr>"

lemma demo_feeder_simps [simp]:
  "dv_id demo_feeder = ''dev_7''" "dv_hardware demo_feeder = ''demo-feeder-v1''" "dv_food demo_feeder = 1000"
  "dv_online demo_feeder = []" "dv_room demo_feeder = ''room_demo''"
  by (simp_all add: demo_feeder_def toServiceDevice_def device_base.defs demo_device_def)


definition demo_devices :: device_table where
  "demo_devices = [''dev_7'' \<mapsto> inserted_device second (toStoreDevice demo_feeder)]"

theorem mqtt_credential_accepted_witness:
  "\<exists>cred s' tok. IssueMqttCredential (demo_device_env (device_pg_ops id no_faults)) None 0 0 ''dev_7'' demo_kms demo_devices = (Inr cred, s') \<and>
     fst (Parse demo_lib kms_verifying second tok (demo_rotated 10 [])) =
       Inr (mqtt_claims ''yunmao.device-svc'' ''yunmao.emqx'' ''dev_7'' (12 * hour) [] 0)"
proof -
  let ?env = "demo_device_env (device_pg_ops id no_faults)"
  have "is_ok (fst (IssueMqttCredential ?env None 0 0 ''dev_7'' demo_kms demo_devices))"
    by (simp add: IssueMqttCredential_def demo_device_env_def demo_signer_def device_pg_ops_def device_pg_get_def demo_devices_def
        kms_active_def demo_kms_def demo_record_def sign_credential_def demo_lib_def demo_key_def device_pg_set_credential_def on_device_def Let_def)
  then obtain cred s' where issue: "IssueMqttCredential ?env None 0 0 ''dev_7'' demo_kms demo_devices = (Inr cred, s')"
    by (cases "IssueMqttCredential ?env None 0 0 ''dev_7'' demo_kms demo_devices") (auto simp: is_ok_def split: sum.splits)
  have "jwt_contract (de_lib ?env)" "de_provider ?env = Some (si_provider demo_signer)" "kp_active (si_provider demo_signer) = kms_active"
      "de_store ?env = device_pg_ops id no_faults"
    using demo_contract by (simp_all add: demo_device_env_def demo_signer_def)
  moreover have "plain_text (de_issuer ?env) \<and> plain_text (de_audience ?env) \<and> plain_text ''dev_7'' \<and> plain_text (mk_active demo_kms)"
    by (simp add: plain_text_def demo_device_env_def demo_kms_def)
  moreover have "second < numeric_date (0 + de_ttl ?env)"
    by (simp add: numeric_date_def truncate_time_def second_def zero_time_def demo_device_env_def)
  ultimately obtain tok where "fst (Parse (de_lib ?env) kms_verifying second tok (demo_rotated 10 [])) =
      Inr (mqtt_claims (de_issuer ?env) (de_audience ?env) ''dev_7'' (de_ttl ?env) (randomJTI None) 0)"
    using mqtt_credential_accepted [OF _ demo_kms_inv demo_later [of "[]"] _ _ _ issue, of "si_provider demo_signer" id second] by auto
  then have "fst (Parse demo_lib kms_verifying second tok (demo_rotated 10 [])) =
      Inr (mqtt_claims ''yunmao.device-svc'' ''yunmao.emqx'' ''dev_7'' (12 * hour) [] 0)"
    by (simp add: demo_device_env_def randomJTI_def)
  then show ?thesis using issue by blast
qed

theorem update_undoes_heartbeat_witness:
  "\<exists>m. update_read (demo_device_env (device_mem_ops id)) demo_feeder [''dev_7'' \<mapsto> toStoreDevice demo_feeder] = Inr m \<and>
     map_option dv_seen (snd (update_write (demo_device_env (device_mem_ops id)) 9 m
       (HeartbeatAt (demo_device_env (device_mem_ops id)) ''dev_7'' 5 [''dev_7'' \<mapsto> toStoreDevice demo_feeder])) ''dev_7'') =
     Some (dv_seen (toStoreDevice demo_feeder))"
proof -
  let ?env = "demo_device_env (device_mem_ops id)" and ?env' = "demo_device_env (device_pg_ops id no_faults)"
  obtain m where m: "update_read ?env demo_feeder [''dev_7'' \<mapsto> toStoreDevice demo_feeder] = Inr m"
    by (simp add: update_read_def demo_device_env_def device_mem_ops_def device_mem_get_def)
  obtain m' where m': "update_read ?env' demo_feeder demo_devices = Inr m'"
    by (simp add: update_read_def demo_device_env_def device_pg_ops_def device_pg_get_def demo_devices_def)
  have "de_store ?env = device_mem_ops id" "de_store ?env' = device_pg_ops id no_faults" by (simp_all add: demo_device_env_def)
  then have "map_option dv_seen (snd (update_write ?env 9 m (HeartbeatAt ?env ''dev_7'' 5 [''dev_7'' \<mapsto> toStoreDevice demo_feeder])) ''dev_7'') =
     Some (dv_seen (toStoreDevice demo_feeder))"
    using update_undoes_heartbeat [OF _ _ _ _ _ m m', where sha = id and now = 9 and at = 5]
    by (simp add: demo_devices_def)
  then show ?thesis using m by blast
qed

end
