(* ===== verification/Bridge.thy ===== *)
theory Bridge
  imports Mqtt EventBus DeviceService GoJson
begin

text \<open>
  \<^verbatim>\<open>go/services/device-svc/internal/bridge/bridge.go\<close>: commands from the event bus go to the devices over MQTT,
  the devices' events go to the bus and to the device service.  The encoder and the parser of JSON are a parameter
  of the model.
\<close>

section \<open>JSON\<close>

record json_codec =
  jc_marshal :: "cloud_event \<Rightarrow> go_error + string"
  jc_print :: "json \<Rightarrow> string"
  jc_parse :: "string \<Rightarrow> go_error + json"

section \<open>Payloads\<close>

record command_payload =
  cp_request :: string
  cp_cmd :: string
  cp_device :: string
  cp_room :: string
  cp_amount :: u32
  cp_motor_ms :: u32
  cp_expires :: string
  cp_reason :: string

record ack_payload =
  ap_request :: string
  ap_cmd :: string
  ap_device :: string
  ap_room :: string
  ap_status :: string
  ap_actual :: u32
  ap_remaining :: u32
  ap_executed :: string
  ap_errors :: "string list option"

definition read_command :: "(string \<times> json) list \<Rightarrow> go_error + command_payload" where
  "read_command fs =
     read_with (\<lambda>request. read_with (\<lambda>cmd. read_with (\<lambda>device. read_with (\<lambda>room. read_with (\<lambda>amount. read_with (\<lambda>motor.
     read_with (\<lambda>expires. read_with (\<lambda>reason.
        Inr \<lparr>cp_request = request, cp_cmd = cmd, cp_device = device, cp_room = room, cp_amount = amount, cp_motor_ms = motor,
             cp_expires = expires, cp_reason = reason\<rparr>)
     (as_string (field ''reason'' fs))) (as_string (field ''expires_at'' fs))) (as_u32 (field ''motor_duration_ms'' fs)))
     (as_u32 (field ''amount_grams'' fs))) (as_string (field ''room_id'' fs))) (as_string (field ''device_id'' fs)))
     (as_string (field ''device_command_id'' fs))) (as_string (field ''feed_request_id'' fs))"

definition command_json :: "command_payload \<Rightarrow> json" where
  "command_json c = JObj
     ([(''feed_request_id'', JStr (cp_request c)), (''device_command_id'', JStr (cp_cmd c)), (''device_id'', JStr (cp_device c)),
       (''room_id'', JStr (cp_room c)), (''amount_grams'', JInt (uint (cp_amount c))), (''motor_duration_ms'', JInt (uint (cp_motor_ms c))),
       (''expires_at'', JStr (cp_expires c))] @ (if cp_reason c = [] then [] else [(''reason'', JStr (cp_reason c))]))"

definition read_ack :: "(string \<times> json) list \<Rightarrow> go_error + ack_payload" where
  "read_ack fs =
     read_with (\<lambda>request. read_with (\<lambda>cmd. read_with (\<lambda>device. read_with (\<lambda>room. read_with (\<lambda>status. read_with (\<lambda>actual.
     read_with (\<lambda>remaining. read_with (\<lambda>executed. read_with (\<lambda>errors.
        Inr \<lparr>ap_request = request, ap_cmd = cmd, ap_device = device, ap_room = room, ap_status = status, ap_actual = actual,
             ap_remaining = remaining, ap_executed = executed, ap_errors = errors\<rparr>)
     (as_strings (field ''errors'' fs))) (as_string (field ''executed_at'' fs))) (as_u32 (field ''remaining_food_grams'' fs)))
     (as_u32 (field ''actual_amount_grams'' fs))) (as_string (field ''status'' fs))) (as_string (field ''room_id'' fs)))
     (as_string (field ''device_id'' fs))) (as_string (field ''device_command_id'' fs))) (as_string (field ''feed_request_id'' fs))"

definition ack_payload_json :: "ack_payload \<Rightarrow> (string \<times> json) list" where
  "ack_payload_json a =
     [(''feed_request_id'', JStr (ap_request a)), (''device_command_id'', JStr (ap_cmd a)), (''device_id'', JStr (ap_device a)),
      (''room_id'', JStr (ap_room a)), (''status'', JStr (ap_status a)), (''actual_amount_grams'', JInt (uint (ap_actual a))),
      (''remaining_food_grams'', JInt (uint (ap_remaining a))), (''executed_at'', JStr (ap_executed a)),
      (''errors'', (case ap_errors a of None \<Rightarrow> JNull | Some xs \<Rightarrow> JStrs xs))]"

text \<open>\<open>json.Unmarshal\<close> of a text into each struct; the command lies in the event's \<open>data\<close>.\<close>

definition decode_command :: "json_codec \<Rightarrow> string \<Rightarrow> go_error + command_payload" where
  "decode_command cd p =
     read_with read_command (read_with (\<lambda>fs. as_object (field ''data'' fs)) (read_with as_object (jc_parse cd p)))"

definition decode_ack :: "json_codec \<Rightarrow> string \<Rightarrow> go_error + ack_payload" where
  "decode_ack cd p = read_with read_ack (read_with as_object (jc_parse cd p))"

section \<open>The bridge\<close>

record bridge_config =
  bg_source :: string
  bg_topic :: topic
  bg_filter :: string
  bg_group :: string

definition DefaultConfig :: bridge_config where
  "DefaultConfig = \<lparr>bg_source = ''device-svc@bridge'', bg_topic = FeedCommandDispatched, bg_filter = ''device/+/event/+'',
     bg_group = ''device-svc-bridge''\<rparr>"

definition bridge_defaults :: "bridge_config \<Rightarrow> bridge_config" where
  "bridge_defaults c = \<lparr>bg_source = orElse (bg_source c) ''device-svc@bridge'',
     bg_topic = (if topic_string (bg_topic c) = [] then FeedCommandDispatched else bg_topic c),
     bg_filter = orElse (bg_filter c) ''device/+/event/+'', bg_group = orElse (bg_group c) ''device-svc-bridge''\<rparr>"

text \<open>The two clients and the callbacks: publishing to the broker and to the bus, an ack and a heartbeat.\<close>

record ('m, 'b, 's) bridge =
  br_config :: bridge_config
  br_codec :: json_codec
  br_mqtt :: "string \<Rightarrow> string \<Rightarrow> 'm \<Rightarrow> (go_error, unit, 'm) outcome"
  br_bus :: "envelope \<Rightarrow> 'b \<Rightarrow> (go_error, unit, 'b) outcome"
  br_on_ack :: "(ack_payload \<Rightarrow> 's \<Rightarrow> 's) option"
  br_on_heartbeat :: "(string \<Rightarrow> time \<Rightarrow> 's \<Rightarrow> 's) option"

definition bridge_topics :: "bridge_config \<Rightarrow> topic list" where
  "bridge_topics c = [bg_topic c, FeedCommandRequested, FeedCommandCancelled]"

text \<open>\<open>Start\<close> on any bus and any MQTT client.\<close>

definition bridge_start ::
  "(string \<Rightarrow> topic list \<Rightarrow> 'b \<Rightarrow> (go_error, unit, 'b) outcome) \<Rightarrow> (string \<Rightarrow> 'm \<Rightarrow> (go_error, unit, 'm) outcome) \<Rightarrow>
   bridge_config \<Rightarrow> 'b \<Rightarrow> 'm \<Rightarrow> go_error option \<times> 'b \<times> 'm" where
  "bridge_start bus_sub mqtt_sub c b m =
     (case bus_sub (bg_group c) (bridge_topics c) b of
        (Inl e, b') \<Rightarrow> (Some (Wrap ''bridge: kafka subscribe'' e), b', m)
      | (Inr _, b') \<Rightarrow> (case mqtt_sub (bg_filter c) m of
            (Inl e, m') \<Rightarrow> (Some (Wrap ''bridge: mqtt subscribe'' e), b', m')
          | (Inr _, m') \<Rightarrow> (None, b', m')))"

definition handleKafkaCmd :: "('m, 'b, 's) bridge \<Rightarrow> envelope \<Rightarrow> 'm \<Rightarrow> (go_error, unit, 'm) outcome" where
  "handleKafkaCmd br env m =
     (case decode_command (br_codec br) (env_payload env) of
        Inl e \<Rightarrow> (Inl e, m)
      | Inr c \<Rightarrow>
          if cp_device c = [] then (Inr (), m)
          else br_mqtt br (DeviceCommandTopic (cp_device c) (if env_topic env = FeedCommandCancelled then ''cancel'' else ''feed''))
                 (jc_print (br_codec br) (command_json c)) m)"

definition publishCE ::
  "('m, 'b, 's) bridge \<Rightarrow> string \<Rightarrow> time \<Rightarrow> topic \<Rightarrow> string \<Rightarrow> string \<Rightarrow> (string \<times> json) list \<Rightarrow> 'b \<Rightarrow> (go_error, unit, 'b) outcome" where
  "publishCE br uuid now t key subject dat b =
     (case new_envelope (jc_marshal (br_codec br)) t key (ce_new uuid now (topic_string t) (bg_source (br_config br)) subject dat) of
        Inl e \<Rightarrow> (Inl e, b)
      | Inr env \<Rightarrow> br_bus br env b)"

text \<open>The fresh event identifier and the clock readings of the callback and of the event are arguments.\<close>

definition handleMqttEvent ::
  "('m, 'b, 's) bridge \<Rightarrow> string \<Rightarrow> time \<Rightarrow> time \<Rightarrow> mqtt_message \<Rightarrow> 's \<times> 'b \<Rightarrow> (go_error, unit, 's \<times> 'b) outcome" where
  "handleMqttEvent br uuid beat_now now msg sb =
     (case sb of (s, b) \<Rightarrow>
        (case split_on [] (mm_topic msg) of
           p0 # dev # p2 # ty # _ \<Rightarrow>
             if p0 \<noteq> ''device'' \<or> p2 \<noteq> ''event'' then (Inr (), sb)
             else if ty = ''feed_ack'' \<or> ty = ''feed_done'' then
               (case decode_ack (br_codec br) (mm_payload msg) of
                  Inl e \<Rightarrow> (Inl e, sb)
                | Inr a \<Rightarrow>
                    let ack = a\<lparr>ap_device := dev\<rparr>;
                        s' = (case br_on_ack br of None \<Rightarrow> s | Some f \<Rightarrow> f ack s);
                        t = (if ty = ''feed_done'' \<or> ap_status ack = ''succeeded'' then FeedCommandCompleted else FeedCommandAcked)
                    in map_prod id (Pair s') (publishCE br uuid now t (ap_room ack) (ap_request ack) (ack_payload_json ack) b))
             else if ty = ''cancelled'' \<or> ty = ''cancel_ack'' then
               (case decode_ack (br_codec br) (mm_payload msg) of
                  Inl e \<Rightarrow> (Inl e, sb)
                | Inr a \<Rightarrow>
                    let ack = a\<lparr>ap_device := dev\<rparr>
                    in map_prod id (Pair s) (publishCE br uuid now FeedCommandCancelledAcked (ap_room ack) (ap_request ack) (ack_payload_json ack) b))
             else if ty \<in> {''online'', ''offline'', ''heartbeat'', ''telemetry'', ''error''} then
               let s' = (if ty \<in> {''heartbeat'', ''online'', ''telemetry''}
                         then (case br_on_heartbeat br of None \<Rightarrow> s | Some f \<Rightarrow> f dev beat_now s) else s)
               in map_prod id (Pair s') (publishCE br uuid now DeviceStateChanged dev dev
                    [(''device_id'', JStr dev), (''event_type'', JStr ty), (''raw'', JRaw (mm_payload msg))] b)
             else (Inr (), sb)
         | _ \<Rightarrow> (Inr (), sb)))"

text \<open>The callbacks the server installs (\<^verbatim>\<open>go/services/device-svc/server/server.go\<close>).\<close>

definition on_ack :: "('d, 's, 'k, 't, 'w) device_env \<Rightarrow> time \<Rightarrow> ack_payload \<Rightarrow> 's \<Rightarrow> 's" where
  "on_ack env now ack = MarkOnline env now (ap_device ack) (ap_remaining ack)"

definition on_heartbeat :: "('d, 's, 'k, 't, 'w) device_env \<Rightarrow> string \<Rightarrow> time \<Rightarrow> 's \<Rightarrow> 's" where
  "on_heartbeat env dev at = HeartbeatAt env dev at"

end
