(* ===== verification/BridgeProps.thy ===== *)
theory BridgeProps
  imports Bridge DeviceProps FeedingDemo "HOL-Library.Countable"
begin

text \<open>The feeding service, the outbox, the bridge and the device service together: what reaches a device, and what
  an event of a device may change.\<close>

section \<open>What a device is told about one feeding\<close>

text \<open>A codec that reads back the event data it wrote.\<close>

definition codec_ok :: "json_codec \<Rightarrow> bool" where
  "codec_ok cd \<longleftrightarrow> (\<forall>ev. \<exists>p fs. jc_marshal cd ev = Inr p \<and> jc_parse cd p = Inr (JObj fs) \<and> field ''data'' fs = JObj (ce_data ev))"

definition record_message :: "string \<Rightarrow> string \<Rightarrow> mqtt_message list \<Rightarrow> (go_error, unit, mqtt_message list) outcome" where
  "record_message t p m = (Inr (), m @ [\<lparr>mm_topic = t, mm_payload = p\<rparr>])"

definition recording_bridge :: "json_codec \<Rightarrow> (mqtt_message list, unit, unit) bridge" where
  "recording_bridge cd = \<lparr>br_config = DefaultConfig, br_codec = cd, br_mqtt = record_message, br_bus = (\<lambda>_ b. (Inr (), b)),
     br_on_ack = None, br_on_heartbeat = None\<rparr>"

text \<open>An event from its outbox row over the bus into the bridge, when the bridge subscribes to its topic.\<close>

definition relay_event :: "json_codec \<Rightarrow> outbox_event \<Rightarrow> mqtt_message list \<Rightarrow> mqtt_message list" where
  "relay_event cd oe m =
     (case jc_marshal cd (oe_event oe) of
        Inl e \<Rightarrow> m
      | Inr p \<Rightarrow> snd (outbox_kafka_publish
          (\<lambda>env m. if env_topic env \<in> set (bridge_topics DefaultConfig) then handleKafkaCmd (recording_bridge cd) env m else (Inr (), m))
          \<lparr>or_id = 0, or_topic = topic_string (oe_topic oe), or_key = oe_key oe, or_payload = p, or_headers = oe_headers oe,
           or_region = [], or_created = zero_time\<rparr> m))"

definition device_messages :: "json_codec \<Rightarrow> string \<Rightarrow> (fresh \<times> state_change) list \<Rightarrow> mqtt_message list" where
  "device_messages cd src evs = fold (\<lambda>(fr, ev). fold (relay_event cd) (buildOutboxEvents src fr ev)) evs []"

definition feed_message :: "json_codec \<Rightarrow> request \<Rightarrow> u32 \<Rightarrow> string \<Rightarrow> mqtt_message" where
  "feed_message cd r motor expires = \<lparr>mm_topic = DeviceCommandTopic (rq_device r) ''feed'',
     mm_payload = jc_print cd (command_json \<lparr>cp_request = rq_id r, cp_cmd = rq_cmd r, cp_device = rq_device r, cp_room = rq_room r,
       cp_amount = rq_amount r, cp_motor_ms = motor, cp_expires = expires, cp_reason = []\<rparr>)\<rparr>"

lemma uint_u32 [simp]: "uint (w :: u32) < 4294967296"
  using unsigned_less [of w, where ?'a = int] by simp

lemmas reads = read_command_def same_key_def as_string_def as_u32_def

lemma read_requested:
  "read_command (cmd_json r) = Inr \<lparr>cp_request = rq_id r, cp_cmd = rq_cmd r, cp_device = rq_device r, cp_room = rq_room r,
     cp_amount = rq_amount r, cp_motor_ms = 1200, cp_expires = format_rfc3339 (rq_updated r + 30 * second), cp_reason = []\<rparr>"
  by (simp add: cmd_json_def reads)

lemma read_dispatched:
  "read_command [(''feed_request_id'', JStr (rq_id r)), (''device_command_id'', JStr (rq_cmd r)), (''device_id'', JStr (rq_device r)),
      (''room_id'', JStr (rq_room r)), (''amount_grams'', JInt (uint (rq_amount r)))] =
   Inr \<lparr>cp_request = rq_id r, cp_cmd = rq_cmd r, cp_device = rq_device r, cp_room = rq_room r,
     cp_amount = rq_amount r, cp_motor_ms = 0, cp_expires = [], cp_reason = []\<rparr>"
  by (simp add: reads)

lemma relay_event_step:
  assumes "codec_ok cd" and "\<forall>s. oe_topic oe \<noteq> OtherTopic s" and "read_command (ce_data (oe_event oe)) = Inr c"
  shows "relay_event cd oe m =
    (if oe_topic oe \<in> {FeedCommandDispatched, FeedCommandRequested, FeedCommandCancelled} \<and> cp_device c \<noteq> []
     then m @ [\<lparr>mm_topic = DeviceCommandTopic (cp_device c) (if oe_topic oe = FeedCommandCancelled then ''cancel'' else ''feed''),
                mm_payload = jc_print cd (command_json c)\<rparr>]
     else m)"
proof -
  obtain p fs where p: "jc_marshal cd (oe_event oe) = Inr p" "jc_parse cd p = Inr (JObj fs)" "field ''data'' fs = JObj (ce_data (oe_event oe))"
    using assms(1) unfolding codec_ok_def by blast
  have "decode_command cd p = Inr c" using p assms(3) by (simp add: decode_command_def as_object_def)
  then show ?thesis
    using p(1) topic_of_string [OF assms(2)]
    by (auto simp: relay_event_def outbox_kafka_publish_def handleKafkaCmd_def recording_bridge_def bridge_topics_def DefaultConfig_def record_message_def)
qed

lemma relay_requested:
  assumes "codec_ok cd" and "rq_device r \<noteq> []"
  shows "relay_event cd (ce_for src fr FeedCommandRequested k i (cmd_json r)) m =
    m @ [feed_message cd r 1200 (format_rfc3339 (rq_updated r + 30 * second))]"
  using relay_event_step [OF assms(1), of "ce_for src fr FeedCommandRequested k i (cmd_json r)"] read_requested [of r] assms(2)
  by (simp add: ce_for_def ce_new_def feed_message_def)

lemma relay_dispatched:
  assumes "codec_ok cd" and "rq_device r \<noteq> []"
  shows "relay_event cd (ce_for src fr FeedCommandDispatched k i [(''feed_request_id'', JStr (rq_id r)), (''device_command_id'', JStr (rq_cmd r)),
      (''device_id'', JStr (rq_device r)), (''room_id'', JStr (rq_room r)), (''amount_grams'', JInt (uint (rq_amount r)))]) m =
    m @ [feed_message cd r 0 []]"
  using assms(2) relay_event_step [OF assms(1), of "ce_for src fr FeedCommandDispatched k i [(''feed_request_id'', JStr (rq_id r)), (''device_command_id'', JStr (rq_cmd r)),
      (''device_id'', JStr (rq_device r)), (''room_id'', JStr (rq_room r)), (''amount_grams'', JInt (uint (rq_amount r)))]"] read_dispatched [of r]
  by (simp add: ce_for_def ce_new_def feed_message_def)

lemma relay_elsewhere:
  assumes "oe_topic oe = FeedCommandAcked \<or> oe_topic oe = FeedCommandCompleted"
  shows "relay_event cd oe m = m"
  using assms topic_of_string [of "oe_topic oe"]
  by (auto simp: relay_event_def outbox_kafka_publish_def bridge_topics_def DefaultConfig_def split: sum.split)

section \<open>The path of a request\<close>

inductive_simps feed_step_into:
  "feed_step s Accepted" "feed_step s Queued" "feed_step s Dispatched"

abbreviation edges :: "state_change list \<Rightarrow> (state \<times> state) list" where
  "edges es \<equiv> map (\<lambda>e. (sc_from e, sc_to e)) es"

definition dispatch_path :: "(state \<times> state) list" where
  "dispatch_path = [(Created, Accepted), (Accepted, Queued), (Queued, Dispatched)]"

lemma chain_edges:
  assumes "chain Created es t"
  shows "(t = Created \<longrightarrow> es = []) \<and> (t = Accepted \<longrightarrow> edges es = take 1 dispatch_path) \<and> (t = Queued \<longrightarrow> edges es = take 2 dispatch_path) \<and>
    (t = Dispatched \<longrightarrow> edges es = dispatch_path) \<and> (t = Acknowledged \<longrightarrow> edges es = dispatch_path @ [(Dispatched, Acknowledged)]) \<and>
    (t = Succeeded \<longrightarrow> edges es = dispatch_path @ [(Dispatched, Acknowledged), (Acknowledged, Succeeded)])"
  using assms
proof (induction es arbitrary: t rule: rev_induct)
  case Nil
  then show ?case by (auto simp: dispatch_path_def)
next
  case (snoc e es)
  then have ch: "chain Created es (sc_from e)" "feed_step (sc_from e) (sc_to e)" "t = sc_to e" by (simp_all add: chain_append)
  note IH = snoc.IH [OF ch(1)]
  have "t \<noteq> Created" using ch(2,3) feed_step_not_Created by auto
  moreover have "t = Accepted \<longrightarrow> sc_from e = Created" "t = Queued \<longrightarrow> sc_from e = Accepted" "t = Dispatched \<longrightarrow> sc_from e = Queued"
      "t = Acknowledged \<longrightarrow> sc_from e = Dispatched" "t = Succeeded \<longrightarrow> sc_from e = Acknowledged"
    using ch(2,3) by (auto simp: feed_step_into feed_step_to_acknowledged feed_step_to_succeeded)
  ultimately show ?case using IH ch(3) by (auto simp: dispatch_path_def)
qed

text \<open>Every feeding that reached its device was commanded twice.  Whatever calls came before, the outbox events
  of a request that is dispatched, acknowledged or succeeded make the bridge send the device two feed commands with
  the same identifiers and the same grams: one from \<open>feed.command.requested\<close>, one from \<open>feed.command.dispatched\<close>,
  the second without motor duration and without expiry.\<close>

theorem feeding_commanded_twice:
  assumes "distinct (feed_ids cs)" and "st = feed_run env cs (feeding_new kv sf b)" and "fs_requests st i = Some r"
    and "rq_status r \<in> {Dispatched, Acknowledged, Succeeded}" and "rq_device r \<noteq> []" and "map snd evs = changes i (fs_log st)" and "codec_ok cd"
  shows "\<exists>expires. device_messages cd src evs = [feed_message cd r 1200 expires, feed_message cd r 0 []]"
proof -
  have inv: "log_inv ({} \<union> set (feed_ids cs)) st"
    unfolding assms(2) by (rule feed_run_inv [OF feeding_new_inv _ assms(1)]) simp
  have ch: "chain Created (map snd evs) (rq_status r)"
    using inv assms(3,6) by (simp add: log_inv_def sourced_def)
  have snap: "snapshot_of (snd x) r" "sc_id (snd x) = i" if "x \<in> set evs" for x
  proof -
    have "snd x \<in> set (changes i (fs_log st))" using that assms(6) by (metis image_eqI list.set_map)
    then show "sc_id (snd x) = i" by (simp add: changes_def)
    with \<open>snd x \<in> set (changes i (fs_log st))\<close> show "snapshot_of (snd x) r"
      using inv assms(3) by (auto simp: log_inv_def snapshots_def changes_def)
  qed
  have id: "rq_id r = i" using inv assms(3) by (auto simp: log_inv_def sourced_def)
  obtain rest where path: "edges (map snd evs) = dispatch_path @ rest" "set rest \<subseteq> {(Dispatched, Acknowledged), (Acknowledged, Succeeded)}"
    using chain_edges [OF ch] assms(4) by (elim insertE emptyE; simp)
  then obtain x1 x2 x3 evs' where evs: "evs = x1 # x2 # x3 # evs'" and edge: "edges (map snd [x1, x2, x3]) = dispatch_path"
      and rest: "edges (map snd evs') = rest"
    by (auto simp: dispatch_path_def map_eq_Cons_conv)
  have quiet: "fold (\<lambda>(fr, ev). fold (relay_event cd) (buildOutboxEvents src fr ev)) evs' m = m" for m
  proof -
    have "fold (relay_event cd) (buildOutboxEvents src fr ev) m = m" if "(fr, ev) \<in> set evs'" for fr ev m
    proof -
      have "(sc_from ev, sc_to ev) \<in> set rest" using that rest by force
      then show ?thesis using path(2) by (auto simp: buildOutboxEvents_def Let_def relay_elsewhere ce_for_def)
    qed
    then show ?thesis by (induction evs' arbitrary: m) auto
  qed
  obtain fr1 e1 fr2 e2 fr3 e3 where x: "x1 = (fr1, e1)" "x2 = (fr2, e2)" "x3 = (fr3, e3)" by (meson surj_pair)
  have e: "sc_from e1 = Created" "sc_to e1 = Accepted" "sc_from e2 = Accepted" "sc_to e2 = Queued" "sc_from e3 = Queued" "sc_to e3 = Dispatched"
    using edge x by (simp_all add: dispatch_path_def)
  have same: "feed_message cd (sc_snapshot e2) m t = feed_message cd r m t" "feed_message cd (sc_snapshot e3) m t = feed_message cd r m t" for m t
    using snap [of x2] snap [of x3] evs x id by (simp_all add: feed_message_def snapshot_of_def)
  have dev: "rq_device (sc_snapshot e2) \<noteq> []" "rq_device (sc_snapshot e3) \<noteq> []"
    using snap [of x2] snap [of x3] evs x assms(5) by (simp_all add: snapshot_of_def)
  have "buildOutboxEvents src fr1 e1 = []" using e by (simp add: buildOutboxEvents_def)
  moreover have "buildOutboxEvents src fr2 e2 = [ce_for src fr2 FeedCommandRequested (rq_device (sc_snapshot e2)) (rq_id (sc_snapshot e2)) (cmd_json (sc_snapshot e2))]"
    using e by (simp add: buildOutboxEvents_def Let_def)
  moreover have "fold (relay_event cd) (buildOutboxEvents src fr3 e3) m = m @ [feed_message cd (sc_snapshot e3) 0 []]" for m
    using e relay_dispatched [OF assms(7) dev(2)] by (simp add: buildOutboxEvents_def Let_def)
  ultimately have "device_messages cd src evs = [feed_message cd (sc_snapshot e2) 1200 (format_rfc3339 (rq_updated (sc_snapshot e2) + 30 * second)),
      feed_message cd (sc_snapshot e3) 0 []]"
    by (simp add: device_messages_def evs x quiet relay_requested [OF assms(7) dev(1)])
  then show ?thesis by (auto simp: same)
qed

section \<open>A feeding whose device is commanded twice\<close>

text \<open>A codec: the number of the data object in unary.\<close>

instance json :: countable
  by countable_datatype

definition unary_codec :: json_codec where
  "unary_codec = \<lparr>jc_marshal = (\<lambda>ev. Inr (replicate (to_nat (JObj [(''data'', JObj (ce_data ev))])) CHR ''1'')),
     jc_print = (\<lambda>v. replicate (to_nat v) CHR ''1''), jc_parse = (\<lambda>p. Inr (from_nat (length p)))\<rparr>"

lemma unary_codec_ok: "codec_ok unary_codec"
  by (simp add: codec_ok_def unary_codec_def same_key_def)

theorem feeding_commanded_twice_witness:
  "\<exists>st evs expires. svc_feed_create demo_env [] (demo_fresh ''1'' hour) (demo_input ''k1'') demo_start = (Inr demo_request, st) \<and>
     map snd evs = changes ''feed_1'' (fs_log st) \<and>
     device_messages unary_codec ''f'' evs = [feed_message unary_codec demo_request 1200 expires, feed_message unary_codec demo_request 0 []]"
proof -
  obtain kv where create: "svc_feed_create demo_env [] (demo_fresh ''1'' hour) (demo_input ''k1'') demo_start = (Inr demo_request, demo_start\<lparr>
     fs_requests := [''feed_1'' \<mapsto> demo_request], fs_receipts := [''feed_1'' \<mapsto> ''noop''],
     fs_log := creation_log (new_request (demo_fresh ''1'' hour) (demo_input ''k1'') feeding_room) hour,
     fs_kv := kv, fs_safety := Map.empty, fs_billing := ((), [BReserved ''noop''])\<rparr>)"
    using demo_create by blast
  let ?cs = "[FCreate [] (demo_fresh ''1'' hour) (demo_input ''k1'')]"
  let ?st = "feed_run demo_env ?cs demo_start"
  let ?evs = "map (Pair (fr_ex ''1'')) (changes ''feed_1'' (fs_log ?st))"
  have st: "snd (svc_feed_create demo_env [] (demo_fresh ''1'' hour) (demo_input ''k1'') demo_start) = ?st"
    by (simp add: feed_run_def)
  have "fs_requests (snd (svc_feed_create demo_env [] (demo_fresh ''1'' hour) (demo_input ''k1'') demo_start)) ''feed_1'' = Some demo_request"
    using create by simp
  then have "fs_requests ?st ''feed_1'' = Some demo_request" unfolding st .
  moreover have "rq_status demo_request \<in> {Dispatched, Acknowledged, Succeeded}" "rq_device demo_request \<noteq> []"
    by (simp_all add: demo_request_def new_request_def feeding_room_def)
  moreover have "distinct (feed_ids ?cs)" by simp
  moreover have evs: "map snd ?evs = changes ''feed_1'' (fs_log ?st)" by (simp add: comp_def)
  ultimately obtain expires where "device_messages unary_codec ''f'' ?evs =
      [feed_message unary_codec demo_request 1200 expires, feed_message unary_codec demo_request 0 []]"
    using feeding_commanded_twice [OF _ _ _ _ _ evs unary_codec_ok, of ?cs demo_env Map.empty Map.empty "((), [])" demo_request "''f''"]
    unfolding demo_start_def by blast
  then show ?thesis using create st evs by (metis snd_conv)
qed

section \<open>What a device may change\<close>

lemma split_event_topic:
  "no_slash dev \<Longrightarrow> split_on [] (DeviceEventTopic dev ty) = ''device'' # dev # ''event'' # split_on [] ty"
proof -
  assume dev: "no_slash dev"
  have "DeviceEventTopic dev ty = ''device'' @ CHR ''/'' # dev @ CHR ''/'' # ''event'' @ CHR ''/'' # ty"
    by (simp add: DeviceEventTopic_def)
  then show ?thesis using dev by (simp add: split_on_slash)
qed

lemma mark_online_frame: "j \<noteq> i \<Longrightarrow> snd (device_pg_mark_online flt i g at t) j = t j"
  by (simp add: device_pg_mark_online_def stmt_def on_device_def split: option.split)

definition record_envelope :: "envelope \<Rightarrow> envelope list \<Rightarrow> (go_error, unit, envelope list) outcome" where
  "record_envelope env b = (Inr (), b @ [env])"

text \<open>The event of an envelope names a device.\<close>

definition about_device :: "json_codec \<Rightarrow> string \<Rightarrow> envelope \<Rightarrow> bool" where
  "about_device cd dev env \<longleftrightarrow> (\<exists>ev. jc_marshal cd ev = Inr (env_payload env) \<and> field ''device_id'' (ce_data ev) = JStr dev)"

lemma publishCE_about:
  assumes "br_bus br = record_envelope" and "publishCE br uuid now t k i dat b = (r, b')" and "field ''device_id'' dat = JStr dev"
  shows "\<forall>env \<in> set b' - set b. about_device (br_codec br) dev env"
  using assms
  by (auto simp: publishCE_def new_envelope_def record_envelope_def about_device_def ce_new_def split: sum.splits)

lemma ack_device_field: "field ''device_id'' (ack_payload_json (a\<lparr>ap_device := dev\<rparr>)) = JStr dev"
  by (simp add: ack_payload_json_def same_key_def)

lemma state_device_field: "field ''device_id'' [(''device_id'', JStr dev), (''event_type'', JStr ty), (''raw'', JRaw p)] = JStr dev"
  by (simp add: same_key_def)

text \<open>The handler by kind of event.\<close>

definition ack_events :: "string set" where
  "ack_events = {''feed_ack'', ''feed_done'', ''cancelled'', ''cancel_ack''}"

definition state_events :: "string set" where
  "state_events = {''online'', ''offline'', ''heartbeat'', ''telemetry'', ''error''}"

definition ack_topic :: "string \<Rightarrow> ack_payload \<Rightarrow> topic" where
  "ack_topic ty a = (if ty = ''feed_done'' \<or> ap_status a = ''succeeded'' then FeedCommandCompleted else FeedCommandAcked)"

lemma handle_ack:
  assumes "split_on [] (mm_topic msg) = ''device'' # dev # ''event'' # ty # rest" and "ty = ''feed_ack'' \<or> ty = ''feed_done''"
    and "decode_ack (br_codec br) (mm_payload msg) = Inr a" and "br_on_ack br = Some f"
  shows "handleMqttEvent br uuid t2 t3 msg (s, b) = map_prod id (Pair (f (a\<lparr>ap_device := dev\<rparr>) s))
    (publishCE br uuid t3 (ack_topic ty a) (ap_room a) (ap_request a) (ack_payload_json (a\<lparr>ap_device := dev\<rparr>)) b)"
  using assms(2) unfolding handleMqttEvent_def by (elim disjE) (simp_all add: assms(1,3,4) ack_topic_def Let_def)

lemma handle_cancel:
  assumes "split_on [] (mm_topic msg) = ''device'' # dev # ''event'' # ty # rest" and "ty = ''cancelled'' \<or> ty = ''cancel_ack''"
    and "decode_ack (br_codec br) (mm_payload msg) = Inr a"
  shows "handleMqttEvent br uuid t2 t3 msg (s, b) = map_prod id (Pair s)
    (publishCE br uuid t3 FeedCommandCancelledAcked (ap_room a) (ap_request a) (ack_payload_json (a\<lparr>ap_device := dev\<rparr>)) b)"
  using assms(2) unfolding handleMqttEvent_def by (elim disjE) (simp_all add: assms(1,3) Let_def)

lemma handle_unreadable:
  assumes "split_on [] (mm_topic msg) = ''device'' # dev # ''event'' # ty # rest" and "ty \<in> ack_events"
    and "decode_ack (br_codec br) (mm_payload msg) = Inl e"
  shows "handleMqttEvent br uuid t2 t3 msg (s, b) = (Inl e, s, b)"
  using assms(2) unfolding handleMqttEvent_def ack_events_def by (elim insertE emptyE) (simp_all add: assms(1,3))

definition beats :: "string set" where
  "beats = {''heartbeat'', ''online'', ''telemetry''}"

lemma handle_state:
  assumes "split_on [] (mm_topic msg) = ''device'' # dev # ''event'' # ty # rest"
    and "ty \<in> state_events" and "br_on_heartbeat br = Some g"
  shows "handleMqttEvent br uuid t2 t3 msg (s, b) = map_prod id (Pair (if ty \<in> beats then g dev t2 s else s))
    (publishCE br uuid t3 DeviceStateChanged dev dev [(''device_id'', JStr dev), (''event_type'', JStr ty), (''raw'', JRaw (mm_payload msg))] b)"
  using assms(2) unfolding handleMqttEvent_def beats_def state_events_def by (elim insertE emptyE) (simp_all add: assms(1,3) Let_def)

lemma handle_other:
  assumes "split_on [] (mm_topic msg) = ''device'' # dev # ''event'' # ty # rest"
    and "ty \<notin> ack_events \<and> ty \<notin> state_events"
  shows "handleMqttEvent br uuid t2 t3 msg (s, b) = (Inr (), s, b)"
  using assms(2) by (simp add: handleMqttEvent_def assms(1) ack_events_def state_events_def)

text \<open>C26: An event that arrives on a topic of one device changes the row of no other device and is published under
  this device's name only, whatever its payload claims and whichever statements of the database fail.\<close>

theorem event_touches_own_device:
  assumes "br_on_ack br = Some (on_ack env t1)" and "br_on_heartbeat br = Some (on_heartbeat env)" and "de_store env = device_pg_ops sha flt"
    and "br_bus br = record_envelope" and "mm_topic msg = DeviceEventTopic dev ty" and "no_slash dev"
    and "handleMqttEvent br uuid t2 t3 msg (s, b) = (r, s', b')"
  shows "(\<forall>j. j \<noteq> dev \<longrightarrow> s' j = s j) \<and> (\<forall>e \<in> set b' - set b. about_device (br_codec br) dev e)"
proof -
  obtain ty' rest where split: "split_on [] (mm_topic msg) = ''device'' # dev # ''event'' # ty' # rest"
    using split_event_topic [OF assms(6)] assms(5) split_on_nonempty [of "[]" ty] by (metis list.exhaust)
  have mark: "j \<noteq> dev \<Longrightarrow> MarkOnline env t dev g s j = s j" "j \<noteq> dev \<Longrightarrow> HeartbeatAt env dev t s j = s j" for j t g
    using mark_online_frame [of j dev] assms(3) by (simp_all add: MarkOnline_def HeartbeatAt_def device_pg_ops_def)
  note about = publishCE_about [OF assms(4)]
  consider "ty' \<in> ack_events" | "ty' \<in> state_events" | "ty' \<notin> ack_events \<and> ty' \<notin> state_events" by blast
  then show ?thesis
  proof cases
    case 1
    show ?thesis
    proof (cases "decode_ack (br_codec br) (mm_payload msg)")
      case (Inl e)
      from handle_unreadable [OF split 1 Inl] assms(7) have "s' = s" "b' = b" by simp_all
      then show ?thesis by blast
    next
      case (Inr a)
      have pub: "publishCE br uuid t3 t (ap_room a) (ap_request a) (ack_payload_json (a\<lparr>ap_device := dev\<rparr>)) b = (r, b')
          \<Longrightarrow> \<forall>e \<in> set b' - set b. about_device (br_codec br) dev e" for t
        by (rule about [OF _ ack_device_field])
      show ?thesis
      proof (cases "ty' = ''feed_ack'' \<or> ty' = ''feed_done''")
        case True
        obtain x b1 where p: "publishCE br uuid t3 (ack_topic ty' a) (ap_room a) (ap_request a) (ack_payload_json (a\<lparr>ap_device := dev\<rparr>)) b = (x, b1)"
          by (rule prod.exhaust)
        with handle_ack [OF split True Inr assms(1)] assms(7) have "x = r" "b1 = b'" "s' = MarkOnline env t1 dev (ap_remaining a) s"
          by (simp_all add: on_ack_def)
        then show ?thesis using pub p mark(1) by blast
      next
        case False
        then have c: "ty' = ''cancelled'' \<or> ty' = ''cancel_ack''" using 1 unfolding ack_events_def by simp
        obtain x b1 where p: "publishCE br uuid t3 FeedCommandCancelledAcked (ap_room a) (ap_request a) (ack_payload_json (a\<lparr>ap_device := dev\<rparr>)) b = (x, b1)"
          by (rule prod.exhaust)
        with handle_cancel [OF split c Inr] assms(7) have "x = r" "b1 = b'" "s' = s" by simp_all
        then show ?thesis using pub p by blast
      qed
    qed
  next
    case 2
    obtain x b1 where p: "publishCE br uuid t3 DeviceStateChanged dev dev
        [(''device_id'', JStr dev), (''event_type'', JStr ty'), (''raw'', JRaw (mm_payload msg))] b = (x, b1)"
      by (rule prod.exhaust)
    with handle_state [OF split 2 assms(2)] assms(7) have "x = r" "b1 = b'" "s' = (if ty' \<in> beats then HeartbeatAt env dev t2 s else s)"
      by (auto simp: on_heartbeat_def)
    then show ?thesis using about [OF _ state_device_field] p mark(2) by metis
  next
    case 3
    from handle_other [OF split 3, of br uuid t2 t3 s b] assms(7) have "s' = s" "b' = b" by simp_all
    then show ?thesis by blast
  qed
qed

text \<open>A heartbeat of \<open>dev_7\<close> on the table with this device.\<close>

definition demo_bridge :: "(unit, envelope list, device_table) bridge" where
  "demo_bridge = \<lparr>br_config = DefaultConfig, br_codec = unary_codec, br_mqtt = (\<lambda>_ _ m. (Inr (), m)), br_bus = record_envelope,
     br_on_ack = Some (on_ack (demo_device_env (device_pg_ops id no_faults)) 5),
     br_on_heartbeat = Some (on_heartbeat (demo_device_env (device_pg_ops id no_faults)))\<rparr>"

theorem event_touches_own_device_witness:
  "\<exists>r s' b'. handleMqttEvent demo_bridge ''e1'' 5 5 \<lparr>mm_topic = DeviceEventTopic ''dev_7'' ''heartbeat'', mm_payload = ''{}''\<rparr> (demo_devices, []) = (r, s', b') \<and>
     s' ''dev_8'' = demo_devices ''dev_8'' \<and> (\<forall>e \<in> set b'. about_device unary_codec ''dev_7'' e)"
proof -
  obtain r s' b' where run: "handleMqttEvent demo_bridge ''e1'' 5 5 \<lparr>mm_topic = DeviceEventTopic ''dev_7'' ''heartbeat'', mm_payload = ''{}''\<rparr>
      (demo_devices, []) = (r, s', b')"
    by (metis prod.exhaust)
  have "br_codec demo_bridge = unary_codec" by (simp add: demo_bridge_def)
  then have "s' ''dev_8'' = demo_devices ''dev_8'' \<and> (\<forall>e \<in> set b'. about_device unary_codec ''dev_7'' e)"
    using event_touches_own_device [OF _ _ _ _ _ _ run, where env = "demo_device_env (device_pg_ops id no_faults)" and ?t1.0 = 5
        and sha = id and flt = no_faults and dev = "''dev_7''" and ty = "''heartbeat''"]
    by (simp add: demo_bridge_def demo_device_env_def)
  then show ?thesis using run by blast
qed

end
