(* ===== verification/SimDevice.thy ===== *)
theory SimDevice
  imports Bridge GoText Complex_Main
begin

text \<open>
  The simulated feeder, \<^verbatim>\<open>clients/cat-feeder-sim/pkg/simdev/simdev.go\<close> with the configuration its command line makes
  (\<^verbatim>\<open>cmd/cat-feeder-sim/main.go\<close>).  Every message is handled in a goroutine of its own, so a command is modelled by
  its steps between two waits or locks, \<open>sim_event\<close>, in any order.  Clock readings and random draws are arguments of
  the steps; \<open>ss_sent\<close> is what was handed to the MQTT client, whose errors the code ignores, and \<open>ss_seen\<close> what the
  hooks were told.
\<close>

section \<open>Configuration\<close>

record sim_config =
  sc_device :: string
  sc_room :: string
  sc_qos :: nat
  sc_beat_every :: duration
  sc_lat_min :: duration
  sc_lat_max :: duration
  sc_fail :: rat
  sc_cancel_loss :: rat
  sc_food :: u32

abbreviation millisecond :: duration where
  "millisecond \<equiv> 1000000"

definition sim_defaults :: "sim_config \<Rightarrow> sim_config" where
  "sim_defaults c = c\<lparr>sc_qos := (if sc_qos c = 0 then 1 else sc_qos c),
     sc_beat_every := (if sc_beat_every c = 0 then 5 * second else sc_beat_every c),
     sc_lat_min := (if sc_lat_min c = 0 then 100 * millisecond else sc_lat_min c),
     sc_lat_max := (if sc_lat_max c = 0 then 800 * millisecond else sc_lat_max c)\<rparr>"

text \<open>The span of the simulated latency; \<open>draw\<close> is \<open>Int63n\<close>.\<close>

definition feed_delay :: "sim_config \<Rightarrow> (duration \<Rightarrow> duration) \<Rightarrow> duration" where
  "feed_delay c draw = sc_lat_min c + draw (max millisecond (sc_lat_max c - sc_lat_min c))"

text \<open>The command line.\<close>

fun split_dash :: "string \<Rightarrow> string \<Rightarrow> string list" where
  "split_dash cur [] = [cur]"
| "split_dash cur (c # cs) = (if c = CHR ''-'' then cur # split_dash [] cs else split_dash (cur @ [c]) cs)"

definition parseLatencyRange :: "string \<Rightarrow> go_error + (duration \<times> duration)" where
  "parseLatencyRange s =
     (case split_dash [] s of
        [a, b] \<Rightarrow>
          (case (parse_int64 (TrimSpace a), parse_int64 (TrimSpace b)) of
             (Some lo, Some hi) \<Rightarrow> Inr (lo * millisecond, max lo hi * millisecond)
           | _ \<Rightarrow> Inl (Plain ''strconv.Atoi: invalid syntax''))
      | _ \<Rightarrow> Inl (Plain (''expect format min-max, got '' @ s)))"

definition pad06 :: "nat \<Rightarrow> string" where
  "pad06 i = (if i < 10 ^ 6 then pad 6 i else dec_nat i)"

definition cli_device :: "string \<Rightarrow> string \<Rightarrow> duration \<Rightarrow> duration \<Rightarrow> nat \<Rightarrow> int \<Rightarrow> rat \<Rightarrow> rat \<Rightarrow> nat \<Rightarrow> sim_config" where
  "cli_device device_prefix room_prefix lo hi qos beats fail loss i =
     \<lparr>sc_device = device_prefix @ pad06 i, sc_room = room_prefix @ pad06 i, sc_qos = qos mod 256, sc_beat_every = beats * second,
      sc_lat_min = lo, sc_lat_max = hi, sc_fail = fail, sc_cancel_loss = loss, sc_food = 0\<rparr>"

section \<open>State\<close>

text \<open>A feed command after its ack, and after the motor ran: the status is what \<open>feed_done\<close> will say.\<close>

datatype sim_job = Waiting command_payload | Dispensed command_payload bool

datatype sim_hook =
    HFeedAck ack_payload
  | HFeedDone ack_payload
  | HCancelAck ack_payload
  | HHeartbeat
  | HFeedSkipped string

record sim_state =
  ss_food :: u32
  ss_jobs :: "sim_job list"
  ss_sent :: "mqtt_message list"
  ss_seen :: "sim_hook list"

text \<open>\<open>New\<close>: no grams configured are drawn, \<open>Intn(2000)\<close>.\<close>

definition sim_new :: "sim_config \<Rightarrow> u32 \<Rightarrow> sim_state" where
  "sim_new c drawn = \<lparr>ss_food = (if sc_food c = 0 then drawn else sc_food c), ss_jobs = [], ss_sent = [], ss_seen = []\<rparr>"

section \<open>Payloads\<close>

text \<open>The struct's own JSON: \<open>errors\<close> is left out when empty.\<close>

definition sim_ack_json :: "ack_payload \<Rightarrow> json" where
  "sim_ack_json a = JObj
     ([(''feed_request_id'', JStr (ap_request a)), (''device_command_id'', JStr (ap_cmd a)), (''device_id'', JStr (ap_device a)),
       (''room_id'', JStr (ap_room a)), (''status'', JStr (ap_status a)), (''actual_amount_grams'', JInt (uint (ap_actual a))),
       (''remaining_food_grams'', JInt (uint (ap_remaining a))), (''executed_at'', JStr (ap_executed a))] @
      (case ap_errors a of None \<Rightarrow> [] | Some xs \<Rightarrow> if xs = [] then [] else [(''errors'', JStrs xs)]))"

definition heartbeat_json :: "sim_config \<Rightarrow> u32 \<Rightarrow> time \<Rightarrow> json" where
  "heartbeat_json c food now = JObj
     [(''device_id'', JStr (sc_device c)), (''online_status'', JStr ''online''), (''remaining_food_grams'', JInt (uint food)),
      (''health_status'', JStr ''ok''), (''now'', JStr (format_rfc3339 now))]"

text \<open>A command read from the message itself.\<close>

definition decode_feed :: "json_codec \<Rightarrow> string \<Rightarrow> go_error + command_payload" where
  "decode_feed cd p = read_with read_command (read_with as_object (jc_parse cd p))"

definition sim_publish :: "json_codec \<Rightarrow> string \<Rightarrow> json \<Rightarrow> sim_state \<Rightarrow> sim_state" where
  "sim_publish cd topic v st = st\<lparr>ss_sent := ss_sent st @ [\<lparr>mm_topic = topic, mm_payload = jc_print cd v\<rparr>]\<rparr>"

definition sim_hooked :: "sim_hook \<Rightarrow> sim_state \<Rightarrow> sim_state" where
  "sim_hooked h st = st\<lparr>ss_seen := ss_seen st @ [h]\<rparr>"

section \<open>Handlers\<close>

definition sim_heartbeat :: "json_codec \<Rightarrow> sim_config \<Rightarrow> time \<Rightarrow> sim_state \<Rightarrow> sim_state" where
  "sim_heartbeat cd c now st =
     sim_hooked HHeartbeat (sim_publish cd (DeviceEventTopic (sc_device c) ''heartbeat'') (heartbeat_json c (ss_food st) now) st)"

text \<open>\<open>handleFeed\<close> up to the wait: the ack.\<close>

definition sim_command :: "sim_config \<Rightarrow> command_payload \<Rightarrow> command_payload" where
  "sim_command c cmd = cmd\<lparr>cp_device := orElse (cp_device cmd) (sc_device c), cp_room := orElse (cp_room cmd) (sc_room c)\<rparr>"

definition feed_ack_payload :: "time \<Rightarrow> command_payload \<Rightarrow> ack_payload" where
  "feed_ack_payload now cmd = \<lparr>ap_request = cp_request cmd, ap_cmd = cp_cmd cmd, ap_device = cp_device cmd, ap_room = cp_room cmd,
     ap_status = ''acked'', ap_actual = 0, ap_remaining = 0, ap_executed = format_rfc3339 now, ap_errors = None\<rparr>"

definition sim_feed_start :: "json_codec \<Rightarrow> sim_config \<Rightarrow> time \<Rightarrow> string \<Rightarrow> sim_state \<Rightarrow> sim_state" where
  "sim_feed_start cd c now p st =
     (case decode_feed cd p of
        Inl e \<Rightarrow> st
      | Inr cmd0 \<Rightarrow>
          let cmd = sim_command c cmd0; ack = feed_ack_payload now cmd;
              st1 = sim_hooked (HFeedAck ack) (sim_publish cd (DeviceEventTopic (sc_device c) ''feed_ack'') (sim_ack_json ack) st)
          in st1\<lparr>ss_jobs := ss_jobs st1 @ [Waiting cmd]\<rparr>)"

text \<open>After the wait: the draw decides whether the motor jams; the hopper gives what it has, under the lock.\<close>

definition take_food :: "u32 \<Rightarrow> u32 \<Rightarrow> u32" where
  "take_food amount food = (if amount \<le> food then food - amount else 0)"

definition sim_feed_dispense :: "sim_config \<Rightarrow> nat \<Rightarrow> rat \<Rightarrow> sim_state \<Rightarrow> sim_state" where
  "sim_feed_dispense c i draw st =
     (if i < length (ss_jobs st)
      then (case ss_jobs st ! i of
              Waiting cmd \<Rightarrow>
                if draw < sc_fail c then st\<lparr>ss_jobs := (ss_jobs st)[i := Dispensed cmd False]\<rparr>
                else st\<lparr>ss_food := take_food (cp_amount cmd) (ss_food st), ss_jobs := (ss_jobs st)[i := Dispensed cmd True]\<rparr>
            | Dispensed cmd ok \<Rightarrow> st)
      else st)"

text \<open>The lock is taken again for the grams that remain, and \<open>feed_done\<close> is sent.\<close>

definition feed_done_payload :: "time \<Rightarrow> u32 \<Rightarrow> command_payload \<Rightarrow> bool \<Rightarrow> ack_payload" where
  "feed_done_payload now food cmd ok = \<lparr>ap_request = cp_request cmd, ap_cmd = cp_cmd cmd, ap_device = cp_device cmd, ap_room = cp_room cmd,
     ap_status = (if ok then ''succeeded'' else ''failed''), ap_actual = cp_amount cmd, ap_remaining = food,
     ap_executed = format_rfc3339 now, ap_errors = (if ok then None else Some [''motor_jammed''])\<rparr>"

definition remove_at :: "nat \<Rightarrow> 'a list \<Rightarrow> 'a list" where
  "remove_at i xs = take i xs @ drop (Suc i) xs"

definition sim_feed_report :: "json_codec \<Rightarrow> sim_config \<Rightarrow> nat \<Rightarrow> time \<Rightarrow> sim_state \<Rightarrow> sim_state" where
  "sim_feed_report cd c i now st =
     (if i < length (ss_jobs st)
      then (case ss_jobs st ! i of
              Dispensed cmd ok \<Rightarrow>
                let done_pl = feed_done_payload now (ss_food st) cmd ok
                in sim_hooked (HFeedDone done_pl)
                     (sim_publish cd (DeviceEventTopic (sc_device c) ''feed_done'') (sim_ack_json done_pl) (st\<lparr>ss_jobs := remove_at i (ss_jobs st)\<rparr>))
            | Waiting cmd \<Rightarrow> st)
      else st)"

text \<open>The context ends while a command waits.\<close>

definition sim_feed_stop :: "nat \<Rightarrow> sim_state \<Rightarrow> sim_state" where
  "sim_feed_stop i st =
     (if i < length (ss_jobs st)
      then (case ss_jobs st ! i of Waiting cmd \<Rightarrow> st\<lparr>ss_jobs := remove_at i (ss_jobs st)\<rparr> | Dispensed cmd ok \<Rightarrow> st)
      else st)"

definition cancel_payload :: "sim_config \<Rightarrow> time \<Rightarrow> command_payload \<Rightarrow> ack_payload" where
  "cancel_payload c now cmd = \<lparr>ap_request = cp_request cmd, ap_cmd = cp_cmd cmd, ap_device = sc_device c, ap_room = cp_room cmd,
     ap_status = ''cancelled'', ap_actual = 0, ap_remaining = 0, ap_executed = format_rfc3339 now, ap_errors = None\<rparr>"

definition handleCancel :: "json_codec \<Rightarrow> sim_config \<Rightarrow> time \<Rightarrow> rat \<Rightarrow> string \<Rightarrow> sim_state \<Rightarrow> sim_state" where
  "handleCancel cd c now draw p st =
     (case decode_feed cd p of
        Inl e \<Rightarrow> st
      | Inr cmd \<Rightarrow>
          if draw < sc_cancel_loss c then sim_hooked (HFeedSkipped ''cancel_lost'') st
          else let ack = cancel_payload c now cmd
               in sim_hooked (HCancelAck ack) (sim_publish cd (DeviceEventTopic (sc_device c) ''cancelled'') (sim_ack_json ack) st))"

text \<open>The two subscriptions of \<open>Run\<close>.\<close>

definition sim_deliver :: "json_codec \<Rightarrow> sim_config \<Rightarrow> time \<Rightarrow> rat \<Rightarrow> mqtt_message \<Rightarrow> sim_state \<Rightarrow> sim_state" where
  "sim_deliver cd c now draw m st =
     (if mm_topic m = DeviceCommandTopic (sc_device c) ''feed'' then sim_feed_start cd c now (mm_payload m) st
      else if mm_topic m = DeviceCommandTopic (sc_device c) ''cancel'' then handleCancel cd c now draw (mm_payload m) st
      else st)"

datatype sim_event =
    Deliver time rat mqtt_message
  | Dispense nat rat
  | Report nat time
  | StopWait nat
  | Beat time

fun sim_step :: "json_codec \<Rightarrow> sim_config \<Rightarrow> sim_event \<Rightarrow> sim_state \<Rightarrow> sim_state" where
  "sim_step cd c (Deliver now draw m) st = sim_deliver cd c now draw m st"
| "sim_step cd c (Dispense i draw) st = sim_feed_dispense c i draw st"
| "sim_step cd c (Report i now) st = sim_feed_report cd c i now st"
| "sim_step cd c (StopWait i) st = sim_feed_stop i st"
| "sim_step cd c (Beat now) st = sim_heartbeat cd c now st"

definition sim_run :: "json_codec \<Rightarrow> sim_config \<Rightarrow> sim_event list \<Rightarrow> sim_state \<Rightarrow> sim_state" where
  "sim_run cd c es st = fold (sim_step cd c) es st"

end
