(* ===== verification/SimProps.thy ===== *)
theory SimProps
  imports SimDevice BridgeProps
begin

text \<open>What the simulated feeder gives out, what a cancellation does to it, and what it makes of the two commands the
  bridge sends for one feeding.\<close>

section \<open>The food is accounted for\<close>

fun job_cmd :: "sim_job \<Rightarrow> command_payload" where
  "job_cmd (Waiting cmd) = cmd"
| "job_cmd (Dispensed cmd ok) = cmd"

fun job_given :: "sim_job \<Rightarrow> nat" where
  "job_given (Waiting cmd) = 0"
| "job_given (Dispensed cmd ok) = (if ok then unat (cp_amount cmd) else 0)"

text \<open>The \<open>feed_done\<close> reports, and the grams those of success claim.\<close>

fun done_of :: "sim_hook \<Rightarrow> ack_payload list" where
  "done_of (HFeedDone a) = [a]"
| "done_of h = []"

definition dones :: "sim_state \<Rightarrow> ack_payload list" where
  "dones st = concat (map done_of (ss_seen st))"

definition claimed :: "ack_payload \<Rightarrow> nat" where
  "claimed a = (if ap_status a = ''succeeded'' then unat (ap_actual a) else 0)"

definition given :: "sim_state \<Rightarrow> nat" where
  "given st = sum_list (map job_given (ss_jobs st)) + sum_list (map claimed (dones st))"

lemma sim_publish_frame [simp]:
  "ss_food (sim_publish cd t v st) = ss_food st" "ss_jobs (sim_publish cd t v st) = ss_jobs st" "ss_seen (sim_publish cd t v st) = ss_seen st"
  by (simp_all add: sim_publish_def)

lemma sim_hooked_frame [simp]:
  "ss_food (sim_hooked h st) = ss_food st" "ss_jobs (sim_hooked h st) = ss_jobs st" "ss_seen (sim_hooked h st) = ss_seen st @ [h]"
  by (simp_all add: sim_hooked_def)

lemma sum_list_update_nat:
  "i < length xs \<Longrightarrow> sum_list (map f (xs[i := y])) + f (xs ! i) = sum_list (map f xs) + (f y :: nat)"
proof (induction xs arbitrary: i)
  case (Cons x xs)
  then show ?case by (cases i) simp_all
qed simp

lemma sum_list_remove_at:
  "i < length xs \<Longrightarrow> sum_list (map f (remove_at i xs)) + f (xs ! i) = (sum_list (map f xs) :: nat)"
  by (subst (3) id_take_nth_drop [of i xs]) (simp_all add: remove_at_def)

lemma unat_take_food: "unat (take_food a f) = unat f - unat a"
  by (simp add: take_food_def word_le_nat_alt unat_sub)

lemma claimed_done [simp]: "claimed (feed_done_payload now food cmd ok) = job_given (Dispensed cmd ok)"
  by (simp add: claimed_def feed_done_payload_def)

lemma dispense_given:
  "unat (ss_food st) = n - given st \<Longrightarrow> unat (ss_food (sim_feed_dispense c i draw st)) = n - given (sim_feed_dispense c i draw st)"
  using sum_list_update_nat [of i "ss_jobs st" job_given]
  by (auto simp: sim_feed_dispense_def given_def dones_def unat_take_food split: sim_job.split)

lemma report_given [simp]:
  "given (sim_feed_report cd c i now st) = given st" "ss_food (sim_feed_report cd c i now st) = ss_food st"
  using sum_list_remove_at [of i "ss_jobs st" job_given]
  by (auto simp: sim_feed_report_def given_def dones_def Let_def split: sim_job.split)

lemma stop_given [simp]: "given (sim_feed_stop i st) = given st" "ss_food (sim_feed_stop i st) = ss_food st"
  using sum_list_remove_at [of i "ss_jobs st" job_given]
  by (auto simp: sim_feed_stop_def given_def dones_def split: sim_job.split)

lemma deliver_given [simp]: "given (sim_deliver cd c now draw m st) = given st" "ss_food (sim_deliver cd c now draw m st) = ss_food st"
  by (auto simp: sim_deliver_def sim_feed_start_def handleCancel_def given_def dones_def Let_def split: sum.split)

lemma heartbeat_given [simp]: "given (sim_heartbeat cd c now st) = given st" "ss_food (sim_heartbeat cd c now st) = ss_food st"
  by (simp_all add: sim_heartbeat_def given_def dones_def)

lemma food_step:
  assumes "unat (ss_food st) = n - given st"
  shows "unat (ss_food (sim_step cd c e st)) = n - given (sim_step cd c e st)"
  using assms dispense_given by (cases e) simp_all

lemma food_run:
  "unat (ss_food st) = n - given st \<Longrightarrow> unat (ss_food (sim_run cd c es st)) = n - given (sim_run cd c es st)"
  unfolding sim_run_def by (induction es arbitrary: st) (simp_all add: food_step)

lemma food_run_new:
  "unat (ss_food (sim_run cd c es (sim_new c drawn))) = unat (ss_food (sim_new c drawn)) - given (sim_run cd c es (sim_new c drawn))"
  by (rule food_run) (simp add: sim_new_def given_def dones_def)

text \<open>Whatever commands, cancellations, failures and stops come in whatever order, the hopper has lost exactly the
  grams of the successful feedings, reported or about to be; below zero it stays empty, and the reports claim the full
  amount all the same.\<close>

theorem sim_food_accounted:
  "unat (ss_food (sim_run cd c es (sim_new c drawn))) = unat (ss_food (sim_new c drawn)) - given (sim_run cd c es (sim_new c drawn))"
  by (rule food_run_new)

section \<open>A cancellation stops nothing\<close>

definition is_cancel :: "sim_config \<Rightarrow> sim_event \<Rightarrow> bool" where
  "is_cancel c e \<longleftrightarrow> (case e of Deliver now draw m \<Rightarrow> mm_topic m \<noteq> DeviceCommandTopic (sc_device c) ''feed'' | _ \<Rightarrow> False)"

definition same_feeding :: "sim_state \<Rightarrow> sim_state \<Rightarrow> bool" where
  "same_feeding s t \<longleftrightarrow> ss_food s = ss_food t \<and> ss_jobs s = ss_jobs t \<and> dones s = dones t"

lemma same_feeding_step:
  "same_feeding s t \<Longrightarrow> \<not> is_cancel c e \<Longrightarrow> same_feeding (sim_step cd c e s) (sim_step cd c e t)"
  by (cases e)
    (auto simp: same_feeding_def is_cancel_def sim_deliver_def sim_feed_start_def sim_feed_dispense_def sim_feed_report_def
      sim_feed_stop_def sim_heartbeat_def dones_def Let_def split: sum.split sim_job.split)

lemma cancel_same_feeding: "same_feeding s t \<Longrightarrow> is_cancel c e \<Longrightarrow> same_feeding (sim_step cd c e s) t"
  by (cases e) (auto simp: same_feeding_def is_cancel_def sim_deliver_def handleCancel_def dones_def Let_def split: sum.split)

lemma same_feeding_run:
  "same_feeding s t \<Longrightarrow> same_feeding (sim_run cd c es s) (sim_run cd c (filter (\<lambda>e. \<not> is_cancel c e) es) t)"
  unfolding sim_run_def by (induction es arbitrary: s t) (simp_all add: same_feeding_step cancel_same_feeding)

text \<open>A feeder that answers every cancellation with \<open>cancelled\<close> gives out and reports the same food, in the same order
  and at the same times, as one that never got any.\<close>

theorem cancel_stops_nothing:
  "same_feeding (sim_run cd c es (sim_new c drawn)) (sim_run cd c (filter (\<lambda>e. \<not> is_cancel c e) es) (sim_new c drawn))"
  by (rule same_feeding_run) (simp add: same_feeding_def)

section \<open>Every command is carried out\<close>

definition command_key :: "command_payload \<Rightarrow> string \<times> u32" where
  "command_key cmd = (cp_request cmd, cp_amount cmd)"

definition done_key :: "ack_payload \<Rightarrow> string \<times> u32" where
  "done_key a = (ap_request a, ap_actual a)"

text \<open>The feed commands among the events.\<close>

definition fed_messages :: "sim_config \<Rightarrow> sim_event list \<Rightarrow> mqtt_message list" where
  "fed_messages c es = filter (\<lambda>m. mm_topic m = DeviceCommandTopic (sc_device c) ''feed'')
     (concat (map (\<lambda>e. case e of Deliver now draw m \<Rightarrow> [m] | _ \<Rightarrow> []) es))"

definition commands_of :: "json_codec \<Rightarrow> mqtt_message list \<Rightarrow> command_payload list" where
  "commands_of cd ms = concat (map (\<lambda>m. case decode_feed cd (mm_payload m) of Inl e \<Rightarrow> [] | Inr cmd \<Rightarrow> [cmd]) ms)"

definition open_keys :: "sim_state \<Rightarrow> (string \<times> u32) multiset" where
  "open_keys st = mset (map (command_key \<circ> job_cmd) (ss_jobs st)) + mset (map done_key (dones st))"

text \<open>No context ends and no motor jams.\<close>

definition undisturbed :: "sim_config \<Rightarrow> sim_event \<Rightarrow> bool" where
  "undisturbed c e \<longleftrightarrow> (case e of Dispense i draw \<Rightarrow> sc_fail c \<le> draw | StopWait i \<Rightarrow> False | _ \<Rightarrow> True)"

lemma command_key_sim [simp]: "command_key (sim_command c cmd) = command_key cmd"
  by (simp add: command_key_def sim_command_def)

lemma done_key_payload [simp]: "done_key (feed_done_payload now food cmd ok) = command_key cmd"
  by (simp add: done_key_def command_key_def feed_done_payload_def)

lemma mset_remove_at: "i < length xs \<Longrightarrow> mset (map f (remove_at i xs)) + {# f (xs ! i) #} = mset (map f xs)"
  by (subst (3) id_take_nth_drop [of i xs]) (simp_all add: remove_at_def)

lemma mset_update_same: "f y = f (xs ! i) \<Longrightarrow> image_mset f (mset (xs[i := y])) = image_mset f (mset xs)"
  by (metis list_update_id map_update mset_map)

lemma keys_step:
  assumes "undisturbed c e"
  shows "open_keys (sim_step cd c e st) = open_keys st + mset (map command_key (commands_of cd (fed_messages c [e])))"
proof (cases e)
  case (Deliver now draw m)
  then show ?thesis
    by (auto simp: open_keys_def sim_deliver_def sim_feed_start_def handleCancel_def commands_of_def fed_messages_def dones_def Let_def
        split: sum.split)
next
  case (Dispense i draw)
  then show ?thesis
    by (auto simp: open_keys_def sim_feed_dispense_def commands_of_def fed_messages_def dones_def mset_update_same split: sim_job.split)
next
  case (Report i now)
  then show ?thesis
    using mset_remove_at [of i "ss_jobs st" "command_key \<circ> job_cmd"]
    by (auto simp: open_keys_def sim_feed_report_def commands_of_def fed_messages_def dones_def Let_def split: sim_job.split)
next
  case (StopWait i)
  then show ?thesis using assms by (simp add: undisturbed_def)
next
  case (Beat now)
  then show ?thesis by (simp add: open_keys_def sim_heartbeat_def commands_of_def fed_messages_def dones_def)
qed

lemma fed_messages_Cons: "fed_messages c (e # es) = fed_messages c [e] @ fed_messages c es"
  by (simp add: fed_messages_def)

lemma keys_run:
  "list_all (undisturbed c) es \<Longrightarrow>
   open_keys (sim_run cd c es st) = open_keys st + mset (map command_key (commands_of cd (fed_messages c es)))"
  unfolding sim_run_def
proof (induction es arbitrary: st)
  case (Cons e es)
  then show ?case
    by (simp add: keys_step fed_messages_Cons [of c e es]) (simp add: commands_of_def)
qed (simp add: fed_messages_def commands_of_def)

definition succeeding :: "sim_state \<Rightarrow> bool" where
  "succeeding st \<longleftrightarrow> (\<forall>cmd. Dispensed cmd False \<notin> set (ss_jobs st)) \<and> (\<forall>a \<in> set (dones st). ap_status a = ''succeeded'')"

lemma set_remove_at: "set (remove_at i xs) \<subseteq> set xs"
  using set_take_subset set_drop_subset by (fastforce simp: remove_at_def)

lemma succeeding_step:
  assumes "succeeding st" and "undisturbed c e"
  shows "succeeding (sim_step cd c e st)"
proof (cases e)
  case (Dispense i draw)
  have "set ((ss_jobs st)[i := Dispensed cmd True]) \<subseteq> insert (Dispensed cmd True) (set (ss_jobs st))" for cmd
    by (rule set_update_subset_insert)
  then show ?thesis using assms Dispense
    by (fastforce simp: succeeding_def undisturbed_def sim_feed_dispense_def dones_def split: sim_job.split)
next
  case (Report i now)
  have "i < length (ss_jobs st) \<Longrightarrow> ss_jobs st ! i = Dispensed cmd ok \<Longrightarrow> ok" for cmd ok
    using assms(1) by (cases ok) (auto simp: succeeding_def dest: nth_mem)
  then show ?thesis using assms Report set_remove_at [of i "ss_jobs st"]
    by (auto simp: succeeding_def sim_feed_report_def dones_def feed_done_payload_def Let_def split: sim_job.split)
next
  case (StopWait i)
  then show ?thesis using assms by (simp add: undisturbed_def)
qed (use assms in \<open>auto simp: succeeding_def sim_deliver_def sim_feed_start_def handleCancel_def sim_heartbeat_def dones_def Let_def
    split: sum.split\<close>)

lemma succeeding_run: "succeeding st \<Longrightarrow> list_all (undisturbed c) es \<Longrightarrow> succeeding (sim_run cd c es st)"
  unfolding sim_run_def by (induction es arbitrary: st) (simp_all add: succeeding_step)

section \<open>One feeding, two portions\<close>

text \<open>A codec that reads back the commands it wrote.\<close>

definition command_codec :: "json_codec \<Rightarrow> bool" where
  "command_codec cd \<longleftrightarrow> (\<forall>cmd. jc_parse cd (jc_print cd (command_json cmd)) = Inr (command_json cmd))"

lemma read_command_json: "\<exists>fs. command_json cmd = JObj fs \<and> read_command fs = Inr cmd"
  by (simp add: command_json_def reads)

lemma decode_feed_written: "command_codec cd \<Longrightarrow> decode_feed cd (jc_print cd (command_json cmd)) = Inr cmd"
  using read_command_json [of cmd] by (auto simp: decode_feed_def command_codec_def as_object_def)

lemma fresh_keys [simp]: "open_keys (sim_new c drawn) = {#}" "succeeding (sim_new c drawn)" "given (sim_new c drawn) = 0"
  by (simp_all add: open_keys_def succeeding_def sim_new_def dones_def given_def)

lemma sum_list_mset_cong: "mset xs = mset ys \<Longrightarrow> sum_list (map f xs) = (sum_list (map f ys) :: nat)"
  by (metis mset_map sum_mset_sum_list)

lemma mset_twice: "mset xs = mset [a, a] \<Longrightarrow> xs = [a, a]"
proof -
  assume m: "mset xs = mset [a, a]"
  then obtain x y where "xs = [x, y]" using mset_eq_length [OF m] by (auto simp: length_Suc_conv)
  then show ?thesis using mset_eq_setD [OF m] by auto
qed

text \<open>When every command has been carried out, what was given out is what was commanded.\<close>

lemma finished_run:
  assumes "list_all (undisturbed c) es" and "ss_jobs (sim_run cd c es (sim_new c drawn)) = []"
  defines "st \<equiv> sim_run cd c es (sim_new c drawn)" and "cmds \<equiv> commands_of cd (fed_messages c es)"
  shows "mset (map done_key (dones st)) = mset (map command_key cmds)"
    and "list_all (\<lambda>a. ap_status a = ''succeeded'') (dones st)"
    and "unat (ss_food st) = unat (ss_food (sim_new c drawn)) - sum_list (map (\<lambda>cmd. unat (cp_amount cmd)) cmds)"
proof -
  show keys: "mset (map done_key (dones st)) = mset (map command_key cmds)"
  proof -
    have "open_keys st = mset (map command_key cmds)"
      using keys_run [OF assms(1), of cd "sim_new c drawn"] by (simp add: st_def cmds_def)
    then show ?thesis using assms(2) by (simp add: open_keys_def st_def)
  qed
  have ok: "succeeding st" using succeeding_run [OF _ assms(1)] by (simp add: st_def)
  then show "list_all (\<lambda>a. ap_status a = ''succeeded'') (dones st)" by (simp add: succeeding_def list_all_iff)
  have "map claimed (dones st) = map (\<lambda>k. unat (snd k)) (map done_key (dones st))"
    using ok by (simp add: succeeding_def claimed_def done_key_def)
  then have "sum_list (map claimed (dones st)) = sum_list (map (\<lambda>k. unat (snd k)) (map done_key (dones st)))" by (rule arg_cong)
  also have "\<dots> = sum_list (map (\<lambda>k. unat (snd k)) (map command_key cmds))" by (rule sum_list_mset_cong [OF keys])
  also have "\<dots> = sum_list (map (\<lambda>cmd. unat (cp_amount cmd)) cmds)" by (simp add: command_key_def comp_def)
  finally show "unat (ss_food st) = unat (ss_food (sim_new c drawn)) - sum_list (map (\<lambda>cmd. unat (cp_amount cmd)) cmds)"
    using food_run_new [of cd c es drawn] assms(2) by (simp add: st_def given_def)
qed


text \<open>The feeding of \<^verbatim>\<open>FeedingDemo\<close>, with a feeder of 100 grams whose two commands overlap.\<close>

definition demo_feeder :: sim_config where
  "demo_feeder = sim_defaults \<lparr>sc_device = rq_device demo_request, sc_room = ''room'', sc_qos = 0, sc_beat_every = 0, sc_lat_min = 0,
     sc_lat_max = 0, sc_fail = 0, sc_cancel_loss = 0, sc_food = 100\<rparr>"

definition demo_schedule :: "string \<Rightarrow> sim_event list" where
  "demo_schedule expires =
     [Deliver 0 0 (feed_message unary_codec demo_request 1200 expires), Deliver 0 0 (feed_message unary_codec demo_request 0 []),
      Dispense 0 0, Dispense 1 0, Report 1 1, Report 0 2]"

lemma unary_command_codec: "command_codec unary_codec"
  by (simp add: command_codec_def unary_codec_def)


section \<open>An empty hopper is never seen\<close>

text \<open>Zero grams mean to the device service that none were reported: the end of a feeding that empties the hopper, and
  every heartbeat, leave the grams of the row as they were.\<close>

theorem empty_hopper_unseen:
  assumes "s dev = Some d" and "de_store env = device_mem_ops sha"
  shows "map_option dv_food (on_ack env now (ack\<lparr>ap_device := dev, ap_remaining := 0\<rparr>) s dev) = Some (dv_food d) \<and>
    map_option dv_food (on_heartbeat env dev now s dev) = Some (dv_food d)"
  using assms
  by (simp add: on_ack_def on_heartbeat_def MarkOnline_def HeartbeatAt_def device_mem_ops_def device_mem_mark_online_def on_device_def)

end
