(* ===== verification/VaultKeys.thy ===== *)
theory VaultKeys
  imports Tokens GoJson
begin

text \<open>
  Keys held elsewhere: \<^verbatim>\<open>go/pkg/yunmao/authjwt/keyprovider/vault.go\<close> and \<^verbatim>\<open>awskms.go\<close>, and the two placeholders for
  them in \<^verbatim>\<open>kms.go\<close>.  What an HTTP request to Vault answers, and the AWS client, are arguments of the call that asks;
  JSON, base64, PEM and the parser of addresses are parameters.
\<close>

section \<open>Vault Transit\<close>

record 'd vault_lib =
  vl_parse :: "string \<Rightarrow> go_error + json"
  vl_encode :: "byte list \<Rightarrow> string"
  vl_decode :: "string \<Rightarrow> go_error + byte list"
  vl_codec :: "'d key_codec"
  vl_redact :: "string \<Rightarrow> string"

text \<open>\<open>RefreshInterval\<close> is a field that nothing reads.\<close>

record vault_config =
  vc_addr :: string
  vc_token :: string
  vc_role :: string
  vc_secret :: string
  vc_mount :: string
  vc_key :: string
  vc_refresh :: duration

record vault_request =
  vq_method :: string
  vq_url :: string
  vq_token :: "string option"
  vq_body :: "json option"

type_synonym vault_http = "vault_request \<Rightarrow> go_error + (int \<times> string)"

record vault_transit =
  vt_cfg :: vault_config
  vt_token :: string
  vt_pubs :: "string \<rightharpoonup> rsa_public"
  vt_active :: string

definition trim_slashes :: "string \<Rightarrow> string" where
  "trim_slashes s = rev (dropWhile (\<lambda>c. c = CHR ''/'') (rev s))"

text \<open>A request, its status and the parsed answer.\<close>

definition vault_call :: "'d vault_lib \<Rightarrow> vault_http \<Rightarrow> string \<Rightarrow> vault_request \<Rightarrow> go_error + (string \<times> json) list" where
  "vault_call lib http what q =
     (case http q of
        Inl e \<Rightarrow> Inl e
      | Inr (status, raw) \<Rightarrow>
          if status \<noteq> 200 then Inl (Plain (what @ '': status='' @ dec_int status @ '' body='' @ raw))
          else read_with as_object (vl_parse lib raw))"

definition ensureToken :: "'d vault_lib \<Rightarrow> vault_http \<Rightarrow> vault_config \<Rightarrow> go_error + string" where
  "ensureToken lib http cfg =
     (if vc_token cfg \<noteq> [] then Inr (vc_token cfg)
      else if vc_role cfg = [] \<or> vc_secret cfg = [] then Inl (Plain ''vault: token or approle credentials required'')
      else read_with (\<lambda>fs. read_with (\<lambda>auth. read_with (\<lambda>tok.
             if tok = [] then Inl (Plain ''vault: empty token from approle'') else Inr tok)
             (as_string (field ''client_token'' auth))) (as_object (field ''auth'' fs)))
             (vault_call lib http ''vault approle''
               \<lparr>vq_method = ''POST'', vq_url = trim_slashes (vc_addr cfg) @ ''/v1/auth/approle/login'', vq_token = None,
                vq_body = Some (JObj [(''role_id'', JStr (vc_role cfg)), (''secret_id'', JStr (vc_secret cfg))])\<rparr>))"

definition parsePublicPEM :: "'d vault_lib \<Rightarrow> string \<Rightarrow> go_error + rsa_public" where
  "parsePublicPEM lib b =
     (case kc_decode (vl_codec lib) b of
        None \<Rightarrow> Inl (Plain ''not a PEM block'')
      | Some (ty, bytes) \<Rightarrow>
          (case kc_pkix (vl_codec lib) bytes of
             Inl e \<Rightarrow> Inl e
           | Inr None \<Rightarrow> Inl (Plain ''not RSA public key'')
           | Inr (Some p) \<Rightarrow> Inr p))"

definition vault_kid :: "vault_config \<Rightarrow> string \<Rightarrow> string" where
  "vault_kid cfg ver = ''transit:'' @ vc_key cfg @ '':v'' @ ver"

text \<open>A key of a Go map, matched exactly; the last occurrence counts.\<close>

definition map_get :: "string \<Rightarrow> (string \<times> json) list \<Rightarrow> json option" where
  "map_get k fs = map_of (rev fs) k"

text \<open>A version without a readable key is skipped.\<close>

definition version_key :: "'d vault_lib \<Rightarrow> (string \<times> json) list \<Rightarrow> rsa_public option" where
  "version_key lib meta =
     (case map_get ''public_key'' meta of
        Some (JStr pem) \<Rightarrow> if pem = [] then None else (case parsePublicPEM lib pem of Inl e \<Rightarrow> None | Inr p \<Rightarrow> Some p)
      | _ \<Rightarrow> None)"

fun read_versions :: "(string \<times> json) list \<Rightarrow> go_error + (string \<times> (string \<times> json) list) list" where
  "read_versions [] = Inr []"
| "read_versions ((ver, v) # vs) = read_with (\<lambda>meta. read_with (\<lambda>ms. Inr ((ver, meta) # ms)) (read_versions vs)) (as_object v)"

definition key_request :: "vault_transit \<Rightarrow> vault_request" where
  "key_request v = \<lparr>vq_method = ''GET'', vq_url = trim_slashes (vc_addr (vt_cfg v)) @ ''/v1/'' @ vc_mount (vt_cfg v) @ ''/keys/'' @ vc_key (vt_cfg v),
     vq_token = Some (vt_token v), vq_body = None\<rparr>"

definition version_pubs :: "'d vault_lib \<Rightarrow> vault_config \<Rightarrow> (string \<times> (string \<times> json) list) list \<Rightarrow> string \<rightharpoonup> rsa_public" where
  "version_pubs lib cfg ms = fold (\<lambda>(ver, meta) m. m(vault_kid cfg ver := version_key lib meta)) ms Map.empty"

definition vault_refresh :: "'d vault_lib \<Rightarrow> vault_http \<Rightarrow> vault_transit \<Rightarrow> (go_error, unit, vault_transit) outcome" where
  "vault_refresh lib http v =
     (case read_with (\<lambda>fs. read_with (\<lambda>dat. read_with (\<lambda>latest. read_with (\<lambda>ks. read_with (\<lambda>ms. Inr (latest, ms))
             (read_versions ks)) (as_object (field ''keys'' dat))) (as_i64 (field ''latest_version'' dat))) (as_object (field ''data'' fs)))
             (vault_call lib http ''vault read key'' (key_request v)) of
        Inl e \<Rightarrow> (Inl e, v)
      | Inr (latest, ms) \<Rightarrow>
          (Inr (), v\<lparr>vt_pubs := version_pubs lib (vt_cfg v) ms, vt_active := vault_kid (vt_cfg v) (dec_int (sint latest))\<rparr>))"

definition NewVaultTransit :: "'d vault_lib \<Rightarrow> vault_http \<Rightarrow> vault_config \<Rightarrow> go_error + vault_transit" where
  "NewVaultTransit lib http cfg =
     (if vc_addr cfg = [] \<or> vc_key cfg = [] then Inl (Plain ''vault: addr/keyname required'')
      else let cfg = cfg\<lparr>vc_mount := (if vc_mount cfg = [] then ''transit'' else vc_mount cfg)\<rparr>
      in (case ensureToken lib http cfg of
            Inl e \<Rightarrow> Inl e
          | Inr tok \<Rightarrow> (case vault_refresh lib http \<lparr>vt_cfg = cfg, vt_token = tok, vt_pubs = Map.empty, vt_active = []\<rparr> of
                (Inl e, v) \<Rightarrow> Inl e
              | (Inr _, v) \<Rightarrow> Inr v)))"

text \<open>\<open>SplitN(s, :, 3)\<close>: what follows the second colon.\<close>

definition after_colon :: "string \<Rightarrow> string option" where
  "after_colon s = (case dropWhile (\<lambda>c. c \<noteq> CHR '':'') s of [] \<Rightarrow> None | _ # r \<Rightarrow> Some r)"

definition sign_request :: "'d vault_lib \<Rightarrow> vault_transit \<Rightarrow> byte list \<Rightarrow> vault_request" where
  "sign_request lib v digest =
     \<lparr>vq_method = ''POST'',
      vq_url = trim_slashes (vc_addr (vt_cfg v)) @ ''/v1/'' @ vc_mount (vt_cfg v) @ ''/sign/'' @ vc_key (vt_cfg v) @ ''/sha2-256'',
      vq_token = Some (vt_token v),
      vq_body = Some (JObj [(''input'', JStr (vl_encode lib digest)), (''prehashed'', JBool True), (''signature_algorithm'', JStr ''pkcs1v15'')])\<rparr>"

definition SignDigest :: "'d vault_lib \<Rightarrow> vault_http \<Rightarrow> vault_transit \<Rightarrow> byte list \<Rightarrow> go_error + byte list" where
  "SignDigest lib http v digest =
     (if vt_token v = [] then Inl (Plain ''vault: not authenticated'')
      else read_with (\<lambda>fs. read_with (\<lambda>dat. read_with (\<lambda>sig.
             case Option.bind (after_colon sig) after_colon of
               None \<Rightarrow> Inl (Plain (''vault: unexpected signature format '' @ sig))
             | Some r \<Rightarrow> vl_decode lib r)
             (as_string (field ''signature'' dat))) (as_object (field ''data'' fs)))
             (vault_call lib http ''vault sign'' (sign_request lib v digest)))"

text \<open>The material refers to the provider itself, which is asked when the signature is made.\<close>

definition vault_active :: "'d vault_lib \<Rightarrow> vault_http \<Rightarrow> vault_transit \<Rightarrow> go_error + 'd signing_key" where
  "vault_active lib http v =
     (if vt_active v = [] then Inl (Plain ''vault: no active key loaded'')
      else Inr \<lparr>sg_kid = vt_active v, sg_alg = AlgRS256, sg_material = Remote (SignDigest lib http v)\<rparr>)"

definition vault_verifying :: "string \<Rightarrow> vault_transit \<Rightarrow> (go_error, 'd verifying_key, vault_transit) outcome" where
  "vault_verifying kid v =
     (let k = (if kid = [] then vt_active v else kid)
      in (case vt_pubs v k of
            None \<Rightarrow> (Inl (Plain (''vault: unknown kid '' @ [CHR 0x22] @ k @ [CHR 0x22])), v)
          | Some p \<Rightarrow> (Inr \<lparr>vk_kid = k, vk_alg = AlgRS256, vk_material = RsaPublic p\<rparr>, v)))"

definition intToBytes :: "int \<Rightarrow> byte list" where
  "intToBytes e = strip_zero_bytes (map (\<lambda>i. word_of_int (e div 2 ^ (8 * i))) [3, 2, 1, 0])"

definition base64URLBigEnd :: "byte list \<Rightarrow> string" where
  "base64URLBigEnd b = rfc4648 b"

definition remote_jwk :: "string \<Rightarrow> rsa_public \<Rightarrow> jwk" where
  "remote_jwk kid p = \<lparr>jw_kid = kid, jw_n = base64URLBigEnd (be_bytes (rp_n p)), jw_e = base64URLBigEnd (intToBytes (rp_e p))\<rparr>"

text \<open>The order \<open>ks\<close> in which the map is ranged over.\<close>

definition vault_jwks :: "string list \<Rightarrow> vault_transit \<Rightarrow> jwk list" where
  "vault_jwks ks v = List.map_filter (\<lambda>k. map_option (remote_jwk k) (vt_pubs v k)) ks"

definition vault_provider :: "'d vault_lib \<Rightarrow> vault_http \<Rightarrow> string list \<Rightarrow> ('d, vault_transit) key_provider" where
  "vault_provider lib http ks = \<lparr>kp_active = vault_active lib http, kp_jwks = vault_jwks ks, kp_verifying = vault_verifying\<rparr>"

definition vault_health :: "'d vault_lib \<Rightarrow> string list \<Rightarrow> vault_transit \<Rightarrow> (string \<times> json) list" where
  "vault_health lib ks v =
     [(''backend'', JStr ''vault''), (''active'', JStr (vt_active v)), (''kids'', JStrs (filter (\<lambda>k. vt_pubs v k \<noteq> None) ks)),
      (''vault_url'', JStr (vl_redact lib (vc_addr (vt_cfg v))))]"

section \<open>AWS KMS\<close>

text \<open>The client that is handed in; the key of \<open>PublicKey\<close> is a pointer.\<close>

record aws_signer =
  as_sign :: "byte list \<Rightarrow> go_error + byte list"
  as_public :: "go_error + (rsa_public option \<times> string)"

record aws_kms =
  aw_pub :: "rsa_public option"
  aw_kid :: string

definition aws_bootstrap :: "aws_signer \<Rightarrow> aws_kms \<Rightarrow> (go_error, unit, aws_kms) outcome" where
  "aws_bootstrap c a =
     (case as_public c of
        Inl e \<Rightarrow> (Inl e, a)
      | Inr (p, kid) \<Rightarrow> (Inr (), \<lparr>aw_pub = p, aw_kid = (if kid = [] then ''awskms:active'' else kid)\<rparr>))"

definition NewAwsKms :: "aws_signer option \<Rightarrow> go_error + aws_kms" where
  "NewAwsKms c =
     (case c of
        None \<Rightarrow> Inl (Plain ''awskms: signer required'')
      | Some c \<Rightarrow> (case aws_bootstrap c \<lparr>aw_pub = None, aw_kid = []\<rparr> of (Inl e, a) \<Rightarrow> Inl e | (Inr _, a) \<Rightarrow> Inr a))"

definition aws_active :: "aws_signer \<Rightarrow> aws_kms \<Rightarrow> go_error + 'd signing_key" where
  "aws_active c a =
     (if aw_pub a = None then Inl (Plain ''awskms: public key not bootstrapped'')
      else Inr \<lparr>sg_kid = aw_kid a, sg_alg = AlgRS256, sg_material = Remote (as_sign c)\<rparr>)"

definition aws_verifying :: "string \<Rightarrow> aws_kms \<Rightarrow> (go_error, 'd verifying_key, aws_kms) outcome" where
  "aws_verifying kid a =
     (case aw_pub a of
        None \<Rightarrow> (Inl (Plain ''awskms: public key not bootstrapped''), a)
      | Some p \<Rightarrow>
          if kid \<noteq> [] \<and> kid \<noteq> aw_kid a
          then (Inl (Plain (''awskms: unknown kid '' @ [CHR 0x22] @ kid @ [CHR 0x22] @ '' (expected '' @ [CHR 0x22] @ aw_kid a @ [CHR 0x22] @ '')'')), a)
          else (Inr \<lparr>vk_kid = aw_kid a, vk_alg = AlgRS256, vk_material = RsaPublic p\<rparr>, a))"

definition aws_jwks :: "aws_kms \<Rightarrow> jwk list" where
  "aws_jwks a = (case aw_pub a of None \<Rightarrow> [] | Some p \<Rightarrow> [remote_jwk (aw_kid a) p])"

definition aws_provider :: "aws_signer \<Rightarrow> ('d, aws_kms) key_provider" where
  "aws_provider c = \<lparr>kp_active = aws_active c, kp_jwks = aws_jwks, kp_verifying = aws_verifying\<rparr>"

definition aws_health :: "aws_kms \<Rightarrow> (string \<times> json) list" where
  "aws_health a = [(''backend'', JStr ''awskms''), (''active'', JStr (aw_kid a)), (''loaded'', JBool (aw_pub a \<noteq> None))]"

section \<open>The placeholders of the key management\<close>

text \<open>Both keep one public key; neither can sign through the provider interface.\<close>

record cached_key =
  ck_pub :: "rsa_public option"
  ck_kid :: string

definition NewVaultKeyProvider :: "string \<Rightarrow> string \<Rightarrow> string \<Rightarrow> go_error + cached_key" where
  "NewVaultKeyProvider addr tok name =
     (if addr = [] \<or> tok = [] \<or> name = [] then Inl (Plain ''kms: vault addr/token/name required'')
      else Inr \<lparr>ck_pub = None, ck_kid = ''vault:'' @ name\<rparr>)"

definition NewAwsKmsKeyProvider :: "aws_signer option \<Rightarrow> go_error + cached_key" where
  "NewAwsKmsKeyProvider c =
     (if c = None then Inl (Plain ''kms: awskms signer required'') else Inr \<lparr>ck_pub = None, ck_kid = ''awskms:active''\<rparr>)"

definition kms_vault_active :: "cached_key \<Rightarrow> go_error + 'd signing_key" where
  "kms_vault_active c = Inl (Plain ''kms: VaultKeyProvider.Active not implemented (use Sign())'')"

definition kms_aws_active :: "cached_key \<Rightarrow> go_error + 'd signing_key" where
  "kms_aws_active c = Inl (Plain ''kms: AwsKmsKeyProvider.Active not implemented (use signer)'')"

definition cached_jwks :: "cached_key \<Rightarrow> jwk list" where
  "cached_jwks c = (case ck_pub c of None \<Rightarrow> [] | Some p \<Rightarrow> [kms_jwk (ck_kid c) p])"

text \<open>The two differ in the text of the first error.\<close>

definition cached_verifying :: "string \<Rightarrow> string \<Rightarrow> cached_key \<Rightarrow> (go_error, 'd verifying_key, cached_key) outcome" where
  "cached_verifying name kid c =
     (case ck_pub c of
        None \<Rightarrow> (Inl (Plain (''kms: '' @ name @ '' public key not loaded'')), c)
      | Some p \<Rightarrow>
          if kid \<noteq> [] \<and> kid \<noteq> ck_kid c
          then (Inl (Plain (''kms: unknown kid '' @ [CHR 0x22] @ kid @ [CHR 0x22] @ '' (expected '' @ [CHR 0x22] @ ck_kid c @ [CHR 0x22] @ '')'')), c)
          else (Inr \<lparr>vk_kid = ck_kid c, vk_alg = AlgRS256, vk_material = RsaPublic p\<rparr>, c))"

definition kms_vault_verifying :: "string \<Rightarrow> cached_key \<Rightarrow> (go_error, 'd verifying_key, cached_key) outcome" where
  "kms_vault_verifying = cached_verifying ''vault''"

definition kms_aws_verifying :: "string \<Rightarrow> cached_key \<Rightarrow> (go_error, 'd verifying_key, cached_key) outcome" where
  "kms_aws_verifying = cached_verifying ''awskms''"

definition CachePublicKey :: "string \<Rightarrow> rsa_public option \<Rightarrow> cached_key \<Rightarrow> cached_key" where
  "CachePublicKey kid p c = c\<lparr>ck_pub := p, ck_kid := (if kid = [] then ck_kid c else kid)\<rparr>"

definition kms_aws_bootstrap :: "aws_signer \<Rightarrow> cached_key \<Rightarrow> (go_error, unit, cached_key) outcome" where
  "kms_aws_bootstrap s c = (case as_public s of Inl e \<Rightarrow> (Inl e, c) | Inr (p, kid) \<Rightarrow> (Inr (), CachePublicKey kid p c))"

end
