(* ===== verification/VaultProps.thy ===== *)
theory VaultProps
  imports VaultKeys KeyDemo
begin

text \<open>Tokens signed by a service whose key is in Vault: accepted until their expiry as long as Vault signs with the
  version the service has loaded, and never when Vault has rotated since.\<close>

section \<open>Signing with a key held elsewhere\<close>

locale remote_source =
  fixes active :: "'s \<Rightarrow> go_error + 'd signing_key"
    and verifying :: "string \<Rightarrow> 's \<Rightarrow> (go_error, 'd verifying_key, 's) outcome"
    and public :: "'s \<Rightarrow> string \<rightharpoonup> rsa_public"
    and signature :: "'s \<Rightarrow> byte list \<Rightarrow> go_error + byte list"
  assumes remote: "active s = Inr k \<Longrightarrow> sg_material k = Remote (signature s)"
    and published: "\<lbrakk>kid \<noteq> []; public s kid = Some p\<rbrakk> \<Longrightarrow> verifying kid s = (Inr \<lparr>vk_kid = kid, vk_alg = AlgRS256, vk_material = RsaPublic p\<rparr>, s)"
begin

text \<open>A token is text and signature, and what becomes of it is decided by the key its kid has at the verifier.\<close>

lemma remote_token:
  assumes "jwt_contract lib" and "kp_active (si_provider sg) = active" and "signClaims lib sg c s = Inr tok" and "plain_claims c"
    and "active s = Inr sk" and "plain_text (sg_kid sk)" and "sg_kid sk \<noteq> []" and "public s' (sg_kid sk) = Some p"
  obtains body sig where "signature s (jl_sha256 lib body) = Inr sig"
    and "fst (Parse lib verifying now tok s') =
      (case jl_verify lib p body sig of
         Some e \<Rightarrow> Inl (Wrap ''token signature is invalid'' e)
       | None \<Rightarrow> (case jl_validate lib now c of None \<Rightarrow> Inr c | Some e \<Rightarrow> Inl (Wrap ''token has invalid claims'' e)))"
proof -
  have mat: "sg_material sk = Remote (signature s)" using remote [OF assms(5)] .
  obtain body where body: "sg_alg sk = AlgRS256" "jl_text lib ''RS256'' (sg_kid sk) c = Inr body"
    using assms(3) by (auto simp: signClaims_def assms(2,5) split: sum.splits algorithm.splits)
  obtain sig where sig: "signature s (jl_sha256 lib body) = Inr sig" "tok = jl_compose lib body sig"
    using assms(3) body mat by (auto simp: signClaims_def assms(2,5) remote_sign_def Let_def split: sum.splits)
  have "jl_decode lib tok = Inr (''RS256'', sg_kid sk, c, body, sig)"
    using assms(1,4,6) body(2) sig(2) by (simp add: jwt_contract_def)
  moreover have "key_for verifying ''RS256'' (sg_kid sk) s' = (Inr p, s')"
    by (simp add: key_for_def published [OF assms(7,8)])
  ultimately have "fst (Parse lib verifying now tok s') =
      (case jl_verify lib p body sig of
         Some e \<Rightarrow> Inl (Wrap ''token signature is invalid'' e)
       | None \<Rightarrow> (case jl_validate lib now c of None \<Rightarrow> Inr c | Some e \<Rightarrow> Inl (Wrap ''token has invalid claims'' e)))"
    by (simp add: Parse_def split: option.split)
  then show ?thesis using that sig(1) by blast
qed

end

interpretation vault: remote_source "vault_active lib http" vault_verifying vt_pubs "SignDigest lib http" for lib http
  by unfold_locales (auto simp: vault_active_def vault_verifying_def split: if_splits)

interpretation aws: remote_source "aws_active c" aws_verifying
    "\<lambda>a kid. if kid = aw_kid a then aw_pub a else None" "\<lambda>_. as_sign c" for c
  by unfold_locales (auto simp: aws_active_def aws_verifying_def split: if_splits)

section \<open>What Vault answers\<close>

text \<open>RSA signatures of a digest: they verify under their own key and under no key with another modulus.\<close>

definition rsa_contract :: "('d, 't, 'w) jwt_lib \<Rightarrow> ('d rsa_private \<Rightarrow> byte list \<Rightarrow> byte list) \<Rightarrow> bool" where
  "rsa_contract lib signs \<longleftrightarrow>
     (\<forall>sk body. jl_verify lib (sk_pub sk) body (signs sk (jl_sha256 lib body)) = None) \<and>
     (\<forall>sk p body. rp_n p \<noteq> rp_n (sk_pub sk) \<longrightarrow> jl_verify lib p body (signs sk (jl_sha256 lib body)) \<noteq> None)"

text \<open>The key endpoint lists the versions 1 to \<open>n\<close>, and a request to sign that names no version is answered with the
  latest.\<close>

definition lists_versions :: "'d vault_lib \<Rightarrow> vault_http \<Rightarrow> vault_transit \<Rightarrow> (nat \<Rightarrow> 'd rsa_private) \<Rightarrow> nat \<Rightarrow> bool" where
  "lists_versions lib http v keys n \<longleftrightarrow>
     (\<exists>raw fs dat metas. http (key_request v) = Inr (200, raw) \<and> vl_parse lib raw = Inr (JObj fs) \<and> field ''data'' fs = JObj dat \<and>
        field ''latest_version'' dat = JInt (int n) \<and> field ''keys'' dat = JObj (map (\<lambda>i. (dec_nat i, JObj (metas i))) [1..<Suc n]) \<and>
        (\<forall>i. version_key lib (metas i) = Some (sk_pub (keys i))))"

definition signs_latest ::
  "'d vault_lib \<Rightarrow> vault_http \<Rightarrow> vault_transit \<Rightarrow> ('d rsa_private \<Rightarrow> byte list \<Rightarrow> byte list) \<Rightarrow> (nat \<Rightarrow> 'd rsa_private) \<Rightarrow> nat \<Rightarrow> bool" where
  "signs_latest lib http v signs keys n \<longleftrightarrow>
     (\<forall>digest. \<exists>raw fs dat. http (sign_request lib v digest) = Inr (200, raw) \<and> vl_parse lib raw = Inr (JObj fs) \<and> field ''data'' fs = JObj dat \<and>
        field ''signature'' dat = JStr (''vault:v'' @ dec_nat n @ '':'' @ vl_encode lib (signs (keys n) digest)))"

lemma dec_nat_inj [simp]: "dec_nat i = dec_nat j \<longleftrightarrow> i = j"
  by (metis option.inject undigits_dec_nat)

lemma dec_nat_no_colon: "CHR '':'' \<notin> set (dec_nat n)"
  using dec_nat_digits [of "CHR '':''" n] by (auto simp: is_digit_def)

lemma read_versions_objects: "read_versions (map (\<lambda>i. (f i, JObj (g i))) is') = Inr (map (\<lambda>i. (f i, g i)) is')"
  by (induction is') (simp_all add: as_object_def)

lemma version_pubs_fold:
  "fold (\<lambda>(ver, meta) m. m(vault_kid cfg ver := version_key lib meta)) (map (\<lambda>i. (dec_nat i, metas i)) is') m (vault_kid cfg (dec_nat j)) =
     (if j \<in> set is' then version_key lib (metas j) else m (vault_kid cfg (dec_nat j)))"
  by (induction is' arbitrary: m) (auto simp: vault_kid_def)

text \<open>A refresh at a Vault of \<open>n\<close> versions loads all of them, the latest as the active one.\<close>

lemma vault_refresh_loads:
  assumes "lists_versions lib http v keys n" and "n < 2 ^ 63"
  obtains v' where "vault_refresh lib http v = (Inr (), v')" and "vt_active v' = vault_kid (vt_cfg v) (dec_nat n)"
    and "vt_cfg v' = vt_cfg v" and "vt_token v' = vt_token v"
    and "\<And>j. 1 \<le> j \<Longrightarrow> j \<le> n \<Longrightarrow> vt_pubs v' (vault_kid (vt_cfg v) (dec_nat j)) = Some (sk_pub (keys j))"
proof -
  obtain raw fs dat metas where h: "http (key_request v) = Inr (200, raw)" "vl_parse lib raw = Inr (JObj fs)" "field ''data'' fs = JObj dat"
      "field ''latest_version'' dat = JInt (int n)" "field ''keys'' dat = JObj (map (\<lambda>i. (dec_nat i, JObj (metas i))) [1..<Suc n])"
    and m: "\<And>i. version_key lib (metas i) = Some (sk_pub (keys i))"
    using assms(1) unfolding lists_versions_def by blast
  have call: "vault_call lib http ''vault read key'' (key_request v) = Inr fs"
    by (simp add: vault_call_def h as_object_def)
  have n: "sint (word_of_nat n :: i64) = int n" using assms(2) by (simp add: signed_of_nat signed_take_bit_int_eq_self)
  have run: "vault_refresh lib http v = (Inr (), v\<lparr>vt_pubs := version_pubs lib (vt_cfg v) (map (\<lambda>i. (dec_nat i, metas i)) [1..<Suc n]),
      vt_active := vault_kid (vt_cfg v) (dec_int (int n))\<rparr>)"
    using assms(2) by (simp add: vault_refresh_def call h as_object_def as_i64_def read_versions_objects n del: upt_Suc)
  show ?thesis
    by (rule that [OF run]) (simp_all add: dec_int_def version_pubs_def version_pubs_fold m del: upt_Suc)
qed

lemma after_two_colons:
  "Option.bind (after_colon (''vault:v'' @ dec_nat n @ '':'' @ r)) after_colon = Some r"
  using dec_nat_no_colon [of n] by (auto simp: after_colon_def dropWhile_append)

lemma signed_by_latest:
  assumes "signs_latest lib http v signs keys n" and "vt_token v \<noteq> []" and "\<forall>x. vl_decode lib (vl_encode lib x) = Inr x"
  shows "SignDigest lib http v digest = Inr (signs (keys n) digest)"
proof -
  obtain raw fs dat where h: "http (sign_request lib v digest) = Inr (200, raw)" "vl_parse lib raw = Inr (JObj fs)" "field ''data'' fs = JObj dat"
      "field ''signature'' dat = JStr (''vault:v'' @ dec_nat n @ '':'' @ vl_encode lib (signs (keys n) digest))"
    using assms(1) unfolding signs_latest_def by blast
  have "vault_call lib http ''vault sign'' (sign_request lib v digest) = Inr fs" by (simp add: vault_call_def h as_object_def)
  then show ?thesis using assms(2,3) after_two_colons [of n "vl_encode lib (signs (keys n) digest)"]
    by (simp add: SignDigest_def h as_object_def as_string_def)
qed

section \<open>A rotation in Vault\<close>

lemma plain_digits: "plain_text (dec_nat n)"
  unfolding plain_text_def using dec_nat_digits by (fastforce simp: is_digit_def)

lemma plain_kid: "plain_text (vc_key cfg) \<Longrightarrow> plain_text (vault_kid cfg (dec_nat n))"
  using plain_digits [of n] by (auto simp: vault_kid_def plain_text_def)

text \<open>The key set of the verifier: the one the token was signed with, or one that was refreshed later.\<close>

definition refreshed_later :: "'d vault_lib \<Rightarrow> (nat \<Rightarrow> 'd rsa_private) \<Rightarrow> nat \<Rightarrow> vault_transit \<Rightarrow> vault_transit \<Rightarrow> bool" where
  "refreshed_later lib keys m v v' \<longleftrightarrow>
     v' = v \<or> (\<exists>http k. m \<le> k \<and> k < 2 ^ 63 \<and> lists_versions lib http v keys k \<and> vault_refresh lib http v = (Inr (), v'))"

lemma later_pubs:
  assumes "refreshed_later lib keys m v v'" and "1 \<le> m" and "vt_pubs v (vault_kid (vt_cfg v) (dec_nat m)) = Some (sk_pub (keys m))"
  shows "vt_pubs v' (vault_kid (vt_cfg v) (dec_nat m)) = Some (sk_pub (keys m))"
  using assms(1) unfolding refreshed_later_def
proof (elim disjE exE conjE)
  fix http k assume k: "m \<le> k" "k < 2 ^ 63" "lists_versions lib http v keys k" "vault_refresh lib http v = (Inr (), v')"
  show ?thesis
    by (rule vault_refresh_loads [OF k(3,2)]) (use k(1,4) assms(2) in auto)
qed (use assms(3) in simp)


section \<open>A new key in AWS\<close>

text \<open>\<open>Bootstrap\<close> for rolling updates: with a new kid every token signed before is refused at once.\<close>

theorem aws_bootstrap_drops_key:
  fixes jl :: "('d, 't, 'w) jwt_lib"
  assumes "jwt_contract jl" and "SignLogin jl \<lparr>si_provider = aws_provider c, si_issuer = iss\<rparr> user scope audience ttl t a = Inr tok"
    and "plain_text iss \<and> plain_text user \<and> plain_text audience" and "\<nexists>x. scope = OtherScope x" and "plain_text (aw_kid a)" and "aw_kid a \<noteq> []"
    and "aws_bootstrap c' a = (Inr (), a')" and "aw_kid a' \<noteq> aw_kid a"
  shows "\<not> is_ok (fst (Parse jl aws_verifying now tok a'))"
proof -
  define cl where "cl = login_claims iss user scope audience ttl t"
  have plain: "plain_claims cl" unfolding cl_def using assms(3,4) by (intro plain_login_claims) auto
  have "signClaims jl \<lparr>si_provider = aws_provider c, si_issuer = iss\<rparr> cl a = Inr tok" using assms(2) by (simp add: SignLogin_def cl_def)
  from signClaims_Inr [OF this] obtain sk :: "'d signing_key" and body sig where act: "kp_active (aws_provider c) a = Inr sk"
    and sk: "jl_text jl ''RS256'' (sg_kid sk) cl = Inr body" "tok = jl_compose jl body sig"
    by auto
  have kid: "sg_kid sk = aw_kid a" using act by (auto simp: aws_provider_def aws_active_def split: if_splits)
  have "jl_decode jl tok = Inr (''RS256'', aw_kid a, cl, body, sig)"
    using assms(1,5) plain sk kid by (simp add: jwt_contract_def)
  then show ?thesis using assms(6,8) by (auto simp: Parse_def key_for_def aws_verifying_def split: option.splits)
qed

section \<open>A small Vault\<close>

text \<open>Version \<open>i\<close> has the modulus \<open>35 + i\<close>; an answer is a key list of as many versions as it has dots, or a signature.\<close>

definition demo_bytes :: "byte list \<Rightarrow> string" where
  "demo_bytes bs = map (\<lambda>b. char_of (unat b)) bs"

definition demo_meta :: "nat \<Rightarrow> (string \<times> json) list" where
  "demo_meta i = [(''public_key'', JStr (dec_nat (35 + i)))]"

definition demo_vault_lib :: "unit vault_lib" where
  "demo_vault_lib = \<lparr>vl_parse = (\<lambda>raw. if take 1 raw = ''K''
        then Inr (JObj [(''data'', JObj [(''latest_version'', JInt (int (length raw - 1))),
               (''keys'', JObj (map (\<lambda>i. (dec_nat i, JObj (demo_meta i))) [1..<length raw]))])])
        else Inr (JObj [(''data'', JObj [(''signature'', JStr (drop 1 raw))])])),
     vl_encode = demo_bytes, vl_decode = (\<lambda>s. Inr (map (\<lambda>c. word_of_nat (of_char c)) s)),
     vl_codec = demo_codec\<lparr>kc_decode := (\<lambda>b. Some ([], b)), kc_pkix := (\<lambda>b. Inr (Some \<lparr>rp_n = the (undigits 0 b), rp_e = 65537\<rparr>))\<rparr>,
     vl_redact = id\<rparr>"

definition demo_signs :: "unit rsa_private \<Rightarrow> byte list \<Rightarrow> byte list" where
  "demo_signs sk d = be_bytes (rp_n (sk_pub sk))"

definition demo_vault :: "nat \<Rightarrow> vault_http" where
  "demo_vault n q = Inr (200, if vq_method q = ''GET'' then ''K'' @ replicate n CHR ''.''
     else ''S'' @ ''vault:v'' @ dec_nat n @ '':'' @ demo_bytes (demo_signs (demo_key (35 + n)) []))"

definition demo_unloaded :: vault_transit where
  "demo_unloaded = \<lparr>vt_cfg = \<lparr>vc_addr = ''http://vault'', vc_token = ''s.1'', vc_role = [], vc_secret = [], vc_mount = ''transit'',
     vc_key = ''user'', vc_refresh = 0\<rparr>, vt_token = ''s.1'', vt_pubs = Map.empty, vt_active = []\<rparr>"

abbreviation demo_versions :: "nat \<Rightarrow> unit rsa_private" where
  "demo_versions i \<equiv> demo_key (35 + i)"

lemma demo_bytes_back: "vl_decode demo_vault_lib (vl_encode demo_vault_lib x) = Inr x"
proof -
  have "map ((\<lambda>c. word_of_nat (of_char c)) \<circ> (\<lambda>b. char_of (unat b))) x = x"
    by (rule map_idI) (simp add: of_char_of unat_byte [THEN mod_less])
  then show ?thesis by (simp add: demo_vault_lib_def demo_bytes_def)
qed

lemma demo_lists: "lists_versions demo_vault_lib (demo_vault n) v demo_versions n"
proof -
  have "version_key demo_vault_lib (demo_meta i) = Some (sk_pub (demo_versions i))" for i
    by (simp add: version_key_def map_get_def demo_meta_def parsePublicPEM_def demo_vault_lib_def demo_key_def)
  then show ?thesis
    by (auto simp: lists_versions_def demo_vault_def key_request_def demo_vault_lib_def same_key_def simp del: upt_Suc)
qed

lemma demo_latest: "signs_latest demo_vault_lib (demo_vault n) v demo_signs demo_versions n"
  by (simp add: signs_latest_def demo_vault_def sign_request_def demo_vault_lib_def demo_signs_def same_key_def)

lemma demo_rsa: "rsa_contract demo_lib demo_signs"
proof -
  have "be_bytes a = be_bytes b \<longleftrightarrow> a = b" for a b by (metis set_bytes_be_bytes)
  then show ?thesis by (auto simp: rsa_contract_def demo_lib_def demo_signs_def)
qed


end
