(* ===== verification/KafkaBus.thy ===== *)
theory KafkaBus
  imports Events "HOL-Library.AList"
begin

text \<open>
  \<^verbatim>\<open>go/pkg/yunmao/eventbus/kafka.go\<close>: what is written to Kafka, and the loop that takes messages from it, tries a
  handler three times, writes the failures to the dead letters and commits.  The Kafka client is a parameter: a writer,
  and the messages a reader fetches.
\<close>

section \<open>Messages\<close>

record kafka_message =
  km_topic :: string
  km_key :: string
  km_headers :: "(string \<times> string) list"
  km_value :: string

definition to_message :: "envelope \<Rightarrow> kafka_message" where
  "to_message env = \<lparr>km_topic = topic_string (env_topic env), km_key = env_key env, km_headers = env_headers env, km_value = env_payload env\<rparr>"

text \<open>The headers become a map: of a key that occurs twice the last value counts.\<close>

definition messageToEnvelope :: "kafka_message \<Rightarrow> envelope" where
  "messageToEnvelope m =
     \<lparr>env_topic = topic_of (km_topic m), env_key = km_key m, env_headers = fold (\<lambda>(k, v). AList.update k v) (km_headers m) [],
      env_payload = km_value m\<rparr>"

definition kafka_publish :: "(kafka_message \<Rightarrow> 'w \<Rightarrow> (go_error, unit, 'w) outcome) \<Rightarrow> bool \<Rightarrow> envelope \<Rightarrow> 'w \<Rightarrow> (go_error, unit, 'w) outcome" where
  "kafka_publish write closed env w = (if closed then (Inl (Plain ''eventbus(kafka): closed''), w) else write (to_message env) w)"

definition kafka_subscribe_error :: "string \<Rightarrow> topic list \<Rightarrow> go_error option" where
  "kafka_subscribe_error gid ts =
     (if gid = [] then Some (Plain ''eventbus(kafka): subscribe requires group id'')
      else if ts = [] then Some (Plain ''eventbus(kafka): subscribe requires at least one topic'') else None)"

section \<open>One message\<close>

record retry_policy =
  rp_max :: nat
  rp_backoff :: duration

definition default_retry :: retry_policy where
  "default_retry = \<lparr>rp_max = 3, rp_backoff = 250 * 1000000\<rparr>"

text \<open>\<open>ended\<close> tells after which failed attempts the context is found ended.\<close>

fun dispatch_from ::
  "(envelope \<Rightarrow> 's \<Rightarrow> (go_error, unit, 's) outcome) \<Rightarrow> (nat \<Rightarrow> go_error option) \<Rightarrow> envelope \<Rightarrow> nat \<Rightarrow> nat \<Rightarrow> go_error option \<Rightarrow> 's \<Rightarrow> go_error option \<times> 's" where
  "dispatch_from h ended env 0 attempt last_err s = (last_err, s)"
| "dispatch_from h ended env (Suc n) attempt last_err s =
     (case h env s of
        (Inr _, s') \<Rightarrow> (None, s')
      | (Inl e, s') \<Rightarrow> (case ended attempt of
            Some ce \<Rightarrow> (Some ce, s')
          | None \<Rightarrow> dispatch_from h ended env n (Suc attempt) (Some e) s'))"

definition dispatch ::
  "(envelope \<Rightarrow> 's \<Rightarrow> (go_error, unit, 's) outcome) \<Rightarrow> (nat \<Rightarrow> go_error option) \<Rightarrow> envelope \<Rightarrow> retry_policy \<Rightarrow> 's \<Rightarrow> go_error option \<times> 's" where
  "dispatch h ended env rp s = dispatch_from h ended env (rp_max rp) 1 None s"

definition dead_letter :: "envelope \<Rightarrow> go_error \<Rightarrow> kafka_message" where
  "dead_letter env cause = \<lparr>km_topic = topic_string (topic_dlq (env_topic env)), km_key = env_key env,
     km_headers = (''ce-dlq-reason'', err_text cause) # env_headers env, km_value = env_payload env\<rparr>"

definition sendDLQ :: "(kafka_message \<Rightarrow> 'w \<Rightarrow> (go_error, unit, 'w) outcome) \<Rightarrow> envelope \<Rightarrow> go_error \<Rightarrow> 'w \<Rightarrow> (go_error, unit, 'w) outcome" where
  "sendDLQ write env cause w = write (dead_letter env cause) w"

text \<open>What became of a message when it is committed; the error of the dead letters is dropped.\<close>

datatype fate = Handled | DeadLettered go_error | Lost go_error go_error

definition consume_one ::
  "(envelope \<Rightarrow> 's \<Rightarrow> (go_error, unit, 's) outcome) \<Rightarrow> (kafka_message \<Rightarrow> 'w \<Rightarrow> (go_error, unit, 'w) outcome) \<Rightarrow>
   (nat \<Rightarrow> go_error option) \<Rightarrow> kafka_message \<Rightarrow> 's \<times> 'w \<Rightarrow> fate \<times> 's \<times> 'w" where
  "consume_one h write ended m = (\<lambda>(s, w).
     (let env = messageToEnvelope m
      in (case dispatch h ended env default_retry s of
            (None, s') \<Rightarrow> (Handled, s', w)
          | (Some e, s') \<Rightarrow> (case sendDLQ write env e w of
                (Inr _, w') \<Rightarrow> (DeadLettered e, s', w')
              | (Inl we, w') \<Rightarrow> (Lost e we, s', w')))))"

text \<open>The loop over fetched messages, each with its ends of the context.\<close>

fun consume ::
  "(envelope \<Rightarrow> 's \<Rightarrow> (go_error, unit, 's) outcome) \<Rightarrow> (kafka_message \<Rightarrow> 'w \<Rightarrow> (go_error, unit, 'w) outcome) \<Rightarrow>
   ((nat \<Rightarrow> go_error option) \<times> kafka_message) list \<Rightarrow> 's \<times> 'w \<Rightarrow> fate list \<times> 's \<times> 'w" where
  "consume h write [] sw = ([], sw)"
| "consume h write ((ended, m) # ms) sw =
     (case consume_one h write ended m sw of (f, sw') \<Rightarrow> (case consume h write ms sw' of (fs, sw'') \<Rightarrow> (f # fs, sw'')))"

section \<open>What arrives\<close>

lemma fold_update_distinct:
  "distinct (map fst (acc @ hs)) \<Longrightarrow> fold (\<lambda>(k, v). AList.update k v) hs acc = acc @ hs"
proof (induction hs arbitrary: acc)
  case (Cons p hs)
  have "AList.update k v acc = acc @ [(k, v)]" if "k \<notin> set (map fst acc)" for k v
    using that by (induction acc) auto
  then show ?case using Cons by (cases p) auto
qed simp

text \<open>An envelope that was published is the one the handlers of its topic get.\<close>

theorem kafka_roundtrip:
  assumes "distinct (map fst (env_headers env))" and "topic_of (topic_string (env_topic env)) = env_topic env"
  shows "messageToEnvelope (to_message env) = env"
  using assms fold_update_distinct [of "[]" "env_headers env"] by (simp add: messageToEnvelope_def to_message_def)

text \<open>A handler that succeeds at one of its attempts is not called again; a failing one is called \<open>n\<close> times.\<close>

lemma dispatch_succeeds: "h env s = (Inr u, s') \<Longrightarrow> dispatch h ended env default_retry s = (None, s')"
  by (simp add: dispatch_def default_retry_def eval_nat_numeral)

lemma dispatch_fails:
  assumes "\<And>s. \<exists>e. h env s = (Inl e, f s)" and "\<And>n. ended n = None"
  shows "snd (dispatch h ended env default_retry s) = f (f (f s))"
proof -
  obtain e where e: "\<And>s. h env s = (Inl (e s), f s)" using assms(1) by metis
  show ?thesis by (simp add: dispatch_def default_retry_def eval_nat_numeral e assms(2))
qed

text \<open>The dead letters keep key and payload, and say where the message comes from.\<close>

lemma dead_letter_simps [simp]:
  "km_key (dead_letter env e) = env_key env" "km_value (dead_letter env e) = env_payload env"
  "km_topic (dead_letter env e) = topic_string (env_topic env) @ ''.dlq''"
  by (simp_all add: dead_letter_def topic_dlq_def)

text \<open>Every committed message was handled, or stands among the dead letters, in the order of arrival, unless the writer
  refused it; then it is gone.\<close>

definition record_letter :: "(kafka_message \<Rightarrow> bool) \<Rightarrow> kafka_message \<Rightarrow> kafka_message list \<Rightarrow> (go_error, unit, kafka_message list) outcome" where
  "record_letter refused m w = (if refused m then (Inl (Plain ''kafka write''), w) else (Inr (), w @ [m]))"

definition letters :: "(fate \<times> kafka_message) list \<Rightarrow> kafka_message list" where
  "letters fms = List.map_filter (\<lambda>(f, m). case f of DeadLettered e \<Rightarrow> Some (dead_letter (messageToEnvelope m) e) | _ \<Rightarrow> None) fms"

lemma consume_one_record:
  "consume_one h (record_letter refused) ended m (s, w) = (f, s', w') \<Longrightarrow>
   w' = w @ letters [(f, m)] \<and> (\<forall>e we. f = Lost e we \<longrightarrow> refused (dead_letter (messageToEnvelope m) e))"
  by (auto simp: consume_one_def sendDLQ_def record_letter_def letters_def map_filter_simps Let_def split: prod.splits option.splits sum.splits if_splits)

theorem committed_settled:
  assumes "consume h (record_letter refused) ms (s, w) = (fs, s', w')"
  shows "w' = w @ letters (zip fs (map snd ms)) \<and>
    (\<forall>i < length ms. \<forall>e we. fs ! i = Lost e we \<longrightarrow> refused (dead_letter (messageToEnvelope (snd (ms ! i))) e))"
  using assms
proof (induction ms arbitrary: s w fs)
  case Nil
  then show ?case by (simp add: letters_def map_filter_simps)
next
  case (Cons em ms)
  obtain ended m f s1 w1 where one: "em = (ended, m)" "consume_one h (record_letter refused) ended m (s, w) = (f, s1, w1)"
    by (metis prod.exhaust)
  obtain fs1 s2 w2 where rest: "consume h (record_letter refused) ms (s1, w1) = (fs1, s2, w2)" by (metis prod.exhaust)
  then have fs: "fs = f # fs1" "s2 = s'" "w2 = w'" using Cons.prems one by simp_all
  note IH = Cons.IH [OF rest [unfolded fs(2,3)]]
  have all: "letters ((f, m) # zip fs1 (map snd ms)) = letters [(f, m)] @ letters (zip fs1 (map snd ms))"
    by (simp add: letters_def map_filter_def)
  show ?case using consume_one_record [OF one(2)] IH
    by (auto simp: all one(1) fs(1) nth_Cons split: nat.splits)
qed

end
