(* ===== verification/Migrations.thy ===== *)
theory Migrations
  imports Sql GoText
begin

text \<open>
  \<^verbatim>\<open>go/pkg/yunmao/db/pg.go\<close> and \<^verbatim>\<open>embedded.go\<close>: the migrations every service applies when it starts, on the database
  they share.  What a script does to the data is the parameter \<open>exec\<close>; a directory is its entries with what
  reading each gives.
\<close>

section \<open>The files\<close>

text \<open>\<open>Migration\<close>: name and script.\<close>

type_synonym migration = "string \<times> string"

fun after_tag :: "string \<Rightarrow> string \<Rightarrow> string option" where
  "after_tag w [] = (if w = [] then Some [] else None)"
| "after_tag w (c # cs) = (if has_prefix (c # cs) w then Some (drop (length w) (c # cs)) else after_tag w cs)"

fun before_tag :: "string \<Rightarrow> string \<Rightarrow> string" where
  "before_tag w [] = []"
| "before_tag w (c # cs) = (if has_prefix (c # cs) w then [] else c # before_tag w cs)"

definition extractUp :: "string \<Rightarrow> string" where
  "extractUp s = (case after_tag ''-- +goose Up'' s of None \<Rightarrow> s | Some rest \<Rightarrow> before_tag ''-- +goose Down'' rest)"

definition has_suffix :: "string \<Rightarrow> string \<Rightarrow> bool" where
  "has_suffix s w \<longleftrightarrow> has_prefix (rev s) (rev w)"

fun read_entries :: "(string \<times> bool \<times> (go_error + string)) list \<Rightarrow> go_error + migration list" where
  "read_entries [] = Inr []"
| "read_entries ((name, dir, content) # es) =
     (if dir \<or> \<not> has_suffix name ''.sql'' then read_entries es
      else (case content of
          Inl e \<Rightarrow> Inl (Wrap (''db: read '' @ name) e)
        | Inr raw \<Rightarrow> (case read_entries es of Inl e \<Rightarrow> Inl e | Inr ms \<Rightarrow> Inr ((name, extractUp raw) # ms))))"

definition LoadMigrationsFS :: "go_error + (string \<times> bool \<times> (go_error + string)) list \<Rightarrow> go_error + migration list" where
  "LoadMigrationsFS dir =
     (case dir of
        Inl e \<Rightarrow> Inl (Wrap ''db: read migrations dir'' e)
      | Inr es \<Rightarrow> (case read_entries es of Inl e \<Rightarrow> Inl e | Inr ms \<Rightarrow> Inr (sort_keys ms)))"

section \<open>Applying them\<close>

record 'd mig_db =
  md_names :: "string list"
  md_data :: 'd

text \<open>One migration in its transaction: the script, then the name, which is the primary key.\<close>

definition migrate_one ::
  "faults \<Rightarrow> (string \<Rightarrow> 'd \<Rightarrow> go_error + 'd) \<Rightarrow> string list \<Rightarrow> migration \<Rightarrow> 'd mig_db \<Rightarrow> (go_error, unit, 'd mig_db) outcome" where
  "migrate_one flt exec applied m db =
     (if fst m \<in> set applied then (Inr (), db)
      else (case flt ''begin'' of
          Some e \<Rightarrow> (Inl (Wrap (''db: begin '' @ fst m) e), db)
        | None \<Rightarrow> (case exec (snd m) (md_data db) of
            Inl e \<Rightarrow> (Inl (Wrap (''db: exec '' @ fst m) e), db)
          | Inr d \<Rightarrow>
              if fst m \<in> set (md_names db) then (Inl (Wrap (''db: track '' @ fst m) (Plain ''duplicate key value violates unique constraint'')), db)
              else (case flt ''track'' of
                  Some e \<Rightarrow> (Inl (Wrap (''db: track '' @ fst m) e), db)
                | None \<Rightarrow> (case flt ''commit'' of
                    Some e \<Rightarrow> (Inl (Wrap (''db: commit '' @ fst m) e), db)
                  | None \<Rightarrow> (Inr (), \<lparr>md_names = md_names db @ [fst m], md_data = d\<rparr>))))))"

fun migrate_loop ::
  "faults \<Rightarrow> (string \<Rightarrow> 'd \<Rightarrow> go_error + 'd) \<Rightarrow> string list \<Rightarrow> migration list \<Rightarrow> 'd mig_db \<Rightarrow> (go_error, unit, 'd mig_db) outcome" where
  "migrate_loop flt exec applied [] db = (Inr (), db)"
| "migrate_loop flt exec applied (m # ms) db =
     (case migrate_one flt exec applied m db of (Inl e, db') \<Rightarrow> (Inl e, db') | (Inr _, db') \<Rightarrow> migrate_loop flt exec applied ms db')"

definition Migrate ::
  "faults \<Rightarrow> (string \<Rightarrow> 'd \<Rightarrow> go_error + 'd) \<Rightarrow> migration list \<Rightarrow> 'd mig_db \<Rightarrow> (go_error, unit, 'd mig_db) outcome" where
  "Migrate flt exec migs db =
     (case flt ''create'' of
        Some e \<Rightarrow> (Inl (Wrap ''db: create schema_migrations'' e), db)
      | None \<Rightarrow> (case flt ''load'' of
          Some e \<Rightarrow> (Inl (Wrap ''db: load applied'' e), db)
        | None \<Rightarrow> migrate_loop flt exec (md_names db) migs db))"

definition Apply ::
  "faults \<Rightarrow> (string \<Rightarrow> 'd \<Rightarrow> go_error + 'd) \<Rightarrow> string \<Rightarrow> (string \<Rightarrow> go_error + (string \<times> bool \<times> (go_error + string)) list) \<Rightarrow>
   'd mig_db \<Rightarrow> (go_error, unit, 'd mig_db) outcome" where
  "Apply flt exec dir fs db =
     (if dir = [] then (Inr (), db)
      else (case LoadMigrationsFS (fs dir) of
          Inl e \<Rightarrow> (Inl (Wrap (''db.Apply: load from '' @ dir) e), db)
        | Inr migs \<Rightarrow> Migrate flt exec migs db))"

section \<open>Services that start at the same time\<close>

text \<open>A service between two transactions: the names it read when it started, and what it has still to do.\<close>

record runner =
  rn_applied :: "string list"
  rn_left :: "migration list"

inductive mig_step ::
  "(string \<Rightarrow> 'd \<Rightarrow> go_error + 'd) \<Rightarrow> migration list \<Rightarrow> (nat \<rightharpoonup> runner) \<times> 'd mig_db \<Rightarrow> (nat \<rightharpoonup> runner) \<times> 'd mig_db \<Rightarrow> bool"
  for exec migs where
  starts: "rs i = None \<Longrightarrow> mig_step exec migs (rs, db) (rs(i \<mapsto> \<lparr>rn_applied = md_names db, rn_left = migs\<rparr>), db)"
| proceeds: "\<lbrakk>rs i = Some r; rn_left r = m # ms; migrate_one flt exec (rn_applied r) m db = (Inr (), db')\<rbrakk>
    \<Longrightarrow> mig_step exec migs (rs, db) (rs(i \<mapsto> r\<lparr>rn_left := ms\<rparr>), db')"
| fails: "\<lbrakk>rs i = Some r; rn_left r = m # ms; migrate_one flt exec (rn_applied r) m db = (Inl e, db')\<rbrakk>
    \<Longrightarrow> mig_step exec migs (rs, db) (rs(i := None), db')"
| ends: "\<lbrakk>rs i = Some r; rn_left r = []\<rbrakk> \<Longrightarrow> mig_step exec migs (rs, db) (rs(i := None), db)"

text \<open>What the migrations mean: the scripts one after the other.\<close>

fun apply_all :: "(string \<Rightarrow> 'd \<Rightarrow> go_error + 'd) \<Rightarrow> migration list \<Rightarrow> 'd \<Rightarrow> go_error + 'd" where
  "apply_all exec [] d = Inr d"
| "apply_all exec (m # ms) d = (case exec (snd m) d of Inl e \<Rightarrow> Inl e | Inr d' \<Rightarrow> apply_all exec ms d')"

lemma apply_all_snoc:
  "apply_all exec ms d = Inr d' \<Longrightarrow> exec (snd m) d' = Inr d'' \<Longrightarrow> apply_all exec (ms @ [m]) d = Inr d''"
  by (induction ms arbitrary: d) (auto split: sum.splits)

text \<open>The database holds a first part of the migrations, and no service is ahead of it.\<close>

definition prefix_db :: "(string \<Rightarrow> 'd \<Rightarrow> go_error + 'd) \<Rightarrow> migration list \<Rightarrow> 'd \<Rightarrow> nat \<Rightarrow> 'd mig_db \<Rightarrow> bool" where
  "prefix_db exec migs d0 k db \<longleftrightarrow> k \<le> length migs \<and> md_names db = map fst (take k migs) \<and> apply_all exec (take k migs) d0 = Inr (md_data db)"

definition behind :: "migration list \<Rightarrow> nat \<Rightarrow> runner \<Rightarrow> bool" where
  "behind migs k r \<longleftrightarrow> (\<exists>j l. j \<le> k \<and> l \<le> k \<and> rn_applied r = map fst (take j migs) \<and> rn_left r = drop l migs)"

definition mig_inv :: "(string \<Rightarrow> 'd \<Rightarrow> go_error + 'd) \<Rightarrow> migration list \<Rightarrow> 'd \<Rightarrow> (nat \<rightharpoonup> runner) \<times> 'd mig_db \<Rightarrow> bool" where
  "mig_inv exec migs d0 = (\<lambda>(rs, db). \<exists>k. prefix_db exec migs d0 k db \<and> (\<forall>i r. rs i = Some r \<longrightarrow> behind migs k r))"

lemma name_in_prefix:
  assumes "distinct (map fst migs)" and "l < length migs"
  shows "fst (migs ! l) \<in> set (map fst (take k migs)) \<longleftrightarrow> l < k"
proof -
  have "fst (migs ! l) = fst (migs ! n) \<longleftrightarrow> l = n" if "n < length migs" for n
    using nth_eq_iff_index_eq [OF assms(1), of l n] assms(2) that by simp
  then show ?thesis using assms(2) by (fastforce simp: in_set_conv_nth)
qed

lemma migrate_one_error: "migrate_one flt exec applied m db = (Inl e, db') \<Longrightarrow> db' = db"
  by (auto simp: migrate_one_def split: if_splits option.splits sum.splits)

lemma migrate_one_prefix:
  assumes "distinct (map fst migs)" and "prefix_db exec migs d0 k db" and "j \<le> k" and "l \<le> k" and "drop l migs = m # ms"
    and "migrate_one flt exec (map fst (take j migs)) m db = (Inr (), db')"
  shows "(db' = db \<and> Suc l \<le> k) \<or> (prefix_db exec migs d0 (Suc k) db' \<and> l = k)"
proof -
  have l: "l < length migs" and m: "m = migs ! l"
    using assms(5) by (metis drop_all linorder_not_less list.distinct(1), metis drop_eq_Nil hd_drop_conv_nth leI list.discI list.sel(1))
  note names = name_in_prefix [OF assms(1) l]
  show ?thesis
  proof (cases "l < j")
    case True
    then have "db' = db" using assms(6) names [of j] by (simp add: migrate_one_def m)
    then show ?thesis using True assms(3) by simp
  next
    case False
    then obtain d where d: "exec (snd m) (md_data db) = Inr d" "fst m \<notin> set (md_names db)" "db' = \<lparr>md_names = md_names db @ [fst m], md_data = d\<rparr>"
      using assms(6) names [of j] m by (auto simp: migrate_one_def split: if_splits option.splits sum.splits)
    then have "l = k" using names [of k] assms(2,4) m by (simp add: prefix_db_def)
    moreover have "take (Suc k) migs = take k migs @ [m]" using l m \<open>l = k\<close> by (simp add: take_Suc_conv_app_nth)
    moreover have "apply_all exec (take k migs @ [m]) d0 = Inr d"
      by (rule apply_all_snoc [where d' = "md_data db"]) (use d(1) assms(2) in \<open>simp_all add: prefix_db_def\<close>)
    ultimately show ?thesis using d assms(2) l by (simp add: prefix_db_def)
  qed
qed

lemma behind_mono: "behind migs k r \<Longrightarrow> k \<le> k' \<Longrightarrow> behind migs k' r"
  unfolding behind_def by (meson order_trans)

lemma mig_inv_step:
  assumes "distinct (map fst migs)" and "mig_step exec migs s s'" and "mig_inv exec migs d0 s"
  shows "mig_inv exec migs d0 s'"
  using assms(2)
proof cases
  case (starts rs i db)
  then obtain k where k: "prefix_db exec migs d0 k db" "\<And>i r. rs i = Some r \<Longrightarrow> behind migs k r" using assms(3) by (auto simp: mig_inv_def)
  then have "behind migs k \<lparr>rn_applied = md_names db, rn_left = migs\<rparr>"
    unfolding behind_def by (intro exI [of _ k] exI [of _ 0]) (simp add: prefix_db_def)
  then show ?thesis using k starts by (auto simp: mig_inv_def)
next
  case (proceeds rs i r m ms flt db db')
  then obtain k where k: "prefix_db exec migs d0 k db" "\<And>i r. rs i = Some r \<Longrightarrow> behind migs k r" using assms(3) by (auto simp: mig_inv_def)
  obtain j l where r: "j \<le> k" "l \<le> k" "rn_applied r = map fst (take j migs)" "rn_left r = drop l migs"
    using k(2) [OF proceeds(3)] by (auto simp: behind_def)
  have left: "drop (Suc l) migs = ms" using proceeds(4) r(4) by (metis drop_Suc list.sel(3) tl_drop)
  have "(db' = db \<and> Suc l \<le> k) \<or> (prefix_db exec migs d0 (Suc k) db' \<and> l = k)"
    by (rule migrate_one_prefix [OF assms(1) k(1) r(1,2)]) (use proceeds(4,5) r(3,4) in auto)
  then show ?thesis
  proof
    assume "db' = db \<and> Suc l \<le> k"
    moreover then have "behind migs k (r\<lparr>rn_left := ms\<rparr>)" using r left by (auto simp: behind_def)
    ultimately show ?thesis using k proceeds(2) by (auto simp: mig_inv_def intro!: exI [of _ k])
  next
    assume grown: "prefix_db exec migs d0 (Suc k) db' \<and> l = k"
    then have "behind migs (Suc k) (r\<lparr>rn_left := ms\<rparr>)" using r left
      unfolding behind_def by (intro exI [of _ j] exI [of _ "Suc l"]) simp
    then show ?thesis using grown k(2) behind_mono proceeds(2) by (fastforce simp: mig_inv_def intro!: exI [of _ "Suc k"])
  qed
next
  case (fails rs i r m ms flt db e db')
  then show ?thesis using assms(3) migrate_one_error [OF fails(5)] by (auto simp: mig_inv_def)
next
  case (ends rs i r db)
  then show ?thesis using assms(3) by (auto simp: mig_inv_def)
qed


text \<open>A service that read the applied migrations before another applied the next one does not start.\<close>

lemma race_fails:
  "fst m \<notin> set applied \<Longrightarrow> fst m \<in> set (md_names db) \<Longrightarrow> \<not> is_ok (fst (migrate_loop flt exec applied (m # ms) db))"
  by (auto simp: migrate_one_def split: option.split sum.split)

text \<open>Two services, two migrations that append their script.\<close>

definition demo_migs :: "migration list" where
  "demo_migs = [(''0001.sql'', ''a''), (''0002.sql'', ''b'')]"

definition demo_exec :: "string \<Rightarrow> string \<Rightarrow> go_error + string" where
  "demo_exec s d = Inr (d @ s)"


end
