(* ===== verification/Servers.thy ===== *)
theory Servers
  imports FeedingHttpBilling RoomService UserService DeviceService AdminService
begin

text \<open>
  How the services are put together: \<^verbatim>\<open>server/server.go\<close> of the user, room, device, feeding and admin services, and the
  readiness probes they mount (\<^verbatim>\<open>pkg/yunmao/observability\<close>).  A store is an argument: which one is taken, in memory or
  PostgreSQL, decides the type of the state.  Migrations are applied before, by \<^verbatim>\<open>Migrations\<close>.
\<close>

section \<open>Services that sign\<close>

definition user_server ::
  "('d, 'k) key_provider option \<Rightarrow> 's user_ops \<Rightarrow> ('d, 't, 'w) jwt_lib \<Rightarrow> (string \<Rightarrow> string) \<Rightarrow> duration \<Rightarrow> string \<Rightarrow>
   go_error + ('d, 's, 'k, 't, 'w) user_env" where
  "user_server kp ops lib hash ttl aud =
     (case kp of
        None \<Rightarrow> Inl (Plain ''user-svc: KeyProvider required'')
      | Some p \<Rightarrow> (case NewSignerFromProvider (Some p) ''yunmao.user-svc'' of
            Inl e \<Rightarrow> Inl e
          | Inr sg \<Rightarrow> Inr (user_defaults
              \<lparr>ue_store = ops, ue_signer = sg, ue_lib = lib, ue_ttl = (if ttl = 0 then 24 * hour else ttl),
               ue_audience = orElse aud ''yunmao.gateway'', ue_hash = hash\<rparr>)))"

record ('d, 'k) room_deps =
  rd_provider :: "('d, 'k) key_provider option"
  rd_verifier :: "('d, 'k) key_provider option"
  rd_ttl :: duration
  rd_audience :: string
  rd_region :: string
  rd_turn_primary :: string
  rd_turn_legacy :: string
  rd_turn_hosts :: "string list"
  rd_turn_ports :: "int list"
  rd_stun :: "string list"
  rd_turn_ttl :: duration
  rd_flags :: "flag_cache option"

definition off_flag :: "string \<Rightarrow> bool \<Rightarrow> (string \<rightharpoonup> flag_value) \<Rightarrow> flag" where
  "off_flag name enabled v =
     \<lparr>fl_name = name, fl_enabled = enabled, fl_scope = ''global'', fl_value = v, fl_updated = zero_time, fl_by = []\<rparr>"

definition room_turn :: "('d, 'k) room_deps \<Rightarrow> go_error + turn_signer option" where
  "room_turn d =
     (if rd_turn_primary d \<noteq> [] \<and> rd_turn_hosts d \<noteq> []
      then map_sum id Some (turn_new (rd_turn_primary d) (rd_turn_legacy d)) else Inr None)"

text \<open>Without a manager the room service makes its own, on a store in memory, and does not start it.\<close>

definition room_default_flags :: "time \<Rightarrow> flag_cache" where
  "room_default_flags now = flags_new (flag_mem_ops (\<lambda>_. [''room.webrtc.enabled'']))
     (flag_mem_new now [off_flag ''room.webrtc.enabled'' False [''gray_percent'' \<mapsto> FFloat 0 0]])"

definition room_server ::
  "time \<Rightarrow> 's room_ops \<Rightarrow> ('d, 't, 'w) jwt_lib \<Rightarrow> (string \<Rightarrow> string) \<Rightarrow> (string \<Rightarrow> string \<Rightarrow> string) \<Rightarrow> ('d, 'k) room_deps \<Rightarrow>
   go_error + ('d, 's, 'k, 't, 'w) room_env" where
  "room_server now ops lib hmac turn_hmac d =
     (case rd_provider d of
        None \<Rightarrow> Inl (Plain ''room-svc: KeyProvider required'')
      | Some p \<Rightarrow>
          let ver = (case rd_verifier d of None \<Rightarrow> p | Some v \<Rightarrow> v)
          in (case NewSignerFromProvider (Some p) ''yunmao.room-svc'' of
                Inl e \<Rightarrow> Inl e
              | Inr sg \<Rightarrow> (case room_turn d of
                  Inl e \<Rightarrow> Inl e
                | Inr turn \<Rightarrow> Inr (room_defaults
                    \<lparr>re_store = ops, re_signer = sg, re_verifier = Some (kp_verifying ver), re_lib = lib,
                     re_ttl = (if rd_ttl d = 0 then 10 * minute else rd_ttl d), re_audience = orElse (rd_audience d) ''yunmao.gateway'',
                     re_region = orElse (rd_region d) ''global'', re_hmac = hmac, re_turn = turn, re_turn_hmac = turn_hmac,
                     re_turn_hosts = rd_turn_hosts d, re_turn_ports = rd_turn_ports d, re_stun = rd_stun d, re_turn_ttl = rd_turn_ttl d,
                     re_flags = Some (case rd_flags d of None \<Rightarrow> room_default_flags now | Some c \<Rightarrow> c), re_flag_name = []\<rparr>))))"

definition device_server ::
  "('d, 'k) key_provider option \<Rightarrow> 's device_ops \<Rightarrow> ('d, 't, 'w) jwt_lib \<Rightarrow> ('w \<Rightarrow> string) \<Rightarrow> duration \<Rightarrow> string \<Rightarrow>
   go_error + ('d, 's, 'k, 't, 'w) device_env" where
  "device_server kp ops lib token_text ttl region =
     (case kp of
        None \<Rightarrow> Inl (Plain ''device-svc: KeyProvider required'')
      | Some p \<Rightarrow> Inr (device_defaults
          \<lparr>de_store = ops, de_provider = Some p, de_lib = lib, de_token_text = token_text, de_ttl = (if ttl = 0 then 12 * hour else ttl),
           de_issuer = [], de_audience = [], de_region = orElse region ''global''\<rparr>))"

section \<open>The feeding service\<close>

text \<open>\<open>fd_billing\<close> is the address of the billing service, with the HTTP client and the decoder; \<open>fd_flags\<close> what the
  started manager has read.\<close>

record ('k, 's, 'b) feeding_deps =
  fd_cache :: "'k kv_ops option"
  fd_publisher :: "(published \<Rightarrow> go_error option) option"
  fd_safety :: "'s safety_ops"
  fd_environ :: "string \<Rightarrow> string"
  fd_flags :: flag_cache
  fd_pg :: bool
  fd_bus :: bool
  fd_billing :: string
  fd_exchange :: "string \<Rightarrow> (string \<times> json) list option \<Rightarrow> 'b \<Rightarrow> (go_error, nat \<times> string, 'b) outcome"
  fd_decode :: "string \<Rightarrow> go_error + http_hold"
  fd_required :: bool
  fd_noop :: "'b billing_hook"

definition feeding_billing :: "('k, 's, 'b) feeding_deps \<Rightarrow> 'b billing_hook" where
  "feeding_billing d =
     (if fd_billing d = [] then fd_noop d
      else HTTPBilling ((NewHTTPBilling (fd_exchange d) (fd_decode d) (fd_billing d))\<lparr>he_fallback := \<not> fd_required d\<rparr>))"

text \<open>Outbox mode needs both the database and the bus; the listener is there with the database alone, and then
  nothing takes its rows away.\<close>

definition outbox_mode :: "('k, 's, 'b) feeding_deps \<Rightarrow> bool" where
  "outbox_mode d \<longleftrightarrow> fd_pg d \<and> fd_bus d"

definition feeding_server :: "('k, 's, 'b) feeding_deps \<Rightarrow> go_error + ('k, 's, 'b) feeding_env" where
  "feeding_server d =
     (case fd_cache d of
        None \<Rightarrow> Inl (Plain ''feeding-svc: Cache required'')
      | Some cache \<Rightarrow> (case fd_publisher d of
            None \<Rightarrow> Inl (Plain ''feeding-svc: Publisher required'')
          | Some pub \<Rightarrow> Inr
              \<lparr>fe_kv = cache, fe_safety = Some (fd_safety d), fe_limits = ParseEnv (fd_environ d), fe_flags = Some (fd_flags d),
               fe_billing = feeding_billing d, fe_outbox = outbox_mode d, fe_publish = pub\<rparr>))"

definition seed_rooms :: "room list \<Rightarrow> ('k, 's, 'b) feeding \<Rightarrow> ('k, 's, 'b) feeding" where
  "seed_rooms rs st = st\<lparr>fs_rooms := fold (\<lambda>r m. m(rm_id r \<mapsto> r)) rs (fs_rooms st)\<rparr>"

definition feeding_default_flags :: "flag list" where
  "feeding_default_flags =
     (let f = (\<lambda>name on v. (off_flag name on v)\<lparr>fl_scope := []\<rparr>)
      in [f ''feeding.allow_new_rooms'' True Map.empty, f ''feeding.region_qps_limit'' True [''per_region'' \<mapsto> FFloat 200 0],
          f ''feeding.device_maintenance'' False [''device_ids'' \<mapsto> FArr []], f ''feeding.timeout_seconds'' True [''seconds'' \<mapsto> FFloat 30 0]])"

text \<open>How long a dispatched request may wait, and how often the worker looks.\<close>

definition timeout_after :: "flag_cache \<Rightarrow> duration" where
  "timeout_after c = flags_int c ''feeding.timeout_seconds'' ''seconds'' 30 * second"

definition timeout_interval :: "duration \<Rightarrow> duration" where
  "timeout_interval i = (if i = 0 then 5 * second else i)"

section \<open>The operators' flags\<close>

definition admin_default_flags :: "flag list" where
  "admin_default_flags =
     [off_flag ''feed.global_kill_switch'' False Map.empty, off_flag ''billing.required'' False Map.empty,
      off_flag ''room.webrtc.enabled'' False [''gray_percent'' \<mapsto> FFloat 5 0],
      off_flag ''billing.feed_price_table'' False
        [''unit'' \<mapsto> FStr ''fen_per_gram'', ''default'' \<mapsto> FInt 5, ''thresholds'' \<mapsto> FArr [], ''updated_reason'' \<mapsto> FStr ''default-placeholder''],
      off_flag ''chat.moderation_provider'' True [''provider'' \<mapsto> FStr ''local'']]"

section \<open>Probes\<close>

text \<open>A probe returns or panics.\<close>

datatype probe_result = Returned "go_error option" | Panicked string

definition safeProbe :: "probe_result \<Rightarrow> go_error option" where
  "safeProbe r = (case r of Returned e \<Rightarrow> e | Panicked p \<Rightarrow> Some (Plain (''probe panic: '' @ p)))"

definition PgProbe :: "(go_error + int) option \<Rightarrow> probe_result" where
  "PgProbe q = Returned
     (case q of None \<Rightarrow> Some (Plain ''pg pool nil'')
      | Some (Inl e) \<Rightarrow> Some (Wrap ''pg'' e)
      | Some (Inr v) \<Rightarrow> if v \<noteq> 1 then Some (Plain (''pg: unexpected value '' @ dec_int v)) else None)"

definition RedisProbe :: "go_error option option \<Rightarrow> probe_result" where
  "RedisProbe ping = Returned (case ping of None \<Rightarrow> Some (Plain ''redis client nil'') | Some r \<Rightarrow> r)"

text \<open>The brokers in turn; the first error is the one reported.\<close>

fun dial_all :: "(string \<Rightarrow> go_error option) \<Rightarrow> string list \<Rightarrow> go_error option \<Rightarrow> go_error option" where
  "dial_all dial [] first = Some (Plain (''kafka: dial all brokers failed: '' @ (case first of None \<Rightarrow> ''<nil>'' | Some e \<Rightarrow> err_text e)))"
| "dial_all dial (b # bs) first = (case dial b of None \<Rightarrow> None | Some e \<Rightarrow> dial_all dial bs (case first of None \<Rightarrow> Some e | Some f \<Rightarrow> Some f))"

definition KafkaProbe :: "(string \<Rightarrow> go_error option) \<Rightarrow> string list \<Rightarrow> probe_result" where
  "KafkaProbe dial bs = Returned (if bs = [] then Some (Plain ''kafka brokers empty'') else dial_all dial bs None)"

definition MqttProbe :: "bool option \<Rightarrow> probe_result" where
  "MqttProbe connected = Returned
     (case connected of None \<Rightarrow> Some (Plain ''mqtt client nil'') | Some c \<Rightarrow> if c then None else Some (Plain ''mqtt: not connected''))"

definition KeysProbe :: "(go_error + string) option \<Rightarrow> probe_result" where
  "KeysProbe active = Returned
     (case active of
        None \<Rightarrow> Some (Plain ''keys probe: nil getter'')
      | Some (Inl e) \<Rightarrow> Some (Wrap ''keys'' e)
      | Some (Inr alg) \<Rightarrow> if alg = ''HS256'' then Some (Plain ''keys: HS256 active (ADR-0019: removed)'') else None)"

definition server_keys_probe :: "('d, 'k) key_provider \<Rightarrow> 'k \<Rightarrow> probe_result" where
  "server_keys_probe p s = KeysProbe (Some (map_sum id (alg_text \<circ> sg_alg) (kp_active p s)))"

record readiness =
  rz_status :: nat
  rz_ready :: bool
  rz_deps :: "(string \<times> string) list"

text \<open>\<^verbatim>\<open>/internal/readyz\<close>: the probes of a map, in any order.\<close>

definition readyz :: "(string \<times> probe_result) list \<Rightarrow> readiness" where
  "readyz ps =
     (let rs = map (\<lambda>(n, r). (n, safeProbe r)) ps; ready = list_all (\<lambda>(n, e). e = None) rs
      in \<lparr>rz_status = (if ready then 200 else 503), rz_ready = ready,
          rz_deps = map (\<lambda>(n, e). (n, case e of None \<Rightarrow> ''ok'' | Some e \<Rightarrow> ''err: '' @ err_text e)) rs\<rparr>)"

definition legacy_readyz :: "go_error option option \<Rightarrow> nat \<times> string" where
  "legacy_readyz cb = (case cb of Some (Some e) \<Rightarrow> (503, err_text e) | _ \<Rightarrow> (200, ''ready''))"

section \<open>Properties\<close>

text \<open>A service is ready exactly when every probe came back without an error.\<close>

lemma ready_iff: "rz_status (readyz ps) = 200 \<longleftrightarrow> (\<forall>(n, r) \<in> set ps. r = Returned None)"
proof -
  have "safeProbe r = None \<longleftrightarrow> r = Returned None" for r by (cases r) (simp_all add: safeProbe_def)
  then show ?thesis by (simp add: readyz_def Let_def list_all_iff case_prod_unfold)
qed

text \<open>A provider whose active key no longer signs, such as the placeholders for Vault and AWS, keeps its service out.\<close>

lemma keys_not_ready: "kp_active p s = Inl e \<Longrightarrow> rz_status (readyz (ps @ [(''keys'', server_keys_probe p s)])) = 503"
  by (simp add: readyz_def Let_def server_keys_probe_def KeysProbe_def safeProbe_def)

lemma flag_elsewhere:
  assumes "name \<noteq> k"
  shows "flags_bool (c(name := f)) k d = flags_bool c k d" "flags_strings (c(name := f)) k key = flags_strings c k key"
    "flags_int (c(name := f)) k key n = flags_int c k key n"
  using assms by (simp_all add: flags_bool_def flags_strings_def flags_int_def)

lemma flag_unread:
  assumes "name \<notin> {''feeding.allow_new_rooms'', ''feeding.device_maintenance'', ''feeding.region_qps_limit''}"
  shows "create_flags (env\<lparr>fe_flags := Some (c(name := f))\<rparr>) now inp st = create_flags (env\<lparr>fe_flags := Some c\<rparr>) now inp st"
proof -
  have "name \<noteq> ''feeding.allow_new_rooms''" "name \<noteq> ''feeding.device_maintenance''" "name \<noteq> ''feeding.region_qps_limit''"
    using assms by auto
  note elsewhere = this [THEN flag_elsewhere(1)] this [THEN flag_elsewhere(2)] this [THEN flag_elsewhere(3)]
  show ?thesis by (simp add: create_flags_def elsewhere cong: if_cong option.case_cong)
qed

text \<open>Nothing else of a creation looks at the flags.\<close>

lemma flags_elsewhere:
  "create_cooldown (env\<lparr>fe_flags := c\<rparr>) = create_cooldown env" "create_commit (env\<lparr>fe_flags := c\<rparr>) = create_commit env"
  "create_first (env\<lparr>fe_flags := c\<rparr>) = create_first env"
proof -
  show cool: "create_cooldown (env\<lparr>fe_flags := c\<rparr>) = create_cooldown env" by (simp add: fun_eq_iff create_cooldown_def cong del: sum.case_cong_weak prod.case_cong_weak option.case_cong_weak cd_outcome.case_cong_weak)
  show commit: "create_commit (env\<lparr>fe_flags := c\<rparr>) = create_commit env" by (simp add: fun_eq_iff create_commit_def cong del: sum.case_cong_weak prod.case_cong_weak option.case_cong_weak cd_outcome.case_cong_weak)
  show "create_first (env\<lparr>fe_flags := c\<rparr>) = create_first env" by (simp add: fun_eq_iff create_first_def cool commit cong del: sum.case_cong_weak prod.case_cong_weak option.case_cong_weak cd_outcome.case_cong_weak)
qed

lemma creation_reads_flags:
  assumes "create_flags (env\<lparr>fe_flags := c\<rparr>) (ff_now fr) inp st = create_flags (env\<lparr>fe_flags := c'\<rparr>) (ff_now fr) inp st"
  shows "svc_feed_create (env\<lparr>fe_flags := c\<rparr>) ks fr inp st = svc_feed_create (env\<lparr>fe_flags := c'\<rparr>) ks fr inp st"
  by (auto simp: svc_feed_create_def assms flags_elsewhere split: prod.split option.split sum.split bool.split)

text \<open>The switch that stops all feeding, which the admin service offers, stops nothing: with it on, in the database every
  service reads, a request to feed is answered as before.  The same holds of every other flag but three.\<close>

theorem kill_switch_kills_nothing:
  assumes "named m" and "\<And>x. iterates (order x) x" and "fl_name f = ''feed.global_kill_switch''"
  shows "svc_feed_create (env\<lparr>fe_flags := Some (flags_new (flag_pg_ops no_faults order) (snd (flag_pg_set no_faults now f m)))\<rparr>) ks fr inp st =
    svc_feed_create (env\<lparr>fe_flags := Some (flags_new (flag_pg_ops no_faults order) m)\<rparr>) ks fr inp st"
proof -
  let ?m = "snd (flag_pg_set no_faults now f m)"
  have list: "flags_new (flag_pg_ops no_faults order) x = snd (flags_refresh (flag_mem_ops order) x Map.empty)" for x
    by (simp add: flags_new_def flags_refresh_def flag_pg_ops_def flag_mem_ops_def flag_pg_list_def flag_mem_list_def)
  have "named ?m" using assms(1) by (auto simp: named_def flag_pg_set_def)
  then have "flags_new (flag_pg_ops no_faults order) ?m = ?m" "flags_new (flag_pg_ops no_faults order) m = m"
    unfolding list using refresh_mem assms(1,2) by blast+
  moreover obtain g where "?m = m(''feed.global_kill_switch'' := g)" using assms(3) by (auto simp: flag_pg_set_def)
  ultimately show ?thesis
    using flag_unread [of "''feed.global_kill_switch''"] by (intro creation_reads_flags) simp
qed

end
